(* ===== verification/Prelude.thy ===== *)
theory Prelude
  imports Main "HOL-Library.Word"
begin

text \<open>
  Shared vocabulary of the development: fallible computations (Python exceptions are the left
  summand), transactional actions over a database state (an exception discards the state the
  action built, as a rolled back transaction does), table operations on lists of rows, and the
  generic lemmas the component theories use. Times are integers in microseconds, the resolution
  of \<open>datetime\<close> and of \<open>timestamptz\<close>. A UUID is the number its 128 bits spell; nothing
  depends on the width, and a supply of identifiers that never repeats exists.
\<close>

named_theorems action_simps \<open>equations that run an action on a state\<close>
named_theorems table_simps \<open>facts about select, update and delete on lists of rows\<close>

type_synonym bytes = "nat list"
type_synonym pystr = "nat list"
type_synonym time = int
type_synonym uuid = nat

section \<open>Fallible computations\<close>

fun and_then :: "'e + 'a \<Rightarrow> ('a \<Rightarrow> 'e + 'b) \<Rightarrow> 'e + 'b" where
  "and_then (Inl e) f = Inl e"
| "and_then (Inr x) f = f x"

definition ensure :: "bool \<Rightarrow> 'e \<Rightarrow> 'e + unit" where
  "ensure b e = (if b then Inr () else Inl e)"

definition is_ok :: "'e + 'a \<Rightarrow> bool" where
  "is_ok m = (case m of Inl _ \<Rightarrow> False | Inr _ \<Rightarrow> True)"

lemma and_then_eq_Inr: "and_then m f = Inr y \<longleftrightarrow> (\<exists>x. m = Inr x \<and> f x = Inr y)"
  by (cases m) auto

lemma and_then_eq_Inl: "and_then m f = Inl e \<longleftrightarrow> m = Inl e \<or> (\<exists>x. m = Inr x \<and> f x = Inl e)"
  by (cases m) auto

lemma ensure_eq_Inr [simp]: "ensure b e = Inr x \<longleftrightarrow> b"
  by (simp add: ensure_def)

lemma ensure_eq_Inl [simp]: "ensure b e = Inl e' \<longleftrightarrow> \<not> b \<and> e' = e"
  by (auto simp: ensure_def)

lemma ensure_True [simp]: "ensure True e = Inr ()"
  by (simp add: ensure_def)

lemma ensure_False [simp]: "ensure False e = Inl e"
  by (simp add: ensure_def)

lemma and_then_ensure: "and_then (ensure b e) f = (if b then f () else Inl e)"
  by (simp add: ensure_def)

lemma is_ok_Inl [simp]: "is_ok (Inl e) = False" and is_ok_Inr [simp]: "is_ok (Inr x) = True"
  by (simp_all add: is_ok_def)

lemma is_ok_iff: "is_ok m \<longleftrightarrow> (\<exists>x. m = Inr x)"
  by (cases m) auto

lemma is_ok_and_then: "is_ok (and_then m f) \<longleftrightarrow> (\<exists>x. m = Inr x \<and> is_ok (f x))"
  by (cases m) auto

section \<open>Actions on a state\<close>

text \<open>
  An action reads and writes a state and returns a value or raises. A raising action has no
  resulting state: the caller's transaction is rolled back. \<open>transact\<close> is the commit boundary
  (\<open>async with engine.begin()\<close>): it keeps the new state on success and the old one on an
  exception.
\<close>

type_synonym ('e, 's, 'a) action = "'s \<Rightarrow> 'e + ('a \<times> 's)"

definition ret :: "'a \<Rightarrow> ('e, 's, 'a) action" where
  "ret x s = Inr (x, s)"

definition raise :: "'e \<Rightarrow> ('e, 's, 'a) action" where
  "raise e s = Inl e"

definition seq :: "('e, 's, 'a) action \<Rightarrow> ('a \<Rightarrow> ('e, 's, 'b) action) \<Rightarrow> ('e, 's, 'b) action" where
  "seq m f s = (case m s of Inl e \<Rightarrow> Inl e | Inr (x, s') \<Rightarrow> f x s')"

definition lift_result :: "'e + 'a \<Rightarrow> ('e, 's, 'a) action" where
  "lift_result r s = (case r of Inl e \<Rightarrow> Inl e | Inr x \<Rightarrow> Inr (x, s))"

definition require :: "bool \<Rightarrow> 'e \<Rightarrow> ('e, 's, unit) action" where
  "require b e s = (if b then Inr ((), s) else Inl e)"

primrec for_each :: "('a \<Rightarrow> ('e, 's, unit) action) \<Rightarrow> 'a list \<Rightarrow> ('e, 's, unit) action" where
  "for_each f [] = ret ()"
| "for_each f (x # xs) = seq (f x) (\<lambda>_. for_each f xs)"

definition transact :: "('e, 's, 'a) action \<Rightarrow> 's \<Rightarrow> ('e + 'a) \<times> 's" where
  "transact m s = (case m s of Inl e \<Rightarrow> (Inl e, s) | Inr (x, s') \<Rightarrow> (Inr x, s'))"

lemma ret_apply [simp, action_simps]: "ret x s = Inr (x, s)"
  by (simp add: ret_def)

lemma raise_apply [simp, action_simps]: "raise e s = Inl e"
  by (simp add: raise_def)

lemma require_apply [action_simps]: "require b e s = (if b then Inr ((), s) else Inl e)"
  by (simp add: require_def)

lemma require_True [simp]: "require True e s = Inr ((), s)"
  by (simp add: require_def)

lemma require_False [simp]: "require False e s = Inl e"
  by (simp add: require_def)

lemma lift_result_Inl [simp, action_simps]: "lift_result (Inl e) s = Inl e"
  by (simp add: lift_result_def)

lemma lift_result_Inr [simp, action_simps]: "lift_result (Inr x) s = Inr (x, s)"
  by (simp add: lift_result_def)

lemma seq_Inl: "m s = Inl e \<Longrightarrow> seq m f s = Inl e"
  by (simp add: seq_def)

lemma seq_Inr: "m s = Inr (x, s') \<Longrightarrow> seq m f s = f x s'"
  by (simp add: seq_def)

lemma seq_eq_Inr:
  "seq m f s = Inr r \<longleftrightarrow> (\<exists>x s'. m s = Inr (x, s') \<and> f x s' = Inr r)"
  by (auto simp: seq_def split: sum.splits)

lemma seq_eq_Inl:
  "seq m f s = Inl e \<longleftrightarrow> m s = Inl e \<or> (\<exists>x s'. m s = Inr (x, s') \<and> f x s' = Inl e)"
  by (auto simp: seq_def split: sum.splits)

lemma seq_ret [simp]: "seq (ret x) f s = f x s"
  by (simp add: seq_def)

lemma seq_raise [simp]: "seq (raise e) f s = Inl e"
  by (simp add: seq_def)

lemma seq_require [action_simps]: "seq (require b e) f s = (if b then f () s else Inl e)"
  by (simp add: seq_def require_def)

lemma seq_lift [action_simps]:
  "seq (lift_result r) f s = (case r of Inl e \<Rightarrow> Inl e | Inr x \<Rightarrow> f x s)"
  by (simp add: seq_def lift_result_def split: sum.splits)

lemma lift_result_eq_Inr: "lift_result r s = Inr (x, s') \<longleftrightarrow> r = Inr x \<and> s' = s"
  by (cases r) auto

lemma for_each_Nil_apply [simp]: "for_each f [] s = Inr ((), s)"
  by simp

text \<open>An invariant every iteration keeps is kept by the whole loop, and the loop returns.\<close>

lemma for_each_inv:
  assumes "P s"
    and "\<And>x s. x \<in> set xs \<Longrightarrow> P s \<Longrightarrow> \<exists>s'. f x s = Inr ((), s') \<and> P s'"
  shows "\<exists>s'. for_each f xs s = Inr ((), s') \<and> P s'"
  using assms
proof (induction xs arbitrary: s)
  case Nil
  then show ?case by simp
next
  case (Cons x xs)
  then obtain s1 where "f x s = Inr ((), s1)" "P s1" by fastforce
  with Cons show ?case by (auto simp: seq_Inr)
qed

lemma transact_Inl: "m s = Inl e \<Longrightarrow> transact m s = (Inl e, s)"
  by (simp add: transact_def)

lemma transact_Inr: "m s = Inr (x, s') \<Longrightarrow> transact m s = (Inr x, s')"
  by (simp add: transact_def)

lemma transact_rollback: "fst (transact m s) = Inl e \<Longrightarrow> snd (transact m s) = s"
  by (auto simp: transact_def split: sum.splits)

section \<open>Sequences of effects\<close>

text \<open>
  A program whose effects stay when it raises: its result is a value or an exception together with the state it
  leaves. Requests commit several transactions this way, and the gates write files and start processes.
\<close>

type_synonym ('e, 's, 'a) steps = "'s \<Rightarrow> ('e + 'a) \<times> 's"

definition pret :: "'a \<Rightarrow> ('e, 's, 'a) steps" where
  "pret x s = (Inr x, s)"

definition pfail :: "'e \<Rightarrow> ('e, 's, 'a) steps" where
  "pfail e s = (Inl e, s)"

definition plift :: "'e + 'a \<Rightarrow> ('e, 's, 'a) steps" where
  "plift r s = (r, s)"

definition pseq :: "('e, 's, 'a) steps \<Rightarrow> ('a \<Rightarrow> ('e, 's, 'b) steps) \<Rightarrow> ('e, 's, 'b) steps" where
  "pseq p f s = (case p s of (Inl e, s') \<Rightarrow> (Inl e, s') | (Inr x, s') \<Rightarrow> f x s')"

definition pcatch :: "('e, 's, 'a) steps \<Rightarrow> ('e \<Rightarrow> ('e, 's, 'a) steps) \<Rightarrow> ('e, 's, 'a) steps" where
  "pcatch p h s = (case p s of (Inl e, s') \<Rightarrow> h e s' | (Inr x, s') \<Rightarrow> (Inr x, s'))"

lemma proc_basics [simp]:
  "pret x s = (Inr x, s)" "pfail e s = (Inl e, s)" "plift r s = (r, s)"
  by (simp_all add: pret_def pfail_def plift_def)

lemma pseq_Inr: "p s = (Inr x, s') \<Longrightarrow> pseq p f s = f x s'"
  by (simp add: pseq_def)

lemma pseq_Inl: "p s = (Inl e, s') \<Longrightarrow> pseq p f s = (Inl e, s')"
  by (simp add: pseq_def)

lemma pseq_basics [simp]:
  "pseq (pret x) f s = f x s" "pseq (pfail e) f s = (Inl e, s)"
  by (simp_all add: pseq_def)

lemma pseq_plift:
  "pseq (plift r) f s = (case r of Inl e \<Rightarrow> (Inl e, s) | Inr x \<Rightarrow> f x s)"
  by (simp add: pseq_def split: sum.splits)

lemma pseq_eq_Inr:
  "pseq p f s = (Inr y, t) \<longleftrightarrow> (\<exists>x s'. p s = (Inr x, s') \<and> f x s' = (Inr y, t))"
  by (cases "p s"; cases "fst (p s)") (auto simp: pseq_def)

lemma pcatch_eq_Inr:
  "pcatch p h s = (Inr y, t) \<longleftrightarrow> p s = (Inr y, t) \<or> (\<exists>e s'. p s = (Inl e, s') \<and> h e s' = (Inr y, t))"
  by (cases "p s"; cases "fst (p s)") (auto simp: pcatch_def)

lemma pseq_pfail_Inr [simp]: "pseq p (\<lambda>_. pfail e) s \<noteq> (Inr y, t)"
  by (simp add: pseq_eq_Inr)

lemma transact_eq_Inr: "transact m s = (Inr x, s') \<longleftrightarrow> m s = Inr (x, s')"
  by (auto simp: transact_def split: sum.splits)

lemma transact_eq_Inl: "transact m s = (Inl e, s') \<longleftrightarrow> m s = Inl e \<and> s' = s"
  by (auto simp: transact_def split: sum.splits)

section \<open>Tables\<close>

text \<open>
  A table is the list of its rows. \<open>SELECT\<close> filters, \<open>UPDATE ... WHERE\<close> maps the rows that
  satisfy the condition, \<open>DELETE ... WHERE\<close> drops them.
\<close>

definition update_where :: "('r \<Rightarrow> bool) \<Rightarrow> ('r \<Rightarrow> 'r) \<Rightarrow> 'r list \<Rightarrow> 'r list" where
  "update_where P f t = map (\<lambda>r. if P r then f r else r) t"

definition delete_where :: "('r \<Rightarrow> bool) \<Rightarrow> 'r list \<Rightarrow> 'r list" where
  "delete_where P t = filter (\<lambda>r. \<not> P r) t"

definition exists_row :: "('r \<Rightarrow> bool) \<Rightarrow> 'r list \<Rightarrow> bool" where
  "exists_row P t = list_ex P t"

definition unique_on :: "('r \<Rightarrow> 'k) \<Rightarrow> 'r list \<Rightarrow> bool" where
  "unique_on key t = distinct (map key t)"

lemma exists_row_iff [table_simps]: "exists_row P t \<longleftrightarrow> (\<exists>r \<in> set t. P r)"
  by (simp add: exists_row_def list_ex_iff)

lemma set_update_where [table_simps]:
  "set (update_where P f t) = f ` {r \<in> set t. P r} \<union> {r \<in> set t. \<not> P r}"
  by (auto simp: update_where_def)

lemma length_update_where [simp]: "length (update_where P f t) = length t"
  by (simp add: update_where_def)

lemma set_delete_where [table_simps]: "set (delete_where P t) = {r \<in> set t. \<not> P r}"
  by (auto simp: delete_where_def)

lemma map_update_where:
  "(\<And>r. r \<in> set t \<Longrightarrow> P r \<Longrightarrow> key (f r) = key r) \<Longrightarrow> map key (update_where P f t) = map key t"
  by (simp add: update_where_def)

lemma unique_on_update_where:
  "unique_on key t \<Longrightarrow> (\<And>r. r \<in> set t \<Longrightarrow> P r \<Longrightarrow> key (f r) = key r) \<Longrightarrow> unique_on key (update_where P f t)"
  by (simp add: unique_on_def map_update_where)

lemma unique_on_delete_where: "unique_on key t \<Longrightarrow> unique_on key (delete_where P t)"
  by (simp add: unique_on_def delete_where_def distinct_map_filter)

lemma unique_on_eqD: "unique_on key t \<Longrightarrow> r \<in> set t \<Longrightarrow> r' \<in> set t \<Longrightarrow> key r = key r' \<Longrightarrow> r = r'"
  by (auto simp: unique_on_def distinct_map inj_on_def)

lemma unique_on_snoc [simp]: "unique_on key (t @ [r]) \<longleftrightarrow> unique_on key t \<and> key r \<notin> key ` set t"
  by (auto simp: unique_on_def)

lemma unique_on_Nil [simp]: "unique_on key []"
  by (simp add: unique_on_def)

text \<open>A row found by a unique key is the only one that matches.\<close>

lemma filter_unique_key:
  assumes "unique_on key t" and "r \<in> set t"
  shows "filter (\<lambda>x. key x = key r) t = [r]"
  using assms
proof (induction t)
  case Nil
  then show ?case by simp
next
  case (Cons a t)
  show ?case
  proof (cases "a = r")
    case True
    with Cons.prems have "key r \<notin> key ` set t" by (auto simp: unique_on_def)
    then have "filter (\<lambda>x. key x = key r) t = []"
      by (force simp: filter_empty_conv image_iff)
    with True show ?thesis by simp
  next
    case False
    with Cons show ?thesis by (auto simp: unique_on_def)
  qed
qed

lemma length_filter_unique_key: "unique_on key t \<Longrightarrow> length (filter (\<lambda>x. key x = k) t) \<le> 1"
proof (cases "\<exists>r \<in> set t. key r = k")
  case True
  moreover assume "unique_on key t"
  ultimately show ?thesis using filter_unique_key by fastforce
next
  case False
  then have "filter (\<lambda>x. key x = k) t = []" by (auto simp: filter_empty_conv)
  then show ?thesis by simp
qed

lemma length_filter_le_mono:
  "(\<And>x. x \<in> set xs \<Longrightarrow> P x \<Longrightarrow> Q x) \<Longrightarrow> length (filter P xs) \<le> length (filter Q xs)"
  by (induction xs) auto

section \<open>Signed 32 bit columns\<close>

definition int4_max :: int where
  "int4_max = 2147483647"

definition int4_ok :: "int \<Rightarrow> bool" where
  "int4_ok v \<longleftrightarrow> - 2147483648 \<le> v \<and> v \<le> int4_max"

end
