(* ===== verification/PyText.thy ===== *)
theory PyText
  imports Prelude
begin

text \<open>
  The part of Python's text library the source uses. A \<open>str\<close> is the list of its code points, so
  that \<open>length\<close> counts what Python's \<open>len\<close> counts and non-ASCII input stays visible; \<open>lit\<close> turns a
  source literal into one. Encodings, \<open>strip\<close>, \<open>split\<close>, URL-safe base64 without padding and hex
  digits are written out.
\<close>

section \<open>Literals and character classes\<close>

definition lit :: "string \<Rightarrow> pystr" where
  "lit s = map of_char s"

lemma lit_Nil [simp]: "lit [] = []"
  by (simp add: lit_def)

lemma lit_eq_Nil [simp]: "lit s = [] \<longleftrightarrow> s = []"
  by (simp add: lit_def)

lemma lit_eq_iff [simp]: "lit a = lit b \<longleftrightarrow> a = b"
  by (simp add: lit_def inj_of_char inj_map_eq_map)

lemma length_lit [simp]: "length (lit s) = length s"
  by (simp add: lit_def)

definition is_lower :: "nat \<Rightarrow> bool" where
  "is_lower c \<longleftrightarrow> 97 \<le> c \<and> c \<le> 122"

definition is_upper :: "nat \<Rightarrow> bool" where
  "is_upper c \<longleftrightarrow> 65 \<le> c \<and> c \<le> 90"

definition is_digit :: "nat \<Rightarrow> bool" where
  "is_digit c \<longleftrightarrow> 48 \<le> c \<and> c \<le> 57"

definition is_alnum :: "nat \<Rightarrow> bool" where
  "is_alnum c \<longleftrightarrow> is_lower c \<or> is_upper c \<or> is_digit c"

definition is_ascii :: "pystr \<Rightarrow> bool" where
  "is_ascii s \<longleftrightarrow> list_all (\<lambda>c. c < 128) s"

lemmas char_class_defs = is_lower_def is_upper_def is_digit_def is_alnum_def

section \<open>Encodings\<close>

text \<open>\<open>str.encode("ascii")\<close>: \<open>None\<close> is the \<open>UnicodeEncodeError\<close>.\<close>

definition encode_ascii :: "pystr \<Rightarrow> bytes option" where
  "encode_ascii s = (if is_ascii s then Some s else None)"

definition utf8_char :: "nat \<Rightarrow> bytes option" where
  "utf8_char c =
     (if c < 128 then Some [c]
      else if c < 2048 then Some [192 + c div 64, 128 + c mod 64]
      else if 55296 \<le> c \<and> c \<le> 57343 then None
      else if c < 65536 then Some [224 + c div 4096, 128 + (c div 64) mod 64, 128 + c mod 64]
      else if c < 1114112 then
        Some [240 + c div 262144, 128 + (c div 4096) mod 64, 128 + (c div 64) mod 64, 128 + c mod 64]
      else None)"

text \<open>\<open>str.encode()\<close>: UTF-8; a lone surrogate is a \<open>UnicodeEncodeError\<close>.\<close>

primrec encode_utf8 :: "pystr \<Rightarrow> bytes option" where
  "encode_utf8 [] = Some []"
| "encode_utf8 (c # cs) =
     (case utf8_char c of None \<Rightarrow> None
      | Some b \<Rightarrow> (case encode_utf8 cs of None \<Rightarrow> None | Some bs \<Rightarrow> Some (b @ bs)))"

definition is_byte :: "nat \<Rightarrow> bool" where
  "is_byte b \<longleftrightarrow> b < 256"

lemma encode_ascii_bytes: "encode_ascii s = Some b \<Longrightarrow> list_all is_byte b"
  by (auto simp: encode_ascii_def is_ascii_def is_byte_def list_all_iff split: if_splits)

lemma encode_utf8_ascii: "is_ascii s \<Longrightarrow> encode_utf8 s = Some s"
  by (induction s) (auto simp: is_ascii_def utf8_char_def)

section \<open>Whitespace, strip and split\<close>

definition is_space :: "nat \<Rightarrow> bool" where
  "is_space c \<longleftrightarrow> (9 \<le> c \<and> c \<le> 13) \<or> (28 \<le> c \<and> c \<le> 32) \<or> c = 133 \<or> c = 160 \<or> c = 5760
     \<or> (8192 \<le> c \<and> c \<le> 8202) \<or> c = 8232 \<or> c = 8233 \<or> c = 8239 \<or> c = 8287 \<or> c = 12288"

definition strip :: "pystr \<Rightarrow> pystr" where
  "strip s = rev (dropWhile is_space (rev (dropWhile is_space s)))"

primrec split_on :: "nat \<Rightarrow> pystr \<Rightarrow> pystr list" where
  "split_on d [] = [[]]"
| "split_on d (c # cs) =
     (if c = d then [] # split_on d cs
      else (case split_on d cs of [] \<Rightarrow> [[c]] | w # ws \<Rightarrow> (c # w) # ws))"

definition rstrip_char :: "nat \<Rightarrow> pystr \<Rightarrow> pystr" where
  "rstrip_char d s = rev (dropWhile (\<lambda>c. c = d) (rev s))"

primrec starts_with :: "pystr \<Rightarrow> pystr \<Rightarrow> bool" where
  "starts_with [] s = True"
| "starts_with (p # ps) s = (case s of [] \<Rightarrow> False | c # cs \<Rightarrow> p = c \<and> starts_with ps cs)"

primrec contains :: "pystr \<Rightarrow> pystr \<Rightarrow> bool" where
  "contains p [] = (p = [])"
| "contains p (c # cs) = (starts_with p (c # cs) \<or> contains p cs)"

text \<open>\<open>str.upper\<close>, \<open>str.lower\<close> and \<open>str.casefold\<close> on ASCII letters; other code points are kept.\<close>

definition ascii_lower :: "pystr \<Rightarrow> pystr" where
  "ascii_lower s = map (\<lambda>c. if is_upper c then c + 32 else c) s"

definition ascii_upper :: "pystr \<Rightarrow> pystr" where
  "ascii_upper s = map (\<lambda>c. if is_lower c then c - 32 else c) s"

lemma split_on_not_Nil [simp]: "split_on d s \<noteq> []"
  by (induction s) (auto split: list.splits)

lemma starts_with_iff: "starts_with p s \<longleftrightarrow> (\<exists>r. s = p @ r)"
  by (induction p arbitrary: s) (auto split: list.splits)

lemma contains_iff: "contains p s \<longleftrightarrow> (\<exists>a b. s = a @ p @ b)"
proof (induction s)
  case Nil
  then show ?case by auto
next
  case (Cons c cs)
  show ?case
  proof
    assume "contains p (c # cs)"
    then consider "starts_with p (c # cs)" | "contains p cs" by auto
    then show "\<exists>a b. c # cs = a @ p @ b"
    proof cases
      case 1
      then show ?thesis unfolding starts_with_iff by (metis append_Nil)
    next
      case 2
      then show ?thesis using Cons.IH by (metis append_Cons)
    qed
  next
    assume "\<exists>a b. c # cs = a @ p @ b"
    then obtain a b where eq: "c # cs = a @ p @ b" by blast
    show "contains p (c # cs)"
    proof (cases a)
      case Nil
      with eq have "starts_with p (c # cs)" by (auto simp: starts_with_iff)
      then show ?thesis by simp
    next
      case (Cons x a')
      with eq Cons.IH show ?thesis by auto
    qed
  qed
qed

lemma ascii_lower_idem [simp]: "ascii_lower (ascii_lower s) = ascii_lower s"
  by (auto simp: ascii_lower_def is_upper_def)

section \<open>URL-safe base64 without padding\<close>

definition b64_char :: "nat \<Rightarrow> nat" where
  "b64_char v =
     (if v < 26 then 65 + v else if v < 52 then 71 + v else if v < 62 then v - 4
      else if v = 62 then 45 else 95)"

definition b64_value :: "nat \<Rightarrow> nat" where
  "b64_value c =
     (if is_upper c then c - 65 else if is_lower c then c - 71 else if is_digit c then c + 4
      else if c = 45 then 62 else 63)"

fun b64_encode :: "bytes \<Rightarrow> pystr" where
  "b64_encode [] = []"
| "b64_encode [a] = [b64_char (a div 4), b64_char ((a mod 4) * 16), 61, 61]"
| "b64_encode [a, b] =
     [b64_char (a div 4), b64_char ((a mod 4) * 16 + b div 16), b64_char ((b mod 16) * 4), 61]"
| "b64_encode (a # b # c # r) =
     [b64_char (a div 4), b64_char ((a mod 4) * 16 + b div 16),
      b64_char ((b mod 16) * 4 + c div 64), b64_char (c mod 64)] @ b64_encode r"

definition b64url_nopad :: "bytes \<Rightarrow> pystr" where
  "b64url_nopad bs = rstrip_char 61 (b64_encode bs)"

fun b64_core :: "bytes \<Rightarrow> pystr" where
  "b64_core [] = []"
| "b64_core [a] = [b64_char (a div 4), b64_char ((a mod 4) * 16)]"
| "b64_core [a, b] =
     [b64_char (a div 4), b64_char ((a mod 4) * 16 + b div 16), b64_char ((b mod 16) * 4)]"
| "b64_core (a # b # c # r) =
     [b64_char (a div 4), b64_char ((a mod 4) * 16 + b div 16),
      b64_char ((b mod 16) * 4 + c div 64), b64_char (c mod 64)] @ b64_core r"

fun b64_decode :: "pystr \<Rightarrow> bytes" where
  "b64_decode (w # x # y # z # r) =
     [b64_value w * 4 + b64_value x div 16, (b64_value x mod 16) * 16 + b64_value y div 4,
      (b64_value y mod 4) * 64 + b64_value z] @ b64_decode r"
| "b64_decode [w, x, y] =
     [b64_value w * 4 + b64_value x div 16, (b64_value x mod 16) * 16 + b64_value y div 4]"
| "b64_decode [w, x] = [b64_value w * 4 + b64_value x div 16]"
| "b64_decode _ = []"

definition token_char :: "nat \<Rightarrow> bool" where
  "token_char c \<longleftrightarrow> is_alnum c \<or> c = 95 \<or> c = 45"

lemma token_char_b64_char: "token_char (b64_char v)"
  by (auto simp: token_char_def b64_char_def char_class_defs)

lemma b64_char_not_pad [simp]: "b64_char v \<noteq> 61"
  by (auto simp: b64_char_def)

lemma b64_value_char: "v < 64 \<Longrightarrow> b64_value (b64_char v) = v"
  by (auto simp: b64_value_def b64_char_def is_upper_def is_lower_def is_digit_def)

lemma rstrip_char_append_last:
  "s \<noteq> [] \<Longrightarrow> last s \<noteq> d \<Longrightarrow> rstrip_char d (a @ s) = a @ s"
  by (cases s rule: rev_cases) (auto simp: rstrip_char_def)

lemma rstrip_char_snoc_pad: "rstrip_char d (s @ [d]) = rstrip_char d s"
  by (simp add: rstrip_char_def)

lemma b64_core_last: "bs \<noteq> [] \<Longrightarrow> b64_core bs \<noteq> [] \<and> last (b64_core bs) \<noteq> 61"
proof (induction bs rule: b64_core.induct)
  case (4 a b c r)
  then show ?case by (cases "r = []") auto
qed auto

lemma b64_encode_core: "\<exists>p. b64_encode bs = b64_core bs @ p \<and> (\<exists>k. p = replicate k 61)"
  by (induction bs rule: b64_encode.induct)
     (auto intro: exI [of _ 0] exI [of _ 1] exI [of _ 2] simp: numeral_2_eq_2)

lemma rstrip_char_pad: "rstrip_char d (s @ replicate k d) = rstrip_char d s"
proof (induction k)
  case 0
  then show ?case by simp
next
  case (Suc k)
  have "s @ replicate (Suc k) d = (s @ replicate k d) @ [d]"
    by (simp add: replicate_append_same)
  with Suc show ?case by (simp only: rstrip_char_snoc_pad)
qed

lemma b64url_nopad_core: "b64url_nopad bs = b64_core bs"
proof (cases "bs = []")
  case True
  then show ?thesis by (simp add: b64url_nopad_def rstrip_char_def)
next
  case False
  obtain k where "b64_encode bs = b64_core bs @ replicate k 61"
    using b64_encode_core by blast
  moreover have "rstrip_char 61 (b64_core bs) = b64_core bs"
    using rstrip_char_append_last [of "b64_core bs" 61 "[]"] b64_core_last [OF False] by simp
  ultimately show ?thesis by (simp add: b64url_nopad_def rstrip_char_pad)
qed

lemma b64_core_chars: "list_all token_char (b64_core bs)"
  by (induction bs rule: b64_core.induct) (auto simp: token_char_b64_char)

lemma length_b64_core: "length (b64_core bs) = (4 * length bs + 2) div 3"
  by (induction bs rule: b64_core.induct) auto

lemma b64_decode_core:
  "list_all is_byte bs \<Longrightarrow> b64_decode (b64_core bs) = bs"
proof (induction bs rule: b64_core.induct)
  case (4 a b c r)
  then have "a < 256" "b < 256" "c < 256" "b64_decode (b64_core r) = r"
    by (auto simp: is_byte_def)
  moreover have "(a mod 4) * 16 + b div 16 < 64" "(b mod 16) * 4 + c div 64 < 64" "a div 4 < 64"
    using calculation by arith+
  ultimately show ?case by (simp add: b64_value_char)
next
  case (3 a b)
  then have "a < 256" "b < 256" by (auto simp: is_byte_def)
  moreover have "(a mod 4) * 16 + b div 16 < 64" "(b mod 16) * 4 < 64" "a div 4 < 64"
    using calculation by arith+
  ultimately show ?case by (simp add: b64_value_char)
next
  case (2 a)
  then have "a < 256" by (auto simp: is_byte_def)
  moreover have "(a mod 4) * 16 < 64" "a div 4 < 64" using calculation by arith+
  ultimately show ?case by (simp add: b64_value_char)
qed simp

lemma b64url_nopad_inj:
  "list_all is_byte a \<Longrightarrow> list_all is_byte b \<Longrightarrow> b64url_nopad a = b64url_nopad b \<Longrightarrow> a = b"
  by (metis b64_decode_core b64url_nopad_core)

section \<open>Hexadecimal digits\<close>

definition hex_char :: "nat \<Rightarrow> nat" where
  "hex_char v = (if v < 10 then 48 + v else 87 + v)"

definition hex_text :: "nat \<Rightarrow> nat \<Rightarrow> pystr" where
  "hex_text n u = map (\<lambda>i. hex_char (u div 16 ^ i mod 16)) (rev [0..<n])"

section \<open>Floats\<close>

text \<open>A finite float is \<open>m * 2 ^ e\<close>.\<close>

datatype pyfloat = Finite int int | NotFinite

definition finite_between :: "int \<Rightarrow> int \<Rightarrow> int \<Rightarrow> int \<Rightarrow> bool" where
  "finite_between lo hi m e \<longleftrightarrow>
     (if 0 \<le> e then lo \<le> m * 2 ^ nat e \<and> m * 2 ^ nat e < hi else lo * 2 ^ nat (- e) \<le> m \<and> m < hi * 2 ^ nat (- e))"

end
