(* ===== verification/Regex.thy ===== *)
theory Regex
  imports PyText
begin

text \<open>
  Regular expressions over code points, for the patterns the source compiles with \<open>re\<close>. A pattern
  is transcribed as a term; \<open>fullmatch\<close> decides by derivatives whether it matches a whole string
  (under \<open>fullmatch\<close> the anchors of the source are redundant), and \<open>fullmatch_lang\<close> says that it
  decides membership in the pattern's language.
\<close>

datatype rx =
    Never
  | Blank
  | Class "(nat \<times> nat) list"
  | Cat rx rx
  | Or rx rx
  | Many rx

definition in_class :: "nat \<Rightarrow> (nat \<times> nat) list \<Rightarrow> bool" where
  "in_class c rs = list_ex (\<lambda>(lo, hi). lo \<le> c \<and> c \<le> hi) rs"

inductive_set repeats :: "'a list set \<Rightarrow> 'a list set" for L where
  none: "[] \<in> repeats L"
| more: "u \<in> L \<Longrightarrow> v \<in> repeats L \<Longrightarrow> u @ v \<in> repeats L"

primrec lang :: "rx \<Rightarrow> pystr set" where
  "lang Never = {}"
| "lang Blank = {[]}"
| "lang (Class rs) = {[c] | c. in_class c rs}"
| "lang (Cat r s) = {u @ v | u v. u \<in> lang r \<and> v \<in> lang s}"
| "lang (Or r s) = lang r \<union> lang s"
| "lang (Many r) = repeats (lang r)"

primrec accepts_empty :: "rx \<Rightarrow> bool" where
  "accepts_empty Never = False"
| "accepts_empty Blank = True"
| "accepts_empty (Class rs) = False"
| "accepts_empty (Cat r s) = (accepts_empty r \<and> accepts_empty s)"
| "accepts_empty (Or r s) = (accepts_empty r \<or> accepts_empty s)"
| "accepts_empty (Many r) = True"

fun mk_cat :: "rx \<Rightarrow> rx \<Rightarrow> rx" where
  "mk_cat Never s = Never"
| "mk_cat Blank s = s"
| "mk_cat r s = Cat r s"

fun mk_or :: "rx \<Rightarrow> rx \<Rightarrow> rx" where
  "mk_or Never s = s"
| "mk_or r Never = r"
| "mk_or r s = Or r s"

primrec after_char :: "nat \<Rightarrow> rx \<Rightarrow> rx" where
  "after_char c Never = Never"
| "after_char c Blank = Never"
| "after_char c (Class rs) = (if in_class c rs then Blank else Never)"
| "after_char c (Cat r s) =
     (let d = mk_cat (after_char c r) s
      in if accepts_empty r then mk_or d (after_char c s) else d)"
| "after_char c (Or r s) = mk_or (after_char c r) (after_char c s)"
| "after_char c (Many r) = mk_cat (after_char c r) (Many r)"

primrec fullmatch :: "rx \<Rightarrow> pystr \<Rightarrow> bool" where
  "fullmatch r [] = accepts_empty r"
| "fullmatch r (c # cs) = fullmatch (after_char c r) cs"

section \<open>The matcher decides the language\<close>

lemma accepts_empty_lang: "accepts_empty r \<longleftrightarrow> [] \<in> lang r"
  by (induction r) (auto intro: repeats.none)

lemma lang_mk_cat [simp]: "lang (mk_cat r s) = {u @ v | u v. u \<in> lang r \<and> v \<in> lang s}"
  by (cases "(r, s)" rule: mk_cat.cases) auto

lemma lang_mk_or [simp]: "lang (mk_or r s) = lang r \<union> lang s"
  by (cases "(r, s)" rule: mk_or.cases) auto

lemma repeats_ConsE:
  assumes "c # w \<in> repeats L"
  obtains u v where "w = u @ v" "c # u \<in> L" "v \<in> repeats L"
proof -
  have "\<exists>u v. w = u @ v \<and> c # u \<in> L \<and> v \<in> repeats L"
    using assms
  proof (induction "c # w" rule: repeats.induct)
    case (more u v)
    then show ?case by (cases u) auto
  qed
  then show thesis using that by blast
qed

lemma after_char_lang: "w \<in> lang (after_char c r) \<longleftrightarrow> c # w \<in> lang r"
proof (induction r arbitrary: w)
  case (Cat r s)
  have "c # w \<in> lang (Cat r s) \<longleftrightarrow>
      (\<exists>u v. w = u @ v \<and> c # u \<in> lang r \<and> v \<in> lang s) \<or> ([] \<in> lang r \<and> c # w \<in> lang s)"
    by (auto simp: Cons_eq_append_conv)
  with Cat show ?case by (auto simp: Let_def accepts_empty_lang)
next
  case (Many r)
  have "c # w \<in> repeats (lang r) \<longleftrightarrow> (\<exists>u v. w = u @ v \<and> c # u \<in> lang r \<and> v \<in> repeats (lang r))"
    by (metis append_Cons repeats.more repeats_ConsE)
  with Many show ?case by auto
qed auto

theorem fullmatch_lang: "fullmatch r w \<longleftrightarrow> w \<in> lang r"
  by (induction w arbitrary: r) (auto simp: accepts_empty_lang after_char_lang)

section \<open>Derived forms\<close>

definition Opt :: "rx \<Rightarrow> rx" where
  "Opt r = Or r Blank"

primrec lit_rx :: "pystr \<Rightarrow> rx" where
  "lit_rx [] = Blank"
| "lit_rx (c # cs) = Cat (Class [(c, c)]) (lit_rx cs)"

primrec exactly :: "nat \<Rightarrow> rx \<Rightarrow> rx" where
  "exactly 0 r = Blank"
| "exactly (Suc n) r = Cat r (exactly n r)"

primrec upto_times :: "nat \<Rightarrow> rx \<Rightarrow> rx" where
  "upto_times 0 r = Blank"
| "upto_times (Suc n) r = Or Blank (Cat r (upto_times n r))"

definition Many1 :: "rx \<Rightarrow> rx" where
  "Many1 r = Cat r (Many r)"

definition between :: "nat \<Rightarrow> nat \<Rightarrow> rx \<Rightarrow> rx" where
  "between m n r = Cat (exactly m r) (upto_times (n - m) r)"

lemma lang_lit_rx [simp]: "lang (lit_rx s) = {s}"
proof (induction s)
  case Nil
  show ?case by simp
next
  case (Cons c cs)
  have "in_class d [(c, c)] \<longleftrightarrow> d = c" for d by (auto simp: in_class_def)
  with Cons show ?case by simp
qed

lemma lang_Opt [simp]: "lang (Opt r) = insert [] (lang r)"
  by (auto simp: Opt_def)

lemma repeats_class: "w \<in> repeats {[c] | c. P c} \<longleftrightarrow> list_all P w"
proof
  show "w \<in> repeats {[c] | c. P c} \<Longrightarrow> list_all P w"
    by (induction rule: repeats.induct) auto
next
  show "list_all P w \<Longrightarrow> w \<in> repeats {[c] | c. P c}"
  proof (induction w)
    case Nil
    show ?case by (rule repeats.none)
  next
    case (Cons c cs)
    then have "P c" and "list_all P cs" by simp_all
    from \<open>P c\<close> have "[c] \<in> {[c] | c. P c}" by blast
    moreover have "cs \<in> repeats {[c] | c. P c}" by (rule Cons.IH) fact
    ultimately have "[c] @ cs \<in> repeats {[c] | c. P c}" by (rule repeats.more)
    then show ?case by (simp only: append_Cons append_Nil)
  qed
qed

lemma lang_Many_Class [simp]: "lang (Many (Class rs)) = {w. list_all (\<lambda>c. in_class c rs) w}"
  by (auto simp: repeats_class)

lemma lang_Cat_Class:
  "v \<in> lang (Cat (Class rs) r) \<longleftrightarrow> (\<exists>c cs. v = c # cs \<and> in_class c rs \<and> cs \<in> lang r)"
  by (auto intro: exI [of _ "[_]"])

lemma lang_exactly_Class:
  "lang (exactly n (Class rs)) = {w. length w = n \<and> list_all (\<lambda>c. in_class c rs) w}"
proof (induction n)
  case 0
  then show ?case by auto
next
  case (Suc n)
  have "v \<in> lang (exactly (Suc n) (Class rs)) \<longleftrightarrow>
      length v = Suc n \<and> list_all (\<lambda>c. in_class c rs) v" for v
    by (cases v) (simp_all only: exactly.simps lang_Cat_Class Suc, auto)
  then show ?case by blast
qed

lemma lang_upto_Class:
  "lang (upto_times n (Class rs)) = {w. length w \<le> n \<and> list_all (\<lambda>c. in_class c rs) w}"
proof (induction n)
  case 0
  then show ?case by auto
next
  case (Suc n)
  have "v \<in> lang (upto_times (Suc n) (Class rs)) \<longleftrightarrow>
      length v \<le> Suc n \<and> list_all (\<lambda>c. in_class c rs) v" for v
    by (cases v) (simp_all only: upto_times.simps lang.simps(5) Un_iff lang_Cat_Class Suc, auto)
  then show ?case by blast
qed

lemma lang_between_Class:
  "m \<le> n \<Longrightarrow> lang (between m n (Class rs)) =
     {w. m \<le> length w \<and> length w \<le> n \<and> list_all (\<lambda>c. in_class c rs) w}"
proof -
  assume le: "m \<le> n"
  have "w \<in> lang (between m n (Class rs)) \<longleftrightarrow>
      m \<le> length w \<and> length w \<le> n \<and> list_all (\<lambda>c. in_class c rs) w" for w
  proof
    assume "w \<in> lang (between m n (Class rs))"
    with le show "m \<le> length w \<and> length w \<le> n \<and> list_all (\<lambda>c. in_class c rs) w"
      by (auto simp: between_def lang_exactly_Class lang_upto_Class)
  next
    assume A: "m \<le> length w \<and> length w \<le> n \<and> list_all (\<lambda>c. in_class c rs) w"
    then have "list_all (\<lambda>c. in_class c rs) (take m w)" "list_all (\<lambda>c. in_class c rs) (drop m w)"
      by (auto simp: list_all_iff dest: in_set_takeD in_set_dropD)
    with A le have "take m w \<in> lang (exactly m (Class rs))" "drop m w \<in> lang (upto_times (n - m) (Class rs))"
      by (auto simp: lang_exactly_Class lang_upto_Class)
    then show "w \<in> lang (between m n (Class rs))"
      unfolding between_def lang.simps by (metis (mono_tags, lifting) append_take_drop_id mem_Collect_eq)
  qed
  then show ?thesis by blast
qed

lemma in_class_simps [simp]:
  "in_class c [] = False"
  "in_class c ((lo, hi) # rs) \<longleftrightarrow> (lo \<le> c \<and> c \<le> hi) \<or> in_class c rs"
  by (simp_all add: in_class_def)

end
