(* ===== verification/AppErrors.thy ===== *)
theory AppErrors
  imports Regex
begin

text \<open>
  The unified public errors of \<open>core/errors.py\<close>: the closed catalog of codes and messages, the
  \<open>AppError\<close> class with its constructor, the projection of validation details and the four
  exception handlers. A Python value whose type the code inspects is a \<open>pyval\<close>; an \<open>AppError\<close>
  subclass is the record of its three class attributes, because the handler reads only those. The
  exceptions the other components raise are gathered in \<open>exn\<close>.
\<close>

section \<open>Python values whose type is inspected\<close>

datatype pyval =
    PNone
  | PBool bool
  | PInt int
  | PStr pystr
  | PList "pyval list"
  | PTuple "pyval list"
  | PDict "(pystr \<times> pyval) list"
  | PObject

section \<open>Exceptions\<close>

record app_error_class =
  ec_code :: pystr
  ec_status :: nat
  ec_message :: pystr

datatype sql_error =
    UniqueViolation | ForeignKeyViolation | CheckViolation | NotNullViolation
  | NumericOutOfRange | RaisedBySql pystr | InsufficientPrivilege | NoResultFound
  | MultipleResultsFound | ConnectionLost

datatype exn =
    AppExn app_error_class
  | SqlExn sql_error
  | InvalidAuditEvent
  | AuditWriteFailed
  | AuthUnavailable
  | ValueExn
  | TypeExn
  | KeyExn
  | IndexExn
  | UnicodeExn
  | RuntimeExn pystr

text \<open>SQLAlchemy maps the SQLSTATE class 23 to \<open>IntegrityError\<close>.\<close>

fun is_integrity_error :: "exn \<Rightarrow> bool" where
  "is_integrity_error (SqlExn UniqueViolation) = True"
| "is_integrity_error (SqlExn ForeignKeyViolation) = True"
| "is_integrity_error (SqlExn CheckViolation) = True"
| "is_integrity_error (SqlExn NotNullViolation) = True"
| "is_integrity_error _ = False"

fun is_sqlalchemy_error :: "exn \<Rightarrow> bool" where
  "is_sqlalchemy_error (SqlExn _) = True"
| "is_sqlalchemy_error _ = False"

lemma integrity_is_sqlalchemy: "is_integrity_error e \<Longrightarrow> is_sqlalchemy_error e"
  by (cases e rule: is_integrity_error.cases) auto

section \<open>The catalog\<close>

definition public_messages :: "(pystr \<times> pystr list) list" where
  "public_messages =
    [(lit ''internal_error'',
        [lit ''Unexpected error.'', lit ''A trusted tenant context is required.'',
         lit ''A valid tenant identity is required.'']),
     (lit ''bad_request'', [lit ''The request could not be completed.'']),
     (lit ''unauthorized'', [lit ''Authentication is required.'']),
     (lit ''invalid_session'', [lit ''Authentication is required.'']),
     (lit ''forbidden'', [lit ''The requested resource is not available.'']),
     (lit ''not_found'',
        [lit ''The requested resource was not found.'',
         lit ''The requested UI settings layer was not found.'']),
     (lit ''method_not_allowed'', [lit ''The request method is not allowed.'']),
     (lit ''conflict'',
        [lit ''The request conflicts with the current state.'',
         lit ''The role could not be changed in its current state.'',
         lit ''UI settings changed; reload them before retrying.'']),
     (lit ''validation_error'', [lit ''The request payload is not valid.'']),
     (lit ''service_unavailable'', [lit ''The service is temporarily unavailable.'']),
     (lit ''http_error'', [lit ''The request could not be completed.'']),
     (lit ''csrf_rejected'', [lit ''The request could not be verified.'']),
     (lit ''tenant_context_changed'', [lit ''The trusted tenant context changed.'']),
     (lit ''tenant_access_denied'', [lit ''The requested tenant context is not available.'']),
     (lit ''throttled'', [lit ''The request could not be completed. Try again later.''])]"

definition messages_of :: "pystr \<Rightarrow> pystr list" where
  "messages_of code = (case map_of public_messages code of None \<Rightarrow> [] | Some ms \<Rightarrow> ms)"

definition catalogued :: "pystr \<Rightarrow> bool" where
  "catalogued code \<longleftrightarrow> code \<in> set (map fst public_messages)"

definition validation_types :: "pystr list" where
  "validation_types = map lit
    [''missing'', ''extra_forbidden'', ''json_invalid'', ''value_error'', ''assertion_error'',
     ''string_type'', ''string_too_short'', ''string_too_long'', ''string_pattern_mismatch'',
     ''int_type'', ''int_parsing'', ''int_from_float'', ''float_type'', ''float_parsing'',
     ''bool_type'', ''bool_parsing'', ''greater_than'', ''greater_than_equal'', ''less_than'',
     ''less_than_equal'', ''uuid_type'', ''uuid_parsing'', ''uuid_version'', ''enum'',
     ''literal_error'', ''dict_type'', ''list_type'', ''model_type'', ''model_attributes_type'',
     ''finite_number'', ''recursion_loop'', ''invalid_value'']"

lemma catalogued_messages: "catalogued code \<Longrightarrow> messages_of code \<noteq> []"
  by (auto simp: catalogued_def messages_of_def public_messages_def)

lemma catalogued_internal [simp]: "catalogued (lit ''internal_error'')"
  by (simp add: catalogued_def public_messages_def)

section \<open>AppError\<close>

definition AppError :: app_error_class where
  "AppError = \<lparr>ec_code = lit ''internal_error'', ec_status = 500, ec_message = lit ''Unexpected error.''\<rparr>"

record app_error_instance =
  ei_code :: pystr
  ei_status :: nat
  ei_message :: pystr
  ei_details :: "pyval option"

text \<open>Python's \<open>a or b\<close> on an optional string: \<open>None\<close> and the empty string are false.\<close>

definition str_or :: "pystr option \<Rightarrow> pystr \<Rightarrow> pystr" where
  "str_or a b = (case a of None \<Rightarrow> b | Some s \<Rightarrow> if s = [] then b else s)"

definition nat_or :: "nat option \<Rightarrow> nat \<Rightarrow> nat" where
  "nat_or a b = (case a of None \<Rightarrow> b | Some n \<Rightarrow> if n = 0 then b else n)"

definition app_error_init ::
  "app_error_class \<Rightarrow> pystr option \<Rightarrow> pystr option \<Rightarrow> nat option \<Rightarrow> pyval \<Rightarrow> app_error_instance" where
  "app_error_init cls message code status_code details =
     (let requested_code = str_or code (ec_code cls);
          code' = (if catalogued requested_code then requested_code else lit ''internal_error'');
          messages = messages_of code';
          requested_message = str_or message (ec_message cls);
          message' = (if requested_message \<in> set messages then requested_message else messages ! 0)
      in \<lparr>ei_code = code', ei_status = nat_or status_code (ec_status cls), ei_message = message',
          ei_details = None\<rparr>)"

section \<open>Validation details\<close>

text \<open>
  A route's parameter: its alias when that is a string, and, when its annotation is a pydantic
  model, the model's fields as (alias, name). The dependant maps \<open>body_params\<close>, \<open>query_params\<close>, ...
  to the route's parameters; a missing attribute gives the empty list.
\<close>

record route_field =
  rf_alias :: "pystr option"
  rf_model :: "((pystr option) \<times> pystr) list option"

type_synonym dependant = "pystr \<Rightarrow> route_field list"

definition error_sources :: "pystr list" where
  "error_sources = [lit ''body'', lit ''query'', lit ''path'', lit ''header'', lit ''cookie'']"

definition known_names :: "dependant \<Rightarrow> pystr \<Rightarrow> pystr list" where
  "known_names dep source =
     (let fields = dep (source @ lit ''_params'');
          names = List.map_filter rf_alias fields
      in if source = lit ''body'' \<and> length fields = 1
         then (case rf_model (fields ! 0) of
                 None \<Rightarrow> names
               | Some mf \<Rightarrow> map (\<lambda>(alias, name). str_or alias name) mf)
         else names)"

fun as_sequence :: "pyval \<Rightarrow> pyval list option" where
  "as_sequence (PList xs) = Some xs"
| "as_sequence (PTuple xs) = Some xs"
| "as_sequence _ = None"

fun as_str :: "pyval \<Rightarrow> pystr option" where
  "as_str (PStr s) = Some s"
| "as_str _ = None"

fun dict_get :: "(pystr \<times> pyval) list \<Rightarrow> pystr \<Rightarrow> pyval" where
  "dict_get d k = (case map_of d k of None \<Rightarrow> PNone | Some v \<Rightarrow> v)"

definition known_validation_location ::
  "(pystr \<times> pyval) list \<Rightarrow> dependant option \<Rightarrow> pystr list" where
  "known_validation_location error request =
     (case as_sequence (dict_get error (lit ''loc'')) of
        None \<Rightarrow> []
      | Some [] \<Rightarrow> []
      | Some (l0 # rest) \<Rightarrow>
          (case as_str l0 of
             None \<Rightarrow> []
           | Some source \<Rightarrow>
               if source \<notin> set error_sources then []
               else (case (request, rest) of
                       (Some dep, l1 # _) \<Rightarrow>
                         (case as_str l1 of
                            None \<Rightarrow> [source]
                          | Some field \<Rightarrow>
                              if field \<in> set (known_names dep source) then [source, field] else [source])
                     | _ \<Rightarrow> [source])))"

record error_detail =
  ed_type :: pystr
  ed_loc :: "pystr list"

definition safe_detail :: "dependant option \<Rightarrow> (pystr \<times> pyval) list \<Rightarrow> error_detail" where
  "safe_detail request error =
     (let kind = (case dict_get error (lit ''type'') of PStr s \<Rightarrow> s | _ \<Rightarrow> lit ''invalid_value'')
      in \<lparr>ed_type = (if kind \<in> set validation_types then kind else lit ''invalid_value''),
          ed_loc = known_validation_location error request\<rparr>)"

fun as_dict :: "pyval \<Rightarrow> (pystr \<times> pyval) list option" where
  "as_dict (PDict d) = Some d"
| "as_dict _ = None"

definition safe_error_details :: "pyval \<Rightarrow> dependant option \<Rightarrow> error_detail list option" where
  "safe_error_details value request =
     (case as_sequence value of
        None \<Rightarrow> None
      | Some errors \<Rightarrow> Some (map (safe_detail request) (List.map_filter as_dict (take 20 errors))))"

section \<open>The envelope and the handlers\<close>

text \<open>
  A request as the handlers see it: its route's dependant, the two correlation identifiers the
  middleware leaves on its state, and its path. \<open>ep_details\<close> is \<open>None\<close> when the key is absent.
\<close>

record error_request =
  er_dependant :: dependant
  er_response_correlation :: "pystr option"
  er_internal_correlation :: "pystr option"
  er_path :: pystr

record error_payload =
  ep_code :: pystr
  ep_message :: pystr
  ep_correlation :: "pystr option"
  ep_details :: "error_detail list option option"

definition public_code :: "pyval \<Rightarrow> pystr" where
  "public_code code =
     (case code of PStr s \<Rightarrow> if catalogued s then s else lit ''internal_error''
      | _ \<Rightarrow> lit ''internal_error'')"

definition public_message :: "pystr list \<Rightarrow> pyval \<Rightarrow> pystr" where
  "public_message messages message =
     (case message of PStr m \<Rightarrow> if m \<in> set messages then m else messages ! 0 | _ \<Rightarrow> messages ! 0)"

definition build_error_payload ::
  "pyval \<Rightarrow> pyval \<Rightarrow> pyval \<Rightarrow> pystr option \<Rightarrow> error_request option \<Rightarrow> error_payload" where
  "build_error_payload code message details context_correlation request =
     (let code' = public_code code;
          correlation = (case request of
                           None \<Rightarrow> context_correlation
                         | Some r \<Rightarrow> (case er_response_correlation r of
                                        None \<Rightarrow> context_correlation | Some c \<Rightarrow> Some c))
      in \<lparr>ep_code = code', ep_message = public_message (messages_of code') message, ep_correlation = correlation,
          ep_details = (if code' = lit ''validation_error'' \<and> details \<noteq> PNone
                        then Some (safe_error_details details (map_option er_dependant request))
                        else None)\<rparr>)"

definition http_error_codes :: "(nat \<times> pystr) list" where
  "http_error_codes =
    [(400, lit ''bad_request''), (401, lit ''unauthorized''), (403, lit ''forbidden''),
     (404, lit ''not_found''), (405, lit ''method_not_allowed''), (409, lit ''conflict''),
     (422, lit ''validation_error''), (429, lit ''throttled''), (503, lit ''service_unavailable'')]"

record error_response =
  rs_status :: nat
  rs_payload :: error_payload
  rs_headers :: "(pystr \<times> pystr) list"

definition app_error_handler ::
  "app_error_class \<Rightarrow> pystr option \<Rightarrow> error_request \<Rightarrow> error_response" where
  "app_error_handler contract ctx request =
     \<lparr>rs_status = ec_status contract,
      rs_payload = build_error_payload (PStr (ec_code contract)) (PStr (ec_message contract)) PNone
                     ctx (Some request),
      rs_headers = (if ec_code contract = lit ''tenant_context_changed''
                    then [(lit ''X-Auth-Error'', lit ''tenant_context_changed'')] else [])\<rparr>"

definition http_error_handler :: "nat \<Rightarrow> pystr option \<Rightarrow> error_request \<Rightarrow> error_response" where
  "http_error_handler status ctx request =
     (let code = (case map_of http_error_codes status of None \<Rightarrow> lit ''http_error'' | Some c \<Rightarrow> c)
      in \<lparr>rs_status = status,
          rs_payload = build_error_payload (PStr code) (PStr (messages_of code ! 0)) PNone
                         ctx (Some request),
          rs_headers = []\<rparr>)"

definition validation_error_handler ::
  "pyval \<Rightarrow> pystr option \<Rightarrow> error_request \<Rightarrow> error_response" where
  "validation_error_handler errors ctx request =
     \<lparr>rs_status = 422,
      rs_payload = build_error_payload (PStr (lit ''validation_error''))
                     (PStr (lit ''The request payload is not valid.'')) errors ctx (Some request),
      rs_headers = []\<rparr>"

text \<open>
  The diagnostic of an unhandled exception: the fixed event name, the category and the bound
  internal identifier. The path's second segment is read unconditionally: a path without a slash
  is an \<open>IndexError\<close>.
\<close>

record error_log =
  el_event :: pystr
  el_category :: pystr
  el_internal_correlation :: "pystr option"

definition unhandled_error_log :: "exn \<Rightarrow> error_request \<Rightarrow> error_log" where
  "unhandled_error_log e request =
     \<lparr>el_event = lit ''unhandled_exception'',
      el_category = (if is_sqlalchemy_error e then lit ''database'' else lit ''unexpected''),
      el_internal_correlation = er_internal_correlation request\<rparr>"

definition unhandled_error_handler ::
  "exn \<Rightarrow> pystr option \<Rightarrow> error_request \<Rightarrow> exn + error_log \<times> error_response" where
  "unhandled_error_handler e ctx request =
     (let segments = split_on 47 (er_path request);
          correlation_header = (case er_response_correlation request of
                                  None \<Rightarrow> [] | Some c \<Rightarrow> [(lit ''X-Request-ID'', c)])
      in if length segments \<le> 1 then Inl IndexExn
         else Inr (unhandled_error_log e request,
           \<lparr>rs_status = 500,
            rs_payload = build_error_payload (PStr (lit ''internal_error''))
                           (PStr (lit ''Unexpected error.'')) PNone ctx (Some request),
            rs_headers = correlation_header @
              (if segments ! 1 = lit ''auth'' \<or> segments ! 1 = lit ''ui-settings''
               then [(lit ''Cache-Control'', lit ''no-store'')] else [])\<rparr>))"

section \<open>The projection is closed\<close>

text \<open>
  What a public detail may carry: a validation type of the fixed list, and a location that is
  empty, a request source, or a source and one field the route declares for it.
\<close>

definition location_closed :: "dependant option \<Rightarrow> pystr list \<Rightarrow> bool" where
  "location_closed request loc \<longleftrightarrow>
     (case loc of
        [] \<Rightarrow> True
      | [source] \<Rightarrow> source \<in> set error_sources
      | [source, field] \<Rightarrow> source \<in> set error_sources \<and>
          (case request of None \<Rightarrow> False | Some dep \<Rightarrow> field \<in> set (known_names dep source))
      | _ \<Rightarrow> False)"

definition detail_closed :: "dependant option \<Rightarrow> error_detail \<Rightarrow> bool" where
  "detail_closed request d \<longleftrightarrow>
     ed_type d \<in> set validation_types \<and> location_closed request (ed_loc d)"

definition payload_closed :: "error_request option \<Rightarrow> error_payload \<Rightarrow> bool" where
  "payload_closed request p \<longleftrightarrow>
     catalogued (ep_code p) \<and> ep_message p \<in> set (messages_of (ep_code p)) \<and>
     (case ep_details p of
        Some (Some ds) \<Rightarrow> length ds \<le> 20 \<and>
          list_all (detail_closed (map_option er_dependant request)) ds
      | _ \<Rightarrow> True)"

lemma known_validation_location_closed:
  "location_closed request (known_validation_location error request)"
  by (auto simp: known_validation_location_def location_closed_def split: option.split list.split)

lemma safe_detail_closed: "detail_closed request (safe_detail request error)"
proof -
  have "lit ''invalid_value'' \<in> set validation_types" by (simp add: validation_types_def)
  then have "ed_type (safe_detail request error) \<in> set validation_types"
    by (simp add: safe_detail_def Let_def)
  moreover have "ed_loc (safe_detail request error) = known_validation_location error request"
    by (simp add: safe_detail_def Let_def)
  ultimately show ?thesis
    by (simp add: detail_closed_def known_validation_location_closed)
qed

lemma length_map_filter_le: "length (List.map_filter f xs) \<le> length xs"
  by (simp add: List.map_filter_def)

lemma safe_error_details_closed:
  "safe_error_details value request = Some ds \<Longrightarrow>
     length ds \<le> 20 \<and> list_all (detail_closed request) ds"
  using length_map_filter_le [of as_dict]
  by (fastforce simp: safe_error_details_def list_all_iff safe_detail_closed
      split: option.splits intro: order_trans)

lemma catalogued_public_code [simp]: "catalogued (public_code code)"
  by (simp add: public_code_def split: pyval.splits)

lemma public_message_in: "messages \<noteq> [] \<Longrightarrow> public_message messages message \<in> set messages"
  by (simp add: public_message_def split: pyval.splits)

lemma build_error_payload_closed [simp]:
  "payload_closed request (build_error_payload code message details ctx request)"
proof -
  let ?ds = "safe_error_details details (map_option er_dependant request)"
  have "case ?ds of None \<Rightarrow> True
      | Some ds \<Rightarrow> length ds \<le> 20 \<and> list_all (detail_closed (map_option er_dependant request)) ds"
    by (cases ?ds) (auto dest: safe_error_details_closed)
  then show ?thesis
    by (simp add: payload_closed_def build_error_payload_def Let_def public_message_in
        catalogued_messages split: option.splits)
qed

lemma build_error_payload_exact:
  "catalogued code \<Longrightarrow> message \<in> set (messages_of code) \<Longrightarrow>
     ep_code (build_error_payload (PStr code) (PStr message) d ctx request) = code \<and>
     ep_message (build_error_payload (PStr code) (PStr message) d ctx request) = message"
  by (simp add: build_error_payload_def public_code_def public_message_def Let_def)

text \<open>
  C40. Whatever an exception carries, each of the four handlers answers with a code of the catalog, a
  message catalogued for that code, and details (at most twenty) that name only known validation
  types, request sources and fields the route declares.
\<close>

theorem handlers_closed:
  "payload_closed (Some request) (rs_payload (app_error_handler contract ctx request)) \<and>
   payload_closed (Some request) (rs_payload (http_error_handler status ctx request)) \<and>
   payload_closed (Some request) (rs_payload (validation_error_handler errors ctx request)) \<and>
   (case unhandled_error_handler e ctx request of
      Inl x \<Rightarrow> length (split_on 47 (er_path request)) \<le> 1
    | Inr (log, response) \<Rightarrow> payload_closed (Some request) (rs_payload response))"
  by (simp add: app_error_handler_def http_error_handler_def validation_error_handler_def
      unhandled_error_handler_def build_error_payload_closed Let_def)

text \<open>
  An \<open>AppError\<close> instance is closed under any constructor arguments: its code is catalogued, its
  message is one of that code's messages, and the details are dropped.
\<close>

theorem app_error_init_closed:
  "catalogued (ei_code (app_error_init cls message code status details)) \<and>
   ei_message (app_error_init cls message code status details)
     \<in> set (messages_of (ei_code (app_error_init cls message code status details))) \<and>
   ei_details (app_error_init cls message code status details) = None"
proof -
  let ?c = "ei_code (app_error_init cls message code status details)"
  have c: "catalogued ?c" by (simp add: app_error_init_def Let_def)
  then have "messages_of ?c ! 0 \<in> set (messages_of ?c)" using catalogued_messages by simp
  with c show ?thesis by (auto simp: app_error_init_def Let_def)
qed

end
