(* ===== verification/Permissions.thy ===== *)
theory Permissions
  imports AppErrors
begin

text \<open>
  The permission catalogue (\<open>authorization/permissions.py\<close>), the authorization evidence
  (\<open>authorization/contracts.py\<close>) and the role keys (\<open>models/authorization.py\<close>), with the
  CHECK constraints that restate the patterns in the database.
\<close>

section \<open>Identifiers\<close>

definition lower_class :: rx where
  "lower_class = Class [(97, 122)]"

definition ident_class :: rx where
  "ident_class = Class [(97, 122), (48, 57), (95, 95)]"

text \<open>\<open>^(?:tenant|platform)\.[a-z][a-z0-9_]*\.[a-z][a-z0-9_]*$\<close>\<close>

definition permission_id_pattern :: rx where
  "permission_id_pattern =
     Cat (Or (lit_rx (lit ''tenant'')) (lit_rx (lit ''platform'')))
       (Cat (lit_rx (lit ''.'')) (Cat lower_class (Cat (Many ident_class)
         (Cat (lit_rx (lit ''.'')) (Cat lower_class (Many ident_class))))))"

definition PermissionId :: "pyval \<Rightarrow> exn + pystr" where
  "PermissionId value =
     (case value of PStr s \<Rightarrow> if fullmatch permission_id_pattern s then Inr s else Inl ValueExn
      | _ \<Rightarrow> Inl ValueExn)"

datatype permission =
    TENANT_MEMBERSHIPS_READ
  | TENANT_MEMBERSHIPS_MANAGE
  | TENANT_ROLES_READ
  | TENANT_ROLES_MANAGE
  | TENANT_USER_UI_SETTINGS_MANAGE_SELF
  | TENANT_UI_SETTINGS_MANAGE
  | PLATFORM_TENANTS_READ
  | PLATFORM_TENANTS_MANAGE
  | PLATFORM_UI_SETTINGS_MANAGE

fun permission_value :: "permission \<Rightarrow> pystr" where
  "permission_value TENANT_MEMBERSHIPS_READ = lit ''tenant.memberships.read''"
| "permission_value TENANT_MEMBERSHIPS_MANAGE = lit ''tenant.memberships.manage''"
| "permission_value TENANT_ROLES_READ = lit ''tenant.roles.read''"
| "permission_value TENANT_ROLES_MANAGE = lit ''tenant.roles.manage''"
| "permission_value TENANT_USER_UI_SETTINGS_MANAGE_SELF = lit ''tenant.user_ui_settings.manage_self''"
| "permission_value TENANT_UI_SETTINGS_MANAGE = lit ''tenant.ui_settings.manage''"
| "permission_value PLATFORM_TENANTS_READ = lit ''platform.tenants.read''"
| "permission_value PLATFORM_TENANTS_MANAGE = lit ''platform.tenants.manage''"
| "permission_value PLATFORM_UI_SETTINGS_MANAGE = lit ''platform.ui_settings.manage''"

definition all_permissions :: "permission list" where
  "all_permissions =
     [TENANT_MEMBERSHIPS_READ, TENANT_MEMBERSHIPS_MANAGE, TENANT_ROLES_READ, TENANT_ROLES_MANAGE,
      TENANT_USER_UI_SETTINGS_MANAGE_SELF, TENANT_UI_SETTINGS_MANAGE, PLATFORM_TENANTS_READ,
      PLATFORM_TENANTS_MANAGE, PLATFORM_UI_SETTINGS_MANAGE]"

lemma all_permissions_UNIV: "set all_permissions = UNIV"
proof -
  have "p \<in> set all_permissions" for p by (cases p) (simp_all add: all_permissions_def)
  then show ?thesis by blast
qed

instantiation permission :: enum
begin

definition
  "enum_class.enum = all_permissions"

definition
  "enum_class.enum_all P = list_all P all_permissions"

definition
  "enum_class.enum_ex P = list_ex P all_permissions"

instance
  by standard
    (simp_all add: enum_permission_def enum_all_permission_def enum_ex_permission_def
      all_permissions_UNIV list_all_iff list_ex_iff, simp add: all_permissions_def)

end

text \<open>Every value is validated in order, then duplicates are rejected; the result is the set of values.\<close>

fun validated_ids :: "pyval list \<Rightarrow> exn + pystr list" where
  "validated_ids [] = Inr []"
| "validated_ids (v # vs) = and_then (PermissionId v) (\<lambda>p. and_then (validated_ids vs) (\<lambda>ps. Inr (p # ps)))"

definition build_permission_catalog :: "pyval list \<Rightarrow> exn + pystr list" where
  "build_permission_catalog values =
     and_then (validated_ids values) (\<lambda>materialized.
       if length materialized \<noteq> length (remdups materialized) then Inl ValueExn
       else Inr materialized)"

definition permission_catalog :: "exn + pystr list" where
  "permission_catalog =
     build_permission_catalog (map (\<lambda>p. PStr (permission_value p)) all_permissions)"

definition catalog_ids :: "pystr list" where
  "catalog_ids = map permission_value all_permissions"

section \<open>Role keys and the database's own patterns\<close>

text \<open>\<open>^[a-z][a-z0-9_]{0,62}$\<close>\<close>

definition role_key_pattern :: rx where
  "role_key_pattern = Cat lower_class (upto_times 62 ident_class)"

definition RoleKey :: "pyval \<Rightarrow> exn + pystr" where
  "RoleKey value =
     (case value of PStr s \<Rightarrow> if fullmatch role_key_pattern s then Inr s else Inl ValueExn
      | _ \<Rightarrow> Inl ValueExn)"

datatype role_status = RoleActive | RoleInactive

text \<open>The CHECK of \<open>role_permissions.permission_id\<close>, a tenant permission only, at most 128 characters.\<close>

definition check_permission_id_format :: "pystr \<Rightarrow> bool" where
  "check_permission_id_format s \<longleftrightarrow>
     fullmatch (Cat (lit_rx (lit ''tenant''))
       (Cat (lit_rx (lit ''.'')) (Cat lower_class (Cat (Many ident_class)
         (Cat (lit_rx (lit ''.'')) (Cat lower_class (Many ident_class))))))) s"

section \<open>What the patterns accept\<close>

definition ident_char :: "nat \<Rightarrow> bool" where
  "ident_char c \<longleftrightarrow> is_lower c \<or> is_digit c \<or> c = 95"

fun is_ident :: "pystr \<Rightarrow> bool" where
  "is_ident [] = False"
| "is_ident (c # cs) = (is_lower c \<and> list_all ident_char cs)"

lemma in_lower_class: "in_class c [(97, 122)] \<longleftrightarrow> is_lower c"
  by (simp add: is_lower_def)

lemma in_ident_class: "in_class c [(97, 122), (48, 57), (95, 95)] \<longleftrightarrow> ident_char c"
  by (auto simp: ident_char_def is_lower_def is_digit_def)

lemma lang_ident: "lang (Cat lower_class (Many ident_class)) = {w. is_ident w}"
proof -
  have "v \<in> lang (Cat lower_class (Many ident_class)) \<longleftrightarrow> is_ident v" for v
    unfolding lower_class_def lang_Cat_Class
    by (cases v) (simp_all add: ident_class_def in_lower_class in_ident_class del: in_class_simps lang.simps(6))
  then show ?thesis by blast
qed

lemma lang_Cat_iff: "w \<in> lang (Cat r s) \<longleftrightarrow> (\<exists>u v. w = u @ v \<and> u \<in> lang r \<and> v \<in> lang s)"
  by auto

lemma lang_Cat_assoc: "w \<in> lang (Cat a (Cat b c)) \<longleftrightarrow> w \<in> lang (Cat (Cat a b) c)"
  unfolding lang_Cat_iff by (metis append_assoc)

lemma lang_Cat_lit: "w \<in> lang (Cat (lit_rx s) r) \<longleftrightarrow> (\<exists>v. w = s @ v \<and> v \<in> lang r)"
  unfolding lang_Cat_iff lang_lit_rx by blast

lemma lang_ident_Cat:
  "w \<in> lang (Cat lower_class (Cat (Many ident_class) r)) \<longleftrightarrow>
     (\<exists>u v. w = u @ v \<and> is_ident u \<and> v \<in> lang r)"
  unfolding lang_Cat_assoc unfolding lang_Cat_iff [of w _ r] lang_ident by blast

lemma lang_dotted:
  "w \<in> lang (Cat (lit_rx (lit ''.'')) (Cat lower_class (Cat (Many ident_class)
         (Cat (lit_rx (lit ''.'')) (Cat lower_class (Many ident_class)))))) \<longleftrightarrow>
   (\<exists>resource action. is_ident resource \<and> is_ident action \<and>
      w = lit ''.'' @ resource @ lit ''.'' @ action)"
  unfolding lang_Cat_lit lang_ident_Cat lang_ident mem_Collect_eq by blast

text \<open>
  A value is accepted as a permission identifier exactly when it is a string
  \<open>scope.resource.action\<close> with scope \<open>tenant\<close> or \<open>platform\<close> and two lowercase identifiers; the
  database's CHECK on assigned permissions accepts exactly those of scope \<open>tenant\<close>.
\<close>

theorem permission_id_accepts:
  "(PermissionId (PStr s) = Inr s \<longleftrightarrow>
     (\<exists>scope resource action. scope \<in> {lit ''tenant'', lit ''platform''} \<and>
        is_ident resource \<and> is_ident action \<and>
        s = scope @ lit ''.'' @ resource @ lit ''.'' @ action)) \<and>
   (check_permission_id_format s \<longleftrightarrow>
     (\<exists>resource action. is_ident resource \<and> is_ident action \<and>
        s = lit ''tenant'' @ lit ''.'' @ resource @ lit ''.'' @ action))"
proof -
  have "PermissionId (PStr s) = Inr s \<longleftrightarrow> s \<in> lang permission_id_pattern"
    by (simp add: PermissionId_def fullmatch_lang)
  also have "\<dots> \<longleftrightarrow> (\<exists>scope resource action. scope \<in> {lit ''tenant'', lit ''platform''} \<and>
      is_ident resource \<and> is_ident action \<and> s = scope @ lit ''.'' @ resource @ lit ''.'' @ action)"
    unfolding permission_id_pattern_def lang_Cat_iff [of s "Or _ _"] lang_dotted lang.simps(5) lang_lit_rx
    by blast
  finally show ?thesis
    unfolding check_permission_id_format_def fullmatch_lang lang_Cat_lit [of s] lang_dotted by blast
qed

lemma length_remdups_distinct: "length xs = length (remdups xs) \<longleftrightarrow> distinct xs"
  by (metis distinct_remdups distinct_remdups_id length_remdups_card_conv card_distinct)

lemma validated_ids_eq_Inr:
  "validated_ids vs = Inr ps \<longleftrightarrow> list_all2 (\<lambda>v p. PermissionId v = Inr p) vs ps"
  by (induction vs arbitrary: ps) (auto simp: and_then_eq_Inr list_all2_Cons1)

text \<open>
  A catalogue is built exactly from values that are all valid identifiers without duplicates, and
  the shipped catalogue builds: it holds the nine declared permissions.
\<close>

theorem build_permission_catalog_ok:
  "(build_permission_catalog values = Inr ids \<longleftrightarrow>
      list_all2 (\<lambda>v p. PermissionId v = Inr p) values ids \<and> distinct ids) \<and>
   permission_catalog = Inr catalog_ids"
proof
  show "build_permission_catalog values = Inr ids \<longleftrightarrow>
      list_all2 (\<lambda>v p. PermissionId v = Inr p) values ids \<and> distinct ids"
    by (auto simp: build_permission_catalog_def and_then_eq_Inr validated_ids_eq_Inr
        length_remdups_distinct [symmetric])
  show "permission_catalog = Inr catalog_ids"
    by code_simp
qed

text \<open>
  A role key is accepted exactly when it is a lowercase identifier of at most 63 characters.
\<close>

theorem role_key_accepts:
  "RoleKey (PStr s) = Inr s \<longleftrightarrow> is_ident s \<and> length s \<le> 63"
proof -
  have "s \<in> lang role_key_pattern \<longleftrightarrow> is_ident s \<and> length s \<le> 63"
    unfolding role_key_pattern_def lower_class_def lang_Cat_Class
    by (cases s) (auto simp: ident_class_def lang_upto_Class in_lower_class in_ident_class
        simp del: in_class_simps)
  then show ?thesis by (simp add: RoleKey_def fullmatch_lang)
qed

end
