(* ===== verification/Identity.thy ===== *)
theory Identity
  imports Permissions
begin

text \<open>
  Tenants and identities: the slug contract and the tenant lifecycle (\<open>models/tenant.py\<close>), e-mail
  normalisation and the user and membership lifecycles (\<open>models/identity.py\<close>), UUID versions and
  the tenant context (\<open>tenancy/context.py\<close>, \<open>tenancy/explicit.py\<close>, \<open>tenancy/resolution.py\<close>). The
  three lifecycles share the locale \<open>lifecycle\<close>.
\<close>

section \<open>Slugs\<close>

definition slug_edge :: rx where
  "slug_edge = Class [(97, 122), (48, 57)]"

text \<open>\<open>^[a-z0-9]([a-z0-9-]*[a-z0-9])?$\<close>\<close>

definition slug_pattern :: rx where
  "slug_pattern = Cat slug_edge (Opt (Cat (Many (Class [(97, 122), (48, 57), (45, 45)])) slug_edge))"

definition validate_tenant_slug :: "pystr \<Rightarrow> exn + pystr" where
  "validate_tenant_slug slug =
     (if \<not> (3 \<le> length slug \<and> length slug \<le> 63) then Inl ValueExn
      else if \<not> fullmatch slug_pattern slug then Inl ValueExn
      else if contains (lit ''--'') slug then Inl ValueExn
      else Inr slug)"

text \<open>The CHECK \<open>slug_shape\<close> of the tenants table.\<close>

definition check_slug_shape :: "pystr \<Rightarrow> bool" where
  "check_slug_shape slug \<longleftrightarrow>
     3 \<le> length slug \<and> length slug \<le> 63 \<and> fullmatch slug_pattern slug \<and>
     \<not> contains (lit ''--'') slug"

definition slug_char :: "nat \<Rightarrow> bool" where
  "slug_char c \<longleftrightarrow> is_lower c \<or> is_digit c"

lemma in_slug_edge: "in_class c [(97, 122), (48, 57)] \<longleftrightarrow> slug_char c"
  by (auto simp: slug_char_def is_lower_def is_digit_def)

lemma in_slug_class: "in_class c [(97, 122), (48, 57), (45, 45)] \<longleftrightarrow> slug_char c \<or> c = 45"
  by (auto simp: slug_char_def is_lower_def is_digit_def)

lemma lang_slug_edge: "w \<in> lang slug_edge \<longleftrightarrow> (\<exists>c. w = [c] \<and> slug_char c)"
  by (auto simp: slug_edge_def in_slug_edge simp del: in_class_simps)

lemma lang_slug_middle:
  "w \<in> lang (Many (Class [(97, 122), (48, 57), (45, 45)])) \<longleftrightarrow> list_all (\<lambda>c. slug_char c \<or> c = 45) w"
  by (simp only: lang_Many_Class in_slug_class mem_Collect_eq)

lemma lang_slug_pattern:
  "w \<in> lang slug_pattern \<longleftrightarrow>
     w \<noteq> [] \<and> slug_char (hd w) \<and> slug_char (last w) \<and> list_all (\<lambda>c. slug_char c \<or> c = 45) w"
proof
  assume "w \<in> lang slug_pattern"
  then obtain a v where w: "w = a @ v" and a: "a \<in> lang slug_edge"
    and v: "v = [] \<or> v \<in> lang (Cat (Many (Class [(97, 122), (48, 57), (45, 45)])) slug_edge)"
    unfolding slug_pattern_def lang_Cat_iff [of w] lang_Opt by blast
  from v consider "v = []" | m z where "v = m @ z"
    "list_all (\<lambda>c. slug_char c \<or> c = 45) m" "z \<in> lang slug_edge"
    unfolding lang_Cat_iff lang_slug_middle by blast
  then show "w \<noteq> [] \<and> slug_char (hd w) \<and> slug_char (last w) \<and>
      list_all (\<lambda>c. slug_char c \<or> c = 45) w"
    using w a by cases (auto simp: lang_slug_edge)
next
  assume A: "w \<noteq> [] \<and> slug_char (hd w) \<and> slug_char (last w) \<and>
      list_all (\<lambda>c. slug_char c \<or> c = 45) w"
  then obtain c cs where w: "w = c # cs" by (cases w) auto
  show "w \<in> lang slug_pattern"
  proof (cases cs rule: rev_cases)
    case Nil
    with A w have "[c] \<in> lang slug_edge" by (simp add: lang_slug_edge)
    with Nil w show ?thesis unfolding slug_pattern_def lang_Cat_iff [of w] lang_Opt
      by (metis append_Nil2 insertI1)
  next
    case (snoc m z)
    with A w have "[c] \<in> lang slug_edge" "[z] \<in> lang slug_edge"
      "list_all (\<lambda>c. slug_char c \<or> c = 45) m" by (auto simp: lang_slug_edge)
    then have "m @ [z] \<in> lang (Cat (Many (Class [(97, 122), (48, 57), (45, 45)])) slug_edge)"
      unfolding lang_Cat_iff lang_slug_middle by blast
    with \<open>[c] \<in> lang slug_edge\<close> snoc w show ?thesis
      unfolding slug_pattern_def lang_Cat_iff [of w] lang_Opt
      by (metis append_Cons append_Nil insertI2)
  qed
qed

text \<open>
  A slug is accepted exactly when it has 3 to 63 characters, all lowercase ASCII letters, digits
  or hyphens, starts and ends with a letter or a digit and has no two hyphens in a row; the
  table's CHECK accepts the same slugs.
\<close>

theorem validate_tenant_slug_accepts:
  "(validate_tenant_slug slug = Inr slug \<longleftrightarrow>
      3 \<le> length slug \<and> length slug \<le> 63 \<and> list_all (\<lambda>c. slug_char c \<or> c = 45) slug \<and>
      slug_char (hd slug) \<and> slug_char (last slug) \<and> (\<nexists>a b. slug = a @ lit ''--'' @ b)) \<and>
   (is_ok (validate_tenant_slug slug) \<longleftrightarrow> check_slug_shape slug)"
  by (auto simp: validate_tenant_slug_def check_slug_shape_def fullmatch_lang lang_slug_pattern contains_iff)

section \<open>E-mail addresses\<close>

text \<open>
  \<open>[A-Za-z0-9.!#$%&'*+/=?^_`{|}~-]+@\<close> followed by labels
  \<open>[A-Za-z0-9](?:[A-Za-z0-9-]{0,61}[A-Za-z0-9])?\<close> separated by dots, at least two of them.
\<close>

definition email_local_class :: rx where
  "email_local_class = Class
     [(65, 90), (97, 122), (48, 57), (46, 46), (33, 33), (35, 35), (36, 36), (37, 37), (38, 38),
      (39, 39), (42, 42), (43, 43), (47, 47), (61, 61), (63, 63), (94, 94), (95, 95), (96, 96),
      (123, 123), (124, 124), (125, 125), (126, 126), (45, 45)]"

definition email_alnum :: rx where
  "email_alnum = Class [(65, 90), (97, 122), (48, 57)]"

definition email_label :: rx where
  "email_label = Cat email_alnum
     (Opt (Cat (between 0 61 (Class [(65, 90), (97, 122), (48, 57), (45, 45)])) email_alnum))"

definition ascii_email :: rx where
  "ascii_email =
     Cat (Many1 email_local_class)
       (Cat (lit_rx (lit ''@'')) (Cat email_label (Many1 (Cat (lit_rx (lit ''.'')) email_label))))"

text \<open>
  \<open>nfc\<close> stands for \<open>unicodedata.normalize("NFC", _)\<close>. The matched text is ASCII, where
  \<open>casefold\<close> is \<open>ascii_lower\<close>.
\<close>

definition normalize_email :: "(pystr \<Rightarrow> pystr) \<Rightarrow> pystr \<Rightarrow> exn + pystr" where
  "normalize_email nfc value =
     (let normalized = strip (nfc value)
      in if length normalized > 254 \<or> \<not> fullmatch ascii_email normalized then Inl ValueExn
         else Inr (ascii_lower normalized))"

text \<open>A pattern all of whose classes are kept by a map of characters matches the mapped text.\<close>

primrec closed_under :: "(nat \<Rightarrow> nat) \<Rightarrow> rx \<Rightarrow> bool" where
  "closed_under f Never = True"
| "closed_under f Blank = True"
| "closed_under f (Class rs) = (\<forall>c. in_class c rs \<longrightarrow> in_class (f c) rs)"
| "closed_under f (Cat r s) = (closed_under f r \<and> closed_under f s)"
| "closed_under f (Or r s) = (closed_under f r \<and> closed_under f s)"
| "closed_under f (Many r) = closed_under f r"

primrec only_chars :: "(nat \<Rightarrow> bool) \<Rightarrow> rx \<Rightarrow> bool" where
  "only_chars P Never = True"
| "only_chars P Blank = True"
| "only_chars P (Class rs) = (\<forall>c. in_class c rs \<longrightarrow> P c)"
| "only_chars P (Cat r s) = (only_chars P r \<and> only_chars P s)"
| "only_chars P (Or r s) = (only_chars P r \<and> only_chars P s)"
| "only_chars P (Many r) = only_chars P r"

lemma repeats_map:
  "w \<in> repeats L \<Longrightarrow> (\<And>v. v \<in> L \<Longrightarrow> map f v \<in> L) \<Longrightarrow> map f w \<in> repeats L"
  by (induction rule: repeats.induct) (auto intro: repeats.intros)

lemma repeats_all:
  "w \<in> repeats L \<Longrightarrow> (\<And>v. v \<in> L \<Longrightarrow> list_all P v) \<Longrightarrow> list_all P w"
  by (induction rule: repeats.induct) auto

lemma lang_closed_under: "closed_under f r \<Longrightarrow> w \<in> lang r \<Longrightarrow> map f w \<in> lang r"
proof (induction r arbitrary: w)
  case (Cat r s)
  then show ?case by (fastforce simp: lang_Cat_iff simp del: lang.simps)
next
  case (Many r)
  then show ?case by (auto intro: repeats_map)
qed auto

lemma lang_only_chars: "only_chars P r \<Longrightarrow> w \<in> lang r \<Longrightarrow> list_all P w"
proof (induction r arbitrary: w)
  case (Many r)
  then show ?case by (auto intro: repeats_all)
qed fastforce+

lemma closed_under_derived [simp]:
  "closed_under f (Opt r) = closed_under f r"
  "closed_under f (Many1 r) = closed_under f r"
  "closed_under f r \<Longrightarrow> closed_under f (exactly n r)"
  "closed_under f r \<Longrightarrow> closed_under f (upto_times n r)"
  "closed_under f r \<Longrightarrow> closed_under f (between m k r)"
proof -
  show "closed_under f (Opt r) = closed_under f r" "closed_under f (Many1 r) = closed_under f r"
    by (auto simp: Opt_def Many1_def)
  show e: "closed_under f r \<Longrightarrow> closed_under f (exactly n r)" for n by (induction n) auto
  show u: "closed_under f r \<Longrightarrow> closed_under f (upto_times n r)" for n by (induction n) auto
  show "closed_under f r \<Longrightarrow> closed_under f (between m k r)"
    using e u by (simp add: between_def)
qed

lemma only_chars_derived [simp]:
  "only_chars P (Opt r) = only_chars P r"
  "only_chars P (Many1 r) = only_chars P r"
  "only_chars P r \<Longrightarrow> only_chars P (exactly n r)"
  "only_chars P r \<Longrightarrow> only_chars P (upto_times n r)"
  "only_chars P r \<Longrightarrow> only_chars P (between m k r)"
proof -
  show "only_chars P (Opt r) = only_chars P r" "only_chars P (Many1 r) = only_chars P r"
    by (auto simp: Opt_def Many1_def)
  show e: "only_chars P r \<Longrightarrow> only_chars P (exactly n r)" for n by (induction n) auto
  show u: "only_chars P r \<Longrightarrow> only_chars P (upto_times n r)" for n by (induction n) auto
  show "only_chars P r \<Longrightarrow> only_chars P (between m k r)"
    using e u by (simp add: between_def)
qed

lemma closed_under_lit: "list_all (\<lambda>c. f c = c) w \<Longrightarrow> closed_under f (lit_rx w)"
  by (induction w) (auto simp: in_class_def)

lemma only_chars_lit: "list_all P w \<Longrightarrow> only_chars P (lit_rx w)"
  by (induction w) (auto simp: in_class_def)

definition to_lower :: "nat \<Rightarrow> nat" where
  "to_lower c = (if is_upper c then c + 32 else c)"

lemma ascii_lower_map: "ascii_lower s = map to_lower s"
  by (simp add: ascii_lower_def to_lower_def)

lemma closed_under_ascii_email: "closed_under to_lower ascii_email"
proof -
  have "closed_under to_lower (lit_rx (lit ''@''))" "closed_under to_lower (lit_rx (lit ''.''))"
    by (rule closed_under_lit, simp add: lit_def to_lower_def is_upper_def)+
  moreover have "closed_under to_lower email_local_class"
    unfolding email_local_class_def closed_under.simps
    by (intro allI impI) (auto simp: to_lower_def is_upper_def split: if_splits)
  moreover have "closed_under to_lower email_alnum"
    "closed_under to_lower (Class [(65, 90), (97, 122), (48, 57), (45, 45)])"
    by (auto simp: email_alnum_def to_lower_def is_upper_def)
  moreover from this have "closed_under to_lower email_label"
    by (simp add: email_label_def del: closed_under.simps(3))
  ultimately show ?thesis by (simp add: ascii_email_def)
qed

definition plain_char :: "nat \<Rightarrow> bool" where
  "plain_char c \<longleftrightarrow> 32 < c \<and> c < 127"

lemma only_chars_ascii_email: "only_chars plain_char ascii_email"
proof -
  have "only_chars plain_char (lit_rx (lit ''@''))" "only_chars plain_char (lit_rx (lit ''.''))"
    by (rule only_chars_lit, simp add: lit_def plain_char_def)+
  moreover have "only_chars plain_char email_local_class"
    by (auto simp: email_local_class_def plain_char_def)
  moreover have "only_chars plain_char email_label"
    by (auto simp: email_label_def email_alnum_def plain_char_def)
  ultimately show ?thesis by (simp add: ascii_email_def)
qed

lemma dropWhile_none: "list_all (\<lambda>c. \<not> P c) w \<Longrightarrow> dropWhile P w = w"
  by (cases w) auto

lemma strip_plain: "list_all plain_char w \<Longrightarrow> strip w = w"
proof -
  assume "list_all plain_char w"
  then have "list_all (\<lambda>c. \<not> is_space c) w"
    by (auto simp: list_all_iff plain_char_def is_space_def)
  then show ?thesis by (simp add: strip_def dropWhile_none)
qed

lemma normalize_email_fixed:
  assumes nfc: "\<And>s. is_ascii s \<Longrightarrow> nfc s = s"
    and e: "e \<in> lang ascii_email" "length e \<le> 254"
  shows "normalize_email nfc e = Inr (ascii_lower e)"
proof -
  have plain: "list_all plain_char e" using lang_only_chars [OF only_chars_ascii_email e(1)] .
  then have "is_ascii e" by (auto simp: is_ascii_def list_all_iff plain_char_def)
  with e show ?thesis by (simp add: normalize_email_def nfc strip_plain [OF plain] fullmatch_lang)
qed

text \<open>
  A normalised address is ASCII text of at most 254 characters that matches the e-mail pattern,
  has no uppercase letter and is its own normal form, so that the lookup key is canonical. The
  hypothesis is Unicode's guarantee that NFC keeps ASCII text.
\<close>

theorem normalize_email_canonical:
  assumes "\<forall>s. is_ascii s \<longrightarrow> nfc s = s" and "normalize_email nfc value = Inr e"
  shows "is_ascii e \<and> length e \<le> 254 \<and> fullmatch ascii_email e \<and> \<not> list_ex is_upper e \<and>
         normalize_email nfc e = Inr e"
proof -
  let ?n = "strip (nfc value)"
  from assms(2) have n: "length ?n \<le> 254" "?n \<in> lang ascii_email" and e: "e = map to_lower ?n"
    by (auto simp: normalize_email_def Let_def fullmatch_lang ascii_lower_map split: if_splits)
  have lang: "e \<in> lang ascii_email"
    using lang_closed_under [OF closed_under_ascii_email n(2)] by (simp only: e)
  then have plain: "list_all plain_char e" by (rule lang_only_chars [OF only_chars_ascii_email])
  have up: "\<not> list_ex is_upper e" by (auto simp: e list_ex_iff to_lower_def is_upper_def split: if_splits)
  then have "ascii_lower e = e" by (simp add: ascii_lower_map to_lower_def list_ex_iff map_idI)
  moreover have "normalize_email nfc e = Inr (ascii_lower e)"
    using assms(1) lang n(1) by (intro normalize_email_fixed) (auto simp: e)
  ultimately show ?thesis
    using plain lang up n(1) by (auto simp: is_ascii_def list_all_iff plain_char_def fullmatch_lang e)
qed

lemma short_label: "is_upper c \<or> is_lower c \<or> is_digit c \<Longrightarrow> [c] \<in> lang email_label"
proof -
  assume "is_upper c \<or> is_lower c \<or> is_digit c"
  then have "[c] \<in> lang email_alnum"
    by (auto simp: email_alnum_def is_upper_def is_lower_def is_digit_def)
  then show ?thesis unfolding email_label_def lang_Cat_iff [of "[c]"] lang_Opt by force
qed

lemma short_email: "lit ''A@b.c'' \<in> lang ascii_email"
proof -
  have "[65] \<in> lang (Many1 email_local_class)"
    unfolding Many1_def email_local_class_def lang_Cat_Class lang_Many_Class by simp
  moreover have b: "[98] \<in> lang email_label" "[99] \<in> lang email_label"
    by (rule short_label, simp add: is_lower_def)+
  moreover have "[46, 99] \<in> lang (Cat (lit_rx (lit ''.'')) email_label)"
    unfolding lang_Cat_lit using b(2) by (simp add: lit_def)
  then have "[46, 99] \<in> lang (Many1 (Cat (lit_rx (lit ''.'')) email_label))"
    unfolding Many1_def lang_Cat_iff [of "[46, 99]" "Cat _ _" "Many _"] lang.simps(6)
    by (intro exI [of _ "[46, 99]"] exI [of _ "[]"]) (simp add: repeats.none)
  ultimately have "[65] @ lit ''@'' @ [98] @ [46, 99] \<in> lang ascii_email"
    unfolding ascii_email_def lang_Cat_iff [of _ "Many1 email_local_class"] lang_Cat_lit
      lang_Cat_iff [of _ email_label] by blast
  then show ?thesis by (simp add: lit_def)
qed

theorem normalize_email_canonical_witness:
  "normalize_email (\<lambda>s. s) (lit ''a@b.c'') = Inr (lit ''a@b.c'')"
proof -
  have nfc: "\<forall>s. is_ascii s \<longrightarrow> (\<lambda>s. s) s = (s :: pystr)" by simp
  have "strip (lit '' A@b.c '') = lit ''A@b.c''" "ascii_lower (lit ''A@b.c'') = lit ''a@b.c''"
    by code_simp+
  then have "normalize_email (\<lambda>s. s) (lit '' A@b.c '') = Inr (lit ''a@b.c'')"
    using short_email by (simp add: normalize_email_def fullmatch_lang)
  from normalize_email_canonical [OF nfc this] show ?thesis by (elim conjE)
qed

section \<open>Lifecycles\<close>

text \<open>
  A status lifecycle: the allowed targets of each status, the status new rows start in and the
  terminal one. \<open>run_moves\<close> applies a sequence of moves, each guarded as the code guards it.
\<close>

primrec run_moves :: "('s \<Rightarrow> 's \<Rightarrow> exn + unit) \<Rightarrow> 's \<Rightarrow> 's list \<Rightarrow> exn + 's" where
  "run_moves check s [] = Inr s"
| "run_moves check s (t # ts) = and_then (check s t) (\<lambda>_. run_moves check t ts)"

locale lifecycle =
  fixes targets :: "'s \<Rightarrow> 's list"
    and check :: "'s \<Rightarrow> 's \<Rightarrow> exn + unit"
    and initial final :: 's
  assumes check_iff: "is_ok (check s t) \<longleftrightarrow> t \<in> set (targets s)"
    and no_self: "s \<notin> set (targets s)"
    and no_return: "initial \<notin> set (targets s)"
    and final_stuck: "targets final = []"
    and can_end: "s \<noteq> final \<Longrightarrow> final \<in> set (targets s)"
begin

lemma check_final: "\<not> is_ok (check final t)"
  by (simp add: check_iff final_stuck)

lemma run_from_final: "run_moves check final ts = Inr s \<Longrightarrow> ts = []"
proof (cases ts)
  case (Cons t ts')
  assume "run_moves check final ts = Inr s"
  with Cons check_final [of t] show ?thesis by (auto simp: and_then_eq_Inr is_ok_iff)
qed

lemma run_append:
  "run_moves check s (xs @ ys) = and_then (run_moves check s xs) (\<lambda>t. run_moves check t ys)"
proof (induction xs arbitrary: s)
  case (Cons x xs)
  then show ?case by (cases "check s x") auto
qed simp

text \<open>The terminal status can only be the last of an accepted sequence.\<close>

lemma final_is_last:
  assumes "run_moves check s ts = Inr t" shows "final \<notin> set (butlast ts)"
proof
  assume "final \<in> set (butlast ts)"
  then obtain xs ys where "butlast ts = xs @ final # ys" by (meson split_list)
  moreover have "ts \<noteq> []" using \<open>final \<in> set (butlast ts)\<close> by auto
  ultimately have ts: "ts = (xs @ [final]) @ (ys @ [last ts])"
    by (metis append.assoc append_Cons append_Nil append_butlast_last_id)
  have "and_then (run_moves check s (xs @ [final])) (\<lambda>m. run_moves check m (ys @ [last ts])) = Inr t"
    using assms ts run_append [of s "xs @ [final]" "ys @ [last ts]"] by argo
  then obtain m where m: "run_moves check s (xs @ [final]) = Inr m"
    "run_moves check m (ys @ [last ts]) = Inr t"
    by (cases "run_moves check s (xs @ [final])") auto
  from m(1) have "m = final" by (auto simp: run_append and_then_eq_Inr)
  with m(2) run_from_final show False by blast
qed

lemma initial_not_entered:
  "run_moves check s ts = Inr t \<Longrightarrow> initial \<notin> set ts"
proof (induction ts arbitrary: s)
  case (Cons x xs)
  then obtain u where "check s x = Inr u" "run_moves check x xs = Inr t"
    by (auto simp: and_then_eq_Inr)
  with Cons.IH no_return check_iff [of s x] show ?case by auto
qed simp

lemma can_finish: "s \<noteq> final \<Longrightarrow> run_moves check s [final] = Inr final"
  using can_end [of s] check_iff [of s final] by (auto simp: is_ok_iff)

lemma lifecycle_facts:
  "(\<forall>t. run_moves check s ts = Inr t \<longrightarrow> final \<notin> set (butlast ts) \<and> initial \<notin> set ts) \<and>
   (s = final \<or> run_moves check s [final] = Inr final)"
  using final_is_last initial_not_entered can_finish by blast

end

datatype tenant_status = TenantPending | TenantActive | TenantSuspended | TenantArchived

datatype user_status = UserPending | UserActive | UserSuspended | UserArchived

datatype membership_status =
  MembershipPending | MembershipActive | MembershipSuspended | MembershipLeft

fun tenant_transitions :: "tenant_status \<Rightarrow> tenant_status list" where
  "tenant_transitions TenantPending = [TenantActive, TenantArchived]"
| "tenant_transitions TenantActive = [TenantSuspended, TenantArchived]"
| "tenant_transitions TenantSuspended = [TenantActive, TenantArchived]"
| "tenant_transitions TenantArchived = []"

fun user_transitions :: "user_status \<Rightarrow> user_status list" where
  "user_transitions UserPending = [UserActive, UserArchived]"
| "user_transitions UserActive = [UserSuspended, UserArchived]"
| "user_transitions UserSuspended = [UserActive, UserArchived]"
| "user_transitions UserArchived = []"

fun membership_transitions :: "membership_status \<Rightarrow> membership_status list" where
  "membership_transitions MembershipPending = [MembershipActive, MembershipSuspended, MembershipLeft]"
| "membership_transitions MembershipActive = [MembershipSuspended, MembershipLeft]"
| "membership_transitions MembershipSuspended = [MembershipActive, MembershipLeft]"
| "membership_transitions MembershipLeft = []"

definition can_transition :: "tenant_status \<Rightarrow> tenant_status \<Rightarrow> bool" where
  "can_transition current target \<longleftrightarrow> target \<in> set (tenant_transitions current)"

definition assert_transition_allowed :: "tenant_status \<Rightarrow> tenant_status \<Rightarrow> exn + unit" where
  "assert_transition_allowed current target =
     (if \<not> can_transition current target then Inl ValueExn else Inr ())"

definition assert_user_transition_allowed :: "user_status \<Rightarrow> user_status \<Rightarrow> exn + unit" where
  "assert_user_transition_allowed current target =
     (if target \<notin> set (user_transitions current) then Inl ValueExn else Inr ())"

definition assert_membership_transition_allowed ::
  "membership_status \<Rightarrow> membership_status \<Rightarrow> exn + unit" where
  "assert_membership_transition_allowed current target =
     (if target \<notin> set (membership_transitions current) then Inl ValueExn else Inr ())"

interpretation tenant_cycle: lifecycle tenant_transitions assert_transition_allowed TenantPending TenantArchived
proof
  show "TenantArchived \<in> set (tenant_transitions s)" if "s \<noteq> TenantArchived" for s
    using that by (cases s) auto
  show "s \<notin> set (tenant_transitions s)" "TenantPending \<notin> set (tenant_transitions s)" for s
    by (cases s; simp)+
qed (auto simp: assert_transition_allowed_def can_transition_def)

interpretation user_cycle: lifecycle user_transitions assert_user_transition_allowed UserPending UserArchived
proof
  show "UserArchived \<in> set (user_transitions s)" if "s \<noteq> UserArchived" for s
    using that by (cases s) auto
  show "s \<notin> set (user_transitions s)" "UserPending \<notin> set (user_transitions s)" for s
    by (cases s; simp)+
qed (auto simp: assert_user_transition_allowed_def)

interpretation membership_cycle:
  lifecycle membership_transitions assert_membership_transition_allowed MembershipPending MembershipLeft
proof
  show "MembershipLeft \<in> set (membership_transitions s)" if "s \<noteq> MembershipLeft" for s
    using that by (cases s) auto
  show "s \<notin> set (membership_transitions s)" "MembershipPending \<notin> set (membership_transitions s)" for s
    by (cases s; simp)+
qed (auto simp: assert_membership_transition_allowed_def)

text \<open>
  In every accepted sequence of status changes the terminal status (\<open>archived\<close> for tenants and
  users, \<open>left\<close> for memberships) can only be the last one and \<open>pending\<close> is never entered again, and
  from every other status the terminal one can be reached in one move.
\<close>

theorem lifecycles_end:
  "(case run_moves assert_transition_allowed t ts of
      Inl e \<Rightarrow> True | Inr t' \<Rightarrow> TenantArchived \<notin> set (butlast ts) \<and> TenantPending \<notin> set ts) \<and>
   (t = TenantArchived \<or> run_moves assert_transition_allowed t [TenantArchived] = Inr TenantArchived) \<and>
   (case run_moves assert_user_transition_allowed u us of
      Inl e \<Rightarrow> True | Inr u' \<Rightarrow> UserArchived \<notin> set (butlast us) \<and> UserPending \<notin> set us) \<and>
   (u = UserArchived \<or> run_moves assert_user_transition_allowed u [UserArchived] = Inr UserArchived) \<and>
   (case run_moves assert_membership_transition_allowed m ms of
      Inl e \<Rightarrow> True | Inr m' \<Rightarrow> MembershipLeft \<notin> set (butlast ms) \<and> MembershipPending \<notin> set ms) \<and>
   (m = MembershipLeft \<or>
      run_moves assert_membership_transition_allowed m [MembershipLeft] = Inr MembershipLeft)"
  using tenant_cycle.lifecycle_facts [of t ts] user_cycle.lifecycle_facts [of u us]
    membership_cycle.lifecycle_facts [of m ms]
  by (auto split: sum.split)

section \<open>Tenant context\<close>

text \<open>
  \<open>UUID.version\<close> is defined for the RFC 4122 variant only (bit 63 set, bit 62 clear), where it is
  the nibble at bit 76.
\<close>

definition uuid_version :: "uuid \<Rightarrow> nat option" where
  "uuid_version u = (if bit u 63 \<and> \<not> bit u 62 then Some (drop_bit 76 u mod 16) else None)"

definition InvalidTenantIdError :: app_error_class where
  "InvalidTenantIdError = AppError\<lparr>ec_message := lit ''A valid tenant identity is required.''\<rparr>"

definition TenantContextRequiredError :: app_error_class where
  "TenantContextRequiredError = AppError\<lparr>ec_message := lit ''A trusted tenant context is required.''\<rparr>"

text \<open>\<open>None\<close> stands for a value that is not a \<open>UUID\<close>, or not a \<open>TenantContext\<close>.\<close>

definition validate_tenant_id :: "uuid option \<Rightarrow> exn + uuid" where
  "validate_tenant_id value =
     (case value of None \<Rightarrow> Inl (AppExn InvalidTenantIdError)
      | Some u \<Rightarrow> if uuid_version u \<noteq> Some 7 then Inl (AppExn InvalidTenantIdError) else Inr u)"

record tenant_context =
  tc_tenant_id :: uuid

definition TenantContext :: "uuid option \<Rightarrow> exn + tenant_context" where
  "TenantContext value = and_then (validate_tenant_id value) (\<lambda>u. Inr \<lparr>tc_tenant_id = u\<rparr>)"

definition require_context :: "tenant_context option \<Rightarrow> exn + tenant_context" where
  "require_context context =
     (case context of
        None \<Rightarrow> Inl (AppExn TenantContextRequiredError)
      | Some c \<Rightarrow> and_then (validate_tenant_id (Some (tc_tenant_id c))) (\<lambda>_. Inr c))"

text \<open>The two resolvers: an explicit identity for services, and the HTTP default that always refuses.\<close>

definition ExplicitTenantResolver :: "uuid option \<Rightarrow> exn + uuid" where
  "ExplicitTenantResolver value = validate_tenant_id value"

definition explicit_resolve :: "uuid \<Rightarrow> exn + tenant_context" where
  "explicit_resolve tenant_id = TenantContext (Some tenant_id)"

definition no_tenant_resolve :: "exn + tenant_context" where
  "no_tenant_resolve = Inl (AppExn TenantContextRequiredError)"

locale tenant_resolver =
  fixes resolve :: "exn + tenant_context"
  assumes trusted: "resolve = Inr c \<Longrightarrow> uuid_version (tc_tenant_id c) = Some 7"
begin

lemma resolved_is_accepted: "resolve = Inr c \<Longrightarrow> require_context (Some c) = Inr c"
  using trusted [of c] by (simp add: require_context_def validate_tenant_id_def)

end

lemma validate_tenant_id_eq_Inr:
  "validate_tenant_id value = Inr u \<longleftrightarrow> value = Some u \<and> uuid_version u = Some 7"
  by (auto simp: validate_tenant_id_def split: option.splits)

lemma TenantContext_eq_Inr:
  "TenantContext value = Inr c \<longleftrightarrow> value = Some (tc_tenant_id c) \<and> uuid_version (tc_tenant_id c) = Some 7"
  by (cases c) (auto simp: TenantContext_def and_then_eq_Inr validate_tenant_id_eq_Inr)

lemma require_context_eq_Inr:
  "require_context context = Inr c \<longleftrightarrow> context = Some c \<and> uuid_version (tc_tenant_id c) = Some 7"
  by (auto simp: require_context_def and_then_eq_Inr validate_tenant_id_eq_Inr split: option.splits)

interpretation explicit: tenant_resolver "explicit_resolve tenant_id" for tenant_id
  by standard (simp add: explicit_resolve_def TenantContext_eq_Inr)

interpretation no_tenant: tenant_resolver no_tenant_resolve
  by standard (simp add: no_tenant_resolve_def)

end
