(* ===== verification/AuditContracts.thy ===== *)
theory AuditContracts
  imports Identity
begin

text \<open>
  Security audit events: the closed catalogues, the policy of each event type and the validation of
  an event (\<open>audit/contracts.py\<close>), the CHECK constraints generated from the catalogues
  (\<open>audit/schema.py\<close>) and the frozen copy the migration installs (\<open>0014\<close>). The three agree.
\<close>

section \<open>Closed catalogues\<close>

datatype security_event_type =
    LOGIN_SUCCESS | LOGIN_FAILURE | LOGOUT | SESSION_REVOKED | ALL_SESSIONS_REVOKED
  | PASSWORD_CHANGED | PASSWORD_RESET_REQUESTED | PASSWORD_RESET_COMPLETED | MEMBERSHIP_DENIED
  | TENANT_SWITCH | THROTTLING_TRIGGERED | AUTHORIZATION_DENIED | CSRF_REJECTED
  | ORIGIN_REJECTED | ROLE_CREATED | ROLE_UPDATED | ROLE_DISABLED | ROLE_PERMISSION_ASSIGNED
  | ROLE_PERMISSION_REMOVED | MEMBERSHIP_ROLE_ASSIGNED | MEMBERSHIP_ROLE_REMOVED
  | SECURITY_EVENTS_PRUNED

fun event_value :: "security_event_type \<Rightarrow> pystr" where
  "event_value LOGIN_SUCCESS = lit ''login_success''"
| "event_value LOGIN_FAILURE = lit ''login_failure''"
| "event_value LOGOUT = lit ''logout''"
| "event_value SESSION_REVOKED = lit ''session_revoked''"
| "event_value ALL_SESSIONS_REVOKED = lit ''all_sessions_revoked''"
| "event_value PASSWORD_CHANGED = lit ''password_changed''"
| "event_value PASSWORD_RESET_REQUESTED = lit ''password_reset_requested''"
| "event_value PASSWORD_RESET_COMPLETED = lit ''password_reset_completed''"
| "event_value MEMBERSHIP_DENIED = lit ''membership_denied''"
| "event_value TENANT_SWITCH = lit ''tenant_switch''"
| "event_value THROTTLING_TRIGGERED = lit ''throttling_triggered''"
| "event_value AUTHORIZATION_DENIED = lit ''authorization_denied''"
| "event_value CSRF_REJECTED = lit ''csrf_rejected''"
| "event_value ORIGIN_REJECTED = lit ''origin_rejected''"
| "event_value ROLE_CREATED = lit ''role_created''"
| "event_value ROLE_UPDATED = lit ''role_updated''"
| "event_value ROLE_DISABLED = lit ''role_disabled''"
| "event_value ROLE_PERMISSION_ASSIGNED = lit ''role_permission_assigned''"
| "event_value ROLE_PERMISSION_REMOVED = lit ''role_permission_removed''"
| "event_value MEMBERSHIP_ROLE_ASSIGNED = lit ''membership_role_assigned''"
| "event_value MEMBERSHIP_ROLE_REMOVED = lit ''membership_role_removed''"
| "event_value SECURITY_EVENTS_PRUNED = lit ''security_events_pruned''"

definition all_security_event_types :: "security_event_type list" where
  "all_security_event_types =
     [LOGIN_SUCCESS, LOGIN_FAILURE, LOGOUT, SESSION_REVOKED, ALL_SESSIONS_REVOKED,
      PASSWORD_CHANGED, PASSWORD_RESET_REQUESTED, PASSWORD_RESET_COMPLETED,
      MEMBERSHIP_DENIED, TENANT_SWITCH, THROTTLING_TRIGGERED, AUTHORIZATION_DENIED,
      CSRF_REJECTED, ORIGIN_REJECTED, ROLE_CREATED, ROLE_UPDATED, ROLE_DISABLED,
      ROLE_PERMISSION_ASSIGNED, ROLE_PERMISSION_REMOVED, MEMBERSHIP_ROLE_ASSIGNED,
      MEMBERSHIP_ROLE_REMOVED, SECURITY_EVENTS_PRUNED]"


datatype security_event_result =
    R_SUCCESS | R_FAILURE | R_DENIED

fun result_value :: "security_event_result \<Rightarrow> pystr" where
  "result_value R_SUCCESS = lit ''success''"
| "result_value R_FAILURE = lit ''failure''"
| "result_value R_DENIED = lit ''denied''"

definition all_security_event_results :: "security_event_result list" where
  "all_security_event_results =
     [R_SUCCESS, R_FAILURE, R_DENIED]"


datatype security_reason =
    Y_INVALID_CREDENTIALS | Y_MEMBERSHIP_UNAVAILABLE | Y_PERMISSION_DENIED | Y_CSRF_MISSING
  | Y_CSRF_INVALID | Y_CSRF_STALE | Y_ORIGIN_DENIED | Y_CSRF_BOOTSTRAP | Y_CONCURRENT_LIMIT
  | Y_LOGOUT | Y_REVOKE_ALL | Y_PASSWORD_RESET | Y_RETENTION_EXPIRED | Y_DEPENDENCY_UNAVAILABLE
  | Y_LOGIN_USERNAME | Y_LOGIN_IP | Y_LOGIN_IP_USERNAME | Y_RESET_USERNAME | Y_RESET_IP

fun reason_value :: "security_reason \<Rightarrow> pystr" where
  "reason_value Y_INVALID_CREDENTIALS = lit ''invalid_credentials''"
| "reason_value Y_MEMBERSHIP_UNAVAILABLE = lit ''membership_unavailable''"
| "reason_value Y_PERMISSION_DENIED = lit ''permission_denied''"
| "reason_value Y_CSRF_MISSING = lit ''csrf_missing''"
| "reason_value Y_CSRF_INVALID = lit ''csrf_invalid''"
| "reason_value Y_CSRF_STALE = lit ''csrf_stale''"
| "reason_value Y_ORIGIN_DENIED = lit ''origin_denied''"
| "reason_value Y_CSRF_BOOTSTRAP = lit ''csrf_bootstrap''"
| "reason_value Y_CONCURRENT_LIMIT = lit ''concurrent_limit''"
| "reason_value Y_LOGOUT = lit ''logout''"
| "reason_value Y_REVOKE_ALL = lit ''revoke_all''"
| "reason_value Y_PASSWORD_RESET = lit ''password_reset''"
| "reason_value Y_RETENTION_EXPIRED = lit ''retention_expired''"
| "reason_value Y_DEPENDENCY_UNAVAILABLE = lit ''dependency_unavailable''"
| "reason_value Y_LOGIN_USERNAME = lit ''login_username''"
| "reason_value Y_LOGIN_IP = lit ''login_ip''"
| "reason_value Y_LOGIN_IP_USERNAME = lit ''login_ip_username''"
| "reason_value Y_RESET_USERNAME = lit ''reset_username''"
| "reason_value Y_RESET_IP = lit ''reset_ip''"

definition all_security_reasons :: "security_reason list" where
  "all_security_reasons =
     [Y_INVALID_CREDENTIALS, Y_MEMBERSHIP_UNAVAILABLE, Y_PERMISSION_DENIED, Y_CSRF_MISSING,
      Y_CSRF_INVALID, Y_CSRF_STALE, Y_ORIGIN_DENIED, Y_CSRF_BOOTSTRAP, Y_CONCURRENT_LIMIT,
      Y_LOGOUT, Y_REVOKE_ALL, Y_PASSWORD_RESET, Y_RETENTION_EXPIRED,
      Y_DEPENDENCY_UNAVAILABLE, Y_LOGIN_USERNAME, Y_LOGIN_IP, Y_LOGIN_IP_USERNAME,
      Y_RESET_USERNAME, Y_RESET_IP]"


datatype subject_kind =
    K_LOGIN_USERNAME | K_LOGIN_IP | K_RESET_USERNAME | K_RESET_IP

fun kind_value :: "subject_kind \<Rightarrow> pystr" where
  "kind_value K_LOGIN_USERNAME = lit ''login_username''"
| "kind_value K_LOGIN_IP = lit ''login_ip''"
| "kind_value K_RESET_USERNAME = lit ''reset_username''"
| "kind_value K_RESET_IP = lit ''reset_ip''"

definition all_subject_kinds :: "subject_kind list" where
  "all_subject_kinds =
     [K_LOGIN_USERNAME, K_LOGIN_IP, K_RESET_USERNAME, K_RESET_IP]"

text \<open>
  Calling a closed enum: a member is returned as it is, an exact \<open>str\<close> equal to a member's value
  gives that member, anything else is the fixed error.
\<close>

definition closed_enum_call :: "('a \<Rightarrow> pystr) \<Rightarrow> 'a list \<Rightarrow> 'a + pyval \<Rightarrow> exn + 'a" where
  "closed_enum_call value_of members value =
     (case find (\<lambda>m. value = Inl m \<or> value = Inr (PStr (value_of m))) members of
        None \<Rightarrow> Inl InvalidAuditEvent
      | Some m \<Rightarrow> Inr m)"

section \<open>Policies\<close>

record event_policy =
  ep_result :: security_event_result
  ep_reasons :: "security_reason list"

text \<open>\<open>None\<close> is among the allowed reasons of every policy; the list holds the others.\<close>

definition policy :: "security_event_result \<Rightarrow> security_reason list \<Rightarrow> event_policy" where
  "policy r reasons = \<lparr>ep_result = r, ep_reasons = reasons\<rparr>"

fun event_policies :: "security_event_type \<Rightarrow> event_policy" where
  "event_policies LOGIN_SUCCESS = policy R_SUCCESS []"
| "event_policies LOGIN_FAILURE = policy R_FAILURE [Y_INVALID_CREDENTIALS, Y_DEPENDENCY_UNAVAILABLE]"
| "event_policies LOGOUT = policy R_SUCCESS [Y_LOGOUT]"
| "event_policies SESSION_REVOKED =
     policy R_SUCCESS [Y_CONCURRENT_LIMIT, Y_LOGOUT, Y_REVOKE_ALL, Y_PASSWORD_RESET]"
| "event_policies ALL_SESSIONS_REVOKED = policy R_SUCCESS [Y_REVOKE_ALL, Y_PASSWORD_RESET]"
| "event_policies PASSWORD_CHANGED = policy R_SUCCESS [Y_PASSWORD_RESET]"
| "event_policies PASSWORD_RESET_REQUESTED = policy R_SUCCESS []"
| "event_policies PASSWORD_RESET_COMPLETED = policy R_SUCCESS [Y_PASSWORD_RESET]"
| "event_policies MEMBERSHIP_DENIED =
     policy R_DENIED [Y_MEMBERSHIP_UNAVAILABLE, Y_DEPENDENCY_UNAVAILABLE]"
| "event_policies TENANT_SWITCH = policy R_SUCCESS []"
| "event_policies THROTTLING_TRIGGERED =
     policy R_DENIED [Y_CSRF_BOOTSTRAP, Y_LOGIN_USERNAME, Y_LOGIN_IP, Y_LOGIN_IP_USERNAME,
       Y_RESET_USERNAME, Y_RESET_IP]"
| "event_policies AUTHORIZATION_DENIED =
     policy R_DENIED [Y_PERMISSION_DENIED, Y_MEMBERSHIP_UNAVAILABLE, Y_DEPENDENCY_UNAVAILABLE]"
| "event_policies CSRF_REJECTED = policy R_DENIED [Y_CSRF_MISSING, Y_CSRF_INVALID, Y_CSRF_STALE]"
| "event_policies ORIGIN_REJECTED = policy R_DENIED [Y_ORIGIN_DENIED]"
| "event_policies ROLE_CREATED = policy R_SUCCESS []"
| "event_policies ROLE_UPDATED = policy R_SUCCESS []"
| "event_policies ROLE_DISABLED = policy R_SUCCESS []"
| "event_policies ROLE_PERMISSION_ASSIGNED = policy R_SUCCESS []"
| "event_policies ROLE_PERMISSION_REMOVED = policy R_SUCCESS []"
| "event_policies MEMBERSHIP_ROLE_ASSIGNED = policy R_SUCCESS []"
| "event_policies MEMBERSHIP_ROLE_REMOVED = policy R_SUCCESS []"
| "event_policies SECURITY_EVENTS_PRUNED = policy R_SUCCESS [Y_RETENTION_EXPIRED]"

definition reason_allowed :: "event_policy \<Rightarrow> security_reason option \<Rightarrow> bool" where
  "reason_allowed p reason = (case reason of None \<Rightarrow> True | Some y \<Rightarrow> y \<in> set (ep_reasons p))"

definition role_event_types :: "security_event_type list" where
  "role_event_types =
     [ROLE_CREATED, ROLE_UPDATED, ROLE_DISABLED, ROLE_PERMISSION_ASSIGNED, ROLE_PERMISSION_REMOVED,
      MEMBERSHIP_ROLE_ASSIGNED, MEMBERSHIP_ROLE_REMOVED]"

definition role_permission_event_types :: "security_event_type list" where
  "role_permission_event_types = [ROLE_PERMISSION_ASSIGNED, ROLE_PERMISSION_REMOVED]"

definition membership_role_event_types :: "security_event_type list" where
  "membership_role_event_types = [MEMBERSHIP_ROLE_ASSIGNED, MEMBERSHIP_ROLE_REMOVED]"

section \<open>Events\<close>

text \<open>
  The constructor's arguments are arbitrary objects: \<open>Proper\<close> is an instance of the declared type,
  \<open>Alien\<close> any other object that is not \<open>None\<close> (a forged enum, a \<open>bool\<close> for an \<open>int\<close>, a plain \<open>str\<close> for
  a \<open>PermissionId\<close>).
\<close>

datatype 'a arg = Missing | Proper 'a | Alien

definition given :: "'a arg \<Rightarrow> bool" where
  "given a \<longleftrightarrow> a \<noteq> Missing"

definition alien :: "'a arg \<Rightarrow> bool" where
  "alien a \<longleftrightarrow> a = Alien"

record event_args =
  ea_event_type :: "security_event_type arg"
  ea_result :: "security_event_result arg"
  ea_reason_code :: "security_reason arg"
  ea_user_id :: "uuid arg"
  ea_session_id :: "uuid arg"
  ea_membership_id :: "uuid arg"
  ea_role_id :: "uuid arg"
  ea_target_membership_id :: "uuid arg"
  ea_permission_id :: "pystr arg"
  ea_subject_digest :: "bytes arg"
  ea_subject_kind :: "subject_kind arg"
  ea_subject_key_id :: "int arg"
  ea_affected_count :: "int arg"

record audit_event =
  ae_event_type :: security_event_type
  ae_result :: security_event_result
  ae_reason_code :: "security_reason option"
  ae_user_id :: "uuid option"
  ae_session_id :: "uuid option"
  ae_membership_id :: "uuid option"
  ae_role_id :: "uuid option"
  ae_target_membership_id :: "uuid option"
  ae_permission_id :: "pystr option"
  ae_subject_digest :: "bytes option"
  ae_subject_kind :: "subject_kind option"
  ae_subject_key_id :: "int option"
  ae_affected_count :: "int option"

text \<open>\<open>_validate\<close>, in three groups: the types and the policy, the links, the subject and the count.\<close>

definition valid_outcome :: "event_args \<Rightarrow> bool" where
  "valid_outcome e \<longleftrightarrow>
     (case (ea_event_type e, ea_result e) of
        (Proper t, Proper r) \<Rightarrow>
          (case ea_reason_code e of
             Missing \<Rightarrow> r = ep_result (event_policies t)
           | Proper y \<Rightarrow> r = ep_result (event_policies t) \<and> reason_allowed (event_policies t) (Some y)
           | Alien \<Rightarrow> False)
      | _ \<Rightarrow> False)"

definition identity_args :: "event_args \<Rightarrow> uuid arg list" where
  "identity_args e =
     [ea_user_id e, ea_session_id e, ea_membership_id e, ea_role_id e, ea_target_membership_id e]"

definition valid_links :: "security_event_type \<Rightarrow> event_args \<Rightarrow> bool" where
  "valid_links t e \<longleftrightarrow>
     \<not> list_ex alien (identity_args e) \<and>
     \<not> (\<not> given (ea_user_id e) \<and> (given (ea_session_id e) \<or> given (ea_membership_id e))) \<and>
     \<not> ((t = TENANT_SWITCH \<or> t \<in> set role_event_types) \<and>
        (\<not> given (ea_user_id e) \<or> \<not> given (ea_session_id e) \<or> \<not> given (ea_membership_id e))) \<and>
     \<not> ((t \<in> set role_event_types) \<noteq> given (ea_role_id e)) \<and>
     \<not> ((t \<in> set membership_role_event_types) \<noteq> given (ea_target_membership_id e))"

definition valid_permission :: "security_event_type \<Rightarrow> pystr arg \<Rightarrow> bool" where
  "valid_permission t p \<longleftrightarrow>
     (case p of
        Missing \<Rightarrow> t \<notin> set role_permission_event_types
      | Proper s \<Rightarrow> s \<in> set catalog_ids \<and> t \<in> set (AUTHORIZATION_DENIED # role_permission_event_types)
      | Alien \<Rightarrow> False)"

definition valid_subject :: "event_args \<Rightarrow> bool" where
  "valid_subject e \<longleftrightarrow>
     (case (ea_subject_digest e, ea_subject_kind e, ea_subject_key_id e) of
        (Missing, Missing, Missing) \<Rightarrow> True
      | (Proper d, Proper k, Proper n) \<Rightarrow> length d = 32 \<and> 1 \<le> n \<and> n \<le> 32767
      | _ \<Rightarrow> False)"

definition valid_count :: "security_event_type \<Rightarrow> event_args \<Rightarrow> bool" where
  "valid_count t e \<longleftrightarrow>
     (if t = SECURITY_EVENTS_PRUNED
      then (case ea_affected_count e of Proper n \<Rightarrow> 0 \<le> n \<and> n \<le> 2 ^ 63 - 1 | _ \<Rightarrow> False) \<and>
        \<not> list_ex given (identity_args e) \<and>
        \<not> given (ea_subject_digest e) \<and> \<not> given (ea_subject_kind e) \<and> \<not> given (ea_subject_key_id e)
      else \<not> given (ea_affected_count e))"

definition validate_event :: "event_args \<Rightarrow> bool" where
  "validate_event e \<longleftrightarrow>
     valid_outcome e \<and>
     (case ea_event_type e of
        Proper t \<Rightarrow> valid_links t e \<and> valid_permission t (ea_permission_id e) \<and> valid_subject e \<and> valid_count t e
      | _ \<Rightarrow> False)"

fun proper :: "'a arg \<Rightarrow> 'a option" where
  "proper (Proper x) = Some x"
| "proper _ = None"

definition SecurityAuditEvent :: "event_args \<Rightarrow> bool \<Rightarrow> exn + audit_event" where
  "SecurityAuditEvent e unknown_fields =
     (if unknown_fields then Inl InvalidAuditEvent
      else if \<not> validate_event e then Inl InvalidAuditEvent
      else Inr \<lparr>ae_event_type = the (proper (ea_event_type e)), ae_result = the (proper (ea_result e)),
        ae_reason_code = proper (ea_reason_code e), ae_user_id = proper (ea_user_id e),
        ae_session_id = proper (ea_session_id e), ae_membership_id = proper (ea_membership_id e),
        ae_role_id = proper (ea_role_id e),
        ae_target_membership_id = proper (ea_target_membership_id e),
        ae_permission_id = proper (ea_permission_id e),
        ae_subject_digest = proper (ea_subject_digest e),
        ae_subject_kind = proper (ea_subject_kind e),
        ae_subject_key_id = proper (ea_subject_key_id e),
        ae_affected_count = proper (ea_affected_count e)\<rparr>)"

text \<open>The arguments that rebuild an event, and the validation of an existing one.\<close>

definition of_option :: "'a option \<Rightarrow> 'a arg" where
  "of_option x = (case x of None \<Rightarrow> Missing | Some y \<Rightarrow> Proper y)"

definition args_of :: "audit_event \<Rightarrow> event_args" where
  "args_of e =
     \<lparr>ea_event_type = Proper (ae_event_type e), ea_result = Proper (ae_result e),
      ea_reason_code = of_option (ae_reason_code e), ea_user_id = of_option (ae_user_id e),
      ea_session_id = of_option (ae_session_id e), ea_membership_id = of_option (ae_membership_id e),
      ea_role_id = of_option (ae_role_id e),
      ea_target_membership_id = of_option (ae_target_membership_id e),
      ea_permission_id = of_option (ae_permission_id e),
      ea_subject_digest = of_option (ae_subject_digest e),
      ea_subject_kind = of_option (ae_subject_kind e),
      ea_subject_key_id = of_option (ae_subject_key_id e),
      ea_affected_count = of_option (ae_affected_count e)\<rparr>"

definition event_ok :: "audit_event \<Rightarrow> bool" where
  "event_ok e \<longleftrightarrow> validate_event (args_of e)"

section \<open>The CHECK constraints\<close>

text \<open>A row of \<open>auth.security_events\<close>; \<open>None\<close> is SQL \<open>NULL\<close>.\<close>

record event_row =
  er_id :: uuid
  er_event_type :: pystr
  er_result :: pystr
  er_reason_code :: "pystr option"
  er_user_id :: "uuid option"
  er_session_id :: "uuid option"
  er_membership_id :: "uuid option"
  er_subject_digest :: "bytes option"
  er_correlation_id :: uuid
  er_created_at :: time
  er_role_id :: "uuid option"
  er_target_membership_id :: "uuid option"
  er_permission_id :: "pystr option"
  er_subject_kind :: "pystr option"
  er_subject_key_id :: "int option"
  er_affected_count :: "int option"

text \<open>The value lists a set of constraints is written with.\<close>

record audit_lists =
  al_event_types :: "pystr list"
  al_contracts :: "(pystr \<times> pystr \<times> pystr list) list"
  al_role_events :: "pystr list"
  al_membership_events :: "pystr list"
  al_permission_events :: "pystr list"
  al_permissions :: "pystr list"
  al_subject_kinds :: "pystr list"

text \<open>
  The canonical text of a UUID has its hexadecimal digits in order, so the patterns on the text fix
  the digit of bits 76 to 79 and the one of bits 60 to 63.
\<close>

definition uuid_digit :: "nat \<Rightarrow> uuid \<Rightarrow> nat" where
  "uuid_digit low u = drop_bit low u mod 16"

definition check_uuid7_text :: "uuid \<Rightarrow> bool" where
  "check_uuid7_text u \<longleftrightarrow> uuid_digit 76 u = 7 \<and> uuid_digit 60 u \<in> {8, 9, 10, 11}"

definition check_uuid_text :: "uuid \<Rightarrow> bool" where
  "check_uuid_text u \<longleftrightarrow> uuid_digit 60 u \<in> {8, 9, 10, 11}"

definition check_event_contract :: "audit_lists \<Rightarrow> event_row \<Rightarrow> bool" where
  "check_event_contract L r \<longleftrightarrow>
     list_ex (\<lambda>(event, res, reasons).
       er_event_type r = event \<and> er_result r = res \<and>
       (case er_reason_code r of None \<Rightarrow> True | Some y \<Rightarrow> y \<in> set reasons)) (al_contracts L)"

definition check_identity_shape :: "audit_lists \<Rightarrow> event_row \<Rightarrow> bool" where
  "check_identity_shape L r \<longleftrightarrow>
     (er_user_id r \<noteq> None \<or> (er_session_id r = None \<and> er_membership_id r = None)) \<and>
     (er_event_type r \<notin> set (lit ''tenant_switch'' # al_role_events L) \<or>
      (er_user_id r \<noteq> None \<and> er_session_id r \<noteq> None \<and> er_membership_id r \<noteq> None))"

definition check_permission_shape :: "audit_lists \<Rightarrow> event_row \<Rightarrow> bool" where
  "check_permission_shape L r \<longleftrightarrow>
     (er_event_type r \<notin> set (al_permission_events L) \<or> er_permission_id r \<noteq> None) \<and>
     (er_permission_id r = None \<or>
      er_event_type r \<in> set (lit ''authorization_denied'' # al_permission_events L))"

definition check_subject_shape :: "audit_lists \<Rightarrow> event_row \<Rightarrow> bool" where
  "check_subject_shape L r \<longleftrightarrow>
     (case (er_subject_digest r, er_subject_kind r, er_subject_key_id r) of
        (None, None, None) \<Rightarrow> True
      | (Some d, Some k, Some n) \<Rightarrow> length d = 32 \<and> k \<in> set (al_subject_kinds L) \<and> 1 \<le> n \<and> n \<le> 32767
      | _ \<Rightarrow> False)"

definition check_affected_count_shape :: "event_row \<Rightarrow> bool" where
  "check_affected_count_shape r \<longleftrightarrow>
     (er_event_type r \<noteq> lit ''security_events_pruned'' \<and> er_affected_count r = None) \<or>
     (er_event_type r = lit ''security_events_pruned'' \<and>
      (case er_affected_count r of None \<Rightarrow> False | Some n \<Rightarrow> 0 \<le> n) \<and>
      er_user_id r = None \<and> er_session_id r = None \<and> er_membership_id r = None \<and>
      er_role_id r = None \<and> er_target_membership_id r = None \<and> er_subject_digest r = None \<and>
      er_subject_kind r = None \<and> er_subject_key_id r = None)"

definition audit_shape :: "audit_lists \<Rightarrow> event_row \<Rightarrow> bool" where
  "audit_shape L r \<longleftrightarrow>
     er_event_type r \<in> set (al_event_types L) \<and>
     er_result r \<in> {lit ''success'', lit ''failure'', lit ''denied''} \<and>
     check_event_contract L r \<and>
     check_uuid7_text (er_id r) \<and>
     check_uuid_text (er_correlation_id r) \<and>
     check_identity_shape L r \<and>
     (er_event_type r \<in> set (al_role_events L)) = (er_role_id r \<noteq> None) \<and>
     (er_event_type r \<in> set (al_membership_events L)) = (er_target_membership_id r \<noteq> None) \<and>
     (case er_permission_id r of None \<Rightarrow> True | Some p \<Rightarrow> p \<in> set (al_permissions L)) \<and>
     check_permission_shape L r \<and>
     check_subject_shape L r \<and>
     check_affected_count_shape r"

text \<open>The lists \<open>audit/schema.py\<close> computes from the catalogues.\<close>

definition schema_lists :: audit_lists where
  "schema_lists =
     \<lparr>al_event_types = map event_value all_security_event_types,
      al_contracts = map (\<lambda>t. (event_value t, result_value (ep_result (event_policies t)),
        map reason_value (ep_reasons (event_policies t)))) all_security_event_types,
      al_role_events = map event_value role_event_types,
      al_membership_events = map event_value membership_role_event_types,
      al_permission_events = map event_value role_permission_event_types,
      al_permissions = catalog_ids,
      al_subject_kinds = map kind_value all_subject_kinds\<rparr>"

text \<open>The literal lists frozen in the migration.\<close>

definition snapshot_contracts :: "(pystr \<times> pystr \<times> pystr list) list" where
  "snapshot_contracts = map (\<lambda>(event, res, reasons). (lit event, lit res, map lit reasons))
      [(''login_success'', ''success'', []),
       (''login_failure'', ''failure'', [''dependency_unavailable'', ''invalid_credentials'']),
       (''logout'', ''success'', [''logout'']),
       (''session_revoked'', ''success'', [''concurrent_limit'', ''logout'', ''password_reset'', ''revoke_all'']),
       (''all_sessions_revoked'', ''success'', [''password_reset'', ''revoke_all'']),
       (''password_changed'', ''success'', [''password_reset'']),
       (''password_reset_requested'', ''success'', []),
       (''password_reset_completed'', ''success'', [''password_reset'']),
       (''membership_denied'', ''denied'', [''dependency_unavailable'', ''membership_unavailable'']),
       (''tenant_switch'', ''success'', []),
       (''throttling_triggered'', ''denied'', [''csrf_bootstrap'', ''login_ip'', ''login_ip_username'', ''login_username'',
                    ''reset_ip'', ''reset_username'']),
       (''authorization_denied'', ''denied'', [''dependency_unavailable'', ''membership_unavailable'', ''permission_denied'']),
       (''csrf_rejected'', ''denied'', [''csrf_invalid'', ''csrf_missing'', ''csrf_stale'']),
       (''origin_rejected'', ''denied'', [''origin_denied'']),
       (''role_created'', ''success'', []),
       (''role_updated'', ''success'', []),
       (''role_disabled'', ''success'', []),
       (''role_permission_assigned'', ''success'', []),
       (''role_permission_removed'', ''success'', []),
       (''membership_role_assigned'', ''success'', []),
       (''membership_role_removed'', ''success'', []),
       (''security_events_pruned'', ''success'', [''retention_expired''])]"

definition snapshot_lists :: audit_lists where
  "snapshot_lists =
     \<lparr>al_event_types = map lit
       [''all_sessions_revoked'', ''authorization_denied'', ''csrf_rejected'',
        ''login_failure'', ''login_success'', ''logout'', ''membership_denied'',
        ''membership_role_assigned'', ''membership_role_removed'', ''origin_rejected'',
        ''password_changed'', ''password_reset_completed'', ''password_reset_requested'',
        ''role_created'', ''role_disabled'', ''role_permission_assigned'',
        ''role_permission_removed'', ''role_updated'', ''security_events_pruned'',
        ''session_revoked'', ''tenant_switch'', ''throttling_triggered''],
      al_contracts = snapshot_contracts,
      al_role_events = map lit
       [''membership_role_assigned'', ''membership_role_removed'', ''role_created'',
        ''role_disabled'', ''role_permission_assigned'', ''role_permission_removed'',
        ''role_updated''],
      al_membership_events = map lit [''membership_role_assigned'', ''membership_role_removed''],
      al_permission_events = map lit [''role_permission_assigned'', ''role_permission_removed''],
      al_permissions = map lit
       [''platform.tenants.manage'', ''platform.tenants.read'',
        ''platform.ui_settings.manage'', ''tenant.memberships.manage'',
        ''tenant.memberships.read'', ''tenant.roles.manage'', ''tenant.roles.read'',
        ''tenant.ui_settings.manage'', ''tenant.user_ui_settings.manage_self''],
      al_subject_kinds = map lit [''login_ip'', ''login_username'', ''reset_ip'', ''reset_username'']\<rparr>"

text \<open>The row the writer inserts for an event.\<close>

definition event_to_row :: "audit_event \<Rightarrow> uuid \<Rightarrow> uuid \<Rightarrow> time \<Rightarrow> event_row" where
  "event_to_row e event_id correlation created =
     \<lparr>er_id = event_id, er_event_type = event_value (ae_event_type e), er_result = result_value (ae_result e),
      er_reason_code = map_option reason_value (ae_reason_code e), er_user_id = ae_user_id e,
      er_session_id = ae_session_id e, er_membership_id = ae_membership_id e,
      er_subject_digest = ae_subject_digest e, er_correlation_id = correlation, er_created_at = created,
      er_role_id = ae_role_id e, er_target_membership_id = ae_target_membership_id e,
      er_permission_id = ae_permission_id e,
      er_subject_kind = map_option kind_value (ae_subject_kind e),
      er_subject_key_id = ae_subject_key_id e, er_affected_count = ae_affected_count e\<rparr>"

text \<open>The casts of the append call: \<open>smallint\<close> and \<open>bigint\<close> overflow raises.\<close>

definition row_casts_ok :: "event_row \<Rightarrow> bool" where
  "row_casts_ok r \<longleftrightarrow>
     (case er_subject_key_id r of None \<Rightarrow> True | Some n \<Rightarrow> - 32768 \<le> n \<and> n \<le> 32767) \<and>
     (case er_affected_count r of None \<Rightarrow> True | Some n \<Rightarrow> - (2 ^ 63) \<le> n \<and> n \<le> 2 ^ 63 - 1)"

section \<open>Agreement\<close>

definition same_contract :: "pystr \<times> pystr \<times> pystr list \<Rightarrow> pystr \<times> pystr \<times> pystr list \<Rightarrow> bool" where
  "same_contract c d \<longleftrightarrow> fst c = fst d \<and> fst (snd c) = fst (snd d) \<and>
     set (snd (snd c)) = set (snd (snd d))"

lemma check_event_contract_cong:
  assumes "list_all2 same_contract (al_contracts L) (al_contracts M)"
  shows "check_event_contract L r = check_event_contract M r"
  using assms unfolding check_event_contract_def
  by (induction rule: list_all2_induct) (auto simp: same_contract_def split: option.splits)

lemma audit_shape_cong:
  assumes "list_all2 same_contract (al_contracts L) (al_contracts M)"
    and "set (al_event_types L) = set (al_event_types M)"
    and "set (al_role_events L) = set (al_role_events M)"
    and "set (al_membership_events L) = set (al_membership_events M)"
    and "set (al_permission_events L) = set (al_permission_events M)"
    and "set (al_permissions L) = set (al_permissions M)"
    and "set (al_subject_kinds L) = set (al_subject_kinds M)"
  shows "audit_shape L r = audit_shape M r"
  unfolding audit_shape_def check_identity_shape_def check_permission_shape_def check_subject_shape_def
  using assms by (simp add: check_event_contract_cong [OF assms(1)] cong: option.case_cong)

lemmas catalogue_lists = all_security_event_types_def all_subject_kinds_def role_event_types_def
  role_permission_event_types_def membership_role_event_types_def catalog_ids_def all_permissions_def

lemma contracts_match: "list_all2 same_contract snapshot_contracts (al_contracts schema_lists)"
  by (simp add: snapshot_contracts_def schema_lists_def all_security_event_types_def policy_def
      same_contract_def insert_commute)

lemma frozen_checks_match_lists: "audit_shape snapshot_lists r = audit_shape schema_lists r"
proof (rule audit_shape_cong)
  show "list_all2 same_contract (al_contracts snapshot_lists) (al_contracts schema_lists)"
    using contracts_match by (simp add: snapshot_lists_def)
qed (rule subset_antisym; simp add: snapshot_lists_def schema_lists_def catalogue_lists)+

text \<open>
  The constraints frozen in the migration and the ones generated from the runtime catalogues
  accept the same rows.
\<close>

theorem frozen_checks_match_catalogues: "audit_shape snapshot_lists r = audit_shape schema_lists r"
  by (rule frozen_checks_match_lists)

lemma event_value_inj [simp]: "event_value a = event_value b \<longleftrightarrow> a = b"
  by (cases a; cases b; simp)

lemma result_value_inj [simp]: "result_value a = result_value b \<longleftrightarrow> a = b"
  by (cases a; cases b; simp)

lemma reason_value_inj [simp]: "reason_value a = reason_value b \<longleftrightarrow> a = b"
  by (cases a; cases b; simp)

lemma all_events_UNIV: "t \<in> set all_security_event_types"
  by (cases t) (simp_all add: all_security_event_types_def)

lemma all_kinds_UNIV: "k \<in> set all_subject_kinds"
  by (cases k) (simp_all add: all_subject_kinds_def)

lemma given_of_option [simp]: "given (of_option x) \<longleftrightarrow> x \<noteq> None"
  by (cases x) (simp_all add: of_option_def given_def)

lemma alien_of_option [simp]: "\<not> alien (of_option x)"
  by (cases x) (simp_all add: of_option_def alien_def)

lemma case_of_option [simp]:
  "(case of_option x of Missing \<Rightarrow> a | Proper y \<Rightarrow> f y | Alien \<Rightarrow> c) = (case x of None \<Rightarrow> a | Some y \<Rightarrow> f y)"
  by (cases x) (simp_all add: of_option_def)

lemma event_value_image [simp]: "event_value t \<in> event_value ` A \<longleftrightarrow> t \<in> A"
  by auto

lemma event_value_lits:
  "event_value t = lit ''tenant_switch'' \<longleftrightarrow> t = TENANT_SWITCH"
  "event_value t = lit ''authorization_denied'' \<longleftrightarrow> t = AUTHORIZATION_DENIED"
  "event_value t = lit ''security_events_pruned'' \<longleftrightarrow> t = SECURITY_EVENTS_PRUNED"
  by (cases t; simp)+

text \<open>Group by group, an event's row passes a check exactly when the event passes the validation.\<close>

lemma outcome_contract:
  "check_event_contract schema_lists (event_to_row e i c d) \<longleftrightarrow> valid_outcome (args_of e)"
  using all_events_UNIV [of "ae_event_type e"]
  by (auto simp: check_event_contract_def schema_lists_def event_to_row_def valid_outcome_def
      args_of_def list_ex_iff reason_allowed_def split: option.splits)

lemma links_shape:
  "check_identity_shape schema_lists (event_to_row e i c d) \<and>
   (er_event_type (event_to_row e i c d) \<in> set (al_role_events schema_lists)) =
     (er_role_id (event_to_row e i c d) \<noteq> None) \<and>
   (er_event_type (event_to_row e i c d) \<in> set (al_membership_events schema_lists)) =
     (er_target_membership_id (event_to_row e i c d) \<noteq> None) \<longleftrightarrow>
   valid_links (ae_event_type e) (args_of e)"
  by (auto simp: check_identity_shape_def schema_lists_def event_to_row_def valid_links_def
      args_of_def identity_args_def event_value_lits)

lemma permission_shape:
  "(case er_permission_id (event_to_row e i c d) of None \<Rightarrow> True | Some p \<Rightarrow> p \<in> set (al_permissions schema_lists)) \<and>
   check_permission_shape schema_lists (event_to_row e i c d) \<longleftrightarrow>
   valid_permission (ae_event_type e) (ea_permission_id (args_of e))"
  by (auto simp: check_permission_shape_def schema_lists_def event_to_row_def valid_permission_def
      args_of_def event_value_lits split: option.splits)

lemma subject_shape:
  "check_subject_shape schema_lists (event_to_row e i c d) \<longleftrightarrow> valid_subject (args_of e)"
  using all_kinds_UNIV
  by (auto simp: check_subject_shape_def schema_lists_def event_to_row_def valid_subject_def
      args_of_def of_option_def split: option.splits)

lemma count_shape:
  "valid_links (ae_event_type e) (args_of e) \<Longrightarrow>
   check_affected_count_shape (event_to_row e i c d) \<and>
   (case ae_affected_count e of None \<Rightarrow> True | Some n \<Rightarrow> n \<le> 2 ^ 63 - 1) \<longleftrightarrow>
   valid_count (ae_event_type e) (args_of e)"
  by (auto simp: check_affected_count_shape_def event_to_row_def valid_count_def valid_links_def
      args_of_def identity_args_def event_value_lits split: option.splits)

lemma digit_variant: "uuid_digit 60 u \<in> {8, 9, 10, 11} \<longleftrightarrow> bit u 63 \<and> \<not> bit u 62"
proof -
  let ?m = "take_bit 4 (drop_bit 60 u)"
  have m: "uuid_digit 60 u = ?m" by (simp add: uuid_digit_def take_bit_eq_mod)
  have "bit ?m 3 \<longleftrightarrow> bit u 63" "bit ?m 2 \<longleftrightarrow> bit u 62"
    by (simp_all add: bit_take_bit_iff bit_drop_bit_eq)
  moreover have "?m \<in> {8, 9, 10, 11} \<longleftrightarrow> bit ?m 3 \<and> \<not> bit ?m 2"
  proof -
    have "?m \<in> set [0..<16]" by (simp add: take_bit_eq_mod)
    moreover have "\<forall>k \<in> set [0..<16]. k \<in> {8, 9, 10, 11} \<longleftrightarrow> bit k 3 \<and> \<not> bit (k :: nat) 2"
      by code_simp
    ultimately show ?thesis by blast
  qed
  ultimately show ?thesis by (simp only: m)
qed

lemma uuid7_text: "check_uuid7_text u \<longleftrightarrow> uuid_version u = Some 7"
  using digit_variant [of u] by (auto simp: check_uuid7_text_def uuid_version_def uuid_digit_def)

lemma validation_iff_checks:
  "event_ok e \<and> uuid_version event_id = Some 7 \<and> check_uuid_text correlation \<longleftrightarrow>
   row_casts_ok (event_to_row e event_id correlation created) \<and>
   audit_shape snapshot_lists (event_to_row e event_id correlation created)"
proof -
  let ?r = "event_to_row e event_id correlation created"
  let ?casts = "case ae_affected_count e of None \<Rightarrow> True | Some n \<Rightarrow> n \<le> 2 ^ 63 - 1"
  have split: "audit_shape schema_lists ?r \<longleftrightarrow>
      valid_outcome (args_of e) \<and> check_uuid7_text event_id \<and> check_uuid_text correlation \<and>
      valid_links (ae_event_type e) (args_of e) \<and>
      valid_permission (ae_event_type e) (ea_permission_id (args_of e)) \<and>
      valid_subject (args_of e) \<and> check_affected_count_shape ?r"
    unfolding audit_shape_def outcome_contract links_shape [symmetric, of e event_id correlation created]
      permission_shape [symmetric, of e event_id correlation created]
      subject_shape [symmetric, of e event_id correlation created]
    using all_events_UNIV [of "ae_event_type e"]
    by (cases "ae_result e") (auto simp: event_to_row_def schema_lists_def outcome_contract)
  have casts: "row_casts_ok ?r \<longleftrightarrow> ?casts"
    if "valid_subject (args_of e)" "check_affected_count_shape ?r"
    using that by (auto simp: row_casts_ok_def event_to_row_def valid_subject_def args_of_def
        of_option_def check_affected_count_shape_def split: option.splits)
  have "event_ok e \<longleftrightarrow> valid_outcome (args_of e) \<and> valid_links (ae_event_type e) (args_of e) \<and>
      valid_permission (ae_event_type e) (ea_permission_id (args_of e)) \<and>
      valid_subject (args_of e) \<and> valid_count (ae_event_type e) (args_of e)"
    by (simp add: event_ok_def validate_event_def args_of_def)
  with count_shape [of e event_id correlation created] casts show ?thesis
    unfolding frozen_checks_match_lists split uuid7_text by blast
qed

text \<open>
  C22. The Python validation and the database constraints agree on every event: an event is valid
  exactly when the row the writer inserts for it, under a version 7 identifier and an RFC 4122
  correlation identifier, fits the columns and passes every CHECK.
\<close>

theorem validation_matches_checks:
  "event_ok e \<and> uuid_version event_id = Some 7 \<and> check_uuid_text correlation \<longleftrightarrow>
   row_casts_ok (event_to_row e event_id correlation created) \<and>
   audit_shape snapshot_lists (event_to_row e event_id correlation created)"
  by (rule validation_iff_checks)

text \<open>
  An event built by the constructor carries no field of a foreign type and satisfies the
  validation again, whatever the arguments were; unknown fields are refused.
\<close>

theorem constructed_event_ok:
  "case SecurityAuditEvent a unknown of
     Inl x \<Rightarrow> x = InvalidAuditEvent
   | Inr e \<Rightarrow> \<not> unknown \<and> args_of e = a \<and> event_ok e"
proof (cases "unknown \<or> \<not> validate_event a")
  case True
  then show ?thesis by (auto simp: SecurityAuditEvent_def)
next
  case False
  then have v: "validate_event a" by simp
  have p: "of_option (proper x) = x" if "\<not> alien x" for x :: "'b arg"
    using that by (cases x) (auto simp: of_option_def alien_def)
  have "\<not> alien (ea_reason_code a)" "\<not> alien (ea_permission_id a)" "\<not> alien (ea_subject_digest a)"
    "\<not> alien (ea_subject_kind a)" "\<not> alien (ea_subject_key_id a)" "\<not> alien (ea_affected_count a)"
    "\<exists>t. ea_event_type a = Proper t" "\<exists>r. ea_result a = Proper r"
    using v by (auto simp: validate_event_def valid_outcome_def valid_permission_def valid_subject_def
        valid_count_def alien_def given_def split: arg.splits if_splits)
  moreover have "\<not> alien (ea_user_id a)" "\<not> alien (ea_session_id a)" "\<not> alien (ea_membership_id a)"
    "\<not> alien (ea_role_id a)" "\<not> alien (ea_target_membership_id a)"
    using v by (auto simp: validate_event_def valid_links_def identity_args_def split: arg.splits)
  ultimately have "args_of e = a" if "SecurityAuditEvent a unknown = Inr e" for e
    using that False by (cases a) (auto simp: SecurityAuditEvent_def args_of_def p)
  with False v show ?thesis by (auto simp: SecurityAuditEvent_def event_ok_def)
qed

end
