(* ===== verification/Sha256.thy ===== *)
theory Sha256
  imports PyText
begin

unbundle bit_operations_syntax

text \<open>
  \<open>hashlib.sha256\<close> and \<open>hmac.new(key, msg, sha256)\<close>, the standard library's digests behind
  every token digest and throttle key. Words are integers below \<open>2 ^ 32\<close> with the wrap-around
  written out, which the kernel evaluates fast enough to check the published test vector.
\<close>

definition word_size :: int where
  "word_size = 4294967296"

definition rotr :: "nat \<Rightarrow> int \<Rightarrow> int" where
  "rotr n x = x div 2 ^ n + (x mod 2 ^ n) * 2 ^ (32 - n)"

definition small_sigma0 :: "int \<Rightarrow> int" where
  "small_sigma0 x = rotr 7 x XOR rotr 18 x XOR (x div 8)"

definition small_sigma1 :: "int \<Rightarrow> int" where
  "small_sigma1 x = rotr 17 x XOR rotr 19 x XOR (x div 1024)"

definition big_sigma0 :: "int \<Rightarrow> int" where
  "big_sigma0 x = rotr 2 x XOR rotr 13 x XOR rotr 22 x"

definition big_sigma1 :: "int \<Rightarrow> int" where
  "big_sigma1 x = rotr 6 x XOR rotr 11 x XOR rotr 25 x"

definition choose_bits :: "int \<Rightarrow> int \<Rightarrow> int \<Rightarrow> int" where
  "choose_bits x y z = (x AND y) XOR ((word_size - 1 - x) AND z)"

definition majority :: "int \<Rightarrow> int \<Rightarrow> int \<Rightarrow> int" where
  "majority x y z = (x AND y) XOR (x AND z) XOR (y AND z)"

definition round_constants :: "int list" where
  "round_constants =
    [1116352408, 1899447441, 3049323471, 3921009573, 961987163, 1508970993, 2453635748, 2870763221,
     3624381080, 310598401, 607225278, 1426881987, 1925078388, 2162078206, 2614888103, 3248222580,
     3835390401, 4022224774, 264347078, 604807628, 770255983, 1249150122, 1555081692, 1996064986,
     2554220882, 2821834349, 2952996808, 3210313671, 3336571891, 3584528711, 113926993, 338241895,
     666307205, 773529912, 1294757372, 1396182291, 1695183700, 1986661051, 2177026350, 2456956037,
     2730485921, 2820302411, 3259730800, 3345764771, 3516065817, 3600352804, 4094571909, 275423344,
     430227734, 506948616, 659060556, 883997877, 958139571, 1322822218, 1537002063, 1747873779,
     1955562222, 2024104815, 2227730452, 2361852424, 2428436474, 2756734187, 3204031479, 3329325298]"

definition initial_hash :: "int list" where
  "initial_hash =
    [1779033703, 3144134277, 1013904242, 2773480762, 1359893119, 2600822924, 528734635, 1541459225]"

text \<open>The message schedule is kept newest word first.\<close>

fun next_word :: "int list \<Rightarrow> int" where
  "next_word (w1 # w2 # w3 # w4 # w5 # w6 # w7 # w8 # w9 # w10 # w11 # w12 # w13 # w14 # w15 # w16 # ws) =
     (small_sigma1 w2 + w7 + small_sigma0 w15 + w16) mod word_size"
| "next_word _ = 0"

primrec extend_schedule :: "nat \<Rightarrow> int list \<Rightarrow> int list" where
  "extend_schedule 0 w = w"
| "extend_schedule (Suc n) w = extend_schedule n (next_word w # w)"

definition temp1 :: "int \<Rightarrow> int \<Rightarrow> int \<Rightarrow> int \<Rightarrow> int \<Rightarrow> int \<Rightarrow> int" where
  "temp1 e f g h k w = (h + big_sigma1 e + choose_bits e f g + k + w) mod word_size"

definition temp2 :: "int \<Rightarrow> int \<Rightarrow> int \<Rightarrow> int" where
  "temp2 a b c = (big_sigma0 a + majority a b c) mod word_size"

fun hash_round :: "int list \<Rightarrow> int \<times> int \<Rightarrow> int list" where
  "hash_round [a, b, c, d, e, f, g, h] (k, w) =
     (let t1 = temp1 e f g h k w
      in [(t1 + temp2 a b c) mod word_size, a, b, c, (d + t1) mod word_size, e, f, g])"
| "hash_round s kw = s"

definition compress :: "int list \<Rightarrow> int list \<Rightarrow> int list" where
  "compress h blk =
     map2 (\<lambda>x y. (x + y) mod word_size) h
       (foldl hash_round h (zip round_constants (rev (extend_schedule 48 (rev blk)))))"

fun words_of_bytes :: "bytes \<Rightarrow> int list" where
  "words_of_bytes (a # b # c # d # r) =
     (int a * 16777216 + int b * 65536 + int c * 256 + int d) # words_of_bytes r"
| "words_of_bytes _ = []"

definition bytes_of_word :: "int \<Rightarrow> bytes" where
  "bytes_of_word w =
     [nat (w div 16777216 mod 256), nat (w div 65536 mod 256), nat (w div 256 mod 256), nat (w mod 256)]"

definition bit_length_bytes :: "nat \<Rightarrow> bytes" where
  "bit_length_bytes n =
     bytes_of_word (int (8 * n) div word_size mod word_size) @ bytes_of_word (int (8 * n) mod word_size)"

definition pad_message :: "bytes \<Rightarrow> bytes" where
  "pad_message m =
     m @ [128] @ replicate ((119 - length m mod 64) mod 64) 0 @ bit_length_bytes (length m)"

fun blocks16 :: "int list \<Rightarrow> int list list" where
  "blocks16 [] = []"
| "blocks16 (w # ws) = take 16 (w # ws) # blocks16 (drop 15 ws)"

definition sha256 :: "bytes \<Rightarrow> bytes" where
  "sha256 m =
     concat (map bytes_of_word (foldl compress initial_hash (blocks16 (words_of_bytes (pad_message m)))))"

definition hmac_sha256 :: "bytes \<Rightarrow> bytes \<Rightarrow> bytes" where
  "hmac_sha256 key msg =
     (let k0 = (if length key > 64 then sha256 key else key);
          k = k0 @ replicate (64 - length k0) 0
      in sha256 (map (\<lambda>b. b XOR 92) k @ sha256 (map (\<lambda>b. b XOR 54) k @ msg)))"

section \<open>Digests are 32 bytes\<close>

lemma length_hash_round [simp]: "length (hash_round s kw) = length s"
  by (induction s kw rule: hash_round.induct) (simp_all add: Let_def)

lemma length_foldl_hash_round [simp]: "length (foldl hash_round s kws) = length s"
  by (induction kws arbitrary: s) auto

lemma length_compress [simp]: "length (compress h blk) = length h"
  by (simp add: compress_def)

lemma length_foldl_compress [simp]: "length (foldl compress h blks) = length h"
  by (induction blks arbitrary: h) auto

lemma length_bytes_of_word [simp]: "length (bytes_of_word w) = 4"
  by (simp add: bytes_of_word_def)

lemma bytes_of_word_bytes: "list_all is_byte (bytes_of_word w)"
  by (simp add: bytes_of_word_def is_byte_def nat_less_iff)

lemma length_concat_words: "length (concat (map bytes_of_word ws)) = 4 * length ws"
  by (induction ws) auto

lemma length_sha256 [simp]: "length (sha256 m) = 32"
  by (simp add: sha256_def length_concat_words initial_hash_def)

lemma sha256_bytes: "list_all is_byte (sha256 m)"
  unfolding sha256_def list_all_iff
  using bytes_of_word_bytes by (fastforce simp: list_all_iff)

lemma length_hmac_sha256 [simp]: "length (hmac_sha256 key msg) = 32"
  by (simp add: hmac_sha256_def Let_def)

lemma hmac_sha256_bytes: "list_all is_byte (hmac_sha256 key msg)"
  by (simp add: hmac_sha256_def Let_def sha256_bytes)

text \<open>The published test vector for the message \<open>abc\<close>.\<close>

lemma sha256_abc:
  "sha256 (lit ''abc'') =
     [186, 120, 22, 191, 143, 1, 207, 234, 65, 65, 64, 222, 93, 174, 34, 35,
      176, 3, 97, 163, 150, 23, 122, 156, 180, 16, 255, 97, 242, 0, 21, 173]"
  by code_simp

end
