(* ===== verification/Sessions.thy ===== *)
theory Sessions
  imports AuditContracts Sha256 "HOL-Library.Product_Lexorder"
begin

text \<open>
  The session lifecycle of \<open>auth/sessions.py\<close>: tokens and digests, the session and pre-auth records,
  the store protocol as a record of actions, and the service's operations over any store. The laws
  of a store and the facts about the service are in \<open>SessionLaws\<close>; \<open>MemoryStore\<close> and
  \<open>PostgresStore\<close> provide the two stores of the source. Random bytes and fresh identifiers are
  arguments; \<open>clock\<close> is what the store's \<open>current_time\<close> returns and \<open>host_clock\<close> is
  \<open>datetime.now(UTC)\<close>.
\<close>

section \<open>Constants and tokens\<close>

definition minutes :: "int \<Rightarrow> time" where
  "minutes n = n * 60 * 1000000"

definition IDLE_TIMEOUT :: time where
  "IDLE_TIMEOUT = minutes 30"

definition ABSOLUTE_TIMEOUT :: time where
  "ABSOLUTE_TIMEOUT = minutes (8 * 60)"

definition LAST_SEEN_INTERVAL :: time where
  "LAST_SEEN_INTERVAL = 60 * 1000000"

definition MAX_CONCURRENT_SESSIONS :: nat where
  "MAX_CONCURRENT_SESSIONS = 5"

definition PREAUTH_LIFETIME :: time where
  "PREAUTH_LIFETIME = minutes 10"

lemmas session_constants = IDLE_TIMEOUT_def ABSOLUTE_TIMEOUT_def LAST_SEEN_INTERVAL_def
  PREAUTH_LIFETIME_def minutes_def

definition token :: "bytes \<Rightarrow> pystr" where
  "token random = b64url_nopad random"

definition token_digest :: "pystr \<Rightarrow> exn + bytes" where
  "token_digest t = (case encode_ascii t of None \<Rightarrow> Inl UnicodeExn | Some b \<Rightarrow> Inr (sha256 b))"

definition token_matches :: "pystr \<Rightarrow> bytes \<Rightarrow> exn + bool" where
  "token_matches t digest = and_then (token_digest t) (\<lambda>d. Inr (d = digest))"

section \<open>Records\<close>

record session_record =
  sr_id :: uuid
  sr_user_id :: uuid
  sr_bearer_digest :: bytes
  sr_csrf_digest :: bytes
  sr_security_version :: int
  sr_created_at :: time
  sr_authenticated_at :: time
  sr_last_seen_at :: time
  sr_idle_expires_at :: time
  sr_absolute_expires_at :: time
  sr_revoked_at :: "time option"
  sr_revoked_reason :: "pystr option"
  sr_selected_membership_id :: "uuid option"
  sr_selected_membership_version :: "int option"

definition is_valid :: "session_record \<Rightarrow> time \<Rightarrow> int \<Rightarrow> bool" where
  "is_valid r now security_version \<longleftrightarrow>
     sr_revoked_at r = None \<and> sr_security_version r = security_version \<and>
     now < sr_idle_expires_at r \<and> now < sr_absolute_expires_at r"

record session_secrets =
  ss_bearer :: pystr
  ss_csrf_token :: pystr

record issued_session =
  is_record :: session_record
  is_secrets :: session_secrets

record preauth_state =
  ps_state_digest :: bytes
  ps_csrf_digest :: bytes
  ps_created_at :: time
  ps_expires_at :: time
  ps_consumed_at :: "time option"

record issued_preauth =
  ip_state :: preauth_state
  ip_state_token :: pystr
  ip_csrf_token :: pystr

section \<open>The store protocol\<close>

record 's session_store =
  st_write_event :: "audit_event \<Rightarrow> (exn, 's, unit) action"
  st_save :: "session_record \<Rightarrow> (exn, 's, unit) action"
  st_get_by_digest :: "bytes \<Rightarrow> (exn, 's, session_record option) action"
  st_active_for_user :: "uuid \<Rightarrow> (exn, 's, session_record list) action"
  st_replace :: "session_record \<Rightarrow> (exn, 's, unit) action"
  st_save_preauth :: "preauth_state \<Rightarrow> (exn, 's, unit) action"
  st_get_preauth :: "bytes \<Rightarrow> (exn, 's, preauth_state option) action"
  st_replace_preauth :: "preauth_state \<Rightarrow> (exn, 's, unit) action"

section \<open>The service\<close>

definition now_or :: "time option \<Rightarrow> time \<Rightarrow> time" where
  "now_or now clock = (case now of None \<Rightarrow> clock | Some t \<Rightarrow> t)"

text \<open>The audit events the service writes, built through the validating constructor.\<close>

definition no_event_args :: "security_event_type \<Rightarrow> security_event_result \<Rightarrow> event_args" where
  "no_event_args t r =
     \<lparr>ea_event_type = Proper t, ea_result = Proper r, ea_reason_code = Missing, ea_user_id = Missing,
      ea_session_id = Missing, ea_membership_id = Missing, ea_role_id = Missing,
      ea_target_membership_id = Missing, ea_permission_id = Missing, ea_subject_digest = Missing,
      ea_subject_kind = Missing, ea_subject_key_id = Missing, ea_affected_count = Missing\<rparr>"

definition session_event ::
  "security_event_type \<Rightarrow> security_reason \<Rightarrow> uuid \<Rightarrow> uuid option \<Rightarrow> exn + audit_event" where
  "session_event t reason user session =
     SecurityAuditEvent ((no_event_args t R_SUCCESS)
       \<lparr>ea_reason_code := Proper reason, ea_user_id := Proper user, ea_session_id := of_option session\<rparr>) False"

definition write_session_event ::
  "'s session_store \<Rightarrow> security_event_type \<Rightarrow> security_reason \<Rightarrow> uuid \<Rightarrow> uuid option \<Rightarrow> (exn, 's, unit) action" where
  "write_session_event st t reason user session =
     seq (lift_result (session_event t reason user session)) (st_write_event st)"

definition revoke_record :: "session_record \<Rightarrow> time \<Rightarrow> string \<Rightarrow> session_record" where
  "revoke_record r now reason = r\<lparr>sr_revoked_at := Some now, sr_revoked_reason := Some (lit reason)\<rparr>"

text \<open>The \<open>while len(active) >= MAX_CONCURRENT_SESSIONS\<close> loop, on the list sorted oldest first.\<close>

fun evict :: "'s session_store \<Rightarrow> time \<Rightarrow> session_record list \<Rightarrow> (exn, 's, unit) action" where
  "evict st now [] = ret ()"
| "evict st now (oldest # active) =
     (if length (oldest # active) \<ge> MAX_CONCURRENT_SESSIONS
      then seq (st_replace st (revoke_record oldest now ''concurrent_limit'')) (\<lambda>_.
           seq (write_session_event st SESSION_REVOKED Y_CONCURRENT_LIMIT (sr_user_id oldest) (Some (sr_id oldest))) (\<lambda>_.
           evict st now active))
      else ret ())"

definition new_record :: "uuid \<Rightarrow> uuid \<Rightarrow> bytes \<Rightarrow> bytes \<Rightarrow> int \<Rightarrow> time \<Rightarrow> session_record" where
  "new_record new_id user_id bearer_digest csrf_digest security_version now =
     \<lparr>sr_id = new_id, sr_user_id = user_id, sr_bearer_digest = bearer_digest,
      sr_csrf_digest = csrf_digest, sr_security_version = security_version, sr_created_at = now,
      sr_authenticated_at = now, sr_last_seen_at = now, sr_idle_expires_at = now + IDLE_TIMEOUT,
      sr_absolute_expires_at = now + ABSOLUTE_TIMEOUT, sr_revoked_at = None,
      sr_revoked_reason = None, sr_selected_membership_id = None,
      sr_selected_membership_version = None\<rparr>"

text \<open>The hexadecimal texts of two identifiers compare as the numbers do.\<close>

definition session_order :: "session_record \<Rightarrow> time \<times> nat" where
  "session_order r = (sr_created_at r, sr_id r)"

definition issue ::
  "'s session_store \<Rightarrow> uuid \<Rightarrow> int \<Rightarrow> time option \<Rightarrow> time \<Rightarrow> bytes \<Rightarrow> bytes \<Rightarrow> uuid \<Rightarrow>
   (exn, 's, issued_session) action" where
  "issue st user_id security_version now_arg clock bearer_random csrf_random new_id =
     (let now = now_or now_arg clock in
      seq (st_active_for_user st user_id) (\<lambda>items.
      let active = sort_key session_order (filter (\<lambda>r. is_valid r now security_version) items) in
      seq (evict st now active) (\<lambda>_.
      let bearer = token bearer_random; csrf = token csrf_random in
      seq (lift_result (token_digest bearer)) (\<lambda>bd.
      seq (lift_result (token_digest csrf)) (\<lambda>cd.
      let record = new_record new_id user_id bd cd security_version now in
      seq (st_save st record) (\<lambda>_.
      ret \<lparr>is_record = record, is_secrets = \<lparr>ss_bearer = bearer, ss_csrf_token = csrf\<rparr>\<rparr>))))))"

definition touched :: "session_record \<Rightarrow> time \<Rightarrow> session_record" where
  "touched r now = r\<lparr>sr_last_seen_at := now,
     sr_idle_expires_at := min (now + IDLE_TIMEOUT) (sr_absolute_expires_at r)\<rparr>"

definition resolve ::
  "'s session_store \<Rightarrow> pystr \<Rightarrow> int \<Rightarrow> time option \<Rightarrow> time \<Rightarrow> (exn, 's, session_record option) action" where
  "resolve st bearer security_version now_arg clock =
     (let now = now_or now_arg clock in
      seq (lift_result (token_digest bearer)) (\<lambda>d.
      seq (st_get_by_digest st d) (\<lambda>found.
      case found of
        None \<Rightarrow> ret None
      | Some record \<Rightarrow>
          if \<not> is_valid record now security_version then ret None
          else if now - sr_last_seen_at record \<ge> LAST_SEEN_INTERVAL
          then seq (st_replace st (touched record now)) (\<lambda>_. ret (Some (touched record now)))
          else ret (Some record))))"

definition revoke_bearer ::
  "'s session_store \<Rightarrow> pystr \<Rightarrow> security_event_type \<Rightarrow> time option \<Rightarrow> time \<Rightarrow> (exn, 's, bool) action" where
  "revoke_bearer st bearer event_type now_arg host_clock =
     seq (lift_result (token_digest bearer)) (\<lambda>d.
     seq (st_get_by_digest st d) (\<lambda>found.
     case found of
       None \<Rightarrow> ret False
     | Some record \<Rightarrow>
         if sr_revoked_at record \<noteq> None then ret False
         else seq (st_replace st (revoke_record record (now_or now_arg host_clock) ''logout'')) (\<lambda>_.
              seq (write_session_event st event_type Y_LOGOUT (sr_user_id record) (Some (sr_id record))) (\<lambda>_.
              ret True))))"

definition logout ::
  "'s session_store \<Rightarrow> pystr \<Rightarrow> time option \<Rightarrow> time \<Rightarrow> (exn, 's, bool) action" where
  "logout st bearer now_arg host_clock = revoke_bearer st bearer LOGOUT now_arg host_clock"

definition revoke_current ::
  "'s session_store \<Rightarrow> pystr \<Rightarrow> time option \<Rightarrow> time \<Rightarrow> (exn, 's, bool) action" where
  "revoke_current st bearer now_arg host_clock = revoke_bearer st bearer SESSION_REVOKED now_arg host_clock"

definition revoke_all ::
  "'s session_store \<Rightarrow> uuid \<Rightarrow> time option \<Rightarrow> time \<Rightarrow> (exn, 's, nat) action" where
  "revoke_all st user_id now_arg clock =
     (let now = now_or now_arg clock in
      seq (st_active_for_user st user_id) (\<lambda>items.
      seq (for_each (\<lambda>r. st_replace st (revoke_record r now ''revoke_all'')) items) (\<lambda>_.
      seq (if length items \<noteq> 0
           then write_session_event st ALL_SESSIONS_REVOKED Y_REVOKE_ALL user_id None
           else ret ()) (\<lambda>_.
      ret (length items)))))"

text \<open>Both rotations resolve, then give the same record new digests.\<close>

definition rotate_with ::
  "'s session_store \<Rightarrow> pystr \<Rightarrow> int \<Rightarrow> (session_record \<Rightarrow> session_record) \<Rightarrow> time option \<Rightarrow> time \<Rightarrow>
   bytes \<Rightarrow> bytes \<Rightarrow> (exn, 's, issued_session option) action" where
  "rotate_with st bearer security_version select now_arg clock bearer_random csrf_random =
     (let now = now_or now_arg clock in
      seq (resolve st bearer security_version (Some now) clock) (\<lambda>old.
      case old of
        None \<Rightarrow> ret None
      | Some old_record \<Rightarrow>
          (let new_bearer = token bearer_random; new_csrf = token csrf_random in
           seq (lift_result (token_digest new_bearer)) (\<lambda>bd.
           seq (lift_result (token_digest new_csrf)) (\<lambda>cd.
           let rotated = select (old_record\<lparr>sr_bearer_digest := bd, sr_csrf_digest := cd, sr_last_seen_at := now\<rparr>) in
           seq (st_replace st rotated) (\<lambda>_.
           ret (Some \<lparr>is_record = rotated,
                      is_secrets = \<lparr>ss_bearer = new_bearer, ss_csrf_token = new_csrf\<rparr>\<rparr>)))))))"

definition rotate_to_membership ::
  "'s session_store \<Rightarrow> pystr \<Rightarrow> int \<Rightarrow> uuid \<Rightarrow> int \<Rightarrow> time option \<Rightarrow> time \<Rightarrow> bytes \<Rightarrow> bytes \<Rightarrow>
   (exn, 's, issued_session option) action" where
  "rotate_to_membership st bearer security_version membership_id membership_version =
     rotate_with st bearer security_version
       (\<lambda>r. r\<lparr>sr_selected_membership_id := Some membership_id,
               sr_selected_membership_version := Some membership_version\<rparr>)"

definition rotate ::
  "'s session_store \<Rightarrow> pystr \<Rightarrow> int \<Rightarrow> time option \<Rightarrow> time \<Rightarrow> bytes \<Rightarrow> bytes \<Rightarrow>
   (exn, 's, issued_session option) action" where
  "rotate st bearer security_version = rotate_with st bearer security_version (\<lambda>r. r)"

definition issue_preauth ::
  "'s session_store \<Rightarrow> time option \<Rightarrow> time \<Rightarrow> bytes \<Rightarrow> bytes \<Rightarrow> (exn, 's, issued_preauth) action" where
  "issue_preauth st now_arg clock state_random csrf_random =
     (let now = now_or now_arg clock; state_token = token state_random; csrf = token csrf_random in
      seq (lift_result (token_digest state_token)) (\<lambda>sd.
      seq (lift_result (token_digest csrf)) (\<lambda>cd.
      let state = \<lparr>ps_state_digest = sd, ps_csrf_digest = cd, ps_created_at = now,
                   ps_expires_at = now + PREAUTH_LIFETIME, ps_consumed_at = None\<rparr> in
      seq (st_save_preauth st state) (\<lambda>_.
      ret \<lparr>ip_state = state, ip_state_token = state_token, ip_csrf_token = csrf\<rparr>))))"

definition consume_preauth ::
  "'s session_store \<Rightarrow> pystr \<Rightarrow> pystr \<Rightarrow> time option \<Rightarrow> time \<Rightarrow> (exn, 's, bool) action" where
  "consume_preauth st state_token csrf now_arg clock =
     (let now = now_or now_arg clock in
      seq (lift_result (token_digest state_token)) (\<lambda>sd.
      seq (st_get_preauth st sd) (\<lambda>found.
      case found of
        None \<Rightarrow> ret False
      | Some state \<Rightarrow>
          if ps_consumed_at state \<noteq> None \<or> now \<ge> ps_expires_at state then ret False
          else seq (lift_result (token_matches csrf (ps_csrf_digest state))) (\<lambda>ok.
               if \<not> ok then ret False
               else seq (st_replace_preauth st (state\<lparr>ps_consumed_at := Some now\<rparr>)) (\<lambda>_. ret True)))))"

end
