(* ===== verification/SessionLaws.thy ===== *)
theory SessionLaws
  imports Sessions
begin

text \<open>
  The contract between the session service and its store: the locale \<open>session_laws\<close> states what the
  service relies on (lookups by digest, replacement of one row, insertion, the event log), and the
  service's behaviour is proved inside it once for every store. The row constraints are those of
  \<open>AuthSession\<close> and \<open>PreAuthCsrfState\<close> in \<open>models/identity.py\<close>.
\<close>

section \<open>Row constraints\<close>

definition check_session_row :: "session_record \<Rightarrow> bool" where
  "check_session_row r \<longleftrightarrow>
     sr_idle_expires_at r \<le> sr_absolute_expires_at r \<and>
     ((sr_revoked_at r = None \<and> sr_revoked_reason r = None) \<or>
      (sr_revoked_at r \<noteq> None \<and>
       (case sr_revoked_reason r of None \<Rightarrow> False
        | Some y \<Rightarrow> y \<in> {lit ''logout'', lit ''revoke_all'', lit ''concurrent_limit'', lit ''password_reset''}))) \<and>
     length (sr_bearer_digest r) = 32 \<and>
     length (sr_csrf_digest r) = 32 \<and>
     (sr_selected_membership_id r = None) = (sr_selected_membership_version r = None) \<and>
     (case sr_selected_membership_version r of None \<Rightarrow> True | Some v \<Rightarrow> 0 < v \<and> int4_ok v) \<and>
     int4_ok (sr_security_version r)"

definition check_preauth_row :: "preauth_state \<Rightarrow> bool" where
  "check_preauth_row p \<longleftrightarrow>
     length (ps_state_digest p) = 32 \<and> length (ps_csrf_digest p) = 32 \<and> ps_created_at p < ps_expires_at p"

text \<open>The columns no operation changes after a row is inserted.\<close>

definition same_owner :: "session_record \<Rightarrow> session_record \<Rightarrow> bool" where
  "same_owner old r \<longleftrightarrow>
     sr_id old = sr_id r \<and> sr_user_id old = sr_user_id r \<and>
     sr_security_version old = sr_security_version r \<and> sr_created_at old = sr_created_at r \<and>
     sr_authenticated_at old = sr_authenticated_at r \<and>
     sr_absolute_expires_at old = sr_absolute_expires_at r"

lemma same_owner_refl: "same_owner r r"
  by (simp add: same_owner_def)

type_synonym event_line = "pystr \<times> pystr option \<times> uuid option \<times> uuid option"

definition line_of :: "audit_event \<Rightarrow> event_line" where
  "line_of e = (event_value (ae_event_type e), map_option reason_value (ae_reason_code e),
     ae_user_id e, ae_session_id e)"

text \<open>An event about sessions only: no membership, role, permission, subject or count.\<close>

definition session_only :: "audit_event \<Rightarrow> bool" where
  "session_only e \<longleftrightarrow>
     event_ok e \<and> ae_event_type e \<notin> set role_event_types \<and> ae_event_type e \<noteq> SECURITY_EVENTS_PRUNED \<and>
     ae_membership_id e = None \<and> ae_role_id e = None \<and> ae_subject_digest e = None"

definition replaced :: "session_record \<Rightarrow> session_record \<Rightarrow> session_record" where
  "replaced r x = (if sr_id x = sr_id r then r else x)"

section \<open>The laws\<close>

locale session_laws =
  fixes st :: "'s session_store"
    and rows :: "'s \<Rightarrow> session_record list"
    and pre :: "'s \<Rightarrow> preauth_state list"
    and logged :: "'s \<Rightarrow> event_line list"
    and knows :: "'s \<Rightarrow> uuid \<Rightarrow> bool"
    and links :: "'s \<Rightarrow> uuid \<Rightarrow> uuid \<Rightarrow> bool"
    and wf :: "'s \<Rightarrow> bool"
  assumes wf_ids: "wf s \<Longrightarrow> unique_on sr_id (rows s)"
    and wf_digests: "wf s \<Longrightarrow> unique_on sr_bearer_digest (rows s)"
    and wf_shape: "wf s \<Longrightarrow> r \<in> set (rows s) \<Longrightarrow> check_session_row r"
    and wf_known: "wf s \<Longrightarrow> r \<in> set (rows s) \<Longrightarrow> knows s (sr_user_id r)"
    and wf_linked: "wf s \<Longrightarrow> r \<in> set (rows s) \<Longrightarrow> sr_selected_membership_id r = Some m \<Longrightarrow>
      links s m (sr_user_id r)"
    and wf_preauth: "wf s \<Longrightarrow> unique_on ps_state_digest (pre s)"
    and get_law: "wf s \<Longrightarrow>
      st_get_by_digest st d s = Inr (find (\<lambda>r. sr_bearer_digest r = d) (rows s), s)"
    and active_law: "wf s \<Longrightarrow> \<exists>items. st_active_for_user st u s = Inr (items, s) \<and> distinct items \<and>
      set items = {r \<in> set (rows s). sr_user_id r = u \<and> sr_revoked_at r = None}"
    and replace_law: "wf s \<Longrightarrow> old \<in> set (rows s) \<Longrightarrow> same_owner old r \<Longrightarrow> check_session_row r \<Longrightarrow>
      (\<And>m. sr_selected_membership_id r = Some m \<Longrightarrow> links s m (sr_user_id r)) \<Longrightarrow>
      (\<And>x. x \<in> set (rows s) \<Longrightarrow> sr_bearer_digest x = sr_bearer_digest r \<Longrightarrow> sr_id x = sr_id r) \<Longrightarrow>
      \<exists>s'. st_replace st r s = Inr ((), s') \<and> wf s' \<and> set (rows s') = replaced r ` set (rows s) \<and>
        pre s' = pre s \<and> logged s' = logged s \<and> knows s' = knows s \<and> links s' = links s"
    and save_law: "wf s \<Longrightarrow> check_session_row r \<Longrightarrow> knows s (sr_user_id r) \<Longrightarrow>
      sr_selected_membership_id r = None \<Longrightarrow> sr_id r \<notin> sr_id ` set (rows s) \<Longrightarrow>
      sr_bearer_digest r \<notin> sr_bearer_digest ` set (rows s) \<Longrightarrow>
      \<exists>s'. st_save st r s = Inr ((), s') \<and> wf s' \<and> set (rows s') = insert r (set (rows s)) \<and>
        pre s' = pre s \<and> logged s' = logged s \<and> knows s' = knows s \<and> links s' = links s"
    and write_law: "wf s \<Longrightarrow> session_only e \<Longrightarrow>
      (\<And>u. ae_user_id e = Some u \<Longrightarrow> knows s u) \<Longrightarrow>
      (\<And>i. ae_session_id e = Some i \<Longrightarrow>
        \<exists>r \<in> set (rows s). sr_id r = i \<and> ae_user_id e = Some (sr_user_id r)) \<Longrightarrow>
      \<exists>s'. st_write_event st e s = Inr ((), s') \<and> wf s' \<and> rows s' = rows s \<and> pre s' = pre s \<and>
        logged s' = logged s @ [line_of e] \<and> knows s' = knows s \<and> links s' = links s"
    and save_preauth_law: "wf s \<Longrightarrow> check_preauth_row p \<Longrightarrow>
      ps_state_digest p \<notin> ps_state_digest ` set (pre s) \<Longrightarrow>
      \<exists>s'. st_save_preauth st p s = Inr ((), s') \<and> wf s' \<and> set (pre s') = insert p (set (pre s)) \<and>
        rows s' = rows s \<and> logged s' = logged s"
    and get_preauth_law: "wf s \<Longrightarrow>
      st_get_preauth st d s = Inr (find (\<lambda>p. ps_state_digest p = d) (pre s), s)"
    and replace_preauth_law: "wf s \<Longrightarrow> p \<in> set (pre s) \<Longrightarrow> ps_consumed_at p = None \<Longrightarrow>
      \<exists>s'. st_replace_preauth st (p\<lparr>ps_consumed_at := Some t\<rparr>) s = Inr ((), s') \<and> wf s' \<and>
        set (pre s') = (\<lambda>x. if ps_state_digest x = ps_state_digest p then p\<lparr>ps_consumed_at := Some t\<rparr> else x) ` set (pre s) \<and>
        rows s' = rows s \<and> logged s' = logged s"

section \<open>Facts that need no store\<close>

lemma find_unique:
  assumes "unique_on key xs"
  shows "find (\<lambda>x. key x = k) xs = Some x \<longleftrightarrow> x \<in> set xs \<and> key x = k"
  using assms by (induction xs) (auto simp: unique_on_def)

lemma find_none: "find (\<lambda>x. key x = k) xs = None \<longleftrightarrow> k \<notin> key ` set xs"
  by (induction xs) auto

lemma is_ascii_token: "is_ascii (token bs)"
proof -
  have "list_all token_char (token bs)" by (simp add: token_def b64url_nopad_core b64_core_chars)
  then show ?thesis
    by (auto simp: is_ascii_def list_all_iff token_char_def char_class_defs)
qed

lemma token_digest_token: "token_digest (token bs) = Inr (sha256 (token bs))"
  by (simp add: token_digest_def encode_ascii_def is_ascii_token)

lemma token_digest_eq_Inr: "token_digest b = Inr d \<longleftrightarrow> is_ascii b \<and> d = sha256 b"
  by (auto simp: token_digest_def encode_ascii_def)

lemma token_digest_ascii: "is_ascii b \<Longrightarrow> token_digest b = Inr (sha256 b)"
  by (simp add: token_digest_eq_Inr)

lemma session_event_ok:
  assumes "(t, y) \<in> {(SESSION_REVOKED, Y_CONCURRENT_LIMIT), (SESSION_REVOKED, Y_LOGOUT), (LOGOUT, Y_LOGOUT),
      (ALL_SESSIONS_REVOKED, Y_REVOKE_ALL)}"
  shows "\<exists>e. session_event t y u s = Inr e \<and> session_only e \<and> ae_user_id e = Some u \<and>
    ae_session_id e = s \<and> line_of e = (event_value t, Some (reason_value y), Some u, s)"
proof -
  let ?a = "(no_event_args t R_SUCCESS)\<lparr>ea_reason_code := Proper y, ea_user_id := Proper u,
    ea_session_id := of_option s\<rparr>"
  have p: "proper (of_option s) = s" by (cases s) (simp_all add: of_option_def)
  have v: "validate_event ?a"
    using assms by (cases s) (auto simp: validate_event_def valid_outcome_def valid_links_def identity_args_def
        valid_permission_def valid_subject_def valid_count_def no_event_args_def policy_def
        reason_allowed_def given_def alien_def of_option_def role_event_types_def
        membership_role_event_types_def role_permission_event_types_def)
  define e where "e = \<lparr>ae_event_type = t, ae_result = R_SUCCESS, ae_reason_code = Some y, ae_user_id = Some u,
    ae_session_id = s, ae_membership_id = None, ae_role_id = None, ae_target_membership_id = None,
    ae_permission_id = None, ae_subject_digest = None, ae_subject_kind = None,
    ae_subject_key_id = None, ae_affected_count = None\<rparr>"
  have "session_event t y u s = Inr e"
    using v by (simp add: session_event_def SecurityAuditEvent_def no_event_args_def p e_def)
  moreover have "args_of e = ?a"
    by (simp add: args_of_def e_def no_event_args_def of_option_def)
  then have "event_ok e" using v by (simp add: event_ok_def)
  ultimately show ?thesis
    using assms by (auto simp: session_only_def e_def line_of_def role_event_types_def)
qed

lemma is_valid_unrevoked: "is_valid r now sv \<Longrightarrow> sr_revoked_at r = None"
  by (simp add: is_valid_def)

lemma check_revoke_record:
  "check_session_row r \<Longrightarrow> why \<in> {''logout'', ''revoke_all'', ''concurrent_limit''} \<Longrightarrow>
     check_session_row (revoke_record r now why)"
  by (auto simp: check_session_row_def revoke_record_def)

lemma revoke_record_simps [simp]:
  "sr_id (revoke_record r now why) = sr_id r"
  "sr_user_id (revoke_record r now why) = sr_user_id r"
  "sr_bearer_digest (revoke_record r now why) = sr_bearer_digest r"
  "sr_selected_membership_id (revoke_record r now why) = sr_selected_membership_id r"
  "sr_revoked_at (revoke_record r now why) = Some now"
  "sr_revoked_reason (revoke_record r now why) = Some (lit why)"
  by (simp_all add: revoke_record_def)

lemma same_owner_revoke [simp]: "same_owner r (revoke_record r now why)"
  by (simp add: same_owner_def revoke_record_def)

lemma same_owner_touched [simp]: "same_owner r (touched r now)"
  by (simp add: same_owner_def touched_def)

lemma touched_simps [simp]:
  "sr_id (touched r now) = sr_id r"
  "sr_user_id (touched r now) = sr_user_id r"
  "sr_bearer_digest (touched r now) = sr_bearer_digest r"
  "sr_csrf_digest (touched r now) = sr_csrf_digest r"
  "sr_revoked_at (touched r now) = sr_revoked_at r"
  "sr_security_version (touched r now) = sr_security_version r"
  "sr_selected_membership_id (touched r now) = sr_selected_membership_id r"
  "sr_selected_membership_version (touched r now) = sr_selected_membership_version r"
  "sr_absolute_expires_at (touched r now) = sr_absolute_expires_at r"
  "sr_last_seen_at (touched r now) = now"
  by (simp_all add: touched_def)

lemma check_touched: "check_session_row r \<Longrightarrow> check_session_row (touched r now)"
  by (auto simp: check_session_row_def touched_def)

lemma is_valid_touched: "is_valid r now sv \<Longrightarrow> is_valid (touched r now) now sv"
  by (auto simp: is_valid_def touched_def session_constants)

lemma replaced_simps [simp]:
  "sr_id (replaced r x) = sr_id x" "sr_id x \<noteq> sr_id r \<Longrightarrow> replaced r x = x" "replaced r r = r"
  by (simp_all add: replaced_def)

lemma check_new_record:
  "length bd = 32 \<Longrightarrow> length cd = 32 \<Longrightarrow> int4_ok sv \<Longrightarrow> check_session_row (new_record i u bd cd sv now)"
  by (simp add: check_session_row_def new_record_def session_constants)

lemma is_valid_new_record: "is_valid (new_record i u bd cd sv now) now sv"
  by (simp add: is_valid_def new_record_def session_constants)

section \<open>The service over any lawful store\<close>

text \<open>How a row may look after any number of operations of the service.\<close>

definition evolved :: "session_record \<Rightarrow> session_record \<Rightarrow> bool" where
  "evolved old r \<longleftrightarrow>
     same_owner old r \<and>
     (sr_revoked_at old \<noteq> None \<longrightarrow> r = old)"

lemma evolved_refl [simp]: "evolved r r"
  by (simp add: evolved_def same_owner_def)

lemma evolved_trans: "evolved a b \<Longrightarrow> evolved b c \<Longrightarrow> evolved a c"
  by (auto simp: evolved_def same_owner_def)

definition rows_evolved :: "session_record list \<Rightarrow> session_record list \<Rightarrow> bool" where
  "rows_evolved xs ys \<longleftrightarrow> (\<forall>x \<in> set xs. \<exists>y \<in> set ys. evolved x y)"

lemma rows_evolved_refl [simp]: "rows_evolved xs xs"
  by (auto simp: rows_evolved_def intro: evolved_refl)

lemma rows_evolved_trans: "rows_evolved xs ys \<Longrightarrow> rows_evolved ys zs \<Longrightarrow> rows_evolved xs zs"
  unfolding rows_evolved_def by (meson evolved_trans)

definition evicted_row :: "time \<Rightarrow> session_record list \<Rightarrow> session_record \<Rightarrow> session_record" where
  "evicted_row now ev x = (if x \<in> set ev then revoke_record x now ''concurrent_limit'' else x)"

definition eviction_line :: "session_record \<Rightarrow> event_line" where
  "eviction_line r = (event_value SESSION_REVOKED, Some (reason_value Y_CONCURRENT_LIMIT),
     Some (sr_user_id r), Some (sr_id r))"

context session_laws
begin

lemma same_row: "wf s \<Longrightarrow> x \<in> set (rows s) \<Longrightarrow> y \<in> set (rows s) \<Longrightarrow> sr_id x = sr_id y \<Longrightarrow> x = y"
  using unique_on_eqD [OF wf_ids] by blast

lemma same_digest_row:
  "wf s \<Longrightarrow> x \<in> set (rows s) \<Longrightarrow> y \<in> set (rows s) \<Longrightarrow> sr_bearer_digest x = sr_bearer_digest y \<Longrightarrow> x = y"
  using unique_on_eqD [OF wf_digests] by blast

lemma found_row:
  "wf s \<Longrightarrow> find (\<lambda>r. sr_bearer_digest r = d) (rows s) = Some r \<longleftrightarrow> r \<in> set (rows s) \<and> sr_bearer_digest r = d"
  by (rule find_unique) (rule wf_digests)

text \<open>Replacing a live row keeps every other row and evolves this one.\<close>

lemma replace_keeping_digest:
  assumes "wf s" "old \<in> set (rows s)" "same_owner old r" "check_session_row r"
    and "sr_bearer_digest r = sr_bearer_digest old"
    and "sr_selected_membership_id r = sr_selected_membership_id old"
  shows "\<exists>s'. st_replace st r s = Inr ((), s') \<and> wf s' \<and> set (rows s') = replaced r ` set (rows s) \<and>
    pre s' = pre s \<and> logged s' = logged s \<and> knows s' = knows s \<and> links s' = links s"
proof (rule replace_law [OF assms(1-4)])
  have user: "sr_user_id r = sr_user_id old" using assms(3) by (simp add: same_owner_def)
  show "links s m (sr_user_id r)" if "sr_selected_membership_id r = Some m" for m
    using wf_linked [OF assms(1,2), of m] that assms(6) user by simp
  show "sr_id x = sr_id r" if "x \<in> set (rows s)" "sr_bearer_digest x = sr_bearer_digest r" for x
    using same_digest_row [OF assms(1) that(1) assms(2)] that(2) assms(3,5) by (simp add: same_owner_def)
qed

lemma write_session_event_ok:
  assumes "wf s"
    and "(t, y) \<in> {(SESSION_REVOKED, Y_CONCURRENT_LIMIT), (SESSION_REVOKED, Y_LOGOUT), (LOGOUT, Y_LOGOUT),
      (ALL_SESSIONS_REVOKED, Y_REVOKE_ALL)}"
    and "knows s u"
    and "\<And>i. x = Some i \<Longrightarrow> \<exists>r \<in> set (rows s). sr_id r = i \<and> sr_user_id r = u"
  shows "\<exists>s'. write_session_event st t y u x s = Inr ((), s') \<and> wf s' \<and> rows s' = rows s \<and>
    pre s' = pre s \<and> logged s' = logged s @ [(event_value t, Some (reason_value y), Some u, x)] \<and>
    knows s' = knows s \<and> links s' = links s"
proof -
  obtain e where e: "session_event t y u x = Inr e" "session_only e" "ae_user_id e = Some u"
    "ae_session_id e = x" "line_of e = (event_value t, Some (reason_value y), Some u, x)"
    using session_event_ok [OF assms(2)] by blast
  have "\<exists>s'. st_write_event st e s = Inr ((), s') \<and> wf s' \<and> rows s' = rows s \<and> pre s' = pre s \<and>
      logged s' = logged s @ [line_of e] \<and> knows s' = knows s \<and> links s' = links s"
    by (rule write_law [OF assms(1) e(2)]) (use e assms(3,4) in fastforce)+
  then show ?thesis by (simp add: write_session_event_def seq_lift e)
qed

text \<open>Revoking one live row, with its event.\<close>

lemma revoke_one:
  assumes "wf s" "r \<in> set (rows s)" "sr_revoked_at r = None"
    and "why \<in> {''logout'', ''revoke_all'', ''concurrent_limit''}"
  shows "\<exists>s'. st_replace st (revoke_record r now why) s = Inr ((), s') \<and> wf s' \<and>
    set (rows s') = replaced (revoke_record r now why) ` set (rows s) \<and>
    pre s' = pre s \<and> logged s' = logged s \<and> knows s' = knows s \<and> links s' = links s"
  by (rule replace_keeping_digest [OF assms(1,2)])
    (use assms wf_shape check_revoke_record in auto)

lemma replaced_evolved:
  assumes "wf s" "old \<in> set (rows s)" "evolved old r" "set (rows s') = replaced r ` set (rows s)"
  shows "rows_evolved (rows s) (rows s')"
proof -
  have id: "sr_id old = sr_id r" using assms(3) by (simp add: evolved_def same_owner_def)
  have "evolved x (replaced r x)" if "x \<in> set (rows s)" for x
    using same_row [OF assms(1) that assms(2)] id assms(3) by (auto simp: replaced_def)
  with assms(4) show ?thesis by (auto simp: rows_evolved_def)
qed

lemma evict_ok:
  assumes "wf s" "set active \<subseteq> set (rows s)" "distinct active" "\<forall>r \<in> set active. sr_revoked_at r = None"
  shows "\<exists>s'. evict st now active s = Inr ((), s') \<and> wf s' \<and>
    set (rows s') = evicted_row now (take (length active - 4) active) ` set (rows s) \<and> pre s' = pre s \<and>
    logged s' = logged s @ map eviction_line (take (length active - 4) active) \<and>
    knows s' = knows s \<and> links s' = links s"
  using assms
proof (induction active arbitrary: s)
  case Nil
  have "evicted_row now [] ` set (rows s) = set (rows s)" by (simp add: evicted_row_def)
  with Nil show ?case by simp
next
  case (Cons r active)
  show ?case
  proof (cases "length (r # active) \<ge> MAX_CONCURRENT_SESSIONS")
    case False
    then have "length (r # active) - 4 = 0" by (simp add: MAX_CONCURRENT_SESSIONS_def)
    moreover have "evicted_row now [] ` set (rows s) = set (rows s)" by (simp add: evicted_row_def)
    ultimately show ?thesis using False Cons.prems by simp
  next
    case True
    let ?q = "revoke_record r now ''concurrent_limit''"
    have r: "r \<in> set (rows s)" "sr_revoked_at r = None" using Cons.prems by auto
    obtain s1 where s1: "st_replace st ?q s = Inr ((), s1)" "wf s1"
      "set (rows s1) = replaced ?q ` set (rows s)" "pre s1 = pre s" "logged s1 = logged s"
      "knows s1 = knows s" "links s1 = links s"
      using revoke_one [OF Cons.prems(1) r, of "''concurrent_limit''" now] by blast
    have q: "?q \<in> set (rows s1)" using s1(3) r(1) by (auto simp: replaced_def image_iff)
    have "\<exists>s2. write_session_event st SESSION_REVOKED Y_CONCURRENT_LIMIT (sr_user_id r) (Some (sr_id r)) s1 =
        Inr ((), s2) \<and> wf s2 \<and> rows s2 = rows s1 \<and> pre s2 = pre s1 \<and>
        logged s2 = logged s1 @ [eviction_line r] \<and> knows s2 = knows s1 \<and> links s2 = links s1"
      unfolding eviction_line_def
      by (rule write_session_event_ok [OF s1(2)])
        (use q wf_known [OF Cons.prems(1) r(1)] s1(6) in \<open>auto intro: bexI [of _ ?q]\<close>)
    then obtain s2 where s2: "write_session_event st SESSION_REVOKED Y_CONCURRENT_LIMIT (sr_user_id r)
        (Some (sr_id r)) s1 = Inr ((), s2)" "wf s2" "rows s2 = rows s1" "pre s2 = pre s1"
        "logged s2 = logged s1 @ [eviction_line r]" "knows s2 = knows s1" "links s2 = links s1" by blast
    have other: "sr_id x \<noteq> sr_id r" if "x \<in> set active" for x
      using that Cons.prems same_row [OF Cons.prems(1), of x r] by auto
    have sub: "set active \<subseteq> set (rows s2)"
    proof
      fix x assume x: "x \<in> set active"
      then have "replaced ?q x = x" using other [OF x] by simp
      moreover have "x \<in> set (rows s)" using x Cons.prems by auto
      ultimately show "x \<in> set (rows s2)" using s1(3) s2(3) by (metis image_eqI)
    qed
    obtain s3 where s3: "evict st now active s2 = Inr ((), s3)" "wf s3"
      "set (rows s3) = evicted_row now (take (length active - 4) active) ` set (rows s2)"
      "pre s3 = pre s2" "logged s3 = logged s2 @ map eviction_line (take (length active - 4) active)"
      "knows s3 = knows s2" "links s3 = links s2"
      using Cons.IH [OF s2(2) sub] Cons.prems by auto
    let ?k = "take (length active - 4) active"
    have k: "take (length (r # active) - 4) (r # active) = r # ?k"
      using True by (simp add: MAX_CONCURRENT_SESSIONS_def Suc_diff_le take_Cons')
    have "evicted_row now ?k (replaced ?q x) = evicted_row now (r # ?k) x" if "x \<in> set (rows s)" for x
    proof (cases "sr_id x = sr_id r")
      case True
      then have "x = r" using same_row [OF Cons.prems(1) that r(1)] by simp
      moreover have "?q \<notin> set ?k" using other by (metis in_set_takeD revoke_record_simps(1))
      ultimately show ?thesis by (simp add: evicted_row_def replaced_def)
    next
      case False
      then show ?thesis by (auto simp: evicted_row_def)
    qed
    then have "set (rows s3) = evicted_row now (r # ?k) ` set (rows s)"
      using s3(3) s2(3) s1(3) by (auto simp: image_image)
    with True s1 s2 s3 show ?thesis unfolding k by (simp add: seq_Inr)
  qed
qed

end

text \<open>Issuing, resolving and revoking.\<close>

lemma sort_key_unique:
  assumes "distinct xs" "distinct ys" "set xs = set ys" "inj_on f (set xs)"
  shows "sort_key f xs = sort_key f ys"
proof -
  have "map f (sort_key f xs) = map f (sort_key f ys)"
    by (rule sorted_distinct_set_unique) (use assms in \<open>auto simp: distinct_map\<close>)
  moreover have "inj_on f (set (sort_key f xs) \<union> set (sort_key f ys))" using assms by simp
  ultimately show ?thesis by (simp add: inj_on_map_eq_map)
qed

definition live_of :: "uuid \<Rightarrow> time \<Rightarrow> int \<Rightarrow> session_record list \<Rightarrow> session_record list" where
  "live_of u now sv t = filter (\<lambda>r. sr_user_id r = u \<and> is_valid r now sv) t"

text \<open>The sessions that make room for a new one: the oldest beyond the four newest.\<close>

definition evictees :: "uuid \<Rightarrow> time \<Rightarrow> int \<Rightarrow> session_record list \<Rightarrow> session_record list" where
  "evictees u now sv t =
     (let live = sort_key session_order (live_of u now sv t) in take (length live - 4) live)"

lemma evictees_sub: "set (evictees u now sv t) \<subseteq> set (live_of u now sv t)"
  by (auto simp: evictees_def Let_def dest: in_set_takeD)

lemma evicted_row_simps [simp]:
  "sr_id (evicted_row now ev x) = sr_id x"
  "sr_bearer_digest (evicted_row now ev x) = sr_bearer_digest x"
  "x \<notin> set ev \<Longrightarrow> evicted_row now ev x = x"
  by (simp_all add: evicted_row_def)

lemma unique_on_distinct: "unique_on key t \<Longrightarrow> distinct t"
  by (simp add: unique_on_def distinct_map)

lemma kept_live_le: "card (set (live_of u now sv t) - set (evictees u now sv t)) \<le> 4"
proof -
  let ?l = "sort_key session_order (live_of u now sv t)"
  have "set (live_of u now sv t) - set (evictees u now sv t) \<subseteq> set (drop (length ?l - 4) ?l)"
    unfolding evictees_def Let_def by (metis Diff_subset_conv append_take_drop_id set_append set_sort order_refl)
  then have "card (set (live_of u now sv t) - set (evictees u now sv t)) \<le> card (set (drop (length ?l - 4) ?l))"
    by (rule card_mono [rotated]) simp
  also have "\<dots> \<le> length (drop (length ?l - 4) ?l)" by (rule card_length)
  also have "\<dots> \<le> 4" by simp
  finally show ?thesis .
qed

context session_laws
begin

lemma issue_ok:
  assumes "wf s" "knows s u" "int4_ok sv" "i \<notin> sr_id ` set (rows s)"
    and "sha256 (token br) \<notin> sr_bearer_digest ` set (rows s)"
    and now_def: "now = now_or na clock"
    and new_def: "new = new_record i u (sha256 (token br)) (sha256 (token cr)) sv now"
  shows "\<exists>s'. issue st u sv na clock br cr i s =
      Inr (\<lparr>is_record = new, is_secrets = \<lparr>ss_bearer = token br, ss_csrf_token = token cr\<rparr>\<rparr>, s') \<and> wf s' \<and>
    set (rows s') = insert new (evicted_row now (evictees u now sv (rows s)) ` set (rows s)) \<and> pre s' = pre s \<and>
    logged s' = logged s @ map eviction_line (evictees u now sv (rows s)) \<and>
    knows s' = knows s \<and> links s' = links s"
proof -
  obtain items where items: "st_active_for_user st u s = Inr (items, s)" "distinct items"
    "set items = {r \<in> set (rows s). sr_user_id r = u \<and> sr_revoked_at r = None}"
    using active_law [OF assms(1)] by blast
  let ?active = "sort_key session_order (filter (\<lambda>r. is_valid r now sv) items)"
  have live: "set (filter (\<lambda>r. is_valid r now sv) items) = set (live_of u now sv (rows s))"
    using items(3) by (auto simp: live_of_def is_valid_def)
  have inj: "inj_on session_order (set (filter (\<lambda>r. is_valid r now sv) items))"
    using items(3) same_row [OF assms(1)] by (auto simp: inj_on_def session_order_def)
  have active: "?active = sort_key session_order (live_of u now sv (rows s))"
    by (rule sort_key_unique)
      (use items live inj unique_on_distinct [OF wf_ids [OF assms(1)]] in \<open>auto simp: live_of_def\<close>)
  have ev: "take (length ?active - 4) ?active = evictees u now sv (rows s)"
    unfolding active evictees_def Let_def ..
  have "\<exists>s1. evict st now ?active s = Inr ((), s1) \<and> wf s1 \<and>
      set (rows s1) = evicted_row now (take (length ?active - 4) ?active) ` set (rows s) \<and> pre s1 = pre s \<and>
      logged s1 = logged s @ map eviction_line (take (length ?active - 4) ?active) \<and>
      knows s1 = knows s \<and> links s1 = links s"
    by (rule evict_ok [OF assms(1)]) (use items in auto)
  then obtain s1 where s1: "evict st now ?active s = Inr ((), s1)" "wf s1"
    "set (rows s1) = evicted_row now (evictees u now sv (rows s)) ` set (rows s)" "pre s1 = pre s"
    "logged s1 = logged s @ map eviction_line (evictees u now sv (rows s))"
    "knows s1 = knows s" "links s1 = links s"
    unfolding ev by blast
  have keys: "sr_id ` set (rows s1) = sr_id ` set (rows s)"
    "sr_bearer_digest ` set (rows s1) = sr_bearer_digest ` set (rows s)"
    unfolding s1(3) by (simp_all add: image_image)
  have "\<exists>s2. st_save st new s1 = Inr ((), s2) \<and> wf s2 \<and> set (rows s2) = insert new (set (rows s1)) \<and>
      pre s2 = pre s1 \<and> logged s2 = logged s1 \<and> knows s2 = knows s1 \<and> links s2 = links s1"
  proof (rule save_law [OF s1(2)])
    show "check_session_row new" unfolding new_def by (rule check_new_record) (use assms in auto)
    show "knows s1 (sr_user_id new)" using assms s1(6) by (simp add: new_def new_record_def)
    show "sr_selected_membership_id new = None" by (simp add: new_def new_record_def)
    show "sr_id new \<notin> sr_id ` set (rows s1)" "sr_bearer_digest new \<notin> sr_bearer_digest ` set (rows s1)"
      using assms(4,5) unfolding keys by (simp_all add: new_def new_record_def)
  qed
  then obtain s2 where "st_save st new s1 = Inr ((), s2)" "wf s2" "set (rows s2) = insert new (set (rows s1))"
    "pre s2 = pre s1" "logged s2 = logged s1" "knows s2 = knows s1" "links s2 = links s1" by blast
  with s1 show ?thesis
    unfolding issue_def now_def [symmetric]
    by (simp add: items(1) s1(1) token_digest_token seq_lift seq_Inr Let_def new_def)
qed

lemma issue_capacity:
  assumes "wf s'" "set (rows s') = insert new (evicted_row now (evictees u now sv (rows s)) ` set (rows s))"
  shows "length (live_of u now sv (rows s')) \<le> 5"
proof -
  let ?kept = "set (live_of u now sv (rows s)) - set (evictees u now sv (rows s))"
  have "set (live_of u now sv (rows s')) \<subseteq> insert new ?kept"
    using assms(2) by (auto simp: live_of_def evicted_row_def is_valid_def split: if_splits)
  then have "card (set (live_of u now sv (rows s'))) \<le> card (insert new ?kept)"
    by (rule card_mono [rotated]) simp
  also have "\<dots> \<le> Suc (card ?kept)" by (simp add: card_insert_if)
  also have "\<dots> \<le> 5" using kept_live_le [of u now sv "rows s"] by simp
  finally show ?thesis
    using distinct_card [of "live_of u now sv (rows s')"] unique_on_distinct [OF wf_ids [OF assms(1)]]
    by (simp add: live_of_def)
qed

lemma replaced_same: "wf s \<Longrightarrow> r \<in> set (rows s) \<Longrightarrow> replaced r ` set (rows s) = set (rows s)"
proof -
  assume A: "wf s" "r \<in> set (rows s)"
  have "replaced r x = x" if "x \<in> set (rows s)" for x
    using same_row [OF A(1) that A(2)] by (auto simp: replaced_def)
  then show ?thesis by simp
qed

end

definition resolved :: "time \<Rightarrow> int \<Rightarrow> session_record \<Rightarrow> session_record option" where
  "resolved now sv r =
     (if \<not> is_valid r now sv then None
      else if now - sr_last_seen_at r \<ge> LAST_SEEN_INTERVAL then Some (touched r now) else Some r)"

lemma resolved_facts:
  "resolved now sv r = Some r' \<Longrightarrow> same_owner r r' \<and> is_valid r now sv \<and> is_valid r' now sv \<and>
     sr_bearer_digest r' = sr_bearer_digest r \<and> sr_csrf_digest r' = sr_csrf_digest r \<and>
     sr_selected_membership_id r' = sr_selected_membership_id r \<and>
     sr_selected_membership_version r' = sr_selected_membership_version r \<and>
     (check_session_row r \<longrightarrow> check_session_row r') \<and> evolved r r'"
  by (auto simp: resolved_def is_valid_touched evolved_def check_touched is_valid_unrevoked
      same_owner_def split: if_splits) (simp_all add: touched_def)

definition found_by :: "pystr \<Rightarrow> session_record list \<Rightarrow> session_record option" where
  "found_by b t = find (\<lambda>r. sr_bearer_digest r = sha256 b) t"

context session_laws
begin

lemma resolve_ok:
  assumes "wf s" "is_ascii b" "now = now_or na clock"
  shows "\<exists>s'. resolve st b sv na clock s = Inr (Option.bind (found_by b (rows s)) (resolved now sv), s') \<and> wf s' \<and>
    set (rows s') = (case Option.bind (found_by b (rows s)) (resolved now sv) of
      None \<Rightarrow> set (rows s) | Some r' \<Rightarrow> replaced r' ` set (rows s)) \<and>
    pre s' = pre s \<and> logged s' = logged s \<and> knows s' = knows s \<and> links s' = links s"
proof (cases "found_by b (rows s)")
  case None
  with assms show ?thesis
    by (simp add: resolve_def seq_lift token_digest_ascii seq_Inr [OF get_law] found_by_def Let_def)
next
  case (Some r)
  then have r: "r \<in> set (rows s)" using found_row [OF assms(1)] by (simp add: found_by_def)
  show ?thesis
  proof (cases "is_valid r now sv \<and> now - sr_last_seen_at r \<ge> LAST_SEEN_INTERVAL")
    case True
    have "\<exists>s'. st_replace st (touched r now) s = Inr ((), s') \<and> wf s' \<and>
        set (rows s') = replaced (touched r now) ` set (rows s) \<and>
        pre s' = pre s \<and> logged s' = logged s \<and> knows s' = knows s \<and> links s' = links s"
      by (rule replace_keeping_digest [OF assms(1) r])
        (use check_touched wf_shape [OF assms(1) r] in auto)
    with True Some assms show ?thesis
      by (auto simp: resolve_def seq_lift token_digest_ascii seq_Inr [OF get_law] found_by_def
          resolved_def seq_Inr Let_def)
  next
    case False
    with Some assms r show ?thesis
      by (auto simp: resolve_def seq_lift token_digest_ascii seq_Inr [OF get_law] found_by_def
          resolved_def replaced_same Let_def)
  qed
qed

lemma resolve_none:
  assumes "wf s" "is_ascii b" "\<And>r. r \<in> set (rows s) \<Longrightarrow> sr_bearer_digest r = sha256 b \<Longrightarrow> sr_revoked_at r \<noteq> None"
  shows "resolve st b sv na clock s = Inr (None, s)"
proof (cases "found_by b (rows s)")
  case None
  with assms show ?thesis
    by (simp add: resolve_def seq_lift token_digest_ascii seq_Inr [OF get_law] found_by_def Let_def)
next
  case (Some r)
  then have "r \<in> set (rows s)" "sr_bearer_digest r = sha256 b"
    using found_row [OF assms(1)] by (simp_all add: found_by_def)
  then have "\<not> is_valid r t sv" for t using assms(3) by (auto simp: is_valid_def)
  with Some assms(1,2) show ?thesis
    by (simp add: resolve_def seq_lift token_digest_ascii seq_Inr [OF get_law] found_by_def Let_def)
qed

text \<open>A revocation by bearer answers whether it revoked, and afterwards the bearer never resolves.\<close>

lemma revoke_bearer_ok:
  assumes "wf s" "is_ascii b" "t \<in> {LOGOUT, SESSION_REVOKED}"
  defines "live \<equiv> \<exists>r \<in> set (rows s). sr_bearer_digest r = sha256 b \<and> sr_revoked_at r = None"
  shows "\<exists>s'. revoke_bearer st b t na hc s = Inr (live, s') \<and> wf s' \<and> rows_evolved (rows s) (rows s') \<and>
    sr_id ` set (rows s') = sr_id ` set (rows s) \<and>
    sr_bearer_digest ` set (rows s') = sr_bearer_digest ` set (rows s) \<and>
    pre s' = pre s \<and> knows s' = knows s \<and> links s' = links s \<and>
    (\<forall>r \<in> set (rows s'). sr_bearer_digest r = sha256 b \<longrightarrow> sr_revoked_at r \<noteq> None) \<and>
    length (logged s') = length (logged s) + (if live then 1 else 0)"
proof (cases live)
  case False
  then have none: "sr_revoked_at r \<noteq> None" if "r \<in> set (rows s)" "sr_bearer_digest r = sha256 b" for r
    using that by (auto simp: live_def)
  then have "revoke_bearer st b t na hc s = Inr (False, s)"
    using assms(1,2) found_row [OF assms(1), of "sha256 b"]
    by (auto simp: revoke_bearer_def seq_lift token_digest_ascii seq_Inr [OF get_law] split: option.split)
  with False none assms(1) show ?thesis by auto
next
  case True
  then obtain r where r: "r \<in> set (rows s)" "sr_bearer_digest r = sha256 b" "sr_revoked_at r = None"
    by (auto simp: live_def)
  let ?now = "now_or na hc"
  let ?q = "revoke_record r ?now ''logout''"
  obtain s1 where s1: "st_replace st ?q s = Inr ((), s1)" "wf s1" "set (rows s1) = replaced ?q ` set (rows s)"
    "pre s1 = pre s" "logged s1 = logged s" "knows s1 = knows s" "links s1 = links s"
    using revoke_one [OF assms(1) r(1,3), of "''logout''" ?now] by blast
  have q: "?q \<in> set (rows s1)" using s1(3) r(1) by (auto simp: replaced_def image_iff)
  have "\<exists>s2. write_session_event st t Y_LOGOUT (sr_user_id r) (Some (sr_id r)) s1 = Inr ((), s2) \<and> wf s2 \<and>
      rows s2 = rows s1 \<and> pre s2 = pre s1 \<and>
      logged s2 = logged s1 @ [(event_value t, Some (reason_value Y_LOGOUT), Some (sr_user_id r), Some (sr_id r))] \<and>
      knows s2 = knows s1 \<and> links s2 = links s1"
    by (rule write_session_event_ok [OF s1(2)])
      (use q wf_known [OF assms(1) r(1)] s1(6) assms(3) in \<open>auto intro: bexI [of _ ?q]\<close>)
  then obtain s2 where s2: "write_session_event st t Y_LOGOUT (sr_user_id r) (Some (sr_id r)) s1 = Inr ((), s2)"
    "wf s2" "rows s2 = rows s1" "pre s2 = pre s1" "length (logged s2) = Suc (length (logged s1))"
    "knows s2 = knows s1" "links s2 = links s1" by auto
  have "find (\<lambda>r. sr_bearer_digest r = sha256 b) (rows s) = Some r" using found_row [OF assms(1)] r by simp
  then have run: "revoke_bearer st b t na hc s = Inr (True, s2)"
    using assms(1,2) r(3) s1(1) s2(1)
    by (simp add: revoke_bearer_def seq_lift token_digest_ascii seq_Inr [OF get_law] seq_Inr)
  have ev: "rows_evolved (rows s) (rows s2)"
    using replaced_evolved [OF assms(1) r(1), of ?q s1] s1(3) s2(3) r(3) by (simp add: evolved_def)
  have ids: "sr_id ` set (rows s2) = sr_id ` set (rows s)" unfolding s2(3) s1(3) by (simp add: image_image)
  have "sr_bearer_digest (replaced ?q x) = sr_bearer_digest x" if "x \<in> set (rows s)" for x
    using same_row [OF assms(1) that r(1)] by (auto simp: replaced_def)
  then have digests: "sr_bearer_digest ` set (rows s2) = sr_bearer_digest ` set (rows s)"
    unfolding s2(3) s1(3) by (simp add: image_image cong: image_cong)
  have "sr_revoked_at x \<noteq> None" if "x \<in> set (rows s2)" "sr_bearer_digest x = sha256 b" for x
    using same_digest_row [OF s2(2) that(1), of ?q] q s2(3) that(2) r(2) by simp
  with run s1 s2 ev ids digests True show ?thesis by auto
qed

end

text \<open>Revoking all sessions, rotation and pre-auth states.\<close>

definition revoked_row :: "time \<Rightarrow> session_record list \<Rightarrow> session_record \<Rightarrow> session_record" where
  "revoked_row now items x = (if x \<in> set items then revoke_record x now ''revoke_all'' else x)"

lemma revoked_row_simps [simp]:
  "sr_id (revoked_row now items x) = sr_id x"
  "sr_bearer_digest (revoked_row now items x) = sr_bearer_digest x"
  "sr_user_id (revoked_row now items x) = sr_user_id x"
  by (simp_all add: revoked_row_def)

context session_laws
begin

lemma revoke_each:
  assumes "wf s" "set items \<subseteq> set (rows s)" "distinct items" "\<forall>r \<in> set items. sr_revoked_at r = None"
  shows "\<exists>s'. for_each (\<lambda>r. st_replace st (revoke_record r now ''revoke_all'')) items s = Inr ((), s') \<and> wf s' \<and>
    set (rows s') = revoked_row now items ` set (rows s) \<and> pre s' = pre s \<and> logged s' = logged s \<and>
    knows s' = knows s \<and> links s' = links s"
  using assms
proof (induction items arbitrary: s)
  case Nil
  have "revoked_row now [] ` set (rows s) = set (rows s)" by (simp add: revoked_row_def)
  with Nil show ?case by simp
next
  case (Cons r items)
  let ?q = "revoke_record r now ''revoke_all''"
  have r: "r \<in> set (rows s)" "sr_revoked_at r = None" using Cons.prems by auto
  obtain s1 where s1: "st_replace st ?q s = Inr ((), s1)" "wf s1" "set (rows s1) = replaced ?q ` set (rows s)"
    "pre s1 = pre s" "logged s1 = logged s" "knows s1 = knows s" "links s1 = links s"
    using revoke_one [OF Cons.prems(1) r, of "''revoke_all''" now] by blast
  have other: "sr_id x \<noteq> sr_id r" if "x \<in> set items" for x
    using that Cons.prems same_row [OF Cons.prems(1), of x r] by auto
  have sub: "set items \<subseteq> set (rows s1)"
  proof
    fix x assume x: "x \<in> set items"
    then have "replaced ?q x = x" using other [OF x] by simp
    moreover have "x \<in> set (rows s)" using x Cons.prems by auto
    ultimately show "x \<in> set (rows s1)" using s1(3) by (metis image_eqI)
  qed
  obtain s2 where s2: "for_each (\<lambda>r. st_replace st (revoke_record r now ''revoke_all'')) items s1 = Inr ((), s2)"
    "wf s2" "set (rows s2) = revoked_row now items ` set (rows s1)" "pre s2 = pre s1" "logged s2 = logged s1"
    "knows s2 = knows s1" "links s2 = links s1"
    using Cons.IH [OF s1(2) sub] Cons.prems by auto
  have "revoked_row now items (replaced ?q x) = revoked_row now (r # items) x" if "x \<in> set (rows s)" for x
  proof (cases "sr_id x = sr_id r")
    case True
    then have "x = r" using same_row [OF Cons.prems(1) that r(1)] by simp
    moreover have "?q \<notin> set items" using other by (metis revoke_record_simps(1))
    ultimately show ?thesis by (simp add: revoked_row_def replaced_def)
  next
    case False
    then show ?thesis by (auto simp: revoked_row_def)
  qed
  then have "set (rows s2) = revoked_row now (r # items) ` set (rows s)"
    using s2(3) s1(3) by (auto simp: image_image)
  with s1 s2 show ?case by (simp add: seq_Inr)
qed

lemma revoke_all_ok:
  assumes "wf s" "knows s u"
  defines "n \<equiv> length (filter (\<lambda>r. sr_user_id r = u \<and> sr_revoked_at r = None) (rows s))"
  shows "\<exists>s'. revoke_all st u na clock s = Inr (n, s') \<and> wf s' \<and> rows_evolved (rows s) (rows s') \<and>
    sr_id ` set (rows s') = sr_id ` set (rows s) \<and>
    sr_bearer_digest ` {x \<in> set (rows s). sr_user_id x = u} \<subseteq>
      sr_bearer_digest ` {x \<in> set (rows s'). sr_user_id x = u} \<and>
    pre s' = pre s \<and> knows s' = knows s \<and> links s' = links s \<and>
    (\<forall>r \<in> set (rows s'). sr_user_id r = u \<longrightarrow> sr_revoked_at r \<noteq> None) \<and>
    length (logged s') = length (logged s) + (if n = 0 then 0 else 1)"
proof -
  let ?now = "now_or na clock"
  obtain items where items: "st_active_for_user st u s = Inr (items, s)" "distinct items"
    "set items = {r \<in> set (rows s). sr_user_id r = u \<and> sr_revoked_at r = None}"
    using active_law [OF assms(1)] by blast
  have n: "length items = n"
    using distinct_card [OF items(2)] unique_on_distinct [OF wf_ids [OF assms(1)]] items(3)
      distinct_card [of "filter (\<lambda>r. sr_user_id r = u \<and> sr_revoked_at r = None) (rows s)"]
    by (simp add: n_def)
  have "set items \<subseteq> set (rows s)" "\<forall>r \<in> set items. sr_revoked_at r = None" using items(3) by simp_all
  then obtain s1 where s1: "for_each (\<lambda>r. st_replace st (revoke_record r ?now ''revoke_all'')) items s = Inr ((), s1)"
    "wf s1" "set (rows s1) = revoked_row ?now items ` set (rows s)" "pre s1 = pre s" "logged s1 = logged s"
    "knows s1 = knows s" "links s1 = links s"
    using revoke_each [OF assms(1) _ items(2), of ?now] by blast
  have "evolved x (revoked_row ?now items x)" if "x \<in> set (rows s)" for x
    using items(3) by (auto simp: revoked_row_def evolved_def same_owner_def revoke_record_def)
  then have ev: "rows_evolved (rows s) (rows s1)" using s1(3) by (auto simp: rows_evolved_def)
  have ids: "sr_id ` set (rows s1) = sr_id ` set (rows s)"
    unfolding s1(3) by (simp add: image_image)
  have digests: "sr_bearer_digest ` {x \<in> set (rows s). sr_user_id x = u} \<subseteq>
      sr_bearer_digest ` {x \<in> set (rows s1). sr_user_id x = u}"
    unfolding s1(3) by (auto simp: image_iff) (metis revoked_row_simps(2,3))
  have all: "sr_revoked_at x \<noteq> None" if "x \<in> set (rows s1)" "sr_user_id x = u" for x
  proof -
    obtain y where "y \<in> set (rows s)" "x = revoked_row ?now items y" using \<open>x \<in> set (rows s1)\<close> s1(3) by auto
    with that items(3) show ?thesis by (auto simp: revoked_row_def split: if_splits)
  qed
  show ?thesis
  proof (cases "n = 0")
    case True
    then have run: "revoke_all st u na clock s = Inr (n, s1)"
      using n items(1) s1(1) by (auto simp: revoke_all_def seq_Inr Let_def)
    show ?thesis using True by (intro exI [of _ s1] conjI run s1(2,4,6,7) ev ids digests ballI impI all) (simp_all add: s1(5))
  next
    case False
    have "\<exists>s2. write_session_event st ALL_SESSIONS_REVOKED Y_REVOKE_ALL u None s1 = Inr ((), s2) \<and> wf s2 \<and>
        rows s2 = rows s1 \<and> pre s2 = pre s1 \<and>
        logged s2 = logged s1 @ [(event_value ALL_SESSIONS_REVOKED, Some (reason_value Y_REVOKE_ALL), Some u, None)] \<and>
        knows s2 = knows s1 \<and> links s2 = links s1"
      by (rule write_session_event_ok [OF s1(2)]) (use assms(2) s1(6) in auto)
    then obtain s2 where s2: "write_session_event st ALL_SESSIONS_REVOKED Y_REVOKE_ALL u None s1 = Inr ((), s2)"
      "wf s2" "rows s2 = rows s1" "pre s2 = pre s1" "length (logged s2) = Suc (length (logged s1))"
      "knows s2 = knows s1" "links s2 = links s1" by auto
    have run: "revoke_all st u na clock s = Inr (n, s2)"
      using False n items(1) s1(1) s2(1) by (auto simp: revoke_all_def seq_Inr Let_def)
    then show ?thesis
      using False s1(4-7) s2(2,4-7) ev ids digests all unfolding s2(3) [symmetric]
      by (intro exI [of _ s2] conjI) (simp_all add: s2(3))
  qed
qed

lemma rotate_with_ok:
  assumes "wf s" "is_ascii b" "now = now_or na clock"
    and fresh: "sha256 (token br) \<notin> sr_bearer_digest ` set (rows s)"
    and sel: "\<And>r. same_owner r (sel r) \<and> sr_bearer_digest (sel r) = sr_bearer_digest r \<and>
      sr_revoked_at (sel r) = sr_revoked_at r \<and> (check_session_row r \<longrightarrow> check_session_row (sel r))"
    and lnk: "\<forall>r r' m. found_by b (rows s) = Some r \<longrightarrow> same_owner r r' \<longrightarrow>
      sr_selected_membership_id r' = sr_selected_membership_id r \<longrightarrow>
      sr_selected_membership_id (sel r') = Some m \<longrightarrow> links s m (sr_user_id r)"
  shows "\<exists>s'. wf s' \<and> pre s' = pre s \<and> logged s' = logged s \<and> knows s' = knows s \<and> links s' = links s \<and>
    (case Option.bind (found_by b (rows s)) (resolved now sv) of
       None \<Rightarrow> rotate_with st b sv sel na clock br cr s = Inr (None, s') \<and> set (rows s') = set (rows s)
     | Some old \<Rightarrow>
         let q = sel (old\<lparr>sr_bearer_digest := sha256 (token br), sr_csrf_digest := sha256 (token cr),
                          sr_last_seen_at := now\<rparr>)
         in rotate_with st b sv sel na clock br cr s =
              Inr (Some \<lparr>is_record = q, is_secrets = \<lparr>ss_bearer = token br, ss_csrf_token = token cr\<rparr>\<rparr>, s') \<and>
            set (rows s') = replaced q ` set (rows s))"
proof -
  have now: "now = now_or (Some now) clock" by (simp add: now_or_def)
  obtain s1 where s1: "resolve st b sv (Some now) clock s =
      Inr (Option.bind (found_by b (rows s)) (resolved now sv), s1)" "wf s1"
    "set (rows s1) = (case Option.bind (found_by b (rows s)) (resolved now sv) of
      None \<Rightarrow> set (rows s) | Some r' \<Rightarrow> replaced r' ` set (rows s))"
    "pre s1 = pre s" "logged s1 = logged s" "knows s1 = knows s" "links s1 = links s"
    using resolve_ok [OF assms(1,2) now, of sv] by blast
  show ?thesis
  proof (cases "Option.bind (found_by b (rows s)) (resolved now sv)")
    case None
    with s1 show ?thesis by (auto simp: rotate_with_def assms(3) [symmetric] seq_Inr Let_def)
  next
    case (Some old)
    then obtain r where r: "found_by b (rows s) = Some r" "resolved now sv r = Some old"
      by (auto simp: bind_eq_Some_conv)
    then have rin: "r \<in> set (rows s)" using found_row [OF assms(1)] by (simp add: found_by_def)
    note rf = resolved_facts [OF r(2)]
    let ?n = "old\<lparr>sr_bearer_digest := sha256 (token br), sr_csrf_digest := sha256 (token cr), sr_last_seen_at := now\<rparr>"
    let ?q = "sel ?n"
    have rows1: "set (rows s1) = replaced old ` set (rows s)" using s1(3) Some by simp
    have ido: "sr_id old = sr_id r" using rf by (simp add: same_owner_def)
    have old: "old \<in> set (rows s1)"
      unfolding rows1 using rin ido by (auto simp: replaced_def image_iff)
    have on: "same_owner old ?n" by (simp add: same_owner_def)
    then have oq: "same_owner old ?q" using sel [of ?n] by (auto simp: same_owner_def)
    have chk: "check_session_row ?q"
      using sel [of ?n] wf_shape [OF s1(2) old] by (auto simp: check_session_row_def)
    have "\<exists>s2. st_replace st ?q s1 = Inr ((), s2) \<and> wf s2 \<and> set (rows s2) = replaced ?q ` set (rows s1) \<and>
        pre s2 = pre s1 \<and> logged s2 = logged s1 \<and> knows s2 = knows s1 \<and> links s2 = links s1"
    proof (rule replace_law [OF s1(2) old oq chk])
      fix m assume m: "sr_selected_membership_id ?q = Some m"
      have "same_owner r ?n" using rf by (simp add: same_owner_def)
      then have "links s m (sr_user_id r)"
        using lnk [rule_format, OF r(1), of ?n m] rf m by simp
      moreover have "sr_user_id ?q = sr_user_id r" using oq rf by (simp add: same_owner_def)
      ultimately show "links s1 m (sr_user_id ?q)" using s1(7) by simp
    next
      fix x assume x: "x \<in> set (rows s1)" "sr_bearer_digest x = sr_bearer_digest ?q"
      then obtain y where y: "y \<in> set (rows s)" "x = replaced old y" unfolding rows1 by blast
      have "sr_bearer_digest x = sr_bearer_digest y"
        using y same_row [OF assms(1) y(1) rin] ido rf by (auto simp: replaced_def)
      with fresh y x(2) sel [of ?n] show "sr_id x = sr_id ?q" by force
    qed
    then obtain s2 where s2: "st_replace st ?q s1 = Inr ((), s2)" "wf s2"
      "set (rows s2) = replaced ?q ` set (rows s1)" "pre s2 = pre s1" "logged s2 = logged s1"
      "knows s2 = knows s1" "links s2 = links s1" by blast
    have idq: "sr_id ?q = sr_id old" using oq by (simp add: same_owner_def)
    have "replaced ?q (replaced old x) = replaced ?q x" for x using idq by (simp add: replaced_def)
    then have "set (rows s2) = replaced ?q ` set (rows s)" using s2(3) rows1 by (simp add: image_image)
    moreover have "rotate_with st b sv sel na clock br cr s =
        Inr (Some \<lparr>is_record = ?q, is_secrets = \<lparr>ss_bearer = token br, ss_csrf_token = token cr\<rparr>\<rparr>, s2)"
      using Some s1(1) s2(1)
      by (simp add: rotate_with_def assms(3) [symmetric] seq_Inr Let_def token_digest_token seq_lift)
    ultimately show ?thesis using s1 s2 Some by (auto simp: Let_def)
  qed
qed

end

text \<open>What a rotation leaves behind, and the pre-auth states.\<close>

context session_laws
begin

lemma found_by_iff: "wf s \<Longrightarrow> found_by b (rows s) = Some r \<longleftrightarrow> r \<in> set (rows s) \<and> sr_bearer_digest r = sha256 b"
  using found_row by (simp add: found_by_def)

text \<open>The rotated row replaces the old one: the old bearer is dead, the new one finds the record.\<close>

lemma rotated_rows:
  assumes "wf s" "wf s'" "r \<in> set (rows s)" "sr_bearer_digest r = sha256 b" "sr_id q = sr_id r"
    and "sr_bearer_digest q = sha256 (token br)"
    and fresh: "sha256 (token br) \<notin> sr_bearer_digest ` set (rows s)"
    and rows: "set (rows s') = replaced q ` set (rows s)"
  shows "found_by (token br) (rows s') = Some q \<and> found_by b (rows s') = None"
proof
  have q: "q \<in> set (rows s')" unfolding rows using assms(3,5) by (auto simp: replaced_def image_iff)
  then show "found_by (token br) (rows s') = Some q"
    using assms(6) by (simp add: found_by_iff [OF assms(2)])
  have "sr_bearer_digest x \<noteq> sha256 b" if x: "x \<in> set (rows s')" for x
  proof
    assume d: "sr_bearer_digest x = sha256 b"
    obtain y where y: "y \<in> set (rows s)" "x = replaced q y" using x unfolding rows by blast
    show False
    proof (cases "sr_id y = sr_id q")
      case True
      then have "sha256 (token br) = sha256 b" using y(2) d assms(6) by (simp add: replaced_def)
      with fresh assms(3,4) show False by (metis image_eqI)
    next
      case False
      then have "y = r" using same_digest_row [OF assms(1) y(1) assms(3)] y(2) d assms(4) by simp
      with False assms(5) show False by simp
    qed
  qed
  then show "found_by b (rows s') = None" by (auto simp: found_by_def find_None_iff)
qed

lemma rotate_old_dead:
  assumes "wf s" "is_ascii b" "now = now_or na clock"
    and fresh: "sha256 (token br) \<notin> sr_bearer_digest ` set (rows s)"
    and sel: "\<And>r. same_owner r (sel r) \<and> sr_bearer_digest (sel r) = sr_bearer_digest r \<and>
      sr_revoked_at (sel r) = sr_revoked_at r \<and> (check_session_row r \<longrightarrow> check_session_row (sel r))"
    and lnk: "\<forall>r r' m. found_by b (rows s) = Some r \<longrightarrow> same_owner r r' \<longrightarrow>
      sr_selected_membership_id r' = sr_selected_membership_id r \<longrightarrow>
      sr_selected_membership_id (sel r') = Some m \<longrightarrow> links s m (sr_user_id r)"
  shows "\<exists>res s'. rotate_with st b sv sel na clock br cr s = Inr (res, s') \<and> wf s' \<and>
    rows_evolved (rows s) (rows s') \<and> length (rows s') = length (rows s) \<and>
    (res = None \<longleftrightarrow> (\<nexists>r. r \<in> set (rows s) \<and> sr_bearer_digest r = sha256 b \<and> is_valid r now sv)) \<and>
    (case res of None \<Rightarrow> True
     | Some issued \<Rightarrow>
         ss_bearer (is_secrets issued) = token br \<and>
         found_by (token br) (rows s') = Some (is_record issued) \<and>
         (\<exists>r old. found_by b (rows s) = Some r \<and> same_owner r (is_record issued) \<and> is_record issued = sel old) \<and>
         (\<forall>sv2 na2 clock2. resolve st b sv2 na2 clock2 s' = Inr (None, s')))"
proof -
  obtain s' where s': "wf s'"
    "case Option.bind (found_by b (rows s)) (resolved now sv) of
       None \<Rightarrow> rotate_with st b sv sel na clock br cr s = Inr (None, s') \<and> set (rows s') = set (rows s)
     | Some old \<Rightarrow>
         let q = sel (old\<lparr>sr_bearer_digest := sha256 (token br), sr_csrf_digest := sha256 (token cr),
                          sr_last_seen_at := now\<rparr>)
         in rotate_with st b sv sel na clock br cr s =
              Inr (Some \<lparr>is_record = q, is_secrets = \<lparr>ss_bearer = token br, ss_csrf_token = token cr\<rparr>\<rparr>, s') \<and>
            set (rows s') = replaced q ` set (rows s)"
    using rotate_with_ok [where sv = sv and cr = cr, OF assms(1-4) sel lnk] by blast
  have len: "length (rows s') = card (set (rows s'))" "length (rows s) = card (set (rows s))"
    using unique_on_distinct [OF wf_ids] distinct_card s'(1) assms(1) by metis+
  show ?thesis
  proof (cases "Option.bind (found_by b (rows s)) (resolved now sv)")
    case None
    then have "(\<nexists>r. r \<in> set (rows s) \<and> sr_bearer_digest r = sha256 b \<and> is_valid r now sv)"
      using found_by_iff [OF assms(1), of b] by (force simp: resolved_def split: if_splits)
    moreover have "rows_evolved (rows s) (rows s')" using None s'(2) by (auto simp: rows_evolved_def intro: evolved_refl)
    ultimately show ?thesis using None s' len by auto
  next
    case (Some old)
    then obtain r where r: "found_by b (rows s) = Some r" "resolved now sv r = Some old"
      by (auto simp: bind_eq_Some_conv)
    have rin: "r \<in> set (rows s)" "sr_bearer_digest r = sha256 b" using r(1) by (simp_all add: found_by_iff assms(1))
    note rf = resolved_facts [OF r(2)]
    define q where "q = sel (old\<lparr>sr_bearer_digest := sha256 (token br), sr_csrf_digest := sha256 (token cr),
      sr_last_seen_at := now\<rparr>)"
    have run: "rotate_with st b sv sel na clock br cr s =
        Inr (Some \<lparr>is_record = q, is_secrets = \<lparr>ss_bearer = token br, ss_csrf_token = token cr\<rparr>\<rparr>, s')"
      and rows: "set (rows s') = replaced q ` set (rows s)"
      using s'(2) Some by (simp_all add: q_def Let_def)
    have "same_owner old q" "sr_bearer_digest q = sha256 (token br)" "sr_revoked_at q = None"
      using sel [of "old\<lparr>sr_bearer_digest := sha256 (token br), sr_csrf_digest := sha256 (token cr),
        sr_last_seen_at := now\<rparr>"] rf by (auto simp: q_def same_owner_def is_valid_def)
    then have q: "same_owner r q" "sr_bearer_digest q = sha256 (token br)" "sr_id q = sr_id r"
      using rf by (auto simp: same_owner_def)
    have src: "\<exists>r' old. found_by b (rows s) = Some r' \<and> same_owner r' q \<and> q = sel old"
      using r(1) q(1) unfolding q_def by blast
    have found: "found_by (token br) (rows s') = Some q" "found_by b (rows s') = None"
      using rotated_rows [OF assms(1) s'(1) rin q(3,2) fresh rows] by simp_all
    have ev: "evolved r q" using q(1) rf by (simp add: evolved_def is_valid_def)
    have "inj_on (replaced q) (set (rows s))"
    proof (rule inj_onI)
      fix x y assume "x \<in> set (rows s)" "y \<in> set (rows s)" "replaced q x = replaced q y"
      then show "x = y" using same_row [OF assms(1)] by (metis replaced_simps(1))
    qed
    then have "card (set (rows s')) = card (set (rows s))" unfolding rows by (rule card_image)
    moreover have "resolve st b sv2 na2 clock2 s' = Inr (None, s')" for sv2 na2 clock2
      using resolve_none [OF s'(1) assms(2)] found(2)
      by (metis (mono_tags, lifting) found_by_def find_None_iff)
    ultimately show ?thesis
      using run s'(1) found rin rf replaced_evolved [OF assms(1) rin(1) ev rows] len src
      by (intro exI [of _ "Some \<lparr>is_record = q, is_secrets = \<lparr>ss_bearer = token br, ss_csrf_token = token cr\<rparr>\<rparr>"]
          exI [of _ s']) auto
  qed
qed

lemma issue_preauth_ok:
  assumes "wf s" "sha256 (token sr) \<notin> ps_state_digest ` set (pre s)"
  shows "\<exists>p s'. issue_preauth st na clock sr cr s =
      Inr (\<lparr>ip_state = p, ip_state_token = token sr, ip_csrf_token = token cr\<rparr>, s') \<and> wf s' \<and>
    set (pre s') = insert p (set (pre s)) \<and> rows s' = rows s \<and>
    ps_state_digest p = sha256 (token sr) \<and> ps_csrf_digest p = sha256 (token cr) \<and>
    ps_expires_at p = now_or na clock + PREAUTH_LIFETIME \<and> ps_consumed_at p = None"
proof -
  let ?p = "\<lparr>ps_state_digest = sha256 (token sr), ps_csrf_digest = sha256 (token cr),
    ps_created_at = now_or na clock, ps_expires_at = now_or na clock + PREAUTH_LIFETIME, ps_consumed_at = None\<rparr>"
  have "check_preauth_row ?p" by (simp add: check_preauth_row_def session_constants)
  then obtain s' where "st_save_preauth st ?p s = Inr ((), s')" "wf s'" "set (pre s') = insert ?p (set (pre s))"
    "rows s' = rows s"
    using save_preauth_law [OF assms(1), of ?p] assms(2) by auto
  then show ?thesis
    by (intro exI [of _ ?p] exI [of _ s'])
      (simp add: issue_preauth_def Let_def token_digest_token seq_lift seq_Inr)
qed

text \<open>A pre-auth state is consumed at most once, before it expires, with its own CSRF token.\<close>

lemma consume_preauth_ok:
  assumes "wf s" "is_ascii t" "is_ascii c"
    and ok_def: "ok \<longleftrightarrow> (\<exists>p \<in> set (pre s). ps_state_digest p = sha256 t \<and> ps_consumed_at p = None \<and>
      now_or na clock < ps_expires_at p \<and> ps_csrf_digest p = sha256 c)"
  shows "\<exists>s'. consume_preauth st t c na clock s = Inr (ok, s') \<and> wf s' \<and> rows s' = rows s \<and>
    (ok \<longrightarrow> (\<forall>c2 na2 clock2. consume_preauth st t c2 na2 clock2 s' = Inr (False, s')))"
proof (cases "find (\<lambda>p. ps_state_digest p = sha256 t) (pre s)")
  case None
  then have "sha256 t \<notin> ps_state_digest ` set (pre s)" by (rule iffD1 [OF find_none])
  then have "\<not> ok" unfolding ok_def by (metis image_eqI)
  with None assms(1,2) show ?thesis
    by (simp add: consume_preauth_def Let_def seq_lift token_digest_ascii seq_Inr [OF get_preauth_law])
next
  case (Some p)
  then have p: "p \<in> set (pre s)" "ps_state_digest p = sha256 t"
    using find_unique [OF wf_preauth [OF assms(1)]] by simp_all
  have only: "x = p" if "x \<in> set (pre s)" "ps_state_digest x = sha256 t" for x
    using unique_on_eqD [OF wf_preauth [OF assms(1)]] that p by metis
  have ok: "ok \<longleftrightarrow> ps_consumed_at p = None \<and> now_or na clock < ps_expires_at p \<and> ps_csrf_digest p = sha256 c"
    unfolding ok_def using p only by blast
  show ?thesis
  proof (cases ok)
    case False
    with ok Some assms(1-3) show ?thesis
      by (auto simp: consume_preauth_def Let_def seq_lift token_digest_ascii seq_Inr [OF get_preauth_law]
          token_matches_def)
  next
    case True
    let ?q = "p\<lparr>ps_consumed_at := Some (now_or na clock)\<rparr>"
    obtain s1 where s1: "st_replace_preauth st ?q s = Inr ((), s1)" "wf s1"
      "set (pre s1) = (\<lambda>x. if ps_state_digest x = ps_state_digest p then ?q else x) ` set (pre s)" "rows s1 = rows s"
      using replace_preauth_law [OF assms(1) p(1)] True ok by blast
    have run: "consume_preauth st t c na clock s = Inr (ok, s1)"
      using True ok Some assms(1-3) s1(1)
      by (simp add: consume_preauth_def Let_def seq_lift token_digest_ascii seq_Inr [OF get_preauth_law]
          token_matches_def seq_Inr)
    have "?q \<in> set (pre s1)" unfolding s1(3) using p(1) by (auto simp: image_iff)
    then have "find (\<lambda>p. ps_state_digest p = sha256 t) (pre s1) = Some ?q"
      using find_unique [OF wf_preauth [OF s1(2)]] p(2) by simp
    then have "consume_preauth st t c2 na2 clock2 s1 = Inr (False, s1)" for c2 na2 clock2
      using assms(2) s1(2)
      by (simp add: consume_preauth_def Let_def seq_lift token_digest_ascii seq_Inr [OF get_preauth_law])
    with run s1 show ?thesis by blast
  qed
qed

end

section \<open>Histories\<close>

text \<open>
  One committed call of the service, with what the randomness and the callers provide: new
  identifiers and digests are unused, issued users exist, and a selected membership is the user's.
\<close>

inductive session_step ::
  "'s session_store \<Rightarrow> ('s \<Rightarrow> session_record list) \<Rightarrow> ('s \<Rightarrow> uuid \<Rightarrow> bool) \<Rightarrow> ('s \<Rightarrow> uuid \<Rightarrow> uuid \<Rightarrow> bool) \<Rightarrow>
   's \<Rightarrow> 's \<Rightarrow> bool"
  for st rows knows links where
  did_issue: "knows s u \<Longrightarrow> int4_ok sv \<Longrightarrow> i \<notin> sr_id ` set (rows s) \<Longrightarrow>
    sha256 (token br) \<notin> sr_bearer_digest ` set (rows s) \<Longrightarrow>
    issue st u sv na clock br cr i s = Inr (x, s') \<Longrightarrow> session_step st rows knows links s s'"
| did_resolve: "resolve st b sv na clock s = Inr (res, s') \<Longrightarrow> session_step st rows knows links s s'"
| did_logout: "logout st b na hc s = Inr (ok, s') \<Longrightarrow> session_step st rows knows links s s'"
| did_revoke_current: "revoke_current st b na hc s = Inr (ok, s') \<Longrightarrow> session_step st rows knows links s s'"
| did_revoke_all: "knows s u \<Longrightarrow> revoke_all st u na clock s = Inr (n, s') \<Longrightarrow> session_step st rows knows links s s'"
| did_rotate: "sha256 (token br) \<notin> sr_bearer_digest ` set (rows s) \<Longrightarrow>
    rotate st b sv na clock br cr s = Inr (out, s') \<Longrightarrow> session_step st rows knows links s s'"
| did_select: "sha256 (token br) \<notin> sr_bearer_digest ` set (rows s) \<Longrightarrow> 0 < v \<Longrightarrow> int4_ok v \<Longrightarrow>
    \<forall>r. found_by b (rows s) = Some r \<longrightarrow> links s m (sr_user_id r) \<Longrightarrow>
    rotate_to_membership st b sv m v na clock br cr s = Inr (out, s') \<Longrightarrow> session_step st rows knows links s s'"

inductive_cases session_stepE: "session_step st rows knows links s s'"

text \<open>The lifetime of a row: created once, at most eight hours, never idle past that.\<close>

definition lifetime_ok :: "session_record \<Rightarrow> bool" where
  "lifetime_ok r \<longleftrightarrow> sr_absolute_expires_at r = sr_created_at r + ABSOLUTE_TIMEOUT \<and>
     sr_idle_expires_at r \<le> sr_absolute_expires_at r"

lemma needs_ascii:
  "resolve st b sv na clock s = Inr x \<Longrightarrow> is_ascii b"
  "revoke_bearer st b t na hc s = Inr y \<Longrightarrow> is_ascii b"
  "rotate_with st b sv sel na clock br cr s = Inr z \<Longrightarrow> is_ascii b"
proof -
  have d: "is_ascii b \<or> token_digest b = Inl UnicodeExn" by (simp add: token_digest_def encode_ascii_def)
  show r: "resolve st b sv na clock s = Inr x \<Longrightarrow> is_ascii b" for na clock x
    using d by (auto simp: resolve_def seq_lift Let_def)
  show "revoke_bearer st b t na hc s = Inr y \<Longrightarrow> is_ascii b"
    using d by (auto simp: revoke_bearer_def seq_lift)
  show "rotate_with st b sv sel na clock br cr s = Inr z \<Longrightarrow> is_ascii b"
    by (auto simp: rotate_with_def seq_eq_Inr Let_def dest: r)
qed

lemma select_keeps:
  "0 < v \<Longrightarrow> int4_ok v \<Longrightarrow>
     same_owner r (r\<lparr>sr_selected_membership_id := Some m, sr_selected_membership_version := Some v\<rparr>) \<and>
     sr_bearer_digest (r\<lparr>sr_selected_membership_id := Some m, sr_selected_membership_version := Some v\<rparr>) = sr_bearer_digest r \<and>
     sr_revoked_at (r\<lparr>sr_selected_membership_id := Some m, sr_selected_membership_version := Some v\<rparr>) = sr_revoked_at r \<and>
     (check_session_row r \<longrightarrow>
      check_session_row (r\<lparr>sr_selected_membership_id := Some m, sr_selected_membership_version := Some v\<rparr>))"
  by (auto simp: same_owner_def check_session_row_def)

context session_laws
begin

text \<open>Rows that are not new descend from a row before the step.\<close>

definition grown :: "'s \<Rightarrow> 's \<Rightarrow> bool" where
  "grown s s' \<longleftrightarrow> wf s' \<and> rows_evolved (rows s) (rows s') \<and>
     (\<forall>y \<in> set (rows s'). (\<exists>x \<in> set (rows s). evolved x y) \<or> lifetime_ok y)"

lemma grownI:
  assumes "wf s" "wf s'" "rows_evolved (rows s) (rows s')" "sr_id ` set (rows s') \<subseteq> sr_id ` set (rows s)"
  shows "grown s s'"
proof -
  have "\<exists>x \<in> set (rows s). evolved x y" if y: "y \<in> set (rows s')" for y
  proof -
    obtain x where x: "x \<in> set (rows s)" "sr_id x = sr_id y" using assms(4) y by (metis image_iff subsetD)
    then obtain z where "z \<in> set (rows s')" "evolved x z" using assms(3) by (auto simp: rows_evolved_def)
    moreover from this have "z = y" using same_row [OF assms(2) _ y] x(2) by (auto simp: evolved_def same_owner_def)
    ultimately show ?thesis using x(1) by blast
  qed
  with assms show ?thesis by (auto simp: grown_def)
qed

lemma ids_of_length:
  assumes "wf s" "wf s'" "rows_evolved (rows s) (rows s')" "length (rows s') = length (rows s)"
  shows "sr_id ` set (rows s') \<subseteq> sr_id ` set (rows s)"
proof -
  have c: "card (sr_id ` set (rows t)) = length (rows t)" if "wf t" for t
    using wf_ids [OF that] by (metis distinct_card length_map set_map unique_on_def)
  have "sr_id ` set (rows s) \<subseteq> sr_id ` set (rows s')"
    using assms(3) by (fastforce simp: rows_evolved_def evolved_def same_owner_def)
  then have "sr_id ` set (rows s) = sr_id ` set (rows s')"
    by (rule card_subset_eq [rotated]) (simp_all add: c assms)
  then show ?thesis by simp
qed

lemma issue_grown:
  assumes "wf s" "knows s u" "int4_ok sv" "i \<notin> sr_id ` set (rows s)"
    and "sha256 (token br) \<notin> sr_bearer_digest ` set (rows s)"
    and run: "issue st u sv na clock br cr i s = Inr (x, s')"
  shows "grown s s'"
proof -
  let ?now = "now_or na clock"
  let ?new = "new_record i u (sha256 (token br)) (sha256 (token cr)) sv ?now"
  let ?ev = "evictees u ?now sv (rows s)"
  have s': "wf s'" "set (rows s') = insert ?new (evicted_row ?now ?ev ` set (rows s))"
    using issue_ok [OF assms(1-5) refl refl, of na clock cr] run by auto
  have live: "sr_revoked_at y = None" if "y \<in> set ?ev" for y
    using that evictees_sub [of u ?now sv "rows s"] by (auto simp: live_of_def is_valid_def)
  have ev: "evolved y (evicted_row ?now ?ev y)" for y
    using live [of y] by (auto simp: evicted_row_def evolved_def same_owner_def revoke_record_def)
  have "lifetime_ok ?new" by (simp add: lifetime_ok_def new_record_def session_constants)
  with s' ev show ?thesis unfolding grown_def rows_evolved_def by auto
qed

lemma rotate_grown:
  assumes "wf s" "sha256 (token br) \<notin> sr_bearer_digest ` set (rows s)"
    and "\<And>r. same_owner r (sel r) \<and> sr_bearer_digest (sel r) = sr_bearer_digest r \<and>
      sr_revoked_at (sel r) = sr_revoked_at r \<and> (check_session_row r \<longrightarrow> check_session_row (sel r))"
    and "\<forall>r r' m. found_by b (rows s) = Some r \<longrightarrow> same_owner r r' \<longrightarrow>
      sr_selected_membership_id r' = sr_selected_membership_id r \<longrightarrow>
      sr_selected_membership_id (sel r') = Some m \<longrightarrow> links s m (sr_user_id r)"
    and run: "rotate_with st b sv sel na clock br cr s = Inr (out, s')"
  shows "grown s s'"
proof -
  have "wf s'" "rows_evolved (rows s) (rows s')" "length (rows s') = length (rows s)"
    using rotate_old_dead [where na = na and clock = clock and sv = sv and cr = cr,
        OF assms(1) needs_ascii(3) [OF run] refl assms(2-4)] run by auto
  with assms(1) show ?thesis by (intro grownI ids_of_length)
qed

lemma step_grown: "session_step st rows knows links s s' \<Longrightarrow> wf s \<Longrightarrow> grown s s'"
proof (induction rule: session_step.induct)
  case (did_issue s u sv i br na clock cr x s')
  then show ?case using issue_grown by blast
next
  case (did_resolve b sv na clock s res s')
  note a = needs_ascii(1) [OF did_resolve(1)]
  let ?res = "Option.bind (found_by b (rows s)) (resolved (now_or na clock) sv)"
  have s': "wf s'" "set (rows s') = (case ?res of None \<Rightarrow> set (rows s) | Some r' \<Rightarrow> replaced r' ` set (rows s))"
    using resolve_ok [OF did_resolve(2) a refl, of sv na clock] did_resolve(1) by auto
  have "rows_evolved (rows s) (rows s') \<and> sr_id ` set (rows s') \<subseteq> sr_id ` set (rows s)"
  proof (cases ?res)
    case None
    with s' show ?thesis by (auto simp: rows_evolved_def intro: evolved_refl)
  next
    case (Some q)
    then obtain r where r: "r \<in> set (rows s)" "resolved (now_or na clock) sv r = Some q"
      using found_by_iff [OF did_resolve(2)] by (auto simp: bind_eq_Some_conv)
    then have "evolved r q" using resolved_facts by blast
    with Some s' r replaced_evolved [OF did_resolve(2) r(1)] show ?thesis by (auto simp: image_image)
  qed
  with s' did_resolve(2) show ?case by (intro grownI) auto
next
  case (did_logout b na hc s ok s')
  then have run: "revoke_bearer st b LOGOUT na hc s = Inr (ok, s')" by (simp add: logout_def)
  show ?case
    using revoke_bearer_ok [OF did_logout(2) needs_ascii(2) [OF run], of LOGOUT na hc] run did_logout(2)
    by (auto intro!: grownI)
next
  case (did_revoke_current b na hc s ok s')
  then have run: "revoke_bearer st b SESSION_REVOKED na hc s = Inr (ok, s')" by (simp add: revoke_current_def)
  show ?case
    using revoke_bearer_ok [OF did_revoke_current(2) needs_ascii(2) [OF run], of SESSION_REVOKED na hc] run did_revoke_current(2)
    by (auto intro!: grownI)
next
  case (did_revoke_all s u na clock n s')
  obtain n2 s2 where s2: "revoke_all st u na clock s = Inr (n2, s2)" "wf s2" "rows_evolved (rows s) (rows s2)"
    "sr_id ` set (rows s2) = sr_id ` set (rows s)"
    using revoke_all_ok [OF did_revoke_all(3,1), of na clock] by blast
  then show ?case using did_revoke_all(2,3) grownI [of s s2] by simp
next
  case (did_rotate br s b sv na clock cr out s')
  have "links s m (sr_user_id r)" if "found_by b (rows s) = Some r" "sr_selected_membership_id r = Some m" for r m
    using that wf_linked [OF did_rotate(3)] found_by_iff [OF did_rotate(3)] by blast
  then show ?case
    by (intro rotate_grown [OF did_rotate(3,1) _ _ did_rotate(2) [unfolded rotate_def]])
      (auto simp: same_owner_refl)
next
  case (did_select br s v b m sv na clock cr out s')
  show ?case
    by (rule rotate_grown [OF did_select(6,1) _ _ did_select(5) [unfolded rotate_to_membership_def]])
      (use select_keeps [OF did_select(2,3)] did_select(4) in auto)
qed

text \<open>Over any history of the service: rows keep their lifetime, and a revoked row never changes again.\<close>

lemma history_evolves:
  assumes "(session_step st rows knows links)\<^sup>*\<^sup>* s s'" "wf s" "\<forall>r \<in> set (rows s). lifetime_ok r"
  shows "wf s' \<and> rows_evolved (rows s) (rows s') \<and> (\<forall>r \<in> set (rows s'). lifetime_ok r)"
  using assms(1)
proof (induction rule: rtranclp_induct)
  case base
  with assms show ?case by simp
next
  case (step t u)
  then have g: "grown t u" using step_grown by blast
  have "lifetime_ok y" if y: "y \<in> set (rows u)" for y
  proof -
    have "sr_idle_expires_at y \<le> sr_absolute_expires_at y"
      using g y wf_shape [of u y] by (simp add: grown_def check_session_row_def)
    moreover have "(\<exists>x \<in> set (rows t). evolved x y) \<or> lifetime_ok y" using g y by (simp add: grown_def)
    ultimately show ?thesis using step.IH by (auto simp: lifetime_ok_def evolved_def same_owner_def)
  qed
  moreover have "rows_evolved (rows s) (rows u)"
    using step.IH g rows_evolved_trans by (auto simp: grown_def)
  ultimately show ?case using g by (simp add: grown_def)
qed

end

end
