(* ===== verification/Database.thy ===== *)
theory Database
  imports SessionLaws
begin

text \<open>
  The PostgreSQL state the application works on: one list of rows per table (the columns the code
  reads or writes), the connection's transaction context, and the read-only functions the
  migrations install (\<open>0008\<close>, \<open>0011\<close>, \<open>0013\<close>, \<open>0015\<close>). Identifiers that the code generates
  (\<open>uuid.uuid7()\<close>, \<open>gen_random_uuid()\<close>) are drawn from a supply kept with the state, and
  \<open>db_clock\<close> is what \<open>clock_timestamp()\<close> and \<open>statement_timestamp()\<close> return.
\<close>

section \<open>Rows\<close>

record tenant_row =
  tn_id :: uuid
  tn_slug :: pystr
  tn_name_ar :: pystr
  tn_status :: tenant_status

record user_row =
  us_id :: uuid
  us_email :: pystr
  us_normalized_email :: pystr
  us_status :: user_status
  us_security_version :: int

record membership_row =
  mb_id :: uuid
  mb_user_id :: uuid
  mb_tenant_id :: uuid
  mb_status :: membership_status
  mb_version :: int

record credential_row =
  cr_user_id :: uuid
  cr_password_hash :: pystr
  cr_credential_version :: int
  cr_changed_at :: time

record throttle_row =
  tb_scope :: pystr
  tb_key_digest :: bytes
  tb_window_started_at :: time
  tb_key_id :: int
  tb_request_count :: int
  tb_expires_at :: time

record reset_token_row =
  rt_id :: uuid
  rt_user_id :: uuid
  rt_token_digest :: bytes
  rt_created_at :: time
  rt_expires_at :: time
  rt_consumed_at :: "time option"
  rt_revoked_at :: "time option"

record role_row =
  ro_id :: uuid
  ro_tenant_id :: uuid
  ro_key :: pystr
  ro_display_name :: pystr
  ro_status :: role_status
  ro_version :: int

record role_permission_row =
  rp_tenant_id :: uuid
  rp_role_id :: uuid
  rp_permission_id :: pystr

record membership_role_row =
  mr_tenant_id :: uuid
  mr_membership_id :: uuid
  mr_role_id :: uuid

record intent_row =
  in_transaction_id :: nat
  in_event_id :: uuid
  in_event_type :: pystr
  in_user_id :: uuid
  in_session_id :: uuid
  in_membership_id :: uuid
  in_tenant_id :: uuid
  in_role_id :: uuid
  in_target_membership_id :: "uuid option"
  in_permission_id :: "pystr option"
  in_correlation_id :: uuid
  in_attested :: bool

text \<open>A settings layer: the JSON object of its keys and the version for optimistic updates.\<close>

type_synonym ui_object = "(pystr \<times> pystr) list"

record ui_row =
  ui_settings :: ui_object
  ui_version :: int

record db =
  db_tenants :: "tenant_row list"
  db_users :: "user_row list"
  db_memberships :: "membership_row list"
  db_credentials :: "credential_row list"
  db_sessions :: "session_record list"
  db_preauth :: "preauth_state list"
  db_events :: "event_row list"
  db_throttles :: "throttle_row list"
  db_reset_tokens :: "reset_token_row list"
  db_roles :: "role_row list"
  db_role_permissions :: "role_permission_row list"
  db_membership_roles :: "membership_role_row list"
  db_intents :: "intent_row list"
  db_platform_ui :: "ui_row option"
  db_tenant_ui :: "(uuid \<times> ui_row) list"
  db_user_ui :: "((uuid \<times> uuid) \<times> ui_row) list"
  db_ids :: "nat \<Rightarrow> uuid"
  db_drawn :: nat
  db_clock :: time

definition draw_id :: "(exn, db, uuid) action" where
  "draw_id s = Inr (db_ids s (db_drawn s), s\<lparr>db_drawn := Suc (db_drawn s)\<rparr>)"

definition read_db :: "(db \<Rightarrow> 'a) \<Rightarrow> (exn, db, 'a) action" where
  "read_db f s = Inr (f s, s)"

definition write_db :: "(db \<Rightarrow> db) \<Rightarrow> (exn, db, unit) action" where
  "write_db f s = Inr ((), f s)"

lemma read_db_apply [simp, action_simps]: "read_db f s = Inr (f s, s)"
  by (simp add: read_db_def)

lemma write_db_apply [simp, action_simps]: "write_db f s = Inr ((), f s)"
  by (simp add: write_db_def)

lemma seq_read_db [simp, action_simps]: "seq (read_db f) g s = g (f s) s"
  by (simp add: seq_def)

lemma seq_write_db [simp, action_simps]: "seq (write_db f) g s = g () (f s)"
  by (simp add: seq_def)

text \<open>
  The connection: its transaction (\<open>txid_current()\<close> with the backend's pid), the value of the
  setting \<open>app.tenant_id\<close> as \<open>app.current_tenant_id()\<close> reads it, the request's internal correlation
  identifier, whether a transaction is open, and whether the login satisfies the maintenance
  capability that migration \<open>0016\<close> spells out over the role catalogue.
\<close>

record conn =
  cx_txid :: nat
  cx_tenant :: "uuid option"
  cx_correlation :: "uuid option"
  cx_in_transaction :: bool
  cx_tenant_transaction :: bool
  cx_maintenance :: bool

section \<open>Identity functions\<close>

definition user_by_id :: "db \<Rightarrow> uuid \<Rightarrow> user_row option" where
  "user_by_id s u = find (\<lambda>r. us_id r = u) (db_users s)"

definition tenant_by_id :: "db \<Rightarrow> uuid \<Rightarrow> tenant_row option" where
  "tenant_by_id s t = find (\<lambda>r. tn_id r = t) (db_tenants s)"

definition membership_by_id :: "db \<Rightarrow> uuid \<Rightarrow> membership_row option" where
  "membership_by_id s m = find (\<lambda>r. mb_id r = m) (db_memberships s)"

definition user_active :: "db \<Rightarrow> uuid \<Rightarrow> bool" where
  "user_active s u = (case user_by_id s u of None \<Rightarrow> False | Some r \<Rightarrow> us_status r = UserActive)"

definition tenant_active :: "db \<Rightarrow> uuid \<Rightarrow> bool" where
  "tenant_active s t = (case tenant_by_id s t of None \<Rightarrow> False | Some r \<Rightarrow> tn_status r = TenantActive)"

text \<open>\<open>auth.resolve_active_membership\<close>: the rows of the join, at most one because ids are keys.\<close>

definition resolve_active_membership ::
  "db \<Rightarrow> uuid \<Rightarrow> uuid \<Rightarrow> int option \<Rightarrow> int \<Rightarrow> (uuid \<times> uuid \<times> int) option" where
  "resolve_active_membership s user_id membership_id membership_version security_version =
     (case (user_by_id s user_id, membership_by_id s membership_id) of
        (Some u, Some m) \<Rightarrow>
          if mb_user_id m = us_id u \<and> us_status u = UserActive \<and>
             us_security_version u = security_version \<and> mb_status m = MembershipActive \<and>
             (case membership_version of None \<Rightarrow> True | Some v \<Rightarrow> mb_version m = v) \<and>
             tenant_active s (mb_tenant_id m)
          then Some (mb_tenant_id m, mb_id m, mb_version m) else None
      | _ \<Rightarrow> None)"

text \<open>\<open>auth.is_active_membership_in_tenant\<close>\<close>

definition is_active_membership_in_tenant :: "db \<Rightarrow> uuid \<Rightarrow> uuid \<Rightarrow> bool" where
  "is_active_membership_in_tenant s membership_id tenant_id =
     (case membership_by_id s membership_id of
        None \<Rightarrow> False
      | Some m \<Rightarrow> mb_tenant_id m = tenant_id \<and> mb_status m = MembershipActive \<and>
          user_active s (mb_user_id m) \<and> tenant_active s (mb_tenant_id m))"

text \<open>The session row a bearer digest proves live, with its user (\<open>0013\<close>, \<open>0015\<close>).\<close>

definition live_session :: "db \<Rightarrow> bytes \<Rightarrow> (session_record \<times> user_row) option" where
  "live_session s digest =
     (case find (\<lambda>r. sr_bearer_digest r = digest) (db_sessions s) of
        None \<Rightarrow> None
      | Some r \<Rightarrow>
          (case user_by_id s (sr_user_id r) of
             None \<Rightarrow> None
           | Some u \<Rightarrow>
               if sr_revoked_at r = None \<and> sr_idle_expires_at r > db_clock s \<and>
                  sr_absolute_expires_at r > db_clock s \<and> us_status u = UserActive \<and>
                  us_security_version u = sr_security_version r
               then Some (r, u) else None))"

definition session_identity :: "db \<Rightarrow> bytes \<Rightarrow> (uuid \<times> pystr \<times> int) option" where
  "session_identity s digest =
     map_option (\<lambda>(r, u). (us_id u, us_email u, us_security_version u)) (live_session s digest)"

definition session_memberships :: "db \<Rightarrow> bytes \<Rightarrow> (uuid \<times> uuid \<times> pystr \<times> int) list" where
  "session_memberships s digest =
     (case live_session s digest of
        None \<Rightarrow> []
      | Some (r, u) \<Rightarrow>
          sort_key (\<lambda>(m, t, n, v). m)
            (List.map_filter (\<lambda>m.
               if mb_user_id m = us_id u \<and> mb_status m = MembershipActive then
                 (case tenant_by_id s (mb_tenant_id m) of
                    None \<Rightarrow> None
                  | Some t \<Rightarrow> if tn_status t = TenantActive
                              then Some (mb_id m, mb_tenant_id m, tn_name_ar t, mb_version m) else None)
               else None) (db_memberships s)))"

record credential_snapshot =
  cs_user_id :: uuid
  cs_password_hash :: pystr
  cs_credential_version :: int
  cs_security_version :: int

definition credential_of :: "db \<Rightarrow> user_row \<Rightarrow> credential_snapshot option" where
  "credential_of s u =
     map_option (\<lambda>c. \<lparr>cs_user_id = us_id u, cs_password_hash = cr_password_hash c,
       cs_credential_version = cr_credential_version c, cs_security_version = us_security_version u\<rparr>)
       (find (\<lambda>c. cr_user_id c = us_id u) (db_credentials s))"

definition password_authentication_snapshot :: "db \<Rightarrow> pystr \<Rightarrow> credential_snapshot option" where
  "password_authentication_snapshot s email =
     (case find (\<lambda>u. us_normalized_email u = email) (db_users s) of
        None \<Rightarrow> None
      | Some u \<Rightarrow> if us_status u = UserActive then credential_of s u else None)"

definition password_change_snapshot :: "db \<Rightarrow> bytes \<Rightarrow> credential_snapshot option" where
  "password_change_snapshot s digest =
     (case live_session s digest of None \<Rightarrow> None | Some (r, u) \<Rightarrow> credential_of s u)"

definition confirm_password_authentication :: "db \<Rightarrow> uuid \<Rightarrow> int \<Rightarrow> int \<Rightarrow> pystr \<Rightarrow> bool" where
  "confirm_password_authentication s user credential security hash =
     (case (user_by_id s user, find (\<lambda>c. cr_user_id c = user) (db_credentials s)) of
        (Some u, Some c) \<Rightarrow> us_status u = UserActive \<and> cr_credential_version c = credential \<and>
          us_security_version u = security \<and> cr_password_hash c = hash
      | _ \<Rightarrow> False)"

end
