(* ===== verification/AuditSql.thy ===== *)
theory AuditSql
  imports Database
begin

text \<open>
  The database side of the audit trail: the insert guard in its final form (migration \<open>0016\<close> over
  \<open>0014\<close> and \<open>0015\<close>), \<open>append_security_event\<close>, the private role intents with their preparation,
  attestation by the RBAC triggers, cancellation and the deferred check at commit, and the writer
  \<open>audit/writer.py\<close> that drives them.
\<close>

section \<open>The insert guard\<close>

definition same_intent :: "conn \<Rightarrow> event_row \<Rightarrow> intent_row \<Rightarrow> bool" where
  "same_intent cx r i \<longleftrightarrow>
     in_transaction_id i = cx_txid cx \<and> in_event_id i = er_id r \<and> in_event_type i = er_event_type r \<and>
     in_attested i \<and> er_user_id r = Some (in_user_id i) \<and> er_session_id r = Some (in_session_id i) \<and>
     er_membership_id r = Some (in_membership_id i) \<and> er_role_id r = Some (in_role_id i) \<and>
     in_target_membership_id i = er_target_membership_id r \<and>
     in_permission_id i = er_permission_id r \<and> in_correlation_id i = er_correlation_id r \<and>
     cx_tenant cx = Some (in_tenant_id i)"

definition prune_guard :: "conn \<Rightarrow> event_row \<Rightarrow> bool" where
  "prune_guard cx r \<longleftrightarrow>
     (if er_event_type r = lit ''security_events_pruned''
      then cx_maintenance cx \<and> er_reason_code r = Some (lit ''retention_expired'') \<and>
        (case er_affected_count r of None \<Rightarrow> False | Some n \<Rightarrow> 1 \<le> n \<and> n \<le> 1000)
      else True)"

definition links_exist :: "db \<Rightarrow> event_row \<Rightarrow> bool" where
  "links_exist s r \<longleftrightarrow>
     (case er_user_id r of None \<Rightarrow> True | Some u \<Rightarrow> user_by_id s u \<noteq> None) \<and>
     (case er_session_id r of None \<Rightarrow> True
      | Some i \<Rightarrow> (case find (\<lambda>x. sr_id x = i) (db_sessions s) of None \<Rightarrow> False
          | Some x \<Rightarrow> er_user_id r = Some (sr_user_id x) \<and>
              (er_membership_id r = None \<or> sr_selected_membership_id x = er_membership_id r))) \<and>
     (case er_membership_id r of None \<Rightarrow> True
      | Some m \<Rightarrow> (case membership_by_id s m of None \<Rightarrow> False | Some x \<Rightarrow> er_user_id r = Some (mb_user_id x)))"

text \<open>
  \<open>auth.validate_security_event_insert\<close>: a role event consumes its attested intent. The result is the
  state after the intent's deletion.
\<close>

definition validate_security_event_insert :: "conn \<Rightarrow> event_row \<Rightarrow> (exn, db, unit) action" where
  "validate_security_event_insert cx r =
     seq (require (prune_guard cx r) (SqlExn CheckViolation)) (\<lambda>_.
     seq (require (audit_shape snapshot_lists r) (SqlExn CheckViolation)) (\<lambda>_.
     seq (if er_role_id r \<noteq> None
          then seq (read_db (\<lambda>s. exists_row (same_intent cx r) (db_intents s))) (\<lambda>found.
               seq (require found (SqlExn CheckViolation)) (\<lambda>_.
               write_db (\<lambda>s. s\<lparr>db_intents := delete_where (same_intent cx r) (db_intents s)\<rparr>)))
          else ret ()) (\<lambda>_.
     seq (read_db (\<lambda>s. links_exist s r)) (\<lambda>ok.
     require ok (SqlExn CheckViolation)))))"

text \<open>\<open>auth.append_security_event\<close>: the guard, then the insert under the primary key.\<close>

definition append_security_event :: "conn \<Rightarrow> event_row \<Rightarrow> (exn, db, unit) action" where
  "append_security_event cx r =
     seq (require (row_casts_ok r) (SqlExn NumericOutOfRange)) (\<lambda>_.
     seq (validate_security_event_insert cx r) (\<lambda>_.
     seq (read_db (\<lambda>s. exists_row (\<lambda>x. er_id x = er_id r) (db_events s))) (\<lambda>taken.
     seq (require (\<not> taken) (SqlExn UniqueViolation)) (\<lambda>_.
     write_db (\<lambda>s. s\<lparr>db_events := db_events s @ [r\<lparr>er_created_at := db_clock s\<rparr>]\<rparr>)))))"

section \<open>Role intents\<close>

definition role_event_values :: "pystr list" where
  "role_event_values = map event_value role_event_types"

definition intent_arguments_ok :: "pystr \<Rightarrow> pystr option \<Rightarrow> uuid option \<Rightarrow> bool" where
  "intent_arguments_ok t permission target \<longleftrightarrow>
     t \<in> set role_event_values \<and>
     (t \<in> {lit ''role_permission_assigned'', lit ''role_permission_removed''}) = (permission \<noteq> None) \<and>
     (t \<in> {lit ''membership_role_assigned'', lit ''membership_role_removed''}) = (target \<noteq> None)"

text \<open>The live actor: session, user, selected membership and tenant all active, in the current tenant.\<close>

definition live_actor ::
  "conn \<Rightarrow> db \<Rightarrow> uuid \<Rightarrow> uuid \<Rightarrow> uuid \<Rightarrow> int \<Rightarrow> uuid option" where
  "live_actor cx s user session membership membership_version =
     (case (find (\<lambda>x. sr_id x = session) (db_sessions s), user_by_id s user, membership_by_id s membership) of
        (Some x, Some u, Some m) \<Rightarrow>
          if sr_user_id x = user \<and> sr_selected_membership_id x = Some membership \<and> mb_user_id m = user \<and>
             sr_revoked_at x = None \<and> sr_idle_expires_at x > db_clock s \<and>
             sr_absolute_expires_at x > db_clock s \<and> sr_security_version x = us_security_version u \<and>
             sr_selected_membership_version x = Some (mb_version m) \<and> mb_version m = membership_version \<and>
             mb_status m = MembershipActive \<and> us_status u = UserActive \<and>
             tenant_active s (mb_tenant_id m) \<and> cx_tenant cx = Some (mb_tenant_id m)
          then Some (mb_tenant_id m) else None
      | _ \<Rightarrow> None)"

definition prepare_role_security_event ::
  "conn \<Rightarrow> uuid \<Rightarrow> pystr \<Rightarrow> uuid \<Rightarrow> uuid \<Rightarrow> uuid \<Rightarrow> uuid \<Rightarrow> uuid option \<Rightarrow> pystr option \<Rightarrow> uuid \<Rightarrow> int \<Rightarrow>
   (exn, db, unit) action" where
  "prepare_role_security_event cx event t user session membership role target permission correlation version =
     seq (require (intent_arguments_ok t permission target) (SqlExn CheckViolation)) (\<lambda>_.
     seq (read_db (\<lambda>s. live_actor cx s user session membership version)) (\<lambda>actor.
     case actor of
       None \<Rightarrow> raise (SqlExn CheckViolation)
     | Some tenant \<Rightarrow>
         seq (read_db (\<lambda>s. case target of None \<Rightarrow> True
                | Some g \<Rightarrow> (case membership_by_id s g of None \<Rightarrow> False
                    | Some m \<Rightarrow> mb_tenant_id m = tenant \<and> mb_status m = MembershipActive))) (\<lambda>target_ok.
         seq (require target_ok (SqlExn CheckViolation)) (\<lambda>_.
         seq (read_db (\<lambda>s. exists_row (\<lambda>i. in_transaction_id i = cx_txid cx) (db_intents s))) (\<lambda>armed.
         seq (require (\<not> armed) (SqlExn UniqueViolation)) (\<lambda>_.
         write_db (\<lambda>s. s\<lparr>db_intents := db_intents s @
           [\<lparr>in_transaction_id = cx_txid cx, in_event_id = event, in_event_type = t, in_user_id = user,
             in_session_id = session, in_membership_id = membership, in_tenant_id = tenant,
             in_role_id = role, in_target_membership_id = target, in_permission_id = permission,
             in_correlation_id = correlation, in_attested = False\<rparr>]\<rparr>)))))))"

text \<open>A row change of one of the three RBAC tables, as its AFTER trigger sees it.\<close>

datatype role_change =
    RoleInserted role_row
  | RoleUpdated role_row role_row
  | RoleDeleted role_row
  | PermissionInserted role_permission_row
  | PermissionDeleted role_permission_row
  | MembershipRoleInserted membership_role_row
  | MembershipRoleDeleted membership_role_row
  | OtherChange

text \<open>The event type, role, tenant, target membership and permission a change proves.\<close>

fun attested_change ::
  "role_change \<Rightarrow> (pystr \<times> uuid \<times> uuid \<times> uuid option \<times> pystr option) option" where
  "attested_change (RoleInserted n) = Some (lit ''role_created'', ro_id n, ro_tenant_id n, None, None)"
| "attested_change (RoleUpdated old n) =
     (if ro_id n = ro_id old \<and> ro_tenant_id n = ro_tenant_id old \<and> ro_key n = ro_key old \<and>
         ro_version n = ro_version old + 1
      then if ro_status old = RoleActive \<and> ro_status n = RoleInactive
           then Some (lit ''role_disabled'', ro_id n, ro_tenant_id n, None, None)
           else if ro_status n = ro_status old
           then Some (lit ''role_updated'', ro_id n, ro_tenant_id n, None, None)
           else None
      else None)"
| "attested_change (PermissionInserted p) =
     Some (lit ''role_permission_assigned'', rp_role_id p, rp_tenant_id p, None, Some (rp_permission_id p))"
| "attested_change (PermissionDeleted p) =
     Some (lit ''role_permission_removed'', rp_role_id p, rp_tenant_id p, None, Some (rp_permission_id p))"
| "attested_change (MembershipRoleInserted m) =
     Some (lit ''membership_role_assigned'', mr_role_id m, mr_tenant_id m, Some (mr_membership_id m), None)"
| "attested_change (MembershipRoleDeleted m) =
     Some (lit ''membership_role_removed'', mr_role_id m, mr_tenant_id m, Some (mr_membership_id m), None)"
| "attested_change _ = None"

definition attest_role_security_change :: "conn \<Rightarrow> role_change \<Rightarrow> (exn, db, unit) action" where
  "attest_role_security_change cx change =
     seq (read_db (\<lambda>s. find (\<lambda>i. in_transaction_id i = cx_txid cx) (db_intents s))) (\<lambda>armed.
     case armed of
       None \<Rightarrow> ret ()
     | Some i \<Rightarrow>
         seq (require (\<not> in_attested i \<and>
               attested_change change = Some (in_event_type i, in_role_id i, in_tenant_id i,
                 in_target_membership_id i, in_permission_id i)) (SqlExn CheckViolation)) (\<lambda>_.
         write_db (\<lambda>s. s\<lparr>db_intents :=
           update_where (\<lambda>x. in_transaction_id x = in_transaction_id i) (\<lambda>x. x\<lparr>in_attested := True\<rparr>) (db_intents s)\<rparr>)))"

definition cancel_role_security_event :: "conn \<Rightarrow> uuid \<Rightarrow> (exn, db, unit) action" where
  "cancel_role_security_event cx event =
     (let mine = (\<lambda>i. in_transaction_id i = cx_txid cx \<and> in_event_id i = event \<and> \<not> in_attested i) in
      seq (read_db (\<lambda>s. exists_row mine (db_intents s))) (\<lambda>found.
      seq (require found (SqlExn CheckViolation)) (\<lambda>_.
      write_db (\<lambda>s. s\<lparr>db_intents := delete_where mine (db_intents s)\<rparr>))))"

text \<open>The deferred constraint trigger: a transaction that still holds its intent cannot commit.\<close>

definition require_consumed_role_security_event :: "conn \<Rightarrow> (exn, db, unit) action" where
  "require_consumed_role_security_event cx =
     seq (read_db (\<lambda>s. exists_row (\<lambda>i. in_transaction_id i = cx_txid cx) (db_intents s))) (\<lambda>left.
     require (\<not> left) (SqlExn CheckViolation))"

section \<open>The writer\<close>

text \<open>
  A \<open>SecurityEventWriter\<close>: its connection, the correlation identifier fixed at construction, and
  the armed role intent. Its fields travel with the database state.
\<close>

record writer =
  sw_correlation :: uuid
  sw_role_intent :: "(audit_event \<times> uuid) option"

definition new_writer :: "conn \<Rightarrow> (exn, db, writer) action" where
  "new_writer cx =
     (case cx_correlation cx of
        Some c \<Rightarrow> ret \<lparr>sw_correlation = c, sw_role_intent = None\<rparr>
      | None \<Rightarrow> seq draw_id (\<lambda>c. ret \<lparr>sw_correlation = c, sw_role_intent = None\<rparr>))"

text \<open>\<open>except SQLAlchemyError: raise SecurityAuditWriteError() from None\<close>\<close>

definition guard_sql :: "(exn, db, 'a) action \<Rightarrow> (exn, db, 'a) action" where
  "guard_sql m s = (case m s of Inl e \<Rightarrow> Inl (if is_sqlalchemy_error e then AuditWriteFailed else e) | Inr x \<Rightarrow> Inr x)"

definition require_transaction :: "conn \<Rightarrow> (exn, db, unit) action" where
  "require_transaction cx = require (cx_tenant_transaction cx \<or> cx_in_transaction cx) AuditWriteFailed"

definition is_role_event :: "audit_event \<Rightarrow> bool" where
  "is_role_event e \<longleftrightarrow> ae_event_type e \<in> set role_event_types"

definition writer_write :: "conn \<Rightarrow> writer \<Rightarrow> audit_event \<Rightarrow> (exn, db, writer) action" where
  "writer_write cx w e =
     seq (require (event_ok e) InvalidAuditEvent) (\<lambda>_.
     seq (require (ae_event_type e \<noteq> SECURITY_EVENTS_PRUNED) AuditWriteFailed) (\<lambda>_.
     seq (require (\<not> (is_role_event e \<and> map_option fst (sw_role_intent w) \<noteq> Some e)) AuditWriteFailed) (\<lambda>_.
     seq (require_transaction cx) (\<lambda>_.
     guard_sql
      (seq (case (is_role_event e, sw_role_intent w) of (True, Some (_, i)) \<Rightarrow> ret i | _ \<Rightarrow> draw_id) (\<lambda>event_id.
       seq (append_security_event cx (event_to_row e event_id (sw_correlation w) 0)) (\<lambda>_.
       ret (if is_role_event e then w\<lparr>sw_role_intent := None\<rparr> else w))))))))"

definition writer_prepare_role :: "conn \<Rightarrow> writer \<Rightarrow> audit_event \<Rightarrow> int \<Rightarrow> (exn, db, writer) action" where
  "writer_prepare_role cx w e membership_version =
     seq (require (event_ok e) InvalidAuditEvent) (\<lambda>_.
     seq (require (is_role_event e \<and> sw_role_intent w = None) AuditWriteFailed) (\<lambda>_.
     seq (require_transaction cx) (\<lambda>_.
     seq draw_id (\<lambda>event_id.
     guard_sql
      (seq (require (int4_ok membership_version) (SqlExn NumericOutOfRange)) (\<lambda>_.
       case (ae_user_id e, ae_session_id e, ae_membership_id e, ae_role_id e) of
         (Some u, Some x, Some m, Some r) \<Rightarrow>
           seq (prepare_role_security_event cx event_id (event_value (ae_event_type e)) u x m r
                  (ae_target_membership_id e) (ae_permission_id e) (sw_correlation w) membership_version) (\<lambda>_.
           ret (w\<lparr>sw_role_intent := Some (e, event_id)\<rparr>))
       | _ \<Rightarrow> raise (SqlExn CheckViolation)))))))"

definition writer_cancel_role :: "conn \<Rightarrow> writer \<Rightarrow> audit_event \<Rightarrow> (exn, db, writer) action" where
  "writer_cancel_role cx w e =
     (case sw_role_intent w of
        Some (armed, event_id) \<Rightarrow>
          if armed \<noteq> e then raise AuditWriteFailed
          else seq (require_transaction cx) (\<lambda>_.
               guard_sql (seq (cancel_role_security_event cx event_id) (\<lambda>_. ret (w\<lparr>sw_role_intent := None\<rparr>))))
      | None \<Rightarrow> raise AuditWriteFailed)"

end
