(* ===== verification/PostgresStore.thy ===== *)
theory PostgresStore
  imports AuditSql
begin

text \<open>
  \<open>auth/postgres.py\<close>: the session store on the tables \<open>auth.sessions\<close> and
  \<open>auth.preauth_csrf_states\<close> with their constraints, and its interpretation as a lawful store.
\<close>

section \<open>The store\<close>

text \<open>The foreign keys of a session row: the user, and the selected membership with that user.\<close>

definition session_fk_ok :: "db \<Rightarrow> session_record \<Rightarrow> bool" where
  "session_fk_ok s r \<longleftrightarrow>
     user_by_id s (sr_user_id r) \<noteq> None \<and>
     (case sr_selected_membership_id r of None \<Rightarrow> True
      | Some m \<Rightarrow> (case membership_by_id s m of None \<Rightarrow> False | Some x \<Rightarrow> mb_user_id x = sr_user_id r))"

definition pg_save :: "session_record \<Rightarrow> (exn, db, unit) action" where
  "pg_save r =
     seq (require (check_session_row r) (SqlExn CheckViolation)) (\<lambda>_.
     seq (read_db (\<lambda>s. exists_row (\<lambda>x. sr_id x = sr_id r \<or> sr_bearer_digest x = sr_bearer_digest r) (db_sessions s))) (\<lambda>taken.
     seq (require (\<not> taken) (SqlExn UniqueViolation)) (\<lambda>_.
     seq (read_db (\<lambda>s. session_fk_ok s r)) (\<lambda>fk.
     seq (require fk (SqlExn ForeignKeyViolation)) (\<lambda>_.
     write_db (\<lambda>s. s\<lparr>db_sessions := db_sessions s @ [r]\<rparr>))))))"

definition pg_get_by_digest :: "bytes \<Rightarrow> (exn, db, session_record option) action" where
  "pg_get_by_digest digest =
     seq (read_db (\<lambda>s. filter (\<lambda>r. sr_bearer_digest r = digest) (db_sessions s))) (\<lambda>found.
     case found of
       [] \<Rightarrow> ret None
     | [r] \<Rightarrow> ret (Some r)
     | _ \<Rightarrow> raise (SqlExn MultipleResultsFound))"

definition pg_active_for_user :: "uuid \<Rightarrow> (exn, db, session_record list) action" where
  "pg_active_for_user user_id =
     read_db (\<lambda>s. sort_key session_order
       (filter (\<lambda>r. sr_user_id r = user_id \<and> sr_revoked_at r = None) (db_sessions s)))"

text \<open>The \<open>UPDATE\<close> sets these columns of the row with the record's identifier and no others.\<close>

definition pg_updated :: "session_record \<Rightarrow> session_record \<Rightarrow> session_record" where
  "pg_updated r x =
     x\<lparr>sr_bearer_digest := sr_bearer_digest r, sr_csrf_digest := sr_csrf_digest r,
       sr_last_seen_at := sr_last_seen_at r, sr_idle_expires_at := sr_idle_expires_at r,
       sr_revoked_at := sr_revoked_at r, sr_revoked_reason := sr_revoked_reason r,
       sr_selected_membership_id := sr_selected_membership_id r,
       sr_selected_membership_version := sr_selected_membership_version r\<rparr>"

definition pg_replace :: "session_record \<Rightarrow> (exn, db, unit) action" where
  "pg_replace r =
     seq (read_db db_sessions) (\<lambda>t.
     let t' = update_where (\<lambda>x. sr_id x = sr_id r) (pg_updated r) t in
     seq (require (list_all check_session_row t') (SqlExn CheckViolation)) (\<lambda>_.
     seq (require (unique_on sr_bearer_digest t') (SqlExn UniqueViolation)) (\<lambda>_.
     seq (read_db (\<lambda>s. list_all (session_fk_ok s) t')) (\<lambda>fk.
     seq (require fk (SqlExn ForeignKeyViolation)) (\<lambda>_.
     write_db (\<lambda>s. s\<lparr>db_sessions := t'\<rparr>))))))"

definition pg_save_preauth :: "preauth_state \<Rightarrow> (exn, db, unit) action" where
  "pg_save_preauth p =
     seq (require (check_preauth_row p) (SqlExn CheckViolation)) (\<lambda>_.
     seq (read_db (\<lambda>s. exists_row (\<lambda>x. ps_state_digest x = ps_state_digest p) (db_preauth s))) (\<lambda>taken.
     seq (require (\<not> taken) (SqlExn UniqueViolation)) (\<lambda>_.
     write_db (\<lambda>s. s\<lparr>db_preauth := db_preauth s @ [p]\<rparr>))))"

definition pg_get_preauth :: "bytes \<Rightarrow> (exn, db, preauth_state option) action" where
  "pg_get_preauth digest =
     seq (read_db (\<lambda>s. filter (\<lambda>p. ps_state_digest p = digest) (db_preauth s))) (\<lambda>found.
     case found of
       [] \<Rightarrow> ret None
     | [p] \<Rightarrow> ret (Some p)
     | _ \<Rightarrow> raise (SqlExn MultipleResultsFound))"

definition pg_replace_preauth :: "preauth_state \<Rightarrow> (exn, db, unit) action" where
  "pg_replace_preauth p =
     write_db (\<lambda>s. s\<lparr>db_preauth :=
       update_where (\<lambda>x. ps_state_digest x = ps_state_digest p \<and> ps_consumed_at x = None)
         (\<lambda>x. x\<lparr>ps_consumed_at := ps_consumed_at p\<rparr>) (db_preauth s)\<rparr>)"

definition pg_write_security_event :: "conn \<Rightarrow> audit_event \<Rightarrow> (exn, db, unit) action" where
  "pg_write_security_event cx e =
     seq (new_writer cx) (\<lambda>w. seq (writer_write cx w e) (\<lambda>_. ret ()))"

definition pg_store :: "conn \<Rightarrow> db session_store" where
  "pg_store cx =
     \<lparr>st_write_event = pg_write_security_event cx, st_save = pg_save,
      st_get_by_digest = pg_get_by_digest, st_active_for_user = pg_active_for_user,
      st_replace = pg_replace, st_save_preauth = pg_save_preauth, st_get_preauth = pg_get_preauth,
      st_replace_preauth = pg_replace_preauth\<rparr>"

section \<open>The database invariant\<close>

text \<open>
  What the constraints guarantee of the session tables, and that the supply of identifiers gives
  version 7 identifiers that no event uses yet.
\<close>

definition ids_fresh :: "db \<Rightarrow> bool" where
  "ids_fresh s \<longleftrightarrow>
     inj (db_ids s) \<and> (\<forall>n. uuid_version (db_ids s n) = Some 7) \<and>
     (\<forall>n \<ge> db_drawn s. db_ids s n \<notin> er_id ` set (db_events s))"

definition sessions_ok :: "db \<Rightarrow> bool" where
  "sessions_ok s \<longleftrightarrow>
     unique_on sr_id (db_sessions s) \<and> unique_on sr_bearer_digest (db_sessions s) \<and>
     list_all check_session_row (db_sessions s) \<and> list_all (session_fk_ok s) (db_sessions s) \<and>
     unique_on ps_state_digest (db_preauth s)"

text \<open>The users and memberships: keys and the positive 32 bit versions.\<close>

definition check_user_row :: "user_row \<Rightarrow> bool" where
  "check_user_row u \<longleftrightarrow> 0 < us_security_version u \<and> int4_ok (us_security_version u)"

definition check_membership_row :: "membership_row \<Rightarrow> bool" where
  "check_membership_row m \<longleftrightarrow> 0 < mb_version m \<and> int4_ok (mb_version m)"

definition catalogue_ok :: "user_row list \<Rightarrow> membership_row list \<Rightarrow> bool" where
  "catalogue_ok users memberships \<longleftrightarrow>
     unique_on us_id users \<and> unique_on us_normalized_email users \<and> list_all check_user_row users \<and>
     unique_on mb_id memberships \<and> list_all check_membership_row memberships"

definition db_ok :: "db \<Rightarrow> bool" where
  "db_ok s \<longleftrightarrow> sessions_ok s \<and> ids_fresh s \<and> catalogue_ok (db_users s) (db_memberships s)"

definition db_logged :: "db \<Rightarrow> event_line list" where
  "db_logged s = map (\<lambda>r. (er_event_type r, er_reason_code r, er_user_id r, er_session_id r)) (db_events s)"

definition db_knows :: "db \<Rightarrow> uuid \<Rightarrow> bool" where
  "db_knows s u \<longleftrightarrow> user_by_id s u \<noteq> None"

definition db_links :: "db \<Rightarrow> uuid \<Rightarrow> uuid \<Rightarrow> bool" where
  "db_links s m u = (case membership_by_id s m of None \<Rightarrow> False | Some x \<Rightarrow> mb_user_id x = u)"

text \<open>The connection of a request: inside a transaction, with an RFC 4122 correlation identifier if any.\<close>

definition conn_ok :: "conn \<Rightarrow> bool" where
  "conn_ok cx \<longleftrightarrow>
     (cx_in_transaction cx \<or> cx_tenant_transaction cx) \<and>
     (case cx_correlation cx of None \<Rightarrow> True | Some c \<Rightarrow> check_uuid_text c)"

lemma session_fk_iff:
  "session_fk_ok s r \<longleftrightarrow> db_knows s (sr_user_id r) \<and>
     (\<forall>m. sr_selected_membership_id r = Some m \<longrightarrow> db_links s m (sr_user_id r))"
  by (auto simp: session_fk_ok_def db_knows_def db_links_def split: option.splits)

lemma filter_one_find:
  assumes "unique_on key t"
  shows "(case filter (\<lambda>x. key x = k) t of [] \<Rightarrow> ret None | [r] \<Rightarrow> ret (Some r) | _ \<Rightarrow> raise e) s =
    Inr (find (\<lambda>x. key x = k) t, s)"
proof (cases "find (\<lambda>x. key x = k) t")
  case None
  then have "filter (\<lambda>x. key x = k) t = []" by (simp add: find_None_iff filter_empty_conv)
  with None show ?thesis by simp
next
  case (Some r)
  then have "r \<in> set t" "key r = k" using find_unique [OF assms] by simp_all
  then have "filter (\<lambda>x. key x = k) t = [r]" using filter_unique_key [OF assms, of r] by simp
  with Some show ?thesis by simp
qed

lemma pg_get_by_digest_run:
  "unique_on sr_bearer_digest (db_sessions s) \<Longrightarrow>
     pg_get_by_digest d s = Inr (find (\<lambda>r. sr_bearer_digest r = d) (db_sessions s), s)"
  by (simp add: pg_get_by_digest_def filter_one_find)

lemma pg_get_preauth_run:
  "unique_on ps_state_digest (db_preauth s) \<Longrightarrow>
     pg_get_preauth d s = Inr (find (\<lambda>p. ps_state_digest p = d) (db_preauth s), s)"
  by (simp add: pg_get_preauth_def filter_one_find)

lemma pg_updated_owner: "same_owner x r \<Longrightarrow> pg_updated r x = r"
  by (cases x; cases r) (simp add: pg_updated_def same_owner_def)

section \<open>Lawful\<close>

text \<open>Only the session tables, the events, the intents and the supply change under the store.\<close>

definition same_catalogue :: "db \<Rightarrow> db \<Rightarrow> bool" where
  "same_catalogue s s' \<longleftrightarrow>
     db_users s' = db_users s \<and> db_memberships s' = db_memberships s \<and> db_tenants s' = db_tenants s"

lemma same_catalogue_facts:
  assumes "same_catalogue s s'"
  shows "user_by_id s' = user_by_id s" "membership_by_id s' = membership_by_id s"
    "session_fk_ok s' = session_fk_ok s" "db_knows s' = db_knows s" "db_links s' = db_links s"
proof -
  show u: "user_by_id s' = user_by_id s" and m: "membership_by_id s' = membership_by_id s"
    using assms by (auto simp: same_catalogue_def user_by_id_def membership_by_id_def)
  show "session_fk_ok s' = session_fk_ok s" "db_knows s' = db_knows s" "db_links s' = db_links s"
    by (simp_all add: fun_eq_iff session_fk_ok_def db_knows_def db_links_def u m cong: option.case_cong)
qed

lemma db_update_catalogue [simp]:
  "same_catalogue s (s\<lparr>db_sessions := a\<rparr>)" "same_catalogue s (s\<lparr>db_preauth := b\<rparr>)"
  "same_catalogue s (s\<lparr>db_drawn := n\<rparr>)" "same_catalogue s (s\<lparr>db_events := ev\<rparr>)"
  by (simp_all add: same_catalogue_def)

lemma db_ok_sessions:
  "db_ok s \<Longrightarrow> unique_on sr_id t \<Longrightarrow> unique_on sr_bearer_digest t \<Longrightarrow> list_all check_session_row t \<Longrightarrow>
     list_all (session_fk_ok s) t \<Longrightarrow> db_ok (s\<lparr>db_sessions := t\<rparr>)"
  using same_catalogue_facts(3) [of s "s\<lparr>db_sessions := t\<rparr>"]
  by (simp add: db_ok_def sessions_ok_def ids_fresh_def)

lemma db_ok_preauth: "db_ok s \<Longrightarrow> unique_on ps_state_digest t \<Longrightarrow> db_ok (s\<lparr>db_preauth := t\<rparr>)"
  using same_catalogue_facts(3) [of s "s\<lparr>db_preauth := t\<rparr>"]
  by (simp add: db_ok_def sessions_ok_def ids_fresh_def)

lemma replaced_update_where:
  assumes "unique_on sr_id t" "old \<in> set t" "same_owner old r"
  shows "update_where (\<lambda>x. sr_id x = sr_id r) (pg_updated r) t = map (replaced r) t"
proof -
  have "pg_updated r x = r" if "x \<in> set t" "sr_id x = sr_id r" for x
  proof -
    have "x = old" using unique_on_eqD [OF assms(1) that(1) assms(2)] that(2) assms(3)
      by (simp add: same_owner_def)
    with assms(3) show ?thesis by (simp add: pg_updated_owner)
  qed
  then show ?thesis by (simp add: update_where_def replaced_def)
qed

lemma pg_replace_law:
  assumes "db_ok s" "old \<in> set (db_sessions s)" "same_owner old r" "check_session_row r"
    and links: "\<And>m. sr_selected_membership_id r = Some m \<Longrightarrow> db_links s m (sr_user_id r)"
    and fresh: "\<And>x. x \<in> set (db_sessions s) \<Longrightarrow> sr_bearer_digest x = sr_bearer_digest r \<Longrightarrow> sr_id x = sr_id r"
  shows "pg_replace r s = Inr ((), s\<lparr>db_sessions := map (replaced r) (db_sessions s)\<rparr>) \<and>
    db_ok (s\<lparr>db_sessions := map (replaced r) (db_sessions s)\<rparr>)"
proof -
  let ?t = "db_sessions s"
  have u: "unique_on sr_id ?t" "unique_on sr_bearer_digest ?t" "list_all check_session_row ?t"
    "list_all (session_fk_ok s) ?t" using assms(1) by (simp_all add: db_ok_def sessions_ok_def)
  note eq = replaced_update_where [OF u(1) assms(2,3)]
  have user: "sr_user_id r = sr_user_id old" using assms(3) by (simp add: same_owner_def)
  have chk: "list_all check_session_row (map (replaced r) ?t)"
    using u(3) assms(4) by (auto simp: list_all_iff replaced_def)
  have "session_fk_ok s r"
    using u(4) assms(2) user links by (auto simp: session_fk_iff list_all_iff)
  then have fk: "list_all (session_fk_ok s) (map (replaced r) ?t)"
    using u(4) by (auto simp: list_all_iff replaced_def)
  have id: "unique_on sr_id (map (replaced r) ?t)"
    using u(1) by (simp add: unique_on_def comp_def)
  have "inj_on (\<lambda>x. sr_bearer_digest (replaced r x)) (set ?t)"
  proof (rule inj_onI)
    fix x y assume xy: "x \<in> set ?t" "y \<in> set ?t" "sr_bearer_digest (replaced r x) = sr_bearer_digest (replaced r y)"
    then have "sr_id x = sr_id y \<or> sr_bearer_digest x = sr_bearer_digest y"
      using fresh [OF xy(1)] fresh [OF xy(2)] by (auto simp: replaced_def split: if_splits)
    then show "x = y" using unique_on_eqD [OF u(1) xy(1,2)] unique_on_eqD [OF u(2) xy(1,2)] by blast
  qed
  then have dig: "unique_on sr_bearer_digest (map (replaced r) ?t)"
    using u(1) by (auto simp: unique_on_def distinct_map comp_def)
  show ?thesis
    using chk fk dig db_ok_sessions [OF assms(1) id dig chk fk]
    by (simp add: pg_replace_def eq Let_def seq_require)
qed

lemma pg_save_law:
  assumes "db_ok s" "check_session_row r" "db_knows s (sr_user_id r)" "sr_selected_membership_id r = None"
    and "sr_id r \<notin> sr_id ` set (db_sessions s)" "sr_bearer_digest r \<notin> sr_bearer_digest ` set (db_sessions s)"
  shows "pg_save r s = Inr ((), s\<lparr>db_sessions := db_sessions s @ [r]\<rparr>) \<and> db_ok (s\<lparr>db_sessions := db_sessions s @ [r]\<rparr>)"
proof
  have fk: "session_fk_ok s r" using assms by (simp add: session_fk_iff)
  show "db_ok (s\<lparr>db_sessions := db_sessions s @ [r]\<rparr>)"
    by (rule db_ok_sessions [OF assms(1)]) (use assms fk in \<open>auto simp: db_ok_def sessions_ok_def\<close>)
  have "\<not> exists_row (\<lambda>x. sr_id x = sr_id r \<or> sr_bearer_digest x = sr_bearer_digest r) (db_sessions s)"
    using assms(5,6) by (simp add: exists_row_iff) (metis image_eqI)
  then show "pg_save r s = Inr ((), s\<lparr>db_sessions := db_sessions s @ [r]\<rparr>)"
    using assms(2) fk by (simp add: pg_save_def seq_require)
qed

text \<open>The writer accepts every event about known users and sessions, under a fresh identifier.\<close>

lemma seq_draw_id [simp]:
  "seq draw_id f s = f (db_ids s (db_drawn s)) (s\<lparr>db_drawn := Suc (db_drawn s)\<rparr>)"
  by (simp add: seq_def draw_id_def)

lemma ids_fresh_drawn: "ids_fresh s \<Longrightarrow> ids_fresh (s\<lparr>db_drawn := Suc (db_drawn s)\<rparr>)"
  by (simp add: ids_fresh_def)

lemma ids_fresh_event:
  "ids_fresh s \<Longrightarrow> n < db_drawn s \<Longrightarrow> er_id r = db_ids s n \<Longrightarrow> ids_fresh (s\<lparr>db_events := db_events s @ [r]\<rparr>)"
  by (auto simp: ids_fresh_def inj_def) (metis leD)

lemma append_ok:
  assumes "prune_guard cx r" "audit_shape snapshot_lists r" "row_casts_ok r" "er_role_id r = None"
    and "links_exist s r" "er_id r \<notin> er_id ` set (db_events s)"
  shows "append_security_event cx r s =
    Inr ((), s\<lparr>db_events := db_events s @ [r\<lparr>er_created_at := db_clock s\<rparr>]\<rparr>)"
proof -
  have "\<not> exists_row (\<lambda>x. er_id x = er_id r) (db_events s)"
    using assms(6) by (simp add: exists_row_iff) (metis image_eqI)
  moreover have "validate_security_event_insert cx r s = Inr ((), s)"
    using assms by (simp add: validate_security_event_insert_def seq_require)
  ultimately show ?thesis using assms(3) by (simp add: append_security_event_def seq_require seq_Inr)
qed

lemma session_only_row:
  assumes "session_only e"
  shows "prune_guard cx (event_to_row e i c d)" "er_role_id (event_to_row e i c d) = None"
    "\<not> is_role_event e" "ae_event_type e \<noteq> SECURITY_EVENTS_PRUNED" "event_ok e"
  using assms by (simp_all add: session_only_def prune_guard_def event_to_row_def event_value_lits is_role_event_def)

lemma links_exist_session_only:
  assumes "session_only e" "unique_on sr_id (db_sessions s)"
    and "\<And>u. ae_user_id e = Some u \<Longrightarrow> db_knows s u"
    and "\<And>i. ae_session_id e = Some i \<Longrightarrow>
      \<exists>r \<in> set (db_sessions s). sr_id r = i \<and> ae_user_id e = Some (sr_user_id r)"
  shows "links_exist s (event_to_row e i c d)"
proof -
  have "case ae_session_id e of None \<Rightarrow> True
      | Some i \<Rightarrow> (case find (\<lambda>x. sr_id x = i) (db_sessions s) of None \<Rightarrow> False
          | Some x \<Rightarrow> ae_user_id e = Some (sr_user_id x))"
  proof (cases "ae_session_id e")
    case (Some i)
    then obtain r where "r \<in> set (db_sessions s)" "sr_id r = i" "ae_user_id e = Some (sr_user_id r)"
      using assms(4) by blast
    moreover from this have "find (\<lambda>x. sr_id x = i) (db_sessions s) = Some r"
      using find_unique [OF assms(2)] by simp
    ultimately show ?thesis using Some by simp
  qed simp
  moreover have "ae_membership_id e = None" using assms(1) by (simp add: session_only_def)
  ultimately show ?thesis
    using assms(3) by (auto simp: links_exist_def event_to_row_def db_knows_def split: option.splits)
qed

definition inserted :: "db \<Rightarrow> audit_event \<Rightarrow> uuid \<Rightarrow> uuid \<Rightarrow> event_row" where
  "inserted s e i c = (event_to_row e i c 0)\<lparr>er_created_at := db_clock s\<rparr>"

lemma writer_write_ok:
  assumes "db_ok s" "conn_ok cx" "session_only e" "check_uuid_text (sw_correlation w)"
    and "\<And>u. ae_user_id e = Some u \<Longrightarrow> db_knows s u"
    and "\<And>i. ae_session_id e = Some i \<Longrightarrow>
      \<exists>r \<in> set (db_sessions s). sr_id r = i \<and> ae_user_id e = Some (sr_user_id r)"
  defines "i \<equiv> db_ids s (db_drawn s)"
  defines "s' \<equiv> s\<lparr>db_drawn := Suc (db_drawn s), db_events := db_events s @ [inserted s e i (sw_correlation w)]\<rparr>"
  shows "writer_write cx w e s = Inr (w, s') \<and> db_ok s'"
proof
  note sr = session_only_row [OF assms(3)]
  let ?s1 = "s\<lparr>db_drawn := Suc (db_drawn s)\<rparr>"
  let ?r = "event_to_row e i (sw_correlation w) 0"
  have ids: "uuid_version i = Some 7" "i \<notin> er_id ` set (db_events s)"
    using assms(1) by (simp_all add: db_ok_def ids_fresh_def i_def)
  have cat: "same_catalogue s ?s1" by simp
  have "links_exist ?s1 ?r"
    by (rule links_exist_session_only [OF assms(3)])
      (use assms(1,5,6) same_catalogue_facts(4) [OF cat] in \<open>auto simp: db_ok_def sessions_ok_def\<close>)
  moreover have "row_casts_ok ?r" "audit_shape snapshot_lists ?r"
    using validation_iff_checks [of e i "sw_correlation w" 0] sr(5) ids(1) assms(4) by simp_all
  moreover have "er_id ?r = i" by (simp add: event_to_row_def)
  ultimately have "append_security_event cx ?r ?s1 =
      Inr ((), ?s1\<lparr>db_events := db_events ?s1 @ [?r\<lparr>er_created_at := db_clock ?s1\<rparr>]\<rparr>)"
    using sr ids(2) by (intro append_ok) simp_all
  then have "append_security_event cx ?r ?s1 = Inr ((), s')"
    by (simp add: s'_def inserted_def)
  then show "writer_write cx w e s = Inr (w, s')"
    using sr assms(2)
    by (simp add: writer_write_def require_transaction_def conn_ok_def seq_require guard_sql_def
        seq_draw_id i_def seq_Inr disj_commute)
  have "ids_fresh s'"
  proof -
    have "ids_fresh ?s1" using assms(1) ids_fresh_drawn by (simp add: db_ok_def)
    from ids_fresh_event [OF this, of "db_drawn s" "inserted s e i (sw_correlation w)"] show ?thesis
      by (simp add: s'_def inserted_def event_to_row_def i_def)
  qed
  moreover have "same_catalogue s s'" by (simp add: s'_def same_catalogue_def)
  ultimately show "db_ok s'"
    using assms(1) same_catalogue_facts(3) [of s s'] by (simp add: db_ok_def sessions_ok_def s'_def)
qed

lemma pg_write_law:
  assumes "db_ok s" "conn_ok cx" "session_only e"
    and "\<And>u. ae_user_id e = Some u \<Longrightarrow> db_knows s u"
    and "\<And>i. ae_session_id e = Some i \<Longrightarrow>
      \<exists>r \<in> set (db_sessions s). sr_id r = i \<and> ae_user_id e = Some (sr_user_id r)"
  shows "\<exists>s'. pg_write_security_event cx e s = Inr ((), s') \<and> db_ok s' \<and> db_sessions s' = db_sessions s \<and>
    db_preauth s' = db_preauth s \<and> db_logged s' = db_logged s @ [line_of e] \<and> same_catalogue s s'"
proof -
  have line: "db_logged (s\<lparr>db_drawn := n, db_events := db_events s @ [inserted t e i c]\<rparr>) = db_logged s @ [line_of e]"
    for n t i c by (simp add: db_logged_def inserted_def event_to_row_def line_of_def)
  show ?thesis
  proof (cases "cx_correlation cx")
    case (Some c)
    then have "check_uuid_text c" using assms(2) by (simp add: conn_ok_def)
    then show ?thesis
      using writer_write_ok [OF assms(1-3), of "\<lparr>sw_correlation = c, sw_role_intent = None\<rparr>"] assms(4,5) Some line
      by (auto simp: pg_write_security_event_def new_writer_def seq_Inr same_catalogue_def)
  next
    case None
    let ?s1 = "s\<lparr>db_drawn := Suc (db_drawn s)\<rparr>"
    let ?w = "\<lparr>sw_correlation = db_ids s (db_drawn s), sw_role_intent = None\<rparr>"
    have ok1: "db_ok ?s1"
      using assms(1) ids_fresh_drawn same_catalogue_facts(3) [of s ?s1] by (simp add: db_ok_def sessions_ok_def)
    have "uuid_version (db_ids s (db_drawn s)) = Some 7" using assms(1) by (simp add: db_ok_def ids_fresh_def)
    then have "check_uuid_text (sw_correlation ?w)"
      using uuid7_text [of "db_ids s (db_drawn s)"] by (auto simp: check_uuid7_text_def check_uuid_text_def)
    moreover have "db_knows ?s1 = db_knows s" by (rule same_catalogue_facts) simp
    ultimately show ?thesis
      using writer_write_ok [OF ok1 assms(2,3), of ?w] assms(4,5) None
      by (auto simp: pg_write_security_event_def new_writer_def seq_Inr same_catalogue_def db_logged_def
          inserted_def event_to_row_def line_of_def)
  qed
qed

lemma pg_replace_preauth_law:
  assumes "db_ok s" "p \<in> set (db_preauth s)" "ps_consumed_at p = None"
    and q_def: "q = p\<lparr>ps_consumed_at := Some t\<rparr>"
  shows "\<exists>s'. pg_replace_preauth q s = Inr ((), s') \<and> db_ok s' \<and>
    set (db_preauth s') = (\<lambda>x. if ps_state_digest x = ps_state_digest p then q else x) ` set (db_preauth s) \<and>
    db_sessions s' = db_sessions s \<and> db_logged s' = db_logged s"
proof -
  have u: "unique_on ps_state_digest (db_preauth s)" using assms(1) by (simp add: db_ok_def sessions_ok_def)
  let ?t = "map (\<lambda>x. if ps_state_digest x = ps_state_digest p then q else x) (db_preauth s)"
  have eq: "update_where (\<lambda>x. ps_state_digest x = ps_state_digest q \<and> ps_consumed_at x = None)
      (\<lambda>x. x\<lparr>ps_consumed_at := ps_consumed_at q\<rparr>) (db_preauth s) = ?t"
    unfolding update_where_def
  proof (rule map_cong [OF refl])
    fix x assume "x \<in> set (db_preauth s)"
    then have "ps_state_digest x = ps_state_digest p \<Longrightarrow> x = p" using unique_on_eqD [OF u _ assms(2)] by blast
    then show "(if ps_state_digest x = ps_state_digest q \<and> ps_consumed_at x = None
        then x\<lparr>ps_consumed_at := ps_consumed_at q\<rparr> else x) = (if ps_state_digest x = ps_state_digest p then q else x)"
      using assms(3) by (cases "x = p") (auto simp: q_def)
  qed
  have "unique_on ps_state_digest ?t"
  proof -
    have "map ps_state_digest ?t = map ps_state_digest (db_preauth s)" by (auto simp: q_def)
    with u show ?thesis by (simp only: unique_on_def)
  qed
  then have "db_ok (s\<lparr>db_preauth := ?t\<rparr>)" by (rule db_ok_preauth [OF assms(1)])
  then show ?thesis by (auto simp: pg_replace_preauth_def eq db_logged_def)
qed

lemma pg_session_laws: "conn_ok cx \<Longrightarrow> session_laws (pg_store cx) db_sessions db_preauth db_logged db_knows db_links db_ok"
proof (unfold_locales, goal_cases)
  case (9 s old r)
  then show ?case
    using pg_replace_law [of s old r] same_catalogue_facts [of s "s\<lparr>db_sessions := map (replaced r) (db_sessions s)\<rparr>"]
    by (auto simp: pg_store_def db_logged_def)
next
  case (10 s r)
  then show ?case
    using pg_save_law [of s r] same_catalogue_facts [of s "s\<lparr>db_sessions := db_sessions s @ [r]\<rparr>"]
    by (auto simp: pg_store_def db_logged_def)
next
  case (11 s e)
  then show ?case using pg_write_law [of s cx e] same_catalogue_facts by (fastforce simp: pg_store_def)
next
  case (12 s p)
  then have "\<not> exists_row (\<lambda>x. ps_state_digest x = ps_state_digest p) (db_preauth s)"
    by (simp add: exists_row_iff) (metis image_eqI)
  moreover have "db_ok (s\<lparr>db_preauth := db_preauth s @ [p]\<rparr>)"
    using 12 by (intro db_ok_preauth) (auto simp: db_ok_def sessions_ok_def)
  ultimately show ?case using 12(3) by (simp add: pg_store_def pg_save_preauth_def seq_require db_logged_def)
next
  case (14 s p t)
  then show ?case using pg_replace_preauth_law [OF _ _ _ refl, of s p t] by (simp add: pg_store_def)
qed (auto simp: pg_store_def db_ok_def sessions_ok_def pg_get_by_digest_run pg_get_preauth_run
    pg_active_for_user_def list_all_iff session_fk_iff dest: unique_on_distinct)

text \<open>A connection outside a request has no correlation identifier: the writer draws one.\<close>

definition plain_conn :: "nat \<Rightarrow> uuid option \<Rightarrow> conn" where
  "plain_conn txid tenant =
     \<lparr>cx_txid = txid, cx_tenant = tenant, cx_correlation = None, cx_in_transaction = True,
      cx_tenant_transaction = False, cx_maintenance = False\<rparr>"

lemma conn_ok_plain: "conn_ok (plain_conn txid tenant)"
  by (simp add: conn_ok_def plain_conn_def)

interpretation pg: session_laws "pg_store (plain_conn txid tenant)" db_sessions db_preauth db_logged db_knows
    db_links db_ok for txid tenant
  by (rule pg_session_laws [OF conn_ok_plain])

end
