(* ===== verification/MemoryStore.thy ===== *)
theory MemoryStore
  imports SessionLaws "HOL-Library.AList"
begin

text \<open>
  \<open>MemorySessionStore\<close> of \<open>auth/sessions.py\<close>: two dictionaries and a list of events. A dictionary is
  the association list of its items in insertion order. The store is a second model of the session
  laws, so the service behaves on it as on PostgreSQL.
\<close>

record memory =
  ms_sessions :: "(bytes \<times> session_record) list"
  ms_preauth :: "(bytes \<times> preauth_state) list"
  ms_events :: "audit_event list"

definition mem_empty :: memory where
  "mem_empty = \<lparr>ms_sessions = [], ms_preauth = [], ms_events = []\<rparr>"

definition mem_write_event :: "audit_event \<Rightarrow> (exn, memory, unit) action" where
  "mem_write_event e s = Inr ((), s\<lparr>ms_events := ms_events s @ [e]\<rparr>)"

definition mem_save :: "session_record \<Rightarrow> (exn, memory, unit) action" where
  "mem_save r s = Inr ((), s\<lparr>ms_sessions := AList.update (sr_bearer_digest r) r (ms_sessions s)\<rparr>)"

definition mem_get_by_digest :: "bytes \<Rightarrow> (exn, memory, session_record option) action" where
  "mem_get_by_digest digest s = Inr (map_of (ms_sessions s) digest, s)"

definition mem_active_for_user :: "uuid \<Rightarrow> (exn, memory, session_record list) action" where
  "mem_active_for_user user_id s =
     Inr (filter (\<lambda>r. sr_user_id r = user_id \<and> sr_revoked_at r = None) (map snd (ms_sessions s)), s)"

text \<open>The loop deletes every key whose value has the record's identifier, then the record is set.\<close>

definition mem_replace :: "session_record \<Rightarrow> (exn, memory, unit) action" where
  "mem_replace r s =
     (let rest = foldl (\<lambda>d (k, v). if sr_id v = sr_id r then AList.delete k d else d) (ms_sessions s) (ms_sessions s)
      in Inr ((), s\<lparr>ms_sessions := AList.update (sr_bearer_digest r) r rest\<rparr>))"

definition mem_save_preauth :: "preauth_state \<Rightarrow> (exn, memory, unit) action" where
  "mem_save_preauth p s = Inr ((), s\<lparr>ms_preauth := AList.update (ps_state_digest p) p (ms_preauth s)\<rparr>)"

definition mem_get_preauth :: "bytes \<Rightarrow> (exn, memory, preauth_state option) action" where
  "mem_get_preauth digest s = Inr (map_of (ms_preauth s) digest, s)"

definition mem_replace_preauth :: "preauth_state \<Rightarrow> (exn, memory, unit) action" where
  "mem_replace_preauth p s = Inr ((), s\<lparr>ms_preauth := AList.update (ps_state_digest p) p (ms_preauth s)\<rparr>)"

definition mem_store :: "memory session_store" where
  "mem_store =
     \<lparr>st_write_event = mem_write_event, st_save = mem_save, st_get_by_digest = mem_get_by_digest,
      st_active_for_user = mem_active_for_user, st_replace = mem_replace,
      st_save_preauth = mem_save_preauth, st_get_preauth = mem_get_preauth,
      st_replace_preauth = mem_replace_preauth\<rparr>"

section \<open>Lawful\<close>

definition keyed :: "('v \<Rightarrow> 'k) \<Rightarrow> ('k \<times> 'v) list \<Rightarrow> bool" where
  "keyed key d \<longleftrightarrow> distinct (map fst d) \<and> list_all (\<lambda>(k, v). k = key v) d"

definition mem_ok :: "memory \<Rightarrow> bool" where
  "mem_ok s \<longleftrightarrow>
     keyed sr_bearer_digest (ms_sessions s) \<and> keyed ps_state_digest (ms_preauth s) \<and>
     unique_on sr_id (map snd (ms_sessions s)) \<and> list_all check_session_row (map snd (ms_sessions s))"

lemma keyed_fst: "keyed key d \<Longrightarrow> map key (map snd d) = map fst d"
  by (auto simp: keyed_def list_all_iff)

lemma keyed_unique: "keyed key d \<Longrightarrow> unique_on key (map snd d)"
  unfolding unique_on_def keyed_fst by (simp add: keyed_def)

lemma keyed_lookup: "keyed key d \<Longrightarrow> map_of d k = find (\<lambda>v. key v = k) (map snd d)"
  by (induction d) (auto simp: keyed_def)

lemma keyed_update: "keyed key d \<Longrightarrow> k = key v \<Longrightarrow> keyed key (AList.update k v d)"
  unfolding keyed_def
  by (auto simp: distinct_update) (induction d; auto)

lemma update_fresh: "k \<notin> fst ` set d \<Longrightarrow> AList.update k v d = d @ [(k, v)]"
  by (induction d) auto

lemma keyed_filter: "keyed key d \<Longrightarrow> keyed key (filter P d)"
  by (auto simp: keyed_def distinct_map_filter list_all_iff)

lemma keyed_values: "keyed key d \<Longrightarrow> (k, v) \<in> set d \<Longrightarrow> k = key v"
  by (auto simp: keyed_def list_all_iff)

lemma foldl_delete:
  "foldl (\<lambda>d (k, v). if P v then AList.delete k d else d) d xs =
     filter (\<lambda>e. \<forall>x \<in> set xs. P (snd x) \<longrightarrow> fst e \<noteq> fst x) d"
proof (induction xs arbitrary: d)
  case (Cons x xs)
  obtain k v where x: "x = (k, v)" by fastforce
  have "AList.delete k d = filter (\<lambda>e. fst e \<noteq> k) d"
    by (simp add: AList.delete_eq) (rule filter_cong, auto)
  then show ?case by (auto simp: Cons.IH x intro: filter_cong)
qed simp

lemma deleted_by_id:
  assumes "keyed key d"
  shows "foldl (\<lambda>d (k, v). if P v then AList.delete k d else d) d d = filter (\<lambda>e. \<not> P (snd e)) d"
  unfolding foldl_delete
proof (rule filter_cong [OF refl])
  fix e assume e: "e \<in> set d"
  have "x = e" if "x \<in> set d" "fst x = fst e" for x
    using that e assms unfolding keyed_def by (metis eq_key_imp_eq_value prod.collapse)
  with e show "(\<forall>x \<in> set d. P (snd x) \<longrightarrow> fst e \<noteq> fst x) = (\<not> P (snd e))" by metis
qed

lemma fresh_key:
  assumes "keyed key d" "\<And>x. x \<in> set (map snd d) \<Longrightarrow> key x \<noteq> k"
  shows "k \<notin> fst ` set d"
proof
  assume "k \<in> fst ` set d"
  then obtain v where v: "(k, v) \<in> set d" by auto
  then have "k = key v" using keyed_values [OF assms(1)] by blast
  moreover have "v \<in> set (map snd d)" using v by force
  ultimately show False using assms(2) by blast
qed

lemma replaced_image:
  "old \<in> A \<Longrightarrow> sr_id old = sr_id r \<Longrightarrow> replaced r ` A = insert r {x \<in> A. sr_id x \<noteq> sr_id r}"
  by (auto simp: replaced_def image_iff)

lemma update_values:
  "keyed key d \<Longrightarrow> k \<in> fst ` set d \<Longrightarrow>
     map snd (AList.update k v d) = map (\<lambda>x. if key x = k then v else x) (map snd d)"
proof (induction d)
  case (Cons e d)
  obtain l w where e: "e = (l, w)" by fastforce
  have k: "keyed key d" "l = key w" "l \<notin> fst ` set d" using Cons.prems(1) by (auto simp: keyed_def e)
  have other: "key x \<noteq> l" if "x \<in> set (map snd d)" for x
  proof -
    have "key x \<in> set (map key (map snd d))" using that by auto
    with k(3) show ?thesis unfolding keyed_fst [OF k(1)] by auto
  qed
  show ?case
  proof (cases "l = k")
    case True
    then have "map (\<lambda>x. if key x = k then v else x) (map snd d) = map snd d"
      using other by (intro map_idI) auto
    with True k show ?thesis by (simp add: e)
  next
    case False
    with Cons.prems(2) Cons.IH [OF k(1)] k(2) show ?thesis by (auto simp: e)
  qed
qed simp

lemma fresh_digest:
  assumes "keyed sr_bearer_digest d"
    and "\<And>x. x \<in> set (map snd d) \<Longrightarrow> sr_bearer_digest x = sr_bearer_digest r \<Longrightarrow> sr_id x = sr_id r"
  shows "sr_bearer_digest r \<notin> fst ` set (filter (\<lambda>e. sr_id (snd e) \<noteq> sr_id r) d)"
proof (rule fresh_key [OF keyed_filter [OF assms(1)]])
  fix x assume "x \<in> set (map snd (filter (\<lambda>e. sr_id (snd e) \<noteq> sr_id r) d))"
  then have "x \<in> set (map snd d)" "sr_id x \<noteq> sr_id r" by auto
  with assms(2) show "sr_bearer_digest x \<noteq> sr_bearer_digest r" by blast
qed

lemma mem_replace_run:
  assumes "mem_ok s" "\<And>x. x \<in> set (map snd (ms_sessions s)) \<Longrightarrow>
    sr_bearer_digest x = sr_bearer_digest r \<Longrightarrow> sr_id x = sr_id r"
  shows "mem_replace r s = Inr ((), s\<lparr>ms_sessions :=
    filter (\<lambda>e. sr_id (snd e) \<noteq> sr_id r) (ms_sessions s) @ [(sr_bearer_digest r, r)]\<rparr>)"
proof -
  have k: "keyed sr_bearer_digest (ms_sessions s)" using assms(1) by (simp add: mem_ok_def)
  have "sr_bearer_digest r \<notin> fst ` set (filter (\<lambda>e. sr_id (snd e) \<noteq> sr_id r) (ms_sessions s))"
    by (rule fresh_digest [OF k assms(2)])
  then show ?thesis
    unfolding mem_replace_def deleted_by_id [OF k] Let_def by (simp add: update_fresh)
qed

lemma mem_replace_law:
  assumes "mem_ok s" "old \<in> set (map snd (ms_sessions s))" "same_owner old r" "check_session_row r"
    and fresh: "\<And>x. x \<in> set (map snd (ms_sessions s)) \<Longrightarrow>
      sr_bearer_digest x = sr_bearer_digest r \<Longrightarrow> sr_id x = sr_id r"
  defines "t \<equiv> filter (\<lambda>e. sr_id (snd e) \<noteq> sr_id r) (ms_sessions s) @ [(sr_bearer_digest r, r)]"
  shows "mem_ok (s\<lparr>ms_sessions := t\<rparr>) \<and> set (map snd t) = replaced r ` set (map snd (ms_sessions s))"
proof
  have k: "keyed sr_bearer_digest (ms_sessions s)" and u: "unique_on sr_id (map snd (ms_sessions s))"
    and c: "list_all check_session_row (map snd (ms_sessions s))" using assms(1) by (simp_all add: mem_ok_def)
  have "sr_bearer_digest r \<notin> fst ` set (filter (\<lambda>e. sr_id (snd e) \<noteq> sr_id r) (ms_sessions s))"
    by (rule fresh_digest [OF k fresh])
  then have "keyed sr_bearer_digest t"
    using keyed_filter [OF k, of "\<lambda>e. sr_id (snd e) \<noteq> sr_id r"] by (auto simp: keyed_def t_def)
  moreover have "map snd t = filter (\<lambda>x. sr_id x \<noteq> sr_id r) (map snd (ms_sessions s)) @ [r]"
    by (simp add: t_def filter_map comp_def)
  moreover from this have "unique_on sr_id (map snd t)"
    using u by (auto simp: unique_on_def distinct_map_filter)
  ultimately show "mem_ok (s\<lparr>ms_sessions := t\<rparr>)"
    using assms(1,4) c by (auto simp: mem_ok_def list_all_iff)
  have "sr_id old = sr_id r" using assms(3) by (simp add: same_owner_def)
  from replaced_image [OF assms(2) this] show "set (map snd t) = replaced r ` set (map snd (ms_sessions s))"
    by (auto simp: t_def)
qed

interpretation mem: session_laws mem_store "\<lambda>s. map snd (ms_sessions s)" "\<lambda>s. map snd (ms_preauth s)"
    "\<lambda>s. map line_of (ms_events s)" "\<lambda>_ _. True" "\<lambda>_ _ _. True" mem_ok
proof (unfold_locales, goal_cases)
  case (9 s old r)
  let ?t = "filter (\<lambda>e. sr_id (snd e) \<noteq> sr_id r) (ms_sessions s) @ [(sr_bearer_digest r, r)]"
  have "mem_replace r s = Inr ((), s\<lparr>ms_sessions := ?t\<rparr>)" by (rule mem_replace_run) (fact 9)+
  moreover have "mem_ok (s\<lparr>ms_sessions := ?t\<rparr>) \<and> set (map snd ?t) = replaced r ` set (map snd (ms_sessions s))"
    by (rule mem_replace_law) (fact 9)+
  ultimately show ?case by (simp add: mem_store_def)
next
  case (10 s r)
  then have k: "keyed sr_bearer_digest (ms_sessions s)" by (simp add: mem_ok_def)
  have f: "sr_bearer_digest r \<notin> fst ` set (ms_sessions s)" by (rule fresh_key [OF k]) (metis 10(6) image_eqI)
  have "mem_ok (s\<lparr>ms_sessions := ms_sessions s @ [(sr_bearer_digest r, r)]\<rparr>)"
    using 10 f k by (auto simp: mem_ok_def keyed_def)
  then show ?case by (simp add: mem_store_def mem_save_def update_fresh [OF f])
next
  case (11 s e)
  then show ?case by (simp add: mem_store_def mem_write_event_def mem_ok_def)
next
  case (12 s p)
  then have k: "keyed ps_state_digest (ms_preauth s)" by (simp add: mem_ok_def)
  have f: "ps_state_digest p \<notin> fst ` set (ms_preauth s)" by (rule fresh_key [OF k]) (metis 12(3) image_eqI)
  have "mem_ok (s\<lparr>ms_preauth := ms_preauth s @ [(ps_state_digest p, p)]\<rparr>)"
    using 12(1) f k by (auto simp: mem_ok_def keyed_def)
  then show ?case by (simp add: mem_store_def mem_save_preauth_def update_fresh [OF f])
next
  case (14 s p t)
  let ?q = "p\<lparr>ps_consumed_at := Some t\<rparr>"
  let ?d = "AList.update (ps_state_digest p) ?q (ms_preauth s)"
  have k: "keyed ps_state_digest (ms_preauth s)" using 14(1) by (simp add: mem_ok_def)
  have p: "(ps_state_digest p, p) \<in> set (ms_preauth s)" using 14(2) keyed_values [OF k] by auto
  have "mem_ok (s\<lparr>ms_preauth := ?d\<rparr>)"
    using 14(1) keyed_update [OF k, of "ps_state_digest p" ?q] by (simp add: mem_ok_def)
  moreover have "set (map snd ?d) =
      (\<lambda>x. if ps_state_digest x = ps_state_digest p then ?q else x) ` set (map snd (ms_preauth s))"
  proof -
    have "ps_state_digest p \<in> fst ` set (ms_preauth s)" using p by (metis fst_conv image_eqI)
    from update_values [OF k this, of ?q] show ?thesis by (simp only: set_map)
  qed
  ultimately show ?case by (simp add: mem_store_def mem_replace_preauth_def)
qed (auto simp: mem_store_def mem_ok_def keyed_unique keyed_lookup mem_get_by_digest_def mem_get_preauth_def
    mem_active_for_user_def list_all_iff dest: unique_on_distinct)

end
