(* ===== verification/SessionClaims.thy ===== *)
theory SessionClaims
  imports PostgresStore MemoryStore
begin

text \<open>
  What \<open>SessionService\<close> guarantees over the PostgreSQL store. Every statement is the service's lemma of
  \<open>SessionLaws\<close> read through \<open>pg_session_laws\<close>; a small database serves the witnesses.
\<close>

section \<open>Derived facts\<close>

lemma evictees_oldest:
  assumes "e \<in> set (evictees u now sv t)" "k \<in> set (live_of u now sv t)" "k \<notin> set (evictees u now sv t)"
  shows "session_order e \<le> session_order k"
proof -
  let ?l = "sort_key session_order (live_of u now sv t)"
  let ?n = "length ?l - 4"
  have e: "e \<in> set (take ?n ?l)" using assms(1) by (simp add: evictees_def Let_def)
  have "set ?l = set (take ?n ?l) \<union> set (drop ?n ?l)" by (metis append_take_drop_id set_append)
  then have k: "k \<in> set (drop ?n ?l)" using assms(2,3) by (auto simp: evictees_def Let_def)
  have "sorted (map session_order (take ?n ?l @ drop ?n ?l))" by simp
  then have "sorted (map session_order (take ?n ?l) @ map session_order (drop ?n ?l))" by (simp only: map_append)
  with e k show ?thesis unfolding sorted_append by auto
qed

text \<open>A revoked row is found unchanged after any history, so its bearer stays dead.\<close>

abbreviation pg_history :: "conn \<Rightarrow> db \<Rightarrow> db \<Rightarrow> bool" where
  "pg_history cx \<equiv> (session_step (pg_store cx) db_sessions db_knows db_links)\<^sup>*\<^sup>*"

abbreviation lifetimes_ok :: "db \<Rightarrow> bool" where
  "lifetimes_ok s \<equiv> \<forall>r \<in> set (db_sessions s). lifetime_ok r"

lemma revoked_stays_dead:
  assumes "conn_ok cx" "db_ok s" "lifetimes_ok s" "pg_history cx s s'"
    and "r \<in> set (db_sessions s)" "sr_bearer_digest r = sha256 b" "sr_revoked_at r \<noteq> None" "is_ascii b"
  shows "resolve (pg_store cx) b sv na clock s' = Inr (None, s')"
proof -
  note laws = pg_session_laws [OF assms(1)]
  have h: "db_ok s'" "rows_evolved (db_sessions s) (db_sessions s')"
    using session_laws.history_evolves [OF laws assms(4,2,3)] by simp_all
  then have "r \<in> set (db_sessions s')" using assms(5,7) by (auto simp: rows_evolved_def evolved_def)
  then have "x = r" if "x \<in> set (db_sessions s')" "sr_bearer_digest x = sha256 b" for x
    using session_laws.same_digest_row [OF laws h(1) that(1)] that(2) assms(6) by simp
  then show ?thesis
    using session_laws.resolve_none [OF laws h(1) assms(8)] assms(7) by blast
qed

lemma expired_never_resolves:
  assumes "conn_ok cx" "db_ok s" "lifetimes_ok s" "is_ascii b" "now = now_or na clock"
    and "\<forall>r. found_by b (db_sessions s) = Some r \<longrightarrow> sr_created_at r + ABSOLUTE_TIMEOUT \<le> now"
  shows "\<exists>s'. resolve (pg_store cx) b sv na clock s = Inr (None, s')"
proof -
  note laws = pg_session_laws [OF assms(1)]
  have "Option.bind (found_by b (db_sessions s)) (resolved now sv) = None"
  proof (cases "found_by b (db_sessions s)")
    case (Some r)
    then have "r \<in> set (db_sessions s)" by (simp add: session_laws.found_by_iff [OF laws assms(2)])
    with assms(3,6) Some show ?thesis by (auto simp: resolved_def is_valid_def lifetime_ok_def)
  qed simp
  then show ?thesis using session_laws.resolve_ok [OF laws assms(2,4,5), of sv] by auto
qed

lemma rows_evolved_found:
  assumes "rows_evolved xs ys" "x \<in> set xs"
  obtains y where "y \<in> set ys" "evolved x y"
  using assms by (auto simp: rows_evolved_def)

section \<open>A sample database\<close>

text \<open>Fresh version 7 identifiers: the counter sits above the version and variant bits.\<close>

definition sample_id :: "nat \<Rightarrow> uuid" where
  "sample_id n = (n * 16 + 7) * 2 ^ 76 + 2 ^ 63"

lemma sample_id_version: "uuid_version (sample_id n) = Some 7"
proof -
  have "bit (sample_id n) 63"
    by (simp add: sample_id_def bit_iff_odd)
  moreover have "\<not> bit (sample_id n) 62"
    by (simp add: sample_id_def bit_iff_odd)
  moreover have "drop_bit 76 (sample_id n) = n * 16 + 7"
    by (simp add: sample_id_def drop_bit_eq_div)
  ultimately show ?thesis by (simp add: uuid_version_def)
qed

lemma sample_id_inj: "inj sample_id"
  by (rule injI) (simp add: sample_id_def)

definition sample_bearer :: pystr where
  "sample_bearer = token (replicate 32 1)"

definition sample_session :: session_record where
  "sample_session = new_record 40 5 (sha256 sample_bearer) (sha256 (token (replicate 32 7))) 1 1000"

definition sample_preauth :: preauth_state where
  "sample_preauth = \<lparr>ps_state_digest = sha256 (token (replicate 32 5)), ps_csrf_digest = sha256 (token (replicate 32 6)),
     ps_created_at = 1000, ps_expires_at = 1000 + PREAUTH_LIFETIME, ps_consumed_at = None\<rparr>"

definition sample_db :: db where
  "sample_db =
     \<lparr>db_tenants = [\<lparr>tn_id = sample_id 1, tn_slug = lit ''acme'', tn_name_ar = lit ''acme'', tn_status = TenantActive\<rparr>],
      db_users = [\<lparr>us_id = 5, us_email = lit ''a@b.co'', us_normalized_email = lit ''a@b.co'',
        us_status = UserActive, us_security_version = 1\<rparr>],
      db_memberships = [\<lparr>mb_id = 6, mb_user_id = 5, mb_tenant_id = sample_id 1, mb_status = MembershipActive,
        mb_version = 1\<rparr>],
      db_credentials = [\<lparr>cr_user_id = 5, cr_password_hash = lit ''h'', cr_credential_version = 1, cr_changed_at = 0\<rparr>],
      db_sessions = [sample_session], db_preauth = [sample_preauth], db_events = [], db_throttles = [],
      db_reset_tokens = [], db_roles = [], db_role_permissions = [], db_membership_roles = [],
      db_intents = [], db_platform_ui = None, db_tenant_ui = [], db_user_ui = [],
      db_ids = sample_id, db_drawn = 2, db_clock = 2000\<rparr>"

definition sample_conn :: conn where
  "sample_conn = plain_conn 1 None"

lemma sample_conn_ok: "conn_ok sample_conn"
  by (simp add: sample_conn_def conn_ok_plain)

lemma sample_session_ok: "check_session_row sample_session" "lifetime_ok sample_session"
  by (simp_all add: sample_session_def check_new_record int4_ok_def lifetime_ok_def new_record_def session_constants
      check_session_row_def int4_max_def)

lemma sample_knows: "db_knows sample_db 5"
  by (simp add: db_knows_def user_by_id_def sample_db_def)

lemma sample_db_ok: "db_ok sample_db"
proof -
  have "session_fk_ok sample_db sample_session"
    using sample_knows by (simp add: session_fk_iff sample_session_def new_record_def)
  then show ?thesis
    using sample_id_inj sample_id_version sample_session_ok(1)
    by (simp add: db_ok_def sessions_ok_def ids_fresh_def sample_db_def unique_on_def catalogue_ok_def
        check_user_row_def check_membership_row_def int4_ok_def int4_max_def)
qed

lemma sample_lifetimes: "lifetimes_ok sample_db"
  using sample_session_ok(2) by (simp add: sample_db_def)

lemma sample_ascii: "is_ascii sample_bearer"
  by (simp add: sample_bearer_def is_ascii_token)

lemma sample_rows: "db_sessions sample_db = [sample_session]" "db_preauth sample_db = [sample_preauth]"
  by (simp_all add: sample_db_def)

lemma sample_session_fields:
  "sr_id sample_session = 40" "sr_user_id sample_session = 5" "sr_revoked_at sample_session = None"
  "sr_bearer_digest sample_session = sha256 sample_bearer" "sr_security_version sample_session = 1"
  "sr_created_at sample_session = 1000"
  by (simp_all add: sample_session_def new_record_def)

section \<open>Issuing and resolving\<close>

text \<open>C2. Issuing a session always succeeds for an existing user with fresh random values: the new bearer
  finds the new record, which is valid for thirty minutes idle and eight hours in all; the user then has at
  most five live sessions; exactly the oldest beyond the four newest were revoked for the concurrency
  limit, each with one audit event in order, and every other row is untouched.\<close>

theorem issue_keeps_five:
  assumes "conn_ok cx" "db_ok s" "db_knows s u" "int4_ok sv" "i \<notin> sr_id ` set (db_sessions s)"
    and "sha256 (token br) \<notin> sr_bearer_digest ` set (db_sessions s)" "now = now_or na clock"
  shows "\<exists>x s'. issue (pg_store cx) u sv na clock br cr i s = Inr (x, s') \<and> db_ok s' \<and>
    found_by (ss_bearer (is_secrets x)) (db_sessions s') = Some (is_record x) \<and>
    sr_user_id (is_record x) = u \<and> sr_idle_expires_at (is_record x) = now + minutes 30 \<and>
    sr_absolute_expires_at (is_record x) = now + minutes (8 * 60) \<and> is_valid (is_record x) now sv \<and>
    length (live_of u now sv (db_sessions s')) \<le> 5 \<and>
    db_logged s' = db_logged s @ map eviction_line (evictees u now sv (db_sessions s)) \<and>
    (\<forall>r \<in> set (db_sessions s). (if r \<in> set (evictees u now sv (db_sessions s))
       then revoke_record r now ''concurrent_limit'' else r) \<in> set (db_sessions s')) \<and>
    (\<forall>e \<in> set (evictees u now sv (db_sessions s)). \<forall>k \<in> set (live_of u now sv (db_sessions s)).
       k \<in> set (evictees u now sv (db_sessions s)) \<or> session_order e \<le> session_order k)"
proof -
  note laws = pg_session_laws [OF assms(1)]
  let ?new = "new_record i u (sha256 (token br)) (sha256 (token cr)) sv now"
  let ?ev = "evictees u now sv (db_sessions s)"
  obtain s' where s': "issue (pg_store cx) u sv na clock br cr i s =
      Inr (\<lparr>is_record = ?new, is_secrets = \<lparr>ss_bearer = token br, ss_csrf_token = token cr\<rparr>\<rparr>, s')"
    "db_ok s'" "set (db_sessions s') = insert ?new (evicted_row now ?ev ` set (db_sessions s))"
    "db_logged s' = db_logged s @ map eviction_line ?ev"
    using session_laws.issue_ok [OF laws assms(2-7) refl] by blast
  have found: "found_by (token br) (db_sessions s') = Some ?new"
    using s'(3) by (simp add: session_laws.found_by_iff [OF laws s'(2)] new_record_def)
  have cap: "length (live_of u now sv (db_sessions s')) \<le> 5"
    using session_laws.issue_capacity [OF laws s'(2,3)] .
  have kept: "\<forall>r \<in> set (db_sessions s). (if r \<in> set ?ev then revoke_record r now ''concurrent_limit'' else r)
      \<in> set (db_sessions s')"
    using s'(3) by (auto simp: evicted_row_def)
  have oldest: "\<forall>e \<in> set ?ev. \<forall>k \<in> set (live_of u now sv (db_sessions s)). k \<in> set ?ev \<or> session_order e \<le> session_order k"
    using evictees_oldest by blast
  have fields: "sr_user_id ?new = u" "sr_idle_expires_at ?new = now + minutes 30"
    "sr_absolute_expires_at ?new = now + minutes (8 * 60)" "is_valid ?new now sv"
    by (simp_all add: is_valid_new_record) (simp_all add: new_record_def IDLE_TIMEOUT_def ABSOLUTE_TIMEOUT_def)
  show ?thesis
    using s'(1,2,4) found cap kept oldest fields
    by (intro exI [of _ "\<lparr>is_record = ?new, is_secrets = \<lparr>ss_bearer = token br, ss_csrf_token = token cr\<rparr>\<rparr>"]
        exI [of _ s']) simp
qed

definition sample_five :: "session_record list" where
  "sample_five = map (\<lambda>k. new_record (50 + k) 5 (replicate 32 k) (replicate 32 0) 1 (int k)) [1, 2, 3, 4, 5]"

lemma sample_five_oldest:
  "evictees 5 2000 1 sample_five = [new_record 51 5 (replicate 32 1) (replicate 32 0) 1 1]"
  by code_simp

lemma sample_digest_9: "hd (sha256 (token [9])) = 55"
  by code_simp

lemma sample_five_ok: "db_ok (sample_db\<lparr>db_sessions := sample_five\<rparr>)"
proof (rule db_ok_sessions [OF sample_db_ok])
  show "list_all check_session_row sample_five"
    by (simp add: sample_five_def check_new_record int4_ok_def int4_max_def)
  show "list_all (session_fk_ok sample_db) sample_five"
    using sample_knows by (simp add: sample_five_def session_fk_iff new_record_def)
qed (simp_all add: sample_five_def unique_on_def new_record_def)

theorem issue_keeps_five_witness:
  "\<exists>x s'. issue (pg_store sample_conn) 5 1 None 2000 [9] [8] 41 (sample_db\<lparr>db_sessions := sample_five\<rparr>) = Inr (x, s') \<and>
      length (live_of 5 2000 1 (db_sessions s')) \<le> 5 \<and>
      db_logged s' = [(event_value SESSION_REVOKED, Some (reason_value Y_CONCURRENT_LIMIT), Some 5, Some 51)]"
proof -
  let ?s = "sample_db\<lparr>db_sessions := sample_five\<rparr>"
  have k: "db_knows ?s 5" using sample_knows same_catalogue_facts(4) [of sample_db ?s] by simp
  have "sha256 (token [9]) \<noteq> replicate 32 k" if "k \<noteq> 55" for k
    using sample_digest_9 that by (metis hd_replicate zero_neq_numeral)
  then have f: "sha256 (token [9]) \<notin> sr_bearer_digest ` set (db_sessions ?s)"
    by (simp add: sample_five_def new_record_def)
  have i: "41 \<notin> sr_id ` set (db_sessions ?s)" by (simp add: sample_five_def new_record_def)
  have v: "int4_ok 1" by (simp add: int4_ok_def int4_max_def)
  have e: "db_logged ?s = []" by (simp add: db_logged_def sample_db_def)
  have l: "eviction_line (new_record 51 5 d c v n) =
      (event_value SESSION_REVOKED, Some (reason_value Y_CONCURRENT_LIMIT), Some 5, Some 51)" for d c v n
    by (simp add: eviction_line_def new_record_def)
  show ?thesis
    using issue_keeps_five [OF sample_conn_ok sample_five_ok k v i f, of 2000 None 2000 "[8]"]
    by (auto simp: now_or_def sample_five_oldest e l)
qed

text \<open>C3. Resolving an ASCII bearer never fails: it answers the record with that digest exactly when the record is
  unrevoked, carries the expected security version and neither timeout has passed. After a minute without
  activity the idle deadline is renewed for thirty minutes, never past the absolute one. No event is written.\<close>

theorem resolve_exact:
  assumes "conn_ok cx" "db_ok s" "is_ascii b" "now = now_or na clock"
  shows "\<exists>res s'. resolve (pg_store cx) b sv na clock s = Inr (res, s') \<and> db_ok s' \<and> db_logged s' = db_logged s \<and>
    (res = None \<longleftrightarrow> (\<nexists>r. r \<in> set (db_sessions s) \<and> sr_bearer_digest r = sha256 b \<and> is_valid r now sv)) \<and>
    (case res of None \<Rightarrow> set (db_sessions s') = set (db_sessions s)
     | Some r' \<Rightarrow> r' \<in> set (db_sessions s') \<and> sr_bearer_digest r' = sha256 b \<and> is_valid r' now sv \<and>
         (\<exists>r \<in> set (db_sessions s). sr_id r' = sr_id r \<and>
            r' = (if now - sr_last_seen_at r \<ge> 60000000
                  then r\<lparr>sr_last_seen_at := now,
                         sr_idle_expires_at := min (now + minutes 30) (sr_absolute_expires_at r)\<rparr> else r)))"
proof -
  note laws = pg_session_laws [OF assms(1)]
  let ?res = "Option.bind (found_by b (db_sessions s)) (resolved now sv)"
  obtain s' where s': "resolve (pg_store cx) b sv na clock s = Inr (?res, s')" "db_ok s'" "db_logged s' = db_logged s"
    "set (db_sessions s') = (case ?res of None \<Rightarrow> set (db_sessions s) | Some r' \<Rightarrow> replaced r' ` set (db_sessions s))"
    using session_laws.resolve_ok [OF laws assms(2-4), of sv] by blast
  note fb = session_laws.found_by_iff [OF laws assms(2), of b]
  show ?thesis
  proof (cases ?res)
    case None
    then have "\<nexists>r. r \<in> set (db_sessions s) \<and> sr_bearer_digest r = sha256 b \<and> is_valid r now sv"
      using fb by (force simp: resolved_def split: if_splits)
    with None s' show ?thesis by auto
  next
    case (Some r')
    then obtain r where r: "r \<in> set (db_sessions s)" "sr_bearer_digest r = sha256 b" "resolved now sv r = Some r'"
      using fb by (auto simp: bind_eq_Some_conv)
    note rf = resolved_facts [OF r(3)]
    then have id: "sr_id r' = sr_id r" by (simp add: same_owner_def)
    have "r' = replaced r' r" using id by (simp add: replaced_def)
    then have "r' \<in> set (db_sessions s')" using s'(4) Some r(1) by auto
    moreover have "r' = (if now - sr_last_seen_at r \<ge> 60000000
        then r\<lparr>sr_last_seen_at := now, sr_idle_expires_at := min (now + minutes 30) (sr_absolute_expires_at r)\<rparr> else r)"
      using r(3) by (auto simp: resolved_def touched_def LAST_SEEN_INTERVAL_def IDLE_TIMEOUT_def split: if_splits)
    ultimately show ?thesis using Some s'(1-3) r rf id by auto
  qed
qed

theorem resolve_exact_witness:
  "\<exists>s'. resolve (pg_store sample_conn) sample_bearer 1 None 2000 sample_db = Inr (Some sample_session, s')"
proof -
  have "is_valid sample_session 2000 1"
    by (simp add: sample_session_def is_valid_def new_record_def session_constants)
  then show ?thesis
    using resolve_exact [OF sample_conn_ok sample_db_ok sample_ascii, of 2000 None 2000 1]
    by (auto simp: now_or_def sample_rows sample_session_fields sample_session_def new_record_def split: option.splits)
qed

section \<open>Revocation\<close>

text \<open>C20. Logging out is final: it answers whether it revoked a live session, writes exactly one audit
  event when it did, and when it answers true the bearer never resolves again, whatever the service does
  afterwards, at any time and for any security version.\<close>

theorem logout_is_final:
  assumes "conn_ok cx" "db_ok s" "lifetimes_ok s" "is_ascii b"
  shows "\<exists>ok s'. logout (pg_store cx) b na hc s = Inr (ok, s') \<and>
    (ok \<longleftrightarrow> (\<exists>r \<in> set (db_sessions s). sr_bearer_digest r = sha256 b \<and> sr_revoked_at r = None)) \<and>
    length (db_logged s') = length (db_logged s) + (if ok then 1 else 0) \<and>
    (ok \<longrightarrow> (\<forall>later sv na2 clock. pg_history cx s' later \<longrightarrow>
       resolve (pg_store cx) b sv na2 clock later = Inr (None, later)))"
proof -
  note laws = pg_session_laws [OF assms(1)]
  let ?live = "\<exists>r \<in> set (db_sessions s). sr_bearer_digest r = sha256 b \<and> sr_revoked_at r = None"
  obtain s' where s': "logout (pg_store cx) b na hc s = Inr (?live, s')" "db_ok s'"
    "rows_evolved (db_sessions s) (db_sessions s')"
    "\<forall>r \<in> set (db_sessions s'). sr_bearer_digest r = sha256 b \<longrightarrow> sr_revoked_at r \<noteq> None"
    "sr_bearer_digest ` set (db_sessions s') = sr_bearer_digest ` set (db_sessions s)"
    "length (db_logged s') = length (db_logged s) + (if ?live then 1 else 0)"
    using session_laws.revoke_bearer_ok [OF laws assms(2,4), of LOGOUT na hc] by (auto simp: logout_def)
  have step: "pg_history cx s s'" using session_step.did_logout [OF s'(1)] by blast
  have life: "lifetimes_ok s'" using session_laws.history_evolves [OF laws step assms(2,3)] by simp
  have "resolve (pg_store cx) b sv na2 clock later = Inr (None, later)"
    if live: "?live" and h: "pg_history cx s' later" for sv na2 clock later
  proof -
    have "\<exists>y \<in> set (db_sessions s'). sr_bearer_digest y = sha256 b"
      using live s'(5) by (metis (no_types, lifting) image_iff)
    then show ?thesis using revoked_stays_dead [OF assms(1) s'(2) life h] s'(4) assms(4) by blast
  qed
  with s'(1,6) show ?thesis by blast
qed

theorem logout_is_final_witness:
  "\<exists>s'. logout (pg_store sample_conn) sample_bearer None 3000 sample_db = Inr (True, s') \<and>
     resolve (pg_store sample_conn) sample_bearer 1 None 3000 s' = Inr (None, s')"
  using logout_is_final [OF sample_conn_ok sample_db_ok sample_lifetimes sample_ascii, of None 3000]
  by (auto simp: sample_rows sample_session_fields)

text \<open>Revoking all sessions of a user reports how many were unrevoked, writes one audit event when there was
  one, and no bearer of any of the user's sessions resolves again in any later history.\<close>

theorem revoke_all_is_final:
  assumes "conn_ok cx" "db_ok s" "lifetimes_ok s" "db_knows s u"
  shows "\<exists>n s'. revoke_all (pg_store cx) u na clock s = Inr (n, s') \<and>
    n = length (filter (\<lambda>r. sr_user_id r = u \<and> sr_revoked_at r = None) (db_sessions s)) \<and>
    length (db_logged s') = length (db_logged s) + (if n = 0 then 0 else 1) \<and>
    (\<forall>r later b sv na2 clock2. r \<in> set (db_sessions s) \<longrightarrow> sr_user_id r = u \<longrightarrow> sr_bearer_digest r = sha256 b \<longrightarrow>
       is_ascii b \<longrightarrow> pg_history cx s' later \<longrightarrow>
       resolve (pg_store cx) b sv na2 clock2 later = Inr (None, later))"
proof -
  note laws = pg_session_laws [OF assms(1)]
  obtain n s' where s': "revoke_all (pg_store cx) u na clock s = Inr (n, s')" "db_ok s'"
    "n = length (filter (\<lambda>r. sr_user_id r = u \<and> sr_revoked_at r = None) (db_sessions s))"
    "sr_bearer_digest ` {x \<in> set (db_sessions s). sr_user_id x = u} \<subseteq>
      sr_bearer_digest ` {x \<in> set (db_sessions s'). sr_user_id x = u}"
    "\<forall>r \<in> set (db_sessions s'). sr_user_id r = u \<longrightarrow> sr_revoked_at r \<noteq> None"
    "length (db_logged s') = length (db_logged s) + (if n = 0 then 0 else 1)"
    using session_laws.revoke_all_ok [OF laws assms(2,4), of na clock] by blast
  have step: "pg_history cx s s'"
    using session_step.did_revoke_all [where ?st = "pg_store cx" and knows = db_knows, OF assms(4) s'(1)] by blast
  have life: "lifetimes_ok s'" using session_laws.history_evolves [OF laws step assms(2,3)] by simp
  have "resolve (pg_store cx) b sv na2 clock2 later = Inr (None, later)"
    if r: "r \<in> set (db_sessions s)" "sr_user_id r = u" "sr_bearer_digest r = sha256 b" "is_ascii b"
      and h: "pg_history cx s' later" for r later b sv na2 clock2
  proof -
    have "sha256 b \<in> sr_bearer_digest ` {x \<in> set (db_sessions s). sr_user_id x = u}"
      using r(1-3) by (metis (mono_tags, lifting) image_eqI mem_Collect_eq)
    then obtain y where "y \<in> set (db_sessions s')" "sr_user_id y = u" "sr_bearer_digest y = sha256 b"
      using s'(4) by auto
    then show ?thesis using revoked_stays_dead [OF assms(1) s'(2) life h _ _ _ r(4)] s'(5) by blast
  qed
  with s'(1,3,6) show ?thesis by blast
qed

theorem revoke_all_is_final_witness:
  "\<exists>s'. revoke_all (pg_store sample_conn) 5 None 3000 sample_db = Inr (1, s') \<and>
     resolve (pg_store sample_conn) sample_bearer 1 None 3000 s' = Inr (None, s')"
proof -
  obtain s' where s': "revoke_all (pg_store sample_conn) 5 None 3000 sample_db = Inr (1, s')"
    "\<And>later. pg_history sample_conn s' later \<Longrightarrow>
      resolve (pg_store sample_conn) sample_bearer 1 None 3000 later = Inr (None, later)"
    using revoke_all_is_final [OF sample_conn_ok sample_db_ok sample_lifetimes sample_knows, of None 3000] sample_ascii
    by (auto simp: sample_rows sample_session_fields)
  from s'(2) [of s'] s'(1) show ?thesis by blast
qed

text \<open>C21. Every session lives at most eight hours: over any history of the service the rows satisfy
  their constraints, no row's absolute deadline ever moves, a revoked row never changes again, and a bearer
  whose session is eight hours old no longer resolves, however active it was.\<close>

theorem sessions_expire:
  assumes "conn_ok cx" "db_ok s" "lifetimes_ok s" "pg_history cx s later"
  shows "db_ok later \<and>
    (\<forall>r \<in> set (db_sessions s). \<exists>r' \<in> set (db_sessions later). same_owner r r' \<and> (sr_revoked_at r \<noteq> None \<longrightarrow> r' = r)) \<and>
    (\<forall>b now sv. is_ascii b \<longrightarrow>
       (\<forall>r. found_by b (db_sessions later) = Some r \<longrightarrow> sr_created_at r + minutes (8 * 60) \<le> now) \<longrightarrow>
       (\<exists>s'. resolve (pg_store cx) b sv (Some now) now later = Inr (None, s')))"
proof -
  have h: "db_ok later" "rows_evolved (db_sessions s) (db_sessions later)" "lifetimes_ok later"
    using session_laws.history_evolves [OF pg_session_laws [OF assms(1)] assms(4,2,3)] by simp_all
  have "\<exists>s'. resolve (pg_store cx) b sv (Some now) now later = Inr (None, s')"
    if "is_ascii b" "\<forall>r. found_by b (db_sessions later) = Some r \<longrightarrow> sr_created_at r + minutes (8 * 60) \<le> now" for b now sv
    using expired_never_resolves [OF assms(1) h(1,3) that(1), of now "Some now" now] that(2)
    by (simp add: now_or_def ABSOLUTE_TIMEOUT_def)
  with h(1,2) show ?thesis by (auto simp: rows_evolved_def evolved_def)
qed

theorem sessions_expire_witness:
  "\<exists>s'. resolve (pg_store sample_conn) sample_bearer 1 (Some 28800001000) 28800001000 sample_db = Inr (None, s')"
proof -
  have "found_by sample_bearer (db_sessions sample_db) = Some sample_session"
    by (simp add: found_by_def sample_rows sample_session_fields)
  then show ?thesis
    using sessions_expire [OF sample_conn_ok sample_db_ok sample_lifetimes rtranclp.rtrancl_refl] sample_ascii
    by (auto simp: sample_session_fields minutes_def)
qed

section \<open>Rotation and pre-auth states\<close>

text \<open>Selecting a membership rotates the session: it succeeds exactly for a valid bearer; then the old bearer
  is dead, the new one finds the record, which selects that membership at that version and keeps its identity,
  owner, security version and absolute deadline. No row is added.\<close>

theorem select_rotates:
  assumes "conn_ok cx" "db_ok s" "is_ascii b" "now = now_or na clock" "0 < v" "int4_ok v"
    and "sha256 (token br) \<notin> sr_bearer_digest ` set (db_sessions s)"
    and "\<forall>r. found_by b (db_sessions s) = Some r \<longrightarrow> db_links s m (sr_user_id r)"
  shows "\<exists>res s'. rotate_to_membership (pg_store cx) b sv m v na clock br cr s = Inr (res, s') \<and> db_ok s' \<and>
    length (db_sessions s') = length (db_sessions s) \<and>
    (res = None \<longleftrightarrow> (\<nexists>r. r \<in> set (db_sessions s) \<and> sr_bearer_digest r = sha256 b \<and> is_valid r now sv)) \<and>
    (case res of None \<Rightarrow> True
     | Some x \<Rightarrow> ss_bearer (is_secrets x) = token br \<and>
         found_by (token br) (db_sessions s') = Some (is_record x) \<and>
         sr_selected_membership_id (is_record x) = Some m \<and> sr_selected_membership_version (is_record x) = Some v \<and>
         (\<exists>r. found_by b (db_sessions s) = Some r \<and> same_owner r (is_record x)) \<and>
         (\<forall>sv2 na2 clock2. resolve (pg_store cx) b sv2 na2 clock2 s' = Inr (None, s')))"
proof -
  note laws = pg_session_laws [OF assms(1)]
  let ?sel = "\<lambda>r. r\<lparr>sr_selected_membership_id := Some m, sr_selected_membership_version := Some v\<rparr>"
  have sel: "same_owner r (?sel r) \<and> sr_bearer_digest (?sel r) = sr_bearer_digest r \<and>
      sr_revoked_at (?sel r) = sr_revoked_at r \<and> (check_session_row r \<longrightarrow> check_session_row (?sel r))" for r
    using select_keeps [OF assms(5,6)] .
  have lnk: "\<forall>r r' m'. found_by b (db_sessions s) = Some r \<longrightarrow> same_owner r r' \<longrightarrow>
      sr_selected_membership_id r' = sr_selected_membership_id r \<longrightarrow>
      sr_selected_membership_id (?sel r') = Some m' \<longrightarrow> db_links s m' (sr_user_id r)" using assms(8) by simp
  show ?thesis
    using session_laws.rotate_old_dead [where sv = sv and cr = cr, OF laws assms(2-4,7) sel lnk]
    by (fastforce simp: rotate_to_membership_def split: option.splits)
qed

theorem select_rotates_witness:
  "\<exists>x s'. rotate_to_membership (pg_store sample_conn) sample_bearer 1 6 1 None 2000 [9] [8] sample_db = Inr (Some x, s') \<and>
     resolve (pg_store sample_conn) sample_bearer 1 None 2000 s' = Inr (None, s')"
proof -
  have "hd (sha256 sample_bearer) = 86" by code_simp
  then have f: "sha256 (token [9]) \<notin> sr_bearer_digest ` set (db_sessions sample_db)"
    using sample_digest_9 by (auto simp: sample_rows sample_session_fields)
  have l: "\<forall>r. found_by sample_bearer (db_sessions sample_db) = Some r \<longrightarrow> db_links sample_db 6 (sr_user_id r)"
    by (auto simp: found_by_def sample_rows sample_session_fields db_links_def membership_by_id_def sample_db_def)
  have i: "int4_ok 1" by (simp add: int4_ok_def int4_max_def)
  have v: "is_valid sample_session 2000 1"
    by (simp add: sample_session_def is_valid_def new_record_def session_constants)
  show ?thesis
    using select_rotates [OF sample_conn_ok sample_db_ok sample_ascii refl zero_less_one i f l,
        where na = None and clock = 2000 and sv = 1 and cr = "[8]"] v
    by (auto simp: now_or_def sample_rows sample_session_fields split: option.splits)
qed

text \<open>A pre-auth state is accepted exactly once: only while it exists, is unconsumed and unexpired and comes
  with its own CSRF token; after acceptance no further attempt succeeds, with any token at any time.\<close>

theorem preauth_single_use:
  assumes "conn_ok cx" "db_ok s" "is_ascii t" "is_ascii c" "now = now_or na clock"
  shows "\<exists>ok s'. consume_preauth (pg_store cx) t c na clock s = Inr (ok, s') \<and> db_ok s' \<and>
    db_sessions s' = db_sessions s \<and>
    (ok \<longleftrightarrow> (\<exists>p \<in> set (db_preauth s). ps_state_digest p = sha256 t \<and> ps_consumed_at p = None \<and>
       now < ps_expires_at p \<and> ps_csrf_digest p = sha256 c)) \<and>
    (ok \<longrightarrow> (\<forall>c2 na2 clock2. consume_preauth (pg_store cx) t c2 na2 clock2 s' = Inr (False, s')))"
  using session_laws.consume_preauth_ok [OF pg_session_laws [OF assms(1)] assms(2-4) refl, of na clock] assms(5) by auto

theorem preauth_single_use_witness:
  "\<exists>s'. consume_preauth (pg_store sample_conn) (token (replicate 32 5)) (token (replicate 32 6)) None 2000 sample_db = Inr (True, s') \<and>
     consume_preauth (pg_store sample_conn) (token (replicate 32 5)) (token (replicate 32 6)) None 2000 s' = Inr (False, s')"
  using preauth_single_use [OF sample_conn_ok sample_db_ok is_ascii_token [of "replicate 32 5"] is_ascii_token [of "replicate 32 6"] refl, of None 2000]
  by (auto simp: now_or_def sample_rows sample_preauth_def session_constants)

end
