(* ===== verification/HttpGuards.thy ===== *)
theory HttpGuards
  imports SessionLaws Settings Identity
begin

text \<open>
  The cookie, origin and CSRF boundary of \<open>auth/http.py\<close> with the bearer dependency of
  \<open>api/auth_dependencies.py\<close>. A request carries what the guards read of Starlette's: the method, the
  header list with lower-case names, the cookies, the base URL and the peer. \<open>urlsplit\<close> and
  \<open>uuid.UUID\<close> are modelled as far as the guards use them; the validation of a network location (bracketed
  hosts, Unicode normalisation) is the parameter \<open>netloc_ok\<close>.
\<close>

section \<open>Requests and responses\<close>

record request =
  rq_method :: pystr
  rq_headers :: "(pystr \<times> pystr) list"
  rq_cookies :: "(pystr \<times> pystr) list"
  rq_base_url :: pystr
  rq_client :: "pystr option"

definition header :: "request \<Rightarrow> pystr \<Rightarrow> pystr option" where
  "header rq name = map_of (rq_headers rq) (ascii_lower name)"

record cookie =
  ck_name :: pystr
  ck_value :: pystr
  ck_max_age :: "int option"
  ck_secure :: bool
  ck_httponly :: bool
  ck_samesite :: pystr
  ck_path :: pystr

record reply =
  rp_cookies :: "cookie list"
  rp_headers :: "(pystr \<times> pystr) list"

definition SESSION_COOKIE :: pystr where
  "SESSION_COOKIE = lit ''__Host-sahl_session''"

definition PREAUTH_COOKIE :: pystr where
  "PREAUTH_COOKIE = lit ''__Host-sahl_preauth''"

definition CSRF_HEADER :: pystr where
  "CSRF_HEADER = lit ''X-CSRF-Token''"

definition UNSAFE_METHODS :: "pystr list" where
  "UNSAFE_METHODS = map lit [''POST'', ''PUT'', ''PATCH'', ''DELETE'']"

definition token_pattern :: rx where
  "token_pattern = exactly 43 (Class [(65, 90), (97, 122), (48, 57), (95, 95), (45, 45)])"

definition host_cookie :: "pystr \<Rightarrow> pystr \<Rightarrow> int option \<Rightarrow> cookie" where
  "host_cookie name value age =
     \<lparr>ck_name = name, ck_value = value, ck_max_age = age, ck_secure = True, ck_httponly = True,
      ck_samesite = lit ''lax'', ck_path = lit ''/''\<rparr>"

definition add_cookie :: "cookie \<Rightarrow> reply \<Rightarrow> reply" where
  "add_cookie c r = r\<lparr>rp_cookies := rp_cookies r @ [c]\<rparr>"

definition put_header :: "pystr \<Rightarrow> pystr \<Rightarrow> reply \<Rightarrow> reply" where
  "put_header name value r =
     r\<lparr>rp_headers := filter (\<lambda>(n, v). ascii_lower n \<noteq> ascii_lower name) (rp_headers r) @ [(name, value)]\<rparr>"

definition set_session_cookie :: "pystr \<Rightarrow> reply \<Rightarrow> reply" where
  "set_session_cookie bearer = add_cookie (host_cookie SESSION_COOKIE bearer None)"

definition clear_session_cookie :: "reply \<Rightarrow> reply" where
  "clear_session_cookie = add_cookie (host_cookie SESSION_COOKIE [] (Some 0))"

definition set_preauth_cookie :: "pystr \<Rightarrow> reply \<Rightarrow> reply" where
  "set_preauth_cookie state_token = add_cookie (host_cookie PREAUTH_COOKIE state_token None)"

definition clear_preauth_cookie :: "reply \<Rightarrow> reply" where
  "clear_preauth_cookie = add_cookie (host_cookie PREAUTH_COOKIE [] (Some 0))"

definition expose_csrf_token :: "pystr \<Rightarrow> reply \<Rightarrow> reply" where
  "expose_csrf_token csrf_token r =
     put_header (lit ''Cache-Control'') (lit ''no-store'') (put_header CSRF_HEADER csrf_token r)"

section \<open>Errors\<close>

definition CsrfRejectedError :: app_error_class where
  "CsrfRejectedError = \<lparr>ec_code = lit ''csrf_rejected'', ec_status = 403,
     ec_message = lit ''The request could not be verified.''\<rparr>"

definition TenantContextChangedError :: app_error_class where
  "TenantContextChangedError = \<lparr>ec_code = lit ''tenant_context_changed'', ec_status = 409,
     ec_message = lit ''The trusted tenant context changed.''\<rparr>"

definition SessionRejectedError :: app_error_class where
  "SessionRejectedError = \<lparr>ec_code = lit ''invalid_session'', ec_status = 401,
     ec_message = lit ''Authentication is required.''\<rparr>"

definition InvalidSessionError :: app_error_class where
  "InvalidSessionError = \<lparr>ec_code = lit ''invalid_session'', ec_status = 401,
     ec_message = lit ''Authentication is required.''\<rparr>"

section \<open>URLs and UUID texts\<close>

text \<open>\<open>urlsplit\<close>: leading blanks and C0 controls go, tab, line feed and return are dropped anywhere.\<close>

definition url_clean :: "pystr \<Rightarrow> pystr" where
  "url_clean url = filter (\<lambda>c. c \<notin> {9, 10, 13}) (dropWhile (\<lambda>c. c \<le> 32) url)"

definition scheme_char :: "nat \<Rightarrow> bool" where
  "scheme_char c \<longleftrightarrow> is_alnum c \<or> c \<in> {43, 45, 46}"

definition url_parts :: "pystr \<Rightarrow> pystr \<times> pystr" where
  "url_parts url =
     (let u = url_clean url; before = takeWhile (\<lambda>c. c \<noteq> 58) u; rest = dropWhile (\<lambda>c. c \<noteq> 58) u in
      if rest \<noteq> [] \<and> before \<noteq> [] \<and> (is_lower (hd before) \<or> is_upper (hd before)) \<and> list_all scheme_char before
      then (ascii_lower before, tl rest) else ([], u))"

definition url_netloc :: "pystr \<Rightarrow> pystr" where
  "url_netloc rest =
     (if starts_with [47, 47] rest then takeWhile (\<lambda>c. c \<notin> {47, 63, 35}) (drop 2 rest) else [])"

definition urlsplit_scheme :: "(pystr \<Rightarrow> bool) \<Rightarrow> pystr \<Rightarrow> exn + pystr" where
  "urlsplit_scheme netloc_ok url =
     (let (scheme, rest) = url_parts url in
      if netloc_ok (url_netloc rest) then Inr scheme else Inl ValueExn)"

text \<open>\<open>str.replace(pattern, "")\<close>\<close>

function remove_all :: "pystr \<Rightarrow> pystr \<Rightarrow> pystr" where
  "remove_all p [] = []"
| "remove_all p (c # cs) =
     (if p \<noteq> [] \<and> starts_with p (c # cs) then remove_all p (drop (length p) (c # cs)) else c # remove_all p cs)"
  by pat_completeness auto
termination
proof (relation "measure (length \<circ> snd)", goal_cases)
  case (2 p c cs)
  then have "0 < length p" by simp
  then show ?case by simp
qed simp_all

definition hex_value :: "nat \<Rightarrow> nat option" where
  "hex_value c =
     (if is_digit c then Some (c - 48)
      else if 97 \<le> c \<and> c \<le> 102 then Some (c - 87)
      else if 65 \<le> c \<and> c \<le> 70 then Some (c - 55) else None)"

text \<open>The digits of \<open>int(text, 16)\<close>: hexadecimal digits, single underscores between two of them.\<close>

fun hex_digits :: "nat \<Rightarrow> pystr \<Rightarrow> nat option" where
  "hex_digits acc [] = Some acc"
| "hex_digits acc (c # cs) =
     (if c = 95 then
        (case cs of [] \<Rightarrow> None
         | d # ds \<Rightarrow> (case hex_value d of None \<Rightarrow> None | Some v \<Rightarrow> hex_digits (acc * 16 + v) ds))
      else (case hex_value c of None \<Rightarrow> None | Some v \<Rightarrow> hex_digits (acc * 16 + v) cs))"

definition hex_start :: "pystr \<Rightarrow> nat option" where
  "hex_start s = (case s of [] \<Rightarrow> None | c # cs \<Rightarrow>
     (case hex_value c of None \<Rightarrow> None | Some v \<Rightarrow> hex_digits v cs))"

definition unprefixed :: "pystr \<Rightarrow> pystr" where
  "unprefixed s =
     (case s of z # x # cs \<Rightarrow> if z = 48 \<and> (x = 120 \<or> x = 88)
        then (case cs of [] \<Rightarrow> [] | u # ds \<Rightarrow> if u = 95 then ds else cs) else s
      | _ \<Rightarrow> s)"

text \<open>\<open>int(text, 16)\<close> on the code points a header can carry: blanks, a sign and the prefix are optional.\<close>

definition py_int16 :: "pystr \<Rightarrow> int option" where
  "py_int16 text =
     (case strip text of
        [] \<Rightarrow> None
      | c # cs \<Rightarrow>
          if c = 45 then map_option (\<lambda>n. - int n) (hex_start (unprefixed cs))
          else if c = 43 then map_option int (hex_start (unprefixed cs))
          else map_option int (hex_start (unprefixed (c # cs))))"

definition strip_braces :: "pystr \<Rightarrow> pystr" where
  "strip_braces s = rev (dropWhile (\<lambda>c. c \<in> {123, 125}) (rev (dropWhile (\<lambda>c. c \<in> {123, 125}) s)))"

definition parse_uuid :: "pystr \<Rightarrow> exn + uuid" where
  "parse_uuid text =
     (let h = remove_all [45] (strip_braces (remove_all (lit ''uuid:'') (remove_all (lit ''urn:'') text))) in
      if length h \<noteq> 32 then Inl ValueExn
      else (case py_int16 h of
              None \<Rightarrow> Inl ValueExn
            | Some n \<Rightarrow> if 0 \<le> n \<and> n < 2 ^ 128 then Inr (nat n) else Inl ValueExn))"

section \<open>Guards\<close>

definition session_bearer_from_cookie :: "request \<Rightarrow> exn + pystr" where
  "session_bearer_from_cookie rq =
     (case map_of (rq_cookies rq) SESSION_COOKIE of
        None \<Rightarrow> Inl (AppExn InvalidSessionError)
      | Some b \<Rightarrow> if b = [] then Inl (AppExn InvalidSessionError) else Inr b)"

definition require_session_bearer :: "pystr \<Rightarrow> exn + pystr" where
  "require_session_bearer bearer =
     (if \<not> fullmatch token_pattern bearer then Inl (AppExn SessionRejectedError) else Inr bearer)"

definition allowed_origin :: "(pystr \<Rightarrow> bool) \<Rightarrow> pystr \<Rightarrow> pystr list \<Rightarrow> pystr option \<Rightarrow> exn + bool" where
  "allowed_origin netloc_ok origin allowed local_http =
     (if origin \<notin> set allowed then Inr False
      else and_then (urlsplit_scheme netloc_ok origin) (\<lambda>scheme.
        Inr (scheme = lit ''https'' \<or>
          (local_http \<in> {Some (lit ''http://localhost:5173''), Some (lit ''http://localhost:5187'')} \<and>
           Some origin = local_http))))"

definition validate_origin :: "(pystr \<Rightarrow> bool) \<Rightarrow> request \<Rightarrow> pystr list \<Rightarrow> pystr option \<Rightarrow> exn + unit" where
  "validate_origin netloc_ok rq allowed local_http =
     (case header rq (lit ''origin'') of
        None \<Rightarrow> Inl (AppExn CsrfRejectedError)
      | Some origin \<Rightarrow>
          if origin = [] then Inl (AppExn CsrfRejectedError)
          else and_then (allowed_origin netloc_ok origin allowed local_http) (\<lambda>ok.
            ensure ok (AppExn CsrfRejectedError)))"

definition validate_csrf_bootstrap_origin ::
  "(pystr \<Rightarrow> bool) \<Rightarrow> request \<Rightarrow> pystr list \<Rightarrow> pystr option \<Rightarrow> exn + unit" where
  "validate_csrf_bootstrap_origin netloc_ok rq allowed local_http =
     (let fetch_site = header rq (lit ''sec-fetch-site'') in
      and_then (ensure (fetch_site = None \<or> fetch_site = Some (lit ''same-origin'')) (AppExn CsrfRejectedError)) (\<lambda>_.
      if header rq (lit ''origin'') \<notin> {None, Some []} then validate_origin netloc_ok rq allowed local_http
      else and_then (ensure (fetch_site = Some (lit ''same-origin'')) (AppExn CsrfRejectedError)) (\<lambda>_.
        and_then (allowed_origin netloc_ok (rstrip_char 47 (rq_base_url rq)) allowed local_http) (\<lambda>ok.
        ensure ok (AppExn CsrfRejectedError)))))"

definition is_unsafe :: "request \<Rightarrow> bool" where
  "is_unsafe rq \<longleftrightarrow> ascii_upper (rq_method rq) \<in> set UNSAFE_METHODS"

definition validate_session_csrf ::
  "(pystr \<Rightarrow> bool) \<Rightarrow> request \<Rightarrow> session_record \<Rightarrow> pystr list \<Rightarrow> pystr option \<Rightarrow> exn + unit" where
  "validate_session_csrf netloc_ok rq session allowed local_http =
     (if \<not> is_unsafe rq then Inr ()
      else and_then (validate_origin netloc_ok rq allowed local_http) (\<lambda>_.
        case header rq CSRF_HEADER of
          None \<Rightarrow> Inl (AppExn CsrfRejectedError)
        | Some supplied \<Rightarrow>
            if supplied = [] \<or> \<not> fullmatch token_pattern supplied then Inl (AppExn CsrfRejectedError)
            else and_then (token_matches supplied (sr_csrf_digest session)) (\<lambda>ok.
              ensure ok (AppExn CsrfRejectedError))))"

definition EXPECTED_MEMBERSHIP :: pystr where
  "EXPECTED_MEMBERSHIP = lit ''X-Expected-Membership-ID''"

definition validate_expected_membership :: "request \<Rightarrow> uuid option \<Rightarrow> exn + unit" where
  "validate_expected_membership rq membership =
     (if \<not> is_unsafe rq then Inr ()
      else
       (let expected = header rq EXPECTED_MEMBERSHIP in
        if membership = None \<and> expected = None then Inr ()
        else
         (case expected of
            None \<Rightarrow> Inl (AppExn CsrfRejectedError)
          | Some text \<Rightarrow>
              if text = [] then Inl (AppExn CsrfRejectedError)
              else (case parse_uuid text of
                      Inl _ \<Rightarrow> Inl (AppExn CsrfRejectedError)
                    | Inr u \<Rightarrow> if Some u \<noteq> membership then Inl (AppExn TenantContextChangedError) else Inr ()))))"

section \<open>Facts\<close>

lemma token_pattern_iff: "fullmatch token_pattern s \<longleftrightarrow> length s = 43 \<and> list_all token_char s"
proof -
  have "in_class c [(65, 90), (97, 122), (48, 57), (95, 95), (45, 45)] = token_char c" for c
    by (auto simp: token_char_def char_class_defs)
  then show ?thesis
    by (simp only: fullmatch_lang token_pattern_def lang_exactly_Class mem_Collect_eq)
qed

lemma token_char_ascii: "list_all token_char s \<Longrightarrow> is_ascii s"
  by (auto simp: is_ascii_def list_all_iff token_char_def char_class_defs)

lemma require_session_bearer_eq_Inr:
  "require_session_bearer b = Inr b' \<longleftrightarrow> b' = b \<and> length b = 43 \<and> list_all token_char b"
  by (auto simp: require_session_bearer_def token_pattern_iff)

lemma bearer_ascii: "require_session_bearer b = Inr b' \<Longrightarrow> is_ascii b"
  by (auto simp: require_session_bearer_eq_Inr intro: token_char_ascii)

lemma token_accepted: "length random = 32 \<Longrightarrow> require_session_bearer (token random) = Inr (token random)"
  by (simp add: require_session_bearer_eq_Inr token_def b64url_nopad_core b64_core_chars length_b64_core)

lemma allowed_origin_True:
  "allowed_origin nok origin allowed l = Inr True \<Longrightarrow>
     origin \<in> set allowed \<and>
     (urlsplit_scheme nok origin = Inr (lit ''https'') \<or>
      Some origin = l \<and> l \<in> {Some (lit ''http://localhost:5173''), Some (lit ''http://localhost:5187'')})"
  by (auto simp: allowed_origin_def and_then_eq_Inr split: if_splits)

lemma validate_origin_eq_Inr:
  "validate_origin nok rq allowed l = Inr x \<longleftrightarrow>
     (\<exists>origin. header rq (lit ''origin'') = Some origin \<and> origin \<noteq> [] \<and> allowed_origin nok origin allowed l = Inr True)"
  by (auto simp: validate_origin_def and_then_eq_Inr ensure_def split: option.splits if_splits)

lemma validate_session_csrf_eq_Inr:
  "validate_session_csrf nok rq session allowed l = Inr x \<longleftrightarrow>
     \<not> is_unsafe rq \<or>
     (validate_origin nok rq allowed l = Inr () \<and>
      (\<exists>t. header rq CSRF_HEADER = Some t \<and> length t = 43 \<and> list_all token_char t \<and> sr_csrf_digest session = sha256 t))"
proof -
  have "token_matches t d = Inr (sha256 t = d)" if "list_all token_char t" for t d
    using token_char_ascii [OF that] by (simp add: token_matches_def token_digest_ascii)
  then show ?thesis
    by (auto simp: validate_session_csrf_def and_then_eq_Inr ensure_def token_pattern_iff
        split: option.splits if_splits)
qed

lemma validate_expected_membership_eq_Inr:
  "validate_expected_membership rq m = Inr x \<longleftrightarrow>
     \<not> is_unsafe rq \<or>
     (case header rq EXPECTED_MEMBERSHIP of None \<Rightarrow> m = None
      | Some text \<Rightarrow> text \<noteq> [] \<and> (\<exists>u. parse_uuid text = Inr u \<and> m = Some u))"
  by (auto simp: validate_expected_membership_def Let_def split: option.splits sum.splits if_splits)

section \<open>UUID texts\<close>

text \<open>\<open>str(uuid)\<close>\<close>

definition uuid_text :: "uuid \<Rightarrow> pystr" where
  "uuid_text u =
     hex_text 8 (u div 16 ^ 24) @ [45] @ hex_text 4 (u div 16 ^ 20) @ [45] @ hex_text 4 (u div 16 ^ 16) @ [45] @
     hex_text 4 (u div 16 ^ 12) @ [45] @ hex_text 12 u"

definition parse_tenant_id :: "pystr option \<Rightarrow> exn + uuid" where
  "parse_tenant_id value =
     (case value of
        None \<Rightarrow> Inl (AppExn InvalidTenantIdError)
      | Some text \<Rightarrow>
          (case parse_uuid text of
             Inl _ \<Rightarrow> Inl (AppExn InvalidTenantIdError)
           | Inr u \<Rightarrow> validate_tenant_id (Some u)))"

lemma remove_all_absent: "p \<noteq> [] \<Longrightarrow> hd p \<notin> set s \<Longrightarrow> remove_all p s = s"
  by (induction p s rule: remove_all.induct) (auto simp: neq_Nil_conv)

lemma remove_all_single: "remove_all [d] s = filter (\<lambda>c. c \<noteq> d) s"
  by (induction s) auto

lemma hex_char_class: "v < 16 \<Longrightarrow> is_digit (hex_char v) \<or> (97 \<le> hex_char v \<and> hex_char v \<le> 102)"
  by (auto simp: hex_char_def is_digit_def)

lemma hex_value_char: "v < 16 \<Longrightarrow> hex_value (hex_char v) = Some v"
  by (auto simp: hex_value_def hex_char_def is_digit_def)

lemma set_hex_text: "c \<in> set (hex_text n u) \<Longrightarrow> is_digit c \<or> (97 \<le> c \<and> c \<le> 102)"
proof -
  assume "c \<in> set (hex_text n u)"
  then obtain i where "c = hex_char (u div 16 ^ i mod 16)" by (auto simp: hex_text_def)
  then show ?thesis using hex_char_class [of "u div 16 ^ i mod 16"] by simp
qed

lemma length_hex_text [simp]: "length (hex_text n u) = n"
  by (simp add: hex_text_def)

lemma hex_text_Suc: "hex_text (Suc n) u = hex_char (u div 16 ^ n mod 16) # hex_text n u"
  by (simp add: hex_text_def)

lemma hex_text_append: "hex_text m (u div 16 ^ n) @ hex_text n u = hex_text (m + n) u"
  by (induction m) (simp_all add: hex_text_Suc div_mult2_eq [symmetric] power_add mult.commute,
      simp add: hex_text_def)

lemma hex_text_joined:
  "hex_text 8 (u div 16 ^ 24) @ hex_text 4 (u div 16 ^ 20) @ hex_text 4 (u div 16 ^ 16) @
     hex_text 4 (u div 16 ^ 12) @ hex_text 12 u = hex_text 32 u"
proof -
  have "hex_text 4 (u div 16 ^ 12) @ hex_text 12 u = hex_text 16 u"
    using hex_text_append [of 4 u 12] by (simp del: power_numeral)
  moreover have "hex_text 4 (u div 16 ^ 16) @ hex_text 16 u = hex_text 20 u"
    using hex_text_append [of 4 u 16] by (simp del: power_numeral)
  moreover have "hex_text 4 (u div 16 ^ 20) @ hex_text 20 u = hex_text 24 u"
    using hex_text_append [of 4 u 20] by (simp del: power_numeral)
  moreover have "hex_text 8 (u div 16 ^ 24) @ hex_text 24 u = hex_text 32 u"
    using hex_text_append [of 8 u 24] by (simp del: power_numeral)
  ultimately show ?thesis by (simp only:)
qed

lemma hex_digits_text: "hex_digits acc (hex_text n u) = Some (acc * 16 ^ n + u mod 16 ^ n)"
proof (induction n arbitrary: acc)
  case 0
  then show ?case by (simp add: hex_text_def)
next
  case (Suc n)
  have v: "u div 16 ^ n mod 16 < 16" by simp
  have "hex_char (u div 16 ^ n mod 16) \<noteq> 95" using hex_char_class [OF v] by (auto simp: is_digit_def)
  then have "hex_digits acc (hex_text (Suc n) u) = Some ((acc * 16 + u div 16 ^ n mod 16) * 16 ^ n + u mod 16 ^ n)"
    using hex_value_char [OF v] Suc by (simp add: hex_text_Suc)
  moreover have "u mod 16 ^ Suc n = u div 16 ^ n mod 16 * 16 ^ n + u mod 16 ^ n"
    by (metis add.commute mod_mult2_eq mult.commute power_Suc2)
  ultimately show ?case by (simp add: algebra_simps)
qed

lemma strip_no_space: "\<forall>c \<in> set s. \<not> is_space c \<Longrightarrow> strip s = s"
proof -
  assume A: "\<forall>c \<in> set s. \<not> is_space c"
  then have "dropWhile is_space s = s" "dropWhile is_space (rev s) = rev s"
    by (metis dropWhile_eq_self_iff hd_in_set, metis dropWhile_eq_self_iff hd_in_set set_rev)
  then show ?thesis by (simp add: strip_def)
qed

lemma strip_braces_none: "\<forall>c \<in> set s. c \<noteq> 123 \<and> c \<noteq> 125 \<Longrightarrow> strip_braces s = s"
proof -
  assume A: "\<forall>c \<in> set s. c \<noteq> 123 \<and> c \<noteq> 125"
  then have "dropWhile (\<lambda>c. c \<in> {123, 125}) s = s" "dropWhile (\<lambda>c. c \<in> {123, 125}) (rev s) = rev s"
    by (subst dropWhile_eq_self_iff, use hd_in_set [of s] in force,
        subst dropWhile_eq_self_iff, use hd_in_set [of "rev s"] in force)
  then show ?thesis by (simp add: strip_braces_def)
qed

lemma py_int16_text: "u < 16 ^ 32 \<Longrightarrow> py_int16 (hex_text 32 u) = Some (int u)"
proof -
  assume u: "u < 16 ^ 32"
  let ?a = "hex_char (u div 16 ^ 31 mod 16)" and ?b = "hex_char (u div 16 ^ 30 mod 16)"
  have s: "hex_text 32 u = ?a # ?b # hex_text 30 u"
    using hex_text_Suc [of 31 u] hex_text_Suc [of 30 u] by simp
  have cls: "is_digit c \<or> (97 \<le> c \<and> c \<le> 102)" if "c \<in> set (hex_text 32 u)" for c
    using that set_hex_text by blast
  then have "\<forall>c \<in> set (hex_text 32 u). \<not> is_space c" by (fastforce simp: is_space_def is_digit_def)
  then have st: "strip (hex_text 32 u) = hex_text 32 u" by (rule strip_no_space)
  have ab: "?a \<noteq> 45" "?a \<noteq> 43" "?b \<noteq> 120" "?b \<noteq> 88"
    using cls [of ?a] cls [of ?b] s by (auto simp: is_digit_def)
  have pre: "unprefixed (hex_text 32 u) = hex_text 32 u" using ab by (simp add: s unprefixed_def)
  have "hex_start (hex_text 32 u) = hex_digits (u div 16 ^ 31 mod 16) (hex_text 31 u)"
    using hex_text_Suc [of 31 u] by (simp add: hex_start_def hex_value_char)
  also have "\<dots> = Some (u mod 16 ^ 32)"
    using hex_digits_text [of 0 32 u] hex_text_Suc [of 31 u] hex_char_class [of "u div 16 ^ 31 mod 16"]
    by (simp add: hex_value_char is_digit_def split: if_splits)
  finally have "hex_start (hex_text 32 u) = Some u" using u by simp
  then show ?thesis using st pre ab(1,2) by (simp add: py_int16_def s)
qed

text \<open>The text of an identifier parses back to it, so a tenant identifier survives the text boundary
  exactly when it is a version 7 UUID.\<close>

theorem uuid_text_roundtrip:
  assumes "u < 2 ^ 128"
  shows "parse_uuid (uuid_text u) = Inr u \<and>
    parse_tenant_id (Some (uuid_text u)) =
      (if uuid_version u = Some 7 then Inr u else Inl (AppExn InvalidTenantIdError))"
proof -
  have chars: "is_digit c \<or> (97 \<le> c \<and> c \<le> 102) \<or> c = 45" if "c \<in> set (uuid_text u)" for c
    using that set_hex_text unfolding uuid_text_def by auto
  have "remove_all (lit ''urn:'') (uuid_text u) = uuid_text u" "remove_all (lit ''uuid:'') (uuid_text u) = uuid_text u"
    by (rule remove_all_absent, simp, use chars [of 117] in \<open>auto simp: lit_def is_digit_def\<close>)+
  moreover have "strip_braces (uuid_text u) = uuid_text u"
    by (rule strip_braces_none) (use chars in \<open>fastforce simp: is_digit_def\<close>)
  moreover have "filter (\<lambda>c. c \<noteq> 45) (hex_text n v) = hex_text n v" for n v
    by (rule filter_True) (use set_hex_text in \<open>fastforce simp: is_digit_def\<close>)
  then have "remove_all [45] (uuid_text u) = hex_text 32 u"
    using hex_text_joined by (simp only: remove_all_single uuid_text_def filter_append) simp
  ultimately have "parse_uuid (uuid_text u) = Inr u"
    using py_int16_text [of u] assms by (simp add: parse_uuid_def Let_def)
  then show ?thesis by (auto simp: parse_tenant_id_def validate_tenant_id_def)
qed

theorem uuid_text_roundtrip_witness:
  "parse_uuid (uuid_text (7 * 2 ^ 76 + 2 ^ 63)) = Inr (7 * 2 ^ 76 + 2 ^ 63)"
  using uuid_text_roundtrip [of "7 * 2 ^ 76 + 2 ^ 63"] by simp

section \<open>What passes\<close>

text \<open>Every token issued from 32 random bytes is 43 URL-safe ASCII characters, passes the bearer guard
  unchanged, matches exactly its own digest, and different random bytes give different tokens.\<close>

theorem issued_tokens_accepted:
  assumes "length random = 32" "list_all is_byte random"
  shows "require_session_bearer (token random) = Inr (token random) \<and> length (token random) = 43 \<and>
    token_matches (token random) d = Inr (d = sha256 (token random)) \<and>
    (\<forall>other. list_all is_byte other \<longrightarrow> token other = token random \<longrightarrow> other = random)"
proof -
  note acc = token_accepted [OF assms(1)]
  have "token_matches (token random) d = Inr (d = sha256 (token random))"
    by (auto simp: token_matches_def token_digest_token)
  moreover have "other = random" if "list_all is_byte other" "token other = token random" for other
    using b64url_nopad_inj [OF that(1) assms(2)] that(2) by (simp add: token_def)
  ultimately show ?thesis using acc by (auto simp: require_session_bearer_eq_Inr)
qed

theorem issued_tokens_accepted_witness:
  "require_session_bearer (token (replicate 32 7)) = Inr (token (replicate 32 7))"
  using issued_tokens_accepted [of "replicate 32 7"] by (simp add: is_byte_def list_all_iff)

text \<open>A state-changing request passes the session guards only with proof: its Origin header is one of the
  configured origins and is HTTPS or exactly the approved local exception, its CSRF header is a 43 character
  token whose digest is the session's, and its expected membership is the session's selected one. When the
  origin check passes, exactly such requests pass.\<close>

theorem unsafe_request_proven:
  assumes "is_unsafe rq"
  shows "and_then (validate_expected_membership rq (sr_selected_membership_id session)) (\<lambda>_.
      validate_session_csrf nok rq session allowed l) = Inr () \<longleftrightarrow>
    (\<exists>origin. header rq (lit ''origin'') = Some origin \<and> origin \<noteq> [] \<and> origin \<in> set allowed \<and>
       (urlsplit_scheme nok origin = Inr (lit ''https'') \<or>
        is_ok (urlsplit_scheme nok origin) \<and>
        Some origin = l \<and> l \<in> {Some (lit ''http://localhost:5173''), Some (lit ''http://localhost:5187'')})) \<and>
    (\<exists>t. header rq CSRF_HEADER = Some t \<and> length t = 43 \<and> list_all token_char t \<and> sr_csrf_digest session = sha256 t) \<and>
    (case header rq EXPECTED_MEMBERSHIP of None \<Rightarrow> sr_selected_membership_id session = None
     | Some text \<Rightarrow> text \<noteq> [] \<and> (\<exists>u. parse_uuid text = Inr u \<and> sr_selected_membership_id session = Some u))"
proof -
  have "allowed_origin nok origin allowed l = Inr True \<longleftrightarrow> origin \<in> set allowed \<and>
       (urlsplit_scheme nok origin = Inr (lit ''https'') \<or>
        is_ok (urlsplit_scheme nok origin) \<and>
        Some origin = l \<and> l \<in> {Some (lit ''http://localhost:5173''), Some (lit ''http://localhost:5187'')})" for origin
    by (cases "urlsplit_scheme nok origin") (auto simp: allowed_origin_def is_ok_def)
  then show ?thesis
    using assms by (auto simp: and_then_eq_Inr validate_session_csrf_eq_Inr validate_expected_membership_eq_Inr
        validate_origin_eq_Inr)
qed

definition sample_request :: request where
  "sample_request = \<lparr>rq_method = lit ''POST'',
     rq_headers = [(lit ''origin'', lit ''https://a.co''), (lit ''x-csrf-token'', token (replicate 32 7))],
     rq_cookies = [(SESSION_COOKIE, token (replicate 32 9))], rq_base_url = lit ''https://a.co/'', rq_client = None\<rparr>"

theorem unsafe_request_proven_witness:
  "and_then (validate_expected_membership sample_request None) (\<lambda>_.
     validate_session_csrf (\<lambda>_. True) sample_request
       (new_record 1 2 [] (sha256 (token (replicate 32 7))) 1 0) [lit ''https://a.co''] None) = Inr ()"
proof -
  let ?r = "new_record 1 2 [] (sha256 (token (replicate 32 7))) 1 0"
  have names: "ascii_lower (lit ''origin'') = lit ''origin''" "ascii_lower CSRF_HEADER = lit ''x-csrf-token''"
    "ascii_lower EXPECTED_MEMBERSHIP = lit ''x-expected-membership-id''"
    by (simp_all add: ascii_lower_def lit_def CSRF_HEADER_def EXPECTED_MEMBERSHIP_def is_upper_def)
  then have h: "header sample_request (lit ''origin'') = Some (lit ''https://a.co'')"
    "header sample_request CSRF_HEADER = Some (token (replicate 32 7))" "header sample_request EXPECTED_MEMBERSHIP = None"
    by (simp_all add: header_def sample_request_def)
  have u: "is_unsafe sample_request"
    by (simp add: is_unsafe_def sample_request_def ascii_upper_def UNSAFE_METHODS_def lit_def is_lower_def)
  have "urlsplit_scheme (\<lambda>_. True) (lit ''https://a.co'') = Inr (lit ''https'')" by code_simp
  moreover have "length (token (replicate 32 7)) = 43" "list_all token_char (token (replicate 32 7))"
    using token_accepted [of "replicate 32 7"] by (simp_all add: require_session_bearer_eq_Inr)
  moreover have "sr_selected_membership_id ?r = None" "sr_csrf_digest ?r = sha256 (token (replicate 32 7))"
    by (simp_all add: new_record_def)
  ultimately show ?thesis
    using unsafe_request_proven [OF u, of ?r "\<lambda>_. True" "[lit ''https://a.co'']" None] h by simp
qed

end
