(* ===== verification/Tenants.thy ===== *)
theory Tenants
  imports SessionClaims HttpGuards
begin

text \<open>
  \<open>auth/tenants.py\<close>: from a bearer to a trusted tenant context, and switching the selected
  membership. The service runs over a session store and a membership authority, here a function that
  answers a proof for a user, a membership, an optional version and a security version; the
  authority of production is \<open>auth.resolve_active_membership\<close>.
\<close>

section \<open>Types and errors\<close>

definition TenantAccessDeniedError :: app_error_class where
  "TenantAccessDeniedError = \<lparr>ec_code = lit ''tenant_access_denied'', ec_status = 403,
     ec_message = lit ''The requested tenant context is not available.''\<rparr>"

record membership_proof =
  mp_tenant_id :: uuid
  mp_membership_id :: uuid
  mp_membership_version :: int

record principal =
  pr_user_id :: uuid
  pr_session_id :: uuid
  pr_membership_id :: uuid
  pr_membership_version :: int

record trusted_access =
  ta_principal :: principal
  ta_context :: tenant_context
  ta_session :: session_record

record switched_access =
  sa_access :: trusted_access
  sa_issued_session :: issued_session

type_synonym 's authority = "uuid \<Rightarrow> uuid \<Rightarrow> int option \<Rightarrow> int \<Rightarrow> (exn, 's, membership_proof option) action"

text \<open>\<open>PostgresMembershipAuthority.resolve_active\<close>\<close>

definition pg_resolve_active :: "db authority" where
  "pg_resolve_active user_id membership_id membership_version security_version =
     read_db (\<lambda>s. map_option (\<lambda>(t, m, v). \<lparr>mp_tenant_id = t, mp_membership_id = m, mp_membership_version = v\<rparr>)
       (resolve_active_membership s user_id membership_id membership_version security_version))"

section \<open>The service\<close>

definition trusted_session :: "'s session_store \<Rightarrow> time \<Rightarrow> pystr \<Rightarrow> (exn, 's, session_record) action" where
  "trusted_session st clock bearer =
     seq (lift_result (token_digest bearer)) (\<lambda>d.
     seq (st_get_by_digest st d) (\<lambda>found.
     case found of
       None \<Rightarrow> raise (AppExn SessionRejectedError)
     | Some record \<Rightarrow>
         if \<not> is_valid record clock (sr_security_version record) then raise (AppExn SessionRejectedError)
         else ret record))"

definition trusted_access_of :: "session_record \<Rightarrow> membership_proof \<Rightarrow> exn + trusted_access" where
  "trusted_access_of record proof =
     and_then (TenantContext (Some (mp_tenant_id proof))) (\<lambda>context.
     Inr \<lparr>ta_principal = \<lparr>pr_user_id = sr_user_id record, pr_session_id = sr_id record,
            pr_membership_id = mp_membership_id proof, pr_membership_version = mp_membership_version proof\<rparr>,
          ta_context = context, ta_session = record\<rparr>)"

definition trusted_resolve :: "'s session_store \<Rightarrow> 's authority \<Rightarrow> time \<Rightarrow> pystr \<Rightarrow> (exn, 's, trusted_access) action" where
  "trusted_resolve st auth clock bearer =
     seq (trusted_session st clock bearer) (\<lambda>record.
     case (sr_selected_membership_id record, sr_selected_membership_version record) of
       (Some m, Some v) \<Rightarrow>
         seq (auth (sr_user_id record) m (Some v) (sr_security_version record)) (\<lambda>proof.
         case proof of
           None \<Rightarrow> raise (AppExn TenantAccessDeniedError)
         | Some p \<Rightarrow> lift_result (trusted_access_of record p))
     | _ \<Rightarrow> raise (AppExn TenantAccessDeniedError))"

definition trusted_switch ::
  "'s session_store \<Rightarrow> 's authority \<Rightarrow> time \<Rightarrow> pystr \<Rightarrow> uuid \<Rightarrow> bytes \<Rightarrow> bytes \<Rightarrow> (exn, 's, switched_access) action" where
  "trusted_switch st auth clock bearer membership_selector bearer_random csrf_random =
     seq (trusted_session st clock bearer) (\<lambda>record.
     seq (auth (sr_user_id record) membership_selector None (sr_security_version record)) (\<lambda>proof.
     case proof of
       None \<Rightarrow> raise (AppExn TenantAccessDeniedError)
     | Some p \<Rightarrow>
         seq (rotate_to_membership st bearer (sr_security_version record) (mp_membership_id p)
                (mp_membership_version p) None clock bearer_random csrf_random) (\<lambda>issued.
         case issued of
           None \<Rightarrow> raise (AppExn SessionRejectedError)
         | Some i \<Rightarrow>
             seq (lift_result (trusted_access_of (is_record i) p)) (\<lambda>access.
             ret \<lparr>sa_access = access, sa_issued_session = i\<rparr>))))"

lemma trusted_access_of_eq_Inr:
  "trusted_access_of r p = Inr a \<longleftrightarrow>
     (\<exists>c. TenantContext (Some (mp_tenant_id p)) = Inr c \<and>
        a = \<lparr>ta_principal = \<lparr>pr_user_id = sr_user_id r, pr_session_id = sr_id r,
              pr_membership_id = mp_membership_id p, pr_membership_version = mp_membership_version p\<rparr>,
            ta_context = c, ta_session = r\<rparr>)"
  by (auto simp: trusted_access_of_def and_then_eq_Inr)

section \<open>The contract of an authority\<close>

text \<open>A proof names the membership asked for, at the version asked for if any, held by that user; asking changes nothing.\<close>

locale trusted_tenants = session_laws st rows pre logged knows links wf
  for st :: "'s session_store" and rows pre logged knows links wf +
  fixes auth :: "'s authority"
  assumes proof_law: "wf s \<Longrightarrow> \<exists>p. auth u m v sv s = Inr (p, s) \<and>
      (\<forall>q. p = Some q \<longrightarrow> mp_membership_id q = m \<and> links s m u \<and> 0 < mp_membership_version q \<and>
         int4_ok (mp_membership_version q) \<and> (\<forall>n. v = Some n \<longrightarrow> mp_membership_version q = n))"
begin

lemma trusted_session_run:
  assumes "wf s" "is_ascii b"
  shows "trusted_session st clock b s =
    (case found_by b (rows s) of
       None \<Rightarrow> Inl (AppExn SessionRejectedError)
     | Some r \<Rightarrow> if is_valid r clock (sr_security_version r) then Inr (r, s) else Inl (AppExn SessionRejectedError))"
  using assms by (simp add: trusted_session_def seq_lift token_digest_ascii seq_Inr [OF get_law] found_by_def
      split: option.splits)

lemma trusted_resolve_sound:
  assumes "wf s" "trusted_resolve st auth clock b s = Inr (a, s')"
  shows "s' = s \<and> (\<exists>r. found_by b (rows s) = Some r \<and> is_valid r clock (sr_security_version r) \<and> ta_session a = r \<and>
    pr_user_id (ta_principal a) = sr_user_id r \<and> pr_session_id (ta_principal a) = sr_id r \<and>
    sr_selected_membership_id r = Some (pr_membership_id (ta_principal a)) \<and>
    sr_selected_membership_version r = Some (pr_membership_version (ta_principal a)) \<and>
    links s (pr_membership_id (ta_principal a)) (sr_user_id r) \<and>
    uuid_version (tc_tenant_id (ta_context a)) = Some 7)"
proof -
  have asc: "is_ascii b"
    using assms(2) by (auto simp: trusted_resolve_def trusted_session_def seq_eq_Inr lift_result_def
        token_digest_eq_Inr split: sum.splits)
  obtain r where r: "found_by b (rows s) = Some r" "is_valid r clock (sr_security_version r)"
      "trusted_session st clock b s = Inr (r, s)"
    using assms(2) trusted_session_run [OF assms(1) asc, of clock]
    by (auto simp: trusted_resolve_def seq_eq_Inr split: option.splits if_splits)
  then have go: "(case (sr_selected_membership_id r, sr_selected_membership_version r) of
       (Some m, Some v) \<Rightarrow>
         seq (auth (sr_user_id r) m (Some v) (sr_security_version r)) (\<lambda>proof.
         case proof of
           None \<Rightarrow> raise (AppExn TenantAccessDeniedError)
         | Some p \<Rightarrow> lift_result (trusted_access_of r p))
     | _ \<Rightarrow> raise (AppExn TenantAccessDeniedError)) s = Inr (a, s')"
    using assms(2) by (simp add: trusted_resolve_def seq_Inr)
  then obtain m v where mv: "sr_selected_membership_id r = Some m" "sr_selected_membership_version r = Some v"
    by (cases "sr_selected_membership_id r"; cases "sr_selected_membership_version r") auto
  obtain p where p: "auth (sr_user_id r) m (Some v) (sr_security_version r) s = Inr (p, s)"
    "\<forall>q. p = Some q \<longrightarrow> mp_membership_id q = m \<and> links s m (sr_user_id r) \<and> mp_membership_version q = v"
    using proof_law [OF assms(1), of "sr_user_id r" m "Some v" "sr_security_version r"] by blast
  with go mv obtain q where q: "p = Some q" "trusted_access_of r q = Inr a" "s' = s"
    by (cases p; cases "trusted_access_of r (the p)") (auto simp: seq_Inr)
  with p(2) have "mp_membership_id q = m" "links s m (sr_user_id r)" "mp_membership_version q = v" by simp_all
  with q r mv show ?thesis
    by (auto simp: trusted_access_of_def and_then_eq_Inr TenantContext_eq_Inr)
qed

lemma trusted_switch_sound:
  assumes "wf s" "trusted_switch st auth clock b m br cr s = Inr (a, s')"
    and fresh: "sha256 (token br) \<notin> sr_bearer_digest ` set (rows s)"
  shows "wf s' \<and> (\<exists>r. found_by b (rows s) = Some r \<and> is_valid r clock (sr_security_version r) \<and> links s m (sr_user_id r) \<and>
    same_owner r (is_record (sa_issued_session a))) \<and>
    found_by (token br) (rows s') = Some (is_record (sa_issued_session a)) \<and>
    sr_selected_membership_id (is_record (sa_issued_session a)) = Some m \<and>
    pr_membership_id (ta_principal (sa_access a)) = m \<and>
    sr_selected_membership_version (is_record (sa_issued_session a)) = Some (pr_membership_version (ta_principal (sa_access a))) \<and>
    ss_bearer (is_secrets (sa_issued_session a)) = token br \<and>
    (\<forall>sv2 na2 clock2. resolve st b sv2 na2 clock2 s' = Inr (None, s'))"
proof -
  have asc: "is_ascii b"
    using assms(2) by (auto simp: trusted_switch_def trusted_session_def seq_eq_Inr lift_result_def
        token_digest_eq_Inr split: sum.splits)
  obtain r where r: "found_by b (rows s) = Some r" "is_valid r clock (sr_security_version r)"
      "trusted_session st clock b s = Inr (r, s)"
    using assms(2) trusted_session_run [OF assms(1) asc, of clock]
    by (auto simp: trusted_switch_def seq_eq_Inr split: option.splits if_splits)
  obtain p where p: "auth (sr_user_id r) m None (sr_security_version r) s = Inr (p, s)"
    "\<forall>q. p = Some q \<longrightarrow> mp_membership_id q = m \<and> links s m (sr_user_id r) \<and> 0 < mp_membership_version q \<and>
       int4_ok (mp_membership_version q)"
    using proof_law [OF assms(1), of "sr_user_id r" m None "sr_security_version r"] by blast
  with assms(2) r(3) obtain q where q: "p = Some q" by (cases p) (auto simp: trusted_switch_def seq_Inr)
  with p(2) have m: "mp_membership_id q = m" "links s m (sr_user_id r)" "0 < mp_membership_version q"
    "int4_ok (mp_membership_version q)" by simp_all
  let ?v = "mp_membership_version q"
  let ?sel = "\<lambda>r. r\<lparr>sr_selected_membership_id := Some m, sr_selected_membership_version := Some ?v\<rparr>"
  obtain i s1 where i: "rotate_to_membership st b (sr_security_version r) m ?v None clock br cr s = Inr (Some i, s1)"
    "seq (lift_result (trusted_access_of (is_record i) q)) (\<lambda>access. ret \<lparr>sa_access = access, sa_issued_session = i\<rparr>) s1 = Inr (a, s')"
    using assms(2) r(3) p(1) q m(1)
    by (auto simp: trusted_switch_def seq_Inr seq_eq_Inr split: option.splits)
  have lnk: "\<forall>r2 r' m2. found_by b (rows s) = Some r2 \<longrightarrow> same_owner r2 r' \<longrightarrow>
      sr_selected_membership_id r' = sr_selected_membership_id r2 \<longrightarrow>
      sr_selected_membership_id (?sel r') = Some m2 \<longrightarrow> links s m2 (sr_user_id r2)" using r(1) m(2) by simp
  have rot: "wf s1" "ss_bearer (is_secrets i) = token br" "found_by (token br) (rows s1) = Some (is_record i)"
    "\<exists>r2 old. found_by b (rows s) = Some r2 \<and> same_owner r2 (is_record i) \<and> is_record i = ?sel old"
    "\<forall>sv2 na2 clock2. resolve st b sv2 na2 clock2 s1 = Inr (None, s1)"
    using rotate_old_dead [where sv = "sr_security_version r" and cr = cr and na = None and clock = clock,
        OF assms(1) asc refl fresh select_keeps [OF m(3,4)] lnk] i(1)
    by (auto simp: rotate_to_membership_def)
  have a: "s' = s1" "sa_issued_session a = i" "pr_membership_id (ta_principal (sa_access a)) = m"
    "pr_membership_version (ta_principal (sa_access a)) = ?v"
    using i(2) m(1) by (auto simp: seq_eq_Inr lift_result_def trusted_access_of_def and_then_eq_Inr split: sum.splits)
  show ?thesis using rot a r m(2) by auto
qed

end

section \<open>PostgreSQL\<close>

lemma membership_by_id_SomeD: "membership_by_id s m = Some x \<Longrightarrow> x \<in> set (db_memberships s) \<and> mb_id x = m"
  by (auto simp: membership_by_id_def find_Some_iff)

lemma resolve_active_SomeD:
  assumes "resolve_active_membership s u m v sv = Some (t, m', n)"
  shows "\<exists>x y. user_by_id s u = Some x \<and> membership_by_id s m = Some y \<and> us_id x = u \<and> mb_user_id y = u \<and>
    us_status x = UserActive \<and> us_security_version x = sv \<and> mb_status y = MembershipActive \<and>
    tenant_active s (mb_tenant_id y) \<and> t = mb_tenant_id y \<and> m' = m \<and> n = mb_version y \<and> (\<forall>k. v = Some k \<longrightarrow> n = k)"
  using assms membership_by_id_SomeD [of s m]
  by (auto simp: resolve_active_membership_def user_by_id_def find_Some_iff split: option.splits if_splits)

lemma pg_trusted_tenants:
  assumes "conn_ok cx"
  shows "trusted_tenants (pg_store cx) db_sessions db_preauth db_logged db_knows db_links db_ok pg_resolve_active"
proof -
  have "\<exists>p. pg_resolve_active u m v sv s = Inr (p, s) \<and>
      (\<forall>q. p = Some q \<longrightarrow> mp_membership_id q = m \<and> db_links s m u \<and> 0 < mp_membership_version q \<and>
         int4_ok (mp_membership_version q) \<and> (\<forall>n. v = Some n \<longrightarrow> mp_membership_version q = n))"
    if ok: "db_ok s" for s u m v sv
  proof (cases "resolve_active_membership s u m v sv")
    case None
    then show ?thesis by (simp add: pg_resolve_active_def)
  next
    case (Some res)
    obtain t m' n where res: "res = (t, m', n)" by (cases res)
    obtain y where y: "membership_by_id s m = Some y" "mb_user_id y = u" "m' = m" "n = mb_version y" "\<forall>k. v = Some k \<longrightarrow> n = k"
      using resolve_active_SomeD [OF Some [unfolded res]] by blast
    then have "check_membership_row y"
      using ok membership_by_id_SomeD by (auto simp: db_ok_def catalogue_ok_def list_all_iff)
    with Some res y show ?thesis by (simp add: pg_resolve_active_def db_links_def check_membership_row_def)
  qed
  then show ?thesis
    using pg_session_laws [OF assms] by (simp add: trusted_tenants_def trusted_tenants_axioms_def)
qed

interpretation pgt: trusted_tenants "pg_store (plain_conn txid tenant)" db_sessions db_preauth db_logged db_knows
    db_links db_ok pg_resolve_active for txid tenant
  by (rule pg_trusted_tenants [OF conn_ok_plain])

lemma trusted_access_live:
  assumes "db_ok s" "trusted_resolve (pg_store cx) pg_resolve_active clock b s = Inr (a, s')" "conn_ok cx"
  shows "s' = s \<and> (\<exists>r x y. found_by b (db_sessions s) = Some r \<and> is_valid r clock (sr_security_version r) \<and> ta_session a = r \<and>
    user_by_id s (sr_user_id r) = Some x \<and> us_status x = UserActive \<and> us_security_version x = sr_security_version r \<and>
    sr_selected_membership_id r = Some (mb_id y) \<and> membership_by_id s (mb_id y) = Some y \<and> mb_user_id y = sr_user_id r \<and>
    mb_status y = MembershipActive \<and> sr_selected_membership_version r = Some (mb_version y) \<and>
    tenant_active s (mb_tenant_id y) \<and>
    ta_principal a = \<lparr>pr_user_id = sr_user_id r, pr_session_id = sr_id r, pr_membership_id = mb_id y, pr_membership_version = mb_version y\<rparr> \<and>
    tc_tenant_id (ta_context a) = mb_tenant_id y \<and> uuid_version (mb_tenant_id y) = Some 7)"
proof -
  note laws = pg_trusted_tenants [OF assms(3)]
  obtain r where r: "s' = s" "found_by b (db_sessions s) = Some r" "is_valid r clock (sr_security_version r)" "ta_session a = r"
    using trusted_tenants.trusted_resolve_sound [OF laws assms(1,2)] by blast
  have asc: "is_ascii b"
    using assms(2) by (auto simp: trusted_resolve_def trusted_session_def seq_eq_Inr lift_result_def
        token_digest_eq_Inr split: sum.splits)
  have run: "trusted_session (pg_store cx) clock b s = Inr (r, s)"
    using trusted_tenants.trusted_session_run [OF laws assms(1) asc, of clock] r by simp
  obtain m v where mv: "sr_selected_membership_id r = Some m" "sr_selected_membership_version r = Some v"
    using assms(2) run
    by (cases "sr_selected_membership_id r"; cases "sr_selected_membership_version r") (auto simp: trusted_resolve_def seq_Inr)
  obtain t m' n where res: "resolve_active_membership s (sr_user_id r) m (Some v) (sr_security_version r) = Some (t, m', n)"
    and acc: "trusted_access_of r \<lparr>mp_tenant_id = t, mp_membership_id = m', mp_membership_version = n\<rparr> = Inr a"
    using assms(2) run mv
    by (cases "resolve_active_membership s (sr_user_id r) m (Some v) (sr_security_version r)")
      (auto simp: trusted_resolve_def seq_Inr pg_resolve_active_def lift_result_def split: sum.splits)
  obtain x y where xy: "user_by_id s (sr_user_id r) = Some x" "membership_by_id s m = Some y" "mb_user_id y = sr_user_id r"
    "us_status x = UserActive" "us_security_version x = sr_security_version r" "mb_status y = MembershipActive"
    "tenant_active s (mb_tenant_id y)" "t = mb_tenant_id y" "m' = m" "n = mb_version y" "n = v"
    using resolve_active_SomeD [OF res] by blast
  have y: "mb_id y = m" using membership_by_id_SomeD [OF xy(2)] by simp
  obtain c where a: "a = \<lparr>ta_principal = \<lparr>pr_user_id = sr_user_id r, pr_session_id = sr_id r, pr_membership_id = m,
        pr_membership_version = n\<rparr>, ta_context = c, ta_session = r\<rparr>" "tc_tenant_id c = t" "uuid_version t = Some 7"
    using acc xy(9) by (auto simp: trusted_access_of_def and_then_eq_Inr TenantContext_eq_Inr)
  show ?thesis
    by (intro conjI exI [of _ r] exI [of _ x] exI [of _ y]) (use r(1-3) xy mv a y in simp_all)
qed

text \<open>C4. Resolving a bearer to a tenant changes nothing and gives access only with live proof: the bearer's session is
  valid, it selected a membership of its own user, and the user, the membership at the selected version, the
  security version and the tenant are all active in the database; the context is that membership's tenant.\<close>

theorem trusted_access_proven:
  assumes "db_ok s" "trusted_resolve (pg_store cx) pg_resolve_active clock b s = Inr (a, s')" "conn_ok cx"
  shows "s' = s \<and> (\<exists>r x y. found_by b (db_sessions s) = Some r \<and> is_valid r clock (sr_security_version r) \<and> ta_session a = r \<and>
    user_by_id s (sr_user_id r) = Some x \<and> us_status x = UserActive \<and> us_security_version x = sr_security_version r \<and>
    sr_selected_membership_id r = Some (mb_id y) \<and> membership_by_id s (mb_id y) = Some y \<and> mb_user_id y = sr_user_id r \<and>
    mb_status y = MembershipActive \<and> sr_selected_membership_version r = Some (mb_version y) \<and>
    tenant_active s (mb_tenant_id y) \<and>
    ta_principal a = \<lparr>pr_user_id = sr_user_id r, pr_session_id = sr_id r, pr_membership_id = mb_id y, pr_membership_version = mb_version y\<rparr> \<and>
    tc_tenant_id (ta_context a) = mb_tenant_id y \<and> uuid_version (mb_tenant_id y) = Some 7)"
  by (rule trusted_access_live [OF assms])

definition sample_selected :: session_record where
  "sample_selected = sample_session\<lparr>sr_selected_membership_id := Some 6, sr_selected_membership_version := Some 1\<rparr>"

definition sample_tenant_db :: db where
  "sample_tenant_db = sample_db\<lparr>db_sessions := [sample_selected]\<rparr>"

lemma sample_tenant_db_ok: "db_ok sample_tenant_db"
  unfolding sample_tenant_db_def
proof (rule db_ok_sessions [OF sample_db_ok])
  show "list_all check_session_row [sample_selected]"
    using sample_session_ok(1) by (simp add: sample_selected_def check_session_row_def int4_ok_def int4_max_def)
  have "db_links sample_db 6 5" by (simp add: db_links_def membership_by_id_def sample_db_def)
  then show "list_all (session_fk_ok sample_db) [sample_selected]"
    using sample_knows by (simp add: session_fk_iff sample_selected_def sample_session_fields)
qed (simp_all add: unique_on_def)

theorem trusted_access_proven_witness:
  "\<exists>a. trusted_resolve (pg_store sample_conn) pg_resolve_active 2000 sample_bearer sample_tenant_db = Inr (a, sample_tenant_db) \<and>
     pr_membership_id (ta_principal a) = 6"
proof -
  have found: "found_by sample_bearer (db_sessions sample_tenant_db) = Some sample_selected"
    by (simp add: found_by_def sample_tenant_db_def sample_selected_def sample_session_fields)
  have valid: "is_valid sample_selected 2000 (sr_security_version sample_selected)"
    by (simp add: sample_selected_def sample_session_def is_valid_def new_record_def session_constants)
  have "trusted_session (pg_store sample_conn) 2000 sample_bearer sample_tenant_db = Inr (sample_selected, sample_tenant_db)"
    using trusted_tenants.trusted_session_run [OF pg_trusted_tenants [OF sample_conn_ok] sample_tenant_db_ok sample_ascii, of 2000]
      found valid by simp
  moreover have "resolve_active_membership sample_tenant_db 5 6 (Some 1) 1 = Some (sample_id 1, 6, 1)"
    by (simp add: resolve_active_membership_def user_by_id_def membership_by_id_def tenant_active_def tenant_by_id_def
        sample_tenant_db_def sample_db_def)
  moreover have "sr_user_id sample_selected = 5" "sr_security_version sample_selected = 1"
    by (simp_all add: sample_selected_def sample_session_fields)
  ultimately obtain a where run: "trusted_resolve (pg_store sample_conn) pg_resolve_active 2000 sample_bearer sample_tenant_db = Inr (a, sample_tenant_db)"
    by (simp add: trusted_resolve_def seq_Inr pg_resolve_active_def sample_selected_def trusted_access_of_def
        TenantContext_def validate_tenant_id_def sample_id_version)
  from trusted_access_proven [OF sample_tenant_db_ok run sample_conn_ok] found
  have "pr_membership_id (ta_principal a) = 6" by (auto simp: sample_selected_def)
  with run show ?thesis by blast
qed

lemma tenant_switch_live:
  assumes "db_ok s" "conn_ok cx" "trusted_switch (pg_store cx) pg_resolve_active clock b m br cr s = Inr (a, s')"
    and "sha256 (token br) \<notin> sr_bearer_digest ` set (db_sessions s)"
  shows "db_ok s' \<and> (\<exists>r x y. found_by b (db_sessions s) = Some r \<and> is_valid r clock (sr_security_version r) \<and>
      user_by_id s (sr_user_id r) = Some x \<and> us_status x = UserActive \<and> us_security_version x = sr_security_version r \<and>
      membership_by_id s m = Some y \<and> mb_user_id y = sr_user_id r \<and> mb_status y = MembershipActive \<and>
      tenant_active s (mb_tenant_id y) \<and> same_owner r (is_record (sa_issued_session a)) \<and>
      tc_tenant_id (ta_context (sa_access a)) = mb_tenant_id y \<and>
      sr_selected_membership_version (is_record (sa_issued_session a)) = Some (mb_version y)) \<and>
    sr_selected_membership_id (is_record (sa_issued_session a)) = Some m \<and>
    found_by (token br) (db_sessions s') = Some (is_record (sa_issued_session a)) \<and>
    (\<forall>sv2 na2 clock2. resolve (pg_store cx) b sv2 na2 clock2 s' = Inr (None, s'))"
proof -
  note laws = pg_trusted_tenants [OF assms(2)]
  note sound = trusted_tenants.trusted_switch_sound [OF laws assms(1,3,4)]
  from sound obtain r where r: "found_by b (db_sessions s) = Some r" "is_valid r clock (sr_security_version r)"
    "same_owner r (is_record (sa_issued_session a))" by blast
  have asc: "is_ascii b"
    using assms(3) by (auto simp: trusted_switch_def trusted_session_def seq_eq_Inr lift_result_def
        token_digest_eq_Inr split: sum.splits)
  have run: "trusted_session (pg_store cx) clock b s = Inr (r, s)"
    using trusted_tenants.trusted_session_run [OF laws assms(1) asc, of clock] r by simp
  obtain t m' n where res: "resolve_active_membership s (sr_user_id r) m None (sr_security_version r) = Some (t, m', n)"
    and acc: "tc_tenant_id (ta_context (sa_access a)) = t" "pr_membership_version (ta_principal (sa_access a)) = n"
    using assms(3) run
    by (cases "resolve_active_membership s (sr_user_id r) m None (sr_security_version r)")
      (auto simp: trusted_switch_def seq_Inr seq_eq_Inr pg_resolve_active_def lift_result_eq_Inr
        trusted_access_of_eq_Inr TenantContext_eq_Inr split: option.splits)
  obtain x y where xy: "user_by_id s (sr_user_id r) = Some x" "membership_by_id s m = Some y" "mb_user_id y = sr_user_id r"
    "us_status x = UserActive" "us_security_version x = sr_security_version r" "mb_status y = MembershipActive"
    "tenant_active s (mb_tenant_id y)" "t = mb_tenant_id y" "n = mb_version y"
    using resolve_active_SomeD [OF res] by blast
  have v: "sr_selected_membership_version (is_record (sa_issued_session a)) = Some (mb_version y)"
    using sound acc(2) xy(9) by simp
  have t: "tc_tenant_id (ta_context (sa_access a)) = mb_tenant_id y" using acc(1) xy(8) by simp
  show ?thesis
    by (intro conjI exI [of _ r] exI [of _ x] exI [of _ y]) (use sound r xy v t in simp_all)
qed

text \<open>The sample session switches to the sample membership.\<close>

lemma sample_fresh_9: "sha256 (token [9]) \<notin> sr_bearer_digest ` set (db_sessions sample_db)"
proof -
  have "hd (sha256 sample_bearer) = 86" by code_simp
  then show ?thesis using sample_digest_9 by (auto simp: sample_rows sample_session_fields)
qed

lemma sample_switch_run:
  "\<exists>a s'. trusted_switch (pg_store sample_conn) pg_resolve_active 2000 sample_bearer 6 [9] [8] sample_db = Inr (a, s')"
proof -
  note f = sample_fresh_9
  have found: "found_by sample_bearer (db_sessions sample_db) = Some sample_session"
    by (simp add: found_by_def sample_rows sample_session_fields)
  have v: "is_valid sample_session 2000 1"
    by (simp add: sample_session_def is_valid_def new_record_def session_constants)
  have l: "\<forall>r r' m'. found_by sample_bearer (db_sessions sample_db) = Some r \<longrightarrow> same_owner r r' \<longrightarrow>
      sr_selected_membership_id r' = sr_selected_membership_id r \<longrightarrow>
      sr_selected_membership_id (r'\<lparr>sr_selected_membership_id := Some 6, sr_selected_membership_version := Some 1\<rparr>) = Some m' \<longrightarrow>
      db_links sample_db m' (sr_user_id r)"
    using found by (auto simp: sample_session_fields db_links_def membership_by_id_def sample_db_def)
  have i: "int4_ok 1" by (simp add: int4_ok_def int4_max_def)
  obtain x s1 where rot: "rotate_to_membership (pg_store sample_conn) sample_bearer 1 6 1 None 2000 [9] [8] sample_db = Inr (Some x, s1)"
    using session_laws.rotate_old_dead [where na = None and clock = 2000 and sv = 1 and cr = "[8]",
        OF pg_session_laws [OF sample_conn_ok] sample_db_ok sample_ascii refl f select_keeps [OF zero_less_one i] l] v
    by (auto simp: rotate_to_membership_def now_or_def sample_rows sample_session_fields split: option.splits)
  have "trusted_session (pg_store sample_conn) 2000 sample_bearer sample_db = Inr (sample_session, sample_db)"
    using trusted_tenants.trusted_session_run [OF pg_trusted_tenants [OF sample_conn_ok] sample_db_ok sample_ascii, of 2000]
      found v by (simp add: sample_session_fields)
  moreover have "resolve_active_membership sample_db 5 6 None 1 = Some (sample_id 1, 6, 1)"
    by (simp add: resolve_active_membership_def user_by_id_def membership_by_id_def tenant_active_def tenant_by_id_def
        sample_db_def)
  ultimately obtain a where run: "trusted_switch (pg_store sample_conn) pg_resolve_active 2000 sample_bearer 6 [9] [8] sample_db = Inr (a, s1)"
    using rot by (auto simp: trusted_switch_def seq_Inr pg_resolve_active_def sample_session_fields trusted_access_of_def
        TenantContext_def validate_tenant_id_def sample_id_version)
  then show ?thesis by blast
qed

text \<open>C5. A successful tenant switch starts from a valid session whose user, at the session's security version, is
  active and holds the requested active membership in an active tenant; it selects that membership at its current
  version on the same session row under a new bearer, and the old bearer no longer resolves.\<close>

theorem tenant_switch_proven:
  assumes "db_ok s" "conn_ok cx" "trusted_switch (pg_store cx) pg_resolve_active clock b m br cr s = Inr (a, s')"
    and "sha256 (token br) \<notin> sr_bearer_digest ` set (db_sessions s)"
  shows "db_ok s' \<and> (\<exists>r x y. found_by b (db_sessions s) = Some r \<and> is_valid r clock (sr_security_version r) \<and>
      user_by_id s (sr_user_id r) = Some x \<and> us_status x = UserActive \<and> us_security_version x = sr_security_version r \<and>
      membership_by_id s m = Some y \<and> mb_user_id y = sr_user_id r \<and> mb_status y = MembershipActive \<and>
      tenant_active s (mb_tenant_id y) \<and> same_owner r (is_record (sa_issued_session a)) \<and>
      tc_tenant_id (ta_context (sa_access a)) = mb_tenant_id y \<and>
      sr_selected_membership_version (is_record (sa_issued_session a)) = Some (mb_version y)) \<and>
    sr_selected_membership_id (is_record (sa_issued_session a)) = Some m \<and>
    found_by (token br) (db_sessions s') = Some (is_record (sa_issued_session a)) \<and>
    (\<forall>sv2 na2 clock2. resolve (pg_store cx) b sv2 na2 clock2 s' = Inr (None, s'))"
  by (rule tenant_switch_live [OF assms])

theorem tenant_switch_proven_witness:
  "\<exists>a s'. trusted_switch (pg_store sample_conn) pg_resolve_active 2000 sample_bearer 6 [9] [8] sample_db = Inr (a, s') \<and>
     resolve (pg_store sample_conn) sample_bearer 1 None 2000 s' = Inr (None, s')"
  using tenant_switch_proven [OF sample_db_ok sample_conn_ok _ sample_fresh_9] sample_switch_run by blast

end
