(* ===== verification/Passwords.thy ===== *)
theory Passwords
  imports AppErrors
begin

text \<open>
  \<open>security/passwords.py\<close>. The Argon2 hasher is the record \<open>hasher\<close>: what \<open>PasswordHasher.hash\<close>,
  \<open>verify\<close> and \<open>check_needs_rehash\<close> answer; \<open>nfc\<close> is \<open>unicodedata.normalize("NFC", _)\<close>. The semaphore
  and the worker threads do not change results. \<open>PasswordPolicyError\<close> is a \<open>ValueError\<close>.
\<close>

datatype verify_answer = VerifyTrue | VerificationFailed | HashInvalid | VerifyRaises exn

datatype rehash_answer = NeedsRehash bool | RehashHashInvalid

record hasher =
  hs_hash :: "bytes \<Rightarrow> pystr \<Rightarrow> exn + pystr"
  hs_verify :: "pystr \<Rightarrow> pystr \<Rightarrow> verify_answer"
  hs_check_needs_rehash :: "pystr \<Rightarrow> rehash_answer"

definition MIN_PASSWORD_CODE_POINTS :: nat where
  "MIN_PASSWORD_CODE_POINTS = 15"

definition MAX_PASSWORD_CODE_POINTS :: nat where
  "MAX_PASSWORD_CODE_POINTS = 128"

definition normalize_password :: "(pystr \<Rightarrow> pystr) \<Rightarrow> pystr \<Rightarrow> exn + pystr" where
  "normalize_password nfc password =
     (let normalized = nfc password in
      if \<not> (MIN_PASSWORD_CODE_POINTS \<le> length normalized \<and> length normalized \<le> MAX_PASSWORD_CODE_POINTS)
      then Inl ValueExn else Inr normalized)"

record password_verification =
  pv_verified :: bool
  pv_replacement_hash :: "pystr option"

definition PasswordService_init :: "int \<Rightarrow> exn + unit" where
  "PasswordService_init max_concurrency = (if max_concurrency < 1 then Inl ValueExn else Inr ())"

definition hash_password :: "(pystr \<Rightarrow> pystr) \<Rightarrow> hasher \<Rightarrow> bytes \<Rightarrow> pystr \<Rightarrow> exn + pystr" where
  "hash_password nfc hs salt password = and_then (normalize_password nfc password) (hs_hash hs salt)"

definition verified_with :: "hasher \<Rightarrow> pystr \<Rightarrow> pystr \<Rightarrow> exn + bool" where
  "verified_with hs password_hash normalized =
     (case hs_verify hs password_hash normalized of
        VerifyTrue \<Rightarrow> Inr True
      | VerificationFailed \<Rightarrow> Inr False
      | HashInvalid \<Rightarrow> Inr False
      | VerifyRaises e \<Rightarrow> Inl e)"

definition verify_password :: "(pystr \<Rightarrow> pystr) \<Rightarrow> hasher \<Rightarrow> pystr \<Rightarrow> pystr \<Rightarrow> exn + bool" where
  "verify_password nfc hs password_hash password =
     (case normalize_password nfc password of
        Inl _ \<Rightarrow> Inr False
      | Inr normalized \<Rightarrow> verified_with hs password_hash normalized)"

definition needs_rehash :: "hasher \<Rightarrow> pystr \<Rightarrow> bool" where
  "needs_rehash hs password_hash =
     (case hs_check_needs_rehash hs password_hash of NeedsRehash b \<Rightarrow> b | RehashHashInvalid \<Rightarrow> False)"

definition verify_and_rehash ::
  "(pystr \<Rightarrow> pystr) \<Rightarrow> hasher \<Rightarrow> bytes \<Rightarrow> pystr \<Rightarrow> pystr \<Rightarrow> exn + password_verification" where
  "verify_and_rehash nfc hs salt password_hash password =
     (case normalize_password nfc password of
        Inl _ \<Rightarrow> Inr \<lparr>pv_verified = False, pv_replacement_hash = None\<rparr>
      | Inr normalized \<Rightarrow>
          (case hs_verify hs password_hash normalized of
             VerifyRaises e \<Rightarrow> Inl e
           | VerificationFailed \<Rightarrow> Inr \<lparr>pv_verified = False, pv_replacement_hash = None\<rparr>
           | HashInvalid \<Rightarrow> Inr \<lparr>pv_verified = False, pv_replacement_hash = None\<rparr>
           | VerifyTrue \<Rightarrow>
               if needs_rehash hs password_hash
               then and_then (hs_hash hs salt normalized) (\<lambda>h.
                 Inr \<lparr>pv_verified = True, pv_replacement_hash = Some h\<rparr>)
               else Inr \<lparr>pv_verified = True, pv_replacement_hash = None\<rparr>))"

lemma normalize_password_eq_Inr:
  "normalize_password nfc p = Inr n \<longleftrightarrow> n = nfc p \<and> 15 \<le> length n \<and> length n \<le> 128"
  by (auto simp: normalize_password_def Let_def MIN_PASSWORD_CODE_POINTS_def MAX_PASSWORD_CODE_POINTS_def)

text \<open>C23. A password hashes to what the hasher makes of its NFC form exactly when that form has 15 to 128 code points;
  any other password is a policy error and verifies against nothing. With a hasher that accepts its own hashes, every
  spelling with the same NFC form verifies against the hash, directly and with the rehash decision: that decision makes no
  new hash when the parameters are current, and otherwise a hash of the same NFC form that the spelling verifies against.\<close>

theorem password_roundtrip:
  assumes "\<forall>salt n h. hs_hash hs salt n = Inr h \<longrightarrow> hs_verify hs h n = VerifyTrue"
  shows "hash_password nfc hs salt p =
      (if 15 \<le> length (nfc p) \<and> length (nfc p) \<le> 128 then hs_hash hs salt (nfc p) else Inl ValueExn) \<and>
    (length (nfc p) < 15 \<or> 128 < length (nfc p) \<longrightarrow> (\<forall>h. verify_password nfc hs h p = Inr False)) \<and>
    (\<forall>h q. hash_password nfc hs salt p = Inr h \<and> nfc q = nfc p \<longrightarrow>
       verify_password nfc hs h q = Inr True \<and>
       verify_and_rehash nfc hs salt2 h q =
         (if hs_check_needs_rehash hs h = NeedsRehash True
          then (case hs_hash hs salt2 (nfc p) of
                  Inl e \<Rightarrow> Inl e | Inr h2 \<Rightarrow> Inr \<lparr>pv_verified = True, pv_replacement_hash = Some h2\<rparr>)
          else Inr \<lparr>pv_verified = True, pv_replacement_hash = None\<rparr>) \<and>
       (\<forall>h2. verify_and_rehash nfc hs salt2 h q = Inr \<lparr>pv_verified = True, pv_replacement_hash = Some h2\<rparr> \<longrightarrow>
          verify_password nfc hs h2 q = Inr True))"
proof (cases "15 \<le> length (nfc p) \<and> length (nfc p) \<le> 128")
  case False
  then have "normalize_password nfc p = Inl ValueExn"
    by (simp add: normalize_password_def Let_def MIN_PASSWORD_CODE_POINTS_def MAX_PASSWORD_CODE_POINTS_def)
  with False show ?thesis by (auto simp: hash_password_def verify_password_def)
next
  case True
  then have norm: "normalize_password nfc q = Inr (nfc p)" if "nfc q = nfc p" for q
    using that by (simp add: normalize_password_eq_Inr)
  have hash: "hash_password nfc hs salt p = hs_hash hs salt (nfc p)" by (simp add: hash_password_def norm)
  have spelled: "verify_password nfc hs h q = Inr True \<and> verify_and_rehash nfc hs salt2 h q =
      (if needs_rehash hs h then and_then (hs_hash hs salt2 (nfc p)) (\<lambda>h. Inr \<lparr>pv_verified = True, pv_replacement_hash = Some h\<rparr>)
       else Inr \<lparr>pv_verified = True, pv_replacement_hash = None\<rparr>)"
    if "hs_hash hs any (nfc p) = Inr h" "nfc q = nfc p" for h q any
    using assms that(1) norm [OF that(2)] by (auto simp: verify_password_def verified_with_def verify_and_rehash_def)
  have rehash: "needs_rehash hs h \<longleftrightarrow> hs_check_needs_rehash hs h = NeedsRehash True" for h
    by (simp add: needs_rehash_def split: rehash_answer.split)
  show ?thesis
    using True hash spelled rehash by (auto split: sum.splits)
qed

text \<open>A transparent hasher, for examples.\<close>

definition plain_hasher :: hasher where
  "plain_hasher =
     \<lparr>hs_hash = \<lambda>salt n. Inr (lit ''$argon2id$'' @ n),
      hs_verify = \<lambda>h n. if h = lit ''$argon2id$'' @ n then VerifyTrue else VerificationFailed,
      hs_check_needs_rehash = \<lambda>_. NeedsRehash False\<rparr>"

lemma plain_hasher_verifies: "\<forall>salt n h. hs_hash plain_hasher salt n = Inr h \<longrightarrow> hs_verify plain_hasher h n = VerifyTrue"
  by (simp add: plain_hasher_def)

theorem password_roundtrip_witness:
  "hash_password id plain_hasher [] (replicate 128 97) = Inr (lit ''$argon2id$'' @ replicate 128 97) \<and>
   verify_password id plain_hasher (lit ''$argon2id$'' @ replicate 128 97) (replicate 128 97) = Inr True \<and>
   hash_password id plain_hasher [] (replicate 14 97) = Inl ValueExn"
proof -
  have "hash_password id plain_hasher [] (replicate 128 97) = Inr (lit ''$argon2id$'' @ replicate 128 97)"
    using password_roundtrip [OF plain_hasher_verifies, of id "[]" "replicate 128 97" "[]"] by (simp add: plain_hasher_def)
  with password_roundtrip [OF plain_hasher_verifies, of id "[]" "replicate 128 97" "[]"]
    password_roundtrip [OF plain_hasher_verifies, of id "[]" "replicate 14 97" "[]"]
  show ?thesis by simp
qed

end
