(* ===== verification/Controls.thy ===== *)
theory Controls
  imports SessionClaims Passwords
begin

text \<open>
  Throttling, password reset and password change: \<open>auth/controls.py\<close> over the SQL functions
  \<open>auth.consume_throttle\<close> (\<open>0009\<close>), \<open>auth.request_password_reset\<close> with its event (\<open>0014\<close>),
  \<open>auth.complete_password_reset\<close> and \<open>auth.apply_password_change\<close> (\<open>0015\<close>). Times are microseconds.
  \<open>gen_random_uuid()\<close> and the identifiers the functions assemble from it are drawn from the supply.
\<close>

section \<open>Throttling\<close>

datatype throttle_scope =
  S_LOGIN_USERNAME | S_LOGIN_IP | S_LOGIN_IP_USERNAME | S_RESET_USERNAME | S_RESET_IP | S_CSRF_IP

fun scope_value :: "throttle_scope \<Rightarrow> pystr" where
  "scope_value S_LOGIN_USERNAME = lit ''login_username''"
| "scope_value S_LOGIN_IP = lit ''login_ip''"
| "scope_value S_LOGIN_IP_USERNAME = lit ''login_ip_username''"
| "scope_value S_RESET_USERNAME = lit ''reset_username''"
| "scope_value S_RESET_IP = lit ''reset_ip''"
| "scope_value S_CSRF_IP = lit ''csrf_ip''"

text \<open>Limit and window in seconds.\<close>

fun throttle_policies :: "throttle_scope \<Rightarrow> int \<times> int" where
  "throttle_policies S_LOGIN_USERNAME = (10, 900)"
| "throttle_policies S_LOGIN_IP = (30, 60)"
| "throttle_policies S_LOGIN_IP_USERNAME = (5, 900)"
| "throttle_policies S_RESET_USERNAME = (3, 3600)"
| "throttle_policies S_RESET_IP = (20, 3600)"
| "throttle_policies S_CSRF_IP = (30, 60)"

fun throttle_reason :: "throttle_scope \<Rightarrow> security_reason" where
  "throttle_reason S_LOGIN_USERNAME = Y_LOGIN_USERNAME"
| "throttle_reason S_LOGIN_IP = Y_LOGIN_IP"
| "throttle_reason S_LOGIN_IP_USERNAME = Y_LOGIN_IP_USERNAME"
| "throttle_reason S_RESET_USERNAME = Y_RESET_USERNAME"
| "throttle_reason S_RESET_IP = Y_RESET_IP"
| "throttle_reason S_CSRF_IP = Y_CSRF_BOOTSTRAP"

definition sensitive_key_digest :: "bytes \<Rightarrow> throttle_scope \<Rightarrow> pystr \<Rightarrow> exn + bytes" where
  "sensitive_key_digest key purpose value =
     (case encode_utf8 value of
        None \<Rightarrow> Inl UnicodeExn
      | Some v \<Rightarrow> Inr (hmac_sha256 key (scope_value purpose @ [0] @ v)))"

record throttle_decision =
  td_allowed :: bool
  td_request_count :: int
  td_retry_after_seconds :: int

definition seconds :: "int \<Rightarrow> time" where
  "seconds n = n * 1000000"

definition window_start :: "time \<Rightarrow> int \<Rightarrow> time" where
  "window_start now window = now div seconds window * seconds window"

definition ceil_seconds :: "time \<Rightarrow> int" where
  "ceil_seconds t = - (- t div 1000000)"

definition same_bucket :: "pystr \<Rightarrow> bytes \<Rightarrow> time \<Rightarrow> throttle_row \<Rightarrow> bool" where
  "same_bucket scope key start b \<longleftrightarrow>
     tb_scope b = scope \<and> tb_key_digest b = key \<and> tb_window_started_at b = start"

text \<open>\<open>auth.consume_throttle\<close>: one upsert on the bucket of the current window.\<close>

definition consume_throttle ::
  "pystr \<Rightarrow> bytes \<Rightarrow> int \<Rightarrow> int \<Rightarrow> int \<Rightarrow> (exn, db, throttle_decision) action" where
  "consume_throttle scope key key_id limit window =
     seq (require (- 32768 \<le> key_id \<and> key_id \<le> 32767) (SqlExn NumericOutOfRange)) (\<lambda>_.
     seq (require (length key = 32) (SqlExn CheckViolation)) (\<lambda>_.
     seq (read_db db_clock) (\<lambda>now.
     let start = window_start now window in
     seq (read_db (\<lambda>s. find (same_bucket scope key start) (db_throttles s))) (\<lambda>bucket.
     seq (case bucket of
            None \<Rightarrow>
              seq (write_db (\<lambda>s. s\<lparr>db_throttles := db_throttles s @
                [\<lparr>tb_scope = scope, tb_key_digest = key, tb_window_started_at = start, tb_key_id = key_id,
                  tb_request_count = 1, tb_expires_at = start + seconds window + seconds (48 * 3600)\<rparr>]\<rparr>)) (\<lambda>_.
              ret 1)
          | Some b \<Rightarrow>
              seq (require (int4_ok (tb_request_count b + 1)) (SqlExn NumericOutOfRange)) (\<lambda>_.
              seq (write_db (\<lambda>s. s\<lparr>db_throttles := update_where (same_bucket scope key start)
                (\<lambda>x. x\<lparr>tb_request_count := tb_request_count x + 1\<rparr>) (db_throttles s)\<rparr>)) (\<lambda>_.
              ret (tb_request_count b + 1)))) (\<lambda>count.
     ret \<lparr>td_allowed = (count \<le> limit), td_request_count = count,
          td_retry_after_seconds = max 1 (ceil_seconds (start + seconds window - now))\<rparr>)))))"

text \<open>An event with a type, a result and a reason only.\<close>

definition write_bare_event ::
  "conn \<Rightarrow> security_event_type \<Rightarrow> security_event_result \<Rightarrow> security_reason \<Rightarrow> (exn, db, unit) action" where
  "write_bare_event cx t r reason =
     seq (lift_result (SecurityAuditEvent ((no_event_args t r)\<lparr>ea_reason_code := Proper reason\<rparr>) False)) (\<lambda>e.
     seq (new_writer cx) (\<lambda>w. seq (writer_write cx w e) (\<lambda>_. ret ())))"

definition throttle_store_consume ::
  "conn \<Rightarrow> throttle_scope \<Rightarrow> bytes \<Rightarrow> int \<Rightarrow> int \<Rightarrow> int \<Rightarrow> (exn, db, throttle_decision) action" where
  "throttle_store_consume cx scope key key_id limit window =
     seq (consume_throttle (scope_value scope) key key_id limit window) (\<lambda>d.
     seq (if \<not> td_allowed d then write_bare_event cx THROTTLING_TRIGGERED R_DENIED (throttle_reason scope)
          else ret ()) (\<lambda>_.
     ret d))"

definition throttle_consume ::
  "conn \<Rightarrow> bytes \<Rightarrow> int \<Rightarrow> throttle_scope \<Rightarrow> pystr \<Rightarrow> (exn, db, throttle_decision) action" where
  "throttle_consume cx key key_id scope value =
     seq (require (\<not> length key < 32) ValueExn) (\<lambda>_.
     let (limit, window) = throttle_policies scope in
     seq (lift_result (sensitive_key_digest key scope value)) (\<lambda>d.
     throttle_store_consume cx scope d key_id limit window))"

section \<open>Password reset and change\<close>

definition check_password_hash :: "pystr \<Rightarrow> bool" where
  "check_password_hash h \<longleftrightarrow> starts_with (lit ''$argon2id$'') h"

text \<open>A success event of a user, as the SQL functions append it.\<close>

definition user_event_row :: "pystr \<Rightarrow> pystr option \<Rightarrow> uuid \<Rightarrow> uuid \<Rightarrow> uuid \<Rightarrow> event_row" where
  "user_event_row t reason user event_id correlation =
     \<lparr>er_id = event_id, er_event_type = t, er_result = lit ''success'', er_reason_code = reason,
      er_user_id = Some user, er_session_id = None, er_membership_id = None, er_subject_digest = None,
      er_correlation_id = correlation, er_created_at = 0, er_role_id = None,
      er_target_membership_id = None, er_permission_id = None, er_subject_kind = None,
      er_subject_key_id = None, er_affected_count = None\<rparr>"

definition open_token :: "reset_token_row \<Rightarrow> bool" where
  "open_token t \<longleftrightarrow> rt_consumed_at t = None \<and> rt_revoked_at t = None"

definition request_password_reset ::
  "conn \<Rightarrow> pystr \<Rightarrow> bytes \<Rightarrow> uuid \<Rightarrow> uuid \<Rightarrow> (exn, db, bool) action" where
  "request_password_reset cx email digest token_id event_id =
     seq (read_db (\<lambda>s. find (\<lambda>u. us_normalized_email u = email \<and> us_status u = UserActive) (db_users s))) (\<lambda>user.
     case user of
       None \<Rightarrow> ret False
     | Some u \<Rightarrow>
         seq (write_db (\<lambda>s. s\<lparr>db_reset_tokens := update_where (\<lambda>t. rt_user_id t = us_id u \<and> open_token t)
           (\<lambda>t. t\<lparr>rt_revoked_at := Some (db_clock s)\<rparr>) (db_reset_tokens s)\<rparr>)) (\<lambda>_.
         seq (require (length digest = 32) (SqlExn CheckViolation)) (\<lambda>_.
         seq (read_db (\<lambda>s. exists_row (\<lambda>t. rt_id t = token_id \<or> rt_token_digest t = digest) (db_reset_tokens s))) (\<lambda>taken.
         seq (require (\<not> taken) (SqlExn UniqueViolation)) (\<lambda>_.
         seq (write_db (\<lambda>s. s\<lparr>db_reset_tokens := db_reset_tokens s @
           [\<lparr>rt_id = token_id, rt_user_id = us_id u, rt_token_digest = digest, rt_created_at = db_clock s,
             rt_expires_at = db_clock s + minutes 15, rt_consumed_at = None, rt_revoked_at = None\<rparr>]\<rparr>)) (\<lambda>_.
         seq draw_id (\<lambda>correlation.
         seq (append_security_event cx
           (user_event_row (lit ''password_reset_requested'') None (us_id u) event_id correlation)) (\<lambda>_.
         ret True))))))))"

text \<open>The updates a reset and a change share: the credential, the user, the live sessions.\<close>

definition replace_credential :: "uuid \<Rightarrow> pystr \<Rightarrow> (exn, db, bool) action" where
  "replace_credential user hash =
     seq (read_db (\<lambda>s. filter (\<lambda>c. cr_user_id c = user) (db_credentials s))) (\<lambda>mine.
     if mine = [] then ret False
     else
      seq (require (list_all (\<lambda>c. int4_ok (cr_credential_version c + 1)) mine) (SqlExn NumericOutOfRange)) (\<lambda>_.
      seq (require (check_password_hash hash) (SqlExn CheckViolation)) (\<lambda>_.
      seq (write_db (\<lambda>s. s\<lparr>db_credentials := update_where (\<lambda>c. cr_user_id c = user)
        (\<lambda>c. c\<lparr>cr_password_hash := hash, cr_credential_version := cr_credential_version c + 1,
               cr_changed_at := db_clock s\<rparr>) (db_credentials s)\<rparr>)) (\<lambda>_.
      ret True))))"

definition bump_security_version :: "uuid \<Rightarrow> (exn, db, unit) action" where
  "bump_security_version user =
     seq (read_db (\<lambda>s. list_all (\<lambda>u. us_id u = user \<longrightarrow> int4_ok (us_security_version u + 1)) (db_users s))) (\<lambda>ok.
     seq (require ok (SqlExn NumericOutOfRange)) (\<lambda>_.
     write_db (\<lambda>s. s\<lparr>db_users := update_where (\<lambda>u. us_id u = user)
       (\<lambda>u. u\<lparr>us_security_version := us_security_version u + 1\<rparr>) (db_users s)\<rparr>)))"

definition sql_revoke_sessions :: "uuid \<Rightarrow> string \<Rightarrow> (exn, db, nat) action" where
  "sql_revoke_sessions user reason =
     seq (read_db (\<lambda>s. length (filter (\<lambda>r. sr_user_id r = user \<and> sr_revoked_at r = None) (db_sessions s)))) (\<lambda>n.
     seq (write_db (\<lambda>s. s\<lparr>db_sessions := update_where (\<lambda>r. sr_user_id r = user \<and> sr_revoked_at r = None)
       (\<lambda>r. r\<lparr>sr_revoked_at := Some (db_clock s), sr_revoked_reason := Some (lit reason)\<rparr>) (db_sessions s)\<rparr>)) (\<lambda>_.
     ret n))"

definition append_drawn :: "conn \<Rightarrow> pystr \<Rightarrow> pystr option \<Rightarrow> uuid \<Rightarrow> uuid \<Rightarrow> (exn, db, unit) action" where
  "append_drawn cx t reason user correlation =
     seq draw_id (\<lambda>event_id. append_security_event cx (user_event_row t reason user event_id correlation))"

definition complete_password_reset ::
  "conn \<Rightarrow> bytes \<Rightarrow> pystr \<Rightarrow> uuid \<Rightarrow> (exn, db, bool) action" where
  "complete_password_reset cx digest hash event_id =
     seq draw_id (\<lambda>correlation.
     seq (read_db (\<lambda>s. find (\<lambda>t. rt_token_digest t = digest \<and> open_token t \<and> rt_expires_at t > db_clock s)
       (db_reset_tokens s))) (\<lambda>found.
     case found of
       None \<Rightarrow> ret False
     | Some tok \<Rightarrow>
         seq (write_db (\<lambda>s. s\<lparr>db_reset_tokens := update_where (\<lambda>t. rt_id t = rt_id tok)
           (\<lambda>t. t\<lparr>rt_consumed_at := Some (db_clock s)\<rparr>) (db_reset_tokens s)\<rparr>)) (\<lambda>_.
         seq (write_db (\<lambda>s. s\<lparr>db_reset_tokens := update_where
             (\<lambda>t. rt_user_id t = rt_user_id tok \<and> rt_id t \<noteq> rt_id tok \<and> open_token t)
           (\<lambda>t. t\<lparr>rt_revoked_at := Some (db_clock s)\<rparr>) (db_reset_tokens s)\<rparr>)) (\<lambda>_.
         seq (replace_credential (rt_user_id tok) hash) (\<lambda>ok.
         seq (require ok (SqlExn (RaisedBySql (lit ''credential_missing'')))) (\<lambda>_.
         seq (bump_security_version (rt_user_id tok)) (\<lambda>_.
         seq (sql_revoke_sessions (rt_user_id tok) ''password_reset'') (\<lambda>revoked.
         seq (append_security_event cx (user_event_row (lit ''password_reset_completed'')
           (Some (lit ''password_reset'')) (rt_user_id tok) event_id correlation)) (\<lambda>_.
         seq (append_drawn cx (lit ''password_changed'') (Some (lit ''password_reset'')) (rt_user_id tok) correlation) (\<lambda>_.
         seq (if 0 < revoked
              then append_drawn cx (lit ''all_sessions_revoked'') (Some (lit ''password_reset'')) (rt_user_id tok) correlation
              else ret ()) (\<lambda>_.
         ret True)))))))))))"

definition apply_password_change ::
  "conn \<Rightarrow> bytes \<Rightarrow> int \<Rightarrow> int \<Rightarrow> pystr \<Rightarrow> pystr \<Rightarrow> (exn, db, (uuid \<times> nat) option) action" where
  "apply_password_change cx digest credential security old_hash new_hash =
     seq draw_id (\<lambda>correlation.
     seq (read_db (\<lambda>s. find (\<lambda>r. sr_bearer_digest r = digest) (db_sessions s))) (\<lambda>found.
     case found of
       None \<Rightarrow> ret None
     | Some session \<Rightarrow>
         let user = sr_user_id session in
         seq (read_db (\<lambda>s. confirm_password_authentication s user credential security old_hash)) (\<lambda>current.
         if \<not> current then ret None
         else
          seq (read_db (\<lambda>s. exists_row (\<lambda>r. sr_bearer_digest r = digest \<and> sr_user_id r = user \<and>
                 sr_revoked_at r = None \<and> sr_idle_expires_at r > db_clock s \<and>
                 sr_absolute_expires_at r > db_clock s \<and> sr_security_version r = security) (db_sessions s))) (\<lambda>live.
          if \<not> live then ret None
          else
           seq (replace_credential user new_hash) (\<lambda>_.
           seq (bump_security_version user) (\<lambda>_.
           seq (sql_revoke_sessions user ''revoke_all'') (\<lambda>count.
           seq (append_drawn cx (lit ''password_changed'') None user correlation) (\<lambda>_.
           seq (if 0 < count
                then append_drawn cx (lit ''all_sessions_revoked'') (Some (lit ''revoke_all'')) user correlation
                else ret ()) (\<lambda>_.
           ret (Some (user, count)))))))))))"

section \<open>The reset service\<close>

record reset_request =
  rr_accepted :: bool
  rr_delivery_token :: "pystr option"

definition new_reset_token :: "bytes \<Rightarrow> pystr" where
  "new_reset_token random = b64url_nopad random"

definition reset_service_request :: "conn \<Rightarrow> pystr \<Rightarrow> bytes \<Rightarrow> (exn, db, reset_request) action" where
  "reset_service_request cx normalized_email random =
     (let t = new_reset_token random in
      seq (lift_result (token_digest t)) (\<lambda>d.
      seq draw_id (\<lambda>token_id.
      seq draw_id (\<lambda>event_id.
      seq (request_password_reset cx normalized_email d token_id event_id) (\<lambda>exists.
      ret \<lparr>rr_accepted = True, rr_delivery_token = (if exists then Some t else None)\<rparr>)))))"

definition reset_service_complete ::
  "(pystr \<Rightarrow> pystr) \<Rightarrow> hasher \<Rightarrow> bytes \<Rightarrow> conn \<Rightarrow> pystr \<Rightarrow> pystr \<Rightarrow> (exn, db, bool) action" where
  "reset_service_complete nfc hs salt cx t new_password =
     seq (lift_result (hash_password nfc hs salt new_password)) (\<lambda>h.
     seq (lift_result (token_digest t)) (\<lambda>d.
     seq draw_id (\<lambda>event_id.
     complete_password_reset cx d h event_id)))"

section \<open>Appending user events\<close>

definition user_event :: "security_event_type \<Rightarrow> security_reason option \<Rightarrow> uuid \<Rightarrow> audit_event" where
  "user_event t y u = \<lparr>ae_event_type = t, ae_result = R_SUCCESS, ae_reason_code = y, ae_user_id = Some u,
     ae_session_id = None, ae_membership_id = None, ae_role_id = None, ae_target_membership_id = None,
     ae_permission_id = None, ae_subject_digest = None, ae_subject_kind = None,
     ae_subject_key_id = None, ae_affected_count = None\<rparr>"

definition sql_user_events :: "(security_event_type \<times> security_reason option) set" where
  "sql_user_events = {(PASSWORD_RESET_REQUESTED, None), (PASSWORD_RESET_COMPLETED, Some Y_PASSWORD_RESET),
     (PASSWORD_CHANGED, None), (PASSWORD_CHANGED, Some Y_PASSWORD_RESET),
     (ALL_SESSIONS_REVOKED, Some Y_REVOKE_ALL), (ALL_SESSIONS_REVOKED, Some Y_PASSWORD_RESET)}"

lemma user_event_row_eq:
  "user_event_row (event_value t) (map_option reason_value y) u i c = event_to_row (user_event t y u) i c 0"
  by (simp add: user_event_row_def event_to_row_def user_event_def)

lemma user_event_session_only: "(t, y) \<in> sql_user_events \<Longrightarrow> session_only (user_event t y u)"
  by (auto simp: sql_user_events_def session_only_def user_event_def event_ok_def args_of_def validate_event_def
      valid_outcome_def valid_links_def identity_args_def valid_permission_def valid_subject_def valid_count_def
      policy_def reason_allowed_def of_option_def given_def alien_def role_event_types_def
      membership_role_event_types_def role_permission_event_types_def)

text \<open>Everything but the events and the supply of identifiers is as before.\<close>

definition only_events :: "db \<Rightarrow> db \<Rightarrow> bool" where
  "only_events s s' \<longleftrightarrow> (\<exists>n ev. s' = s\<lparr>db_drawn := n, db_events := ev\<rparr>)"

lemma only_events_tables:
  assumes "only_events s s'"
  shows "db_users s' = db_users s" "db_memberships s' = db_memberships s" "db_tenants s' = db_tenants s"
    "db_credentials s' = db_credentials s" "db_sessions s' = db_sessions s" "db_reset_tokens s' = db_reset_tokens s"
    "db_clock s' = db_clock s" "db_throttles s' = db_throttles s" "db_roles s' = db_roles s"
    "db_role_permissions s' = db_role_permissions s" "db_membership_roles s' = db_membership_roles s"
    "db_intents s' = db_intents s" "db_preauth s' = db_preauth s" "same_catalogue s s'" "db_ids s' = db_ids s"
  using assms by (auto simp: only_events_def same_catalogue_def)

lemma only_events_refl [simp]: "only_events s s"
proof -
  have "s = s\<lparr>db_drawn := db_drawn s, db_events := db_events s\<rparr>" by simp
  then show ?thesis unfolding only_events_def by blast
qed

lemma only_events_trans: "only_events s t \<Longrightarrow> only_events t u \<Longrightarrow> only_events s u"
  unfolding only_events_def by (elim exE, simp, blast)

lemma only_events_draw [simp]: "only_events s (s\<lparr>db_drawn := n\<rparr>)"
proof -
  have "s\<lparr>db_drawn := n\<rparr> = s\<lparr>db_drawn := n, db_events := db_events s\<rparr>" by simp
  then show ?thesis unfolding only_events_def by blast
qed

lemma db_ok_draw: "db_ok s \<Longrightarrow> db_ok (s\<lparr>db_drawn := Suc (db_drawn s)\<rparr>)"
  using ids_fresh_drawn same_catalogue_facts(3) [of s "s\<lparr>db_drawn := Suc (db_drawn s)\<rparr>"]
  by (simp add: db_ok_def sessions_ok_def)

text \<open>A drawn identifier that no event uses appends its event.\<close>

lemma append_user_event:
  assumes "db_ok s" "db_knows s u" "(t, y) \<in> sql_user_events" "check_uuid_text c"
    and "n < db_drawn s" "i = db_ids s n" "i \<notin> er_id ` set (db_events s)"
  shows "\<exists>s'. append_security_event cx (user_event_row (event_value t) (map_option reason_value y) u i c) s =
      Inr ((), s') \<and> db_ok s' \<and> only_events s s' \<and> db_drawn s' = db_drawn s \<and>
    db_logged s' = db_logged s @ [(event_value t, map_option reason_value y, Some u, None)] \<and>
    er_id ` set (db_events s') = insert i (er_id ` set (db_events s))"
proof -
  let ?e = "user_event t y u"
  let ?r = "event_to_row ?e i c 0"
  let ?s = "s\<lparr>db_events := db_events s @ [?r\<lparr>er_created_at := db_clock s\<rparr>]\<rparr>"
  note so = user_event_session_only [OF assms(3), of u]
  have fresh: "ids_fresh s" using assms(1) by (simp add: db_ok_def)
  then have v: "uuid_version i = Some 7" using assms(6) by (simp add: ids_fresh_def)
  have "links_exist s ?r"
    by (rule links_exist_session_only [OF so])
      (use assms(1,2) in \<open>auto simp: db_ok_def sessions_ok_def user_event_def\<close>)
  moreover have "row_casts_ok ?r" "audit_shape snapshot_lists ?r"
    using validation_iff_checks [of ?e i c 0] session_only_row(5) [OF so] v assms(4) by simp_all
  ultimately have run: "append_security_event cx ?r s = Inr ((), ?s)"
    using session_only_row(1,2) [OF so] assms(7) by (intro append_ok) (simp_all add: event_to_row_def)
  have "ids_fresh ?s" by (rule ids_fresh_event [OF fresh assms(5)]) (simp add: event_to_row_def assms(6))
  then have "db_ok ?s"
    using assms(1) same_catalogue_facts(3) [of s ?s] by (simp add: db_ok_def sessions_ok_def)
  moreover have "only_events s ?s"
  proof -
    have "?s = s\<lparr>db_drawn := db_drawn s, db_events := db_events ?s\<rparr>" by simp
    then show ?thesis unfolding only_events_def by blast
  qed
  moreover have "db_logged ?s = db_logged s @ [(event_value t, map_option reason_value y, Some u, None)]"
    by (simp add: db_logged_def event_to_row_def user_event_def)
  moreover have "er_id ` set (db_events ?s) = insert i (er_id ` set (db_events s))" by (simp add: event_to_row_def)
  ultimately show ?thesis using run unfolding user_event_row_eq by (intro exI [of _ ?s]) simp
qed

lemma append_drawn_ok:
  assumes "db_ok s" "db_knows s u" "(t, y) \<in> sql_user_events" "check_uuid_text c"
  shows "\<exists>s'. append_drawn cx (event_value t) (map_option reason_value y) u c s = Inr ((), s') \<and> db_ok s' \<and>
    only_events s s' \<and> db_logged s' = db_logged s @ [(event_value t, map_option reason_value y, Some u, None)]"
proof -
  let ?s1 = "s\<lparr>db_drawn := Suc (db_drawn s)\<rparr>"
  have "db_knows ?s1 u" using assms(2) same_catalogue_facts(4) [of s ?s1] by simp
  moreover have "db_ids ?s1 (db_drawn s) \<notin> er_id ` set (db_events ?s1)"
    using assms(1) by (simp add: db_ok_def ids_fresh_def)
  ultimately obtain s' where "append_security_event cx (user_event_row (event_value t) (map_option reason_value y) u
      (db_ids s (db_drawn s)) c) ?s1 = Inr ((), s')" "db_ok s'" "only_events ?s1 s'"
      "db_logged s' = db_logged ?s1 @ [(event_value t, map_option reason_value y, Some u, None)]"
    using append_user_event [OF db_ok_draw [OF assms(1)] _ assms(3,4), of u "db_drawn s" _ cx] by force
  then show ?thesis
    using only_events_trans [OF only_events_draw [of s "Suc (db_drawn s)"], of s'] by (simp add: append_drawn_def db_logged_def)
qed

section \<open>The shared updates\<close>

definition new_credential :: "time \<Rightarrow> pystr \<Rightarrow> credential_row \<Rightarrow> credential_row" where
  "new_credential now h c = c\<lparr>cr_password_hash := h, cr_credential_version := cr_credential_version c + 1, cr_changed_at := now\<rparr>"

definition bumped :: "user_row \<Rightarrow> user_row" where
  "bumped u = u\<lparr>us_security_version := us_security_version u + 1\<rparr>"

definition revoked_for :: "time \<Rightarrow> uuid \<Rightarrow> string \<Rightarrow> session_record \<Rightarrow> session_record" where
  "revoked_for now u why r = (if sr_user_id r = u \<and> sr_revoked_at r = None then revoke_record r now why else r)"

definition credential_changed :: "db \<Rightarrow> uuid \<Rightarrow> pystr \<Rightarrow> string \<Rightarrow> db" where
  "credential_changed s u h why = s\<lparr>
     db_credentials := update_where (\<lambda>c. cr_user_id c = u) (new_credential (db_clock s) h) (db_credentials s),
     db_users := update_where (\<lambda>x. us_id x = u) bumped (db_users s),
     db_sessions := map (revoked_for (db_clock s) u why) (db_sessions s)\<rparr>"

definition open_sessions :: "db \<Rightarrow> uuid \<Rightarrow> nat" where
  "open_sessions s u = length (filter (\<lambda>r. sr_user_id r = u \<and> sr_revoked_at r = None) (db_sessions s))"

text \<open>The credential can be replaced: it exists, the hash is Argon2id and no version overflows.\<close>

definition changeable :: "db \<Rightarrow> uuid \<Rightarrow> pystr \<Rightarrow> bool" where
  "changeable s u h \<longleftrightarrow>
     filter (\<lambda>c. cr_user_id c = u) (db_credentials s) \<noteq> [] \<and> check_password_hash h \<and>
     list_all (\<lambda>c. int4_ok (cr_credential_version c + 1)) (filter (\<lambda>c. cr_user_id c = u) (db_credentials s)) \<and>
     list_all (\<lambda>x. us_id x = u \<longrightarrow> int4_ok (us_security_version x + 1)) (db_users s)"

lemma user_by_id_bumped:
  "user_by_id (s\<lparr>db_users := update_where (\<lambda>x. us_id x = u) bumped (db_users s)\<rparr>) v =
     map_option (\<lambda>x. if us_id x = u then bumped x else x) (user_by_id s v)"
proof -
  have "find (\<lambda>r. us_id r = v) (update_where (\<lambda>x. us_id x = u) bumped t) =
      map_option (\<lambda>x. if us_id x = u then bumped x else x) (find (\<lambda>r. us_id r = v) t)" for t
    by (induction t) (auto simp: update_where_def bumped_def)
  then show ?thesis by (simp add: user_by_id_def)
qed

lemma credential_changed_user:
  "user_by_id (credential_changed s u h why) v = map_option (\<lambda>x. if us_id x = u then bumped x else x) (user_by_id s v)"
  using user_by_id_bumped [where s = s and u = u and v = v] by (simp add: user_by_id_def credential_changed_def)

lemma credential_changed_run:
  assumes "changeable s u h"
  shows "seq (replace_credential u h) (\<lambda>ok. seq (require ok e) (\<lambda>_. seq (bump_security_version u) (\<lambda>_.
      seq (sql_revoke_sessions u why) f))) s = f (open_sessions s u) (credential_changed s u h why)"
    and "seq (replace_credential u h) (\<lambda>_. seq (bump_security_version u) (\<lambda>_.
      seq (sql_revoke_sessions u why) f)) s = f (open_sessions s u) (credential_changed s u h why)"
  using assms
  by (simp_all add: replace_credential_def bump_security_version_def sql_revoke_sessions_def changeable_def
      seq_require seq_def require_def credential_changed_def open_sessions_def new_credential_def [abs_def]
      bumped_def [abs_def] update_where_def revoked_for_def [abs_def] revoke_record_def cong: if_cong)

lemma revoked_for_simps [simp]:
  "sr_id (revoked_for now u why r) = sr_id r" "sr_bearer_digest (revoked_for now u why r) = sr_bearer_digest r"
  "sr_user_id (revoked_for now u why r) = sr_user_id r"
  "sr_selected_membership_id (revoked_for now u why r) = sr_selected_membership_id r"
  by (simp_all add: revoked_for_def)

lemma check_revoked_for:
  "check_session_row r \<Longrightarrow> why \<in> {''revoke_all'', ''password_reset''} \<Longrightarrow> check_session_row (revoked_for now u why r)"
  by (auto simp: revoked_for_def revoke_record_def check_session_row_def)

lemma catalogue_bumped:
  assumes "catalogue_ok us ms" "list_all (\<lambda>x. us_id x = u \<longrightarrow> int4_ok (us_security_version x + 1)) us"
  shows "catalogue_ok (update_where (\<lambda>x. us_id x = u) bumped us) ms"
proof -
  have "map us_id (update_where (\<lambda>x. us_id x = u) bumped us) = map us_id us"
    "map us_normalized_email (update_where (\<lambda>x. us_id x = u) bumped us) = map us_normalized_email us"
    by (auto simp: update_where_def bumped_def)
  moreover have "list_all check_user_row (update_where (\<lambda>x. us_id x = u) bumped us)"
    using assms by (auto simp: list_all_iff update_where_def bumped_def check_user_row_def catalogue_ok_def)
  ultimately show ?thesis using assms(1) by (simp add: catalogue_ok_def unique_on_def)
qed

lemma credential_changed_ok:
  assumes "db_ok s" "changeable s u h" "why \<in> {''revoke_all'', ''password_reset''}"
  shows "db_ok (credential_changed s u h why)"
proof -
  let ?s = "credential_changed s u h why"
  have s: "sessions_ok s" "ids_fresh s" "catalogue_ok (db_users s) (db_memberships s)"
    using assms(1) by (simp_all add: db_ok_def)
  have mem: "membership_by_id ?s = membership_by_id s"
    by (simp add: fun_eq_iff membership_by_id_def credential_changed_def)
  have fk: "session_fk_ok ?s (revoked_for t u why r) = session_fk_ok s r" for r t
    by (simp add: session_fk_ok_def credential_changed_user mem cong: option.case_cong)
  have rows: "db_sessions ?s = map (revoked_for (db_clock s) u why) (db_sessions s)"
    by (simp add: credential_changed_def)
  have pre: "db_preauth ?s = db_preauth s" by (simp add: credential_changed_def)
  have "sessions_ok ?s"
    using s(1) assms(3) check_revoked_for
    by (auto simp: sessions_ok_def rows pre list_all_iff unique_on_def comp_def fk)
  moreover have "ids_fresh ?s" using s(2) by (simp add: ids_fresh_def credential_changed_def)
  moreover have "catalogue_ok (db_users ?s) (db_memberships ?s)"
    using catalogue_bumped [OF s(3)] assms(2) by (simp add: credential_changed_def changeable_def)
  ultimately show ?thesis by (simp add: db_ok_def)
qed

text \<open>What a changed credential means for later requests.\<close>

definition locked_out :: "db \<Rightarrow> db \<Rightarrow> uuid \<Rightarrow> pystr \<Rightarrow> bool" where
  "locked_out s s' u h \<longleftrightarrow>
     (\<forall>cv sv old. confirm_password_authentication s u cv sv old \<longrightarrow> \<not> confirm_password_authentication s' u cv sv old) \<and>
     (\<forall>d r x. live_session s' d = Some (r, x) \<longrightarrow> us_id x \<noteq> u) \<and>
     (\<forall>r \<in> set (db_sessions s'). sr_user_id r = u \<longrightarrow> sr_revoked_at r \<noteq> None) \<and>
     (\<forall>c \<in> set (db_credentials s'). cr_user_id c = u \<longrightarrow> cr_password_hash c = h) \<and>
     (\<forall>r \<in> set (db_sessions s). sr_user_id r \<noteq> u \<longrightarrow> r \<in> set (db_sessions s')) \<and>
     (\<forall>v. v \<noteq> u \<longrightarrow> user_by_id s' v = user_by_id s v)"

lemma find_changed_credential:
  "find (\<lambda>c. cr_user_id c = u) (update_where (\<lambda>c. cr_user_id c = u) (new_credential now h) t) =
     map_option (new_credential now h) (find (\<lambda>c. cr_user_id c = u) t)"
  by (induction t) (auto simp: update_where_def new_credential_def)

lemma user_by_id_SomeD: "user_by_id s v = Some x \<Longrightarrow> us_id x = v"
  by (auto simp: user_by_id_def find_Some_iff)

lemma credential_changed_locks_out:
  assumes "only_events (credential_changed s u h why) s'"
  shows "locked_out s s' u h"
proof -
  let ?t = "credential_changed s u h why"
  note tab = only_events_tables [OF assms]
  have users: "user_by_id s' v = map_option (\<lambda>x. if us_id x = u then bumped x else x) (user_by_id s v)" for v
    using same_catalogue_facts(1) [OF tab(14)] credential_changed_user by simp
  have creds: "db_credentials s' = update_where (\<lambda>c. cr_user_id c = u) (new_credential (db_clock s) h) (db_credentials s)"
    and rows: "db_sessions s' = map (revoked_for (db_clock s) u why) (db_sessions s)"
    using tab(4,5) by (simp_all add: credential_changed_def)
  have a: "\<not> confirm_password_authentication s' u cv sv old" if was: "confirm_password_authentication s u cv sv old" for cv sv old
  proof -
    obtain x c where x: "user_by_id s u = Some x" "find (\<lambda>c. cr_user_id c = u) (db_credentials s) = Some c"
        "cr_credential_version c = cv"
      using was by (auto simp: confirm_password_authentication_def split: option.splits)
    then have "find (\<lambda>c. cr_user_id c = u) (db_credentials s') = Some (new_credential (db_clock s) h c)"
      by (simp add: creds find_changed_credential)
    with x show ?thesis by (auto simp: confirm_password_authentication_def users new_credential_def)
  qed
  have b: "sr_revoked_at r \<noteq> None" if "r \<in> set (db_sessions s')" "sr_user_id r = u" for r
  proof -
    obtain y where "r = revoked_for (db_clock s) u why y" using \<open>r \<in> set (db_sessions s')\<close> rows by auto
    moreover from this have "sr_user_id y = u" using that(2) by simp
    ultimately show ?thesis by (simp add: revoked_for_def)
  qed
  have c: "us_id x \<noteq> u" if live: "live_session s' d = Some (r, x)" for d r x
  proof
    assume u: "us_id x = u"
    from live have r: "r \<in> set (db_sessions s')" "sr_revoked_at r = None" "user_by_id s' (sr_user_id r) = Some x"
      by (auto simp: live_session_def find_Some_iff split: option.splits if_splits)
    then show False using b [OF r(1)] user_by_id_SomeD [OF r(3)] u by simp
  qed
  have d: "cr_password_hash c = h" if "c \<in> set (db_credentials s')" "cr_user_id c = u" for c
  proof -
    have "c \<in> (\<lambda>y. if cr_user_id y = u then new_credential (db_clock s) h y else y) ` set (db_credentials s)"
      using that(1) by (simp only: creds update_where_def set_map)
    then obtain y where y: "c = (if cr_user_id y = u then new_credential (db_clock s) h y else y)" by blast
    then show ?thesis using that(2) by (cases "cr_user_id y = u") (simp_all add: new_credential_def)
  qed
  have e: "r \<in> set (db_sessions s')" if "r \<in> set (db_sessions s)" "sr_user_id r \<noteq> u" for r
  proof -
    have "revoked_for (db_clock s) u why r = r" using that(2) by (simp add: revoked_for_def)
    with that(1) show ?thesis unfolding rows by (metis image_eqI set_map)
  qed
  have f: "user_by_id s' v = user_by_id s v" if "v \<noteq> u" for v
    using that user_by_id_SomeD [of s v] by (cases "user_by_id s v") (auto simp: users)
  show ?thesis unfolding locked_out_def using a b c d e f by blast
qed

text \<open>
  The whole state after a change: the security version of the user and the version of the credential have moved on by one, the
  credential has the new hash, every live session of the user is revoked with the reason of the change, and nothing else
  differs but the given reset tokens, the identifier supply and the events.
\<close>

definition credential_rotated :: "db \<Rightarrow> db \<Rightarrow> reset_token_row list \<Rightarrow> uuid \<Rightarrow> pystr \<Rightarrow> string \<Rightarrow> bool" where
  "credential_rotated s s' tokens u h why \<longleftrightarrow> (\<exists>n events. s' = s\<lparr>
     db_users := map (\<lambda>x. if us_id x = u then x\<lparr>us_security_version := us_security_version x + 1\<rparr> else x) (db_users s),
     db_credentials := map (\<lambda>c. if cr_user_id c = u
       then c\<lparr>cr_password_hash := h, cr_credential_version := cr_credential_version c + 1, cr_changed_at := db_clock s\<rparr>
       else c) (db_credentials s),
     db_sessions := map (\<lambda>r. if sr_user_id r = u \<and> sr_revoked_at r = None
       then r\<lparr>sr_revoked_at := Some (db_clock s), sr_revoked_reason := Some (lit why)\<rparr> else r) (db_sessions s),
     db_reset_tokens := tokens, db_drawn := n, db_events := events\<rparr>)"

lemma credential_changed_rotated:
  assumes "only_events (credential_changed (s\<lparr>db_drawn := k, db_reset_tokens := tokens\<rparr>) u h why) s'"
  shows "credential_rotated s s' tokens u h why"
proof -
  obtain n events where "s' = (credential_changed (s\<lparr>db_drawn := k, db_reset_tokens := tokens\<rparr>) u h why)\<lparr>db_drawn := n, db_events := events\<rparr>"
    using assms by (auto simp: only_events_def)
  then show ?thesis
    unfolding credential_rotated_def credential_changed_def update_where_def bumped_def new_credential_def revoked_for_def revoke_record_def
    by (intro exI [of _ n] exI [of _ events]) simp
qed

lemma credential_rotated_user:
  assumes "credential_rotated s s' tokens u h why" "db_knows s u"
  shows "\<exists>x. user_by_id s u = Some x \<and> user_by_id s' u = Some (x\<lparr>us_security_version := us_security_version x + 1\<rparr>)"
proof -
  have find: "find (\<lambda>x. us_id x = u) (map (\<lambda>x. if us_id x = u then x\<lparr>us_security_version := us_security_version x + 1\<rparr> else x) t) =
      map_option (\<lambda>x. x\<lparr>us_security_version := us_security_version x + 1\<rparr>) (find (\<lambda>x. us_id x = u) t)" for t
    by (induction t) auto
  then have "user_by_id s' u = map_option (\<lambda>x. x\<lparr>us_security_version := us_security_version x + 1\<rparr>) (user_by_id s u)"
    using assms(1) by (auto simp: credential_rotated_def user_by_id_def)
  then show ?thesis using assms(2) by (auto simp: db_knows_def)
qed

lemma ids_text: "ids_fresh s \<Longrightarrow> check_uuid_text (db_ids s n)"
proof -
  assume "ids_fresh s"
  then have "check_uuid7_text (db_ids s n)" by (simp add: ids_fresh_def uuid7_text)
  then show ?thesis by (simp add: check_uuid7_text_def check_uuid_text_def)
qed

definition change_lines :: "uuid \<Rightarrow> security_reason option \<Rightarrow> security_reason \<Rightarrow> nat \<Rightarrow> event_line list" where
  "change_lines u y z n = (event_value PASSWORD_CHANGED, map_option reason_value y, Some u, None) #
     (if 0 < n then [(event_value ALL_SESSIONS_REVOKED, Some (reason_value z), Some u, None)] else [])"

lemma append_change_events:
  assumes "db_ok s" "db_knows s u" "(y, z) \<in> {(None, Y_REVOKE_ALL), (Some Y_PASSWORD_RESET, Y_PASSWORD_RESET)}"
    and "check_uuid_text c"
  shows "\<exists>s'. seq (append_drawn cx (lit ''password_changed'') (map_option reason_value y) u c) (\<lambda>_.
      seq (if 0 < n then append_drawn cx (lit ''all_sessions_revoked'') (Some (reason_value z)) u c else ret ()) f) s = f () s' \<and>
    db_ok s' \<and> only_events s s' \<and> db_logged s' = db_logged s @ change_lines u y z n"
proof -
  have p: "(PASSWORD_CHANGED, y) \<in> sql_user_events" "(ALL_SESSIONS_REVOKED, Some z) \<in> sql_user_events"
    using assms(3) by (auto simp: sql_user_events_def)
  obtain s1 where s1: "append_drawn cx (lit ''password_changed'') (map_option reason_value y) u c s = Inr ((), s1)"
    "db_ok s1" "only_events s s1" "db_logged s1 = db_logged s @ change_lines u y z 0"
    using append_drawn_ok [OF assms(1,2) p(1) assms(4), of cx] by (auto simp: change_lines_def)
  show ?thesis
  proof (cases "0 < n")
    case False
    with s1 show ?thesis by (auto simp: seq_Inr)
  next
    case True
    have "db_knows s1 u" using assms(2) same_catalogue_facts(4) [OF only_events_tables(14) [OF s1(3)]] by simp
    then obtain s2 where "append_drawn cx (lit ''all_sessions_revoked'') (Some (reason_value z)) u c s1 = Inr ((), s2)"
      "db_ok s2" "only_events s1 s2" "db_logged s2 = db_logged s1 @ [(event_value ALL_SESSIONS_REVOKED, Some (reason_value z), Some u, None)]"
      using append_drawn_ok [OF s1(2) _ p(2) assms(4), of u cx] by auto
    with True s1 show ?thesis
      using only_events_trans [OF s1(3), of s2] by (intro exI [of _ s2]) (simp add: seq_Inr change_lines_def)
  qed
qed

section \<open>Claims\<close>

text \<open>The session a password change is made with.\<close>

definition change_authorized :: "db \<Rightarrow> bytes \<Rightarrow> int \<Rightarrow> int \<Rightarrow> pystr \<Rightarrow> session_record \<Rightarrow> bool" where
  "change_authorized s d cv sv old r \<longleftrightarrow>
     r \<in> set (db_sessions s) \<and> sr_bearer_digest r = d \<and> sr_revoked_at r = None \<and>
     sr_idle_expires_at r > db_clock s \<and> sr_absolute_expires_at r > db_clock s \<and> sr_security_version r = sv \<and>
     confirm_password_authentication s (sr_user_id r) cv sv old"

lemma apply_password_change_run:
  assumes "db_ok s" "\<forall>r \<in> set (db_sessions s). sr_bearer_digest r = d \<longrightarrow> changeable s (sr_user_id r) h"
  shows "\<exists>res s'. apply_password_change cx d cv sv old h s = Inr (res, s') \<and> db_ok s' \<and>
    (case res of
       None \<Rightarrow> s' = s\<lparr>db_drawn := Suc (db_drawn s)\<rparr> \<and> \<not> (\<exists>r. change_authorized s d cv sv old r)
     | Some (u, n) \<Rightarrow> (\<exists>r. change_authorized s d cv sv old r \<and> u = sr_user_id r) \<and> n = open_sessions s u \<and>
         only_events (credential_changed s u h ''revoke_all'') s' \<and>
         db_logged s' = db_logged s @ change_lines u None Y_REVOKE_ALL n)"
proof -
  let ?s1 = "s\<lparr>db_drawn := Suc (db_drawn s)\<rparr>"
  have ok1: "db_ok ?s1" by (rule db_ok_draw [OF assms(1)])
  have uq: "unique_on sr_bearer_digest (db_sessions s)" using assms(1) by (simp add: db_ok_def sessions_ok_def)
  have none: "\<exists>res s'. apply_password_change cx d cv sv old h s = Inr (res, s') \<and> db_ok s' \<and>
      (case res of None \<Rightarrow> s' = ?s1 \<and> \<not> (\<exists>r. change_authorized s d cv sv old r)
       | Some (u, n) \<Rightarrow> False)"
    if "apply_password_change cx d cv sv old h s = Inr (None, ?s1)" "\<not> (\<exists>r. change_authorized s d cv sv old r)"
    using that ok1 by (intro exI [of _ None] exI [of _ ?s1]) simp
  have conf: "confirm_password_authentication ?s1 = confirm_password_authentication s"
    by (simp add: fun_eq_iff confirm_password_authentication_def user_by_id_def)
  show ?thesis
  proof (cases "\<exists>r. change_authorized s d cv sv old r")
    case False
    have "apply_password_change cx d cv sv old h s = Inr (None, ?s1)"
    proof (cases "find (\<lambda>r. sr_bearer_digest r = d) (db_sessions s)")
      case None
      then show ?thesis by (simp add: apply_password_change_def)
    next
      case (Some r)
      then have r: "r \<in> set (db_sessions s)" "sr_bearer_digest r = d" using find_unique [OF uq] by simp_all
      have "x = r" if "x \<in> set (db_sessions s)" "sr_bearer_digest x = d" for x
        using unique_on_eqD [OF uq that(1) r(1)] that(2) r(2) by simp
      with False have dead: "\<not> (\<exists>x \<in> set (db_sessions s). sr_bearer_digest x = d \<and> sr_user_id x = sr_user_id r \<and>
          sr_revoked_at x = None \<and> db_clock s < sr_idle_expires_at x \<and> db_clock s < sr_absolute_expires_at x \<and>
          sr_security_version x = sv)" if "confirm_password_authentication s (sr_user_id r) cv sv old"
        using that by (auto simp: change_authorized_def)
      show ?thesis
      proof (cases "confirm_password_authentication s (sr_user_id r) cv sv old")
        case True
        from dead [OF this] True Some show ?thesis
          by (simp add: apply_password_change_def Let_def conf exists_row_iff)
      next
        case False
        with Some show ?thesis by (simp add: apply_password_change_def Let_def conf)
      qed
    qed
    with False none show ?thesis by (fastforce split: option.splits)
  next
    case True
    then obtain r where r: "change_authorized s d cv sv old r" by blast
    then have f: "find (\<lambda>r. sr_bearer_digest r = d) (db_sessions s) = Some r"
      using find_unique [OF uq] by (simp add: change_authorized_def)
    let ?u = "sr_user_id r" let ?n = "open_sessions s ?u"
    have "changeable s ?u h" using assms(2) r by (simp add: change_authorized_def)
    then have ch: "changeable ?s1 ?u h" by (simp add: changeable_def)
    let ?s2 = "credential_changed ?s1 ?u h ''revoke_all''"
    have "db_knows s ?u" using assms(1) r
      by (auto simp: db_ok_def sessions_ok_def list_all_iff session_fk_iff change_authorized_def)
    then have k: "db_knows ?s2 ?u" by (simp add: db_knows_def credential_changed_user) (simp add: user_by_id_def)
    have ok2: "db_ok ?s2" by (rule credential_changed_ok [OF ok1 ch]) simp
    obtain s' where s': "seq (append_drawn cx (lit ''password_changed'') (map_option reason_value None) ?u (db_ids s (db_drawn s))) (\<lambda>_.
        seq (if 0 < ?n then append_drawn cx (lit ''all_sessions_revoked'') (Some (reason_value Y_REVOKE_ALL)) ?u (db_ids s (db_drawn s))
             else ret ()) (\<lambda>_. ret (Some (?u, ?n)))) ?s2 = ret (Some (?u, ?n)) s'"
      "db_ok s'" "only_events ?s2 s'" "db_logged s' = db_logged ?s2 @ change_lines ?u None Y_REVOKE_ALL ?n"
      using append_change_events [OF ok2 k, of None Y_REVOKE_ALL "db_ids s (db_drawn s)" cx ?n "\<lambda>_. ret (Some (?u, ?n))"]
        ids_text assms(1) by (auto simp: db_ok_def)
    have "\<exists>x \<in> set (db_sessions s). sr_bearer_digest x = d \<and> sr_user_id x = ?u \<and> sr_revoked_at x = None \<and>
        sr_idle_expires_at x > db_clock s \<and> sr_absolute_expires_at x > db_clock s \<and> sr_security_version x = sv"
      using r by (auto simp: change_authorized_def)
    moreover have "confirm_password_authentication s ?u cv sv old" using r by (simp add: change_authorized_def)
    moreover define tl where "tl = (\<lambda>count :: nat. seq (append_drawn cx (lit ''password_changed'') None ?u (db_ids s (db_drawn s))) (\<lambda>_.
        seq (if 0 < count then append_drawn cx (lit ''all_sessions_revoked'') (Some (lit ''revoke_all'')) ?u (db_ids s (db_drawn s))
             else ret ()) (\<lambda>_. ret (Some (?u, count)))))"
    ultimately have "apply_password_change cx d cv sv old h s =
        seq (replace_credential ?u h) (\<lambda>_. seq (bump_security_version ?u) (\<lambda>_.
          seq (sql_revoke_sessions ?u ''revoke_all'') tl)) ?s1"
      using f by (simp add: apply_password_change_def Let_def conf exists_row_iff)
    also have "\<dots> = tl ?n ?s2"
      unfolding credential_changed_run(2) [OF ch] by (simp add: open_sessions_def)
    also have "\<dots> = Inr (Some (?u, ?n), s')" using s'(1) by (simp only: tl_def reason_value.simps option.map ret_apply)
    finally have "apply_password_change cx d cv sv old h s = Inr (Some (?u, ?n), s')" .
    moreover have "only_events (credential_changed s ?u h ''revoke_all'') ?s2"
    proof -
      have "?s2 = (credential_changed s ?u h ''revoke_all'')\<lparr>db_drawn := Suc (db_drawn s), db_events := db_events s\<rparr>"
        by (simp add: credential_changed_def)
      then show ?thesis unfolding only_events_def by blast
    qed
    moreover have "db_logged ?s2 = db_logged s" by (simp add: db_logged_def credential_changed_def)
    ultimately show ?thesis
      using s'(2-4) r only_events_trans by (intro exI [of _ "Some (?u, ?n)"] exI [of _ s']) auto
  qed
qed

text \<open>C1. A password change takes effect exactly when the bearer's session is live at the security version the
  caller proved and the proved credential is still current; otherwise nothing but the identifier supply changes. When
  it takes effect the security version of the user and the version of the credential are one higher, the credential has
  the new hash, every live session of the user is revoked including the one used, nothing else changes, the old proof
  cannot be used again, and the audit events are written in the same transaction.\<close>

theorem password_change_revokes:
  assumes "db_ok s" "\<forall>r \<in> set (db_sessions s). sr_bearer_digest r = d \<longrightarrow> changeable s (sr_user_id r) h"
  shows "\<exists>res s'. apply_password_change cx d cv sv old h s = Inr (res, s') \<and> db_ok s' \<and>
    (case res of
       None \<Rightarrow> s' = s\<lparr>db_drawn := Suc (db_drawn s)\<rparr> \<and> \<not> (\<exists>r. change_authorized s d cv sv old r)
     | Some (u, n) \<Rightarrow> (\<exists>r. change_authorized s d cv sv old r \<and> u = sr_user_id r) \<and> n = open_sessions s u \<and>
         (\<exists>x. user_by_id s u = Some x \<and> user_by_id s' u = Some (x\<lparr>us_security_version := us_security_version x + 1\<rparr>)) \<and>
         credential_rotated s s' (db_reset_tokens s) u h ''revoke_all'' \<and> locked_out s s' u h \<and>
         db_logged s' = db_logged s @ change_lines u None Y_REVOKE_ALL n)"
proof -
  obtain res s' where A: "apply_password_change cx d cv sv old h s = Inr (res, s')" "db_ok s'"
    "case res of
       None \<Rightarrow> s' = s\<lparr>db_drawn := Suc (db_drawn s)\<rparr> \<and> \<not> (\<exists>r. change_authorized s d cv sv old r)
     | Some (u, n) \<Rightarrow> (\<exists>r. change_authorized s d cv sv old r \<and> u = sr_user_id r) \<and> n = open_sessions s u \<and>
         only_events (credential_changed s u h ''revoke_all'') s' \<and>
         db_logged s' = db_logged s @ change_lines u None Y_REVOKE_ALL n"
    using apply_password_change_run [OF assms] by blast
  have rotated: "credential_rotated s s' (db_reset_tokens s) u h ''revoke_all''" if "only_events (credential_changed s u h ''revoke_all'') s'" for u
    using credential_changed_rotated [where s = s and tokens = "db_reset_tokens s" and k = "db_drawn s"] that by simp
  have "db_knows s (sr_user_id r)" if "change_authorized s d cv sv old r" for r
    using assms(1) that by (auto simp: db_ok_def sessions_ok_def list_all_iff session_fk_iff change_authorized_def)
  then show ?thesis
    using A rotated credential_changed_locks_out credential_rotated_user [OF rotated]
    by (intro exI [of _ res] exI [of _ s']) (auto split: option.splits)
qed

lemma sample_changeable: "changeable sample_db 5 (lit ''$argon2id$new'')"
  by (simp add: changeable_def sample_db_def check_password_hash_def lit_def int4_ok_def int4_max_def)

lemma sample_authorized: "change_authorized sample_db (sha256 sample_bearer) 1 1 (lit ''h'') sample_session"
  by (simp add: change_authorized_def sample_rows sample_session_fields confirm_password_authentication_def)
    (simp add: sample_session_def new_record_def session_constants sample_db_def user_by_id_def)

theorem password_change_revokes_witness:
  "\<exists>s' x. apply_password_change sample_conn (sha256 sample_bearer) 1 1 (lit ''h'') (lit ''$argon2id$new'') sample_db =
      Inr (Some (5, 1), s') \<and> locked_out sample_db s' 5 (lit ''$argon2id$new'') \<and>
      user_by_id s' 5 = Some x \<and> us_security_version x = 2"
proof -
  have "\<forall>r \<in> set (db_sessions sample_db). sr_bearer_digest r = sha256 sample_bearer \<longrightarrow>
      changeable sample_db (sr_user_id r) (lit ''$argon2id$new'')"
    using sample_changeable by (simp add: sample_rows sample_session_fields)
  from password_change_revokes [OF sample_db_ok this, of sample_conn 1 1 "lit ''h''"]
  obtain s' where s': "apply_password_change sample_conn (sha256 sample_bearer) 1 1 (lit ''h'') (lit ''$argon2id$new'') sample_db =
      Inr (Some (5, 1), s')" "locked_out sample_db s' 5 (lit ''$argon2id$new'')"
      "\<exists>x. user_by_id sample_db 5 = Some x \<and> user_by_id s' 5 = Some (x\<lparr>us_security_version := us_security_version x + 1\<rparr>)"
    using sample_authorized
    by (auto simp: open_sessions_def sample_rows sample_session_fields change_authorized_def split: option.splits)
  moreover have "us_security_version x = 1" if "user_by_id sample_db 5 = Some x" for x
    using that by (auto simp: user_by_id_def sample_db_def)
  ultimately show ?thesis by fastforce
qed

text \<open>Resetting.\<close>

lemma find_key_and:
  assumes "unique_on key xs" "x \<in> set xs" "P x"
  shows "find (\<lambda>y. key y = key x \<and> P y) xs = Some x"
  using assms by (induction xs) (auto simp: unique_on_def)

lemma complete_password_reset_run:
  assumes "db_ok s" "unique_on rt_token_digest (db_reset_tokens s)" "unique_on rt_id (db_reset_tokens s)"
    and tok: "tok \<in> set (db_reset_tokens s)" "rt_token_digest tok = d" "open_token tok" "db_clock s < rt_expires_at tok"
    and u: "u = rt_user_id tok" "db_knows s u" "changeable s u h"
    and ev: "n < db_drawn s" "event_id = db_ids s n" "event_id \<notin> er_id ` set (db_events s)"
    and tokens: "tokens = map (\<lambda>t. if rt_id t = rt_id tok then t\<lparr>rt_consumed_at := Some (db_clock s)\<rparr>
      else if rt_user_id t = u \<and> open_token t then t\<lparr>rt_revoked_at := Some (db_clock s)\<rparr> else t) (db_reset_tokens s)"
  shows "\<exists>s'. complete_password_reset cx d h event_id s = Inr (True, s') \<and> db_ok s' \<and>
    only_events (credential_changed (s\<lparr>db_reset_tokens := tokens\<rparr>) u h ''password_reset'') s' \<and>
    db_logged s' = db_logged s @ (event_value PASSWORD_RESET_COMPLETED, Some (reason_value Y_PASSWORD_RESET), Some u, None) #
      change_lines u (Some Y_PASSWORD_RESET) Y_PASSWORD_RESET (open_sessions s u)"
proof -
  let ?c = "db_ids s (db_drawn s)"
  let ?s0 = "s\<lparr>db_drawn := Suc (db_drawn s)\<rparr>"
  let ?s1 = "?s0\<lparr>db_reset_tokens := tokens\<rparr>"
  let ?n = "open_sessions s u"
  have f: "find (\<lambda>t. rt_token_digest t = d \<and> open_token t \<and> db_clock s < rt_expires_at t) (db_reset_tokens s) = Some tok"
    using find_key_and [OF assms(2) tok(1), of "\<lambda>t. open_token t \<and> db_clock s < rt_expires_at t"] tok(2-4) by simp
  have toks: "update_where (\<lambda>t. rt_user_id t = rt_user_id tok \<and> rt_id t \<noteq> rt_id tok \<and> open_token t)
        (\<lambda>t. t\<lparr>rt_revoked_at := Some (db_clock s)\<rparr>)
      (update_where (\<lambda>t. rt_id t = rt_id tok) (\<lambda>t. t\<lparr>rt_consumed_at := Some (db_clock s)\<rparr>) (db_reset_tokens s)) = tokens"
    unfolding tokens u(1) update_where_def by (auto simp: open_token_def)
  define tl where "tl = (\<lambda>revoked :: nat. seq (append_security_event cx (user_event_row (lit ''password_reset_completed'')
           (Some (lit ''password_reset'')) u event_id ?c)) (\<lambda>_.
         seq (append_drawn cx (lit ''password_changed'') (Some (lit ''password_reset'')) u ?c) (\<lambda>_.
         seq (if 0 < revoked
              then append_drawn cx (lit ''all_sessions_revoked'') (Some (lit ''password_reset'')) u ?c
              else ret ()) (\<lambda>_. ret True))))"
  have ch: "changeable ?s1 u h" using u(3) by (simp add: changeable_def)
  let ?s2 = "credential_changed ?s1 u h ''password_reset''"
  have "complete_password_reset cx d h event_id s =
      seq (replace_credential u h) (\<lambda>ok. seq (require ok (SqlExn (RaisedBySql (lit ''credential_missing'')))) (\<lambda>_.
        seq (bump_security_version u) (\<lambda>_. seq (sql_revoke_sessions u ''password_reset'') tl))) ?s1"
    using f toks by (simp add: complete_password_reset_def tl_def u(1) cong: if_cong)
  also have "\<dots> = tl ?n ?s2"
    unfolding credential_changed_run(1) [OF ch] by (simp add: open_sessions_def)
  finally have run: "complete_password_reset cx d h event_id s = tl ?n ?s2" .
  have ok0: "db_ok ?s0" by (rule db_ok_draw [OF assms(1)])
  have "db_ok ?s1"
    using ok0 same_catalogue_facts(3) [of ?s0 ?s1] by (simp add: db_ok_def sessions_ok_def ids_fresh_def same_catalogue_def)
  then have ok2: "db_ok ?s2" by (rule credential_changed_ok [OF _ ch]) simp
  have k: "db_knows ?s2 u" using u(2) by (simp add: db_knows_def credential_changed_user) (simp add: user_by_id_def)
  have e2: "db_events ?s2 = db_events s" "db_ids ?s2 = db_ids s" "db_drawn ?s2 = Suc (db_drawn s)" "db_logged ?s2 = db_logged s"
    by (simp_all add: credential_changed_def db_logged_def)
  have c: "check_uuid_text ?c" using ids_text assms(1) by (simp add: db_ok_def)
  have "(PASSWORD_RESET_COMPLETED, Some Y_PASSWORD_RESET) \<in> sql_user_events" by (simp add: sql_user_events_def)
  from append_user_event [OF ok2 k this c, of n event_id cx] ev e2
  obtain s3 where s3: "append_security_event cx (user_event_row (lit ''password_reset_completed'') (Some (lit ''password_reset''))
      u event_id ?c) ?s2 = Inr ((), s3)" "db_ok s3" "only_events ?s2 s3"
    "db_logged s3 = db_logged s @ [(event_value PASSWORD_RESET_COMPLETED, Some (reason_value Y_PASSWORD_RESET), Some u, None)]"
    by auto
  have k3: "db_knows s3 u" using k same_catalogue_facts(4) [OF only_events_tables(14) [OF s3(3)]] by simp
  obtain s4 where s4: "tl ?n ?s2 = ret True s4" "db_ok s4" "only_events s3 s4"
    "db_logged s4 = db_logged s3 @ change_lines u (Some Y_PASSWORD_RESET) Y_PASSWORD_RESET ?n"
    using append_change_events [OF s3(2) k3, of "Some Y_PASSWORD_RESET" Y_PASSWORD_RESET ?c cx ?n "\<lambda>_. ret True"] c s3(1)
    by (auto simp: tl_def seq_Inr cong: if_cong)
  have "only_events (credential_changed (s\<lparr>db_reset_tokens := tokens\<rparr>) u h ''password_reset'') ?s2"
  proof -
    have "?s2 = (credential_changed (s\<lparr>db_reset_tokens := tokens\<rparr>) u h ''password_reset'')\<lparr>db_drawn := Suc (db_drawn s), db_events := db_events s\<rparr>"
      by (simp add: credential_changed_def)
    then show ?thesis unfolding only_events_def by blast
  qed
  then have "only_events (credential_changed (s\<lparr>db_reset_tokens := tokens\<rparr>) u h ''password_reset'') s4"
    using only_events_trans s3(3) s4(3) by blast
  with run s3(4) s4 show ?thesis by (intro exI [of _ s4]) simp
qed

lemma complete_password_reset_refused:
  assumes "\<forall>t \<in> set (db_reset_tokens s). rt_token_digest t = d \<longrightarrow> \<not> open_token t \<or> rt_expires_at t \<le> db_clock s"
  shows "complete_password_reset cx d h event_id s = Inr (False, s\<lparr>db_drawn := Suc (db_drawn s)\<rparr>)"
proof -
  have "find (\<lambda>t. rt_token_digest t = d \<and> open_token t \<and> rt_expires_at t > db_clock s) (db_reset_tokens s) = None"
    using assms by (auto simp: find_None_iff)
  then show ?thesis by (simp add: complete_password_reset_def)
qed

text \<open>A token that completes a reset: known by its digest, neither consumed nor revoked, and not yet expired.\<close>

definition usable_token :: "db \<Rightarrow> pystr \<Rightarrow> reset_token_row \<Rightarrow> bool" where
  "usable_token s t tok \<longleftrightarrow> tok \<in> set (db_reset_tokens s) \<and> rt_token_digest tok = sha256 t \<and>
     rt_consumed_at tok = None \<and> rt_revoked_at tok = None \<and> db_clock s < rt_expires_at tok"

text \<open>The tokens after a reset: the one used is consumed, the other open ones of the user are revoked.\<close>

definition tokens_spent :: "db \<Rightarrow> reset_token_row \<Rightarrow> reset_token_row list" where
  "tokens_spent s tok = map (\<lambda>x. if rt_id x = rt_id tok then x\<lparr>rt_consumed_at := Some (db_clock s)\<rparr>
     else if rt_user_id x = rt_user_id tok \<and> rt_consumed_at x = None \<and> rt_revoked_at x = None
     then x\<lparr>rt_revoked_at := Some (db_clock s)\<rparr> else x) (db_reset_tokens s)"

lemma tokens_spent_refused:
  assumes "unique_on rt_token_digest (db_reset_tokens s)" "db_reset_tokens s' = tokens_spent s tok"
    and "other \<in> set (db_reset_tokens s)" "rt_user_id other = rt_user_id tok"
  shows "complete_password_reset cx (rt_token_digest other) h e s' = Inr (False, s'\<lparr>db_drawn := Suc (db_drawn s')\<rparr>)"
proof (rule complete_password_reset_refused, intro ballI impI disjI1)
  fix y assume y: "y \<in> set (db_reset_tokens s')" "rt_token_digest y = rt_token_digest other"
  then obtain x where x: "x \<in> set (db_reset_tokens s)"
    "y = (if rt_id x = rt_id tok then x\<lparr>rt_consumed_at := Some (db_clock s)\<rparr>
     else if rt_user_id x = rt_user_id tok \<and> rt_consumed_at x = None \<and> rt_revoked_at x = None
     then x\<lparr>rt_revoked_at := Some (db_clock s)\<rparr> else x)"
    unfolding assms(2) tokens_spent_def by (auto simp only: set_map image_iff)
  then have "x = other" using y(2) unique_on_eqD [OF assms(1) x(1) assms(3)] by (auto split: if_splits)
  then show "\<not> open_token y" using x(2) assms(4) by (auto simp: open_token_def)
qed

lemma reset_service_run:
  assumes "is_ascii t" "hash_password nfc hs salt p = Inr h"
  shows "reset_service_complete nfc hs salt cx t p s =
    complete_password_reset cx (sha256 t) h (db_ids s (db_drawn s)) (s\<lparr>db_drawn := Suc (db_drawn s)\<rparr>)"
  using assms by (simp add: reset_service_complete_def seq_lift token_digest_ascii)

lemma reset_usable:
  assumes "db_ok s" "unique_on rt_token_digest (db_reset_tokens s)" "unique_on rt_id (db_reset_tokens s)"
    and "usable_token s t tok" "u = rt_user_id tok" "db_knows s u" "changeable s u h"
  shows "\<exists>s'. complete_password_reset cx (sha256 t) h (db_ids s (db_drawn s)) (s\<lparr>db_drawn := Suc (db_drawn s)\<rparr>) = Inr (True, s') \<and>
    db_ok s' \<and> credential_rotated s s' (tokens_spent s tok) u h ''password_reset'' \<and> locked_out s s' u h \<and>
    db_logged s' = db_logged s @ (event_value PASSWORD_RESET_COMPLETED, Some (reason_value Y_PASSWORD_RESET), Some u, None) #
      change_lines u (Some Y_PASSWORD_RESET) Y_PASSWORD_RESET (open_sessions s u)"
proof -
  let ?s0 = "s\<lparr>db_drawn := Suc (db_drawn s)\<rparr>"
  have k: "db_knows ?s0 u" using assms(6) same_catalogue_facts(4) [of s ?s0] by simp
  have ch: "changeable ?s0 u h" using assms(7) by (simp add: changeable_def)
  have fresh: "db_ids s (db_drawn s) \<notin> er_id ` set (db_events s)" using assms(1) by (simp add: db_ok_def ids_fresh_def)
  have tokens: "tokens_spent s tok = map (\<lambda>x. if rt_id x = rt_id tok then x\<lparr>rt_consumed_at := Some (db_clock ?s0)\<rparr>
      else if rt_user_id x = u \<and> open_token x then x\<lparr>rt_revoked_at := Some (db_clock ?s0)\<rparr> else x) (db_reset_tokens ?s0)"
    by (simp add: tokens_spent_def open_token_def assms(5))
  have tok: "tok \<in> set (db_reset_tokens ?s0)" "rt_token_digest tok = sha256 t" "open_token tok" "db_clock ?s0 < rt_expires_at tok"
    using assms(4) by (simp_all add: usable_token_def open_token_def)
  obtain s' where s': "complete_password_reset cx (sha256 t) h (db_ids s (db_drawn s)) ?s0 = Inr (True, s')" "db_ok s'"
    "only_events (credential_changed (?s0\<lparr>db_reset_tokens := tokens_spent s tok\<rparr>) u h ''password_reset'') s'"
    "db_logged s' = db_logged ?s0 @ (event_value PASSWORD_RESET_COMPLETED, Some (reason_value Y_PASSWORD_RESET), Some u, None) #
      change_lines u (Some Y_PASSWORD_RESET) Y_PASSWORD_RESET (open_sessions ?s0 u)"
    using complete_password_reset_run [OF db_ok_draw [OF assms(1)] _ _ tok assms(5) k ch, of "db_drawn s" "db_ids s (db_drawn s)"
      "tokens_spent s tok" cx] assms(2,3) tokens fresh by auto
  have "locked_out s s' u h"
    using credential_changed_locks_out [OF s'(3)] by (simp add: locked_out_def confirm_password_authentication_def user_by_id_def)
  moreover have "credential_rotated s s' (tokens_spent s tok) u h ''password_reset''"
    by (rule credential_changed_rotated [OF s'(3)])
  ultimately show ?thesis using s' by (simp add: db_logged_def open_sessions_def)
qed

text \<open>C15. With a new password that hashes, a reset completes exactly when the token is known, neither consumed nor revoked, and
  not expired; otherwise nothing but the identifier supply changes. When it completes it is final for the user: the
  security version and the version of the credential are one higher, the credential has the new hash, every live session is
  revoked, the token is consumed and the other open ones of the user are revoked, nothing else changes, the completion, the
  change and the revocation are recorded, and no reset token of the user works any more, neither this one nor another.\<close>

theorem password_reset_completes:
  assumes "db_ok s" "unique_on rt_token_digest (db_reset_tokens s)" "unique_on rt_id (db_reset_tokens s)"
    and "is_ascii t" "hash_password nfc hs salt p = Inr h"
    and "\<forall>tok \<in> set (db_reset_tokens s). rt_token_digest tok = sha256 t \<longrightarrow>
      db_knows s (rt_user_id tok) \<and> changeable s (rt_user_id tok) h"
  shows "\<exists>completed s'. reset_service_complete nfc hs salt cx t p s = Inr (completed, s') \<and> db_ok s' \<and>
    (completed \<longleftrightarrow> (\<exists>tok. usable_token s t tok)) \<and>
    (\<not> completed \<longrightarrow> s' = s\<lparr>db_drawn := db_drawn s + 2\<rparr>) \<and>
    (\<forall>tok u. usable_token s t tok \<and> u = rt_user_id tok \<longrightarrow>
       (\<exists>x. user_by_id s u = Some x \<and> user_by_id s' u = Some (x\<lparr>us_security_version := us_security_version x + 1\<rparr>)) \<and>
       credential_rotated s s' (tokens_spent s tok) u h ''password_reset'' \<and> locked_out s s' u h \<and>
       db_logged s' = db_logged s @ (event_value PASSWORD_RESET_COMPLETED, Some (reason_value Y_PASSWORD_RESET), Some u, None) #
         change_lines u (Some Y_PASSWORD_RESET) Y_PASSWORD_RESET (open_sessions s u) \<and>
       (\<forall>other \<in> set (db_reset_tokens s). rt_user_id other = u \<longrightarrow> (\<forall>h2 e2.
          complete_password_reset cx (rt_token_digest other) h2 e2 s' = Inr (False, s'\<lparr>db_drawn := Suc (db_drawn s')\<rparr>))))"
    (is "\<exists>completed s'. _ \<and> _ \<and> _ \<and> _ \<and> (\<forall>tok u. ?used tok u \<longrightarrow> ?final tok u s')")
proof (cases "\<exists>tok. usable_token s t tok")
  case False
  let ?s0 = "s\<lparr>db_drawn := Suc (db_drawn s)\<rparr>"
  have "\<forall>x \<in> set (db_reset_tokens ?s0). rt_token_digest x = sha256 t \<longrightarrow> \<not> open_token x \<or> rt_expires_at x \<le> db_clock ?s0"
    using False by (auto simp: usable_token_def open_token_def not_less)
  from complete_password_reset_refused [OF this] False show ?thesis
    using db_ok_draw [OF db_ok_draw [OF assms(1)]]
    by (intro exI [of _ False] exI [of _ "s\<lparr>db_drawn := db_drawn s + 2\<rparr>"]) (simp add: reset_service_run [OF assms(4,5)])
next
  case True
  then obtain tok where tok: "usable_token s t tok" by blast
  let ?u = "rt_user_id tok"
  have only: "x = tok" if "usable_token s t x" for x
    using that tok by (intro unique_on_eqD [OF assms(2)]) (simp_all add: usable_token_def)
  have u: "db_knows s ?u" "changeable s ?u h" using assms(6) tok by (simp_all add: usable_token_def)
  obtain s' where s': "complete_password_reset cx (sha256 t) h (db_ids s (db_drawn s)) (s\<lparr>db_drawn := Suc (db_drawn s)\<rparr>) = Inr (True, s')"
    "db_ok s'" "credential_rotated s s' (tokens_spent s tok) ?u h ''password_reset''" "locked_out s s' ?u h"
    "db_logged s' = db_logged s @ (event_value PASSWORD_RESET_COMPLETED, Some (reason_value Y_PASSWORD_RESET), Some ?u, None) #
      change_lines ?u (Some Y_PASSWORD_RESET) Y_PASSWORD_RESET (open_sessions s ?u)"
    using reset_usable [OF assms(1-3) tok refl u] by blast
  have "db_reset_tokens s' = tokens_spent s tok" using s'(3) by (auto simp: credential_rotated_def)
  note refused = tokens_spent_refused [OF assms(2) this]
  have "?final tok ?u s'"
    using credential_rotated_user [OF s'(3) u(1)] s'(3-5) refused by (intro conjI ballI allI impI)
  then have "\<forall>x v. ?used x v \<longrightarrow> ?final x v s'" using only by blast
  then show ?thesis
    using s'(1,2) True by (intro exI [of _ True] exI [of _ s']) (simp only: reset_service_run [OF assms(4,5)] simp_thms)
qed

definition sample_token :: reset_token_row where
  "sample_token = \<lparr>rt_id = 70, rt_user_id = 5, rt_token_digest = sha256 (token [7]), rt_created_at = 1000,
     rt_expires_at = 1000 + minutes 15, rt_consumed_at = None, rt_revoked_at = None\<rparr>"

lemma sample_reset:
  assumes "rt_user_id tok = 5"
  shows "db_ok (sample_db\<lparr>db_reset_tokens := [tok]\<rparr>)" "unique_on rt_token_digest [tok]" "unique_on rt_id [tok]"
    "\<forall>x \<in> set [tok]. rt_token_digest x = d \<longrightarrow> db_knows (sample_db\<lparr>db_reset_tokens := [tok]\<rparr>) (rt_user_id x) \<and>
       changeable (sample_db\<lparr>db_reset_tokens := [tok]\<rparr>) (rt_user_id x) (lit ''$argon2id$'' @ replicate 15 97)"
  using sample_db_ok same_catalogue_facts(3) [of sample_db "sample_db\<lparr>db_reset_tokens := [tok]\<rparr>"] assms
  by (simp_all add: db_ok_def sessions_ok_def ids_fresh_def same_catalogue_def unique_on_def)
    (simp add: changeable_def db_knows_def user_by_id_def sample_db_def check_password_hash_def lit_def int4_ok_def int4_max_def)

text \<open>One second before it expires the token works, when it expires it does not.\<close>

theorem password_reset_completes_witness:
  "(\<exists>s' x. reset_service_complete id plain_hasher [] sample_conn (token [7]) (replicate 15 97)
      (sample_db\<lparr>db_reset_tokens := [sample_token\<lparr>rt_expires_at := 2001\<rparr>]\<rparr>) = Inr (True, s') \<and>
      user_by_id s' 5 = Some x \<and> us_security_version x = 2 \<and>
      (\<forall>r \<in> set (db_sessions s'). sr_user_id r = 5 \<longrightarrow> sr_revoked_at r \<noteq> None)) \<and>
   (\<exists>s'. reset_service_complete id plain_hasher [] sample_conn (token [7]) (replicate 15 97)
      (sample_db\<lparr>db_reset_tokens := [sample_token\<lparr>rt_expires_at := 2000\<rparr>]\<rparr>) = Inr (False, s'))"
proof -
  let ?tok = "\<lambda>e. sample_token\<lparr>rt_expires_at := e\<rparr>"
  let ?s = "\<lambda>e. sample_db\<lparr>db_reset_tokens := [?tok e]\<rparr>"
  have h: "hash_password id plain_hasher [] (replicate 15 97) = Inr (lit ''$argon2id$'' @ replicate 15 97)"
    by (simp add: hash_password_def normalize_password_def Let_def MIN_PASSWORD_CODE_POINTS_def
        MAX_PASSWORD_CODE_POINTS_def plain_hasher_def)
  have u: "rt_user_id (?tok e) = 5" for e by (simp add: sample_token_def)
  have usable: "usable_token (?s e) (token [7]) x \<longleftrightarrow> x = ?tok e \<and> 2000 < e" for e x
    by (auto simp: usable_token_def sample_token_def sample_db_def)
  have "\<exists>completed s'. reset_service_complete id plain_hasher [] sample_conn (token [7]) (replicate 15 97) (?s e) = Inr (completed, s') \<and>
      (completed \<longleftrightarrow> 2000 < e) \<and> (2000 < e \<longrightarrow>
        (\<exists>x. user_by_id (?s e) 5 = Some x \<and> user_by_id s' 5 = Some (x\<lparr>us_security_version := us_security_version x + 1\<rparr>)) \<and>
        locked_out (?s e) s' 5 (lit ''$argon2id$'' @ replicate 15 97))" for e
    using password_reset_completes [of "?s e" "token [7]" id plain_hasher "[]" "replicate 15 97" _ sample_conn, OF _ _ _ is_ascii_token h]
      sample_reset [OF u] usable u by simp blast
  from this [of 2001] this [of 2000] show ?thesis
    by (auto simp: locked_out_def user_by_id_def sample_db_def)
qed

section \<open>Throttling decisions\<close>

lemmas bare_event_defs = validate_event_def valid_outcome_def valid_links_def identity_args_def
  valid_permission_def valid_subject_def valid_count_def no_event_args_def policy_def reason_allowed_def
  given_def alien_def role_event_types_def membership_role_event_types_def role_permission_event_types_def

lemma bare_event_ok:
  assumes "(t, r, y) \<in> insert (LOGIN_FAILURE, R_FAILURE, Y_INVALID_CREDENTIALS)
      (range (\<lambda>sc. (THROTTLING_TRIGGERED, R_DENIED, throttle_reason sc)))"
  shows "\<exists>e. SecurityAuditEvent ((no_event_args t r)\<lparr>ea_reason_code := Proper y\<rparr>) False = Inr e \<and> session_only e \<and>
    ae_user_id e = None \<and> ae_session_id e = None \<and> ae_role_id e = None \<and>
    line_of e = (event_value t, Some (reason_value y), None, None)"
proof -
  let ?a = "(no_event_args t r)\<lparr>ea_reason_code := Proper y\<rparr>"
  define e where "e = \<lparr>ae_event_type = t, ae_result = r, ae_reason_code = Some y, ae_user_id = None,
    ae_session_id = None, ae_membership_id = None, ae_role_id = None, ae_target_membership_id = None,
    ae_permission_id = None, ae_subject_digest = None, ae_subject_kind = None,
    ae_subject_key_id = None, ae_affected_count = None\<rparr>"
  have v: "validate_event ?a"
  proof (cases "t = LOGIN_FAILURE")
    case True
    then show ?thesis using assms by (auto simp: bare_event_defs)
  next
    case False
    then obtain sc where "t = THROTTLING_TRIGGERED" "r = R_DENIED" "y = throttle_reason sc" using assms by auto
    then show ?thesis by (cases sc) (simp_all add: bare_event_defs)
  qed
  have "SecurityAuditEvent ?a False = Inr e"
    using v by (simp add: SecurityAuditEvent_def no_event_args_def e_def)
  moreover have "args_of e = ?a" by (simp add: args_of_def e_def no_event_args_def of_option_def)
  then have "event_ok e" using v by (simp add: event_ok_def)
  ultimately show ?thesis
    using assms by (auto simp: session_only_def e_def line_of_def role_event_types_def)
qed

lemma only_events_drawn: "only_events (s\<lparr>db_drawn := n\<rparr>) s' \<Longrightarrow> only_events s s'"
  by (rule only_events_trans [OF only_events_draw])

lemma append_only_events:
  assumes "append_security_event cx (event_to_row e i c 0) s = Inr (x, s')" "ae_role_id e = None"
  shows "only_events s s'"
proof -
  have "s' = s\<lparr>db_drawn := db_drawn s, db_events := db_events s'\<rparr>"
    using assms by (auto simp: append_security_event_def validate_security_event_insert_def seq_eq_Inr
        require_def event_to_row_def split: if_splits)
  then show ?thesis unfolding only_events_def by blast
qed

lemma writer_only_events:
  assumes "writer_write cx w e s = Inr (x, s')" "ae_role_id e = None"
  shows "only_events s s'"
proof -
  obtain i c t where "only_events s t" "append_security_event cx (event_to_row e i c 0) t = Inr ((), s')"
    using assms(1)
    by (auto simp: writer_write_def require_transaction_def seq_eq_Inr require_def guard_sql_def draw_id_def
        split: if_splits sum.splits bool.splits option.splits prod.splits)
      (metis only_events_draw only_events_refl)+
  with append_only_events [OF _ assms(2)] show ?thesis using only_events_trans by blast
qed

lemma write_only_events:
  assumes "pg_write_security_event cx e s = Inr (x, s')" "ae_role_id e = None"
  shows "only_events s s'"
proof -
  obtain w t where "only_events s t" "\<exists>w'. writer_write cx w e t = Inr (w', s')"
    using assms(1)
    by (auto simp: pg_write_security_event_def new_writer_def seq_eq_Inr draw_id_def split: option.splits)
      (metis only_events_draw only_events_refl)+
  with writer_only_events [OF _ assms(2)] show ?thesis using only_events_trans by blast
qed

definition bucket_count :: "db \<Rightarrow> throttle_scope \<Rightarrow> bytes \<Rightarrow> time \<Rightarrow> int" where
  "bucket_count s sc key start =
     (case find (same_bucket (scope_value sc) key start) (db_throttles s) of None \<Rightarrow> 0 | Some b \<Rightarrow> tb_request_count b)"

lemma scope_value_inj [simp]: "scope_value a = scope_value b \<longleftrightarrow> a = b"
  by (cases a; cases b) simp_all

lemma find_bucket_bumped:
  "find (same_bucket sc k st) (update_where (same_bucket sc' k' st') (\<lambda>x. x\<lparr>tb_request_count := tb_request_count x + 1\<rparr>) t) =
     map_option (\<lambda>b. if same_bucket sc' k' st' b then b\<lparr>tb_request_count := tb_request_count b + 1\<rparr> else b)
       (find (same_bucket sc k st) t)"
  by (induction t) (auto simp: update_where_def same_bucket_def)

lemma find_append: "find P (xs @ ys) = (case find P xs of None \<Rightarrow> find P ys | Some x \<Rightarrow> Some x)"
  by (induction xs) auto

lemma db_ok_throttles: "db_ok s \<Longrightarrow> db_ok (s\<lparr>db_throttles := t\<rparr>)"
  using same_catalogue_facts(3) [of s "s\<lparr>db_throttles := t\<rparr>"]
  by (simp add: db_ok_def sessions_ok_def ids_fresh_def same_catalogue_def)

lemma consume_throttle_ok:
  assumes "length key = 32" "- 32768 \<le> key_id" "key_id \<le> 32767" "start = window_start (db_clock s) window"
    and "n = bucket_count s sc key start" "int4_ok (n + 1)"
  shows "\<exists>t d. consume_throttle (scope_value sc) key key_id limit window s = Inr (d, s\<lparr>db_throttles := t\<rparr>) \<and>
    td_allowed d = (n + 1 \<le> limit) \<and> td_request_count d = n + 1 \<and> 1 \<le> td_retry_after_seconds d \<and>
    (\<forall>sc' k st. bucket_count (s\<lparr>db_throttles := t\<rparr>) sc' k st =
       (if sc' = sc \<and> k = key \<and> st = start then n + 1 else bucket_count s sc' k st))"
proof (cases "find (same_bucket (scope_value sc) key start) (db_throttles s)")
  case None
  let ?b = "\<lparr>tb_scope = scope_value sc, tb_key_digest = key, tb_window_started_at = start, tb_key_id = key_id,
    tb_request_count = 1, tb_expires_at = start + seconds window + seconds (48 * 3600)\<rparr>"
  have "bucket_count (s\<lparr>db_throttles := db_throttles s @ [?b]\<rparr>) sc' k st =
      (if sc' = sc \<and> k = key \<and> st = start then n + 1 else bucket_count s sc' k st)" for sc' k st
    using None assms(5) by (auto simp: bucket_count_def find_append same_bucket_def split: option.splits)
  moreover have "n = 0" using None assms(5) by (simp add: bucket_count_def)
  ultimately show ?thesis
    using None assms(1-4) by (intro exI [of _ "db_throttles s @ [?b]"])
      (simp add: consume_throttle_def Let_def seq_require seq_def)
next
  case (Some b)
  let ?t = "update_where (same_bucket (scope_value sc) key start) (\<lambda>x. x\<lparr>tb_request_count := tb_request_count x + 1\<rparr>) (db_throttles s)"
  have n: "n = tb_request_count b" using Some assms(5) by (simp add: bucket_count_def)
  have "bucket_count (s\<lparr>db_throttles := ?t\<rparr>) sc' k st =
      (if sc' = sc \<and> k = key \<and> st = start then n + 1 else bucket_count s sc' k st)" for sc' k st
  proof (cases "find (same_bucket (scope_value sc') k st) (db_throttles s)")
    case None
    with Some show ?thesis by (auto simp: bucket_count_def find_bucket_bumped)
  next
    case (Some b')
    then have "same_bucket (scope_value sc') k st b'" by (auto simp: find_Some_iff)
    with Some n \<open>find (same_bucket (scope_value sc) key start) (db_throttles s) = Some b\<close> show ?thesis
      by (auto simp: bucket_count_def find_bucket_bumped same_bucket_def)
  qed
  then show ?thesis
    using Some n assms(1-4,6) by (intro exI [of _ ?t])
      (simp add: consume_throttle_def Let_def seq_require seq_def)
qed

lemma throttle_consume_ok:
  assumes "conn_ok cx" "db_ok s" "32 \<le> length key" "- 32768 \<le> key_id" "key_id \<le> 32767"
    and "sensitive_key_digest key sc value = Inr k" "throttle_policies sc = (limit, window)"
    and "start = window_start (db_clock s) window" "n = bucket_count s sc k start" "int4_ok (n + 1)"
  shows "\<exists>d s'. throttle_consume cx key key_id sc value s = Inr (d, s') \<and> db_ok s' \<and>
    td_allowed d = (n + 1 \<le> limit) \<and>
    (\<forall>sc' k' st. bucket_count s' sc' k' st = (if sc' = sc \<and> k' = k \<and> st = start then n + 1 else bucket_count s sc' k' st)) \<and>
    db_logged s' = db_logged s @ (if n + 1 \<le> limit then [] else
      [(event_value THROTTLING_TRIGGERED, Some (reason_value (throttle_reason sc)), None, None)]) \<and>
    only_events (s\<lparr>db_throttles := db_throttles s'\<rparr>) s'"
proof -
  have "length k = 32" using assms(6) by (auto simp: sensitive_key_digest_def split: option.splits)
  then obtain t d where td: "consume_throttle (scope_value sc) k key_id limit window s = Inr (d, s\<lparr>db_throttles := t\<rparr>)"
    "td_allowed d = (n + 1 \<le> limit)"
    "\<forall>sc' k' st. bucket_count (s\<lparr>db_throttles := t\<rparr>) sc' k' st =
       (if sc' = sc \<and> k' = k \<and> st = start then n + 1 else bucket_count s sc' k' st)"
    using consume_throttle_ok [OF _ assms(4,5,8-10), of limit] by blast
  let ?s1 = "s\<lparr>db_throttles := t\<rparr>"
  have ok1: "db_ok ?s1" by (rule db_ok_throttles [OF assms(2)])
  have go: "throttle_consume cx key key_id sc value s =
      seq (if \<not> td_allowed d then write_bare_event cx THROTTLING_TRIGGERED R_DENIED (throttle_reason sc) else ret ()) (\<lambda>_. ret d) ?s1"
    using assms(3,6,7) td(1) by (simp add: throttle_consume_def throttle_store_consume_def seq_require seq_lift seq_Inr)
  show ?thesis
  proof (cases "td_allowed d")
    case True
    with go td ok1 show ?thesis by (intro exI [of _ d] exI [of _ ?s1]) (simp add: db_logged_def)
  next
    case False
    obtain e where e: "SecurityAuditEvent ((no_event_args THROTTLING_TRIGGERED R_DENIED)\<lparr>ea_reason_code := Proper (throttle_reason sc)\<rparr>) False = Inr e"
      "session_only e" "ae_user_id e = None" "ae_session_id e = None" "ae_role_id e = None"
      "line_of e = (event_value THROTTLING_TRIGGERED, Some (reason_value (throttle_reason sc)), None, None)"
      using bare_event_ok [of THROTTLING_TRIGGERED R_DENIED "throttle_reason sc"] by auto
    obtain s2 where s2: "pg_write_security_event cx e ?s1 = Inr ((), s2)" "db_ok s2"
      "db_logged s2 = db_logged ?s1 @ [line_of e]"
      using pg_write_law [OF ok1 assms(1) e(2)] e(3,4) by auto
    have oe: "only_events ?s1 s2" by (rule write_only_events [OF s2(1) e(5)])
    then have th: "db_throttles s2 = t" using only_events_tables(8) by fastforce
    then have "bucket_count s2 = bucket_count ?s1" by (simp add: fun_eq_iff bucket_count_def)
    moreover have "write_bare_event cx THROTTLING_TRIGGERED R_DENIED (throttle_reason sc) ?s1 = Inr ((), s2)"
      using e(1) s2(1) by (simp add: write_bare_event_def seq_lift pg_write_security_event_def)
    ultimately show ?thesis
      using False go td s2 e(6) oe th by (intro exI [of _ d] exI [of _ s2]) (simp add: seq_Inr db_logged_def)
  qed
qed

text \<open>A run of requests, each at its own time.\<close>

fun throttle_run ::
  "conn \<Rightarrow> bytes \<Rightarrow> int \<Rightarrow> throttle_scope \<Rightarrow> pystr \<Rightarrow> time list \<Rightarrow> db \<Rightarrow> exn + (bool list \<times> db)" where
  "throttle_run cx key key_id sc value [] s = Inr ([], s)"
| "throttle_run cx key key_id sc value (t # ts) s =
     (case throttle_consume cx key key_id sc value (s\<lparr>db_clock := t\<rparr>) of
        Inl e \<Rightarrow> Inl e
      | Inr (d, s') \<Rightarrow>
          (case throttle_run cx key key_id sc value ts s' of
             Inl e \<Rightarrow> Inl e | Inr (ds, s'') \<Rightarrow> Inr (td_allowed d # ds, s'')))"

lemma db_ok_clock: "db_ok s \<Longrightarrow> db_ok (s\<lparr>db_clock := t\<rparr>)"
  using same_catalogue_facts(3) [of s "s\<lparr>db_clock := t\<rparr>"]
  by (simp add: db_ok_def sessions_ok_def ids_fresh_def same_catalogue_def)

lemma throttle_run_ok:
  assumes "conn_ok cx" "32 \<le> length key" "- 32768 \<le> key_id" "key_id \<le> 32767"
    and "sensitive_key_digest key sc value = Inr k" "throttle_policies sc = (limit, window)"
    and "\<forall>t \<in> set ts. window_start t window = start" "db_ok s" "bucket_count s sc k start = int n" "int4_ok (int (n + length ts))"
  shows "\<exists>s'. throttle_run cx key key_id sc value ts s = Inr (map (\<lambda>i. int (n + i) < limit) [0..<length ts], s') \<and> db_ok s' \<and>
    bucket_count s' sc k start = int (n + length ts)"
  using assms(7-10)
proof (induction ts arbitrary: s n)
  case Nil
  then show ?case by simp
next
  case (Cons t ts)
  let ?s = "s\<lparr>db_clock := t\<rparr>"
  have c: "bucket_count ?s sc k start = int n" using Cons.prems(3) by (simp add: bucket_count_def)
  have i: "int4_ok (int n + 1)" using Cons.prems(4) by (simp add: int4_ok_def)
  obtain d s1 where s1: "throttle_consume cx key key_id sc value ?s = Inr (d, s1)" "db_ok s1"
    "td_allowed d = (int n + 1 \<le> limit)" "bucket_count s1 sc k start = int n + 1"
    using throttle_consume_ok [OF assms(1) db_ok_clock [OF Cons.prems(2), of t] assms(2-6) _ _ i, of start] c Cons.prems(1) by auto
  obtain s2 where s2: "throttle_run cx key key_id sc value ts s1 = Inr (map (\<lambda>i. int (Suc n + i) < limit) [0..<length ts], s2)"
    "db_ok s2" "bucket_count s2 sc k start = int (Suc n + length ts)"
    using Cons.IH [OF _ s1(2), of "Suc n"] Cons.prems s1(4) by auto
  have "map (\<lambda>i. int (n + i) < limit) [0..<length (t # ts)] = (int n < limit) # map (\<lambda>i. int (Suc n + i) < limit) [0..<length ts]"
    by (simp add: upt_conv_Cons map_Suc_upt [symmetric] del: upt_Suc) (simp add: algebra_simps)
  moreover have "td_allowed d = (int n < limit)" using s1(3) by auto
  ultimately show ?case using s1(1) s2 by simp
qed

text \<open>C16. Within one window a caller gets exactly the scope's limit of permitted requests: of any number of requests at
  times in the same window with a fresh bucket, the first ones up to the limit are allowed and every later one
  is refused.\<close>

theorem throttle_limits:
  assumes "conn_ok cx" "db_ok s" "32 \<le> length key" "- 32768 \<le> key_id" "key_id \<le> 32767"
    and "sensitive_key_digest key sc value = Inr k"
    and "\<forall>t \<in> set ts. window_start t (snd (throttle_policies sc)) = start" "bucket_count s sc k start = 0"
    and "int (length ts) \<le> int4_max"
  shows "\<exists>s'. throttle_run cx key key_id sc value ts s =
    Inr (map (\<lambda>i. int i < fst (throttle_policies sc)) [0..<length ts], s') \<and> db_ok s'"
  using throttle_run_ok [OF assms(1,3-6), of "fst (throttle_policies sc)" "snd (throttle_policies sc)" ts start s 0] assms
  by (auto simp: int4_ok_def)

theorem throttle_limits_witness:
  "\<exists>s'. throttle_run sample_conn (replicate 32 1) 1 S_RESET_USERNAME [97] [5, 6, 7, 8, 9] sample_db =
     Inr ([True, True, True, False, False], s')"
proof -
  have k: "sensitive_key_digest (replicate 32 1) S_RESET_USERNAME [97] =
      Inr (hmac_sha256 (replicate 32 1) (lit ''reset_username'' @ [0] @ [97]))"
    by (simp add: sensitive_key_digest_def utf8_char_def)
  have w: "\<forall>t \<in> set [5, 6, 7, 8, 9]. window_start t (snd (throttle_policies S_RESET_USERNAME)) = 0"
    by (simp add: window_start_def seconds_def)
  have "bucket_count sample_db S_RESET_USERNAME k 0 = 0" for k by (simp add: bucket_count_def sample_db_def)
  from throttle_limits [OF sample_conn_ok sample_db_ok _ _ _ k w this, of 1] show ?thesis
    by (auto simp: int4_max_def upt_rec simp del: throttle_run.simps)
qed

end
