(* ===== verification/RequestAudit.thy ===== *)
theory RequestAudit
  imports Tenants Controls
begin

text \<open>
  \<open>audit/request_events.py\<close>, \<open>db/authenticated_access.py\<close> and \<open>db/tenant_transaction.py\<close>: requests as
  sequences of transactions, the transaction that records a denial durably after the rejected work was
  rolled back, the denial auditor, and the transaction bound to a tenant.
\<close>

section \<open>Requests as sequences of transactions\<close>

text \<open>
  A request commits any number of transactions. Its result is a value or an exception together with the
  database it leaves: an exception rolls back the transaction it leaves, not those committed before.
  \<open>others f\<close> is the point between two transactions where other requests commit \<open>f\<close>.
\<close>

type_synonym 'a proc = "(exn, db, 'a) steps"

definition others :: "(db \<Rightarrow> db) \<Rightarrow> unit proc" where
  "others f s = (Inr (), f s)"

named_theorems proc_simps \<open>equations that run a request on a state\<close>

lemma others_apply [simp, proc_simps]: "others f s = (Inr (), f s)"
  by (simp add: others_def)

lemma pseq_others [simp, proc_simps]: "pseq (others g) f s = f () (g s)"
  by (simp add: pseq_def)

lemmas [proc_simps] = proc_basics pseq_basics pseq_plift

section \<open>Frames\<close>

text \<open>What an action leaves alone when it returns.\<close>

definition frame :: "(db \<Rightarrow> 'c) \<Rightarrow> (exn, db, 'a) action \<Rightarrow> bool" where
  "frame f m \<longleftrightarrow> (\<forall>s x s'. m s = Inr (x, s') \<longrightarrow> f s' = f s)"

named_theorems frame_intros \<open>actions that leave a part of the database alone\<close>

lemma frameD: "frame f m \<Longrightarrow> m s = Inr (x, s') \<Longrightarrow> f s' = f s"
  unfolding frame_def by blast

lemma frame_basics [frame_intros]:
  "frame f (ret x)" "frame f (raise e)" "frame f (lift_result r)" "frame f (require b e)" "frame f (read_db g)"
  by (auto simp: frame_def require_def lift_result_eq_Inr split: if_splits)

lemma frame_seq [frame_intros]: "frame f m \<Longrightarrow> (\<And>x. frame f (g x)) \<Longrightarrow> frame f (seq m g)"
  unfolding frame_def seq_eq_Inr by metis

lemma frame_if [frame_intros]: "(b \<Longrightarrow> frame f m) \<Longrightarrow> (\<not> b \<Longrightarrow> frame f n) \<Longrightarrow> frame f (if b then m else n)"
  by simp

lemma frame_option [frame_intros]:
  "frame f m \<Longrightarrow> (\<And>x. frame f (g x)) \<Longrightarrow> frame f (case o' of None \<Rightarrow> m | Some x \<Rightarrow> g x)"
  by (cases o') simp_all

lemma frame_write: "(\<And>s. f (g s) = f s) \<Longrightarrow> frame f (write_db g)"
  by (simp add: frame_def)

lemma frame_draw_id: "(\<And>s n. f (s\<lparr>db_drawn := n\<rparr>) = f s) \<Longrightarrow> frame f draw_id"
  by (simp add: frame_def draw_id_def)

lemma frame_guard_sql: "frame f m \<Longrightarrow> frame f (guard_sql m)"
  unfolding frame_def guard_sql_def by (auto split: sum.splits)

text \<open>A committed or rolled back transaction keeps what its action keeps.\<close>

lemma frame_transact: "frame f m \<Longrightarrow> transact m s = (r, s') \<Longrightarrow> f s' = f s"
  by (auto simp: frame_def transact_def split: sum.splits)

section \<open>Denial events\<close>

text \<open>An event about a user and a session, through the validating constructor.\<close>

definition actor_event ::
  "security_event_type \<Rightarrow> security_event_result \<Rightarrow> security_reason option \<Rightarrow> uuid option \<Rightarrow> uuid option \<Rightarrow> exn + audit_event" where
  "actor_event t r reason user session =
     SecurityAuditEvent ((no_event_args t r)
       \<lparr>ea_reason_code := of_option reason, ea_user_id := of_option user, ea_session_id := of_option session\<rparr>) False"

text \<open>\<open>_denial\<close>: which event and reason a rejected request is recorded under.\<close>

definition denial_kind ::
  "(pystr \<Rightarrow> bool) \<Rightarrow> settings \<Rightarrow> exn \<Rightarrow> request option \<Rightarrow> bool \<Rightarrow> exn + security_event_type \<times> security_reason" where
  "denial_kind nok se error rq origin_failure =
     (if origin_failure then Inr (ORIGIN_REJECTED, Y_ORIGIN_DENIED)
      else if error = AppExn CsrfRejectedError then
        (case rq of
           None \<Rightarrow> Inr (CSRF_REJECTED, Y_CSRF_INVALID)
         | Some r \<Rightarrow>
             (case validate_origin nok r (auth_origin_list se) (se_auth_local_http_origin se) of
                Inr _ \<Rightarrow> Inr (CSRF_REJECTED,
                  if header r CSRF_HEADER \<in> {None, Some []} then Y_CSRF_MISSING else Y_CSRF_INVALID)
              | Inl e \<Rightarrow> if e = AppExn CsrfRejectedError then Inr (ORIGIN_REJECTED, Y_ORIGIN_DENIED) else Inl e))
      else Inr (MEMBERSHIP_DENIED, Y_MEMBERSHIP_UNAVAILABLE))"

definition denial ::
  "(pystr \<Rightarrow> bool) \<Rightarrow> settings \<Rightarrow> exn \<Rightarrow> request option \<Rightarrow> session_record option \<Rightarrow> bool \<Rightarrow> exn + audit_event" where
  "denial nok se error rq identity origin_failure =
     and_then (denial_kind nok se error rq origin_failure) (\<lambda>(kind, reason).
       actor_event kind R_DENIED (Some reason) (map_option sr_user_id identity) (map_option sr_id identity))"

text \<open>A transaction of its own; a failing audit write is logged and does not replace the denial.\<close>

definition audit_failure :: "exn \<Rightarrow> bool" where
  "audit_failure e \<longleftrightarrow> is_sqlalchemy_error e \<or> e = AuditWriteFailed"

definition durable_event :: "conn \<Rightarrow> exn + audit_event \<Rightarrow> unit proc" where
  "durable_event cx ev =
     pcatch (transact (seq (lift_result ev) (pg_write_security_event cx)))
       (\<lambda>e. if audit_failure e then pret () else pfail e)"

text \<open>
  The body of an audited transaction: the identity it set before it ended, and how it ended. The
  identity survives the exception, the database changes do not.
\<close>

type_synonym 'a audited_body = "db \<Rightarrow> session_record option \<times> (exn + 'a \<times> db)"

definition identified ::
  "('b \<Rightarrow> session_record) \<Rightarrow> (exn, db, 'b) action \<Rightarrow> ('b \<Rightarrow> (exn, db, 'a) action) \<Rightarrow> 'a audited_body" where
  "identified session_of first rest s =
     (case first s of Inl e \<Rightarrow> (None, Inl e) | Inr (r, s') \<Rightarrow> (Some (session_of r), rest r s'))"

definition audited_errors :: "exn list" where
  "audited_errors = [AppExn TenantAccessDeniedError, AppExn CsrfRejectedError, AppExn TenantContextChangedError]"

definition audited_auth_transaction ::
  "(pystr \<Rightarrow> bool) \<Rightarrow> settings \<Rightarrow> conn \<Rightarrow> request option \<Rightarrow> 'a audited_body \<Rightarrow> 'a proc" where
  "audited_auth_transaction nok se cx rq body s =
     (case body s of
        (_, Inr (x, s')) \<Rightarrow> (Inr x, s')
      | (identity, Inl e) \<Rightarrow>
          if e \<in> set audited_errors
          then pseq (durable_event cx (denial nok se e rq identity False)) (\<lambda>_. pfail e) s
          else (Inl e, s))"

section \<open>The denial auditor\<close>

definition authorization_denied :: "conn \<Rightarrow> principal option \<Rightarrow> pystr \<Rightarrow> unit proc" where
  "authorization_denied cx p permission_id =
     pseq (plift (SecurityAuditEvent ((no_event_args AUTHORIZATION_DENIED R_DENIED)
       \<lparr>ea_reason_code := Proper Y_PERMISSION_DENIED, ea_user_id := of_option (map_option pr_user_id p),
        ea_session_id := of_option (map_option pr_session_id p),
        ea_membership_id := of_option (map_option pr_membership_id p),
        ea_permission_id := Proper permission_id\<rparr>) False)) (\<lambda>event.
     durable_event cx (Inr event))"

definition request_denied ::
  "(pystr \<Rightarrow> bool) \<Rightarrow> settings \<Rightarrow> conn \<Rightarrow> exn \<Rightarrow> request \<Rightarrow> session_record option \<Rightarrow> bool \<Rightarrow> unit proc" where
  "request_denied nok se cx error rq session origin_failure =
     durable_event cx (denial nok se error (Some rq) session origin_failure)"

section \<open>Tenant transactions\<close>

text \<open>
  \<open>tenant_transaction\<close>: the context is validated, the setting \<open>app.tenant_id\<close> is bound for the
  transaction, and the deferred trigger runs at commit.
\<close>

definition bound_conn :: "conn \<Rightarrow> tenant_context \<Rightarrow> conn" where
  "bound_conn cx c = cx\<lparr>cx_tenant := Some (tc_tenant_id c), cx_tenant_transaction := True\<rparr>"

definition tenant_transaction ::
  "conn \<Rightarrow> tenant_context option \<Rightarrow> (conn \<Rightarrow> (exn, db, 'a) action) \<Rightarrow> 'a proc" where
  "tenant_transaction cx context body =
     pseq (plift (require_context context)) (\<lambda>c.
       transact (seq (body (bound_conn cx c)) (\<lambda>x.
         seq (require_consumed_role_security_event (bound_conn cx c)) (\<lambda>_. ret x))))"

text \<open>Row level security: the policy \<open>tenant_id = app.current_tenant_id()\<close> of the tenant tables.\<close>

definition visible :: "conn \<Rightarrow> ('r \<Rightarrow> uuid) \<Rightarrow> 'r list \<Rightarrow> 'r list" where
  "visible cx tenant_of rows = filter (\<lambda>r. cx_tenant cx = Some (tenant_of r)) rows"

lemma list_ex_visible:
  "cx_tenant cx = Some t \<Longrightarrow> list_ex P (visible cx f xs) \<longleftrightarrow> (\<exists>x \<in> set xs. f x = t \<and> P x)"
  by (auto simp: list_ex_iff visible_def)

lemma consumed_clean: "db_intents s = [] \<Longrightarrow> require_consumed_role_security_event cx s = Inr ((), s)"
  by (simp add: require_consumed_role_security_event_def exists_row_def)

lemma tenant_transaction_read:
  assumes "uuid_version (tc_tenant_id c) = Some 7" "db_intents s = []"
  shows "tenant_transaction cx (Some c) (\<lambda>cx'. read_db (f cx')) s = (Inr (f (bound_conn cx c) s), s)"
  using assms by (simp add: tenant_transaction_def pseq_plift require_context_def validate_tenant_id_def
      transact_def seq_Inr [OF consumed_clean])

lemma bound_conn_tenant [simp]: "cx_tenant (bound_conn cx c) = Some (tc_tenant_id c)"
  by (simp add: bound_conn_def)

lemma conn_ok_bound: "conn_ok cx \<Longrightarrow> conn_ok (bound_conn cx c)"
  by (simp add: conn_ok_def bound_conn_def)

text \<open>\<open>trusted_access_from_bearer\<close>\<close>

definition pg_trusted_session :: "conn \<Rightarrow> pystr \<Rightarrow> (exn, db, session_record) action" where
  "pg_trusted_session cx bearer = seq (read_db db_clock) (\<lambda>clock. trusted_session (pg_store cx) clock bearer)"

definition pg_trusted_resolve :: "conn \<Rightarrow> pystr \<Rightarrow> (exn, db, trusted_access) action" where
  "pg_trusted_resolve cx bearer =
     seq (read_db db_clock) (\<lambda>clock. trusted_resolve (pg_store cx) pg_resolve_active clock bearer)"

definition trusted_access_from_bearer ::
  "(pystr \<Rightarrow> bool) \<Rightarrow> settings \<Rightarrow> conn \<Rightarrow> pystr \<Rightarrow> trusted_access proc" where
  "trusted_access_from_bearer nok se cx bearer =
     audited_auth_transaction nok se cx None
       (identified (\<lambda>r. r) (pg_trusted_session cx bearer) (\<lambda>_. pg_trusted_resolve cx bearer))"

section \<open>Facts\<close>

text \<open>An event that names a user, one of the user's sessions and the membership it selected is written.\<close>

lemma write_linked_event:
  assumes "db_ok s" "conn_ok cx" "event_ok e" "\<not> is_role_event e" "ae_event_type e \<noteq> SECURITY_EVENTS_PRUNED" "ae_role_id e = None"
    and "\<And>i c. links_exist s (event_to_row e i c 0)"
  shows "\<exists>s'. pg_write_security_event cx e s = Inr ((), s') \<and> db_ok s' \<and> only_events s s' \<and> db_logged s' = db_logged s @ [line_of e]"
proof -
  obtain w t where w: "new_writer cx s = Inr (w, t)" "check_uuid_text (sw_correlation w)" "db_ok t" "only_events s t"
    "db_logged t = db_logged s" "sw_role_intent w = None" "\<exists>n. t = s\<lparr>db_drawn := n\<rparr>"
  proof (cases "cx_correlation cx")
    case (Some c)
    have "\<exists>n. s = s\<lparr>db_drawn := n\<rparr>" by (rule exI [of _ "db_drawn s"]) simp
    with Some assms(1,2) show ?thesis
      by (intro that [of "\<lparr>sw_correlation = c, sw_role_intent = None\<rparr>" s]) (simp_all add: new_writer_def conn_ok_def)
  next
    case None
    let ?t = "s\<lparr>db_drawn := Suc (db_drawn s)\<rparr>"
    have "check_uuid_text (db_ids s (db_drawn s))" using assms(1) ids_text [of s] by (simp add: db_ok_def)
    moreover have "\<exists>n. ?t = s\<lparr>db_drawn := n\<rparr>" by (rule exI [of _ "Suc (db_drawn s)"]) simp
    ultimately show ?thesis
      using None db_ok_draw [OF assms(1)]
      by (intro that [of "\<lparr>sw_correlation = db_ids s (db_drawn s), sw_role_intent = None\<rparr>" ?t])
        (simp_all add: new_writer_def db_logged_def)
  qed
  let ?i = "db_ids t (db_drawn t)" and ?t1 = "t\<lparr>db_drawn := Suc (db_drawn t)\<rparr>"
  let ?r = "event_to_row e ?i (sw_correlation w) 0"
  let ?s' = "?t1\<lparr>db_events := db_events t @ [?r\<lparr>er_created_at := db_clock t\<rparr>]\<rparr>"
  have ids: "uuid_version ?i = Some 7" "?i \<notin> er_id ` set (db_events t)" using w(3) by (simp_all add: db_ok_def ids_fresh_def)
  have "links_exist ?t1 ?r = links_exist s ?r"
    using w(7) by (auto simp: links_exist_def user_by_id_def membership_by_id_def cong: option.case_cong)
  moreover have "row_casts_ok ?r" "audit_shape snapshot_lists ?r"
    using validation_iff_checks [of e ?i "sw_correlation w" 0] assms(3) ids(1) w(2) by simp_all
  moreover have "prune_guard cx ?r" using assms(5) by (simp add: prune_guard_def event_to_row_def event_value_lits)
  ultimately have ap: "append_security_event cx ?r ?t1 = Inr ((), ?s')"
    using assms(6,7) ids(2) append_ok [of cx ?r ?t1] by (simp add: event_to_row_def)
  have "pg_write_security_event cx e s = Inr ((), ?s')"
    using w(1,6) assms(2-5) ap
    by (simp add: pg_write_security_event_def seq_Inr writer_write_def require_transaction_def conn_ok_def seq_require guard_sql_def disj_commute)
  moreover have "ids_fresh ?t1" using w(3) ids_fresh_drawn by (simp add: db_ok_def)
  then have "ids_fresh ?s'" using ids_fresh_event [of ?t1 "db_drawn t" "?r\<lparr>er_created_at := db_clock t\<rparr>"] by (simp add: event_to_row_def)
  then have "db_ok ?s'" using w(3) same_catalogue_facts(3) [of t ?s'] by (simp add: db_ok_def sessions_ok_def same_catalogue_def)
  moreover have "only_events t ?s'"
  proof -
    have "?s' = t\<lparr>db_drawn := Suc (db_drawn t), db_events := db_events t @ [?r\<lparr>er_created_at := db_clock t\<rparr>]\<rparr>" by simp
    then show ?thesis unfolding only_events_def by blast
  qed
  moreover have "db_logged ?s' = db_logged t @ [line_of e]" by (simp add: db_logged_def event_to_row_def line_of_def)
  ultimately show ?thesis using w(4,5) only_events_trans by (intro exI [of _ ?s']) auto
qed


lemmas actor_event_defs = validate_event_def valid_outcome_def valid_links_def identity_args_def
  valid_permission_def valid_subject_def valid_count_def no_event_args_def policy_def reason_allowed_def
  of_option_def given_def alien_def role_event_types_def membership_role_event_types_def role_permission_event_types_def

definition actor_events :: "(security_event_type \<times> security_event_result \<times> security_reason option) set" where
  "actor_events = {(ORIGIN_REJECTED, R_DENIED, Some Y_ORIGIN_DENIED), (CSRF_REJECTED, R_DENIED, Some Y_CSRF_INVALID),
     (CSRF_REJECTED, R_DENIED, Some Y_CSRF_MISSING), (MEMBERSHIP_DENIED, R_DENIED, Some Y_MEMBERSHIP_UNAVAILABLE),
     (LOGIN_SUCCESS, R_SUCCESS, None), (LOGIN_FAILURE, R_FAILURE, Some Y_INVALID_CREDENTIALS)}"

lemma actor_event_ok:
  assumes "(t, r, y) \<in> actor_events" "x \<noteq> None \<longrightarrow> u \<noteq> None" "t = LOGIN_SUCCESS \<longrightarrow> u \<noteq> None"
  shows "\<exists>e. actor_event t r y u x = Inr e \<and> session_only e \<and> ae_user_id e = u \<and> ae_session_id e = x \<and>
    line_of e = (event_value t, map_option reason_value y, u, x)"
proof -
  let ?a = "(no_event_args t r)\<lparr>ea_reason_code := of_option y, ea_user_id := of_option u, ea_session_id := of_option x\<rparr>"
  have p: "proper (of_option z) = z" for z :: "'z option" by (cases z) (simp_all add: of_option_def)
  have v: "validate_event ?a"
    using assms by (cases u; cases x) (auto simp: actor_events_def actor_event_defs)
  define e where "e = \<lparr>ae_event_type = t, ae_result = r, ae_reason_code = y, ae_user_id = u,
    ae_session_id = x, ae_membership_id = None, ae_role_id = None, ae_target_membership_id = None,
    ae_permission_id = None, ae_subject_digest = None, ae_subject_kind = None,
    ae_subject_key_id = None, ae_affected_count = None\<rparr>"
  have "SecurityAuditEvent ?a False = Inr e"
    using v by (simp add: SecurityAuditEvent_def no_event_args_def e_def p)
  moreover have "args_of e = ?a" by (simp add: args_of_def e_def no_event_args_def of_option_def)
  then have "event_ok e" using v by (simp add: event_ok_def)
  ultimately show ?thesis
    using assms by (auto simp: actor_event_def session_only_def e_def line_of_def role_event_types_def actor_events_def)
qed

lemma denial_kind_cases:
  assumes "denial_kind nok se error rq origin_failure = Inr (t, y)"
  shows "(t, R_DENIED, Some y) \<in> actor_events \<and> t \<noteq> LOGIN_SUCCESS"
  using assms by (auto simp: denial_kind_def actor_events_def split: if_splits option.splits sum.splits)

text \<open>An event about a known user and an existing session of theirs is committed.\<close>

lemma durable_event_ok:
  assumes "db_ok s" "conn_ok cx" "session_only e"
    and "\<And>u. ae_user_id e = Some u \<Longrightarrow> db_knows s u"
    and "\<And>i. ae_session_id e = Some i \<Longrightarrow> \<exists>r \<in> set (db_sessions s). sr_id r = i \<and> ae_user_id e = Some (sr_user_id r)"
  shows "\<exists>s'. durable_event cx (Inr e) s = (Inr (), s') \<and> db_ok s' \<and> only_events s s' \<and> db_logged s' = db_logged s @ [line_of e]"
proof -
  obtain s' where s': "pg_write_security_event cx e s = Inr ((), s')" "db_ok s'" "db_logged s' = db_logged s @ [line_of e]"
    using pg_write_law [OF assms(1-3)] assms(4,5) by blast
  have "ae_role_id e = None" using assms(3) by (simp add: session_only_def)
  then have "only_events s s'" using write_only_events [OF s'(1)] by blast
  with s' show ?thesis by (simp add: durable_event_def pcatch_def transact_def seq_lift)
qed

lemma durable_event_only:
  assumes "durable_event cx ev s = (r, s')" "\<And>e. ev = Inr e \<Longrightarrow> ae_role_id e = None"
  shows "only_events s s'"
  using assms write_only_events
  by (auto simp: durable_event_def pcatch_def transact_def seq_def lift_result_def split: sum.splits if_splits)

lemma identified_eq:
  "identified session_of first rest s = (identity, res) \<longleftrightarrow>
     (\<exists>e. first s = Inl e \<and> identity = None \<and> res = Inl e) \<or>
     (\<exists>r t. first s = Inr (r, t) \<and> identity = Some (session_of r) \<and> res = rest r t)"
  by (auto simp: identified_def split: sum.splits)

lemma audited_eq_Inr:
  "audited_auth_transaction nok se cx rq body s = (Inr x, s') \<longleftrightarrow> (\<exists>identity. body s = (identity, Inr (x, s')))"
  by (cases "body s"; cases "snd (body s)")
    (auto simp: audited_auth_transaction_def pseq_def split: sum.splits prod.splits)

text \<open>C14. A rejected request leaves nothing but its denial: when the work of an audited transaction ends in an
  exception, its own changes are rolled back and the same exception is raised. For the three denial errors, one
  denied event about the session the server identified is committed, typed and reasoned by what was wrong with the
  request; for any other exception the database is exactly as before.\<close>

theorem rejected_request_audited:
  assumes "db_ok s" "conn_ok cx" "body s = (identity, Inl e)"
    and "\<forall>r. identity = Some r \<longrightarrow> r \<in> set (db_sessions s)"
    and "denial_kind nok se e rq False = Inr (t, y)"
  shows "\<exists>s'. audited_auth_transaction nok se cx rq body s = (Inl e, s') \<and> db_ok s' \<and> only_events s s' \<and>
    (if e \<in> {AppExn TenantAccessDeniedError, AppExn CsrfRejectedError, AppExn TenantContextChangedError}
     then db_logged s' = db_logged s @
       [(event_value t, Some (reason_value y), map_option sr_user_id identity, map_option sr_id identity)]
     else s' = s)"
proof (cases "e \<in> set audited_errors")
  case False
  with assms show ?thesis by (auto simp: audited_auth_transaction_def audited_errors_def)
next
  case True
  let ?u = "map_option sr_user_id identity" and ?x = "map_option sr_id identity"
  note kc = denial_kind_cases [OF assms(5)]
  have "?x \<noteq> None \<longrightarrow> ?u \<noteq> None" "t = LOGIN_SUCCESS \<longrightarrow> ?u \<noteq> None" using kc by auto
  then obtain ev where ev: "actor_event t R_DENIED (Some y) ?u ?x = Inr ev" "session_only ev" "ae_user_id ev = ?u"
      "ae_session_id ev = ?x" "line_of ev = (event_value t, Some (reason_value y), ?u, ?x)"
    using actor_event_ok [of t R_DENIED "Some y" ?x ?u] kc by auto
  have den: "denial nok se e rq identity False = Inr ev" using ev(1) assms(5) by (simp add: denial_def)
  have known: "db_knows s u" if "ae_user_id ev = Some u" for u
  proof -
    obtain r where "identity = Some r" "u = sr_user_id r" using \<open>ae_user_id ev = Some u\<close> ev(3) by auto
    then show ?thesis
      using assms(1,4) by (auto simp: db_ok_def sessions_ok_def list_all_iff session_fk_iff)
  qed
  have session: "\<exists>r \<in> set (db_sessions s). sr_id r = i \<and> ae_user_id ev = Some (sr_user_id r)"
    if "ae_session_id ev = Some i" for i
    using that ev(3,4) assms(4) by auto
  obtain s' where s': "durable_event cx (Inr ev) s = (Inr (), s')" "db_ok s'" "only_events s s'"
      "db_logged s' = db_logged s @ [line_of ev]"
    using durable_event_ok [OF assms(1,2) ev(2) known session] by blast
  then have "audited_auth_transaction nok se cx rq body s = (Inl e, s')"
    using True assms(3) den by (simp add: audited_auth_transaction_def pseq_Inr)
  with s' True ev(5) show ?thesis by (auto simp: audited_errors_def)
qed

text \<open>The sample session has not selected a membership: tenant access is denied and recorded.\<close>

lemma sample_trusted_session: "trusted_session (pg_store sample_conn) 2000 sample_bearer sample_db = Inr (sample_session, sample_db)"
proof -
  have "found_by sample_bearer (db_sessions sample_db) = Some sample_session"
    by (simp add: found_by_def sample_rows sample_session_fields)
  moreover have "is_valid sample_session 2000 1"
    by (simp add: sample_session_def is_valid_def new_record_def session_constants)
  ultimately show ?thesis
    using trusted_tenants.trusted_session_run [OF pg_trusted_tenants [OF sample_conn_ok] sample_db_ok sample_ascii, of 2000]
    by (simp add: sample_session_fields)
qed

theorem rejected_request_audited_witness:
  "\<exists>s'. trusted_access_from_bearer (\<lambda>_. True) sample_settings sample_conn sample_bearer sample_db =
     (Inl (AppExn TenantAccessDeniedError), s') \<and> only_events sample_db s' \<and> length (db_logged s') = 1"
proof -
  let ?body = "identified (\<lambda>r. r) (pg_trusted_session sample_conn sample_bearer) (\<lambda>_. pg_trusted_resolve sample_conn sample_bearer)"
  have clock: "db_clock sample_db = 2000" by (simp add: sample_db_def)
  have none: "sr_selected_membership_id sample_session = None" by (simp add: sample_session_def new_record_def)
  have body: "?body sample_db = (Some sample_session, Inl (AppExn TenantAccessDeniedError))"
    by (simp add: identified_def pg_trusted_session_def pg_trusted_resolve_def clock sample_trusted_session
        trusted_resolve_def seq_Inr none)
  have mem: "\<forall>r. Some sample_session = Some r \<longrightarrow> r \<in> set (db_sessions sample_db)" by (simp add: sample_rows)
  have logged: "db_logged sample_db = []" by (simp add: db_logged_def sample_db_def)
  have csrf: "AppExn TenantAccessDeniedError \<noteq> AppExn CsrfRejectedError"
    by (simp add: TenantAccessDeniedError_def CsrfRejectedError_def)
  then have kind: "denial_kind (\<lambda>_. True) sample_settings (AppExn TenantAccessDeniedError) None False =
      Inr (MEMBERSHIP_DENIED, Y_MEMBERSHIP_UNAVAILABLE)" by (simp add: denial_kind_def)
  from rejected_request_audited [where body = ?body, OF sample_db_ok sample_conn_ok body mem kind] show ?thesis
    unfolding trusted_access_from_bearer_def logged by auto
qed

end
