(* ===== verification/PasswordAuth.thy ===== *)
theory PasswordAuth
  imports RequestAudit
begin

text \<open>
  \<open>auth/password_authentication.py\<close>: login and password change as sequences of short transactions with the
  memory-hard verification outside them. Other requests may commit between the transactions; what they do is an
  argument of the operations. \<open>cached\<close> is the service's \<open>_dummy_hash\<close>, which the first call fills.
\<close>

section \<open>The service\<close>

record auth_service =
  as_nfc :: "pystr \<Rightarrow> pystr"
  as_hasher :: hasher
  as_hmac_key :: bytes
  as_hmac_key_id :: int

definition PasswordAuthenticationService ::
  "(pystr \<Rightarrow> pystr) \<Rightarrow> hasher \<Rightarrow> bytes \<Rightarrow> int \<Rightarrow> exn + auth_service" where
  "PasswordAuthenticationService nfc hs hmac_key hmac_key_id =
     and_then (ensure (\<not> length hmac_key < 32) ValueExn) (\<lambda>_.
       Inr \<lparr>as_nfc = nfc, as_hasher = hs, as_hmac_key = hmac_key, as_hmac_key_id = hmac_key_id\<rparr>)"

definition dummy :: "auth_service \<Rightarrow> bytes \<Rightarrow> bytes \<Rightarrow> pystr option \<Rightarrow> exn + pystr" where
  "dummy sv salt random cached =
     (case cached of
        None \<Rightarrow> hash_password (as_nfc sv) (as_hasher sv) salt (b64url_nopad random)
      | Some h \<Rightarrow> Inr h)"

text \<open>The random inputs of one login: salt and password of the dummy hash, the two tokens and the session id.\<close>

record login_random =
  lr_salt :: bytes
  lr_dummy :: bytes
  lr_bearer :: bytes
  lr_csrf :: bytes
  lr_session_id :: uuid

text \<open>First transaction: the three quotas, committed whatever follows.\<close>

definition login_throttles :: "auth_service \<Rightarrow> conn \<Rightarrow> pystr \<Rightarrow> pystr \<Rightarrow> (exn, db, bool) action" where
  "login_throttles sv cx username client_ip =
     seq (throttle_consume cx (as_hmac_key sv) (as_hmac_key_id sv) S_LOGIN_USERNAME username) (\<lambda>d1.
     seq (throttle_consume cx (as_hmac_key sv) (as_hmac_key_id sv) S_LOGIN_IP client_ip) (\<lambda>d2.
     seq (throttle_consume cx (as_hmac_key sv) (as_hmac_key_id sv) S_LOGIN_IP_USERNAME (client_ip @ [0] @ username)) (\<lambda>d3.
     let allowed = td_allowed d1 \<and> td_allowed d2 \<and> td_allowed d3 in
     seq (if \<not> allowed then write_bare_event cx LOGIN_FAILURE R_FAILURE Y_INVALID_CREDENTIALS else ret ()) (\<lambda>_.
     ret allowed))))"

text \<open>Second transaction: the snapshot; the SQL function is STRICT, so no address gives no row.\<close>

definition login_snapshot :: "pystr option \<Rightarrow> (exn, db, credential_snapshot option) action" where
  "login_snapshot normalized =
     read_db (\<lambda>s. case normalized of None \<Rightarrow> None | Some email \<Rightarrow> password_authentication_snapshot s email)"

text \<open>Third transaction: the recheck under locks, then a session and its event, or the failure event.\<close>

definition login_finish ::
  "conn \<Rightarrow> credential_snapshot option \<Rightarrow> bool \<Rightarrow> bytes \<Rightarrow> bytes \<Rightarrow> uuid \<Rightarrow> (exn, db, issued_session option) action" where
  "login_finish cx snapshot verified bearer_random csrf_random session_id =
     seq (new_writer cx) (\<lambda>writer.
     seq (read_db (\<lambda>s. case snapshot of None \<Rightarrow> False
            | Some c \<Rightarrow> verified \<and> confirm_password_authentication s (cs_user_id c) (cs_credential_version c)
                (cs_security_version c) (cs_password_hash c))) (\<lambda>current.
     case (current, snapshot) of
       (True, Some c) \<Rightarrow>
         seq (read_db db_clock) (\<lambda>clock.
         seq (issue (pg_store cx) (cs_user_id c) (cs_security_version c) None clock bearer_random csrf_random session_id) (\<lambda>issued.
         seq (lift_result (actor_event LOGIN_SUCCESS R_SUCCESS None
                (Some (sr_user_id (is_record issued))) (Some (sr_id (is_record issued))))) (\<lambda>event.
         seq (writer_write cx writer event) (\<lambda>_.
         ret (Some issued)))))
     | _ \<Rightarrow>
         seq (lift_result (actor_event LOGIN_FAILURE R_FAILURE (Some Y_INVALID_CREDENTIALS) None None)) (\<lambda>event.
         seq (writer_write cx writer event) (\<lambda>_.
         ret None))))"

definition login_attempt ::
  "auth_service \<Rightarrow> conn \<Rightarrow> (db \<Rightarrow> db) \<Rightarrow> (db \<Rightarrow> db) \<Rightarrow> login_random \<Rightarrow> pystr option \<Rightarrow> pystr \<Rightarrow> pystr \<Rightarrow> pystr \<Rightarrow>
   issued_session option proc" where
  "login_attempt sv cx meanwhile1 meanwhile2 rnd cached identifier password client_ip =
     pseq (plift (dummy sv (lr_salt rnd) (lr_dummy rnd) cached)) (\<lambda>dummy_hash.
     let normalized = (case normalize_email (as_nfc sv) identifier of Inl _ \<Rightarrow> None | Inr n \<Rightarrow> Some n);
         username = (case normalized of None \<Rightarrow> identifier | Some n \<Rightarrow> n) in
     pseq (transact (login_throttles sv cx username client_ip)) (\<lambda>allowed.
     if \<not> allowed then pret None
     else
       pseq (others meanwhile1) (\<lambda>_.
       pseq (transact (login_snapshot normalized)) (\<lambda>snapshot.
       pseq (plift (verify_password (as_nfc sv) (as_hasher sv)
               (case snapshot of None \<Rightarrow> dummy_hash | Some c \<Rightarrow> cs_password_hash c) password)) (\<lambda>verified.
       pseq (others meanwhile2) (\<lambda>_.
       transact (login_finish cx snapshot verified (lr_bearer rnd) (lr_csrf rnd) (lr_session_id rnd))))))))"

text \<open>\<open>except SQLAlchemyError: raise PasswordAuthenticationUnavailableError() from None\<close>\<close>

definition or_unavailable :: "'a proc \<Rightarrow> 'a proc" where
  "or_unavailable p = pcatch p (\<lambda>e. pfail (if is_sqlalchemy_error e then AuthUnavailable else e))"

definition password_login ::
  "auth_service \<Rightarrow> conn \<Rightarrow> (db \<Rightarrow> db) \<Rightarrow> (db \<Rightarrow> db) \<Rightarrow> login_random \<Rightarrow> pystr option \<Rightarrow> pystr \<Rightarrow> pystr \<Rightarrow> pystr \<Rightarrow>
   issued_session option proc" where
  "password_login sv cx meanwhile1 meanwhile2 rnd cached identifier password client_ip =
     or_unavailable (login_attempt sv cx meanwhile1 meanwhile2 rnd cached identifier password client_ip)"

definition change_attempt ::
  "auth_service \<Rightarrow> conn \<Rightarrow> (db \<Rightarrow> db) \<Rightarrow> login_random \<Rightarrow> bytes \<Rightarrow> pystr option \<Rightarrow> pystr \<Rightarrow> pystr \<Rightarrow> pystr \<Rightarrow> bool proc" where
  "change_attempt sv cx meanwhile rnd new_salt cached bearer old_password new_password =
     pseq (plift (dummy sv (lr_salt rnd) (lr_dummy rnd) cached)) (\<lambda>dummy_hash.
     case token_digest bearer of
       Inl e \<Rightarrow> if e = UnicodeExn then pret False else pfail e
     | Inr digest \<Rightarrow>
         pseq (transact (read_db (\<lambda>s. password_change_snapshot s digest))) (\<lambda>snapshot.
         pseq (plift (verify_password (as_nfc sv) (as_hasher sv)
                 (case snapshot of None \<Rightarrow> dummy_hash | Some c \<Rightarrow> cs_password_hash c) old_password)) (\<lambda>verified.
         case (verified, snapshot) of
           (True, Some c) \<Rightarrow>
             pseq (plift (hash_password (as_nfc sv) (as_hasher sv) new_salt new_password)) (\<lambda>replacement.
             pseq (others meanwhile) (\<lambda>_.
             pseq (transact (apply_password_change cx digest (cs_credential_version c) (cs_security_version c)
                     (cs_password_hash c) replacement)) (\<lambda>changed.
             pret (changed \<noteq> None))))
         | _ \<Rightarrow> pret False)))"

definition change_password ::
  "auth_service \<Rightarrow> conn \<Rightarrow> (db \<Rightarrow> db) \<Rightarrow> login_random \<Rightarrow> bytes \<Rightarrow> pystr option \<Rightarrow> pystr \<Rightarrow> pystr \<Rightarrow> pystr \<Rightarrow> bool proc" where
  "change_password sv cx meanwhile rnd new_salt cached bearer old_password new_password =
     or_unavailable (change_attempt sv cx meanwhile rnd new_salt cached bearer old_password new_password)"

section \<open>Transaction facts\<close>

lemma new_writer_ok:
  assumes "db_ok s" "conn_ok cx"
  shows "\<exists>w t. new_writer cx s = Inr (w, t) \<and> check_uuid_text (sw_correlation w) \<and> db_ok t \<and> only_events s t \<and>
    db_logged t = db_logged s"
proof (cases "cx_correlation cx")
  case (Some c)
  with assms show ?thesis by (simp add: new_writer_def conn_ok_def)
next
  case None
  then show ?thesis
    using assms(1) ids_text [of s] db_ok_draw [OF assms(1)] by (simp add: new_writer_def db_ok_def db_logged_def)
qed

lemma writer_write_event:
  assumes "db_ok s" "conn_ok cx" "session_only e" "check_uuid_text (sw_correlation w)"
    and "\<And>u. ae_user_id e = Some u \<Longrightarrow> db_knows s u"
    and "\<And>i. ae_session_id e = Some i \<Longrightarrow> \<exists>r \<in> set (db_sessions s). sr_id r = i \<and> ae_user_id e = Some (sr_user_id r)"
  shows "\<exists>s'. writer_write cx w e s = Inr (w, s') \<and> db_ok s' \<and> only_events s s' \<and> db_logged s' = db_logged s @ [line_of e]"
proof -
  obtain s' where s': "writer_write cx w e s = Inr (w, s')" "db_ok s'"
    "s' = s\<lparr>db_drawn := Suc (db_drawn s), db_events := db_events s @ [inserted s e (db_ids s (db_drawn s)) (sw_correlation w)]\<rparr>"
    using writer_write_ok [OF assms] by blast
  moreover have "only_events s s'" unfolding only_events_def s'(3) by blast
  ultimately show ?thesis by (auto simp: db_logged_def inserted_def event_to_row_def line_of_def)
qed

text \<open>Only the quota table and the events differ.\<close>

definition quota_frame :: "db \<Rightarrow> db \<Rightarrow> bool" where
  "quota_frame s s' \<longleftrightarrow> (\<exists>q n ev. s' = s\<lparr>db_throttles := q, db_drawn := n, db_events := ev\<rparr>)"

lemma quota_frame_tables:
  assumes "quota_frame s s'"
  shows "db_users s' = db_users s" "db_credentials s' = db_credentials s" "db_sessions s' = db_sessions s"
    "db_memberships s' = db_memberships s" "db_preauth s' = db_preauth s" "db_clock s' = db_clock s" "db_intents s' = db_intents s"
  using assms by (auto simp: quota_frame_def)

lemma quota_frame_trans: "quota_frame s t \<Longrightarrow> quota_frame t u \<Longrightarrow> quota_frame s u"
  unfolding quota_frame_def by (elim exE, simp, blast)

lemma quota_frame_events:
  assumes "only_events s s'"
  shows "quota_frame s s'"
proof -
  obtain n ev where "s' = s\<lparr>db_drawn := n, db_events := ev\<rparr>" using assms by (auto simp: only_events_def)
  then have "s' = s\<lparr>db_throttles := db_throttles s, db_drawn := n, db_events := ev\<rparr>" by simp
  then show ?thesis unfolding quota_frame_def by blast
qed

lemma quota_frame_throttles: "quota_frame s (s\<lparr>db_throttles := q\<rparr>)"
proof -
  have "s\<lparr>db_throttles := q\<rparr> = s\<lparr>db_throttles := q, db_drawn := db_drawn s, db_events := db_events s\<rparr>" by simp
  then show ?thesis unfolding quota_frame_def by blast
qed

lemma write_bare_frame:
  assumes "db_ok s" "conn_ok cx" "t = LOGIN_FAILURE \<and> r = R_FAILURE \<and> y = Y_INVALID_CREDENTIALS \<or>
    t = THROTTLING_TRIGGERED \<and> r = R_DENIED \<and> (\<exists>sc. y = throttle_reason sc)"
  shows "\<exists>s'. write_bare_event cx t r y s = Inr ((), s') \<and> db_ok s' \<and> only_events s s' \<and>
    db_logged s' = db_logged s @ [(event_value t, Some (reason_value y), None, None)]"
proof -
  obtain e where e: "SecurityAuditEvent ((no_event_args t r)\<lparr>ea_reason_code := Proper y\<rparr>) False = Inr e"
      "session_only e" "ae_user_id e = None" "ae_session_id e = None" "ae_role_id e = None"
      "line_of e = (event_value t, Some (reason_value y), None, None)"
    using bare_event_ok [of t r y] assms(3) by auto
  obtain s' where s': "pg_write_security_event cx e s = Inr ((), s')" "db_ok s'" "db_logged s' = db_logged s @ [line_of e]"
    using pg_write_law [OF assms(1,2) e(2)] e(3,4) by auto
  then show ?thesis
    using e(1,6) write_only_events [OF s'(1) e(5)] by (simp add: write_bare_event_def seq_lift pg_write_security_event_def)
qed

lemma throttle_frame:
  assumes "db_ok s" "conn_ok cx" "throttle_consume cx key key_id sc value s = Inr (d, s')"
  shows "db_ok s' \<and> quota_frame s s'"
proof -
  obtain k limit window t where t: "consume_throttle (scope_value sc) k key_id limit window s = Inr (d, t)"
    "seq (if \<not> td_allowed d then write_bare_event cx THROTTLING_TRIGGERED R_DENIED (throttle_reason sc) else ret ()) (\<lambda>_. ret d) t = Inr (d, s')"
    using assms(3)
    by (cases "throttle_policies sc")
      (auto simp: throttle_consume_def throttle_store_consume_def seq_eq_Inr require_def lift_result_eq_Inr split: if_splits)
  have "t = s\<lparr>db_throttles := db_throttles t\<rparr>"
    using t(1) by (auto simp: consume_throttle_def Let_def seq_eq_Inr require_def split: if_splits option.splits)
  then obtain th where th: "t = s\<lparr>db_throttles := th\<rparr>" by blast
  have ok: "db_ok t" unfolding th by (rule db_ok_throttles [OF assms(1)])
  show ?thesis
  proof (cases "td_allowed d")
    case True
    with t(2) have "s' = t" by simp
    with ok th quota_frame_throttles show ?thesis by simp
  next
    case False
    obtain s2 where s2: "write_bare_event cx THROTTLING_TRIGGERED R_DENIED (throttle_reason sc) t = Inr ((), s2)" "db_ok s2" "only_events t s2"
      using write_bare_frame [OF ok assms(2)] by blast
    then have "s' = s2" using False t(2) by (simp add: seq_Inr)
    moreover have "quota_frame s s2"
      using quota_frame_trans [OF quota_frame_throttles quota_frame_events [OF s2(3) [unfolded th]]] .
    ultimately show ?thesis using s2(2) by simp
  qed
qed

lemma login_throttles_frame:
  assumes "db_ok s" "conn_ok cx" "login_throttles sv cx username ip s = Inr (allowed, s')"
  shows "db_ok s' \<and> quota_frame s s' \<and>
    (\<not> allowed \<longrightarrow> (\<exists>ls. db_logged s' = ls @ [(event_value LOGIN_FAILURE, Some (reason_value Y_INVALID_CREDENTIALS), None, None)]))"
proof -
  obtain d1 t1 d2 t2 d3 t3 where
    t1: "throttle_consume cx (as_hmac_key sv) (as_hmac_key_id sv) S_LOGIN_USERNAME username s = Inr (d1, t1)" and
    t2: "throttle_consume cx (as_hmac_key sv) (as_hmac_key_id sv) S_LOGIN_IP ip t1 = Inr (d2, t2)" and
    t3: "throttle_consume cx (as_hmac_key sv) (as_hmac_key_id sv) S_LOGIN_IP_USERNAME (ip @ [0] @ username) t2 = Inr (d3, t3)" and
    rest: "allowed = (td_allowed d1 \<and> td_allowed d2 \<and> td_allowed d3)"
      "seq (if \<not> allowed then write_bare_event cx LOGIN_FAILURE R_FAILURE Y_INVALID_CREDENTIALS else ret ()) (\<lambda>_. ret allowed) t3 = Inr (allowed, s')"
    using assms(3) unfolding login_throttles_def seq_eq_Inr Let_def by (elim exE conjE) (simp only: ret_apply sum.inject prod.inject, blast)
  note f1 = throttle_frame [OF assms(1,2) t1]
  note f2 = throttle_frame [OF conjunct1 [OF f1] assms(2) t2]
  note f3 = throttle_frame [OF conjunct1 [OF f2] assms(2) t3]
  have fr: "quota_frame s t3" using f1 f2 f3 quota_frame_trans by blast
  show ?thesis
  proof (cases allowed)
    case True
    with rest f3 fr show ?thesis by simp
  next
    case False
    obtain u where u: "write_bare_event cx LOGIN_FAILURE R_FAILURE Y_INVALID_CREDENTIALS t3 = Inr ((), u)" "db_ok u"
      "only_events t3 u" "db_logged u = db_logged t3 @ [(event_value LOGIN_FAILURE, Some (reason_value Y_INVALID_CREDENTIALS), None, None)]"
      using write_bare_frame [OF conjunct1 [OF f3] assms(2), of LOGIN_FAILURE R_FAILURE Y_INVALID_CREDENTIALS] by auto
    moreover have "s' = u" using rest False u(1) by (simp add: seq_Inr)
    ultimately show ?thesis using fr quota_frame_events [OF u(3)] quota_frame_trans by blast
  qed
qed

section \<open>The last transaction\<close>

abbreviation failure_line :: event_line where
  "failure_line \<equiv> (event_value LOGIN_FAILURE, Some (reason_value Y_INVALID_CREDENTIALS), None, None)"

abbreviation success_line :: "uuid \<Rightarrow> uuid \<Rightarrow> event_line" where
  "success_line u x \<equiv> (event_value LOGIN_SUCCESS, None, Some u, Some x)"

text \<open>Whether the snapshot still proves the credential.\<close>

definition still_current :: "db \<Rightarrow> credential_snapshot option \<Rightarrow> bool \<Rightarrow> bool" where
  "still_current t snapshot verified =
     (case snapshot of None \<Rightarrow> False
      | Some c \<Rightarrow> verified \<and> confirm_password_authentication t (cs_user_id c) (cs_credential_version c)
          (cs_security_version c) (cs_password_hash c))"

lemma confirmD:
  assumes "confirm_password_authentication s u cv sv h"
  shows "\<exists>x c. user_by_id s u = Some x \<and> us_status x = UserActive \<and> us_security_version x = sv \<and>
    find (\<lambda>c. cr_user_id c = u) (db_credentials s) = Some c \<and> cr_credential_version c = cv \<and> cr_password_hash c = h"
  using assms by (auto simp: confirm_password_authentication_def split: option.splits)

lemma confirm_only_events: "only_events s t \<Longrightarrow> confirm_password_authentication t = confirm_password_authentication s"
  by (simp add: fun_eq_iff confirm_password_authentication_def user_by_id_def only_events_tables)

lemma login_finish_refused:
  assumes "db_ok t" "conn_ok cx" "\<not> still_current t snapshot verified"
  shows "\<exists>s'. login_finish cx snapshot verified br cr i t = Inr (None, s') \<and> db_ok s' \<and> only_events t s' \<and>
    db_logged s' = db_logged t @ [failure_line]"
proof -
  obtain w t1 where w: "new_writer cx t = Inr (w, t1)" "check_uuid_text (sw_correlation w)" "db_ok t1" "only_events t t1"
    "db_logged t1 = db_logged t" using new_writer_ok [OF assms(1,2)] by blast
  obtain e where e: "actor_event LOGIN_FAILURE R_FAILURE (Some Y_INVALID_CREDENTIALS) None None = Inr e" "session_only e"
    "ae_user_id e = None" "ae_session_id e = None" "line_of e = failure_line"
    using actor_event_ok [of LOGIN_FAILURE R_FAILURE "Some Y_INVALID_CREDENTIALS" None None] by (auto simp: actor_events_def)
  obtain s' where s': "writer_write cx w e t1 = Inr (w, s')" "db_ok s'" "only_events t1 s'" "db_logged s' = db_logged t1 @ [line_of e]"
    using writer_write_event [OF w(3) assms(2) e(2) w(2)] e(3,4) by auto
  have "login_finish cx snapshot verified br cr i t = Inr (None, s')"
    using assms(3) w(1) e(1) s'(1) confirm_only_events [OF w(4)]
    by (auto simp: login_finish_def seq_Inr seq_lift still_current_def split: option.splits bool.splits)
  with s' w only_events_trans e(5) show ?thesis by auto
qed

lemma login_finish_issued:
  assumes "db_ok t" "conn_ok cx" "still_current t (Some c) True"
    and "i \<notin> sr_id ` set (db_sessions t)" "sha256 (token br) \<notin> sr_bearer_digest ` set (db_sessions t)"
    and new_def: "new = new_record i (cs_user_id c) (sha256 (token br)) (sha256 (token cr)) (cs_security_version c) (db_clock t)"
  shows "\<exists>s'. login_finish cx (Some c) True br cr i t =
      Inr (Some \<lparr>is_record = new, is_secrets = \<lparr>ss_bearer = token br, ss_csrf_token = token cr\<rparr>\<rparr>, s') \<and> db_ok s' \<and>
    found_by (token br) (db_sessions s') = Some new \<and>
    db_logged s' = db_logged t @ map eviction_line (evictees (cs_user_id c) (db_clock t) (cs_security_version c) (db_sessions t)) @
      [success_line (cs_user_id c) i]"
proof -
  let ?u = "cs_user_id c" and ?sv = "cs_security_version c" and ?cl = "db_clock t"
  note laws = pg_session_laws [OF assms(2)]
  obtain w t1 where w: "new_writer cx t = Inr (w, t1)" "check_uuid_text (sw_correlation w)" "db_ok t1" "only_events t t1"
    "db_logged t1 = db_logged t" using new_writer_ok [OF assms(1,2)] by blast
  have conf: "confirm_password_authentication t ?u (cs_credential_version c) ?sv (cs_password_hash c)"
    using assms(3) by (simp add: still_current_def)
  then obtain x where x: "user_by_id t ?u = Some x" "us_security_version x = ?sv" using confirmD by blast
  then have "x \<in> set (db_users t)" by (auto simp: user_by_id_def find_Some_iff)
  then have iv: "int4_ok ?sv" using assms(1) x(2) by (auto simp: db_ok_def catalogue_ok_def list_all_iff check_user_row_def)
  have rows: "db_sessions t1 = db_sessions t" "db_clock t1 = ?cl" using only_events_tables [OF w(4)] by simp_all
  have k: "db_knows t1 ?u"
    using x(1) same_catalogue_facts(4) [OF only_events_tables(14) [OF w(4)]] by (simp add: db_knows_def)
  obtain t2 where t2: "issue (pg_store cx) ?u ?sv None ?cl br cr i t1 =
      Inr (\<lparr>is_record = new, is_secrets = \<lparr>ss_bearer = token br, ss_csrf_token = token cr\<rparr>\<rparr>, t2)" "db_ok t2"
    "set (db_sessions t2) = insert new (evicted_row ?cl (evictees ?u ?cl ?sv (db_sessions t)) ` set (db_sessions t))"
    "db_logged t2 = db_logged t1 @ map eviction_line (evictees ?u ?cl ?sv (db_sessions t))" "db_knows t2 = db_knows t1"
    using session_laws.issue_ok [OF laws w(3) k iv, of i br ?cl None ?cl new cr] assms(4,5) new_def rows by (auto simp: now_or_def)
  have nf: "sr_id new = i" "sr_user_id new = ?u" "sr_bearer_digest new = sha256 (token br)" by (simp_all add: new_def new_record_def)
  obtain e where e: "actor_event LOGIN_SUCCESS R_SUCCESS None (Some ?u) (Some i) = Inr e" "session_only e"
    "ae_user_id e = Some ?u" "ae_session_id e = Some i" "line_of e = success_line ?u i"
    using actor_event_ok [of LOGIN_SUCCESS R_SUCCESS None "Some i" "Some ?u"] by (auto simp: actor_events_def)
  obtain s' where s': "writer_write cx w e t2 = Inr (w, s')" "db_ok s'" "only_events t2 s'" "db_logged s' = db_logged t2 @ [line_of e]"
    using writer_write_event [OF t2(2) assms(2) e(2) w(2)] e(3,4) k t2(3,5) nf by auto
  have "login_finish cx (Some c) True br cr i t =
      Inr (Some \<lparr>is_record = new, is_secrets = \<lparr>ss_bearer = token br, ss_csrf_token = token cr\<rparr>\<rparr>, s')"
    using conf w(1) t2(1) e(1) s'(1) confirm_only_events [OF w(4)] nf rows(2)
    by (simp add: login_finish_def seq_Inr seq_lift)
  moreover have "new \<in> set (db_sessions s')" using t2(3) only_events_tables(5) [OF s'(3)] by simp
  then have "found_by (token br) (db_sessions s') = Some new"
    using session_laws.found_by_iff [OF laws s'(2)] nf by simp
  ultimately show ?thesis using s' t2(4) w(5) e(5) by auto
qed

lemma find_SomeD: "find P xs = Some x \<Longrightarrow> x \<in> set xs \<and> P x"
  by (induction xs) (auto split: if_splits)

text \<open>The snapshot a login reads for an identifier.\<close>

definition snapshot_for :: "auth_service \<Rightarrow> db \<Rightarrow> pystr \<Rightarrow> credential_snapshot option" where
  "snapshot_for sv s identifier =
     (case normalize_email (as_nfc sv) identifier of Inl _ \<Rightarrow> None | Inr email \<Rightarrow> password_authentication_snapshot s email)"

lemma snapshot_for_SomeD:
  assumes "snapshot_for sv s identifier = Some c"
  shows "\<exists>email. normalize_email (as_nfc sv) identifier = Inr email \<and>
    (\<exists>y \<in> set (db_users s). us_id y = cs_user_id c \<and> us_normalized_email y = email)"
  using assms
  by (auto simp: snapshot_for_def password_authentication_snapshot_def credential_of_def
      split: sum.splits option.splits if_splits dest!: find_SomeD)

text \<open>The stages of an answered login.\<close>

lemma login_stages:
  assumes name_def: "name = (case normalize_email (as_nfc sv) identifier of Inl _ \<Rightarrow> identifier | Inr n \<Rightarrow> n)"
    and quota_def: "(quota, s1) = transact (login_throttles sv cx name ip) s"
    and t_def: "t = m2 (m1 s1)"
    and run: "password_login sv cx m1 m2 rnd cached identifier password ip s = (Inr res, s')"
  shows "\<exists>allowed. quota = Inr allowed \<and> login_throttles sv cx name ip s = Inr (allowed, s1) \<and>
    (if allowed
     then \<exists>d v. verify_password (as_nfc sv) (as_hasher sv)
            (case snapshot_for sv (m1 s1) identifier of None \<Rightarrow> d | Some c \<Rightarrow> cs_password_hash c) password = Inr v \<and>
          login_finish cx (snapshot_for sv (m1 s1) identifier) v (lr_bearer rnd) (lr_csrf rnd) (lr_session_id rnd) t = Inr (res, s')
     else res = None \<and> s' = s1)"
proof -
  let ?norm = "case normalize_email (as_nfc sv) identifier of Inl _ \<Rightarrow> None | Inr n \<Rightarrow> Some n"
  have nm: "(case ?norm of None \<Rightarrow> identifier | Some n \<Rightarrow> n) = name" by (simp add: name_def split: sum.splits)
  have sn: "(case ?norm of None \<Rightarrow> None | Some email \<Rightarrow> password_authentication_snapshot (m1 s1) email) =
      snapshot_for sv (m1 s1) identifier" by (simp add: snapshot_for_def split: sum.splits)
  obtain d where d: "dummy sv (lr_salt rnd) (lr_dummy rnd) cached = Inr d" and
    att: "login_attempt sv cx m1 m2 rnd cached identifier password ip s = (Inr res, s')"
    using run by (auto simp: password_login_def or_unavailable_def pcatch_eq_Inr login_attempt_def pseq_plift split: sum.splits)
  obtain allowed where q: "login_throttles sv cx name ip s = Inr (allowed, s1)" "quota = Inr allowed"
    using att quota_def nm d
    by (auto simp: login_attempt_def pseq_plift pseq_eq_Inr Let_def transact_eq_Inr transact_def split: sum.splits)
  then show ?thesis
    using att d nm sn
    by (cases allowed) (auto simp: login_attempt_def pseq_plift Let_def pseq_Inr [OF transact_Inr] login_snapshot_def
        transact_eq_Inr t_def split: sum.splits)
qed

lemma still_currentE:
  assumes "still_current t snapshot v"
  obtains c x k where "snapshot = Some c" "v" "user_by_id t (us_id x) = Some x" "us_status x = UserActive"
    "us_id x = cs_user_id c" "us_security_version x = cs_security_version c"
    "find (\<lambda>k. cr_user_id k = us_id x) (db_credentials t) = Some k" "cr_password_hash k = cs_password_hash c"
    "still_current t (Some c) True"
proof -
  obtain c where c: "snapshot = Some c" "v" "confirm_password_authentication t (cs_user_id c) (cs_credential_version c)
      (cs_security_version c) (cs_password_hash c)"
    using assms by (auto simp: still_current_def split: option.splits)
  from confirmD [OF c(3)] obtain x k where x: "user_by_id t (cs_user_id c) = Some x" "us_status x = UserActive"
    "us_security_version x = cs_security_version c" "find (\<lambda>k. cr_user_id k = cs_user_id c) (db_credentials t) = Some k"
    "cr_password_hash k = cs_password_hash c" by blast
  have "us_id x = cs_user_id c" by (rule user_by_id_SomeD [OF x(1)])
  with c x show ?thesis by (intro that [of c x k]) (simp_all add: still_current_def)
qed

text \<open>C9. A login proves the password against the credential that is current when its session is created, however
  other requests interleave. When it answers a session, all quotas allowed the attempt, the address is the
  normalised address of the account, and at the start of the last transaction that account is active and the
  password verifies against its stored hash; the session carries the current security version, is valid, is found
  by its bearer, and the success event is committed with it. When it answers none, the last event is the failure
  and no session, user or credential was touched.\<close>

theorem login_proves_current_credential:
  assumes "db_ok s" "conn_ok cx" "\<forall>t. db_ok t \<longrightarrow> db_ok (m1 t)" "\<forall>t. db_ok t \<longrightarrow> db_ok (m2 t)"
    and name_def: "name = (case normalize_email (as_nfc sv) identifier of Inl _ \<Rightarrow> identifier | Inr n \<Rightarrow> n)"
    and quota_def: "(quota, s1) = transact (login_throttles sv cx name ip) s"
    and t_def: "t = m2 (m1 s1)"
    and fresh: "lr_session_id rnd \<notin> sr_id ` set (db_sessions t)" "sha256 (token (lr_bearer rnd)) \<notin> sr_bearer_digest ` set (db_sessions t)"
    and run: "password_login sv cx m1 m2 rnd cached identifier password ip s = (Inr res, s')"
  shows "db_ok s' \<and>
    (case res of
       Some x \<Rightarrow> quota = Inr True \<and> normalize_email (as_nfc sv) identifier = Inr name \<and>
         (\<exists>u c ev. user_by_id t (us_id u) = Some u \<and> us_status u = UserActive \<and>
            find (\<lambda>c. cr_user_id c = us_id u) (db_credentials t) = Some c \<and>
            verify_password (as_nfc sv) (as_hasher sv) (cr_password_hash c) password = Inr True \<and>
            (\<exists>v \<in> set (db_users (m1 s1)). us_id v = us_id u \<and> us_normalized_email v = name) \<and>
            sr_user_id (is_record x) = us_id u \<and> sr_security_version (is_record x) = us_security_version u \<and>
            is_valid (is_record x) (db_clock t) (us_security_version u) \<and>
            found_by (ss_bearer (is_secrets x)) (db_sessions s') = Some (is_record x) \<and>
            db_logged s' = db_logged t @ ev @ [success_line (us_id u) (sr_id (is_record x))])
     | None \<Rightarrow> (\<exists>ls. db_logged s' = ls @ [failure_line]) \<and>
         (\<exists>b. (b = s \<or> b = t) \<and> db_sessions s' = db_sessions b \<and> db_users s' = db_users b \<and> db_credentials s' = db_credentials b))"
proof -
  let ?snap = "snapshot_for sv (m1 s1) identifier"
  obtain allowed where q: "quota = Inr allowed" "login_throttles sv cx name ip s = Inr (allowed, s1)"
    "if allowed
     then \<exists>d v. verify_password (as_nfc sv) (as_hasher sv) (case ?snap of None \<Rightarrow> d | Some c \<Rightarrow> cs_password_hash c) password = Inr v \<and>
          login_finish cx ?snap v (lr_bearer rnd) (lr_csrf rnd) (lr_session_id rnd) t = Inr (res, s')
     else res = None \<and> s' = s1"
    using login_stages [OF name_def quota_def t_def run] by blast
  note fr = login_throttles_frame [OF assms(1,2) q(2)]
  have tok: "db_ok t" using fr assms(3,4) by (simp add: t_def)
  show ?thesis
  proof (cases allowed)
    case False
    with q fr quota_frame_tables [of s s1] show ?thesis by auto
  next
    case al: True
    then obtain d v where v: "verify_password (as_nfc sv) (as_hasher sv) (case ?snap of None \<Rightarrow> d | Some c \<Rightarrow> cs_password_hash c) password = Inr v"
      and fin: "login_finish cx ?snap v (lr_bearer rnd) (lr_csrf rnd) (lr_session_id rnd) t = Inr (res, s')" using q(3) by auto
    show ?thesis
    proof (cases "still_current t ?snap v")
      case False
      have "res = None" "db_ok s'" "only_events t s'" "db_logged s' = db_logged t @ [failure_line]"
        using login_finish_refused [OF tok assms(2) False, of "lr_bearer rnd" "lr_csrf rnd" "lr_session_id rnd"] fin by auto
      with only_events_tables [of t s'] show ?thesis by auto
    next
      case True
      then obtain c x k where c: "?snap = Some c" v "user_by_id t (us_id x) = Some x" "us_status x = UserActive"
        "us_id x = cs_user_id c" "us_security_version x = cs_security_version c"
        "find (\<lambda>k. cr_user_id k = us_id x) (db_credentials t) = Some k" "cr_password_hash k = cs_password_hash c"
        "still_current t (Some c) True" by (rule still_currentE)
      define new where "new = new_record (lr_session_id rnd) (us_id x) (sha256 (token (lr_bearer rnd)))
        (sha256 (token (lr_csrf rnd))) (us_security_version x) (db_clock t)"
      have eq: "new = new_record (lr_session_id rnd) (cs_user_id c) (sha256 (token (lr_bearer rnd)))
        (sha256 (token (lr_csrf rnd))) (cs_security_version c) (db_clock t)" by (simp only: new_def c(5,6))
      obtain ev where s2: "res = Some \<lparr>is_record = new, is_secrets = \<lparr>ss_bearer = token (lr_bearer rnd), ss_csrf_token = token (lr_csrf rnd)\<rparr>\<rparr>"
        "db_ok s'" "found_by (token (lr_bearer rnd)) (db_sessions s') = Some new"
        "db_logged s' = db_logged t @ ev @ [success_line (us_id x) (lr_session_id rnd)]"
        using login_finish_issued [OF tok assms(2) c(9) fresh eq] fin c(1,2,5) by auto
      have nf: "sr_user_id new = us_id x" "sr_security_version new = us_security_version x" "sr_id new = lr_session_id rnd"
        "is_valid new (db_clock t) (us_security_version x)"
        using is_valid_new_record by (simp_all add: new_def) (simp_all add: new_record_def)
      have ver: "verify_password (as_nfc sv) (as_hasher sv) (cr_password_hash k) password = Inr True"
        using v c(1,2,8) by simp
      have nm: "normalize_email (as_nfc sv) identifier = Inr name"
        "\<exists>y \<in> set (db_users (m1 s1)). us_id y = us_id x \<and> us_normalized_email y = name"
        using snapshot_for_SomeD [OF c(1)] name_def c(5) by auto
      show ?thesis
        unfolding s2(1) option.case
        by (intro conjI exI [of _ x] exI [of _ k] exI [of _ ev]) (use s2(2-4) q(1) al c(3,4,7) nm nf ver in simp_all)
    qed
  qed
qed

text \<open>C10. A password change succeeds only with the current password of a live session: at the start of the
  transaction that applies it, the bearer's session is live and its user's stored hash is the one the old password
  verified against. Then the user is locked out everywhere: the old proof and every session are dead, the stored hash
  is the new password's. Otherwise, including when the credential changed in between, nothing but events differs.\<close>

theorem change_proves_current_credential:
  assumes "db_ok s" "conn_ok cx" "\<forall>t. db_ok t \<longrightarrow> db_ok (m t)"
    and can: "\<forall>h. hash_password (as_nfc sv) (as_hasher sv) new_salt new = Inr h \<longrightarrow>
      (\<forall>r \<in> set (db_sessions (m s)). sr_bearer_digest r = sha256 bearer \<longrightarrow> changeable (m s) (sr_user_id r) h)"
    and run: "change_password sv cx m rnd new_salt cached bearer old new s = (Inr ok, s')"
  shows "db_ok s' \<and>
    (if ok
     then \<exists>r c h n. r \<in> set (db_sessions (m s)) \<and> sr_bearer_digest r = sha256 bearer \<and> sr_revoked_at r = None \<and>
       sr_idle_expires_at r > db_clock (m s) \<and> sr_absolute_expires_at r > db_clock (m s) \<and>
       find (\<lambda>c. cr_user_id c = sr_user_id r) (db_credentials (m s)) = Some c \<and>
       verify_password (as_nfc sv) (as_hasher sv) (cr_password_hash c) old = Inr True \<and>
       hash_password (as_nfc sv) (as_hasher sv) new_salt new = Inr h \<and>
       locked_out (m s) s' (sr_user_id r) h \<and> db_logged s' = db_logged (m s) @ change_lines (sr_user_id r) None Y_REVOKE_ALL n
     else only_events s s' \<or> only_events (m s) s')"
proof -
  obtain d where d: "dummy sv (lr_salt rnd) (lr_dummy rnd) cached = Inr d" and
    att: "change_attempt sv cx m rnd new_salt cached bearer old new s = (Inr ok, s')"
    using run by (auto simp: change_password_def or_unavailable_def pcatch_eq_Inr change_attempt_def pseq_plift split: sum.splits)
  let ?snap = "password_change_snapshot s (sha256 bearer)"
  show ?thesis
  proof (cases "is_ascii bearer \<and> ?snap \<noteq> None \<and>
      verify_password (as_nfc sv) (as_hasher sv) (cs_password_hash (the ?snap)) old = Inr True")
    case False
    then have "\<not> ok" "s' = s"
      using att d by (auto simp: change_attempt_def pseq_plift token_digest_def encode_ascii_def pseq_eq_Inr transact_eq_Inr
          split: sum.splits option.splits bool.splits if_splits)
    with assms(1) show ?thesis by simp
  next
    case True
    then obtain c where c: "is_ascii bearer" "?snap = Some c"
      "verify_password (as_nfc sv) (as_hasher sv) (cs_password_hash c) old = Inr True" by auto
    obtain h changed where h: "hash_password (as_nfc sv) (as_hasher sv) new_salt new = Inr h" "ok = (changed \<noteq> None)"
      "apply_password_change cx (sha256 bearer) (cs_credential_version c) (cs_security_version c) (cs_password_hash c) h (m s) = Inr (changed, s')"
      using att d c by (auto simp: change_attempt_def pseq_plift token_digest_ascii pseq_Inr [OF transact_Inr] pseq_eq_Inr
          transact_eq_Inr split: sum.splits)
    have "db_ok (m s)" using assms(1,3) by blast
    note ap = apply_password_change_run [OF this, of "sha256 bearer" h cx "cs_credential_version c" "cs_security_version c" "cs_password_hash c"]
    have res: "db_ok s'" "case changed of
       None \<Rightarrow> only_events (m s) s'
     | Some (u, n) \<Rightarrow> (\<exists>r. change_authorized (m s) (sha256 bearer) (cs_credential_version c) (cs_security_version c) (cs_password_hash c) r \<and>
           u = sr_user_id r) \<and> only_events (credential_changed (m s) u h ''revoke_all'') s' \<and>
         db_logged s' = db_logged (m s) @ change_lines u None Y_REVOKE_ALL n"
      using ap can h(1,3) by (auto split: option.splits)
    show ?thesis
    proof (cases changed)
      case None
      with res h(2) show ?thesis by simp
    next
      case (Some un)
      obtain u n where un: "un = (u, n)" by (cases un)
      with Some res(2) obtain r where r: "change_authorized (m s) (sha256 bearer) (cs_credential_version c) (cs_security_version c) (cs_password_hash c) r"
        "u = sr_user_id r" "only_events (credential_changed (m s) u h ''revoke_all'') s'"
        "db_logged s' = db_logged (m s) @ change_lines u None Y_REVOKE_ALL n" by auto
      then obtain k where k: "find (\<lambda>c. cr_user_id c = sr_user_id r) (db_credentials (m s)) = Some k" "cr_password_hash k = cs_password_hash c"
        using confirmD [of "m s" "sr_user_id r"] unfolding change_authorized_def by blast
      have "locked_out (m s) s' (sr_user_id r) h" using credential_changed_locks_out r by blast
      moreover have ok using h(2) Some by simp
      ultimately show ?thesis
        using res(1) r h(1) k c(3) by (auto simp: change_authorized_def intro!: exI [of _ r] exI [of _ n])
    qed
  qed
qed

section \<open>Witnesses\<close>

definition sample_password :: pystr where
  "sample_password = replicate 15 97"

definition sample_auth :: auth_service where
  "sample_auth = \<lparr>as_nfc = id, as_hasher = plain_hasher, as_hmac_key = replicate 32 1, as_hmac_key_id = 1\<rparr>"

definition sample_random :: login_random where
  "sample_random = \<lparr>lr_salt = [], lr_dummy = replicate 32 3, lr_bearer = [9], lr_csrf = [8], lr_session_id = 41\<rparr>"

definition sample_login_db :: db where
  "sample_login_db = sample_db\<lparr>
     db_users := [\<lparr>us_id = 5, us_email = lit ''A@b.c'', us_normalized_email = lit ''a@b.c'',
        us_status = UserActive, us_security_version = 1\<rparr>],
     db_credentials := [\<lparr>cr_user_id = 5, cr_password_hash = lit ''$argon2id$'' @ sample_password,
        cr_credential_version = 1, cr_changed_at = 0\<rparr>]\<rparr>"

lemma sample_login_db_ok: "db_ok sample_login_db"
proof -
  have "session_fk_ok sample_login_db sample_session"
    by (simp add: session_fk_iff sample_session_def new_record_def db_knows_def user_by_id_def sample_login_db_def)
  then show ?thesis
    using sample_id_inj sample_id_version sample_session_ok(1)
    by (simp add: db_ok_def sessions_ok_def ids_fresh_def sample_login_db_def sample_db_def unique_on_def catalogue_ok_def
        check_user_row_def check_membership_row_def int4_ok_def int4_max_def)
qed

lemma sample_name: "normalize_email id (lit ''A@b.c'') = Inr (lit ''a@b.c'')"
proof -
  have "strip (lit ''A@b.c'') = lit ''A@b.c''" "ascii_lower (lit ''A@b.c'') = lit ''a@b.c''"
    by (simp_all add: strip_def lit_def is_space_def ascii_lower_def is_upper_def)
  then show ?thesis using short_email by (simp add: normalize_email_def fullmatch_lang)
qed

lemma first_request_allowed:
  assumes "conn_ok cx" "db_ok s" "is_ascii value" "\<forall>k st. bucket_count s sc k st = 0"
  shows "\<exists>d s'. throttle_consume cx (as_hmac_key sample_auth) (as_hmac_key_id sample_auth) sc value s = Inr (d, s') \<and>
    db_ok s' \<and> td_allowed d \<and> (\<forall>sc' k st. sc' \<noteq> sc \<longrightarrow> bucket_count s' sc' k st = bucket_count s sc' k st)"
proof -
  obtain k where k: "sensitive_key_digest (replicate 32 1) sc value = Inr k"
    using encode_utf8_ascii [OF assms(3)] by (simp add: sensitive_key_digest_def)
  obtain l w where l: "throttle_policies sc = (l, w)" by (cases "throttle_policies sc")
  have "1 \<le> l" using l by (cases sc) auto
  moreover have "int4_ok (0 + 1)" by (simp add: int4_ok_def int4_max_def)
  ultimately show ?thesis
    using throttle_consume_ok [OF assms(1,2) _ _ _ k l refl refl, of 1] assms(4) by (auto simp: sample_auth_def)
qed

lemma sample_login_quota:
  "\<exists>s1. login_throttles sample_auth sample_conn (lit ''a@b.c'') (lit ''x'') sample_login_db = Inr (True, s1)"
proof -
  have z: "bucket_count sample_login_db sc k st = 0" for sc k st
    by (simp add: bucket_count_def sample_login_db_def sample_db_def)
  have a: "is_ascii (lit ''a@b.c'')" "is_ascii (lit ''x'')" "is_ascii (lit ''x'' @ [0] @ lit ''a@b.c'')"
    by (simp_all add: is_ascii_def lit_def)
  obtain d1 t1 where t1: "throttle_consume sample_conn (as_hmac_key sample_auth) (as_hmac_key_id sample_auth) S_LOGIN_USERNAME (lit ''a@b.c'') sample_login_db = Inr (d1, t1)"
    "db_ok t1" "td_allowed d1" "\<forall>sc' k st. sc' \<noteq> S_LOGIN_USERNAME \<longrightarrow> bucket_count t1 sc' k st = 0"
    using first_request_allowed [OF sample_conn_ok sample_login_db_ok a(1), of S_LOGIN_USERNAME] z by auto
  obtain d2 t2 where t2: "throttle_consume sample_conn (as_hmac_key sample_auth) (as_hmac_key_id sample_auth) S_LOGIN_IP (lit ''x'') t1 = Inr (d2, t2)"
    "db_ok t2" "td_allowed d2" "\<forall>k st. bucket_count t2 S_LOGIN_IP_USERNAME k st = 0"
    using first_request_allowed [OF sample_conn_ok t1(2) a(2), of S_LOGIN_IP] t1(4) by auto
  obtain d3 t3 where "throttle_consume sample_conn (as_hmac_key sample_auth) (as_hmac_key_id sample_auth) S_LOGIN_IP_USERNAME (lit ''x'' @ [0] @ lit ''a@b.c'') t2 = Inr (d3, t3)"
    "td_allowed d3"
    using first_request_allowed [OF sample_conn_ok t2(2) a(3) t2(4)] by blast
  with t1 t2 show ?thesis by (simp add: login_throttles_def seq_Inr)
qed

theorem login_proves_current_credential_witness:
  "\<exists>x s'. password_login sample_auth sample_conn id id sample_random (Some []) (lit ''A@b.c'') sample_password (lit ''x'') sample_login_db =
      (Inr (Some x), s') \<and> found_by (ss_bearer (is_secrets x)) (db_sessions s') = Some (is_record x)"
proof -
  obtain s1 where s1: "login_throttles sample_auth sample_conn (lit ''a@b.c'') (lit ''x'') sample_login_db = Inr (True, s1)"
    using sample_login_quota by blast
  note fr = login_throttles_frame [OF sample_login_db_ok sample_conn_ok s1]
  have tabs: "db_users s1 = db_users sample_login_db" "db_credentials s1 = db_credentials sample_login_db" "db_sessions s1 = [sample_session]"
    using fr quota_frame_tables [of sample_login_db s1] by (simp_all add: sample_login_db_def sample_rows)
  define c where "c = \<lparr>cs_user_id = 5, cs_password_hash = lit ''$argon2id$'' @ sample_password, cs_credential_version = 1, cs_security_version = 1\<rparr>"
  have snap: "password_authentication_snapshot s1 (lit ''a@b.c'') = Some c"
    by (simp add: password_authentication_snapshot_def tabs) (simp add: sample_login_db_def credential_of_def tabs c_def)
  have cur: "still_current s1 (Some c) True"
    by (simp add: still_current_def c_def confirm_password_authentication_def user_by_id_def tabs) (simp add: sample_login_db_def)
  have ver: "verify_password id plain_hasher (lit ''$argon2id$'' @ sample_password) sample_password = Inr True"
    by (simp add: verify_password_def normalize_password_def Let_def MIN_PASSWORD_CODE_POINTS_def MAX_PASSWORD_CODE_POINTS_def
        sample_password_def verified_with_def plain_hasher_def)
  have "hd (sha256 sample_bearer) = 86" by code_simp
  then have fresh: "41 \<notin> sr_id ` set (db_sessions s1)" "sha256 (token [9]) \<notin> sr_bearer_digest ` set (db_sessions s1)"
    using sample_digest_9 by (auto simp: tabs sample_session_fields)
  obtain x s' where fin: "login_finish sample_conn (Some c) True [9] [8] 41 s1 = Inr (Some x, s')"
    using login_finish_issued [OF conjunct1 [OF fr] sample_conn_ok cur fresh refl] by blast
  have run: "password_login sample_auth sample_conn id id sample_random (Some []) (lit ''A@b.c'') sample_password (lit ''x'') sample_login_db =
      (Inr (Some x), s')"
    using s1 snap ver fin sample_name
    by (simp add: password_login_def or_unavailable_def pcatch_def login_attempt_def pseq_plift dummy_def sample_auth_def
        pseq_Inr [OF transact_Inr] login_snapshot_def c_def sample_random_def transact_Inr)
  have q: "(Inr True, s1) = transact (login_throttles sample_auth sample_conn (lit ''a@b.c'') (lit ''x'')) sample_login_db"
    using s1 by (simp add: transact_Inr)
  have nm: "lit ''a@b.c'' = (case normalize_email (as_nfc sample_auth) (lit ''A@b.c'') of Inl _ \<Rightarrow> lit ''A@b.c'' | Inr n \<Rightarrow> n)"
    using sample_name by (simp add: sample_auth_def)
  have td: "s1 = id (id s1)" by simp
  have fr2: "lr_session_id sample_random \<notin> sr_id ` set (db_sessions s1)"
    "sha256 (token (lr_bearer sample_random)) \<notin> sr_bearer_digest ` set (db_sessions s1)"
    using fresh by (simp_all add: sample_random_def)
  have ok: "\<forall>t. db_ok t \<longrightarrow> db_ok (id t)" by simp
  from login_proves_current_credential [OF sample_login_db_ok sample_conn_ok ok ok nm q td fr2 run] run show ?thesis by auto
qed

theorem change_proves_current_credential_witness:
  "\<exists>s'. change_password sample_auth sample_conn id sample_random [] (Some []) sample_bearer sample_password (replicate 16 98) sample_login_db =
      (Inr True, s') \<and> locked_out sample_login_db s' 5 (lit ''$argon2id$'' @ replicate 16 98)"
proof -
  let ?h = "lit ''$argon2id$'' @ replicate 16 98" and ?d = "sha256 sample_bearer" and ?old = "lit ''$argon2id$'' @ sample_password"
  define c where "c = \<lparr>cs_user_id = 5, cs_password_hash = ?old, cs_credential_version = 1, cs_security_version = 1\<rparr>"
  have rows: "db_sessions sample_login_db = [sample_session]" by (simp add: sample_login_db_def sample_rows)
  have live: "sr_revoked_at sample_session = None" "sr_idle_expires_at sample_session > 2000" "sr_absolute_expires_at sample_session > 2000"
    "sr_bearer_digest sample_session = ?d" "sr_user_id sample_session = 5" "sr_security_version sample_session = 1"
    by (simp_all add: sample_session_def new_record_def session_constants)
  have clock: "db_clock sample_login_db = 2000" by (simp add: sample_login_db_def sample_db_def)
  have user: "user_by_id sample_login_db 5 = Some \<lparr>us_id = 5, us_email = lit ''A@b.c'', us_normalized_email = lit ''a@b.c'',
        us_status = UserActive, us_security_version = 1\<rparr>" by (simp add: user_by_id_def sample_login_db_def)
  have snap: "password_change_snapshot sample_login_db ?d = Some c"
    using live by (simp add: password_change_snapshot_def live_session_def rows clock user credential_of_def c_def)
      (simp add: sample_login_db_def)
  have hash: "hash_password id plain_hasher [] (replicate 16 98) = Inr ?h"
    by (simp add: hash_password_def normalize_password_def Let_def MIN_PASSWORD_CODE_POINTS_def MAX_PASSWORD_CODE_POINTS_def plain_hasher_def)
  have ver: "verify_password id plain_hasher ?old sample_password = Inr True"
    by (simp add: verify_password_def normalize_password_def Let_def MIN_PASSWORD_CODE_POINTS_def MAX_PASSWORD_CODE_POINTS_def
        sample_password_def verified_with_def plain_hasher_def)
  have can: "changeable sample_login_db 5 ?h"
    by (simp add: changeable_def sample_login_db_def check_password_hash_def starts_with_iff int4_ok_def int4_max_def)
  have auth: "change_authorized sample_login_db ?d 1 1 ?old sample_session"
    using live by (simp add: change_authorized_def rows clock confirm_password_authentication_def user) (simp add: sample_login_db_def)
  have "\<forall>r \<in> set (db_sessions sample_login_db). sr_bearer_digest r = ?d \<longrightarrow> changeable sample_login_db (sr_user_id r) ?h"
    using can live by (simp add: rows)
  then obtain u n s' where ap: "apply_password_change sample_conn ?d 1 1 ?old ?h sample_login_db = Inr (Some (u, n), s')"
    using apply_password_change_run [OF sample_login_db_ok, of ?d ?h sample_conn 1 1 ?old] auth by (auto split: option.splits)
  have run: "change_password sample_auth sample_conn id sample_random [] (Some []) sample_bearer sample_password (replicate 16 98) sample_login_db = (Inr True, s')"
    using snap ver hash ap sample_ascii
    by (simp add: change_password_def or_unavailable_def pcatch_def change_attempt_def pseq_plift dummy_def sample_auth_def
        token_digest_ascii pseq_Inr [OF transact_Inr] c_def)
  have can2: "\<forall>h. hash_password (as_nfc sample_auth) (as_hasher sample_auth) [] (replicate 16 98) = Inr h \<longrightarrow>
      (\<forall>r \<in> set (db_sessions (id sample_login_db)). sr_bearer_digest r = ?d \<longrightarrow> changeable (id sample_login_db) (sr_user_id r) h)"
    using can live hash by (simp add: rows sample_auth_def)
  show ?thesis
    using change_proves_current_credential [OF sample_login_db_ok sample_conn_ok _ can2 run] run hash
    by (auto simp: rows live sample_auth_def)
qed

end
