(* ===== verification/Authorization.thy ===== *)
theory Authorization
  imports RequestAudit
begin

text \<open>
  The authorization boundary: \<open>authorization/service.py\<close> with its live PostgreSQL lookup,
  \<open>authorization/contracts.py\<close>, the dependencies of \<open>api/authorization_dependencies.py\<close> and the
  membership views of \<open>services/membership_access_service.py\<close>.
\<close>

section \<open>The decision\<close>

datatype authorization_decision = ALLOW | DENY

definition AuthorizationBoundaryRequiredError :: app_error_class where
  "AuthorizationBoundaryRequiredError = \<lparr>ec_code = lit ''forbidden'', ec_status = 403,
     ec_message = lit ''The requested resource is not available.''\<rparr>"

definition AuthorizationDeniedError :: app_error_class where
  "AuthorizationDeniedError = \<lparr>ec_code = lit ''forbidden'', ec_status = 403,
     ec_message = lit ''The requested resource is not available.''\<rparr>"

record authorization_grant =
  ag_principal :: principal
  ag_tenant_context :: tenant_context
  ag_permission_id :: pystr

text \<open>The query of \<open>_PostgresPermissionRepository.has_permission\<close>, join by join; the three role tables are read
  under row level security.\<close>

definition permission_session :: "db \<Rightarrow> principal \<Rightarrow> session_record \<Rightarrow> bool" where
  "permission_session s p x \<longleftrightarrow>
     sr_id x = pr_session_id p \<and> sr_user_id x = pr_user_id p \<and>
     sr_selected_membership_id x = Some (pr_membership_id p) \<and>
     sr_selected_membership_version x = Some (pr_membership_version p) \<and>
     sr_revoked_at x = None \<and> sr_idle_expires_at x > db_clock s \<and> sr_absolute_expires_at x > db_clock s"

definition permission_exists :: "conn \<Rightarrow> principal \<Rightarrow> tenant_context \<Rightarrow> pystr \<Rightarrow> db \<Rightarrow> bool" where
  "permission_exists cx p c permission s =
     list_ex (\<lambda>x. permission_session s p x \<and>
       (case sr_selected_membership_id x of None \<Rightarrow> False | Some selected \<Rightarrow>
        case resolve_active_membership s (sr_user_id x) selected (sr_selected_membership_version x) (sr_security_version x) of
          None \<Rightarrow> False
        | Some (tenant, membership, _) \<Rightarrow> tenant = tc_tenant_id c \<and>
            list_ex (\<lambda>a. mr_tenant_id a = tenant \<and> mr_membership_id a = membership \<and>
              list_ex (\<lambda>r. ro_tenant_id r = mr_tenant_id a \<and> ro_id r = mr_role_id a \<and> ro_status r = RoleActive \<and>
                list_ex (\<lambda>g. rp_tenant_id g = ro_tenant_id r \<and> rp_role_id g = ro_id r \<and> rp_permission_id g = permission)
                  (visible cx rp_tenant_id (db_role_permissions s)))
                (visible cx ro_tenant_id (db_roles s)))
              (visible cx mr_tenant_id (db_membership_roles s))))
       (db_sessions s)"

definition has_permission :: "conn \<Rightarrow> principal \<Rightarrow> tenant_context \<Rightarrow> pystr \<Rightarrow> bool proc" where
  "has_permission cx p c permission =
     tenant_transaction cx (Some c) (\<lambda>cx'. read_db (permission_exists cx' p c permission))"

text \<open>
  \<open>AuthorizationService.authorize\<close> over a repository. \<open>None\<close> is a principal or context of another type
  or absent, and a permission object of another type.
\<close>

definition decide ::
  "(principal \<Rightarrow> tenant_context \<Rightarrow> pystr \<Rightarrow> bool proc) \<Rightarrow> principal option \<Rightarrow> tenant_context option \<Rightarrow> pystr option \<Rightarrow>
   authorization_decision proc" where
  "decide repository who tenant_context permission_id =
     (case who of
        None \<Rightarrow> pret DENY
      | Some p \<Rightarrow>
          pseq (plift (require_context tenant_context)) (\<lambda>context.
          pseq (plift permission_catalog) (\<lambda>catalog.
          case permission_id of
            None \<Rightarrow> pret DENY
          | Some permission \<Rightarrow>
              if permission \<notin> set catalog then pret DENY
              else if pr_membership_version p \<le> 0 then pret DENY
              else pseq (repository p context permission) (\<lambda>allowed.
                   pret (if allowed then ALLOW else DENY)))))"

definition authorize ::
  "(principal \<Rightarrow> tenant_context \<Rightarrow> pystr \<Rightarrow> bool proc) \<Rightarrow> principal option \<Rightarrow> tenant_context option \<Rightarrow> pystr option \<Rightarrow>
   authorization_decision proc" where
  "authorize repository who tenant_context permission_id =
     pcatch (decide repository who tenant_context permission_id) (\<lambda>_. pret DENY)"

section \<open>The HTTP boundary\<close>

definition require_authenticated_access ::
  "(pystr \<Rightarrow> bool) \<Rightarrow> settings \<Rightarrow> conn \<Rightarrow> request \<Rightarrow> pystr \<Rightarrow> trusted_access proc" where
  "require_authenticated_access nok se cx rq bearer =
     pseq (plift (require_session_bearer bearer)) (\<lambda>b.
     pseq (trusted_access_from_bearer nok se cx b) (\<lambda>access.
     pcatch
       (pseq (plift (validate_expected_membership rq (Some (pr_membership_id (ta_principal access))))) (\<lambda>_.
        pseq (plift (validate_session_csrf nok rq (ta_session access) (auth_origin_list se) (se_auth_local_http_origin se))) (\<lambda>_.
        pret access)))
       (\<lambda>e. if e \<in> {AppExn CsrfRejectedError, AppExn TenantContextChangedError}
            then pseq (request_denied nok se cx e rq (Some (ta_session access)) False) (\<lambda>_. pfail e)
            else pfail e)))"

text \<open>\<open>require_permission\<close> binds a route to one catalogue entry.\<close>

definition require_permission :: "conn \<Rightarrow> permission \<Rightarrow> trusted_access \<Rightarrow> authorization_grant proc" where
  "require_permission cx permission access =
     pseq (plift (PermissionId (PStr (permission_value permission)))) (\<lambda>permission_id.
     let who = ta_principal access; context = ta_context access in
     pseq (authorize (has_permission cx) (Some who) (Some context) (Some permission_id)) (\<lambda>decision.
     if decision \<noteq> ALLOW
     then pseq (authorization_denied cx (Some who) permission_id) (\<lambda>_. pfail (AppExn AuthorizationDeniedError))
     else pret \<lparr>ag_principal = who, ag_tenant_context = context, ag_permission_id = permission_id\<rparr>))"

text \<open>The dependency chain of a protected route: the cookie, the access, the permission. Other requests may commit
  between the two transactions.\<close>

definition protected_route ::
  "(pystr \<Rightarrow> bool) \<Rightarrow> settings \<Rightarrow> conn \<Rightarrow> (db \<Rightarrow> db) \<Rightarrow> request \<Rightarrow> permission \<Rightarrow> authorization_grant proc" where
  "protected_route nok se cx meanwhile rq permission =
     pseq (plift (session_bearer_from_cookie rq)) (\<lambda>bearer.
     pseq (require_authenticated_access nok se cx rq bearer) (\<lambda>access.
     pseq (others meanwhile) (\<lambda>_.
     require_permission cx permission access)))"

section \<open>Membership views\<close>

definition MembershipResourceNotFoundError :: app_error_class where
  "MembershipResourceNotFoundError = \<lparr>ec_code = lit ''not_found'', ec_status = 404,
     ec_message = lit ''The requested resource was not found.''\<rparr>"

record membership_view =
  mv_user_id :: uuid
  mv_membership_id :: uuid
  mv_tenant_id :: uuid

definition membership_current :: "authorization_grant option \<Rightarrow> exn + membership_view" where
  "membership_current grant =
     (case grant of
        None \<Rightarrow> Inl (AppExn AuthorizationBoundaryRequiredError)
      | Some g \<Rightarrow> Inr \<lparr>mv_user_id = pr_user_id (ag_principal g), mv_membership_id = pr_membership_id (ag_principal g),
          mv_tenant_id = tc_tenant_id (ag_tenant_context g)\<rparr>)"

definition membership_by_selector :: "authorization_grant option \<Rightarrow> uuid \<Rightarrow> exn + membership_view" where
  "membership_by_selector grant selector =
     (case grant of
        None \<Rightarrow> Inl (AppExn AuthorizationBoundaryRequiredError)
      | Some g \<Rightarrow>
          if selector \<noteq> pr_membership_id (ag_principal g) then Inl (AppExn MembershipResourceNotFoundError)
          else membership_current grant)"

definition read_current_membership ::
  "(pystr \<Rightarrow> bool) \<Rightarrow> settings \<Rightarrow> conn \<Rightarrow> (db \<Rightarrow> db) \<Rightarrow> request \<Rightarrow> membership_view proc" where
  "read_current_membership nok se cx meanwhile rq =
     pseq (protected_route nok se cx meanwhile rq TENANT_MEMBERSHIPS_READ) (\<lambda>grant. plift (membership_current (Some grant)))"

definition read_membership ::
  "(pystr \<Rightarrow> bool) \<Rightarrow> settings \<Rightarrow> conn \<Rightarrow> (db \<Rightarrow> db) \<Rightarrow> request \<Rightarrow> uuid \<Rightarrow> membership_view proc" where
  "read_membership nok se cx meanwhile rq membership_id =
     pseq (protected_route nok se cx meanwhile rq TENANT_MEMBERSHIPS_READ) (\<lambda>grant.
       plift (membership_by_selector (Some grant) membership_id))"

section \<open>What a decision means\<close>

text \<open>The live state a permission needs, in the words of the tables.\<close>

definition holds_permission :: "db \<Rightarrow> principal \<Rightarrow> uuid \<Rightarrow> pystr \<Rightarrow> bool" where
  "holds_permission s p tenant permission \<longleftrightarrow>
     (\<exists>x \<in> set (db_sessions s). \<exists>u m. permission_session s p x \<and>
        user_by_id s (pr_user_id p) = Some u \<and> us_status u = UserActive \<and> us_security_version u = sr_security_version x \<and>
        membership_by_id s (pr_membership_id p) = Some m \<and> mb_user_id m = pr_user_id p \<and> mb_status m = MembershipActive \<and>
        mb_version m = pr_membership_version p \<and> mb_tenant_id m = tenant \<and> tenant_active s tenant) \<and>
     (\<exists>a \<in> set (db_membership_roles s). \<exists>r \<in> set (db_roles s). \<exists>g \<in> set (db_role_permissions s).
        mr_tenant_id a = tenant \<and> mr_membership_id a = pr_membership_id p \<and>
        ro_tenant_id r = tenant \<and> ro_id r = mr_role_id a \<and> ro_status r = RoleActive \<and>
        rp_tenant_id g = tenant \<and> rp_role_id g = ro_id r \<and> rp_permission_id g = permission)"

lemma permission_catalog_ids: "permission_catalog = Inr catalog_ids"
  by code_simp

lemma resolve_active_Some_iff:
  "resolve_active_membership s u m (Some v) sv = Some (t, m', n) \<longleftrightarrow>
     (\<exists>x y. user_by_id s u = Some x \<and> membership_by_id s m = Some y \<and> mb_user_id y = u \<and>
       us_status x = UserActive \<and> us_security_version x = sv \<and> mb_status y = MembershipActive \<and> mb_version y = v \<and>
       tenant_active s (mb_tenant_id y) \<and> t = mb_tenant_id y \<and> m' = m \<and> n = v)"
proof -
  have u: "us_id x = u" if "user_by_id s u = Some x" for x
    using that by (auto simp: user_by_id_def find_Some_iff)
  have m: "mb_id y = m" if "membership_by_id s m = Some y" for y
    using membership_by_id_SomeD [OF that] by simp
  show ?thesis
    using u m by (auto simp: resolve_active_membership_def split: option.splits if_splits)
qed

lemma permission_exists_iff:
  assumes "cx_tenant cx = Some (tc_tenant_id c)"
  shows "permission_exists cx p c permission s \<longleftrightarrow> holds_permission s p (tc_tenant_id c) permission"
proof -
  let ?t = "tc_tenant_id c"
  let ?roles = "\<exists>a \<in> set (db_membership_roles s). \<exists>r \<in> set (db_roles s). \<exists>g \<in> set (db_role_permissions s).
        mr_tenant_id a = ?t \<and> mr_membership_id a = pr_membership_id p \<and>
        ro_tenant_id r = ?t \<and> ro_id r = mr_role_id a \<and> ro_status r = RoleActive \<and>
        rp_tenant_id g = ?t \<and> rp_role_id g = ro_id r \<and> rp_permission_id g = permission"
  have roles: "list_ex (\<lambda>a. mr_tenant_id a = ?t \<and> mr_membership_id a = pr_membership_id p \<and>
              list_ex (\<lambda>r. ro_tenant_id r = mr_tenant_id a \<and> ro_id r = mr_role_id a \<and> ro_status r = RoleActive \<and>
                list_ex (\<lambda>g. rp_tenant_id g = ro_tenant_id r \<and> rp_role_id g = ro_id r \<and> rp_permission_id g = permission)
                  (visible cx rp_tenant_id (db_role_permissions s)))
                (visible cx ro_tenant_id (db_roles s)))
              (visible cx mr_tenant_id (db_membership_roles s)) \<longleftrightarrow> ?roles"
    unfolding list_ex_visible [OF assms]
  proof (safe, goal_cases)
    case (1 a r g)
    then show ?case by (intro bexI [of _ a] bexI [of _ r] bexI [of _ g] conjI) simp_all
  next
    case (2 a r g)
    then show ?case by (intro bexI [of _ a] bexI [of _ r] bexI [of _ g] conjI) simp_all
  qed
  have join: "(permission_session s p x \<and>
       (case sr_selected_membership_id x of None \<Rightarrow> False | Some selected \<Rightarrow>
        case resolve_active_membership s (sr_user_id x) selected (sr_selected_membership_version x) (sr_security_version x) of
          None \<Rightarrow> False | Some (tenant, membership, _) \<Rightarrow> tenant = ?t \<and> Q tenant membership)) \<longleftrightarrow>
      permission_session s p x \<and> (\<exists>u m. user_by_id s (pr_user_id p) = Some u \<and> us_status u = UserActive \<and>
        us_security_version u = sr_security_version x \<and> membership_by_id s (pr_membership_id p) = Some m \<and>
        mb_user_id m = pr_user_id p \<and> mb_status m = MembershipActive \<and>
        mb_version m = pr_membership_version p \<and> mb_tenant_id m = ?t \<and> tenant_active s ?t) \<and> Q ?t (pr_membership_id p)"
    for x and Q :: "uuid \<Rightarrow> uuid \<Rightarrow> bool"
  proof (cases "permission_session s p x")
    case True
    then have sel: "sr_user_id x = pr_user_id p" "sr_selected_membership_id x = Some (pr_membership_id p)"
      "sr_selected_membership_version x = Some (pr_membership_version p)" by (simp_all add: permission_session_def)
    show ?thesis
    proof (cases "resolve_active_membership s (pr_user_id p) (pr_membership_id p) (Some (pr_membership_version p)) (sr_security_version x)")
      case None
      then have "\<not> (\<exists>t m' n. resolve_active_membership s (pr_user_id p) (pr_membership_id p)
          (Some (pr_membership_version p)) (sr_security_version x) = Some (t, m', n))" by simp
      then have "\<not> (\<exists>u m. user_by_id s (pr_user_id p) = Some u \<and> us_status u = UserActive \<and>
        us_security_version u = sr_security_version x \<and> membership_by_id s (pr_membership_id p) = Some m \<and>
        mb_user_id m = pr_user_id p \<and> mb_status m = MembershipActive \<and>
        mb_version m = pr_membership_version p \<and> tenant_active s (mb_tenant_id m))"
        unfolding resolve_active_Some_iff by blast
      then show ?thesis using None True sel by auto
    next
      case (Some res)
      obtain t m' n where res: "res = (t, m', n)" by (cases res)
      note iff = Some [unfolded res resolve_active_Some_iff]
      show ?thesis using Some res iff True sel by auto
    qed
  qed simp
  have pull: "(\<exists>x \<in> A. P x \<and> (\<exists>u m. E x u m) \<and> R) \<longleftrightarrow> (\<exists>x \<in> A. \<exists>u m. P x \<and> E x u m) \<and> R"
    for A :: "session_record set" and P R and E :: "session_record \<Rightarrow> user_row \<Rightarrow> membership_row \<Rightarrow> bool" by blast
  show ?thesis
    unfolding permission_exists_def list_ex_iff [of _ "db_sessions s"] join roles holds_permission_def
    by (rule pull)
qed

lemma has_permission_run:
  assumes "uuid_version (tc_tenant_id c) = Some 7" "db_intents s = []"
  shows "has_permission cx p c permission s = (Inr (holds_permission s p (tc_tenant_id c) permission), s)"
  using assms permission_exists_iff [of "bound_conn cx c" c p permission s]
  by (simp add: has_permission_def tenant_transaction_read)

lemma authorize_run:
  assumes "db_intents s = []"
  shows "authorize (has_permission cx) (Some p) (Some c) (Some q) s =
       (Inr (if uuid_version (tc_tenant_id c) = Some 7 \<and> q \<in> set catalog_ids \<and> 0 < pr_membership_version p \<and>
                holds_permission s p (tc_tenant_id c) q then ALLOW else DENY), s)"
  using assms by (auto simp: authorize_def decide_def pcatch_def pseq_plift permission_catalog_ids require_context_def
        validate_tenant_id_def pseq_Inr [OF has_permission_run] split: sum.splits)

text \<open>Authorization fails closed. Over any repository the service answers and never raises, and its answer is
  ALLOW only if the repository said so about a principal, a valid context and a catalogued permission. Over
  PostgreSQL the answer changes nothing, and it is ALLOW exactly when the session is live, its user, selected
  membership version and tenant are active, and an active role of that tenant held by the membership grants the
  permission.\<close>

theorem authorize_fails_closed:
  "(\<exists>d t. authorize repository who context permission s = (Inr d, t) \<and>
     (d = ALLOW \<longrightarrow> (\<exists>p c q. who = Some p \<and> context = Some c \<and> uuid_version (tc_tenant_id c) = Some 7 \<and>
        permission = Some q \<and> q \<in> set catalog_ids \<and> 0 < pr_membership_version p \<and> repository p c q s = (Inr True, t)))) \<and>
   (db_intents s = [] \<longrightarrow>
     authorize (has_permission cx) (Some p) (Some c) (Some q) s =
       (Inr (if uuid_version (tc_tenant_id c) = Some 7 \<and> q \<in> set catalog_ids \<and> 0 < pr_membership_version p \<and>
                holds_permission s p (tc_tenant_id c) q then ALLOW else DENY), s))"
proof (intro conjI impI)
  obtain d t where run: "authorize repository who context permission s = (Inr d, t)"
    unfolding authorize_def pcatch_def
    by (cases "decide repository who context permission s"; cases "fst (decide repository who context permission s)") auto
  have "\<exists>p c q. who = Some p \<and> context = Some c \<and> uuid_version (tc_tenant_id c) = Some 7 \<and>
        permission = Some q \<and> q \<in> set catalog_ids \<and> 0 < pr_membership_version p \<and> repository p c q s = (Inr True, t)"
    if "d = ALLOW"
  proof -
    have dec: "decide repository who context permission s = (Inr ALLOW, t)"
      using run that
      by (cases "decide repository who context permission s"; cases "fst (decide repository who context permission s)")
        (auto simp: authorize_def pcatch_def)
    then show ?thesis
      by (auto simp: decide_def pseq_plift permission_catalog_ids pseq_eq_Inr require_context_eq_Inr
          split: option.splits if_splits sum.splits)
  qed
  with run show "\<exists>d t. authorize repository who context permission s = (Inr d, t) \<and>
     (d = ALLOW \<longrightarrow> (\<exists>p c q. who = Some p \<and> context = Some c \<and> uuid_version (tc_tenant_id c) = Some 7 \<and>
        permission = Some q \<and> q \<in> set catalog_ids \<and> 0 < pr_membership_version p \<and> repository p c q s = (Inr True, t)))"
    by blast
next
  assume "db_intents s = []"
  then show "authorize (has_permission cx) (Some p) (Some c) (Some q) s =
       (Inr (if uuid_version (tc_tenant_id c) = Some 7 \<and> q \<in> set catalog_ids \<and> 0 < pr_membership_version p \<and>
                holds_permission s p (tc_tenant_id c) q then ALLOW else DENY), s)"
    by (rule authorize_run)
qed

section \<open>What a grant means\<close>

lemma trusted_access_from_bearer_Inr:
  assumes "db_ok s" "conn_ok cx" "trusted_access_from_bearer nok se cx b s = (Inr a, s')"
  shows "trusted_resolve (pg_store cx) pg_resolve_active (db_clock s) b s = Inr (a, s')"
proof -
  note laws = pg_trusted_tenants [OF assms(2)]
  obtain r t where rt: "trusted_session (pg_store cx) (db_clock s) b s = Inr (r, t)" "pg_trusted_resolve cx b t = Inr (a, s')"
    using assms(3) by (auto simp: trusted_access_from_bearer_def audited_eq_Inr identified_eq pg_trusted_session_def)
  have "is_ascii b"
    using rt(1) by (auto simp: trusted_session_def seq_eq_Inr lift_result_eq_Inr token_digest_eq_Inr)
  then have "t = s"
    using rt(1) trusted_tenants.trusted_session_run [OF laws assms(1), of b "db_clock s"] by (auto split: option.splits if_splits)
  with rt(2) show ?thesis by (simp add: pg_trusted_resolve_def)
qed

lemma require_authenticated_access_Inr:
  assumes "require_authenticated_access nok se cx rq b s = (Inr a, s')"
  shows "require_session_bearer b = Inr b \<and> trusted_access_from_bearer nok se cx b s = (Inr a, s') \<and>
    validate_expected_membership rq (Some (pr_membership_id (ta_principal a))) = Inr () \<and>
    validate_session_csrf nok rq (ta_session a) (auth_origin_list se) (se_auth_local_http_origin se) = Inr ()"
proof -
  let ?p = "\<lambda>t. pseq (plift (validate_expected_membership rq (Some (pr_membership_id (ta_principal t))))) (\<lambda>_.
        pseq (plift (validate_session_csrf nok rq (ta_session t) (auth_origin_list se) (se_auth_local_http_origin se))) (\<lambda>_.
        pret t))"
  let ?h = "\<lambda>t e. if e \<in> {AppExn CsrfRejectedError, AppExn TenantContextChangedError}
            then pseq (request_denied nok se cx e rq (Some (ta_session t)) False) (\<lambda>_. pfail e)
            else pfail e"
  have h: "?h t e u \<noteq> (Inr x, v)" for t e u v and x :: trusted_access by simp
  obtain t u where b: "require_session_bearer b = Inr b" and u: "trusted_access_from_bearer nok se cx b s = (Inr t, u)"
    "pcatch (?p t) (?h t) u = (Inr a, s')"
    using assms unfolding require_authenticated_access_def pseq_eq_Inr
    by (auto simp: require_session_bearer_def split: if_splits)
  from u(2) have "?p t u = (Inr a, s')" unfolding pcatch_eq_Inr using h by blast
  then have "t = a \<and> u = s' \<and> validate_expected_membership rq (Some (pr_membership_id (ta_principal a))) = Inr () \<and>
    validate_session_csrf nok rq (ta_session a) (auth_origin_list se) (se_auth_local_http_origin se) = Inr ()"
    by (auto simp: pseq_eq_Inr)
  with b u(1) show ?thesis by simp
qed

lemma require_permission_Inr:
  assumes "require_permission cx permission access s = (Inr g, s')" "db_intents s = []"
  shows "s' = s \<and> g = \<lparr>ag_principal = ta_principal access, ag_tenant_context = ta_context access,
      ag_permission_id = permission_value permission\<rparr> \<and>
    holds_permission s (ta_principal access) (tc_tenant_id (ta_context access)) (permission_value permission)"
proof -
  let ?c = "ta_context access" and ?p = "ta_principal access" and ?q = "permission_value permission"
  have id: "PermissionId (PStr ?q) = Inr ?q"
    using assms(1) by (auto simp: require_permission_def pseq_eq_Inr PermissionId_def split: if_splits)
  define allowed where "allowed \<longleftrightarrow> uuid_version (tc_tenant_id ?c) = Some 7 \<and> ?q \<in> set catalog_ids \<and>
    0 < pr_membership_version ?p \<and> holds_permission s ?p (tc_tenant_id ?c) ?q"
  have run: "require_permission cx permission access s =
      (if allowed then (Inr \<lparr>ag_principal = ?p, ag_tenant_context = ?c, ag_permission_id = ?q\<rparr>, s)
       else pseq (authorization_denied cx (Some ?p) ?q) (\<lambda>_. pfail (AppExn AuthorizationDeniedError)) s)"
  proof -
    have "authorize (has_permission cx) (Some ?p) (Some ?c) (Some ?q) s = (Inr (if allowed then ALLOW else DENY), s)"
      by (simp only: authorize_run [OF assms(2)] allowed_def)
    then show ?thesis by (simp add: require_permission_def pseq_plift id Let_def pseq_Inr)
  qed
  have al: allowed
  proof (rule ccontr)
    assume "\<not> allowed"
    then have "pseq (authorization_denied cx (Some ?p) ?q) (\<lambda>_. pfail (AppExn AuthorizationDeniedError)) s = (Inr g, s')"
      using run assms(1) by simp
    then show False by simp
  qed
  then have "g = \<lparr>ag_principal = ?p, ag_tenant_context = ?c, ag_permission_id = ?q\<rparr> \<and> s' = s"
    using run assms(1) by auto
  with al show ?thesis by (simp add: allowed_def)
qed

text \<open>C6. A protected route runs its handler only with proof. A grant means that the cookie's bearer names a valid
  session, that its user, its selected membership at the selected version and the tenant are active, that an unsafe
  request carries the session's CSRF token from an allowed origin and names that membership, and that, after
  whatever other requests committed in between, the principal still holds the route's permission in that tenant.
  Nothing was written on the way.\<close>

theorem grant_proven:
  assumes "db_ok s" "conn_ok cx" "db_intents (meanwhile s) = []"
    and "protected_route nok se cx meanwhile rq permission s = (Inr g, s')"
  shows "s' = meanwhile s \<and> ag_permission_id g = permission_value permission \<and>
    (\<exists>b r x y. map_of (rq_cookies rq) SESSION_COOKIE = Some b \<and> length b = 43 \<and> found_by b (db_sessions s) = Some r \<and>
       is_valid r (db_clock s) (sr_security_version r) \<and>
       user_by_id s (sr_user_id r) = Some x \<and> us_status x = UserActive \<and> us_security_version x = sr_security_version r \<and>
       membership_by_id s (mb_id y) = Some y \<and> mb_user_id y = sr_user_id r \<and> mb_status y = MembershipActive \<and>
       sr_selected_membership_id r = Some (mb_id y) \<and> sr_selected_membership_version r = Some (mb_version y) \<and>
       tenant_active s (mb_tenant_id y) \<and> tc_tenant_id (ag_tenant_context g) = mb_tenant_id y \<and>
       ag_principal g = \<lparr>pr_user_id = sr_user_id r, pr_session_id = sr_id r, pr_membership_id = mb_id y,
         pr_membership_version = mb_version y\<rparr> \<and>
       (is_unsafe rq \<longrightarrow> validate_origin nok rq (auth_origin_list se) (se_auth_local_http_origin se) = Inr () \<and>
          (\<exists>t. header rq CSRF_HEADER = Some t \<and> sr_csrf_digest r = sha256 t) \<and>
          (\<exists>text. header rq EXPECTED_MEMBERSHIP = Some text \<and> parse_uuid text = Inr (mb_id y)))) \<and>
    holds_permission (meanwhile s) (ag_principal g) (tc_tenant_id (ag_tenant_context g)) (permission_value permission)"
proof -
  obtain b a u where b: "session_bearer_from_cookie rq = Inr b"
    and acc: "require_authenticated_access nok se cx rq b s = (Inr a, u)"
    and perm: "require_permission cx permission a (meanwhile u) = (Inr g, s')"
    using assms(4) by (auto simp: protected_route_def pseq_eq_Inr)
  note ra = require_authenticated_access_Inr [OF acc]
  have res: "trusted_resolve (pg_store cx) pg_resolve_active (db_clock s) b s = Inr (a, u)"
    by (rule trusted_access_from_bearer_Inr [OF assms(1,2)]) (use ra in blast)
  note live = trusted_access_live [OF assms(1) res assms(2)]
  have u: "u = s" using live by blast
  obtain r x y where lv: "found_by b (db_sessions s) = Some r" "is_valid r (db_clock s) (sr_security_version r)" "ta_session a = r"
    "user_by_id s (sr_user_id r) = Some x" "us_status x = UserActive" "us_security_version x = sr_security_version r"
    "sr_selected_membership_id r = Some (mb_id y)" "membership_by_id s (mb_id y) = Some y" "mb_user_id y = sr_user_id r"
    "mb_status y = MembershipActive" "sr_selected_membership_version r = Some (mb_version y)" "tenant_active s (mb_tenant_id y)"
    "ta_principal a = \<lparr>pr_user_id = sr_user_id r, pr_session_id = sr_id r, pr_membership_id = mb_id y, pr_membership_version = mb_version y\<rparr>"
    "tc_tenant_id (ta_context a) = mb_tenant_id y"
    using live by blast
  have g: "s' = meanwhile s" "g = \<lparr>ag_principal = ta_principal a, ag_tenant_context = ta_context a,
      ag_permission_id = permission_value permission\<rparr>"
    "holds_permission (meanwhile s) (ta_principal a) (tc_tenant_id (ta_context a)) (permission_value permission)"
    using require_permission_Inr [OF perm] assms(3) u by simp_all
  have ck: "map_of (rq_cookies rq) SESSION_COOKIE = Some b"
    using b by (auto simp: session_bearer_from_cookie_def split: option.splits if_splits)
  have len: "length b = 43" using ra by (simp add: require_session_bearer_eq_Inr)
  have unsafe: "is_unsafe rq \<longrightarrow> validate_origin nok rq (auth_origin_list se) (se_auth_local_http_origin se) = Inr () \<and>
          (\<exists>t. header rq CSRF_HEADER = Some t \<and> sr_csrf_digest r = sha256 t) \<and>
          (\<exists>text. header rq EXPECTED_MEMBERSHIP = Some text \<and> parse_uuid text = Inr (mb_id y))"
    using ra lv(3,13)
    by (auto simp: validate_session_csrf_eq_Inr validate_expected_membership_eq_Inr split: option.splits)
  show ?thesis
    by (intro conjI exI [of _ b] exI [of _ r] exI [of _ x] exI [of _ y]) (use g lv ck len unsafe in simp_all)
qed

section \<open>Witnesses\<close>

definition sample_role_db :: db where
  "sample_role_db = sample_tenant_db\<lparr>
     db_roles := [\<lparr>ro_id = 7, ro_tenant_id = sample_id 1, ro_key = lit ''admin'', ro_display_name = lit ''Admin'',
       ro_status = RoleActive, ro_version = 1\<rparr>],
     db_role_permissions := [\<lparr>rp_tenant_id = sample_id 1, rp_role_id = 7, rp_permission_id = lit ''tenant.memberships.read''\<rparr>,
       \<lparr>rp_tenant_id = sample_id 1, rp_role_id = 7, rp_permission_id = lit ''tenant.roles.manage''\<rparr>],
     db_membership_roles := [\<lparr>mr_tenant_id = sample_id 1, mr_membership_id = 6, mr_role_id = 7\<rparr>]\<rparr>"

definition sample_principal :: principal where
  "sample_principal = \<lparr>pr_user_id = 5, pr_session_id = 40, pr_membership_id = 6, pr_membership_version = 1\<rparr>"

definition sample_context :: tenant_context where
  "sample_context = \<lparr>tc_tenant_id = sample_id 1\<rparr>"

lemma sample_role_db_ok: "db_ok sample_role_db"
proof -
  have "same_catalogue sample_tenant_db sample_role_db" by (simp add: sample_role_db_def same_catalogue_def)
  then show ?thesis
    using sample_tenant_db_ok same_catalogue_facts(3) [of sample_tenant_db sample_role_db]
    by (simp add: db_ok_def sessions_ok_def ids_fresh_def sample_role_db_def)
qed

lemma sample_holds:
  assumes "q \<in> {lit ''tenant.memberships.read'', lit ''tenant.roles.manage''}"
  shows "holds_permission sample_role_db sample_principal (sample_id 1) q"
proof -
  have "sr_user_id sample_selected = 5" "sr_id sample_selected = 40" "sr_security_version sample_selected = 1"
    "sr_idle_expires_at sample_selected > 2000" "sr_absolute_expires_at sample_selected > 2000" "sr_revoked_at sample_selected = None"
    by (simp_all add: sample_selected_def sample_session_def new_record_def session_constants)
  then show ?thesis
    using assms
    by (auto simp: holds_permission_def permission_session_def sample_role_db_def sample_tenant_db_def sample_db_def
        sample_principal_def sample_selected_def user_by_id_def membership_by_id_def tenant_active_def tenant_by_id_def)
qed

theorem authorize_fails_closed_witness:
  "authorize (has_permission sample_conn) (Some sample_principal) (Some sample_context) (Some (lit ''tenant.memberships.read''))
     sample_role_db = (Inr ALLOW, sample_role_db)"
proof -
  have i: "db_intents sample_role_db = []" by (simp add: sample_role_db_def sample_tenant_db_def sample_db_def)
  have "lit ''tenant.memberships.read'' \<in> set catalog_ids" by (simp add: catalog_ids_def all_permissions_def)
  moreover have "holds_permission sample_role_db sample_principal (tc_tenant_id sample_context) (lit ''tenant.memberships.read'')"
    using sample_holds by (simp add: sample_context_def)
  moreover have "uuid_version (tc_tenant_id sample_context) = Some 7" by (simp add: sample_context_def sample_id_version)
  moreover have "0 < pr_membership_version sample_principal" by (simp add: sample_principal_def)
  ultimately show ?thesis
    using authorize_fails_closed [where s = sample_role_db and cx = sample_conn and p = sample_principal and
        c = sample_context and q = "lit ''tenant.memberships.read''"] i by simp
qed

definition sample_get :: request where
  "sample_get = \<lparr>rq_method = lit ''GET'', rq_headers = [], rq_cookies = [(SESSION_COOKIE, sample_bearer)],
     rq_base_url = lit ''https://a.co/'', rq_client = None\<rparr>"

lemma sample_get_safe: "\<not> is_unsafe sample_get"
  by (simp add: is_unsafe_def sample_get_def ascii_upper_def UNSAFE_METHODS_def lit_def is_lower_def)

lemma sample_role_access:
  "\<exists>a. trusted_access_from_bearer nok se sample_conn sample_bearer sample_role_db = (Inr a, sample_role_db) \<and>
     ta_principal a = sample_principal \<and> ta_context a = sample_context"
proof -
  note laws = pg_trusted_tenants [OF sample_conn_ok]
  have clock: "db_clock sample_role_db = 2000" by (simp add: sample_role_db_def sample_tenant_db_def sample_db_def)
  have rows: "db_sessions sample_role_db = [sample_selected]" by (simp add: sample_role_db_def sample_tenant_db_def)
  have "found_by sample_bearer [sample_selected] = Some sample_selected"
    by (simp add: found_by_def sample_selected_def sample_session_fields)
  moreover have "is_valid sample_selected 2000 (sr_security_version sample_selected)"
    by (simp add: sample_selected_def sample_session_def is_valid_def new_record_def session_constants)
  ultimately have ts: "trusted_session (pg_store sample_conn) 2000 sample_bearer sample_role_db = Inr (sample_selected, sample_role_db)"
    using trusted_tenants.trusted_session_run [OF laws sample_role_db_ok sample_ascii, of 2000] rows by simp
  have "resolve_active_membership sample_role_db 5 6 (Some 1) 1 = Some (sample_id 1, 6, 1)"
    by (simp add: resolve_active_membership_def user_by_id_def membership_by_id_def tenant_active_def tenant_by_id_def
        sample_role_db_def sample_tenant_db_def sample_db_def)
  moreover have "sr_user_id sample_selected = 5" "sr_security_version sample_selected = 1" "sr_id sample_selected = 40"
    by (simp_all add: sample_selected_def sample_session_def new_record_def)
  ultimately show ?thesis
    using ts by (simp add: trusted_access_from_bearer_def audited_eq_Inr identified_def pg_trusted_session_def
        pg_trusted_resolve_def clock trusted_resolve_def seq_Inr pg_resolve_active_def trusted_access_of_def
        sample_selected_def TenantContext_def validate_tenant_id_def sample_id_version sample_principal_def sample_context_def
        audited_auth_transaction_def)
qed

theorem grant_proven_witness:
  "\<exists>g. protected_route (\<lambda>_. True) sample_settings sample_conn (\<lambda>s. s) sample_get TENANT_MEMBERSHIPS_READ sample_role_db =
       (Inr g, sample_role_db) \<and> ag_permission_id g = lit ''tenant.memberships.read''"
proof -
  obtain a where a: "trusted_access_from_bearer (\<lambda>_. True) sample_settings sample_conn sample_bearer sample_role_db = (Inr a, sample_role_db)"
    "ta_principal a = sample_principal" "ta_context a = sample_context"
    using sample_role_access by blast
  have bearer: "session_bearer_from_cookie sample_get = Inr sample_bearer" "require_session_bearer sample_bearer = Inr sample_bearer"
    using token_accepted [of "replicate 32 1"]
    by (auto simp: session_bearer_from_cookie_def sample_get_def sample_bearer_def require_session_bearer_eq_Inr)
  have req: "require_authenticated_access (\<lambda>_. True) sample_settings sample_conn sample_get sample_bearer sample_role_db = (Inr a, sample_role_db)"
    using a(1) bearer(2) sample_get_safe
    by (simp add: require_authenticated_access_def pseq_plift pseq_Inr pcatch_def validate_expected_membership_def validate_session_csrf_def)
  have i: "db_intents sample_role_db = []" by (simp add: sample_role_db_def sample_tenant_db_def sample_db_def)
  have id: "PermissionId (PStr (permission_value TENANT_MEMBERSHIPS_READ)) = Inr (lit ''tenant.memberships.read'')" by code_simp
  have al: "lit ''tenant.memberships.read'' \<in> set catalog_ids" by (simp add: catalog_ids_def all_permissions_def)
  have "authorize (has_permission sample_conn) (Some sample_principal) (Some sample_context) (Some (lit ''tenant.memberships.read''))
      sample_role_db = (Inr ALLOW, sample_role_db)"
    using authorize_run [OF i, of sample_conn sample_principal sample_context "lit ''tenant.memberships.read''"] al
      sample_holds [of "lit ''tenant.memberships.read''"]
    by (simp add: sample_context_def sample_id_version sample_principal_def)
  then obtain g where run: "protected_route (\<lambda>_. True) sample_settings sample_conn (\<lambda>s. s) sample_get TENANT_MEMBERSHIPS_READ sample_role_db =
       (Inr g, sample_role_db)"
    using bearer(1) req a id by (auto simp: protected_route_def pseq_plift pseq_Inr require_permission_def)
  from grant_proven [OF sample_role_db_ok sample_conn_ok i run] run show ?thesis by simp
qed

end
