(* ===== verification/AuthHttp.thy ===== *)
theory AuthHttp
  imports PasswordAuth Authorization
begin

text \<open>
  \<open>db/auth_http.py\<close> and \<open>api/routes/auth_sessions.py\<close>: the session endpoints over the PostgreSQL boundary. Each
  operation is the sequence of transactions the code opens, with what other requests commit in between as
  arguments where the operation spans several; responses are the cookies and headers the routes set.
\<close>

section \<open>Projections and helpers\<close>

record session_identity_view =
  si_id :: uuid
  si_email :: pystr
  si_selected_membership_id :: "uuid option"

record session_membership_view =
  sm_id :: uuid
  sm_tenant_id :: uuid
  sm_tenant_name :: pystr

definition bootstrap_token :: "pystr \<Rightarrow> exn + pystr" where
  "bootstrap_token bearer =
     (case encode_ascii bearer of
        None \<Rightarrow> Inl UnicodeExn
      | Some b \<Rightarrow> Inr (b64url_nopad (hmac_sha256 b (lit ''sahl-csrf-bootstrap-v1''))))"

definition active_session :: "conn \<Rightarrow> pystr \<Rightarrow> (exn, db, session_record \<times> session_identity_view) action" where
  "active_session cx bearer =
     seq (lift_result (require_session_bearer bearer)) (\<lambda>_.
     seq (lift_result (token_digest bearer)) (\<lambda>digest.
     seq (st_get_by_digest (pg_store cx) digest) (\<lambda>found.
     case found of
       None \<Rightarrow> raise (AppExn SessionRejectedError)
     | Some record \<Rightarrow>
         seq (read_db (\<lambda>s. session_identity s digest)) (\<lambda>identity.
         case identity of
           None \<Rightarrow> raise (AppExn SessionRejectedError)
         | Some (user_id, email, security_version) \<Rightarrow>
             if sr_user_id record \<noteq> user_id then raise (AppExn SessionRejectedError)
             else
              seq (read_db db_clock) (\<lambda>now.
              if \<not> is_valid record now security_version then raise (AppExn SessionRejectedError)
              else ret (record, \<lparr>si_id = user_id, si_email = email,
                     si_selected_membership_id = sr_selected_membership_id record\<rparr>))))))"

definition validate_unsafe :: "(pystr \<Rightarrow> bool) \<Rightarrow> settings \<Rightarrow> request \<Rightarrow> session_record \<Rightarrow> exn + unit" where
  "validate_unsafe nok se rq record =
     and_then (validate_expected_membership rq (sr_selected_membership_id record)) (\<lambda>_.
     validate_session_csrf nok rq record (auth_origin_list se) (se_auth_local_http_origin se))"

definition AuthThrottledError :: app_error_class where
  "AuthThrottledError = \<lparr>ec_code = lit ''throttled'', ec_status = 429,
     ec_message = lit ''The request could not be completed. Try again later.''\<rparr>"

definition password_authentication :: "settings \<Rightarrow> (pystr \<Rightarrow> pystr) \<Rightarrow> hasher \<Rightarrow> exn + auth_service" where
  "password_authentication se nfc hs =
     and_then (PasswordService_init (se_password_hash_concurrency se)) (\<lambda>_.
     and_then (required_auth_hmac_key se) (\<lambda>key.
     PasswordAuthenticationService nfc hs key (se_auth_hmac_key_id se)))"

definition client_host :: "request \<Rightarrow> pystr" where
  "client_host rq = (case rq_client rq of None \<Rightarrow> lit ''unknown'' | Some h \<Rightarrow> h)"

definition csrf_quota :: "settings \<Rightarrow> conn \<Rightarrow> request \<Rightarrow> (exn, db, throttle_decision) action" where
  "csrf_quota se cx rq =
     seq (lift_result (required_auth_hmac_key se)) (\<lambda>key.
     throttle_consume cx key (se_auth_hmac_key_id se) S_CSRF_IP (client_host rq))"

section \<open>The service\<close>

definition bootstrap_preauth ::
  "settings \<Rightarrow> conn \<Rightarrow> (db \<Rightarrow> db) \<Rightarrow> bytes \<Rightarrow> bytes \<Rightarrow> request \<Rightarrow> issued_preauth proc" where
  "bootstrap_preauth se cx meanwhile state_random csrf_random rq =
     pseq (transact (csrf_quota se cx rq)) (\<lambda>decision.
     if \<not> td_allowed decision then pfail (AppExn AuthThrottledError)
     else
       pseq (others meanwhile) (\<lambda>_.
       transact (seq (read_db db_clock) (\<lambda>clock. issue_preauth (pg_store cx) None clock state_random csrf_random))))"

text \<open>The two tokens a login must carry, in the form every token has.\<close>

definition preauth_state_token :: "request \<Rightarrow> pystr" where
  "preauth_state_token rq = (case map_of (rq_cookies rq) PREAUTH_COOKIE of None \<Rightarrow> [] | Some v \<Rightarrow> v)"

definition preauth_csrf_token :: "request \<Rightarrow> pystr" where
  "preauth_csrf_token rq = (case header rq CSRF_HEADER of None \<Rightarrow> [] | Some v \<Rightarrow> v)"

definition login_tokens :: "request \<Rightarrow> exn + unit" where
  "login_tokens rq =
     (case and_then (require_session_bearer (preauth_state_token rq)) (\<lambda>_. require_session_bearer (preauth_csrf_token rq)) of
        Inr _ \<Rightarrow> Inr ()
      | Inl e \<Rightarrow> Inl (if e = AppExn SessionRejectedError then AppExn CsrfRejectedError else e))"

definition consume_login_preauth :: "conn \<Rightarrow> request \<Rightarrow> (exn, db, bool) action" where
  "consume_login_preauth cx rq =
     seq (read_db db_clock) (\<lambda>clock.
     consume_preauth (pg_store cx) (preauth_state_token rq) (preauth_csrf_token rq) None clock)"

text \<open>The last transaction: the stored row takes the digest of the token derived from the bearer.\<close>

definition adopt_csrf :: "conn \<Rightarrow> issued_session \<Rightarrow> pystr \<Rightarrow> (exn, db, issued_session) action" where
  "adopt_csrf cx issued csrf =
     seq (active_session cx (ss_bearer (is_secrets issued))) (\<lambda>(current, _).
     seq (lift_result (token_digest csrf)) (\<lambda>digest.
     let record = current\<lparr>sr_csrf_digest := digest\<rparr> in
     seq (st_replace (pg_store cx) record) (\<lambda>_.
     ret \<lparr>is_record = record, is_secrets = (is_secrets issued)\<lparr>ss_csrf_token := csrf\<rparr>\<rparr>)))"

record login_environment =
  le_nok :: "pystr \<Rightarrow> bool"
  le_settings :: settings
  le_nfc :: "pystr \<Rightarrow> pystr"
  le_hasher :: hasher
  le_conn :: conn
  le_random :: login_random
  le_cached :: "pystr option"

text \<open>Other requests may commit at four points: after the pre-auth state was consumed, twice inside the password
  check, and before the CSRF token is adopted.\<close>

definition http_login ::
  "login_environment \<Rightarrow> (nat \<Rightarrow> db \<Rightarrow> db) \<Rightarrow> pystr \<Rightarrow> pystr \<Rightarrow> request \<Rightarrow> issued_session proc" where
  "http_login env meanwhile email password rq =
     pseq (plift (validate_origin (le_nok env) rq (auth_origin_list (le_settings env)) (se_auth_local_http_origin (le_settings env)))) (\<lambda>_.
     pseq (plift (login_tokens rq)) (\<lambda>_.
     pseq (transact (consume_login_preauth (le_conn env) rq)) (\<lambda>valid.
     if \<not> valid then pfail (AppExn CsrfRejectedError)
     else
       pseq (plift (password_authentication (le_settings env) (le_nfc env) (le_hasher env))) (\<lambda>sv.
       pseq (others (meanwhile 0)) (\<lambda>_.
       pseq (password_login sv (le_conn env) (meanwhile 1) (meanwhile 2) (le_random env) (le_cached env) email password (client_host rq)) (\<lambda>issued.
       case issued of
         None \<Rightarrow> pfail (AppExn SessionRejectedError)
       | Some i \<Rightarrow>
           pseq (plift (bootstrap_token (ss_bearer (is_secrets i)))) (\<lambda>csrf.
           pseq (others (meanwhile 3)) (\<lambda>_.
           transact (adopt_csrf (le_conn env) i csrf)))))))))"

definition http_me :: "(pystr \<Rightarrow> bool) \<Rightarrow> settings \<Rightarrow> conn \<Rightarrow> pystr \<Rightarrow> session_identity_view proc" where
  "http_me nok se cx bearer =
     audited_auth_transaction nok se cx None
       (identified fst (active_session cx bearer) (\<lambda>(record, identity).
          seq (if sr_selected_membership_id record \<noteq> None
               then seq (pg_trusted_resolve cx bearer) (\<lambda>_. ret ()) else ret ()) (\<lambda>_.
          seq (read_db db_clock) (\<lambda>clock.
          seq (resolve (pg_store cx) bearer (sr_security_version record) None clock) (\<lambda>_.
          ret identity)))))"

definition http_memberships :: "conn \<Rightarrow> pystr \<Rightarrow> session_membership_view list proc" where
  "http_memberships cx bearer =
     transact (seq (active_session cx bearer) (\<lambda>_.
       seq (lift_result (token_digest bearer)) (\<lambda>digest.
       read_db (\<lambda>s. map (\<lambda>(m, t, name, _). \<lparr>sm_id = m, sm_tenant_id = t, sm_tenant_name = name\<rparr>)
         (session_memberships s digest)))))"

definition bootstrap_csrf :: "settings \<Rightarrow> conn \<Rightarrow> (db \<Rightarrow> db) \<Rightarrow> pystr \<Rightarrow> request \<Rightarrow> pystr proc" where
  "bootstrap_csrf se cx meanwhile bearer rq =
     pseq (plift (require_session_bearer bearer)) (\<lambda>_.
     pseq (transact (csrf_quota se cx rq)) (\<lambda>decision.
     if \<not> td_allowed decision then pfail (AppExn AuthThrottledError)
     else
       pseq (others meanwhile) (\<lambda>_.
       transact
        (seq (active_session cx bearer) (\<lambda>(record, _).
         seq (lift_result (bootstrap_token bearer)) (\<lambda>token.
         seq (lift_result (token_digest token)) (\<lambda>digest.
         seq (if sr_csrf_digest record \<noteq> digest
              then st_replace (pg_store cx) (record\<lparr>sr_csrf_digest := digest\<rparr>) else ret ()) (\<lambda>_.
         ret token))))))))"

definition switch_event :: "uuid \<Rightarrow> uuid \<Rightarrow> uuid \<Rightarrow> exn + audit_event" where
  "switch_event user session membership =
     SecurityAuditEvent ((no_event_args TENANT_SWITCH R_SUCCESS)
       \<lparr>ea_user_id := Proper user, ea_session_id := Proper session, ea_membership_id := Proper membership\<rparr>) False"

definition switch_work ::
  "(pystr \<Rightarrow> bool) \<Rightarrow> settings \<Rightarrow> conn \<Rightarrow> bytes \<Rightarrow> bytes \<Rightarrow> pystr \<Rightarrow> uuid \<Rightarrow> request \<Rightarrow> session_record \<Rightarrow> (exn, db, issued_session) action" where
  "switch_work nok se cx bearer_random csrf_random bearer selector rq record =
     seq (lift_result (validate_unsafe nok se rq record)) (\<lambda>_.
     seq (read_db db_clock) (\<lambda>clock.
     seq (trusted_switch (pg_store cx) pg_resolve_active clock bearer selector bearer_random csrf_random) (\<lambda>switched.
     let i = sa_issued_session switched in
     seq (lift_result (bootstrap_token (ss_bearer (is_secrets i)))) (\<lambda>csrf.
     seq (lift_result (token_digest csrf)) (\<lambda>digest.
     let issued = \<lparr>is_record = (is_record i)\<lparr>sr_csrf_digest := digest\<rparr>, is_secrets = (is_secrets i)\<lparr>ss_csrf_token := csrf\<rparr>\<rparr> in
     seq (st_replace (pg_store cx) (is_record issued)) (\<lambda>_.
     seq (lift_result (switch_event (sr_user_id (is_record issued)) (sr_id (is_record issued))
            (pr_membership_id (ta_principal (sa_access switched))))) (\<lambda>event.
     seq (pg_write_security_event cx event) (\<lambda>_.
     ret issued))))))))"

definition http_switch ::
  "(pystr \<Rightarrow> bool) \<Rightarrow> settings \<Rightarrow> conn \<Rightarrow> bytes \<Rightarrow> bytes \<Rightarrow> pystr \<Rightarrow> uuid \<Rightarrow> request \<Rightarrow> issued_session proc" where
  "http_switch nok se cx bearer_random csrf_random bearer selector rq =
     audited_auth_transaction nok se cx (Some rq)
       (identified fst (active_session cx bearer) (\<lambda>(record, _).
          switch_work nok se cx bearer_random csrf_random bearer selector rq record))"

definition http_logout :: "(pystr \<Rightarrow> bool) \<Rightarrow> settings \<Rightarrow> conn \<Rightarrow> pystr \<Rightarrow> request \<Rightarrow> unit proc" where
  "http_logout nok se cx bearer rq =
     audited_auth_transaction nok se cx (Some rq)
       (identified fst (active_session cx bearer) (\<lambda>(record, _).
          seq (lift_result (validate_unsafe nok se rq record)) (\<lambda>_.
          seq (read_db db_clock) (\<lambda>now.
          seq (logout (pg_store cx) bearer (Some now) now) (\<lambda>done_now.
          require done_now (AppExn SessionRejectedError))))))"

section \<open>The routes\<close>

definition me_route :: "(pystr \<Rightarrow> bool) \<Rightarrow> settings \<Rightarrow> conn \<Rightarrow> request \<Rightarrow> session_identity_view proc" where
  "me_route nok se cx rq = pseq (plift (session_bearer_from_cookie rq)) (http_me nok se cx)"

definition memberships_route :: "conn \<Rightarrow> request \<Rightarrow> session_membership_view list proc" where
  "memberships_route cx rq = pseq (plift (session_bearer_from_cookie rq)) (http_memberships cx)"

definition csrf_route ::
  "(pystr \<Rightarrow> bool) \<Rightarrow> settings \<Rightarrow> conn \<Rightarrow> (db \<Rightarrow> db) \<Rightarrow> request \<Rightarrow> reply \<Rightarrow> reply proc" where
  "csrf_route nok se cx meanwhile rq response =
     pseq (plift (session_bearer_from_cookie rq)) (\<lambda>bearer.
     pseq (pcatch (plift (validate_csrf_bootstrap_origin nok rq (auth_origin_list se) (se_auth_local_http_origin se)))
             (\<lambda>e. if e = AppExn CsrfRejectedError
                  then pseq (request_denied nok se cx e rq None True) (\<lambda>_. pfail e) else pfail e)) (\<lambda>_.
     pseq (bootstrap_csrf se cx meanwhile bearer rq) (\<lambda>token.
     pret (expose_csrf_token token response))))"

definition switch_tenant_route ::
  "(pystr \<Rightarrow> bool) \<Rightarrow> settings \<Rightarrow> conn \<Rightarrow> bytes \<Rightarrow> bytes \<Rightarrow> uuid \<Rightarrow> request \<Rightarrow> reply \<Rightarrow> reply proc" where
  "switch_tenant_route nok se cx bearer_random csrf_random membership_id rq response =
     pseq (plift (session_bearer_from_cookie rq)) (\<lambda>bearer.
     pseq (http_switch nok se cx bearer_random csrf_random bearer membership_id rq) (\<lambda>issued.
     pret (expose_csrf_token (ss_csrf_token (is_secrets issued))
       (set_session_cookie (ss_bearer (is_secrets issued)) response))))"

definition logout_route :: "(pystr \<Rightarrow> bool) \<Rightarrow> settings \<Rightarrow> conn \<Rightarrow> request \<Rightarrow> reply \<Rightarrow> reply proc" where
  "logout_route nok se cx rq response =
     pseq (plift (session_bearer_from_cookie rq)) (\<lambda>bearer.
     pseq (http_logout nok se cx bearer rq) (\<lambda>_. pret (clear_session_cookie response)))"

definition preauth_route ::
  "(pystr \<Rightarrow> bool) \<Rightarrow> settings \<Rightarrow> conn \<Rightarrow> (db \<Rightarrow> db) \<Rightarrow> bytes \<Rightarrow> bytes \<Rightarrow> request \<Rightarrow> reply \<Rightarrow> reply proc" where
  "preauth_route nok se cx meanwhile state_random csrf_random rq response =
     pseq (plift (validate_csrf_bootstrap_origin nok rq (auth_origin_list se) (se_auth_local_http_origin se))) (\<lambda>_.
     pseq (bootstrap_preauth se cx meanwhile state_random csrf_random rq) (\<lambda>issued.
     pret (expose_csrf_token (ip_csrf_token issued) (set_preauth_cookie (ip_state_token issued) response))))"

definition login_route ::
  "login_environment \<Rightarrow> (nat \<Rightarrow> db \<Rightarrow> db) \<Rightarrow> pystr \<Rightarrow> pystr \<Rightarrow> request \<Rightarrow> reply \<Rightarrow> reply proc" where
  "login_route env meanwhile email password rq response =
     pseq (http_login env meanwhile email password rq) (\<lambda>issued.
     pret (expose_csrf_token (ss_csrf_token (is_secrets issued))
       (set_session_cookie (ss_bearer (is_secrets issued)) (clear_preauth_cookie response))))"

end
