(* ===== verification/AuthHttpClaims.thy ===== *)
theory AuthHttpClaims
  imports AuthHttp
begin

text \<open>
  What the session endpoints guarantee: a login spends its pre-auth state, a logout kills its bearer for good, a
  tenant switch commits the new session with its event or only a denial.
\<close>

section \<open>The active session\<close>

lemma active_session_Inr:
  assumes "db_ok s" "conn_ok cx" "active_session cx b s = Inr ((r, i), s')"
  shows "s' = s \<and> found_by b (db_sessions s) = Some r \<and> is_valid r (db_clock s) (sr_security_version r) \<and>
    require_session_bearer b = Inr b \<and>
    (\<exists>u. user_by_id s (sr_user_id r) = Some u \<and> us_status u = UserActive \<and> us_security_version u = sr_security_version r)"
proof -
  note get = session_laws.get_law [OF pg_session_laws [OF assms(2)] assms(1)]
  obtain digest where d: "require_session_bearer b = Inr b" "digest = sha256 b" "is_ascii b"
    using assms(3) bearer_ascii
    by (auto simp: active_session_def seq_eq_Inr lift_result_eq_Inr token_digest_eq_Inr require_session_bearer_eq_Inr)
  then have "found_by b (db_sessions s) = Some r \<and> s' = s \<and> is_valid r (db_clock s) (sr_security_version r) \<and>
      (\<exists>u. user_by_id s (sr_user_id r) = Some u \<and> us_status u = UserActive \<and> us_security_version u = sr_security_version r)"
    using assms(3) get [of "sha256 b"]
    by (auto simp: active_session_def seq_lift token_digest_ascii seq_Inr found_by_def session_identity_def live_session_def
        is_valid_def split: option.splits if_splits prod.splits)
  with d show ?thesis by simp
qed

lemma found_ascii: "require_session_bearer b = Inr b \<Longrightarrow> is_ascii b"
  by (rule bearer_ascii)

section \<open>Logout\<close>

text \<open>C13. A logout that answers success was proven and is final: the bearer named a valid session of an active user,
  the request carried the origin, CSRF token and expected membership an unsafe request needs, and after any later
  history of session operations the bearer does not resolve.\<close>

theorem logout_request_final:
  assumes "db_ok s" "conn_ok cx" "lifetimes_ok s" "http_logout nok se cx b rq s = (Inr (), s')"
  shows "db_ok s' \<and> (\<exists>r. found_by b (db_sessions s) = Some r \<and> is_valid r (db_clock s) (sr_security_version r) \<and>
      validate_unsafe nok se rq r = Inr ()) \<and>
    (\<forall>later sv na clock. pg_history cx s' later \<longrightarrow> resolve (pg_store cx) b sv na clock later = Inr (None, later))"
proof -
  note laws = pg_session_laws [OF assms(2)]
  obtain r i t where act: "active_session cx b s = Inr ((r, i), t)"
    and rest: "seq (lift_result (validate_unsafe nok se rq r)) (\<lambda>_. seq (read_db db_clock) (\<lambda>now.
      seq (logout (pg_store cx) b (Some now) now) (\<lambda>done_now. require done_now (AppExn SessionRejectedError)))) t = Inr ((), s')"
    using assms(4) by (auto simp: http_logout_def audited_eq_Inr identified_eq)
  note f = active_session_Inr [OF assms(1,2) act]
  have asc: "is_ascii b" using f found_ascii by blast
  have v: "validate_unsafe nok se rq r = Inr ()" and lo: "logout (pg_store cx) b (Some (db_clock s)) (db_clock s) s = Inr (True, s')"
    using rest f by (auto simp: seq_eq_Inr lift_result_eq_Inr require_def split: if_splits)
  obtain u where u: "revoke_bearer (pg_store cx) b LOGOUT (Some (db_clock s)) (db_clock s) s =
      Inr (\<exists>r \<in> set (db_sessions s). sr_bearer_digest r = sha256 b \<and> sr_revoked_at r = None, u)" "db_ok u"
    "rows_evolved (db_sessions s) (db_sessions u)" "sr_bearer_digest ` set (db_sessions u) = sr_bearer_digest ` set (db_sessions s)"
    "\<forall>r \<in> set (db_sessions u). sr_bearer_digest r = sha256 b \<longrightarrow> sr_revoked_at r \<noteq> None"
    using session_laws.revoke_bearer_ok [OF laws assms(1) asc, of LOGOUT "Some (db_clock s)" "db_clock s"] by auto
  have "u = s'" using u(1) lo by (simp add: logout_def)
  have step: "pg_history cx s s'" using session_step.did_logout [OF lo] by blast
  have life: "lifetimes_ok s'" using session_laws.history_evolves [OF laws step assms(1,3)] by simp
  have "sha256 b \<in> sr_bearer_digest ` set (db_sessions s')"
    using u(4) f \<open>u = s'\<close> session_laws.found_by_iff [OF laws assms(1)] by (metis image_eqI)
  then obtain q where q: "q \<in> set (db_sessions s')" "sr_bearer_digest q = sha256 b" by auto
  then have "sr_revoked_at q \<noteq> None" using u(5) \<open>u = s'\<close> by blast
  then have "resolve (pg_store cx) b sv na clock later = Inr (None, later)" if "pg_history cx s' later" for later sv na clock
    using revoked_stays_dead [OF assms(2) _ life that q _ asc] u(2) \<open>u = s'\<close> by simp
  with f v u(2) \<open>u = s'\<close> show ?thesis by blast
qed

text \<open>The sample request carries the sample session's CSRF token from an allowed origin.\<close>

lemma sample_request_unsafe: "validate_unsafe (\<lambda>_. True) sample_settings sample_request sample_session = Inr ()"
proof -
  have names: "ascii_lower (lit ''origin'') = lit ''origin''" "ascii_lower CSRF_HEADER = lit ''x-csrf-token''"
    "ascii_lower EXPECTED_MEMBERSHIP = lit ''x-expected-membership-id''"
    by (simp_all add: ascii_lower_def lit_def CSRF_HEADER_def EXPECTED_MEMBERSHIP_def is_upper_def)
  then have h: "header sample_request (lit ''origin'') = Some (lit ''https://a.co'')"
    "header sample_request CSRF_HEADER = Some (token (replicate 32 7))" "header sample_request EXPECTED_MEMBERSHIP = None"
    by (simp_all add: header_def sample_request_def)
  have "urlsplit_scheme (\<lambda>_. True) (lit ''https://a.co'') = Inr (lit ''https'')" by code_simp
  moreover have "auth_origin_list sample_settings = [lit ''https://a.co'']" by code_simp
  ultimately have "validate_origin (\<lambda>_. True) sample_request (auth_origin_list sample_settings) (se_auth_local_http_origin sample_settings) = Inr ()"
    using h(1) by (simp add: validate_origin_eq_Inr allowed_origin_def is_ok_def lit_def)
  moreover have "length (token (replicate 32 7)) = 43" "list_all token_char (token (replicate 32 7))"
    using token_accepted [of "replicate 32 7"] by (simp_all add: require_session_bearer_eq_Inr)
  moreover have "sr_selected_membership_id sample_session = None" "sr_csrf_digest sample_session = sha256 (token (replicate 32 7))"
    by (simp_all add: sample_session_def new_record_def)
  ultimately show ?thesis
    using h by (simp add: validate_unsafe_def validate_expected_membership_eq_Inr validate_session_csrf_eq_Inr and_then_eq_Inr)
qed

lemma sample_active: "\<exists>i. active_session sample_conn sample_bearer sample_db = Inr ((sample_session, i), sample_db)"
proof -
  have "is_valid sample_session 2000 1" by (simp add: sample_session_def is_valid_def new_record_def session_constants)
  moreover have "require_session_bearer sample_bearer = Inr sample_bearer"
    using token_accepted [of "replicate 32 1"] by (simp add: sample_bearer_def require_session_bearer_eq_Inr)
  moreover have "found_by sample_bearer (db_sessions sample_db) = Some sample_session"
    by (simp add: found_by_def sample_rows sample_session_fields)
  ultimately show ?thesis
    using session_laws.get_law [OF pg_session_laws [OF sample_conn_ok] sample_db_ok, of "sha256 sample_bearer"]
    by (simp add: active_session_def seq_lift token_digest_ascii sample_ascii seq_Inr found_by_def session_identity_def
        live_session_def sample_session_fields is_valid_def user_by_id_def sample_db_def)
qed

theorem logout_request_final_witness:
  "\<exists>s'. http_logout (\<lambda>_. True) sample_settings sample_conn sample_bearer sample_request sample_db = (Inr (), s') \<and>
     resolve (pg_store sample_conn) sample_bearer 1 None 3000 s' = Inr (None, s')"
proof -
  obtain i where act: "active_session sample_conn sample_bearer sample_db = Inr ((sample_session, i), sample_db)"
    using sample_active by blast
  obtain u where u: "logout (pg_store sample_conn) sample_bearer (Some 2000) 2000 sample_db = Inr (True, u)"
    using session_laws.revoke_bearer_ok [OF pg_session_laws [OF sample_conn_ok] sample_db_ok sample_ascii, of LOGOUT "Some 2000" 2000]
    by (auto simp: logout_def sample_rows sample_session_fields)
  have clock: "db_clock sample_db = 2000" by (simp add: sample_db_def)
  have run: "http_logout (\<lambda>_. True) sample_settings sample_conn sample_bearer sample_request sample_db = (Inr (), u)"
    using u act by (simp add: http_logout_def audited_eq_Inr identified_def seq_lift sample_request_unsafe clock seq_Inr require_def)
  from logout_request_final [OF sample_db_ok sample_conn_ok sample_lifetimes run] run show ?thesis
    by (intro exI [of _ u]) simp
qed

section \<open>Login spends its pre-auth state\<close>

text \<open>Requests that keep a condition on the database whatever their outcome.\<close>

definition keeps :: "(db \<Rightarrow> bool) \<Rightarrow> 'a proc \<Rightarrow> bool" where
  "keeps P p \<longleftrightarrow> (\<forall>s r s'. P s \<longrightarrow> p s = (r, s') \<longrightarrow> P s')"

lemma keepsD: "keeps P p \<Longrightarrow> P s \<Longrightarrow> p s = (r, s') \<Longrightarrow> P s'"
  unfolding keeps_def by blast

lemma keeps_basics: "keeps P (pret x)" "keeps P (pfail e)" "keeps P (plift r)" "(\<And>s. P s \<Longrightarrow> P (f s)) \<Longrightarrow> keeps P (others f)"
  by (auto simp: keeps_def)

lemma keeps_pseq: "keeps P p \<Longrightarrow> (\<And>x. keeps P (f x)) \<Longrightarrow> keeps P (pseq p f)"
  unfolding keeps_def
proof (intro allI impI)
  fix s r s'
  assume p: "\<forall>s r s'. P s \<longrightarrow> p s = (r, s') \<longrightarrow> P s'" and f: "\<And>x. \<forall>s r s'. P s \<longrightarrow> f x s = (r, s') \<longrightarrow> P s'"
    and "P s" and run: "pseq p f s = (r, s')"
  obtain q t where q: "p s = (q, t)" by (cases "p s")
  then have "P t" using p \<open>P s\<close> by blast
  with q run f show "P s'" by (cases q) (auto simp: pseq_def)
qed

lemma keeps_if: "keeps P p \<Longrightarrow> keeps P q \<Longrightarrow> keeps P (if b then p else q)"
  by simp

lemma keeps_option: "keeps P p \<Longrightarrow> (\<And>x. keeps P (f x)) \<Longrightarrow> keeps P (case o' of None \<Rightarrow> p | Some x \<Rightarrow> f x)"
  by (cases o') simp_all

lemma keeps_transact:
  assumes "frame f m"
  shows "keeps (\<lambda>s. Q (f s)) (transact m)"
  using frame_transact [OF assms] by (auto simp: keeps_def)

lemmas keeps_intros = keeps_basics keeps_pseq keeps_if keeps_option

lemma frame_tables [frame_intros]:
  "frame db_preauth draw_id" "frame db_preauth (new_writer cx)" "frame db_preauth (append_security_event cx r)"
  "frame db_preauth (writer_write cx w e)" "frame db_preauth (pg_write_security_event cx e)"
proof -
  show d: "frame db_preauth draw_id" by (rule frame_draw_id) simp
  show n: "frame db_preauth (new_writer cx)" unfolding new_writer_def by (intro frame_intros d)
  show a: "frame db_preauth (append_security_event cx r)" for r
    unfolding append_security_event_def validate_security_event_insert_def by (intro frame_intros frame_write) simp_all
  show w: "frame db_preauth (writer_write cx w e)" for w
    unfolding writer_write_def require_transaction_def
    by (intro frame_intros frame_guard_sql a) (auto intro!: frame_intros d split: bool.split option.split prod.split)
  show "frame db_preauth (pg_write_security_event cx e)"
    unfolding pg_write_security_event_def by (intro frame_intros n w)
qed

lemma frame_session_store [frame_intros]:
  "frame db_preauth (st_save (pg_store cx) r)" "frame db_preauth (st_replace (pg_store cx) r)"
  "frame db_preauth (st_get_by_digest (pg_store cx) d)" "frame db_preauth (st_active_for_user (pg_store cx) u)"
  "frame db_preauth (write_session_event (pg_store cx) t y u i)"
proof -
  show "frame db_preauth (st_save (pg_store cx) r)" "frame db_preauth (st_replace (pg_store cx) r)"
    by (simp_all add: pg_store_def pg_save_def pg_replace_def Let_def) (intro frame_intros frame_write, simp)+
  show "frame db_preauth (st_get_by_digest (pg_store cx) d)"
    by (simp add: pg_store_def pg_get_by_digest_def) (auto intro!: frame_intros split: list.split)
  show "frame db_preauth (st_active_for_user (pg_store cx) u)" "frame db_preauth (write_session_event (pg_store cx) t y u i)"
    by (simp_all add: pg_store_def pg_active_for_user_def write_session_event_def frame_intros)
qed

lemma frame_issue [frame_intros]: "frame db_preauth (issue (pg_store cx) u sv na clock br cr i)"
proof -
  have "frame db_preauth (evict (pg_store cx) now rs)" for now rs
    by (induction "pg_store cx" now rs rule: evict.induct) (simp_all add: frame_intros)
  then show ?thesis unfolding issue_def Let_def by (intro frame_intros)
qed

lemma frame_throttle [frame_intros]: "frame db_preauth (throttle_consume cx key key_id sc value)"
  unfolding throttle_consume_def throttle_store_consume_def consume_throttle_def write_bare_event_def Let_def
  by (auto intro!: frame_intros intro: frame_write split: prod.split)

lemma frame_login [frame_intros]:
  "frame db_preauth (login_throttles sv cx username ip)" "frame db_preauth (login_snapshot n)"
  "frame db_preauth (login_finish cx snapshot verified br cr i)" "frame db_preauth (active_session cx b)"
  "frame db_preauth (adopt_csrf cx issued csrf)"
proof -
  show "frame db_preauth (login_throttles sv cx username ip)"
    unfolding login_throttles_def write_bare_event_def Let_def by (intro frame_intros)
  show "frame db_preauth (login_snapshot n)" unfolding login_snapshot_def by (intro frame_intros)
  show "frame db_preauth (login_finish cx snapshot verified br cr i)"
    unfolding login_finish_def by (auto intro!: frame_intros split: bool.split option.split)
  show a: "frame db_preauth (active_session cx b)" for b
    unfolding active_session_def by (auto intro!: frame_intros split: option.split)
  show "frame db_preauth (adopt_csrf cx issued csrf)"
    unfolding adopt_csrf_def Let_def by (auto intro!: frame_intros a)
qed

definition spent :: "bytes \<Rightarrow> db \<Rightarrow> bool" where
  "spent digest s \<longleftrightarrow> (\<exists>p \<in> set (db_preauth s). ps_state_digest p = digest \<and> ps_consumed_at p \<noteq> None)"

lemma keeps_pcatch: "keeps P p \<Longrightarrow> (\<And>e. keeps P (h e)) \<Longrightarrow> keeps P (pcatch p h)"
  unfolding keeps_def
proof (intro allI impI)
  fix s r s'
  assume p: "\<forall>s r s'. P s \<longrightarrow> p s = (r, s') \<longrightarrow> P s'" and h: "\<And>e. \<forall>s r s'. P s \<longrightarrow> h e s = (r, s') \<longrightarrow> P s'"
    and "P s" and run: "pcatch p h s = (r, s')"
  obtain q t where q: "p s = (q, t)" by (cases "p s")
  then have "P t" using p \<open>P s\<close> by blast
  with q run h show "P s'" by (cases q) (auto simp: pcatch_def)
qed

lemma keeps_spent: "frame db_preauth m \<Longrightarrow> keeps (spent d) (transact m)"
  unfolding spent_def [abs_def] by (rule keeps_transact)

lemma keeps_spent_password_login:
  assumes "\<And>s. spent d s \<Longrightarrow> spent d (m1 s)" "\<And>s. spent d s \<Longrightarrow> spent d (m2 s)"
  shows "keeps (spent d) (password_login sv cx m1 m2 rnd cached email password ip)"
  unfolding password_login_def or_unavailable_def login_attempt_def Let_def
  by (intro keeps_pcatch keeps_intros keeps_spent frame_login) (fact assms)+

text \<open>The condition under which the service goes on to the password.\<close>

definition login_admitted :: "login_environment \<Rightarrow> request \<Rightarrow> db \<Rightarrow> bool" where
  "login_admitted env rq s \<longleftrightarrow>
     is_ok (validate_origin (le_nok env) rq (auth_origin_list (le_settings env)) (se_auth_local_http_origin (le_settings env))) \<and>
     is_ok (login_tokens rq) \<and>
     (\<exists>p \<in> set (db_preauth s). ps_state_digest p = sha256 (preauth_state_token rq) \<and> ps_consumed_at p = None \<and>
        db_clock s < ps_expires_at p \<and> ps_csrf_digest p = sha256 (preauth_csrf_token rq))"

lemma login_tokens_ascii:
  assumes "is_ok (login_tokens rq)"
  shows "is_ascii (preauth_state_token rq)" "is_ascii (preauth_csrf_token rq)"
  using assms bearer_ascii [of "preauth_state_token rq"] bearer_ascii [of "preauth_csrf_token rq"]
  by (auto simp: login_tokens_def is_ok_def require_session_bearer_eq_Inr and_then_eq_Inr split: sum.splits)

lemma replace_preauth_run: "st_replace_preauth (pg_store cx) q s = pg_replace_preauth q s"
  by (simp add: pg_store_def)

text \<open>Consuming spends the state or changes nothing.\<close>

lemma consume_cases:
  assumes "db_ok s" "conn_ok cx" "is_ascii t" "is_ascii c" "consume_preauth (pg_store cx) t c na clock s = Inr (ok, s')"
  shows "if ok then spent (sha256 t) s' else s' = s"
proof -
  note get = session_laws.get_preauth_law [OF pg_session_laws [OF assms(2)] assms(1)]
  show ?thesis
  proof (cases "find (\<lambda>p. ps_state_digest p = sha256 t) (db_preauth s)")
    case None
    with assms(3,5) show ?thesis by (auto simp: consume_preauth_def Let_def seq_lift token_digest_ascii seq_Inr get)
  next
    case (Some p)
    then have "p \<in> set (db_preauth s)" "ps_state_digest p = sha256 t" using find_SomeD by fast+
    with Some assms(3-5) show ?thesis
      by (auto simp: consume_preauth_def Let_def seq_lift token_digest_ascii seq_Inr get token_matches_def
          replace_preauth_run pg_replace_preauth_def spent_def set_update_where
          intro!: bexI [of _ "p\<lparr>ps_consumed_at := Some (now_or na clock)\<rparr>"] split: if_splits)
  qed
qed

lemma spent_not_admitted:
  assumes "db_ok s" "spent (sha256 (preauth_state_token rq)) s"
  shows "\<not> login_admitted env rq s"
proof -
  have "unique_on ps_state_digest (db_preauth s)" using assms(1) by (simp add: db_ok_def sessions_ok_def)
  then show ?thesis using assms(2) unique_on_eqD [of ps_state_digest "db_preauth s"]
    by (fastforce simp: spent_def login_admitted_def)
qed

text \<open>The first transaction of a login that carries an origin and tokens.\<close>

lemma consume_login_run:
  assumes "db_ok s" "conn_ok (le_conn env)" "is_ok (login_tokens rq)"
    and "is_ok (validate_origin (le_nok env) rq (auth_origin_list (le_settings env)) (se_auth_local_http_origin (le_settings env)))"
  shows "\<exists>s'. consume_login_preauth (le_conn env) rq s = Inr (login_admitted env rq s, s') \<and>
    (if login_admitted env rq s then spent (sha256 (preauth_state_token rq)) s' else s' = s)"
proof -
  note asc = login_tokens_ascii [OF assms(3)]
  obtain s' where run: "consume_preauth (pg_store (le_conn env)) (preauth_state_token rq) (preauth_csrf_token rq) None (db_clock s) s =
      Inr (login_admitted env rq s, s')"
    using session_laws.consume_preauth_ok [OF pg_session_laws [OF assms(2)] assms(1) asc refl, of None "db_clock s"] assms(3,4)
    by (auto simp: login_admitted_def now_or_def)
  with consume_cases [OF assms(1,2) asc run] show ?thesis by (simp add: consume_login_preauth_def)
qed

lemma login_refused:
  assumes "db_ok s" "conn_ok (le_conn env)" "\<not> login_admitted env rq s"
  shows "\<exists>e. http_login env meanwhile email password rq s = (Inl e, s)"
proof -
  let ?o = "validate_origin (le_nok env) rq (auth_origin_list (le_settings env)) (se_auth_local_http_origin (le_settings env))"
  show ?thesis
  proof (cases "is_ok ?o \<and> is_ok (login_tokens rq)")
    case True
    then have "consume_login_preauth (le_conn env) rq s = Inr (False, s)"
      using consume_login_run [OF assms(1,2)] assms(3) by fastforce
    then have "transact (consume_login_preauth (le_conn env) rq) s = (Inr False, s)" by (simp add: transact_def)
    with True show ?thesis
      by (intro exI [of _ "AppExn CsrfRejectedError"]) (auto simp: http_login_def pseq_plift is_ok_iff pseq_def)
  next
    case False
    then show ?thesis by (cases ?o; cases "login_tokens rq") (simp_all add: http_login_def pseq_plift)
  qed
qed

lemma login_spends:
  assumes "db_ok s" "conn_ok (le_conn env)" "login_admitted env rq s"
    and other: "\<And>k t. spent (sha256 (preauth_state_token rq)) t \<Longrightarrow> spent (sha256 (preauth_state_token rq)) (meanwhile k t)"
    and run: "http_login env meanwhile email password rq s = (r, s')"
  shows "spent (sha256 (preauth_state_token rq)) s'"
proof -
  let ?d = "sha256 (preauth_state_token rq)"
  have ok: "is_ok (validate_origin (le_nok env) rq (auth_origin_list (le_settings env)) (se_auth_local_http_origin (le_settings env)))"
    "is_ok (login_tokens rq)" using assms(3) by (simp_all add: login_admitted_def)
  then obtain t where t: "consume_login_preauth (le_conn env) rq s = Inr (True, t)" "spent ?d t"
    using consume_login_run [OF assms(1,2)] assms(3) by fastforce
  let ?rest = "pseq (plift (password_authentication (le_settings env) (le_nfc env) (le_hasher env))) (\<lambda>sv.
       pseq (others (meanwhile 0)) (\<lambda>_.
       pseq (password_login sv (le_conn env) (meanwhile 1) (meanwhile 2) (le_random env) (le_cached env) email password (client_host rq)) (\<lambda>issued.
       case issued of
         None \<Rightarrow> pfail (AppExn SessionRejectedError)
       | Some i \<Rightarrow>
           pseq (plift (bootstrap_token (ss_bearer (is_secrets i)))) (\<lambda>csrf.
           pseq (others (meanwhile 3)) (\<lambda>_.
           transact (adopt_csrf (le_conn env) i csrf))))))"
  have keep: "keeps (spent ?d) ?rest"
    by (intro keeps_intros keeps_spent_password_login keeps_spent frame_login) (erule other)+
  have "transact (consume_login_preauth (le_conn env) rq) s = (Inr True, t)" using t(1) by (simp add: transact_def)
  then have "?rest t = (r, s')" using run ok by (auto simp: http_login_def pseq_plift is_ok_iff pseq_Inr)
  then show ?thesis by (rule keepsD [OF keep t(2)])
qed

text \<open>C12. A login spends its pre-auth state. The state is accepted only when it exists, is unconsumed and unexpired,
  comes with its own CSRF token and from an allowed origin; otherwise the request is refused and changes nothing.
  Once accepted, the state is consumed whatever becomes of the password check, as long as other requests do not
  bring consumed states back, and the same tokens are refused in every later database that holds it.\<close>

theorem login_spends_preauth:
  assumes "db_ok s" "conn_ok (le_conn env)"
    and "\<forall>k t. spent (sha256 (preauth_state_token rq)) t \<longrightarrow> spent (sha256 (preauth_state_token rq)) (meanwhile k t)"
    and "http_login env meanwhile email password rq s = (r, s')"
  shows "(if login_admitted env rq s then spent (sha256 (preauth_state_token rq)) s' else s' = s \<and> (\<exists>e. r = Inl e)) \<and>
    (\<forall>later email2 password2. db_ok later \<and> spent (sha256 (preauth_state_token rq)) later \<longrightarrow>
       (\<exists>e. http_login env meanwhile email2 password2 rq later = (Inl e, later)))"
proof -
  have "\<exists>e. http_login env meanwhile email2 password2 rq later = (Inl e, later)"
    if "db_ok later" "spent (sha256 (preauth_state_token rq)) later" for later email2 password2
    by (rule login_refused [OF that(1) assms(2) spent_not_admitted [OF that]])
  moreover have "s' = s \<and> (\<exists>e. r = Inl e)" if "\<not> login_admitted env rq s"
    using login_refused [OF assms(1,2) that, of meanwhile email password] assms(4) by auto
  moreover have "spent (sha256 (preauth_state_token rq)) s'" if "login_admitted env rq s"
    by (rule login_spends [OF assms(1,2) that _ assms(4)]) (use assms(3) in blast)
  ultimately show ?thesis by simp
qed

definition sample_login_request :: request where
  "sample_login_request = \<lparr>rq_method = lit ''POST'',
     rq_headers = [(lit ''origin'', lit ''https://a.co''), (lit ''x-csrf-token'', token (replicate 32 6))],
     rq_cookies = [(PREAUTH_COOKIE, token (replicate 32 5))], rq_base_url = lit ''https://a.co/'', rq_client = None\<rparr>"

definition sample_env :: login_environment where
  "sample_env = \<lparr>le_nok = \<lambda>_. True, le_settings = sample_settings, le_nfc = id, le_hasher = plain_hasher,
     le_conn = sample_conn, le_random = sample_random, le_cached = None\<rparr>"

lemma sample_admitted: "login_admitted sample_env sample_login_request sample_db"
proof -
  have names: "ascii_lower (lit ''origin'') = lit ''origin''" "ascii_lower CSRF_HEADER = lit ''x-csrf-token''"
    by (simp_all add: ascii_lower_def lit_def CSRF_HEADER_def is_upper_def)
  then have h: "header sample_login_request (lit ''origin'') = Some (lit ''https://a.co'')"
    "preauth_csrf_token sample_login_request = token (replicate 32 6)"
    by (simp_all add: header_def sample_login_request_def preauth_csrf_token_def)
  have st: "preauth_state_token sample_login_request = token (replicate 32 5)"
    by (simp add: preauth_state_token_def sample_login_request_def)
  have "urlsplit_scheme (\<lambda>_. True) (lit ''https://a.co'') = Inr (lit ''https'')" by code_simp
  moreover have "auth_origin_list sample_settings = [lit ''https://a.co'']" by code_simp
  ultimately have "validate_origin (\<lambda>_. True) sample_login_request (auth_origin_list sample_settings) (se_auth_local_http_origin sample_settings) = Inr ()"
    using h(1) by (simp add: validate_origin_eq_Inr allowed_origin_def is_ok_def lit_def)
  moreover have "login_tokens sample_login_request = Inr ()"
    using token_accepted [of "replicate 32 5"] token_accepted [of "replicate 32 6"] h(2) st by (simp add: login_tokens_def)
  ultimately show ?thesis
    using h(2) st by (simp add: login_admitted_def sample_env_def sample_rows sample_preauth_def session_constants sample_db_def)
qed

theorem login_spends_preauth_witness:
  "\<exists>r s'. http_login sample_env (\<lambda>_ s. s) (lit ''a@b.co'') (lit ''x'') sample_login_request sample_db = (r, s') \<and>
     spent (sha256 (token (replicate 32 5))) s'"
proof -
  obtain r s' where run: "http_login sample_env (\<lambda>_ s. s) (lit ''a@b.co'') (lit ''x'') sample_login_request sample_db = (r, s')"
    by fastforce
  have cx: "conn_ok (le_conn sample_env)" using sample_conn_ok by (simp add: sample_env_def)
  have "preauth_state_token sample_login_request = token (replicate 32 5)"
    by (simp add: preauth_state_token_def sample_login_request_def)
  with login_spends_preauth [OF sample_db_ok cx _ run] sample_admitted run show ?thesis by auto
qed

section \<open>Tenant switch\<close>

lemma switch_event_ok:
  "\<exists>e. switch_event u x m = Inr e \<and> event_ok e \<and> \<not> is_role_event e \<and> ae_event_type e = TENANT_SWITCH \<and> ae_role_id e = None \<and>
     ae_user_id e = Some u \<and> ae_session_id e = Some x \<and> ae_membership_id e = Some m \<and>
     line_of e = (lit ''tenant_switch'', None, Some u, Some x)"
proof -
  let ?a = "(no_event_args TENANT_SWITCH R_SUCCESS)
       \<lparr>ea_user_id := Proper u, ea_session_id := Proper x, ea_membership_id := Proper m\<rparr>"
  have v: "validate_event ?a" by (simp add: actor_event_defs)
  define e where "e = \<lparr>ae_event_type = TENANT_SWITCH, ae_result = R_SUCCESS, ae_reason_code = None, ae_user_id = Some u,
    ae_session_id = Some x, ae_membership_id = Some m, ae_role_id = None, ae_target_membership_id = None,
    ae_permission_id = None, ae_subject_digest = None, ae_subject_kind = None,
    ae_subject_key_id = None, ae_affected_count = None\<rparr>"
  have "switch_event u x m = Inr e"
    using v by (simp add: switch_event_def SecurityAuditEvent_def no_event_args_def e_def)
  moreover have "args_of e = ?a" by (simp add: args_of_def e_def no_event_args_def of_option_def)
  then have "event_ok e" using v by (simp add: event_ok_def)
  ultimately show ?thesis
    by (intro exI [of _ e]) (simp add: e_def is_role_event_def role_event_types_def line_of_def event_value_lits)
qed

text \<open>A switch event about a live session row that selects the membership is committed.\<close>

lemma write_switch_event:
  assumes "db_ok s" "conn_ok cx" "r \<in> set (db_sessions s)" "sr_selected_membership_id r = Some m"
    and "switch_event (sr_user_id r) (sr_id r) m = Inr e"
  shows "\<exists>s'. pg_write_security_event cx e s = Inr ((), s') \<and> db_ok s' \<and> only_events s s' \<and>
    db_logged s' = db_logged s @ [(lit ''tenant_switch'', None, Some (sr_user_id r), Some (sr_id r))]"
proof -
  obtain e' where e': "switch_event (sr_user_id r) (sr_id r) m = Inr e'" "event_ok e'" "\<not> is_role_event e'"
    "ae_event_type e' = TENANT_SWITCH" "ae_role_id e' = None" "ae_user_id e' = Some (sr_user_id r)" "ae_session_id e' = Some (sr_id r)"
    "ae_membership_id e' = Some m" "line_of e' = (lit ''tenant_switch'', None, Some (sr_user_id r), Some (sr_id r))"
    using switch_event_ok by blast
  then have e: "e' = e" using assms(5) by simp
  have u: "unique_on sr_id (db_sessions s)" "session_fk_ok s r"
    using assms(1,3) by (simp_all add: db_ok_def sessions_ok_def list_all_iff)
  have "find (\<lambda>x. sr_id x = sr_id r) (db_sessions s) = Some r" using find_unique [OF u(1)] assms(3) by simp
  then have "links_exist s (event_to_row e i c 0)" for i c
    using u(2) assms(4) e'(6-8) e by (auto simp: links_exist_def event_to_row_def session_fk_ok_def split: option.splits)
  then show ?thesis
    using write_linked_event [OF assms(1,2), of e] e'(2-5,9) e by simp
qed

text \<open>Storing the derived CSRF digest changes the row the bearer finds and nothing else.\<close>

lemma adopt_digest:
  assumes "db_ok s" "found_by b (db_sessions s) = Some q" "length d = 32"
  shows "\<exists>s'. st_replace (pg_store cx) (q\<lparr>sr_csrf_digest := d\<rparr>) s = Inr ((), s') \<and> db_ok s' \<and> found_by b (db_sessions s') = Some (q\<lparr>sr_csrf_digest := d\<rparr>) \<and> same_catalogue s s' \<and> db_logged s' = db_logged s \<and>
    (\<forall>b2. sha256 b2 \<noteq> sha256 b \<longrightarrow> found_by b2 (db_sessions s') = found_by b2 (db_sessions s))"
proof -
  let ?r = "q\<lparr>sr_csrf_digest := d\<rparr>" and ?t = "s\<lparr>db_sessions := map (replaced (q\<lparr>sr_csrf_digest := d\<rparr>)) (db_sessions s)\<rparr>"
  have u: "unique_on sr_id (db_sessions s)" "unique_on sr_bearer_digest (db_sessions s)" using assms(1) by (simp_all add: db_ok_def sessions_ok_def)
  have q: "q \<in> set (db_sessions s)" "sr_bearer_digest q = sha256 b"
    using assms(2) find_SomeD by (fastforce simp: found_by_def)+
  have row: "check_session_row q" "session_fk_ok s q"
    using assms(1) q(1) by (simp_all add: db_ok_def sessions_ok_def list_all_iff)
  have same: "x = q" if "x \<in> set (db_sessions s)" "sr_bearer_digest x = sr_bearer_digest q" for x
    using unique_on_eqD [OF u(2)] that q(1) by metis
  have "pg_replace ?r s = Inr ((), ?t) \<and> db_ok ?t"
  proof (rule pg_replace_law [OF assms(1) q(1)])
    show "same_owner q ?r" by (simp add: same_owner_def)
    show "check_session_row ?r" using row(1) assms(3) by (simp add: check_session_row_def)
  qed (use row(2) same in \<open>auto simp: session_fk_iff\<close>)
  then have t: "st_replace (pg_store cx) ?r s = Inr ((), ?t)" "db_ok ?t" by (simp_all add: pg_store_def)
  have "?r \<in> set (db_sessions ?t)" using q(1) by (auto simp: replaced_def image_iff)
  then have "found_by b (db_sessions ?t) = Some ?r"
    using t(2) q(2) find_unique [of sr_bearer_digest "db_sessions ?t"] by (simp add: found_by_def db_ok_def sessions_ok_def)
  moreover have "found_by b2 (db_sessions ?t) = found_by b2 (db_sessions s)" if ne: "sha256 b2 \<noteq> sha256 b" for b2
  proof -
    have "sr_bearer_digest x = sha256 b" if "x \<in> set (db_sessions s)" "sr_id x = sr_id ?r" for x
      using unique_on_eqD [OF u(1) that(1) q(1)] that(2) q(2) by auto
    then have "find (\<lambda>x. sr_bearer_digest x = sha256 b2) (map (replaced ?r) xs) = find (\<lambda>x. sr_bearer_digest x = sha256 b2) xs"
      if "set xs \<subseteq> set (db_sessions s)" for xs
      using that ne q(2) by (induction xs) (auto simp: replaced_def)
    then show ?thesis by (simp add: found_by_def)
  qed
  ultimately show ?thesis using t by (intro exI [of _ ?t]) (simp add: same_catalogue_def db_logged_def)
qed

text \<open>A bearer is dead when the row it finds, if any, is never valid.\<close>

lemma dead_iff:
  assumes "db_ok s" "conn_ok cx" "is_ascii b"
  shows "(\<forall>sv na clock. resolve (pg_store cx) b sv na clock s = Inr (None, s)) \<longleftrightarrow>
    (\<forall>x now sv. found_by b (db_sessions s) = Some x \<longrightarrow> \<not> is_valid x now sv)"
proof -
  note get = session_laws.get_law [OF pg_session_laws [OF assms(2)] assms(1)]
  have run: "resolve (pg_store cx) b sv na clock s = Inr (None, s) \<longleftrightarrow>
      (\<forall>x. found_by b (db_sessions s) = Some x \<longrightarrow> \<not> is_valid x (now_or na clock) sv)" for sv na clock
    using assms(3) by (auto simp: resolve_def Let_def seq_lift token_digest_ascii seq_Inr get found_by_def seq_eq_Inr
        split: option.split)
  show ?thesis unfolding run by (metis now_or_def option.simps(5))
qed

text \<open>C11. A tenant switch over HTTP is proven and complete. The request carried the proof an unsafe request needs; the
  bearer named a valid session whose user holds the requested active membership in an active tenant. The answer is
  the session's row as stored, found by the new bearer alone, with the membership selected and the CSRF digest of
  the returned token, which is the one the new bearer derives; the old bearer never resolves, and the switch event
  is committed with it.\<close>

theorem switch_request_proven:
  assumes "db_ok s" "conn_ok cx" "http_switch nok se cx br cr b m rq s = (Inr issued, s')"
    and "sha256 (token br) \<notin> sr_bearer_digest ` set (db_sessions s)"
  shows "db_ok s' \<and> (\<exists>r y. found_by b (db_sessions s) = Some r \<and> is_valid r (db_clock s) (sr_security_version r) \<and>
      validate_unsafe nok se rq r = Inr () \<and> membership_by_id s m = Some y \<and> mb_user_id y = sr_user_id r \<and>
      mb_status y = MembershipActive \<and> tenant_active s (mb_tenant_id y) \<and> same_owner r (is_record issued)) \<and>
    ss_bearer (is_secrets issued) = token br \<and> found_by (token br) (db_sessions s') = Some (is_record issued) \<and>
    sr_selected_membership_id (is_record issued) = Some m \<and>
    bootstrap_token (token br) = Inr (ss_csrf_token (is_secrets issued)) \<and>
    sr_csrf_digest (is_record issued) = sha256 (ss_csrf_token (is_secrets issued)) \<and>
    (\<forall>sv na clock. resolve (pg_store cx) b sv na clock s' = Inr (None, s')) \<and>
    (\<exists>before. db_logged s' = before @ [(lit ''tenant_switch'', None, Some (sr_user_id (is_record issued)), Some (sr_id (is_record issued)))])"
proof -
  obtain r i where act: "active_session cx b s = Inr ((r, i), s)"
    and work: "switch_work nok se cx br cr b m rq r s = Inr (issued, s')"
    using assms(3) active_session_Inr [OF assms(1,2)] by (fastforce simp: http_switch_def audited_eq_Inr identified_eq)
  note f = active_session_Inr [OF assms(1,2) act]
  obtain a t csrf where v: "validate_unsafe nok se rq r = Inr ()"
    and sw: "trusted_switch (pg_store cx) pg_resolve_active (db_clock s) b m br cr s = Inr (a, t)"
    and cs: "bootstrap_token (ss_bearer (is_secrets (sa_issued_session a))) = Inr csrf" "is_ascii csrf"
    and iss: "issued = \<lparr>is_record = (is_record (sa_issued_session a))\<lparr>sr_csrf_digest := sha256 csrf\<rparr>,
        is_secrets = (is_secrets (sa_issued_session a))\<lparr>ss_csrf_token := csrf\<rparr>\<rparr>"
    and rest: "seq (st_replace (pg_store cx) (is_record issued)) (\<lambda>_.
     seq (lift_result (switch_event (sr_user_id (is_record issued)) (sr_id (is_record issued))
            (pr_membership_id (ta_principal (sa_access a))))) (\<lambda>event.
     seq (pg_write_security_event cx event) (\<lambda>_. ret issued))) t = Inr (issued, s')"
    using work by (auto simp: switch_work_def Let_def seq_eq_Inr lift_result_eq_Inr token_digest_eq_Inr)
  let ?q = "is_record (sa_issued_session a)"
  note live = tenant_switch_live [OF assms(1,2) sw assms(4)]
  note sound = trusted_tenants.trusted_switch_sound [OF pg_trusted_tenants [OF assms(2)] assms(1) sw assms(4)]
  have q: "db_ok t" "found_by (token br) (db_sessions t) = Some ?q" "sr_selected_membership_id ?q = Some m"
    "pr_membership_id (ta_principal (sa_access a)) = m" "ss_bearer (is_secrets (sa_issued_session a)) = token br"
    "same_owner r ?q" using sound f by auto
  have rec: "is_record issued = ?q\<lparr>sr_csrf_digest := sha256 csrf\<rparr>" by (simp add: iss)
  obtain t2 e where rep: "st_replace (pg_store cx) (?q\<lparr>sr_csrf_digest := sha256 csrf\<rparr>) t = Inr ((), t2)"
    and ev: "switch_event (sr_user_id (is_record issued)) (sr_id (is_record issued)) m = Inr e"
    and wr: "pg_write_security_event cx e t2 = Inr ((), s')"
    using rest q(4) rec by (auto simp: seq_eq_Inr lift_result_eq_Inr)
  have ad: "db_ok t2 \<and> found_by (token br) (db_sessions t2) = Some (is_record issued) \<and>
      (\<forall>b2. sha256 b2 \<noteq> sha256 (token br) \<longrightarrow> found_by b2 (db_sessions t2) = found_by b2 (db_sessions t))"
    using adopt_digest [OF q(1,2) length_sha256 [of csrf], of cx] rep rec by auto
  have mem: "is_record issued \<in> set (db_sessions t2)"
    using ad find_SomeD by (fastforce simp: found_by_def)
  have sel: "sr_selected_membership_id (is_record issued) = Some m" using q(3) rec by simp
  obtain u where "pg_write_security_event cx e t2 = Inr ((), u)" "db_ok u" "only_events t2 u"
    "db_logged u = db_logged t2 @ [(lit ''tenant_switch'', None, Some (sr_user_id (is_record issued)), Some (sr_id (is_record issued)))]"
    using write_switch_event [OF conjunct1 [OF ad] assms(2) mem sel ev] by blast
  with wr have u: "db_ok s'" "only_events t2 s'"
    "db_logged s' = db_logged t2 @ [(lit ''tenant_switch'', None, Some (sr_user_id (is_record issued)), Some (sr_id (is_record issued)))]"
    by simp_all
  note rows = only_events_tables(5) [OF u(2)]
  have asc: "is_ascii b" using f found_ascii by blast
  have ne: "sha256 b \<noteq> sha256 (token br)"
    using f assms(4) session_laws.found_by_iff [OF pg_session_laws [OF assms(2)] assms(1), of b r] by (metis image_eqI)
  have "\<forall>sv na clock. resolve (pg_store cx) b sv na clock s' = Inr (None, s')"
    using live dead_iff [OF q(1) assms(2) asc] dead_iff [OF u(1) assms(2) asc] ad ne rows by simp
  moreover obtain y where "membership_by_id s m = Some y" "mb_user_id y = sr_user_id r" "mb_status y = MembershipActive"
    "tenant_active s (mb_tenant_id y)" using live f by auto
  moreover have "same_owner r (is_record issued)" using q(6) rec by (simp add: same_owner_def)
  moreover have "found_by (token br) (db_sessions s') = Some (is_record issued)" using ad rows rec by simp
  ultimately show ?thesis
    using u(1,3) f v sel cs q(5) by (simp add: iss)
qed

theorem switch_request_proven_witness:
  "\<exists>issued s'. http_switch (\<lambda>_. True) sample_settings sample_conn [9] [8] sample_bearer 6 sample_request sample_db = (Inr issued, s') \<and>
     ss_bearer (is_secrets issued) = token [9] \<and> resolve (pg_store sample_conn) sample_bearer 1 None 3000 s' = Inr (None, s')"
proof -
  obtain i where act: "active_session sample_conn sample_bearer sample_db = Inr ((sample_session, i), sample_db)"
    using sample_active by blast
  have clock: "db_clock sample_db = 2000" by (simp add: sample_db_def)
  obtain a t where sw: "trusted_switch (pg_store sample_conn) pg_resolve_active 2000 sample_bearer 6 [9] [8] sample_db = Inr (a, t)"
    using sample_switch_run by blast
  note sound = trusted_tenants.trusted_switch_sound [OF pg_trusted_tenants [OF sample_conn_ok] sample_db_ok sw sample_fresh_9]
  let ?q = "is_record (sa_issued_session a)"
  have q: "db_ok t" "found_by (token [9]) (db_sessions t) = Some ?q" "sr_selected_membership_id ?q = Some 6"
    "pr_membership_id (ta_principal (sa_access a)) = 6" "ss_bearer (is_secrets (sa_issued_session a)) = token [9]"
    using sound by auto
  obtain csrf where csrf: "bootstrap_token (token [9]) = Inr csrf" "is_ascii csrf"
    using is_ascii_token [of "[9]"] by (auto simp: bootstrap_token_def encode_ascii_def is_ascii_token [unfolded token_def])
  define r where "r = ?q\<lparr>sr_csrf_digest := sha256 csrf\<rparr>"
  obtain t2 where t2: "st_replace (pg_store sample_conn) r t = Inr ((), t2)" "db_ok t2" "found_by (token [9]) (db_sessions t2) = Some r"
    using adopt_digest [OF q(1,2) length_sha256 [of csrf], of sample_conn] unfolding r_def by blast
  have r: "r \<in> set (db_sessions t2)" "sr_selected_membership_id r = Some 6"
    using t2(3) find_SomeD q(3) by (fastforce simp: found_by_def, simp add: r_def)
  obtain e where e: "switch_event (sr_user_id r) (sr_id r) 6 = Inr e" using switch_event_ok by blast
  obtain u where u: "pg_write_security_event sample_conn e t2 = Inr ((), u)"
    using write_switch_event [OF t2(2) sample_conn_ok r e] by blast
  have "switch_work (\<lambda>_. True) sample_settings sample_conn [9] [8] sample_bearer 6 sample_request sample_session sample_db =
      Inr (\<lparr>is_record = r, is_secrets = (is_secrets (sa_issued_session a))\<lparr>ss_csrf_token := csrf\<rparr>\<rparr>, u)"
    using sw q(4,5) csrf t2(1) e u
    by (simp add: switch_work_def seq_lift sample_request_unsafe clock seq_Inr Let_def token_digest_ascii r_def)
  then obtain issued where run: "http_switch (\<lambda>_. True) sample_settings sample_conn [9] [8] sample_bearer 6 sample_request sample_db = (Inr issued, u)"
    using act by (simp add: http_switch_def audited_eq_Inr identified_def)
  from switch_request_proven [OF sample_db_ok sample_conn_ok run sample_fresh_9] run show ?thesis
    by (intro exI [of _ issued] exI [of _ u]) simp
qed

end
