(* ===== verification/RoleAdmin.thy ===== *)
theory RoleAdmin
  imports Authorization
begin

text \<open>
  \<open>services/role_administration.py\<close> and \<open>api/routes/role_administration.py\<close>: role administration inside the
  tenant transaction. Every statement runs under row level security, fires the attestation trigger of its table and
  is enclosed by the preparation of a role event and its consumption; the deferred trigger checks the latter.
\<close>

section \<open>Errors and records\<close>

definition RoleNotFoundError :: app_error_class where
  "RoleNotFoundError = \<lparr>ec_code = lit ''not_found'', ec_status = 404,
     ec_message = lit ''The requested resource was not found.''\<rparr>"

definition RoleConflictError :: app_error_class where
  "RoleConflictError = \<lparr>ec_code = lit ''conflict'', ec_status = 409,
     ec_message = lit ''The role could not be changed in its current state.''\<rparr>"

definition MembershipNotFoundError :: app_error_class where
  "MembershipNotFoundError = \<lparr>ec_code = lit ''not_found'', ec_status = 404,
     ec_message = lit ''The requested resource was not found.''\<rparr>"

record role_record =
  rr_id :: uuid
  rr_tenant_id :: uuid
  rr_key :: pystr
  rr_display_name :: pystr
  rr_status :: pystr
  rr_version :: int

fun role_status_value :: "role_status \<Rightarrow> pystr" where
  "role_status_value RoleActive = lit ''active''"
| "role_status_value RoleInactive = lit ''inactive''"

definition record_of_row :: "role_row \<Rightarrow> role_record" where
  "record_of_row r = \<lparr>rr_id = ro_id r, rr_tenant_id = ro_tenant_id r, rr_key = ro_key r,
     rr_display_name = ro_display_name r, rr_status = role_status_value (ro_status r), rr_version = ro_version r\<rparr>"

text \<open>\<open>None\<close> is an argument that is not an \<open>AuthorizationGrant\<close>.\<close>

definition require_grant :: "authorization_grant option \<Rightarrow> permission \<Rightarrow> exn + authorization_grant" where
  "require_grant grant permission =
     and_then (PermissionId (PStr (permission_value permission))) (\<lambda>expected.
     case grant of
       None \<Rightarrow> Inl (AppExn AuthorizationBoundaryRequiredError)
     | Some g \<Rightarrow> if ag_permission_id g \<noteq> expected then Inl (AppExn AuthorizationBoundaryRequiredError) else Inr g)"

definition display_name :: "pystr \<Rightarrow> exn + pystr" where
  "display_name value = (if strip value = [] \<or> length value > 120 then Inl ValueExn else Inr value)"

definition role_event ::
  "authorization_grant \<Rightarrow> security_event_type \<Rightarrow> uuid \<Rightarrow> pystr option \<Rightarrow> uuid option \<Rightarrow> exn + audit_event" where
  "role_event grant event_type role_id permission_id target_membership_id =
     SecurityAuditEvent ((no_event_args event_type R_SUCCESS)
       \<lparr>ea_user_id := Proper (pr_user_id (ag_principal grant)), ea_session_id := Proper (pr_session_id (ag_principal grant)),
        ea_membership_id := Proper (pr_membership_id (ag_principal grant)), ea_role_id := Proper role_id,
        ea_permission_id := of_option permission_id, ea_target_membership_id := of_option target_membership_id\<rparr>) False"

definition tenant_permission :: "permission \<Rightarrow> exn + pystr" where
  "tenant_permission permission =
     and_then (PermissionId (PStr (permission_value permission))) (\<lambda>permission_id.
     and_then permission_catalog (\<lambda>catalog.
     if permission_id \<notin> set catalog \<or> \<not> starts_with (lit ''tenant.'') permission_id
     then Inl (AppExn AuthorizationBoundaryRequiredError) else Inr permission_id))"

section \<open>Statements\<close>

definition visible_role :: "conn \<Rightarrow> uuid \<Rightarrow> db \<Rightarrow> role_row option" where
  "visible_role cx role_id s = find (\<lambda>r. ro_id r = role_id) (visible cx ro_tenant_id (db_roles s))"

definition require_role :: "conn \<Rightarrow> uuid \<Rightarrow> (exn, db, role_status) action" where
  "require_role cx role_id =
     seq (read_db (visible_role cx role_id)) (\<lambda>row.
     case row of None \<Rightarrow> raise (AppExn RoleNotFoundError) | Some r \<Rightarrow> ret (ro_status r))"

definition require_active_role :: "conn \<Rightarrow> uuid \<Rightarrow> (exn, db, unit) action" where
  "require_active_role cx role_id =
     seq (require_role cx role_id) (\<lambda>status. require (status = RoleActive) (AppExn RoleConflictError))"

definition raise_missing_or_stale :: "conn \<Rightarrow> uuid \<Rightarrow> (exn, db, 'a) action" where
  "raise_missing_or_stale cx role_id =
     seq (read_db (visible_role cx role_id)) (\<lambda>row.
     raise (AppExn (if row = None then RoleNotFoundError else RoleConflictError)))"

text \<open>\<open>INSERT INTO auth.roles\<close> with the policy, the constraints, the defaults and the trigger.\<close>

definition insert_role :: "conn \<Rightarrow> uuid \<Rightarrow> uuid \<Rightarrow> pystr \<Rightarrow> pystr \<Rightarrow> (exn, db, role_row) action" where
  "insert_role cx role_id tenant key name =
     (let row = \<lparr>ro_id = role_id, ro_tenant_id = tenant, ro_key = key, ro_display_name = name,
                 ro_status = RoleActive, ro_version = 1\<rparr> in
      seq (require (cx_tenant cx = Some tenant) (SqlExn InsufficientPrivilege)) (\<lambda>_.
      seq (require (fullmatch role_key_pattern key) (SqlExn CheckViolation)) (\<lambda>_.
      seq (read_db (\<lambda>s. exists_row (\<lambda>r. ro_id r = role_id \<or> (ro_tenant_id r = tenant \<and> ro_key r = key)) (db_roles s))) (\<lambda>taken.
      seq (require (\<not> taken) (SqlExn UniqueViolation)) (\<lambda>_.
      seq (read_db (\<lambda>s. tenant_by_id s tenant \<noteq> None)) (\<lambda>fk.
      seq (require fk (SqlExn ForeignKeyViolation)) (\<lambda>_.
      seq (write_db (\<lambda>s. s\<lparr>db_roles := db_roles s @ [row]\<rparr>)) (\<lambda>_.
      seq (attest_role_security_change cx (RoleInserted row)) (\<lambda>_.
      ret row)))))))))"

text \<open>\<open>UPDATE auth.roles ... WHERE id AND version [AND status]\<close>: at most one row, by the primary key.\<close>

definition update_role_row ::
  "conn \<Rightarrow> uuid \<Rightarrow> (role_row \<Rightarrow> bool) \<Rightarrow> (role_row \<Rightarrow> role_row) \<Rightarrow> (exn, db, role_row option) action" where
  "update_role_row cx role_id guard change =
     seq (read_db (visible_role cx role_id)) (\<lambda>found.
     case found of
       None \<Rightarrow> ret None
     | Some old \<Rightarrow>
         if \<not> guard old then ret None
         else
           let new = (change old)\<lparr>ro_version := ro_version old + 1\<rparr> in
           seq (require (int4_ok (ro_version new)) (SqlExn NumericOutOfRange)) (\<lambda>_.
           seq (write_db (\<lambda>s. s\<lparr>db_roles := update_where (\<lambda>r. ro_id r = role_id) (\<lambda>_. new) (db_roles s)\<rparr>)) (\<lambda>_.
           seq (attest_role_security_change cx (RoleUpdated old new)) (\<lambda>_.
           ret (Some new)))))"

definition role_exists :: "db \<Rightarrow> uuid \<Rightarrow> uuid \<Rightarrow> bool" where
  "role_exists s tenant role_id = exists_row (\<lambda>r. ro_tenant_id r = tenant \<and> ro_id r = role_id) (db_roles s)"

text \<open>\<open>ON CONFLICT DO NOTHING RETURNING 1\<close>: whether a row was inserted.\<close>

definition insert_role_permission :: "conn \<Rightarrow> role_permission_row \<Rightarrow> (exn, db, bool) action" where
  "insert_role_permission cx row =
     seq (require (cx_tenant cx = Some (rp_tenant_id row)) (SqlExn InsufficientPrivilege)) (\<lambda>_.
     seq (require (check_permission_id_format (rp_permission_id row)) (SqlExn CheckViolation)) (\<lambda>_.
     seq (read_db (\<lambda>s. row \<in> set (db_role_permissions s))) (\<lambda>present.
     if present then ret False
     else
       seq (read_db (\<lambda>s. role_exists s (rp_tenant_id row) (rp_role_id row))) (\<lambda>fk.
       seq (require fk (SqlExn ForeignKeyViolation)) (\<lambda>_.
       seq (write_db (\<lambda>s. s\<lparr>db_role_permissions := db_role_permissions s @ [row]\<rparr>)) (\<lambda>_.
       seq (attest_role_security_change cx (PermissionInserted row)) (\<lambda>_.
       ret True)))))))"

definition delete_role_permission :: "conn \<Rightarrow> uuid \<Rightarrow> pystr \<Rightarrow> (exn, db, bool) action" where
  "delete_role_permission cx role_id permission_id =
     seq (read_db (\<lambda>s. find (\<lambda>g. rp_role_id g = role_id \<and> rp_permission_id g = permission_id)
            (visible cx rp_tenant_id (db_role_permissions s)))) (\<lambda>found.
     case found of
       None \<Rightarrow> ret False
     | Some row \<Rightarrow>
         seq (write_db (\<lambda>s. s\<lparr>db_role_permissions := delete_where (\<lambda>g. g = row) (db_role_permissions s)\<rparr>)) (\<lambda>_.
         seq (attest_role_security_change cx (PermissionDeleted row)) (\<lambda>_.
         ret True)))"

definition insert_membership_role :: "conn \<Rightarrow> membership_role_row \<Rightarrow> (exn, db, bool) action" where
  "insert_membership_role cx row =
     seq (require (cx_tenant cx = Some (mr_tenant_id row)) (SqlExn InsufficientPrivilege)) (\<lambda>_.
     seq (read_db (\<lambda>s. row \<in> set (db_membership_roles s))) (\<lambda>present.
     if present then ret False
     else
       seq (read_db (\<lambda>s. role_exists s (mr_tenant_id row) (mr_role_id row) \<and>
              exists_row (\<lambda>m. mb_tenant_id m = mr_tenant_id row \<and> mb_id m = mr_membership_id row) (db_memberships s))) (\<lambda>fk.
       seq (require fk (SqlExn ForeignKeyViolation)) (\<lambda>_.
       seq (write_db (\<lambda>s. s\<lparr>db_membership_roles := db_membership_roles s @ [row]\<rparr>)) (\<lambda>_.
       seq (attest_role_security_change cx (MembershipRoleInserted row)) (\<lambda>_.
       ret True))))))"

definition delete_membership_role :: "conn \<Rightarrow> uuid \<Rightarrow> uuid \<Rightarrow> (exn, db, bool) action" where
  "delete_membership_role cx membership_id role_id =
     seq (read_db (\<lambda>s. find (\<lambda>g. mr_membership_id g = membership_id \<and> mr_role_id g = role_id)
            (visible cx mr_tenant_id (db_membership_roles s)))) (\<lambda>found.
     case found of
       None \<Rightarrow> ret False
     | Some row \<Rightarrow>
         seq (write_db (\<lambda>s. s\<lparr>db_membership_roles := delete_where (\<lambda>g. g = row) (db_membership_roles s)\<rparr>)) (\<lambda>_.
         seq (attest_role_security_change cx (MembershipRoleDeleted row)) (\<lambda>_.
         ret True)))"

section \<open>The service\<close>

text \<open>The frame every operation has: the event, the writer, the preparation, the statement, and the event written
  when the statement changed a row, cancelled when it did not.\<close>

definition attested_statement ::
  "conn \<Rightarrow> authorization_grant \<Rightarrow> exn + audit_event \<Rightarrow> (exn, db, 'a) action \<Rightarrow> ('a \<Rightarrow> bool) \<Rightarrow> (exn, db, 'a) action" where
  "attested_statement cx grant event statement changed =
     seq (lift_result event) (\<lambda>e.
     seq (new_writer cx) (\<lambda>writer.
     seq (writer_prepare_role cx writer e (pr_membership_version (ag_principal grant))) (\<lambda>armed.
     seq statement (\<lambda>x.
     seq (if changed x then writer_write cx armed e else writer_cancel_role cx armed e) (\<lambda>_.
     ret x)))))"

definition create_role :: "conn \<Rightarrow> uuid \<Rightarrow> authorization_grant option \<Rightarrow> pystr \<Rightarrow> pystr \<Rightarrow> role_record proc" where
  "create_role cx role_id grant key name =
     pseq (plift (require_grant grant TENANT_ROLES_MANAGE)) (\<lambda>g.
     pseq (pcatch
       (tenant_transaction cx (Some (ag_tenant_context g)) (\<lambda>cx'.
          attested_statement cx' g (role_event g ROLE_CREATED role_id None None)
            (seq (lift_result (display_name name)) (\<lambda>n.
             insert_role cx' role_id (tc_tenant_id (ag_tenant_context g)) key n)) (\<lambda>_. True)))
       (\<lambda>e. pfail (if is_integrity_error e then AppExn RoleConflictError else e))) (\<lambda>row.
     pret (record_of_row row)))"

definition versioned_update ::
  "conn \<Rightarrow> authorization_grant \<Rightarrow> security_event_type \<Rightarrow> uuid \<Rightarrow> (role_row \<Rightarrow> bool) \<Rightarrow> (exn + (role_row \<Rightarrow> role_row)) \<Rightarrow> role_record proc" where
  "versioned_update cx g event_type role_id guard change =
     pseq (tenant_transaction cx (Some (ag_tenant_context g)) (\<lambda>cx'.
       attested_statement cx' g (role_event g event_type role_id None None)
         (seq (lift_result change) (\<lambda>f.
          seq (update_role_row cx' role_id guard f) (\<lambda>row.
          case row of None \<Rightarrow> raise_missing_or_stale cx' role_id | Some r \<Rightarrow> ret r))) (\<lambda>_. True))) (\<lambda>row.
     pret (record_of_row row))"

definition update_role :: "conn \<Rightarrow> authorization_grant option \<Rightarrow> uuid \<Rightarrow> int \<Rightarrow> pystr \<Rightarrow> role_record proc" where
  "update_role cx grant role_id expected_version name =
     pseq (plift (require_grant grant TENANT_ROLES_MANAGE)) (\<lambda>g.
     versioned_update cx g ROLE_UPDATED role_id (\<lambda>r. ro_version r = expected_version)
       (and_then (display_name name) (\<lambda>n. Inr (\<lambda>r. r\<lparr>ro_display_name := n\<rparr>))))"

definition disable_role :: "conn \<Rightarrow> authorization_grant option \<Rightarrow> uuid \<Rightarrow> int \<Rightarrow> role_record proc" where
  "disable_role cx grant role_id expected_version =
     pseq (plift (require_grant grant TENANT_ROLES_MANAGE)) (\<lambda>g.
     versioned_update cx g ROLE_DISABLED role_id (\<lambda>r. ro_version r = expected_version \<and> ro_status r = RoleActive)
       (Inr (\<lambda>r. r\<lparr>ro_status := RoleInactive\<rparr>)))"

definition assign_permission :: "conn \<Rightarrow> authorization_grant option \<Rightarrow> uuid \<Rightarrow> permission \<Rightarrow> bool proc" where
  "assign_permission cx grant role_id permission =
     pseq (plift (require_grant grant TENANT_ROLES_MANAGE)) (\<lambda>g.
     pseq (plift (tenant_permission permission)) (\<lambda>permission_id.
     tenant_transaction cx (Some (ag_tenant_context g)) (\<lambda>cx'.
       seq (require_active_role cx' role_id) (\<lambda>_.
       attested_statement cx' g (role_event g ROLE_PERMISSION_ASSIGNED role_id (Some permission_id) None)
         (insert_role_permission cx' \<lparr>rp_tenant_id = tc_tenant_id (ag_tenant_context g), rp_role_id = role_id,
            rp_permission_id = permission_id\<rparr>) (\<lambda>changed. changed)))))"

definition remove_permission :: "conn \<Rightarrow> authorization_grant option \<Rightarrow> uuid \<Rightarrow> permission \<Rightarrow> bool proc" where
  "remove_permission cx grant role_id permission =
     pseq (plift (require_grant grant TENANT_ROLES_MANAGE)) (\<lambda>g.
     pseq (plift (tenant_permission permission)) (\<lambda>permission_id.
     tenant_transaction cx (Some (ag_tenant_context g)) (\<lambda>cx'.
       seq (require_role cx' role_id) (\<lambda>_.
       attested_statement cx' g (role_event g ROLE_PERMISSION_REMOVED role_id (Some permission_id) None)
         (delete_role_permission cx' role_id permission_id) (\<lambda>changed. changed)))))"

definition require_active_membership :: "authorization_grant \<Rightarrow> uuid \<Rightarrow> (exn, db, unit) action" where
  "require_active_membership g membership_id =
     seq (read_db (\<lambda>s. is_active_membership_in_tenant s membership_id (tc_tenant_id (ag_tenant_context g)))) (\<lambda>active.
     require active (AppExn MembershipNotFoundError))"

definition assign_role :: "conn \<Rightarrow> authorization_grant option \<Rightarrow> uuid \<Rightarrow> uuid \<Rightarrow> bool proc" where
  "assign_role cx grant membership_id role_id =
     pseq (plift (require_grant grant TENANT_MEMBERSHIPS_MANAGE)) (\<lambda>g.
     tenant_transaction cx (Some (ag_tenant_context g)) (\<lambda>cx'.
       seq (require_active_role cx' role_id) (\<lambda>_.
       seq (require_active_membership g membership_id) (\<lambda>_.
       attested_statement cx' g (role_event g MEMBERSHIP_ROLE_ASSIGNED role_id None (Some membership_id))
         (insert_membership_role cx' \<lparr>mr_tenant_id = tc_tenant_id (ag_tenant_context g), mr_membership_id = membership_id,
            mr_role_id = role_id\<rparr>) (\<lambda>changed. changed)))))"

definition remove_role :: "conn \<Rightarrow> authorization_grant option \<Rightarrow> uuid \<Rightarrow> uuid \<Rightarrow> bool proc" where
  "remove_role cx grant membership_id role_id =
     pseq (plift (require_grant grant TENANT_MEMBERSHIPS_MANAGE)) (\<lambda>g.
     tenant_transaction cx (Some (ag_tenant_context g)) (\<lambda>cx'.
       seq (require_role cx' role_id) (\<lambda>_.
       seq (require_active_membership g membership_id) (\<lambda>_.
       attested_statement cx' g (role_event g MEMBERSHIP_ROLE_REMOVED role_id None (Some membership_id))
         (delete_membership_role cx' membership_id role_id) (\<lambda>changed. changed)))))"

section \<open>The routes\<close>

text \<open>A route gets its grant from the authorization dependency, then runs the service; other requests may commit in
  between (\<open>meanwhile 1\<close>), as inside the dependency chain (\<open>meanwhile 0\<close>). Bodies are taken as parsed.\<close>

definition with_grant ::
  "(pystr \<Rightarrow> bool) \<Rightarrow> settings \<Rightarrow> conn \<Rightarrow> (nat \<Rightarrow> db \<Rightarrow> db) \<Rightarrow> request \<Rightarrow> permission \<Rightarrow> (authorization_grant option \<Rightarrow> 'a proc) \<Rightarrow> 'a proc" where
  "with_grant nok se cx meanwhile rq permission service =
     pseq (protected_route nok se cx (meanwhile 0) rq permission) (\<lambda>grant.
     pseq (others (meanwhile 1)) (\<lambda>_.
     service (Some grant)))"

definition create_role_route ::
  "(pystr \<Rightarrow> bool) \<Rightarrow> settings \<Rightarrow> conn \<Rightarrow> (nat \<Rightarrow> db \<Rightarrow> db) \<Rightarrow> uuid \<Rightarrow> request \<Rightarrow> pystr \<Rightarrow> pystr \<Rightarrow> role_record proc" where
  "create_role_route nok se cx meanwhile role_id rq key name =
     with_grant nok se cx meanwhile rq TENANT_ROLES_MANAGE (\<lambda>grant.
       pseq (plift (RoleKey (PStr key))) (\<lambda>k. create_role cx role_id grant k name))"

definition update_role_route ::
  "(pystr \<Rightarrow> bool) \<Rightarrow> settings \<Rightarrow> conn \<Rightarrow> (nat \<Rightarrow> db \<Rightarrow> db) \<Rightarrow> request \<Rightarrow> uuid \<Rightarrow> int \<Rightarrow> pystr \<Rightarrow> role_record proc" where
  "update_role_route nok se cx meanwhile rq role_id expected_version name =
     with_grant nok se cx meanwhile rq TENANT_ROLES_MANAGE (\<lambda>grant. update_role cx grant role_id expected_version name)"

definition disable_role_route ::
  "(pystr \<Rightarrow> bool) \<Rightarrow> settings \<Rightarrow> conn \<Rightarrow> (nat \<Rightarrow> db \<Rightarrow> db) \<Rightarrow> request \<Rightarrow> uuid \<Rightarrow> int \<Rightarrow> role_record proc" where
  "disable_role_route nok se cx meanwhile rq role_id expected_version =
     with_grant nok se cx meanwhile rq TENANT_ROLES_MANAGE (\<lambda>grant. disable_role cx grant role_id expected_version)"

definition assign_permission_route ::
  "(pystr \<Rightarrow> bool) \<Rightarrow> settings \<Rightarrow> conn \<Rightarrow> (nat \<Rightarrow> db \<Rightarrow> db) \<Rightarrow> request \<Rightarrow> uuid \<Rightarrow> permission \<Rightarrow> bool proc" where
  "assign_permission_route nok se cx meanwhile rq role_id permission =
     with_grant nok se cx meanwhile rq TENANT_ROLES_MANAGE (\<lambda>grant. assign_permission cx grant role_id permission)"

definition remove_permission_route ::
  "(pystr \<Rightarrow> bool) \<Rightarrow> settings \<Rightarrow> conn \<Rightarrow> (nat \<Rightarrow> db \<Rightarrow> db) \<Rightarrow> request \<Rightarrow> uuid \<Rightarrow> permission \<Rightarrow> bool proc" where
  "remove_permission_route nok se cx meanwhile rq role_id permission =
     with_grant nok se cx meanwhile rq TENANT_ROLES_MANAGE (\<lambda>grant. remove_permission cx grant role_id permission)"

definition assign_role_route ::
  "(pystr \<Rightarrow> bool) \<Rightarrow> settings \<Rightarrow> conn \<Rightarrow> (nat \<Rightarrow> db \<Rightarrow> db) \<Rightarrow> request \<Rightarrow> uuid \<Rightarrow> uuid \<Rightarrow> bool proc" where
  "assign_role_route nok se cx meanwhile rq membership_id role_id =
     with_grant nok se cx meanwhile rq TENANT_MEMBERSHIPS_MANAGE (\<lambda>grant. assign_role cx grant membership_id role_id)"

definition remove_role_route ::
  "(pystr \<Rightarrow> bool) \<Rightarrow> settings \<Rightarrow> conn \<Rightarrow> (nat \<Rightarrow> db \<Rightarrow> db) \<Rightarrow> request \<Rightarrow> uuid \<Rightarrow> uuid \<Rightarrow> bool proc" where
  "remove_role_route nok se cx meanwhile rq membership_id role_id =
     with_grant nok se cx meanwhile rq TENANT_MEMBERSHIPS_MANAGE (\<lambda>grant. remove_role cx grant membership_id role_id)"

end
