(* ===== verification/RoleAdminClaims.thy ===== *)
theory RoleAdminClaims
  imports RoleAdmin
begin

text \<open>
  What role administration guarantees. The abstract specification is one tenant's view of its roles, their
  permissions and who holds them; every operation refines a step on that view, leaves every other tenant's view
  alone, and commits exactly one event of a live actor when it changed something.
\<close>

section \<open>The role tables\<close>

type_synonym rbac = "role_row list \<times> role_permission_row list \<times> membership_role_row list"

definition rbac_of :: "db \<Rightarrow> rbac" where
  "rbac_of s = (db_roles s, db_role_permissions s, db_membership_roles s)"

definition put_rbac :: "rbac \<Rightarrow> db \<Rightarrow> db" where
  "put_rbac b s = s\<lparr>db_roles := fst b, db_role_permissions := fst (snd b), db_membership_roles := snd (snd b)\<rparr>"

lemma rbac_simps [simp]:
  "rbac_of (put_rbac b s) = b" "put_rbac (rbac_of s) s = s" "put_rbac b (put_rbac c s) = put_rbac b s"
  "rbac_of (s\<lparr>db_intents := i\<rparr>) = rbac_of s" "rbac_of (s\<lparr>db_drawn := n\<rparr>) = rbac_of s" "rbac_of (s\<lparr>db_events := ev\<rparr>) = rbac_of s"
  "db_intents (put_rbac b s) = db_intents s" "db_events (put_rbac b s) = db_events s" "db_drawn (put_rbac b s) = db_drawn s"
  "db_clock (put_rbac b s) = db_clock s" "db_memberships (put_rbac b s) = db_memberships s"
  "put_rbac b (s\<lparr>db_intents := i\<rparr>) = (put_rbac b s)\<lparr>db_intents := i\<rparr>"
  by (simp_all add: rbac_of_def put_rbac_def)

section \<open>The attestation protocol\<close>

text \<open>Inside an armed transaction the trigger passes exactly the announced change and marks the intent.\<close>

definition armed :: "conn \<Rightarrow> intent_row \<Rightarrow> db \<Rightarrow> bool" where
  "armed cx i s \<longleftrightarrow> db_intents s = [i] \<and> in_transaction_id i = cx_txid cx \<and> \<not> in_attested i"

lemma attest_Inr:
  assumes "db_intents s = [i]" "in_transaction_id i = cx_txid cx" "attest_role_security_change cx c s = Inr (x, s')"
  shows "s' = s\<lparr>db_intents := [i\<lparr>in_attested := True\<rparr>]\<rparr> \<and>
    attested_change c = Some (in_event_type i, in_role_id i, in_tenant_id i, in_target_membership_id i, in_permission_id i)"
  using assms by (auto simp: attest_role_security_change_def seq_eq_Inr require_def update_where_def split: if_splits)

text \<open>A statement that changes the role tables as \<open>effect\<close> says, or nothing, and is attested when it does.\<close>

definition attested_by ::
  "conn \<Rightarrow> (exn, db, 'a) action \<Rightarrow> ('a \<Rightarrow> bool) \<Rightarrow> (rbac \<Rightarrow> 'a \<Rightarrow> bool) \<Rightarrow> ('a \<Rightarrow> rbac \<Rightarrow> rbac) \<Rightarrow> bool" where
  "attested_by cx st changed allowed effect \<longleftrightarrow>
     (\<forall>i s x s'. armed cx i s \<longrightarrow> st s = Inr (x, s') \<longrightarrow>
        allowed (rbac_of s) x \<and>
        s' = (if changed x then put_rbac (effect x (rbac_of s)) (s\<lparr>db_intents := [i\<lparr>in_attested := True\<rparr>]\<rparr>) else s))"

text \<open>The event row a committed change leaves.\<close>

definition role_event_of :: "audit_event \<Rightarrow> time \<Rightarrow> event_row \<Rightarrow> bool" where
  "role_event_of e now r \<longleftrightarrow> (\<exists>i c. r = (event_to_row e i c 0)\<lparr>er_created_at := now\<rparr>)"

lemma new_writer_Inr:
  assumes "new_writer cx s = Inr (w, s')"
  shows "sw_role_intent w = None \<and> (\<exists>n. s' = s\<lparr>db_drawn := n\<rparr>)"
proof (cases "cx_correlation cx")
  case (Some c)
  then have "w = \<lparr>sw_correlation = c, sw_role_intent = None\<rparr>" "s' = s" using assms by (simp_all add: new_writer_def)
  then show ?thesis by (intro conjI exI [of _ "db_drawn s"]) simp_all
next
  case None
  with assms show ?thesis by (auto simp: new_writer_def draw_id_def seq_def)
qed

lemma live_actor_drawn [simp]: "live_actor cx (s\<lparr>db_drawn := n\<rparr>) u x m v = live_actor cx s u x m v"
  by (simp add: live_actor_def user_by_id_def membership_by_id_def tenant_active_def tenant_by_id_def cong: option.case_cong)

lemma prepare_Inr:
  assumes "db_intents s = []" "sw_role_intent w = None"
    and "ae_user_id e = Some u" "ae_session_id e = Some x" "ae_membership_id e = Some m" "ae_role_id e = Some r"
    and "writer_prepare_role cx w e v s = Inr (w', s')"
  shows "live_actor cx s u x m v \<noteq> None \<and> (\<exists>i n. armed cx i s' \<and> s' = s\<lparr>db_drawn := n, db_intents := [i]\<rparr> \<and>
    w' = w\<lparr>sw_role_intent := Some (e, in_event_id i)\<rparr>)"
  using assms
  by (auto simp: writer_prepare_role_def require_transaction_def seq_eq_Inr require_def draw_id_def guard_sql_def
      prepare_role_security_event_def armed_def exists_row_def split: if_splits sum.splits option.splits)

lemma write_role_Inr:
  assumes "db_intents s = [i]" "is_role_event e" "ae_role_id e = Some r" "sw_role_intent w = Some (e, j)"
    and "writer_write cx w e s = Inr (w', s')"
  shows "\<exists>row. role_event_of e (db_clock s) row \<and> s' = s\<lparr>db_intents := [], db_events := db_events s @ [row]\<rparr>"
  using assms
  by (auto simp: writer_write_def require_transaction_def seq_eq_Inr require_def guard_sql_def append_security_event_def
      validate_security_event_insert_def exists_row_def delete_where_def event_to_row_def role_event_of_def split: if_splits sum.splits)

lemma cancel_role_Inr:
  assumes "armed cx i s" "writer_cancel_role cx w e s = Inr (w', s')"
  shows "s' = s\<lparr>db_intents := []\<rparr>"
  using assms
  by (auto simp: armed_def writer_cancel_role_def require_transaction_def seq_eq_Inr require_def guard_sql_def
      cancel_role_security_event_def exists_row_def delete_where_def split: if_splits sum.splits option.splits)

lemma attested_statement_Inr:
  assumes "db_intents s = []" "attested_by cx st changed allowed effect"
    and "is_role_event e" "ae_user_id e = Some u" "ae_session_id e = Some x" "ae_membership_id e = Some m" "ae_role_id e = Some r"
    and run: "attested_statement cx g (Inr e) st changed s = Inr (y, s')"
  shows "live_actor cx s u x m (pr_membership_version (ag_principal g)) \<noteq> None \<and> allowed (rbac_of s) y \<and>
    (\<exists>n ev. s' = put_rbac (if changed y then effect y (rbac_of s) else rbac_of s) (s\<lparr>db_drawn := n, db_events := db_events s @ ev\<rparr>) \<and>
       (if changed y then \<exists>row. ev = [row] \<and> role_event_of e (db_clock s) row else ev = []))"
proof -
  obtain w s1 w2 s2 s3 w3 where w: "new_writer cx s = Inr (w, s1)"
    and p: "writer_prepare_role cx w e (pr_membership_version (ag_principal g)) s1 = Inr (w2, s2)"
    and st: "st s2 = Inr (y, s3)"
    and fin: "(if changed y then writer_write cx w2 e else writer_cancel_role cx w2 e) s3 = Inr (w3, s')"
    using run by (auto simp: attested_statement_def seq_eq_Inr)
  obtain n1 where s1: "s1 = s\<lparr>db_drawn := n1\<rparr>" "sw_role_intent w = None" using new_writer_Inr [OF w] by blast
  have "db_intents s1 = []" using s1 assms(1) by simp
  from prepare_Inr [OF this s1(2) assms(4-7) p] obtain i n2 where
    live: "live_actor cx s u x m (pr_membership_version (ag_principal g)) \<noteq> None" and
    i: "armed cx i s2" "s2 = s1\<lparr>db_drawn := n2, db_intents := [i]\<rparr>" "w2 = w\<lparr>sw_role_intent := Some (e, in_event_id i)\<rparr>"
    unfolding s1 by (auto simp del: not_None_eq)
  have s2: "s2 = s\<lparr>db_drawn := n2, db_intents := [i]\<rparr>" "rbac_of s2 = rbac_of s" using i(2) s1(1) by simp_all
  from assms(2) i(1) st have eff: "allowed (rbac_of s) y"
    "s3 = (if changed y then put_rbac (effect y (rbac_of s)) (s2\<lparr>db_intents := [i\<lparr>in_attested := True\<rparr>]\<rparr>) else s2)"
    unfolding attested_by_def s2(2) [symmetric] by blast+
  show ?thesis
  proof (cases "changed y")
    case True
    have "db_intents s3 = [i\<lparr>in_attested := True\<rparr>]" "db_clock s3 = db_clock s" using eff(2) True s2 by (simp_all add: put_rbac_def)
    with write_role_Inr [OF this(1) assms(3,7), of w2 "in_event_id i" cx w3 s'] fin True i(3) obtain row where
      row: "role_event_of e (db_clock s) row" "s' = s3\<lparr>db_intents := [], db_events := db_events s3 @ [row]\<rparr>" by auto
    have "s' = put_rbac (effect y (rbac_of s)) (s\<lparr>db_drawn := n2, db_events := db_events s @ [row]\<rparr>)"
      using row(2) eff(2) True s2 assms(1) by (simp add: put_rbac_def)
    with live eff(1) True row(1) show ?thesis by auto
  next
    case False
    then have "s' = s2\<lparr>db_intents := []\<rparr>" using fin eff(2) cancel_role_Inr i(1) by auto
    then have "s' = put_rbac (rbac_of s) (s\<lparr>db_drawn := n2, db_events := db_events s @ []\<rparr>)"
      using s2 assms(1) by (simp add: put_rbac_def rbac_of_def)
    with live eff(1) False show ?thesis by auto
  qed
qed

section \<open>The statements are attested\<close>

lemma seq_assoc: "seq (seq m f) g s = seq m (\<lambda>x. seq (f x) g) s"
  by (auto simp: seq_def split: sum.splits)

lemma seq_ret_fun: "seq (ret x) f = f x" and ret_fun: "ret x = (\<lambda>s. Inr (x, s))"
  by (simp_all add: fun_eq_iff seq_def)

lemma find_visible: "find P (visible cx f xs) = find (\<lambda>x. cx_tenant cx = Some (f x) \<and> P x) xs"
  unfolding visible_def by (induction xs) (auto simp del: option.inject)

lemma attested_byI:
  assumes "\<And>i s x s'. armed cx i s \<Longrightarrow> st s = Inr (x, s') \<Longrightarrow> allowed (rbac_of s) x \<and>
    s' = (if changed x then put_rbac (effect x (rbac_of s)) (s\<lparr>db_intents := [i\<lparr>in_attested := True\<rparr>]\<rparr>) else s)"
  shows "attested_by cx st changed allowed effect"
  unfolding attested_by_def using assms by blast

lemma attest_armed:
  assumes "armed cx i s" "db_intents s' = db_intents s" "attest_role_security_change cx c s' = Inr (x, s'')"
  shows "s'' = s'\<lparr>db_intents := [i\<lparr>in_attested := True\<rparr>]\<rparr>"
  using attest_Inr [of s' i cx c x s''] assms by (auto simp: armed_def)

definition role_of :: "uuid \<Rightarrow> uuid \<Rightarrow> role_row list \<Rightarrow> role_row option" where
  "role_of t i rs = find (\<lambda>r. ro_tenant_id r = t \<and> ro_id r = i) rs"

lemma visible_role_of: "cx_tenant cx = Some t \<Longrightarrow> visible_role cx i s = role_of t i (db_roles s)"
  by (auto simp: visible_role_def role_of_def find_visible intro: arg_cong2 [of _ _ _ _ find])

definition fresh_role :: "uuid \<Rightarrow> uuid \<Rightarrow> pystr \<Rightarrow> pystr \<Rightarrow> role_row" where
  "fresh_role t i key name = \<lparr>ro_id = i, ro_tenant_id = t, ro_key = key, ro_display_name = name, ro_status = RoleActive, ro_version = 1\<rparr>"

lemma attested_insert_role:
  "attested_by cx (seq (lift_result (display_name name)) (\<lambda>n. insert_role cx i t key n)) (\<lambda>_. True)
     (\<lambda>b row. row = fresh_role t i key name \<and> (\<forall>r \<in> set (fst b). ro_id r \<noteq> i \<and> (ro_tenant_id r = t \<longrightarrow> ro_key r \<noteq> key)))
     (\<lambda>row b. (fst b @ [row], snd b))"
proof (rule attested_byI)
  fix j s x s'
  assume a: "armed cx j s" and run: "seq (lift_result (display_name name)) (\<lambda>n. insert_role cx i t key n) s = Inr (x, s')"
  let ?row = "fresh_role t i key name" and ?s1 = "s\<lparr>db_roles := db_roles s @ [fresh_role t i key name]\<rparr>"
  have free: "\<not> exists_row (\<lambda>r. ro_id r = i \<or> (ro_tenant_id r = t \<and> ro_key r = key)) (db_roles s)"
    and rest: "seq (attest_role_security_change cx (RoleInserted ?row)) (\<lambda>_. ret ?row) ?s1 = Inr (x, s')"
    using run by (simp_all add: insert_role_def Let_def seq_lift seq_require display_name_def fresh_role_def split: if_splits)
  then obtain u where att: "attest_role_security_change cx (RoleInserted ?row) ?s1 = Inr (u, s')" and x: "x = ?row"
    unfolding seq_eq_Inr by (simp only: ret_apply sum.inject prod.inject) blast
  have "s' = ?s1\<lparr>db_intents := [j\<lparr>in_attested := True\<rparr>]\<rparr>" using attest_armed [OF a _ att] by simp
  then have "s' = put_rbac (fst (rbac_of s) @ [x], snd (rbac_of s)) (s\<lparr>db_intents := [j\<lparr>in_attested := True\<rparr>]\<rparr>)"
    by (simp add: rbac_of_def put_rbac_def x)
  moreover have "\<forall>r \<in> set (fst (rbac_of s)). ro_id r \<noteq> i \<and> (ro_tenant_id r = t \<longrightarrow> ro_key r \<noteq> key)"
    using free by (auto simp: exists_row_iff rbac_of_def)
  ultimately show "(x = fresh_role t i key name \<and> (\<forall>r \<in> set (fst (rbac_of s)). ro_id r \<noteq> i \<and> (ro_tenant_id r = t \<longrightarrow> ro_key r \<noteq> key))) \<and>
      s' = (if True then put_rbac (fst (rbac_of s) @ [x], snd (rbac_of s)) (s\<lparr>db_intents := [j\<lparr>in_attested := True\<rparr>]\<rparr>) else s)"
    using x by simp
qed

lemma attested_update_role:
  assumes "cx_tenant cx = Some t"
  shows "attested_by cx (seq (lift_result change) (\<lambda>f. seq (update_role_row cx i guard f) (\<lambda>row.
       case row of None \<Rightarrow> raise_missing_or_stale cx i | Some r \<Rightarrow> ret r))) (\<lambda>_. True)
     (\<lambda>b new. \<exists>f old. change = Inr f \<and> role_of t i (fst b) = Some old \<and> guard old \<and> new = (f old)\<lparr>ro_version := ro_version old + 1\<rparr>)
     (\<lambda>new b. (update_where (\<lambda>r. ro_id r = i) (\<lambda>_. new) (fst b), snd b))"
proof (rule attested_byI)
  fix j s x s'
  assume a: "armed cx j s" and run: "seq (lift_result change) (\<lambda>f. seq (update_role_row cx i guard f) (\<lambda>row.
       case row of None \<Rightarrow> raise_missing_or_stale cx i | Some r \<Rightarrow> ret r)) s = Inr (x, s')"
  obtain f where f: "change = Inr f" using run by (auto simp: seq_eq_Inr lift_result_eq_Inr)
  obtain old where old: "role_of t i (db_roles s) = Some old" "guard old"
    using run f by (cases "role_of t i (db_roles s)") (auto simp: seq_lift update_role_row_def visible_role_of [OF assms]
        raise_missing_or_stale_def seq_eq_Inr split: if_splits)
  let ?new = "(f old)\<lparr>ro_version := ro_version old + 1\<rparr>"
  let ?s1 = "s\<lparr>db_roles := update_where (\<lambda>r. ro_id r = i) (\<lambda>_. ?new) (db_roles s)\<rparr>"
  have "seq (attest_role_security_change cx (RoleUpdated old ?new)) (\<lambda>_. ret ?new) ?s1 = Inr (x, s')"
    using run f old 
    by (simp add: seq_lift seq_assoc seq_ret_fun update_role_row_def visible_role_of [OF assms] Let_def seq_require split: if_splits)
      (simp add: ret_fun)
  then obtain u where att: "attest_role_security_change cx (RoleUpdated old ?new) ?s1 = Inr (u, s')" and x: "x = ?new"
    unfolding seq_eq_Inr by (simp only: ret_apply sum.inject prod.inject) blast
  have "s' = ?s1\<lparr>db_intents := [j\<lparr>in_attested := True\<rparr>]\<rparr>" using attest_armed [OF a _ att] by simp
  then have "s' = put_rbac (update_where (\<lambda>r. ro_id r = i) (\<lambda>_. x) (fst (rbac_of s)), snd (rbac_of s)) (s\<lparr>db_intents := [j\<lparr>in_attested := True\<rparr>]\<rparr>)"
    by (simp add: rbac_of_def put_rbac_def x)
  moreover have "role_of t i (fst (rbac_of s)) = Some old" using old(1) by (simp add: rbac_of_def)
  ultimately show "(\<exists>f old. change = Inr f \<and> role_of t i (fst (rbac_of s)) = Some old \<and> guard old \<and> x = (f old)\<lparr>ro_version := ro_version old + 1\<rparr>) \<and>
      s' = (if True then put_rbac (update_where (\<lambda>r. ro_id r = i) (\<lambda>_. x) (fst (rbac_of s)), snd (rbac_of s))
        (s\<lparr>db_intents := [j\<lparr>in_attested := True\<rparr>]\<rparr>) else s)"
    using f old(2) x by simp
qed

text \<open>A statement that writes one table and then runs the trigger.\<close>

lemma attested_write:
  assumes "armed cx j s" "seq (write_db f) (\<lambda>_. seq (attest_role_security_change cx c) (\<lambda>_. ret y)) s = Inr (x, s')"
    and "f s = put_rbac b s"
  shows "x = y \<and> s' = put_rbac b (s\<lparr>db_intents := [j\<lparr>in_attested := True\<rparr>]\<rparr>)"
proof -
  obtain u where att: "attest_role_security_change cx c (f s) = Inr (u, s')" and x: "x = y"
    using assms(2) unfolding seq_write_db seq_eq_Inr by (simp only: ret_apply sum.inject prod.inject) blast
  have "s' = (f s)\<lparr>db_intents := [j\<lparr>in_attested := True\<rparr>]\<rparr>" using attest_armed [OF assms(1) _ att] assms(3) by simp
  with x assms(3) show ?thesis by simp
qed

lemma put_rbac_tables:
  "s\<lparr>db_role_permissions := p\<rparr> = put_rbac (db_roles s, p, db_membership_roles s) s"
  "s\<lparr>db_membership_roles := m\<rparr> = put_rbac (db_roles s, db_role_permissions s, m) s"
  by (simp_all add: put_rbac_def)

lemma attested_insert_permission:
  "attested_by cx (insert_role_permission cx row) (\<lambda>c. c) (\<lambda>b c. c \<longleftrightarrow> row \<notin> set (fst (snd b)))
     (\<lambda>_ b. (fst b, fst (snd b) @ [row], snd (snd b)))"
proof (rule attested_byI)
  fix j s x s'
  assume a: "armed cx j s" and run: "insert_role_permission cx row s = Inr (x, s')"
  show "(x \<longleftrightarrow> row \<notin> set (fst (snd (rbac_of s)))) \<and>
      s' = (if x then put_rbac (fst (rbac_of s), fst (snd (rbac_of s)) @ [row], snd (snd (rbac_of s)))
        (s\<lparr>db_intents := [j\<lparr>in_attested := True\<rparr>]\<rparr>) else s)"
  proof (cases "row \<in> set (db_role_permissions s)")
    case True
    with run show ?thesis by (simp add: insert_role_permission_def seq_require rbac_of_def split: if_splits)
  next
    case False
    then have "seq (write_db (\<lambda>s. s\<lparr>db_role_permissions := db_role_permissions s @ [row]\<rparr>)) (\<lambda>_.
       seq (attest_role_security_change cx (PermissionInserted row)) (\<lambda>_. ret True)) s = Inr (x, s')"
      using run by (simp add: insert_role_permission_def seq_require split: if_splits del: seq_write_db)
    from attested_write [OF a this put_rbac_tables(1)] False show ?thesis by (simp add: rbac_of_def)
  qed
qed

lemma attested_insert_membership_role:
  "attested_by cx (insert_membership_role cx row) (\<lambda>c. c) (\<lambda>b c. c \<longleftrightarrow> row \<notin> set (snd (snd b)))
     (\<lambda>_ b. (fst b, fst (snd b), snd (snd b) @ [row]))"
proof (rule attested_byI)
  fix j s x s'
  assume a: "armed cx j s" and run: "insert_membership_role cx row s = Inr (x, s')"
  show "(x \<longleftrightarrow> row \<notin> set (snd (snd (rbac_of s)))) \<and>
      s' = (if x then put_rbac (fst (rbac_of s), fst (snd (rbac_of s)), snd (snd (rbac_of s)) @ [row])
        (s\<lparr>db_intents := [j\<lparr>in_attested := True\<rparr>]\<rparr>) else s)"
  proof (cases "row \<in> set (db_membership_roles s)")
    case True
    with run show ?thesis by (simp add: insert_membership_role_def seq_require rbac_of_def split: if_splits)
  next
    case False
    then have "seq (write_db (\<lambda>s. s\<lparr>db_membership_roles := db_membership_roles s @ [row]\<rparr>)) (\<lambda>_.
       seq (attest_role_security_change cx (MembershipRoleInserted row)) (\<lambda>_. ret True)) s = Inr (x, s')"
      using run by (simp add: insert_membership_role_def seq_require split: if_splits del: seq_write_db)
    from attested_write [OF a this put_rbac_tables(2)] False show ?thesis by (simp add: rbac_of_def)
  qed
qed

lemma find_row:
  assumes "\<And>x. P x \<longleftrightarrow> x = row"
  shows "find P xs = (if row \<in> set xs then Some row else None)"
  by (induction xs) (auto simp: assms)

lemma attested_delete_permission:
  assumes "cx_tenant cx = Some t"
    and row_def: "row = \<lparr>rp_tenant_id = t, rp_role_id = i, rp_permission_id = p\<rparr>"
  shows "attested_by cx (delete_role_permission cx i p) (\<lambda>c. c) (\<lambda>b c. c \<longleftrightarrow> row \<in> set (fst (snd b)))
     (\<lambda>_ b. (fst b, delete_where (\<lambda>g. g = row) (fst (snd b)), snd (snd b)))"
proof (rule attested_byI)
  fix j s x s'
  assume a: "armed cx j s" and run: "delete_role_permission cx i p s = Inr (x, s')"
  have find: "find (\<lambda>g. rp_role_id g = i \<and> rp_permission_id g = p) (visible cx rp_tenant_id (db_role_permissions s)) =
      (if row \<in> set (db_role_permissions s) then Some row else None)"
    unfolding find_visible by (rule find_row) (auto simp: assms)
  show "(x \<longleftrightarrow> row \<in> set (fst (snd (rbac_of s)))) \<and>
      s' = (if x then put_rbac (fst (rbac_of s), delete_where (\<lambda>g. g = row) (fst (snd (rbac_of s))), snd (snd (rbac_of s)))
        (s\<lparr>db_intents := [j\<lparr>in_attested := True\<rparr>]\<rparr>) else s)"
  proof (cases "row \<in> set (db_role_permissions s)")
    case False
    with run find show ?thesis by (simp add: delete_role_permission_def rbac_of_def)
  next
    case True
    then have "seq (write_db (\<lambda>s. s\<lparr>db_role_permissions := delete_where (\<lambda>g. g = row) (db_role_permissions s)\<rparr>)) (\<lambda>_.
       seq (attest_role_security_change cx (PermissionDeleted row)) (\<lambda>_. ret True)) s = Inr (x, s')"
      using run find by (simp add: delete_role_permission_def del: seq_write_db)
    from attested_write [OF a this put_rbac_tables(1)] True show ?thesis by (simp add: rbac_of_def)
  qed
qed

lemma attested_delete_membership_role:
  assumes "cx_tenant cx = Some t"
    and row_def: "row = \<lparr>mr_tenant_id = t, mr_membership_id = m, mr_role_id = i\<rparr>"
  shows "attested_by cx (delete_membership_role cx m i) (\<lambda>c. c) (\<lambda>b c. c \<longleftrightarrow> row \<in> set (snd (snd b)))
     (\<lambda>_ b. (fst b, fst (snd b), delete_where (\<lambda>g. g = row) (snd (snd b))))"
proof (rule attested_byI)
  fix j s x s'
  assume a: "armed cx j s" and run: "delete_membership_role cx m i s = Inr (x, s')"
  have find: "find (\<lambda>g. mr_membership_id g = m \<and> mr_role_id g = i) (visible cx mr_tenant_id (db_membership_roles s)) =
      (if row \<in> set (db_membership_roles s) then Some row else None)"
    unfolding find_visible by (rule find_row) (auto simp: assms)
  show "(x \<longleftrightarrow> row \<in> set (snd (snd (rbac_of s)))) \<and>
      s' = (if x then put_rbac (fst (rbac_of s), fst (snd (rbac_of s)), delete_where (\<lambda>g. g = row) (snd (snd (rbac_of s))))
        (s\<lparr>db_intents := [j\<lparr>in_attested := True\<rparr>]\<rparr>) else s)"
  proof (cases "row \<in> set (db_membership_roles s)")
    case False
    with run find show ?thesis by (simp add: delete_membership_role_def rbac_of_def)
  next
    case True
    then have "seq (write_db (\<lambda>s. s\<lparr>db_membership_roles := delete_where (\<lambda>g. g = row) (db_membership_roles s)\<rparr>)) (\<lambda>_.
       seq (attest_role_security_change cx (MembershipRoleDeleted row)) (\<lambda>_. ret True)) s = Inr (x, s')"
      using run find by (simp add: delete_membership_role_def del: seq_write_db)
    from attested_write [OF a this put_rbac_tables(2)] True show ?thesis by (simp add: rbac_of_def)
  qed
qed

section \<open>Committed operations\<close>

lemma role_event_Inr:
  assumes "role_event g t i p m = Inr e"
  shows "ae_event_type e = t \<and> ae_result e = R_SUCCESS \<and> ae_user_id e = Some (pr_user_id (ag_principal g)) \<and>
    ae_session_id e = Some (pr_session_id (ag_principal g)) \<and> ae_membership_id e = Some (pr_membership_id (ag_principal g)) \<and>
    ae_role_id e = Some i \<and> ae_permission_id e = p \<and> ae_target_membership_id e = m"
  using assms by (cases p; cases m) (auto simp: role_event_def SecurityAuditEvent_def no_event_args_def of_option_def split: if_splits)

text \<open>What a committed operation leaves: the new role tables, and one event that names the live actor, the role and
  the change when there was one.\<close>

definition role_committed ::
  "conn \<Rightarrow> authorization_grant \<Rightarrow> security_event_type \<Rightarrow> uuid \<Rightarrow> pystr option \<Rightarrow> uuid option \<Rightarrow> bool \<Rightarrow> rbac \<Rightarrow> db \<Rightarrow> db \<Rightarrow> bool" where
  "role_committed cx g t i p m changed b s s' \<longleftrightarrow>
     live_actor (bound_conn cx (ag_tenant_context g)) s (pr_user_id (ag_principal g)) (pr_session_id (ag_principal g))
       (pr_membership_id (ag_principal g)) (pr_membership_version (ag_principal g)) \<noteq> None \<and>
     (\<exists>n ev. s' = put_rbac b (s\<lparr>db_drawn := n, db_events := db_events s @ ev\<rparr>) \<and>
        (if changed
         then \<exists>row. ev = [row] \<and> er_event_type row = event_value t \<and> er_result row = lit ''success'' \<and>
           er_user_id row = Some (pr_user_id (ag_principal g)) \<and> er_session_id row = Some (pr_session_id (ag_principal g)) \<and>
           er_membership_id row = Some (pr_membership_id (ag_principal g)) \<and> er_role_id row = Some i \<and>
           er_permission_id row = p \<and> er_target_membership_id row = m \<and> er_created_at row = db_clock s
         else ev = []))"

lemma attested_transaction:
  assumes "db_intents s = []"
    and run: "tenant_transaction cx (Some (ag_tenant_context g)) (\<lambda>cx'. seq (pre cx') (\<lambda>_.
      attested_statement cx' g (role_event g t i p m) (st cx') changed)) s = (Inr y, s')"
    and pre: "\<And>u s1. pre (bound_conn cx (ag_tenant_context g)) s = Inr (u, s1) \<Longrightarrow> s1 = s"
    and "t \<in> set role_event_types"
    and st: "attested_by (bound_conn cx (ag_tenant_context g)) (st (bound_conn cx (ag_tenant_context g))) changed allowed effect"
  shows "is_ok (pre (bound_conn cx (ag_tenant_context g)) s) \<and> allowed (rbac_of s) y \<and>
    role_committed cx g t i p m (changed y) (if changed y then effect y (rbac_of s) else rbac_of s) s s'"
proof -
  let ?cx = "bound_conn cx (ag_tenant_context g)"
  have run2: "seq (seq (pre ?cx) (\<lambda>_. attested_statement ?cx g (role_event g t i p m) (st ?cx) changed)) (\<lambda>x.
         seq (require_consumed_role_security_event ?cx) (\<lambda>_. ret x)) s = Inr (y, s')"
    using run unfolding tenant_transaction_def
    by (cases "require_context (Some (ag_tenant_context g))")
      (auto simp: pseq_plift transact_eq_Inr require_context_eq_Inr)
  obtain u s1 where u: "pre ?cx s = Inr (u, s1)" and run3: "seq (attested_statement ?cx g (role_event g t i p m) (st ?cx) changed) (\<lambda>x.
         seq (require_consumed_role_security_event ?cx) (\<lambda>_. ret x)) s1 = Inr (y, s')"
    using run2 unfolding seq_assoc seq_eq_Inr [of "pre ?cx"] by blast
  have s1: "s1 = s" by (rule pre [OF u])
  obtain y2 s2 where body: "attested_statement ?cx g (role_event g t i p m) (st ?cx) changed s = Inr (y2, s2)"
    and last: "seq (require_consumed_role_security_event ?cx) (\<lambda>_. ret y2) s2 = Inr (y, s')"
    using run3 unfolding s1 seq_eq_Inr [of "attested_statement ?cx g (role_event g t i p m) (st ?cx) changed"] by blast
  have y: "y2 = y" "s2 = s'"
    using last by (simp_all add: require_consumed_role_security_event_def seq_require seq_assoc require_def split: if_splits)
  obtain e where e: "role_event g t i p m = Inr e"
    using body by (cases "role_event g t i p m") (simp_all add: attested_statement_def seq_lift)
  note ef = role_event_Inr [OF e]
  have "is_role_event e" using ef assms(4) by (simp add: is_role_event_def)
  have f: "ae_user_id e = Some (pr_user_id (ag_principal g))" "ae_session_id e = Some (pr_session_id (ag_principal g))"
    "ae_membership_id e = Some (pr_membership_id (ag_principal g))" "ae_role_id e = Some i" using ef by simp_all
  note fin = attested_statement_Inr [OF assms(1) st \<open>is_role_event e\<close> f body [unfolded e y]]
  have row: "er_event_type r = event_value t \<and> er_result r = lit ''success'' \<and>
     er_user_id r = Some (pr_user_id (ag_principal g)) \<and> er_session_id r = Some (pr_session_id (ag_principal g)) \<and>
     er_membership_id r = Some (pr_membership_id (ag_principal g)) \<and> er_role_id r = Some i \<and>
     er_permission_id r = p \<and> er_target_membership_id r = m \<and> er_created_at r = db_clock s" if "role_event_of e (db_clock s) r" for r
    using that ef by (auto simp: role_event_of_def event_to_row_def)
  obtain n ev where nev: "s' = put_rbac (if changed y then effect y (rbac_of s) else rbac_of s) (s\<lparr>db_drawn := n, db_events := db_events s @ ev\<rparr>)"
    "if changed y then \<exists>row. ev = [row] \<and> role_event_of e (db_clock s) row else ev = []" using fin by blast
  then have "role_committed cx g t i p m (changed y) (if changed y then effect y (rbac_of s) else rbac_of s) s s'"
    unfolding role_committed_def using fin row by (intro conjI exI [of _ n] exI [of _ ev]) (auto simp del: not_None_eq)
  with fin u show ?thesis by simp
qed

section \<open>One tenant's view\<close>

record tenant_view =
  tv_roles :: "uuid \<Rightarrow> role_row option"
  tv_permissions :: "(uuid \<times> pystr) set"
  tv_members :: "(uuid \<times> uuid) set"

definition tenant_view :: "uuid \<Rightarrow> rbac \<Rightarrow> tenant_view" where
  "tenant_view t b = \<lparr>tv_roles = (\<lambda>i. role_of t i (fst b)),
     tv_permissions = {(i, p). \<lparr>rp_tenant_id = t, rp_role_id = i, rp_permission_id = p\<rparr> \<in> set (fst (snd b))},
     tv_members = {(m, i). \<lparr>mr_tenant_id = t, mr_membership_id = m, mr_role_id = i\<rparr> \<in> set (snd (snd b))}\<rparr>"

datatype role_operation =
    CreateRole uuid pystr pystr
  | UpdateRole uuid int pystr
  | DisableRole uuid int
  | AssignPermission uuid permission
  | RemovePermission uuid permission
  | AssignRole uuid uuid
  | RemoveRole uuid uuid

text \<open>The abstract step: the view after a successful operation, and whether it changed.\<close>

fun role_step :: "uuid \<Rightarrow> role_operation \<Rightarrow> tenant_view \<Rightarrow> (tenant_view \<times> bool) option" where
  "role_step t (CreateRole i key name) v =
     (if tv_roles v i = None \<and> (\<forall>j r. tv_roles v j = Some r \<longrightarrow> ro_key r \<noteq> key)
      then Some (v\<lparr>tv_roles := (tv_roles v)(i \<mapsto> fresh_role t i key name)\<rparr>, True) else None)"
| "role_step t (UpdateRole i expected name) v =
     (case tv_roles v i of None \<Rightarrow> None | Some r \<Rightarrow>
        if ro_version r = expected
        then Some (v\<lparr>tv_roles := (tv_roles v)(i \<mapsto> r\<lparr>ro_display_name := name, ro_version := expected + 1\<rparr>)\<rparr>, True) else None)"
| "role_step t (DisableRole i expected) v =
     (case tv_roles v i of None \<Rightarrow> None | Some r \<Rightarrow>
        if ro_version r = expected \<and> ro_status r = RoleActive
        then Some (v\<lparr>tv_roles := (tv_roles v)(i \<mapsto> r\<lparr>ro_status := RoleInactive, ro_version := expected + 1\<rparr>)\<rparr>, True) else None)"
| "role_step t (AssignPermission i p) v =
     (case tv_roles v i of None \<Rightarrow> None | Some r \<Rightarrow>
        if ro_status r = RoleActive
        then Some (v\<lparr>tv_permissions := insert (i, permission_value p) (tv_permissions v)\<rparr>, (i, permission_value p) \<notin> tv_permissions v)
        else None)"
| "role_step t (RemovePermission i p) v =
     (case tv_roles v i of None \<Rightarrow> None | Some r \<Rightarrow>
        Some (v\<lparr>tv_permissions := tv_permissions v - {(i, permission_value p)}\<rparr>, (i, permission_value p) \<in> tv_permissions v))"
| "role_step t (AssignRole m i) v =
     (case tv_roles v i of None \<Rightarrow> None | Some r \<Rightarrow>
        if ro_status r = RoleActive then Some (v\<lparr>tv_members := insert (m, i) (tv_members v)\<rparr>, (m, i) \<notin> tv_members v) else None)"
| "role_step t (RemoveRole m i) v =
     (case tv_roles v i of None \<Rightarrow> None | Some r \<Rightarrow>
        Some (v\<lparr>tv_members := tv_members v - {(m, i)}\<rparr>, (m, i) \<in> tv_members v))"

fun run_role_operation :: "conn \<Rightarrow> authorization_grant option \<Rightarrow> role_operation \<Rightarrow> bool proc" where
  "run_role_operation cx grant (CreateRole i key name) = pseq (create_role cx i grant key name) (\<lambda>_. pret True)"
| "run_role_operation cx grant (UpdateRole i expected name) = pseq (update_role cx grant i expected name) (\<lambda>_. pret True)"
| "run_role_operation cx grant (DisableRole i expected) = pseq (disable_role cx grant i expected) (\<lambda>_. pret True)"
| "run_role_operation cx grant (AssignPermission i p) = assign_permission cx grant i p"
| "run_role_operation cx grant (RemovePermission i p) = remove_permission cx grant i p"
| "run_role_operation cx grant (AssignRole m i) = assign_role cx grant m i"
| "run_role_operation cx grant (RemoveRole m i) = remove_role cx grant m i"

text \<open>The event an operation leaves, and the permission it needs.\<close>

fun role_operation_event :: "role_operation \<Rightarrow> security_event_type \<times> uuid \<times> pystr option \<times> uuid option" where
  "role_operation_event (CreateRole i _ _) = (ROLE_CREATED, i, None, None)"
| "role_operation_event (UpdateRole i _ _) = (ROLE_UPDATED, i, None, None)"
| "role_operation_event (DisableRole i _) = (ROLE_DISABLED, i, None, None)"
| "role_operation_event (AssignPermission i p) = (ROLE_PERMISSION_ASSIGNED, i, Some (permission_value p), None)"
| "role_operation_event (RemovePermission i p) = (ROLE_PERMISSION_REMOVED, i, Some (permission_value p), None)"
| "role_operation_event (AssignRole m i) = (MEMBERSHIP_ROLE_ASSIGNED, i, None, Some m)"
| "role_operation_event (RemoveRole m i) = (MEMBERSHIP_ROLE_REMOVED, i, None, Some m)"

fun role_operation_permission :: "role_operation \<Rightarrow> permission" where
  "role_operation_permission (AssignRole _ _) = TENANT_MEMBERSHIPS_MANAGE"
| "role_operation_permission (RemoveRole _ _) = TENANT_MEMBERSHIPS_MANAGE"
| "role_operation_permission _ = TENANT_ROLES_MANAGE"

text \<open>The primary key of roles and their key within a tenant.\<close>

definition rbac_ok :: "rbac \<Rightarrow> bool" where
  "rbac_ok b \<longleftrightarrow> unique_on ro_id (fst b) \<and> unique_on (\<lambda>r. (ro_tenant_id r, ro_key r)) (fst b)"

section \<open>Effects on the views\<close>

lemma role_of_Some: "role_of t i rs = Some r \<Longrightarrow> r \<in> set rs \<and> ro_tenant_id r = t \<and> ro_id r = i"
  by (auto simp: role_of_def find_Some_iff in_set_conv_nth)

lemma role_of_append:
  "role_of t i (rs @ [r]) = (case role_of t i rs of Some x \<Rightarrow> Some x | None \<Rightarrow> if ro_tenant_id r = t \<and> ro_id r = i then Some r else None)"
  by (induction rs) (auto simp: role_of_def)

lemma role_of_updated:
  assumes "unique_on ro_id rs" "role_of t i rs = Some old" "ro_id new = i" "ro_tenant_id new = t"
  shows "role_of t' j (update_where (\<lambda>r. ro_id r = i) (\<lambda>_. new) rs) = (if t' = t \<and> j = i then Some new else role_of t' j rs)"
  using assms
proof (induction rs)
  case (Cons r rs)
  have tl: "unique_on ro_id rs" "ro_id r \<notin> ro_id ` set rs" using Cons.prems(1) by (auto simp: unique_on_def)
  show ?case
  proof (cases "ro_id r = i")
    case True
    have none: "role_of t' i rs = None" for t'
      using tl(2) True by (force simp: role_of_def find_None_iff image_iff)
    then have r: "r = old" "ro_tenant_id r = t"
      using Cons.prems(2) none [of t] by (auto simp: role_of_def split: if_splits)
    moreover have "update_where (\<lambda>r. ro_id r = i) (\<lambda>_. new) rs = rs"
      using tl(2) True by (force simp: update_where_def image_iff intro!: map_idI)
    ultimately show ?thesis using True none Cons.prems(3,4) by (auto simp: role_of_def update_where_def)
  next
    case False
    then have "role_of t i rs = Some old" using Cons.prems(2) by (auto simp: role_of_def split: if_splits)
    with Cons.IH [OF tl(1) this Cons.prems(3,4)] False show ?thesis by (auto simp: role_of_def update_where_def)
  qed
qed (simp add: role_of_def)

lemma view_created:
  assumes "\<forall>r \<in> set (fst b). ro_id r \<noteq> i \<and> (ro_tenant_id r = t \<longrightarrow> ro_key r \<noteq> key)" "rbac_ok b"
    and b'_def: "b' = (fst b @ [fresh_role t i key name], snd b)"
  shows "role_step t (CreateRole i key name) (tenant_view t b) = Some (tenant_view t b', True) \<and>
    (\<forall>t'. t' \<noteq> t \<longrightarrow> tenant_view t' b' = tenant_view t' b) \<and> rbac_ok b'"
proof -
  have none: "role_of t' i (fst b) = None" for t' using assms(1) by (auto simp: role_of_def find_None_iff)
  have key: "ro_key r \<noteq> key" if "role_of t j (fst b) = Some r" for j r using role_of_Some [OF that] assms(1) by blast
  have "rbac_ok b'" using assms by (auto simp: rbac_ok_def fresh_role_def)
  moreover have "role_of t' j (fst b') = (if t' = t \<and> j = i then Some (fresh_role t i key name) else role_of t' j (fst b))" for t' j
    using none by (auto simp: b'_def role_of_append fresh_role_def split: option.split)
  ultimately show ?thesis using none key by (auto simp: tenant_view_def b'_def fun_eq_iff)
qed

lemma view_updated:
  assumes "role_of t i (fst b) = Some old" "rbac_ok b" "ro_id new = i" "ro_tenant_id new = t" "ro_key new = ro_key old"
    and b'_def: "b' = (update_where (\<lambda>r. ro_id r = i) (\<lambda>_. new) (fst b), snd b)"
  shows "tenant_view t b' = (tenant_view t b)\<lparr>tv_roles := (tv_roles (tenant_view t b))(i \<mapsto> new)\<rparr> \<and>
    (\<forall>t'. t' \<noteq> t \<longrightarrow> tenant_view t' b' = tenant_view t' b) \<and> rbac_ok b'"
proof -
  have u: "unique_on ro_id (fst b)" using assms(2) by (simp add: rbac_ok_def)
  have same: "r = old" if "r \<in> set (fst b)" "ro_id r = i" for r
    using unique_on_eqD [OF u that(1)] role_of_Some [OF assms(1)] that(2) by blast
  have keep: "map f (update_where (\<lambda>r. ro_id r = i) (\<lambda>_. new) (fst b)) = map f (fst b)" if "f new = f old"
    for f :: "role_row \<Rightarrow> 'z"
    by (rule map_update_where) (use same that in blast)
  have "ro_id new = ro_id old" "ro_tenant_id new = ro_tenant_id old" using assms(3,4) role_of_Some [OF assms(1)] by simp_all
  then have "rbac_ok b'"
    using assms(2,5) keep [of ro_id] keep [of "\<lambda>r. (ro_tenant_id r, ro_key r)"] by (simp add: rbac_ok_def unique_on_def b'_def)
  with role_of_updated [OF u assms(1,3,4)] show ?thesis by (auto simp: tenant_view_def b'_def fun_eq_iff)
qed

lemma view_permissions:
  fixes i p t
  defines "row \<equiv> \<lparr>rp_tenant_id = t, rp_role_id = i, rp_permission_id = p\<rparr>"
  shows "tenant_view t (fst b, fst (snd b) @ [row], snd (snd b)) =
      (tenant_view t b)\<lparr>tv_permissions := insert (i, p) (tv_permissions (tenant_view t b))\<rparr>"
    "tenant_view t (fst b, delete_where (\<lambda>g. g = row) (fst (snd b)), snd (snd b)) =
      (tenant_view t b)\<lparr>tv_permissions := tv_permissions (tenant_view t b) - {(i, p)}\<rparr>"
    "t' \<noteq> t \<Longrightarrow> tenant_view t' (fst b, fst (snd b) @ [row], snd (snd b)) = tenant_view t' b"
    "t' \<noteq> t \<Longrightarrow> tenant_view t' (fst b, delete_where (\<lambda>g. g = row) (fst (snd b)), snd (snd b)) = tenant_view t' b"
    "row \<in> set (fst (snd b)) \<longleftrightarrow> (i, p) \<in> tv_permissions (tenant_view t b)"
  by (auto simp: tenant_view_def delete_where_def assms)

lemma view_members:
  fixes i m t
  defines "row \<equiv> \<lparr>mr_tenant_id = t, mr_membership_id = m, mr_role_id = i\<rparr>"
  shows "tenant_view t (fst b, fst (snd b), snd (snd b) @ [row]) =
      (tenant_view t b)\<lparr>tv_members := insert (m, i) (tv_members (tenant_view t b))\<rparr>"
    "tenant_view t (fst b, fst (snd b), delete_where (\<lambda>g. g = row) (snd (snd b))) =
      (tenant_view t b)\<lparr>tv_members := tv_members (tenant_view t b) - {(m, i)}\<rparr>"
    "t' \<noteq> t \<Longrightarrow> tenant_view t' (fst b, fst (snd b), snd (snd b) @ [row]) = tenant_view t' b"
    "t' \<noteq> t \<Longrightarrow> tenant_view t' (fst b, fst (snd b), delete_where (\<lambda>g. g = row) (snd (snd b))) = tenant_view t' b"
    "row \<in> set (snd (snd b)) \<longleftrightarrow> (m, i) \<in> tv_members (tenant_view t b)"
  by (auto simp: tenant_view_def delete_where_def assms)

section \<open>Refinement\<close>

lemma require_grant_Inr:
  "require_grant (Some g) p = Inr g' \<longleftrightarrow> g' = g \<and> ag_permission_id g = permission_value p \<and>
     PermissionId (PStr (permission_value p)) = Inr (permission_value p)"
  by (auto simp: require_grant_def PermissionId_def and_then_eq_Inr split: if_splits)

lemma tenant_permission_Inr: "tenant_permission p = Inr x \<Longrightarrow> x = permission_value p"
  by (auto simp: tenant_permission_def PermissionId_def and_then_eq_Inr split: if_splits)

lemma require_role_Inr:
  "cx_tenant cx = Some t \<Longrightarrow> require_role cx i s = Inr (st, s') \<longleftrightarrow> s' = s \<and> (\<exists>r. role_of t i (db_roles s) = Some r \<and> st = ro_status r)"
  by (auto simp: require_role_def visible_role_of split: option.split)

lemma require_active_role_Inr:
  "cx_tenant cx = Some t \<Longrightarrow> require_active_role cx i s = Inr (u, s') \<longleftrightarrow>
     s' = s \<and> (\<exists>r. role_of t i (db_roles s) = Some r \<and> ro_status r = RoleActive)"
  by (auto simp: require_active_role_def require_role_def visible_role_of seq_assoc seq_require require_def split: option.split)

lemma require_active_membership_Inr:
  "require_active_membership g m s = Inr (u, s') \<longleftrightarrow> s' = s \<and> is_active_membership_in_tenant s m (tc_tenant_id (ag_tenant_context g))"
  by (auto simp: require_active_membership_def require_def)

lemma committed_rbac: "role_committed cx g t i p m c b s s' \<Longrightarrow> rbac_of s' = b"
  by (auto simp: role_committed_def)

text \<open>What the operation \<open>op\<close> of the grant \<open>g\<close> made of the database.\<close>

definition role_refined :: "conn \<Rightarrow> authorization_grant \<Rightarrow> role_operation \<Rightarrow> bool \<Rightarrow> db \<Rightarrow> db \<Rightarrow> bool" where
  "role_refined cx g op changed s s' \<longleftrightarrow>
     (let t = tc_tenant_id (ag_tenant_context g); (event, role, permission, target) = role_operation_event op in
      role_step t op (tenant_view t (rbac_of s)) = Some (tenant_view t (rbac_of s'), changed) \<and>
      (\<forall>t'. t' \<noteq> t \<longrightarrow> tenant_view t' (rbac_of s') = tenant_view t' (rbac_of s)) \<and> rbac_ok (rbac_of s') \<and>
      ag_permission_id g = permission_value (role_operation_permission op) \<and>
      role_committed cx g event role permission target changed (rbac_of s') s s')"

lemma create_refined:
  assumes "db_intents s = []" "rbac_ok (rbac_of s)" "create_role cx i (Some g) key name s = (Inr r, s')"
  shows "role_refined cx g (CreateRole i key name) True s s'"
proof -
  let ?t = "tc_tenant_id (ag_tenant_context g)"
  let ?st = "\<lambda>cx'. seq (lift_result (display_name name)) (\<lambda>n. insert_role cx' i ?t key n)"
  have g: "ag_permission_id g = permission_value TENANT_ROLES_MANAGE"
    and "\<exists>row. tenant_transaction cx (Some (ag_tenant_context g)) (\<lambda>cx'. seq (ret ()) (\<lambda>_.
      attested_statement cx' g (role_event g ROLE_CREATED i None None) (?st cx') (\<lambda>_. True))) s = (Inr row, s')"
    using assms(3) by (auto simp: create_role_def pseq_plift require_grant_Inr pseq_eq_Inr pcatch_eq_Inr seq_ret_fun split: sum.splits)
  then obtain row where run: "tenant_transaction cx (Some (ag_tenant_context g)) (\<lambda>cx'. seq (ret ()) (\<lambda>_.
      attested_statement cx' g (role_event g ROLE_CREATED i None None) (?st cx') (\<lambda>_. True))) s = (Inr row, s')" by blast
  from attested_transaction [OF assms(1) run _ _ attested_insert_role]
  have "row = fresh_role ?t i key name" "\<forall>r \<in> set (fst (rbac_of s)). ro_id r \<noteq> i \<and> (ro_tenant_id r = ?t \<longrightarrow> ro_key r \<noteq> key)"
    and com: "role_committed cx g ROLE_CREATED i None None True (fst (rbac_of s) @ [row], snd (rbac_of s)) s s'"
    by (auto simp: role_event_types_def)
  with view_created [OF this(2) assms(2) refl, of name] g show ?thesis
    by (simp add: role_refined_def committed_rbac [OF com])
qed

lemma versioned_update_Inr:
  assumes "db_intents s = []" "rbac_ok (rbac_of s)" "versioned_update cx g event i guard change s = (Inr r, s')"
    and "event \<in> set role_event_types"
    and keeps: "\<And>f old. change = Inr f \<Longrightarrow> ro_id (f old) = ro_id old \<and> ro_tenant_id (f old) = ro_tenant_id old \<and> ro_key (f old) = ro_key old"
    and t_def: "t = tc_tenant_id (ag_tenant_context g)"
  shows "\<exists>f old new. change = Inr f \<and> tv_roles (tenant_view t (rbac_of s)) i = Some old \<and> guard old \<and>
    new = (f old)\<lparr>ro_version := ro_version old + 1\<rparr> \<and>
    tenant_view t (rbac_of s') = (tenant_view t (rbac_of s))\<lparr>tv_roles := (tv_roles (tenant_view t (rbac_of s)))(i \<mapsto> new)\<rparr> \<and>
    (\<forall>t'. t' \<noteq> t \<longrightarrow> tenant_view t' (rbac_of s') = tenant_view t' (rbac_of s)) \<and> rbac_ok (rbac_of s') \<and>
    role_committed cx g event i None None True (rbac_of s') s s'"
proof -
  let ?st = "\<lambda>cx'. seq (lift_result change) (\<lambda>f. seq (update_role_row cx' i guard f) (\<lambda>row.
       case row of None \<Rightarrow> raise_missing_or_stale cx' i | Some r \<Rightarrow> ret r))"
  obtain row where run: "tenant_transaction cx (Some (ag_tenant_context g)) (\<lambda>cx'. seq (ret ()) (\<lambda>_.
      attested_statement cx' g (role_event g event i None None) (?st cx') (\<lambda>_. True))) s = (Inr row, s')"
    using assms(3) by (auto simp: versioned_update_def pseq_eq_Inr seq_ret_fun)
  have cx: "cx_tenant (bound_conn cx (ag_tenant_context g)) = Some t" by (simp add: t_def)
  from attested_transaction [OF assms(1) run _ assms(4) attested_update_role [OF cx]]
  obtain f old where old: "change = Inr f" "role_of t i (fst (rbac_of s)) = Some old" "guard old" "row = (f old)\<lparr>ro_version := ro_version old + 1\<rparr>"
    and com: "role_committed cx g event i None None True
      (update_where (\<lambda>r. ro_id r = i) (\<lambda>_. row) (fst (rbac_of s)), snd (rbac_of s)) s s'"
    by auto
  have new: "ro_id row = i" "ro_tenant_id row = t" "ro_key row = ro_key old"
    using keeps [OF old(1), of old] old(4) role_of_Some [OF old(2)] by simp_all
  note v = view_updated [OF old(2) assms(2) new refl]
  have tv: "tv_roles (tenant_view t (rbac_of s)) i = Some old" using old(2) by (simp add: tenant_view_def)
  show ?thesis
    by (intro exI [of _ f] exI [of _ old] exI [of _ row]) (use old tv v com in \<open>simp add: committed_rbac [OF com]\<close>)
qed

lemma update_refined:
  assumes "db_intents s = []" "rbac_ok (rbac_of s)" "update_role cx (Some g) i expected name s = (Inr r, s')"
  shows "role_refined cx g (UpdateRole i expected name) True s s'"
proof -
  have g: "ag_permission_id g = permission_value TENANT_ROLES_MANAGE"
    and run: "versioned_update cx g ROLE_UPDATED i (\<lambda>r. ro_version r = expected)
       (and_then (display_name name) (\<lambda>n. Inr (\<lambda>r. r\<lparr>ro_display_name := n\<rparr>))) s = (Inr r, s')"
    using assms(3) by (auto simp: update_role_def pseq_plift require_grant_Inr split: sum.splits)
  have name: "f = (\<lambda>r. r\<lparr>ro_display_name := name\<rparr>)" if "and_then (display_name name) (\<lambda>n. Inr (\<lambda>r. r\<lparr>ro_display_name := n\<rparr>)) = Inr f" for f
    using that by (auto simp: and_then_eq_Inr display_name_def split: if_splits)
  have "ROLE_UPDATED \<in> set role_event_types" by (simp add: role_event_types_def)
  from versioned_update_Inr [OF assms(1,2) run this _ refl] name obtain f old new where
    "and_then (display_name name) (\<lambda>n. Inr (\<lambda>r. r\<lparr>ro_display_name := n\<rparr>)) = Inr f" and
    v: "tv_roles (tenant_view (tc_tenant_id (ag_tenant_context g)) (rbac_of s)) i = Some old" "ro_version old = expected"
      "new = (f old)\<lparr>ro_version := ro_version old + 1\<rparr>"
      "tenant_view (tc_tenant_id (ag_tenant_context g)) (rbac_of s') = (tenant_view (tc_tenant_id (ag_tenant_context g)) (rbac_of s))
        \<lparr>tv_roles := (tv_roles (tenant_view (tc_tenant_id (ag_tenant_context g)) (rbac_of s)))(i \<mapsto> new)\<rparr>"
      "\<forall>t'. t' \<noteq> tc_tenant_id (ag_tenant_context g) \<longrightarrow> tenant_view t' (rbac_of s') = tenant_view t' (rbac_of s)"
      "rbac_ok (rbac_of s')" "role_committed cx g ROLE_UPDATED i None None True (rbac_of s') s s'" by fastforce
  with name [OF this(1)] g show ?thesis by (simp add: role_refined_def)
qed

lemma disable_refined:
  assumes "db_intents s = []" "rbac_ok (rbac_of s)" "disable_role cx (Some g) i expected s = (Inr r, s')"
  shows "role_refined cx g (DisableRole i expected) True s s'"
proof -
  have g: "ag_permission_id g = permission_value TENANT_ROLES_MANAGE"
    and run: "versioned_update cx g ROLE_DISABLED i (\<lambda>r. ro_version r = expected \<and> ro_status r = RoleActive)
       (Inr (\<lambda>r. r\<lparr>ro_status := RoleInactive\<rparr>)) s = (Inr r, s')"
    using assms(3) by (auto simp: disable_role_def pseq_plift require_grant_Inr split: sum.splits)
  have "ROLE_DISABLED \<in> set role_event_types" by (simp add: role_event_types_def)
  from versioned_update_Inr [OF assms(1,2) run this _ refl] obtain old new where
    v: "tv_roles (tenant_view (tc_tenant_id (ag_tenant_context g)) (rbac_of s)) i = Some old" "ro_version old = expected"
      "ro_status old = RoleActive" "new = old\<lparr>ro_status := RoleInactive, ro_version := ro_version old + 1\<rparr>"
      "tenant_view (tc_tenant_id (ag_tenant_context g)) (rbac_of s') = (tenant_view (tc_tenant_id (ag_tenant_context g)) (rbac_of s))
        \<lparr>tv_roles := (tv_roles (tenant_view (tc_tenant_id (ag_tenant_context g)) (rbac_of s)))(i \<mapsto> new)\<rparr>"
      "\<forall>t'. t' \<noteq> tc_tenant_id (ag_tenant_context g) \<longrightarrow> tenant_view t' (rbac_of s') = tenant_view t' (rbac_of s)"
      "rbac_ok (rbac_of s')" "role_committed cx g ROLE_DISABLED i None None True (rbac_of s') s s'" by fastforce
  with g show ?thesis by (simp add: role_refined_def)
qed

lemma assign_permission_refined:
  assumes "db_intents s = []" "rbac_ok (rbac_of s)" "assign_permission cx (Some g) i p s = (Inr c, s')"
  shows "role_refined cx g (AssignPermission i p) c s s'"
proof -
  let ?t = "tc_tenant_id (ag_tenant_context g)" and ?cx = "bound_conn cx (ag_tenant_context g)"
  let ?row = "\<lparr>rp_tenant_id = ?t, rp_role_id = i, rp_permission_id = permission_value p\<rparr>"
  have cx: "cx_tenant ?cx = Some ?t" by simp
  have g: "ag_permission_id g = permission_value TENANT_ROLES_MANAGE"
    and run: "tenant_transaction cx (Some (ag_tenant_context g)) (\<lambda>cx'. seq (require_active_role cx' i) (\<lambda>_.
      attested_statement cx' g (role_event g ROLE_PERMISSION_ASSIGNED i (Some (permission_value p)) None)
        (insert_role_permission cx' ?row) (\<lambda>c. c))) s = (Inr c, s')"
    using assms(3) by (auto simp: assign_permission_def pseq_plift require_grant_Inr split: sum.splits dest!: tenant_permission_Inr)
  from attested_transaction [OF assms(1) run _ _ attested_insert_permission]
  have ok: "is_ok (require_active_role ?cx i s)" "c \<longleftrightarrow> ?row \<notin> set (fst (snd (rbac_of s)))"
    and com: "role_committed cx g ROLE_PERMISSION_ASSIGNED i (Some (permission_value p)) None c
      (if c then (fst (rbac_of s), fst (snd (rbac_of s)) @ [?row], snd (snd (rbac_of s))) else rbac_of s) s s'"
    by (auto simp: role_event_types_def require_active_role_Inr [OF cx])
  obtain r where r: "tv_roles (tenant_view ?t (rbac_of s)) i = Some r" "ro_status r = RoleActive"
    using ok(1) by (auto simp: is_ok_iff require_active_role_Inr [OF cx] tenant_view_def rbac_of_def)
  show ?thesis
    using r g ok(2) com committed_rbac [OF com] assms(2) view_permissions [where b = "rbac_of s" and i = i and p = "permission_value p" and t = ?t]
    by (cases c) (auto simp: role_refined_def rbac_ok_def insert_absorb)
qed

lemma remove_permission_refined:
  assumes "db_intents s = []" "rbac_ok (rbac_of s)" "remove_permission cx (Some g) i p s = (Inr c, s')"
  shows "role_refined cx g (RemovePermission i p) c s s'"
proof -
  let ?t = "tc_tenant_id (ag_tenant_context g)" and ?cx = "bound_conn cx (ag_tenant_context g)"
  let ?row = "\<lparr>rp_tenant_id = ?t, rp_role_id = i, rp_permission_id = permission_value p\<rparr>"
  have cx: "cx_tenant ?cx = Some ?t" by simp
  have g: "ag_permission_id g = permission_value TENANT_ROLES_MANAGE"
    and run: "tenant_transaction cx (Some (ag_tenant_context g)) (\<lambda>cx'. seq (require_role cx' i) (\<lambda>_.
      attested_statement cx' g (role_event g ROLE_PERMISSION_REMOVED i (Some (permission_value p)) None)
        (delete_role_permission cx' i (permission_value p)) (\<lambda>c. c))) s = (Inr c, s')"
    using assms(3) by (auto simp: remove_permission_def pseq_plift require_grant_Inr split: sum.splits dest!: tenant_permission_Inr)
  from attested_transaction [OF assms(1) run _ _ attested_delete_permission [OF cx refl]]
  have ok: "is_ok (require_role ?cx i s)" "c \<longleftrightarrow> ?row \<in> set (fst (snd (rbac_of s)))"
    and com: "role_committed cx g ROLE_PERMISSION_REMOVED i (Some (permission_value p)) None c
      (if c then (fst (rbac_of s), delete_where (\<lambda>x. x = ?row) (fst (snd (rbac_of s))), snd (snd (rbac_of s))) else rbac_of s) s s'"
    by (auto simp: role_event_types_def require_role_Inr [OF cx])
  obtain r where r: "tv_roles (tenant_view ?t (rbac_of s)) i = Some r"
    using ok(1) by (auto simp: is_ok_iff require_role_Inr [OF cx] tenant_view_def rbac_of_def)
  show ?thesis
    using r g ok(2) com committed_rbac [OF com] assms(2) view_permissions [where b = "rbac_of s" and i = i and p = "permission_value p" and t = ?t]
    by (cases c) (auto simp: role_refined_def rbac_ok_def)
qed

lemma assign_role_refined:
  assumes "db_intents s = []" "rbac_ok (rbac_of s)" "assign_role cx (Some g) m i s = (Inr c, s')"
  shows "role_refined cx g (AssignRole m i) c s s'"
proof -
  let ?t = "tc_tenant_id (ag_tenant_context g)" and ?cx = "bound_conn cx (ag_tenant_context g)"
  let ?row = "\<lparr>mr_tenant_id = ?t, mr_membership_id = m, mr_role_id = i\<rparr>"
  let ?pre = "\<lambda>cx'. seq (require_active_role cx' i) (\<lambda>_. require_active_membership g m)"
  have cx: "cx_tenant ?cx = Some ?t" by simp
  have g: "ag_permission_id g = permission_value TENANT_MEMBERSHIPS_MANAGE"
    and run: "tenant_transaction cx (Some (ag_tenant_context g)) (\<lambda>cx'. seq (?pre cx') (\<lambda>_.
      attested_statement cx' g (role_event g MEMBERSHIP_ROLE_ASSIGNED i None (Some m))
        (insert_membership_role cx' ?row) (\<lambda>c. c))) s = (Inr c, s')"
    using assms(3) by (auto simp: assign_role_def pseq_plift require_grant_Inr seq_assoc [abs_def] split: sum.splits)
  from attested_transaction [OF assms(1) run _ _ attested_insert_membership_role]
  have ok: "is_ok (?pre ?cx s)" "c \<longleftrightarrow> ?row \<notin> set (snd (snd (rbac_of s)))"
    and com: "role_committed cx g MEMBERSHIP_ROLE_ASSIGNED i None (Some m) c
      (if c then (fst (rbac_of s), fst (snd (rbac_of s)), snd (snd (rbac_of s)) @ [?row]) else rbac_of s) s s'"
    by (auto simp: role_event_types_def require_active_role_Inr [OF cx] require_active_membership_Inr seq_eq_Inr)
  obtain r where r: "tv_roles (tenant_view ?t (rbac_of s)) i = Some r" "ro_status r = RoleActive"
    using ok(1) by (auto simp: is_ok_iff seq_eq_Inr require_active_role_Inr [OF cx] tenant_view_def rbac_of_def)
  show ?thesis
    using r g ok(2) com committed_rbac [OF com] assms(2) view_members [where b = "rbac_of s" and i = i and m = m and t = ?t]
    by (cases c) (auto simp: role_refined_def rbac_ok_def insert_absorb)
qed

lemma remove_role_refined:
  assumes "db_intents s = []" "rbac_ok (rbac_of s)" "remove_role cx (Some g) m i s = (Inr c, s')"
  shows "role_refined cx g (RemoveRole m i) c s s'"
proof -
  let ?t = "tc_tenant_id (ag_tenant_context g)" and ?cx = "bound_conn cx (ag_tenant_context g)"
  let ?row = "\<lparr>mr_tenant_id = ?t, mr_membership_id = m, mr_role_id = i\<rparr>"
  let ?pre = "\<lambda>cx'. seq (require_role cx' i) (\<lambda>_. require_active_membership g m)"
  have cx: "cx_tenant ?cx = Some ?t" by simp
  have g: "ag_permission_id g = permission_value TENANT_MEMBERSHIPS_MANAGE"
    and run: "tenant_transaction cx (Some (ag_tenant_context g)) (\<lambda>cx'. seq (?pre cx') (\<lambda>_.
      attested_statement cx' g (role_event g MEMBERSHIP_ROLE_REMOVED i None (Some m))
        (delete_membership_role cx' m i) (\<lambda>c. c))) s = (Inr c, s')"
    using assms(3) by (auto simp: remove_role_def pseq_plift require_grant_Inr seq_assoc [abs_def] split: sum.splits)
  from attested_transaction [OF assms(1) run _ _ attested_delete_membership_role [OF cx refl]]
  have ok: "is_ok (?pre ?cx s)" "c \<longleftrightarrow> ?row \<in> set (snd (snd (rbac_of s)))"
    and com: "role_committed cx g MEMBERSHIP_ROLE_REMOVED i None (Some m) c
      (if c then (fst (rbac_of s), fst (snd (rbac_of s)), delete_where (\<lambda>x. x = ?row) (snd (snd (rbac_of s)))) else rbac_of s) s s'"
    by (auto simp: role_event_types_def require_role_Inr [OF cx] require_active_membership_Inr seq_eq_Inr)
  obtain r where r: "tv_roles (tenant_view ?t (rbac_of s)) i = Some r"
    using ok(1) by (auto simp: is_ok_iff seq_eq_Inr require_role_Inr [OF cx] tenant_view_def rbac_of_def)
  show ?thesis
    using r g ok(2) com committed_rbac [OF com] assms(2) view_members [where b = "rbac_of s" and i = i and m = m and t = ?t]
    by (cases c) (auto simp: role_refined_def rbac_ok_def)
qed

lemmas role_refinements = create_refined update_refined disable_refined assign_permission_refined
  remove_permission_refined assign_role_refined remove_role_refined

text \<open>Every operation is one transaction: a failure leaves the database as it was.\<close>

lemma tenant_transaction_Inl: "tenant_transaction cx c body s = (Inl e, s') \<Longrightarrow> s' = s"
  by (auto simp: tenant_transaction_def pseq_plift transact_eq_Inl split: sum.splits)

lemma pseq_eq_Inl: "pseq p f s = (Inl e, t) \<longleftrightarrow> p s = (Inl e, t) \<or> (\<exists>x s'. p s = (Inr x, s') \<and> f x s' = (Inl e, t))"
  by (cases "p s"; cases "fst (p s)") (auto simp: pseq_def)

lemma pcatch_pfail_Inl: "pcatch p (\<lambda>e. pfail (h e)) s = (Inl e, t) \<Longrightarrow> \<exists>e'. p s = (Inl e', t)"
  by (cases "p s"; cases "fst (p s)") (auto simp: pcatch_def)

lemma role_operation_rolled_back:
  assumes "run_role_operation cx grant op s = (Inl e, s')"
  shows "s' = s"
  using assms
  by (cases op)
    (auto simp: pseq_eq_Inl create_role_def update_role_def disable_role_def versioned_update_def assign_permission_def
      remove_permission_def assign_role_def remove_role_def split: sum.splits dest!: pcatch_pfail_Inl tenant_transaction_Inl)

text \<open>C8. Role administration refines its specification. A failed operation leaves the database unchanged. A
  successful one needed a grant of exactly the permission the operation asks for and an actor whose session, user,
  membership and tenant were live inside the transaction; it takes the tenant's view of roles, permissions and
  assignments by the abstract step, with the expected version for changes of a role, leaves every other tenant's view
  alone, and commits exactly one event naming actor, role and change if something changed, none if not.\<close>

theorem role_administration_refines:
  assumes "db_intents s = []" "rbac_ok (rbac_of s)" "run_role_operation cx (Some g) op s = (res, s')"
  shows "case res of Inl e \<Rightarrow> s' = s | Inr changed \<Rightarrow> role_refined cx g op changed s s'"
proof (cases res)
  case (Inl e)
  with role_operation_rolled_back assms(3) show ?thesis by simp
next
  case (Inr c)
  with assms show ?thesis
    by (cases op) (auto simp: pseq_eq_Inr intro: role_refinements [OF assms(1,2)])
qed

definition sample_grant :: authorization_grant where
  "sample_grant = \<lparr>ag_principal = sample_principal, ag_tenant_context = sample_context,
     ag_permission_id = permission_value TENANT_ROLES_MANAGE\<rparr>"

definition disable_event :: audit_event where
  "disable_event = \<lparr>ae_event_type = ROLE_DISABLED, ae_result = R_SUCCESS, ae_reason_code = None, ae_user_id = Some 5,
    ae_session_id = Some 40, ae_membership_id = Some 6, ae_role_id = Some 7, ae_target_membership_id = None,
    ae_permission_id = None, ae_subject_digest = None, ae_subject_kind = None, ae_subject_key_id = None, ae_affected_count = None\<rparr>"

lemma disable_event_ok: "role_event sample_grant ROLE_DISABLED 7 None None = Inr disable_event" "event_ok disable_event"
proof -
  let ?a = "(no_event_args ROLE_DISABLED R_SUCCESS)\<lparr>ea_user_id := Proper 5, ea_session_id := Proper 40, ea_membership_id := Proper 6, ea_role_id := Proper 7\<rparr>"
  have v: "validate_event ?a" by (simp add: actor_event_defs)
  then show "role_event sample_grant ROLE_DISABLED 7 None None = Inr disable_event"
    by (simp add: role_event_def SecurityAuditEvent_def no_event_args_def of_option_def sample_grant_def sample_principal_def disable_event_def)
  have "args_of disable_event = ?a" by (simp add: args_of_def disable_event_def no_event_args_def of_option_def)
  with v show "event_ok disable_event" by (simp add: event_ok_def)
qed

definition disable_intent :: "bool \<Rightarrow> intent_row" where
  "disable_intent attested = \<lparr>in_transaction_id = 1, in_event_id = sample_id 3, in_event_type = lit ''role_disabled'', in_user_id = 5,
     in_session_id = 40, in_membership_id = 6, in_tenant_id = sample_id 1, in_role_id = 7, in_target_membership_id = None,
     in_permission_id = None, in_correlation_id = sample_id 2, in_attested = attested\<rparr>"

abbreviation "sample_cx \<equiv> bound_conn sample_conn sample_context"
abbreviation "disable_writer \<equiv> \<lparr>sw_correlation = sample_id 2, sw_role_intent = None\<rparr>"

lemma sample_selected_fields [simp]:
  "sr_id sample_selected = 40" "sr_user_id sample_selected = 5" "sr_revoked_at sample_selected = None"
  "sr_selected_membership_id sample_selected = Some 6" "sr_selected_membership_version sample_selected = Some 1"
  "sr_security_version sample_selected = 1" "2000 < sr_idle_expires_at sample_selected" "2000 < sr_absolute_expires_at sample_selected"
  by (simp_all add: sample_selected_def sample_session_def new_record_def session_constants)

lemma sample_cx_fields [simp]:
  "cx_txid sample_cx = 1" "tc_tenant_id sample_context = sample_id 1" "cx_correlation sample_cx = None" "cx_tenant_transaction sample_cx"
  by (simp_all add: bound_conn_def sample_conn_def plain_conn_def sample_context_def)

lemma disable_prepared:
  "writer_prepare_role sample_cx disable_writer disable_event 1 (sample_role_db\<lparr>db_drawn := 3\<rparr>) =
     Inr (disable_writer\<lparr>sw_role_intent := Some (disable_event, sample_id 3)\<rparr>,
       sample_role_db\<lparr>db_drawn := 4, db_intents := [disable_intent False]\<rparr>)"
proof -
  have "is_role_event disable_event" by (simp add: is_role_event_def disable_event_def role_event_types_def)
  moreover have "intent_arguments_ok (lit ''role_disabled'') None None"
    by (simp add: intent_arguments_ok_def role_event_values_def role_event_types_def lit_def)
  moreover have "live_actor sample_cx (sample_role_db\<lparr>db_drawn := 4\<rparr>) 5 40 6 1 = Some (sample_id 1)"
    by (simp add: live_actor_def sample_role_db_def sample_tenant_db_def sample_db_def user_by_id_def membership_by_id_def
        tenant_active_def tenant_by_id_def)
  ultimately show ?thesis
    using disable_event_ok(2)
    by (simp add: writer_prepare_role_def seq_require require_transaction_def draw_id_def seq_def require_def guard_sql_def
        prepare_role_security_event_def disable_event_def int4_ok_def int4_max_def exists_row_def disable_intent_def
        sample_role_db_def sample_tenant_db_def sample_db_def)
qed

definition disabled_role :: role_row where
  "disabled_role = \<lparr>ro_id = 7, ro_tenant_id = sample_id 1, ro_key = lit ''admin'', ro_display_name = lit ''Admin'',
     ro_status = RoleInactive, ro_version = 2\<rparr>"

definition disabled_db :: db where
  "disabled_db = sample_role_db\<lparr>db_drawn := 4, db_roles := [disabled_role]\<rparr>"

lemma disable_statement:
  "seq (lift_result (Inr (\<lambda>r. r\<lparr>ro_status := RoleInactive\<rparr>))) (\<lambda>f. seq (update_role_row sample_cx 7
       (\<lambda>r. ro_version r = 1 \<and> ro_status r = RoleActive) f) (\<lambda>row.
       case row of None \<Rightarrow> raise_missing_or_stale sample_cx 7 | Some r \<Rightarrow> ret r))
     (sample_role_db\<lparr>db_drawn := 4, db_intents := [disable_intent False]\<rparr>) =
   Inr (disabled_role, disabled_db\<lparr>db_intents := [disable_intent True]\<rparr>)"
  by (simp add: seq_lift seq_assoc update_role_row_def visible_role_def visible_def sample_role_db_def Let_def seq_require
      int4_ok_def int4_max_def update_where_def seq_ret_fun attest_role_security_change_def disable_intent_def
      disabled_role_def disabled_db_def)

lemma disable_written:
  "\<exists>w s'. writer_write sample_cx (disable_writer\<lparr>sw_role_intent := Some (disable_event, sample_id 3)\<rparr>) disable_event
     (disabled_db\<lparr>db_intents := [disable_intent True]\<rparr>) = Inr (w, s') \<and> db_intents s' = [] \<and> rbac_of s' = rbac_of disabled_db"
proof -
  let ?r = "event_to_row disable_event (sample_id 3) (sample_id 2) 0" and ?s = "disabled_db\<lparr>db_intents := [disable_intent True]\<rparr>"
  have role: "is_role_event disable_event" by (simp add: is_role_event_def disable_event_def role_event_types_def)
  have "check_uuid_text (sample_id 2)" using ids_text [of sample_db 2] sample_db_ok by (simp add: db_ok_def sample_db_def)
  then have shape: "row_casts_ok ?r" "audit_shape snapshot_lists ?r"
    using validation_iff_checks [of disable_event "sample_id 3" "sample_id 2" 0] disable_event_ok(2) sample_id_version by simp_all
  have intent: "same_intent sample_cx ?r (disable_intent True)"
    by (simp add: same_intent_def event_to_row_def disable_event_def disable_intent_def)
  have links: "links_exist (?s\<lparr>db_intents := []\<rparr>) ?r"
    by (simp add: links_exist_def event_to_row_def disable_event_def disabled_db_def sample_role_db_def sample_tenant_db_def
        sample_db_def user_by_id_def membership_by_id_def)
  have prune: "prune_guard sample_cx ?r" by (simp add: prune_guard_def event_to_row_def disable_event_def lit_def)
  have "append_security_event sample_cx ?r ?s =
      Inr ((), ?s\<lparr>db_intents := [], db_events := db_events ?s @ [?r\<lparr>er_created_at := db_clock ?s\<rparr>]\<rparr>)"
    using shape intent links prune
    by (simp add: append_security_event_def validate_security_event_insert_def seq_require seq_assoc exists_row_def delete_where_def
        disabled_db_def sample_role_db_def sample_tenant_db_def sample_db_def)
      (simp add: event_to_row_def disable_event_def seq_require require_def)
  with role disable_event_ok(2) show ?thesis
    by (simp add: writer_write_def seq_require require_transaction_def guard_sql_def seq_Inr)
      (simp add: disable_event_def)
qed

lemma attested_statement_run:
  assumes "new_writer cx s = Inr (w, s1)" "writer_prepare_role cx w e (pr_membership_version (ag_principal g)) s1 = Inr (w2, s2)"
    and "st s2 = Inr (x, s3)" "changed x" "writer_write cx w2 e s3 = Inr (w3, s')"
  shows "attested_statement cx g (Inr e) st changed s = Inr (x, s')"
  using assms by (simp add: attested_statement_def seq_lift seq_Inr)

theorem role_administration_refines_witness:
  "\<exists>s'. run_role_operation sample_conn (Some sample_grant) (DisableRole 7 1) sample_role_db = (Inr True, s') \<and>
     tv_roles (tenant_view (sample_id 1) (rbac_of s')) 7 = Some disabled_role"
proof -
  obtain w s' where wr: "writer_write sample_cx (disable_writer\<lparr>sw_role_intent := Some (disable_event, sample_id 3)\<rparr>) disable_event
     (disabled_db\<lparr>db_intents := [disable_intent True]\<rparr>) = Inr (w, s')" "db_intents s' = []" "rbac_of s' = rbac_of disabled_db"
    using disable_written by blast
  have new: "new_writer sample_cx sample_role_db = Inr (disable_writer, sample_role_db\<lparr>db_drawn := 3\<rparr>)"
    by (simp add: new_writer_def draw_id_def seq_def sample_role_db_def sample_tenant_db_def sample_db_def)
  have ctx: "ag_tenant_context sample_grant = sample_context" "pr_membership_version (ag_principal sample_grant) = 1"
    by (simp_all add: sample_grant_def sample_principal_def)
  have st: "attested_statement sample_cx sample_grant (role_event sample_grant ROLE_DISABLED 7 None None)
      (seq (lift_result (Inr (\<lambda>r. r\<lparr>ro_status := RoleInactive\<rparr>))) (\<lambda>f. seq (update_role_row sample_cx 7
       (\<lambda>r. ro_version r = 1 \<and> ro_status r = RoleActive) f) (\<lambda>row.
       case row of None \<Rightarrow> raise_missing_or_stale sample_cx 7 | Some r \<Rightarrow> ret r))) (\<lambda>_. True) sample_role_db = Inr (disabled_role, s')"
    unfolding disable_event_ok(1)
    by (rule attested_statement_run [where cx = sample_cx and g = sample_grant, OF new])
      (use disable_prepared disable_statement wr(1) ctx in \<open>simp_all only: TrueI\<close>)
  have "PermissionId (PStr (permission_value TENANT_ROLES_MANAGE)) = Inr (permission_value TENANT_ROLES_MANAGE)" by code_simp
  then have "require_grant (Some sample_grant) TENANT_ROLES_MANAGE = Inr sample_grant"
    by (simp add: require_grant_Inr sample_grant_def)
  then have run: "run_role_operation sample_conn (Some sample_grant) (DisableRole 7 1) sample_role_db = (Inr True, s')"
    using st consumed_clean [OF wr(2), of sample_cx]
    by (simp add: disable_role_def pseq_plift versioned_update_def tenant_transaction_def ctx require_context_def
        validate_tenant_id_def sample_id_version transact_def seq_Inr pseq_def)
  have i: "db_intents sample_role_db = []" by (simp add: sample_role_db_def sample_tenant_db_def sample_db_def)
  have ok: "rbac_ok (rbac_of sample_role_db)" by (simp add: rbac_ok_def rbac_of_def sample_role_db_def unique_on_def)
  from role_administration_refines [OF i ok run] have "role_refined sample_conn sample_grant (DisableRole 7 1) True sample_role_db s'" by simp
  then have "tv_roles (tenant_view (sample_id 1) (rbac_of s')) 7 = Some disabled_role"
    using wr(3) by (simp add: tenant_view_def role_of_def rbac_of_def disabled_db_def disabled_role_def)
  with run show ?thesis by blast
qed

end
