(* ===== verification/UiSettings.thy ===== *)
theory UiSettings
  imports RoleAdmin
begin

text \<open>
  \<open>ui_settings/contracts.py\<close>, \<open>db/ui_settings_repository.py\<close>, \<open>ui_settings/service.py\<close> and the routes: layered
  presentation settings with optimistic versions. A JSON object with string values is an association list; jsonb
  does not keep the order of keys and nothing reads it.
\<close>

section \<open>The vocabulary\<close>

definition ThemeId :: "pystr list" where
  "ThemeId = [lit ''teal-calm'', lit ''green-institutional'', lit ''navy-institutional'', lit ''slate-neutral'', lit ''sand-warm'']"

definition ButtonPresetId :: "pystr list" where
  "ButtonPresetId = [lit ''institutional-standard'', lit ''compact-sharp'', lit ''soft-rounded'', lit ''outlined-calm'', lit ''balanced-roomy'']"

definition AlertPresetId :: "pystr list" where
  "AlertPresetId = [lit ''tinted-standard'', lit ''solid-emphatic'', lit ''minimal-inline'', lit ''dense-compact'', lit ''bordered-quiet'']"

definition OverlayPresetId :: "pystr list" where
  "OverlayPresetId = [lit ''institutional-standard'', lit ''soft-elevated'', lit ''flat-bordered'', lit ''dim-focused'', lit ''compact-dense'']"

definition TablePresetId :: "pystr list" where
  "TablePresetId = [lit ''institutional-standard'', lit ''zebra-scan'', lit ''full-grid'', lit ''compact-rows'', lit ''airy-report'']"

definition PrintPresetId :: "pystr list" where
  "PrintPresetId = [lit ''institutional-standard'', lit ''ink-saving'', lit ''high-contrast-print'', lit ''formal-letterhead'', lit ''dense-archive'']"

datatype ui_setting_key = THEME | BUTTON_PRESET | ALERT_PRESET | OVERLAY_PRESET | TABLE_PRESET | PRINT_PRESET

fun ui_key_value :: "ui_setting_key \<Rightarrow> pystr" where
  "ui_key_value THEME = lit ''theme''"
| "ui_key_value BUTTON_PRESET = lit ''buttonPreset''"
| "ui_key_value ALERT_PRESET = lit ''alertPreset''"
| "ui_key_value OVERLAY_PRESET = lit ''overlayPreset''"
| "ui_key_value TABLE_PRESET = lit ''tablePreset''"
| "ui_key_value PRINT_PRESET = lit ''printPreset''"

definition all_ui_keys :: "ui_setting_key list" where
  "all_ui_keys = [THEME, BUTTON_PRESET, ALERT_PRESET, OVERLAY_PRESET, TABLE_PRESET, PRINT_PRESET]"

fun SETTING_VALUES :: "ui_setting_key \<Rightarrow> pystr list" where
  "SETTING_VALUES THEME = ThemeId"
| "SETTING_VALUES BUTTON_PRESET = ButtonPresetId"
| "SETTING_VALUES ALERT_PRESET = AlertPresetId"
| "SETTING_VALUES OVERLAY_PRESET = OverlayPresetId"
| "SETTING_VALUES TABLE_PRESET = TablePresetId"
| "SETTING_VALUES PRINT_PRESET = PrintPresetId"

type_synonym ui_patch = "(ui_setting_key \<times> pystr) list"

text \<open>\<open>UiSettingKey(text)\<close>\<close>

definition ui_key_of :: "pystr \<Rightarrow> ui_setting_key option" where
  "ui_key_of text = find (\<lambda>k. ui_key_value k = text) all_ui_keys"

definition validate_values :: "ui_patch \<Rightarrow> exn + ui_patch" where
  "validate_values root = (if list_all (\<lambda>(k, v). v \<in> set (SETTING_VALUES k)) root then Inr root else Inl ValueExn)"

text \<open>\<open>UiSettingsPatch.model_validate\<close>: the keys become enumeration members, then the validator runs.\<close>

fun parse_keys :: "ui_object \<Rightarrow> exn + ui_patch" where
  "parse_keys [] = Inr []"
| "parse_keys ((text, v) # rest) =
     (case ui_key_of text of
        None \<Rightarrow> Inl ValueExn
      | Some k \<Rightarrow> and_then (parse_keys rest) (\<lambda>items. Inr ((k, v) # items)))"

definition UiSettingsPatch :: "ui_object \<Rightarrow> exn + ui_patch" where
  "UiSettingsPatch obj = and_then (parse_keys obj) validate_values"

definition as_json :: "ui_patch \<Rightarrow> ui_object" where
  "as_json root = map (\<lambda>(k, v). (ui_key_value k, v)) root"

record stored_ui_patch =
  su_settings :: ui_patch
  su_version :: int

definition require_self_user :: "uuid \<Rightarrow> uuid \<Rightarrow> exn + unit" where
  "require_self_user authenticated target = ensure (authenticated = target) ValueExn"

section \<open>The tables\<close>

text \<open>The CHECK constraints of the three tables, with the lists the migration writes out.\<close>

definition check_keys :: "ui_object \<Rightarrow> bool" where
  "check_keys obj \<longleftrightarrow> list_all (\<lambda>(k, _). k \<in> {lit ''theme'', lit ''buttonPreset'', lit ''alertPreset'', lit ''overlayPreset'',
     lit ''tablePreset'', lit ''printPreset''}) obj"

definition check_value :: "pystr \<Rightarrow> pystr set \<Rightarrow> ui_object \<Rightarrow> bool" where
  "check_value key allowed obj \<longleftrightarrow> list_all (\<lambda>(k, v). k = key \<longrightarrow> v \<in> allowed) obj"

definition settings_value_checks :: "ui_object \<Rightarrow> bool" where
  "settings_value_checks obj \<longleftrightarrow>
     check_value (lit ''theme'') {lit ''teal-calm'', lit ''green-institutional'', lit ''navy-institutional'', lit ''slate-neutral'', lit ''sand-warm''} obj \<and>
     check_value (lit ''buttonPreset'') {lit ''institutional-standard'', lit ''compact-sharp'', lit ''soft-rounded'', lit ''outlined-calm'', lit ''balanced-roomy''} obj \<and>
     check_value (lit ''alertPreset'') {lit ''tinted-standard'', lit ''solid-emphatic'', lit ''minimal-inline'', lit ''dense-compact'', lit ''bordered-quiet''} obj \<and>
     check_value (lit ''overlayPreset'') {lit ''institutional-standard'', lit ''soft-elevated'', lit ''flat-bordered'', lit ''dim-focused'', lit ''compact-dense''} obj \<and>
     check_value (lit ''tablePreset'') {lit ''institutional-standard'', lit ''zebra-scan'', lit ''full-grid'', lit ''compact-rows'', lit ''airy-report''} obj \<and>
     check_value (lit ''printPreset'') {lit ''institutional-standard'', lit ''ink-saving'', lit ''high-contrast-print'', lit ''formal-letterhead'', lit ''dense-archive''} obj"

definition check_ui_row :: "ui_row \<Rightarrow> bool" where
  "check_ui_row r \<longleftrightarrow> check_keys (ui_settings r) \<and> settings_value_checks (ui_settings r) \<and> 0 < ui_version r"

text \<open>
  The two tenant tables differ in their key. \<open>tenant_of\<close> is the tenant of a key, the policy of both tables; \<open>get\<close>
  and \<open>put\<close> read and write the table.
\<close>

record 'k ui_table =
  ut_tenant :: "'k \<Rightarrow> uuid"
  ut_get :: "db \<Rightarrow> ('k \<times> ui_row) list"
  ut_put :: "('k \<times> ui_row) list \<Rightarrow> db \<Rightarrow> db"
  ut_fk :: "db \<Rightarrow> 'k \<Rightarrow> bool"

definition tenant_ui_table :: "uuid ui_table" where
  "tenant_ui_table = \<lparr>ut_tenant = (\<lambda>t. t), ut_get = db_tenant_ui, ut_put = (\<lambda>rows s. s\<lparr>db_tenant_ui := rows\<rparr>),
     ut_fk = (\<lambda>s t. tenant_by_id s t \<noteq> None)\<rparr>"

definition user_ui_table :: "(uuid \<times> uuid) ui_table" where
  "user_ui_table = \<lparr>ut_tenant = fst, ut_get = db_user_ui, ut_put = (\<lambda>rows s. s\<lparr>db_user_ui := rows\<rparr>),
     ut_fk = (\<lambda>s (t, u). tenant_by_id s t \<noteq> None \<and> user_by_id s u \<noteq> None)\<rparr>"

definition ui_select :: "'k ui_table \<Rightarrow> conn \<Rightarrow> 'k \<Rightarrow> db \<Rightarrow> ui_row option" where
  "ui_select tb cx key s = map_option snd (find (\<lambda>(k, _). k = key) (visible cx (\<lambda>(k, _). ut_tenant tb k) (ut_get tb s)))"

text \<open>\<open>INSERT ... ON CONFLICT DO NOTHING RETURNING\<close>\<close>

definition ui_insert :: "'k ui_table \<Rightarrow> conn \<Rightarrow> 'k \<Rightarrow> ui_object \<Rightarrow> (exn, db, ui_row option) action" where
  "ui_insert tb cx key settings =
     (let row = \<lparr>ui_settings = settings, ui_version = 1\<rparr> in
      seq (require (cx_tenant cx = Some (ut_tenant tb key)) (SqlExn InsufficientPrivilege)) (\<lambda>_.
      seq (require (check_ui_row row) (SqlExn CheckViolation)) (\<lambda>_.
      seq (read_db (\<lambda>s. exists_row (\<lambda>(k, _). k = key) (ut_get tb s))) (\<lambda>taken.
      if taken then ret None
      else
        seq (read_db (\<lambda>s. ut_fk tb s key)) (\<lambda>fk.
        seq (require fk (SqlExn ForeignKeyViolation)) (\<lambda>_.
        seq (write_db (\<lambda>s. ut_put tb (ut_get tb s @ [(key, row)]) s)) (\<lambda>_.
        ret (Some row))))))))"

text \<open>\<open>UPDATE ... WHERE key AND version RETURNING\<close>\<close>

definition ui_update :: "'k ui_table \<Rightarrow> conn \<Rightarrow> 'k \<Rightarrow> int \<Rightarrow> ui_object \<Rightarrow> (exn, db, ui_row option) action" where
  "ui_update tb cx key expected settings =
     seq (read_db (ui_select tb cx key)) (\<lambda>found.
     case found of
       None \<Rightarrow> ret None
     | Some old \<Rightarrow>
         if ui_version old \<noteq> expected then ret None
         else
           let row = \<lparr>ui_settings = settings, ui_version = ui_version old + 1\<rparr> in
           seq (require (int4_ok (ui_version row)) (SqlExn NumericOutOfRange)) (\<lambda>_.
           seq (require (check_ui_row row) (SqlExn CheckViolation)) (\<lambda>_.
           seq (write_db (\<lambda>s. ut_put tb (update_where (\<lambda>(k, _). k = key) (\<lambda>(k, _). (k, row)) (ut_get tb s)) s)) (\<lambda>_.
           ret (Some row)))))"

definition ui_delete :: "'k ui_table \<Rightarrow> conn \<Rightarrow> 'k \<Rightarrow> int \<Rightarrow> (exn, db, bool) action" where
  "ui_delete tb cx key expected =
     seq (read_db (ui_select tb cx key)) (\<lambda>found.
     case found of
       None \<Rightarrow> ret False
     | Some old \<Rightarrow>
         if ui_version old \<noteq> expected then ret False
         else seq (write_db (\<lambda>s. ut_put tb (delete_where (\<lambda>(k, _). k = key) (ut_get tb s)) s)) (\<lambda>_. ret True))"

section \<open>The repository\<close>

definition ui_record :: "ui_row option \<Rightarrow> exn + stored_ui_patch option" where
  "ui_record row =
     (case row of
        None \<Rightarrow> Inr None
      | Some r \<Rightarrow> and_then (UiSettingsPatch (ui_settings r)) (\<lambda>p. Inr (Some \<lparr>su_settings = p, su_version = ui_version r\<rparr>)))"

definition read_platform :: "stored_ui_patch option proc" where
  "read_platform = pseq (transact (read_db db_platform_ui)) (\<lambda>row. plift (ui_record row))"

definition read_layer :: "'k ui_table \<Rightarrow> conn \<Rightarrow> tenant_context \<Rightarrow> 'k \<Rightarrow> stored_ui_patch option proc" where
  "read_layer tb cx context key =
     pseq (tenant_transaction cx (Some context) (\<lambda>cx'. read_db (ui_select tb cx' key))) (\<lambda>row. plift (ui_record row))"

definition read_tenant :: "conn \<Rightarrow> tenant_context \<Rightarrow> stored_ui_patch option proc" where
  "read_tenant cx context = read_layer tenant_ui_table cx context (tc_tenant_id context)"

definition read_user :: "conn \<Rightarrow> tenant_context \<Rightarrow> uuid \<Rightarrow> stored_ui_patch option proc" where
  "read_user cx context user_id = read_layer user_ui_table cx context (tc_tenant_id context, user_id)"

definition ui_put :: "'k ui_table \<Rightarrow> conn \<Rightarrow> 'k \<Rightarrow> ui_patch \<Rightarrow> int option \<Rightarrow> (exn, db, ui_row option) action" where
  "ui_put tb cx key patch expected_version =
     (case expected_version of
        None \<Rightarrow> ui_insert tb cx key (as_json patch)
      | Some v \<Rightarrow> ui_update tb cx key v (as_json patch))"

definition put_layer ::
  "'k ui_table \<Rightarrow> conn \<Rightarrow> tenant_context \<Rightarrow> 'k \<Rightarrow> ui_patch \<Rightarrow> int option \<Rightarrow> stored_ui_patch option proc" where
  "put_layer tb cx context key patch expected_version =
     pseq (tenant_transaction cx (Some context) (\<lambda>cx'. ui_put tb cx' key patch expected_version)) (\<lambda>row.
     plift (ui_record row))"

definition put_tenant :: "conn \<Rightarrow> tenant_context \<Rightarrow> ui_patch \<Rightarrow> int option \<Rightarrow> stored_ui_patch option proc" where
  "put_tenant cx context patch expected_version =
     put_layer tenant_ui_table cx context (tc_tenant_id context) patch expected_version"

definition put_user :: "conn \<Rightarrow> tenant_context \<Rightarrow> uuid \<Rightarrow> ui_patch \<Rightarrow> int option \<Rightarrow> stored_ui_patch option proc" where
  "put_user cx context user_id patch expected_version =
     put_layer user_ui_table cx context (tc_tenant_id context, user_id) patch expected_version"

definition delete_tenant :: "conn \<Rightarrow> tenant_context \<Rightarrow> int \<Rightarrow> bool proc" where
  "delete_tenant cx context expected_version =
     tenant_transaction cx (Some context) (\<lambda>cx'. ui_delete tenant_ui_table cx' (tc_tenant_id context) expected_version)"

definition delete_user :: "conn \<Rightarrow> tenant_context \<Rightarrow> uuid \<Rightarrow> int \<Rightarrow> bool proc" where
  "delete_user cx context user_id expected_version =
     tenant_transaction cx (Some context) (\<lambda>cx'. ui_delete user_ui_table cx' (tc_tenant_id context, user_id) expected_version)"

section \<open>The service\<close>

definition UiSettingsConflictError :: app_error_class where
  "UiSettingsConflictError = \<lparr>ec_code = lit ''conflict'', ec_status = 409,
     ec_message = lit ''UI settings changed; reload them before retrying.''\<rparr>"

definition UiSettingsNotFoundError :: app_error_class where
  "UiSettingsNotFoundError = \<lparr>ec_code = lit ''not_found'', ec_status = 404,
     ec_message = lit ''The requested UI settings layer was not found.''\<rparr>"

datatype ui_origin = FROM_USER | FROM_TENANT | FROM_PLATFORM | BUILT_IN

definition BUILT_IN_UI_SETTINGS :: ui_patch where
  "BUILT_IN_UI_SETTINGS = [(THEME, lit ''teal-calm''), (BUTTON_PRESET, lit ''institutional-standard''),
     (ALERT_PRESET, lit ''tinted-standard''), (OVERLAY_PRESET, lit ''institutional-standard''),
     (TABLE_PRESET, lit ''institutional-standard''), (PRINT_PRESET, lit ''institutional-standard'')]"

record effective_ui_settings =
  ef_settings :: "ui_setting_key \<Rightarrow> pystr option"
  ef_origins :: "ui_setting_key \<Rightarrow> ui_origin option"
  ef_platform_version :: "int option"
  ef_tenant_version :: "int option"
  ef_user_version :: "int option"

text \<open>The inner loop of \<open>resolve\<close>: both dictionaries are updated item by item.\<close>

fun apply_layer ::
  "ui_origin \<Rightarrow> ui_patch \<Rightarrow> (ui_setting_key \<Rightarrow> pystr option) \<times> (ui_setting_key \<Rightarrow> ui_origin option) \<Rightarrow>
   (ui_setting_key \<Rightarrow> pystr option) \<times> (ui_setting_key \<Rightarrow> ui_origin option)" where
  "apply_layer origin [] (values, origins) = (values, origins)"
| "apply_layer origin ((k, v) # items) (values, origins) =
     apply_layer origin items (values(k \<mapsto> v), origins(k \<mapsto> origin))"

definition apply_stored ::
  "ui_origin \<Rightarrow> stored_ui_patch option \<Rightarrow> (ui_setting_key \<Rightarrow> pystr option) \<times> (ui_setting_key \<Rightarrow> ui_origin option) \<Rightarrow>
   (ui_setting_key \<Rightarrow> pystr option) \<times> (ui_setting_key \<Rightarrow> ui_origin option)" where
  "apply_stored origin layer state = (case layer of None \<Rightarrow> state | Some p \<Rightarrow> apply_layer origin (su_settings p) state)"

definition effective :: "stored_ui_patch option \<Rightarrow> stored_ui_patch option \<Rightarrow> stored_ui_patch option \<Rightarrow> effective_ui_settings" where
  "effective platform tenant user =
     (let start = (map_of BUILT_IN_UI_SETTINGS, map_of (map (\<lambda>(k, _). (k, BUILT_IN)) BUILT_IN_UI_SETTINGS));
          (values, origins) = apply_stored FROM_USER user (apply_stored FROM_TENANT tenant (apply_stored FROM_PLATFORM platform start)) in
      \<lparr>ef_settings = values, ef_origins = origins, ef_platform_version = map_option su_version platform,
       ef_tenant_version = map_option su_version tenant, ef_user_version = map_option su_version user\<rparr>)"

text \<open>\<open>asyncio.gather\<close> runs the three reads in transactions of their own; other requests may commit between them.\<close>

definition ui_resolve :: "conn \<Rightarrow> (nat \<Rightarrow> db \<Rightarrow> db) \<Rightarrow> authorization_grant option \<Rightarrow> effective_ui_settings proc" where
  "ui_resolve cx meanwhile grant =
     pseq (plift (require_grant grant TENANT_USER_UI_SETTINGS_MANAGE_SELF)) (\<lambda>g.
     pseq read_platform (\<lambda>platform.
     pseq (others (meanwhile 0)) (\<lambda>_.
     pseq (read_tenant cx (ag_tenant_context g)) (\<lambda>tenant.
     pseq (others (meanwhile 1)) (\<lambda>_.
     pseq (read_user cx (ag_tenant_context g) (pr_user_id (ag_principal g))) (\<lambda>user.
     pret (effective platform tenant user)))))))"

definition ui_changed :: "stored_ui_patch option \<Rightarrow> exn + stored_ui_patch" where
  "ui_changed result = (case result of None \<Rightarrow> Inl (AppExn UiSettingsConflictError) | Some p \<Rightarrow> Inr p)"

definition ui_found :: "stored_ui_patch option \<Rightarrow> exn + stored_ui_patch" where
  "ui_found result = (case result of None \<Rightarrow> Inl (AppExn UiSettingsNotFoundError) | Some p \<Rightarrow> Inr p)"

definition service_get_user :: "conn \<Rightarrow> authorization_grant option \<Rightarrow> stored_ui_patch proc" where
  "service_get_user cx grant =
     pseq (plift (require_grant grant TENANT_USER_UI_SETTINGS_MANAGE_SELF)) (\<lambda>g.
     pseq (read_user cx (ag_tenant_context g) (pr_user_id (ag_principal g))) (\<lambda>r. plift (ui_found r)))"

definition service_get_tenant :: "conn \<Rightarrow> authorization_grant option \<Rightarrow> stored_ui_patch proc" where
  "service_get_tenant cx grant =
     pseq (plift (require_grant grant TENANT_UI_SETTINGS_MANAGE)) (\<lambda>g.
     pseq (read_tenant cx (ag_tenant_context g)) (\<lambda>r. plift (ui_found r)))"

definition service_put_user :: "conn \<Rightarrow> authorization_grant option \<Rightarrow> uuid \<Rightarrow> ui_patch \<Rightarrow> int option \<Rightarrow> stored_ui_patch proc" where
  "service_put_user cx grant target patch expected_version =
     pseq (plift (require_grant grant TENANT_USER_UI_SETTINGS_MANAGE_SELF)) (\<lambda>g.
     pseq (plift (require_self_user (pr_user_id (ag_principal g)) target)) (\<lambda>_.
     pseq (put_user cx (ag_tenant_context g) target patch expected_version) (\<lambda>r. plift (ui_changed r))))"

definition service_delete_user :: "conn \<Rightarrow> authorization_grant option \<Rightarrow> uuid \<Rightarrow> int \<Rightarrow> unit proc" where
  "service_delete_user cx grant target expected_version =
     pseq (plift (require_grant grant TENANT_USER_UI_SETTINGS_MANAGE_SELF)) (\<lambda>g.
     pseq (plift (require_self_user (pr_user_id (ag_principal g)) target)) (\<lambda>_.
     pseq (delete_user cx (ag_tenant_context g) target expected_version) (\<lambda>gone.
     if \<not> gone then pfail (AppExn UiSettingsConflictError) else pret ())))"

definition service_put_tenant :: "conn \<Rightarrow> authorization_grant option \<Rightarrow> ui_patch \<Rightarrow> int option \<Rightarrow> stored_ui_patch proc" where
  "service_put_tenant cx grant patch expected_version =
     pseq (plift (require_grant grant TENANT_UI_SETTINGS_MANAGE)) (\<lambda>g.
     pseq (put_tenant cx (ag_tenant_context g) patch expected_version) (\<lambda>r. plift (ui_changed r)))"

definition service_delete_tenant :: "conn \<Rightarrow> authorization_grant option \<Rightarrow> int \<Rightarrow> unit proc" where
  "service_delete_tenant cx grant expected_version =
     pseq (plift (require_grant grant TENANT_UI_SETTINGS_MANAGE)) (\<lambda>g.
     pseq (delete_tenant cx (ag_tenant_context g) expected_version) (\<lambda>gone.
     if \<not> gone then pfail (AppExn UiSettingsConflictError) else pret ()))"

section \<open>The routes\<close>

definition no_store :: "reply \<Rightarrow> reply" where
  "no_store response = put_header (lit ''Cache-Control'') (lit ''no-store'') response"

definition get_effective ::
  "(pystr \<Rightarrow> bool) \<Rightarrow> settings \<Rightarrow> conn \<Rightarrow> (nat \<Rightarrow> db \<Rightarrow> db) \<Rightarrow> request \<Rightarrow> reply \<Rightarrow> (effective_ui_settings \<times> reply) proc" where
  "get_effective nok se cx meanwhile rq response =
     with_grant nok se cx meanwhile rq TENANT_USER_UI_SETTINGS_MANAGE_SELF (\<lambda>grant.
       pseq (ui_resolve cx (\<lambda>n. meanwhile (n + 2)) grant) (\<lambda>r. pret (r, no_store response)))"

definition get_user_route ::
  "(pystr \<Rightarrow> bool) \<Rightarrow> settings \<Rightarrow> conn \<Rightarrow> (nat \<Rightarrow> db \<Rightarrow> db) \<Rightarrow> request \<Rightarrow> reply \<Rightarrow> (stored_ui_patch \<times> reply) proc" where
  "get_user_route nok se cx meanwhile rq response =
     with_grant nok se cx meanwhile rq TENANT_USER_UI_SETTINGS_MANAGE_SELF (\<lambda>grant.
       pseq (service_get_user cx grant) (\<lambda>r. pret (r, no_store response)))"

text \<open>The target of a user write is the principal of the grant, never a selector of the request.\<close>

definition put_user_route ::
  "(pystr \<Rightarrow> bool) \<Rightarrow> settings \<Rightarrow> conn \<Rightarrow> (nat \<Rightarrow> db \<Rightarrow> db) \<Rightarrow> request \<Rightarrow> ui_patch \<Rightarrow> int option \<Rightarrow> reply \<Rightarrow> (stored_ui_patch \<times> reply) proc" where
  "put_user_route nok se cx meanwhile rq patch expected_version response =
     with_grant nok se cx meanwhile rq TENANT_USER_UI_SETTINGS_MANAGE_SELF (\<lambda>grant.
       case grant of None \<Rightarrow> pfail TypeExn | Some g \<Rightarrow>
       pseq (service_put_user cx grant (pr_user_id (ag_principal g)) patch expected_version) (\<lambda>r. pret (r, no_store response)))"

definition delete_user_route ::
  "(pystr \<Rightarrow> bool) \<Rightarrow> settings \<Rightarrow> conn \<Rightarrow> (nat \<Rightarrow> db \<Rightarrow> db) \<Rightarrow> request \<Rightarrow> int \<Rightarrow> reply \<Rightarrow> reply proc" where
  "delete_user_route nok se cx meanwhile rq expected_version response =
     with_grant nok se cx meanwhile rq TENANT_USER_UI_SETTINGS_MANAGE_SELF (\<lambda>grant.
       case grant of None \<Rightarrow> pfail TypeExn | Some g \<Rightarrow>
       pseq (service_delete_user cx grant (pr_user_id (ag_principal g)) expected_version) (\<lambda>_. pret (no_store response)))"

definition get_tenant_route ::
  "(pystr \<Rightarrow> bool) \<Rightarrow> settings \<Rightarrow> conn \<Rightarrow> (nat \<Rightarrow> db \<Rightarrow> db) \<Rightarrow> request \<Rightarrow> reply \<Rightarrow> (stored_ui_patch \<times> reply) proc" where
  "get_tenant_route nok se cx meanwhile rq response =
     with_grant nok se cx meanwhile rq TENANT_UI_SETTINGS_MANAGE (\<lambda>grant.
       pseq (service_get_tenant cx grant) (\<lambda>r. pret (r, no_store response)))"

definition put_tenant_route ::
  "(pystr \<Rightarrow> bool) \<Rightarrow> settings \<Rightarrow> conn \<Rightarrow> (nat \<Rightarrow> db \<Rightarrow> db) \<Rightarrow> request \<Rightarrow> ui_patch \<Rightarrow> int option \<Rightarrow> reply \<Rightarrow> (stored_ui_patch \<times> reply) proc" where
  "put_tenant_route nok se cx meanwhile rq patch expected_version response =
     with_grant nok se cx meanwhile rq TENANT_UI_SETTINGS_MANAGE (\<lambda>grant.
       pseq (service_put_tenant cx grant patch expected_version) (\<lambda>r. pret (r, no_store response)))"

definition delete_tenant_route ::
  "(pystr \<Rightarrow> bool) \<Rightarrow> settings \<Rightarrow> conn \<Rightarrow> (nat \<Rightarrow> db \<Rightarrow> db) \<Rightarrow> request \<Rightarrow> int \<Rightarrow> reply \<Rightarrow> reply proc" where
  "delete_tenant_route nok se cx meanwhile rq expected_version response =
     with_grant nok se cx meanwhile rq TENANT_UI_SETTINGS_MANAGE (\<lambda>grant.
       pseq (service_delete_tenant cx grant expected_version) (\<lambda>_. pret (no_store response)))"

section \<open>The validator and the checks\<close>

lemma ui_key_value_inj [simp]: "ui_key_value k = ui_key_value k' \<longleftrightarrow> k = k'"
  by (cases k; cases k') (simp_all add: lit_def)

lemma all_ui_keys_UNIV [simp]: "k \<in> set all_ui_keys"
  by (cases k) (simp_all add: all_ui_keys_def)

lemma ui_key_of_eq: "ui_key_of text = Some k \<longleftrightarrow> text = ui_key_value k"
proof
  show "ui_key_of text = Some k \<Longrightarrow> text = ui_key_value k" by (auto simp: ui_key_of_def find_Some_iff)
  show "text = ui_key_value k \<Longrightarrow> ui_key_of text = Some k"
    by (cases k) (simp_all add: ui_key_of_def all_ui_keys_def lit_def)
qed

lemma parse_keys_eq_Inr: "parse_keys obj = Inr root \<longleftrightarrow> obj = as_json root"
proof (induction obj arbitrary: root)
  case Nil
  show ?case by (cases root) (auto simp: as_json_def)
next
  case (Cons item obj)
  obtain name v where item: "item = (name, v)" by (cases item)
  show ?case
  proof (cases "ui_key_of name")
    case None
    then have "name \<noteq> ui_key_value k" for k using ui_key_of_eq [of name k] by auto
    with None item show ?thesis by (cases root) (auto simp: as_json_def)
  next
    case (Some k)
    then have "name = ui_key_value k" using ui_key_of_eq by blast
    with Some item Cons.IH show ?thesis by (cases root) (auto simp: and_then_eq_Inr as_json_def)
  qed
qed

lemma UiSettingsPatch_eq_Inr:
  "UiSettingsPatch obj = Inr root \<longleftrightarrow> obj = as_json root \<and> (\<forall>(k, v) \<in> set root. v \<in> set (SETTING_VALUES k))"
  by (auto simp: UiSettingsPatch_def and_then_eq_Inr parse_keys_eq_Inr validate_values_def list_all_iff split: if_splits)

lemma ui_keys_range:
  "x \<in> {lit ''theme'', lit ''buttonPreset'', lit ''alertPreset'', lit ''overlayPreset'', lit ''tablePreset'', lit ''printPreset''} \<longleftrightarrow>
     (\<exists>k. x = ui_key_value k)"
proof
  assume "\<exists>k. x = ui_key_value k"
  then obtain k where "x = ui_key_value k" by blast
  then show "x \<in> {lit ''theme'', lit ''buttonPreset'', lit ''alertPreset'', lit ''overlayPreset'', lit ''tablePreset'', lit ''printPreset''}"
    by (cases k) simp_all
qed (elim insertE emptyE; simp only: ui_key_value.simps [symmetric]; blast)

lemma check_ui_json:
  "check_keys (as_json root)" "settings_value_checks (as_json root) \<longleftrightarrow> (\<forall>(k, v) \<in> set root. v \<in> set (SETTING_VALUES k))"
proof -
  show "check_keys (as_json root)"
    unfolding check_keys_def as_json_def list_all_iff ui_keys_range by auto
  have cv: "check_value (ui_key_value k) A (as_json root) \<longleftrightarrow> (\<forall>(k', v) \<in> set root. k' = k \<longrightarrow> v \<in> A)" for k A
    by (auto simp: check_value_def as_json_def list_all_iff)
  have "settings_value_checks (as_json root) \<longleftrightarrow> (\<forall>k. check_value (ui_key_value k) (set (SETTING_VALUES k)) (as_json root))"
    (is "_ \<longleftrightarrow> (\<forall>k. ?c k)")
  proof -
    have all: "(\<forall>k. P k) \<longleftrightarrow> P THEME \<and> P BUTTON_PRESET \<and> P ALERT_PRESET \<and> P OVERLAY_PRESET \<and> P TABLE_PRESET \<and> P PRINT_PRESET" for P
      by (metis ui_setting_key.exhaust)
    show ?thesis
      unfolding all settings_value_checks_def
      by (simp add: ThemeId_def ButtonPresetId_def AlertPresetId_def OverlayPresetId_def TablePresetId_def PrintPresetId_def)
  qed
  then show "settings_value_checks (as_json root) \<longleftrightarrow> (\<forall>(k, v) \<in> set root. v \<in> set (SETTING_VALUES k))"
    unfolding cv by auto
qed

lemma check_keys_json: "check_keys obj \<Longrightarrow> \<exists>root. obj = as_json root"
proof (induction obj)
  case (Cons item obj)
  then obtain root where "obj = as_json root" by (auto simp: check_keys_def)
  moreover have "\<exists>k. fst item = ui_key_value k"
    using Cons.prems unfolding check_keys_def ui_keys_range by (cases item) simp
  then obtain k where "fst item = ui_key_value k" by blast
  ultimately have "item # obj = as_json ((k, snd item) # root)" by (cases item) (simp add: as_json_def)
  then show ?case by blast
qed (simp add: as_json_def)

text \<open>C19. What the API accepts as a settings patch is exactly what the tables accept: parsing a JSON object with
  string values succeeds if and only if it passes the key and value CHECK constraints written out in the
  migration, and a parsed patch renders back to the same object.\<close>

theorem ui_validation_matches_checks:
  "case UiSettingsPatch obj of
     Inl e \<Rightarrow> \<not> (check_keys obj \<and> settings_value_checks obj)
   | Inr root \<Rightarrow> check_keys obj \<and> settings_value_checks obj \<and> as_json root = obj"
proof (cases "UiSettingsPatch obj")
  case (Inl e)
  have False if c: "check_keys obj" "settings_value_checks obj"
  proof -
    obtain root where "obj = as_json root" using check_keys_json [OF c(1)] by blast
    with c(2) have "UiSettingsPatch obj = Inr root" by (simp add: UiSettingsPatch_eq_Inr check_ui_json)
    with Inl show False by simp
  qed
  with Inl show ?thesis by auto
next
  case (Inr root)
  then show ?thesis using UiSettingsPatch_eq_Inr [of obj root] check_ui_json [of root] by simp
qed

end
