(* ===== verification/UiSettingsClaims.thy ===== *)
theory UiSettingsClaims
  imports UiSettings RoleAdminClaims
begin

text \<open>
  What the presentation settings guarantee: the order in which the layers decide a value, and the optimistic
  versions of a write. The two tenant tables share the contract \<open>ui_layer\<close>.
\<close>

section \<open>Resolution\<close>

definition ui_lookup :: "ui_row option \<Rightarrow> ui_setting_key \<Rightarrow> pystr option" where
  "ui_lookup row k = (case row of None \<Rightarrow> None | Some r \<Rightarrow> map_of (ui_settings r) (ui_key_value k))"

lemma map_of_as_json: "map_of (as_json root) (ui_key_value k) = map_of root k"
  by (induction root) (auto simp: as_json_def)

lemma apply_layer_distinct:
  "distinct (map fst root) \<Longrightarrow> apply_layer origin root (values, origins) =
     (values ++ map_of root, origins ++ map_of (map (\<lambda>(k, _). (k, origin)) root))"
proof (induction root arbitrary: "values" origins)
  case (Cons item root)
  obtain k v where item: "item = (k, v)" by (cases item)
  have "map_of root k = None" "map_of (map (\<lambda>(k, _). (k, origin)) root) k = None"
    using Cons.prems item by (auto simp: map_of_eq_None_iff image_iff)
  with Cons item show ?case by (auto simp: fun_eq_iff map_add_def split: option.splits)
qed simp

lemma map_of_origins: "map_of (map (\<lambda>(k, _). (k, origin)) root) k = map_option (\<lambda>_. origin) (map_of root k)"
  by (induction root) auto

lemma ui_select_map_of: "cx_tenant cx = Some (ut_tenant tb key) \<Longrightarrow> ui_select tb cx key s = map_of (ut_get tb s) key"
proof -
  assume cx: "cx_tenant cx = Some (ut_tenant tb key)"
  have "map_option snd (find (\<lambda>(k, _). k = key) (visible cx (\<lambda>(k, _). ut_tenant tb k) xs)) = map_of xs key" for xs :: "('a \<times> ui_row) list"
    using cx by (induction xs) (auto simp: visible_def)
  then show ?thesis by (simp add: ui_select_def)
qed

lemma ui_record_Inr:
  "ui_record (Some r) = Inr p \<longleftrightarrow> (\<exists>root. ui_settings r = as_json root \<and> (\<forall>(k, v) \<in> set root. v \<in> set (SETTING_VALUES k)) \<and>
     p = Some \<lparr>su_settings = root, su_version = ui_version r\<rparr>)"
  by (auto simp: ui_record_def and_then_eq_Inr UiSettingsPatch_eq_Inr)

lemma ui_record_None [simp]: "ui_record None = Inr None"
  by (simp add: ui_record_def)

definition ui_object_ok :: "ui_row option \<Rightarrow> bool" where
  "ui_object_ok row \<longleftrightarrow> (case row of None \<Rightarrow> True | Some r \<Rightarrow> distinct (map fst (ui_settings r)))"

lemma apply_stored_row:
  assumes "ui_record row = Inr layer" "ui_object_ok row"
  shows "apply_stored origin layer (values, origins) = (values ++ ui_lookup row, origins ++ (\<lambda>k. map_option (\<lambda>_. origin) (ui_lookup row k)))"
    and "\<And>k v. ui_lookup row k = Some v \<Longrightarrow> v \<in> set (SETTING_VALUES k)"
    and "map_option su_version layer = map_option ui_version row"
proof -
  have "apply_stored origin layer (values, origins) = (values ++ ui_lookup row, origins ++ (\<lambda>k. map_option (\<lambda>_. origin) (ui_lookup row k))) \<and>
    (\<forall>k v. ui_lookup row k = Some v \<longrightarrow> v \<in> set (SETTING_VALUES k)) \<and> map_option su_version layer = map_option ui_version row"
  proof (cases row)
    case None
    with assms(1) show ?thesis by (simp add: apply_stored_def ui_lookup_def fun_eq_iff map_add_def)
  next
    case (Some r)
    then obtain root where root: "ui_settings r = as_json root" "\<forall>(k, v) \<in> set root. v \<in> set (SETTING_VALUES k)"
      and layer: "layer = Some \<lparr>su_settings = root, su_version = ui_version r\<rparr>"
      using assms(1) by (auto simp: ui_record_Inr)
    have look: "ui_lookup row = map_of root" using Some root by (simp add: ui_lookup_def fun_eq_iff map_of_as_json)
    have "map fst (as_json root) = map ui_key_value (map fst root)" by (simp add: as_json_def case_prod_beta comp_def)
    then have "distinct (map ui_key_value (map fst root))" using assms(2) Some root by (simp add: ui_object_ok_def)
    then have "distinct (map fst root)" unfolding distinct_map [of ui_key_value] by blast
    then have "apply_layer origin root (values, origins) = (values ++ map_of root, origins ++ map_of (map (\<lambda>(k, _). (k, origin)) root))"
      by (rule apply_layer_distinct)
    moreover have "map_of (map (\<lambda>(k, _). (k, origin)) root) = (\<lambda>k. map_option (\<lambda>_. origin) (map_of root k))"
      by (simp add: fun_eq_iff map_of_origins)
    ultimately show ?thesis using layer look root(2) Some by (auto simp: apply_stored_def dest: map_of_SomeD)
  qed
  then show "apply_stored origin layer (values, origins) = (values ++ ui_lookup row, origins ++ (\<lambda>k. map_option (\<lambda>_. origin) (ui_lookup row k)))"
    and "\<And>k v. ui_lookup row k = Some v \<Longrightarrow> v \<in> set (SETTING_VALUES k)"
    and "map_option su_version layer = map_option ui_version row" by blast+
qed

lemma built_in_values: "\<exists>v. map_of BUILT_IN_UI_SETTINGS k = Some v \<and> v \<in> set (SETTING_VALUES k)"
  by (cases k) (simp_all add: BUILT_IN_UI_SETTINGS_def ThemeId_def ButtonPresetId_def AlertPresetId_def OverlayPresetId_def
      TablePresetId_def PrintPresetId_def)

text \<open>The decision of one key: the first layer that sets it, else the built-in value.\<close>

definition ui_decision :: "ui_row option \<Rightarrow> ui_row option \<Rightarrow> ui_row option \<Rightarrow> ui_setting_key \<Rightarrow> pystr option \<times> ui_origin" where
  "ui_decision platform tenant user k =
     (case ui_lookup user k of Some v \<Rightarrow> (Some v, FROM_USER)
      | None \<Rightarrow> (case ui_lookup tenant k of Some v \<Rightarrow> (Some v, FROM_TENANT)
      | None \<Rightarrow> (case ui_lookup platform k of Some v \<Rightarrow> (Some v, FROM_PLATFORM)
      | None \<Rightarrow> (map_of BUILT_IN_UI_SETTINGS k, BUILT_IN))))"

lemma effective_decides:
  assumes "ui_record platform = Inr p" "ui_record tenant = Inr t" "ui_record user = Inr u"
    and "ui_object_ok platform" "ui_object_ok tenant" "ui_object_ok user"
  shows "ef_settings (effective p t u) k = fst (ui_decision platform tenant user k)"
    and "ef_origins (effective p t u) k = Some (snd (ui_decision platform tenant user k))"
    and "\<exists>v. fst (ui_decision platform tenant user k) = Some v \<and> v \<in> set (SETTING_VALUES k)"
proof -
  note layers = apply_stored_row(1) [OF assms(1,4)] apply_stored_row(1) [OF assms(2,5)] apply_stored_row(1) [OF assms(3,6)]
  note legal = apply_stored_row(2) [OF assms(1,4)] apply_stored_row(2) [OF assms(2,5)] apply_stored_row(2) [OF assms(3,6)]
  obtain v where v: "map_of BUILT_IN_UI_SETTINGS k = Some v" "v \<in> set (SETTING_VALUES k)" using built_in_values by blast
  show "ef_settings (effective p t u) k = fst (ui_decision platform tenant user k)"
    by (simp add: effective_def layers ui_decision_def map_add_def split: option.split)
  show "ef_origins (effective p t u) k = Some (snd (ui_decision platform tenant user k))"
    using v by (simp add: effective_def layers ui_decision_def map_add_def map_of_origins split: option.split)
  show "\<exists>v. fst (ui_decision platform tenant user k) = Some v \<and> v \<in> set (SETTING_VALUES k)"
    using v legal by (auto simp: ui_decision_def split: option.split)
qed

lemma read_layer_Inr:
  assumes "read_layer tb cx c key s = (Inr layer, s')" "ut_tenant tb key = tc_tenant_id c"
  shows "s' = s" "ui_record (map_of (ut_get tb s) key) = Inr layer"
proof -
  have cx: "cx_tenant (bound_conn cx c) = Some (ut_tenant tb key)" using assms(2) by simp
  have "s' = s \<and> ui_record (map_of (ut_get tb s) key) = Inr layer"
    using assms(1) ui_select_map_of [OF cx, of s]
    by (auto simp: read_layer_def tenant_transaction_def pseq_eq_Inr transact_eq_Inr seq_read_db require_context_def
        require_consumed_role_security_event_def and_then_eq_Inr seq_eq_Inr require_apply split: if_splits option.splits sum.splits)
  then show "s' = s" "ui_record (map_of (ut_get tb s) key) = Inr layer" by blast+
qed

lemma layer_reads:
  "read_platform s = (Inr x, s') \<Longrightarrow> s' = s \<and> ui_record (db_platform_ui s) = Inr x"
  "read_tenant cx c s = (Inr x, s') \<Longrightarrow> s' = s \<and> ui_record (map_of (db_tenant_ui s) (tc_tenant_id c)) = Inr x"
  "read_user cx c u s = (Inr x, s') \<Longrightarrow> s' = s \<and> ui_record (map_of (db_user_ui s) (tc_tenant_id c, u)) = Inr x"
proof -
  show "read_platform s = (Inr x, s') \<Longrightarrow> s' = s \<and> ui_record (db_platform_ui s) = Inr x"
    by (auto simp: read_platform_def pseq_eq_Inr transact_eq_Inr read_db_def)
  show "read_tenant cx c s = (Inr x, s') \<Longrightarrow> s' = s \<and> ui_record (map_of (db_tenant_ui s) (tc_tenant_id c)) = Inr x"
    unfolding read_tenant_def using read_layer_Inr [of tenant_ui_table cx c "tc_tenant_id c" s x s'] by (simp add: tenant_ui_table_def)
  show "read_user cx c u s = (Inr x, s') \<Longrightarrow> s' = s \<and> ui_record (map_of (db_user_ui s) (tc_tenant_id c, u)) = Inr x"
    unfolding read_user_def using read_layer_Inr [of user_ui_table cx c "(tc_tenant_id c, u)" s x s'] by (simp add: user_ui_table_def)
qed

text \<open>C18. Resolving the settings of a user is total and follows the layers: for every key the value and its origin
  are those of the user row if it sets the key, else of the tenant row, else of the platform row, else the built-in
  value, and the value is one the key allows. The rows are those of the principal's own tenant and user, each as it
  was committed when its transaction read it; resolving itself writes nothing.\<close>

theorem ui_resolve_precedence:
  assumes run: "ui_resolve cx m (Some g) s = (Inr e, s')"
    and platform: "platform = db_platform_ui s"
    and tenant: "tenant = map_of (db_tenant_ui (m 0 s)) (tc_tenant_id (ag_tenant_context g))"
    and user: "user = map_of (db_user_ui (m 1 (m 0 s))) (tc_tenant_id (ag_tenant_context g), pr_user_id (ag_principal g))"
    and "ui_object_ok platform" "ui_object_ok tenant" "ui_object_ok user"
  shows "s' = m 1 (m 0 s) \<and> ag_permission_id g = permission_value TENANT_USER_UI_SETTINGS_MANAGE_SELF \<and>
    (\<forall>k. \<exists>v origin. ui_decision platform tenant user k = (Some v, origin) \<and> ef_settings e k = Some v \<and>
       ef_origins e k = Some origin \<and> v \<in> set (SETTING_VALUES k)) \<and>
    ef_platform_version e = map_option ui_version platform \<and> ef_tenant_version e = map_option ui_version tenant \<and>
    ef_user_version e = map_option ui_version user"
proof -
  obtain p t u where grant: "ag_permission_id g = permission_value TENANT_USER_UI_SETTINGS_MANAGE_SELF"
    and parsed: "ui_record platform = Inr p" "ui_record tenant = Inr t" "ui_record user = Inr u"
    and "s' = m 1 (m 0 s)" and e: "e = effective p t u"
    using run by (auto simp: ui_resolve_def pseq_eq_Inr require_grant_Inr platform tenant user dest!: layer_reads)
  note decides = effective_decides [OF parsed assms(5-7)]
  have "ef_platform_version e = map_option ui_version platform" "ef_tenant_version e = map_option ui_version tenant"
    "ef_user_version e = map_option ui_version user"
    using apply_stored_row(3) [OF parsed(1) assms(5)] apply_stored_row(3) [OF parsed(2) assms(6)] apply_stored_row(3) [OF parsed(3) assms(7)]
    by (simp_all add: e effective_def case_prod_beta Let_def)
  then show ?thesis
    using decides grant \<open>s' = m 1 (m 0 s)\<close> by (simp add: e) (metis prod.collapse)
qed

section \<open>Versions\<close>

lemma tenant_transaction_Inr:
  "tenant_transaction cx (Some c) body s = (Inr x, s') \<Longrightarrow> uuid_version (tc_tenant_id c) = Some 7 \<and> body (bound_conn cx c) s = Inr (x, s')"
  by (auto simp: tenant_transaction_def pseq_plift transact_eq_Inr require_context_def validate_tenant_id_def
      require_consumed_role_security_event_def seq_eq_Inr seq_read_db require_apply split: sum.splits if_splits)

lemma tenant_transaction_run:
  "uuid_version (tc_tenant_id c) = Some 7 \<Longrightarrow> body (bound_conn cx c) s = Inr (x, s') \<Longrightarrow> db_intents s' = [] \<Longrightarrow>
     tenant_transaction cx (Some c) body s = (Inr x, s')"
  by (simp add: tenant_transaction_def pseq_plift require_context_def validate_tenant_id_def transact_def seq_Inr consumed_clean)

text \<open>The contract of a settings table: what is put is read back and nothing else changes.\<close>

definition ui_written :: "'k ui_table \<Rightarrow> 'k \<Rightarrow> ui_patch \<Rightarrow> int option \<Rightarrow> stored_ui_patch \<Rightarrow> db \<Rightarrow> db \<Rightarrow> bool" where
  "ui_written tb key patch expected p s s' \<longleftrightarrow>
     map_option ui_version (map_of (ut_get tb s) key) = expected \<and>
     p = \<lparr>su_settings = patch, su_version = (case expected of None \<Rightarrow> 1 | Some v \<Rightarrow> v + 1)\<rparr> \<and>
     s' = ut_put tb (ut_get tb s') s \<and>
     map_of (ut_get tb s') = (map_of (ut_get tb s))(key \<mapsto> \<lparr>ui_settings = as_json patch, ui_version = su_version p\<rparr>)"

locale ui_layer =
  fixes tb :: "'k ui_table"
  assumes get_put: "ut_get tb (ut_put tb rows s) = rows"
    and intents_put: "db_intents (ut_put tb rows s) = db_intents s"
begin

lemma insert_Inr:
  assumes "cx_tenant cx = Some (ut_tenant tb key)" "ui_insert tb cx key obj s = Inr (Some r, s')"
  shows "map_of (ut_get tb s) key = None" "ui_settings r = obj" "ui_version r = 1" "check_ui_row r"
    and "s' = ut_put tb (ut_get tb s @ [(key, r)]) s"
  using assms by (auto simp: ui_insert_def Let_def seq_require seq_read_db seq_eq_Inr write_db_def map_of_eq_None_iff exists_row_iff split: if_splits)

lemma update_Inr:
  assumes "cx_tenant cx = Some (ut_tenant tb key)" "ui_update tb cx key v obj s = Inr (Some r, s')"
  shows "\<exists>old. map_of (ut_get tb s) key = Some old \<and> ui_version old = v" "ui_settings r = obj" "ui_version r = v + 1" "check_ui_row r"
    and "s' = ut_put tb (update_where (\<lambda>(k, _). k = key) (\<lambda>(k, _). (k, r)) (ut_get tb s)) s"
  using assms by (auto simp: ui_update_def Let_def seq_require seq_read_db seq_eq_Inr write_db_def ui_select_map_of split: if_splits option.splits)

lemma insert_None: "ui_insert tb cx key obj s = Inr (None, s') \<Longrightarrow> s' = s \<and> map_of (ut_get tb s) key \<noteq> None"
  by (force simp: ui_insert_def Let_def seq_require seq_read_db seq_eq_Inr write_db_def map_of_eq_None_iff exists_row_iff
      split: if_splits)

lemma update_None:
  "cx_tenant cx = Some (ut_tenant tb key) \<Longrightarrow> ui_update tb cx key v obj s = Inr (None, s') \<Longrightarrow>
     s' = s \<and> map_option ui_version (map_of (ut_get tb s) key) \<noteq> Some v"
  by (auto simp: ui_update_def Let_def seq_require seq_read_db seq_eq_Inr write_db_def ui_select_map_of split: if_splits option.splits)

lemma put_Some:
  assumes "cx_tenant cx = Some (ut_tenant tb key)"
    and "ui_put tb cx key patch expected s = Inr (Some r, s')"
  shows "ui_written tb key patch expected \<lparr>su_settings = patch, su_version = ui_version r\<rparr> s s'" "ui_settings r = as_json patch" "check_ui_row r"
proof -
  have "map_of (update_where (\<lambda>(k, _). k = key) (\<lambda>(k, _). (k, r)) rows) x =
      (if x = key \<and> map_of rows key \<noteq> None then Some r else map_of rows x)" for rows x
    by (induction rows) (auto simp: update_where_def)
  then have upd: "map_of (update_where (\<lambda>(k, _). k = key) (\<lambda>(k, _). (k, r)) rows) = (map_of rows)(key \<mapsto> r)" if "map_of rows key \<noteq> None" for rows
    using that by (simp add: fun_eq_iff)
  have "ui_written tb key patch expected \<lparr>su_settings = patch, su_version = ui_version r\<rparr> s s' \<and> ui_settings r = as_json patch \<and> check_ui_row r"
  proof (cases expected)
    case None
    note i = insert_Inr [OF assms(1) assms(2) [unfolded None ui_put_def option.case]]
    with None show ?thesis by (auto simp: ui_written_def get_put map_add_def fun_eq_iff split: option.split)
  next
    case (Some v)
    note u = update_Inr [OF assms(1) assms(2) [unfolded Some ui_put_def option.case]]
    from u(1) have "map_of (ut_get tb s) key \<noteq> None" by auto
    with u Some upd [OF this] show ?thesis by (auto simp: ui_written_def get_put)
  qed
  then show "ui_written tb key patch expected \<lparr>su_settings = patch, su_version = ui_version r\<rparr> s s'" "ui_settings r = as_json patch" "check_ui_row r"
    by blast+
qed

lemma put_None:
  assumes "cx_tenant cx = Some (ut_tenant tb key)"
    and "ui_put tb cx key patch expected s = Inr (None, s')"
  shows "s' = s"
  using assms insert_None update_None by (auto simp: ui_put_def split: option.splits)

lemma put_stale:
  assumes "cx_tenant cx = Some (ut_tenant tb key)" "\<forall>(k, v) \<in> set patch. v \<in> set (SETTING_VALUES k)"
    and "map_of (ut_get tb s) key = Some r" "expected \<noteq> Some (ui_version r)"
  shows "ui_put tb cx key patch expected s = Inr (None, s)"
proof -
  have "exists_row (\<lambda>(k, _). k = key) (ut_get tb s)" using map_of_SomeD [OF assms(3)] by (force simp: exists_row_iff)
  moreover have "check_ui_row \<lparr>ui_settings = as_json patch, ui_version = 1\<rparr>" using assms(2) by (simp add: check_ui_row_def check_ui_json)
  ultimately show ?thesis using assms(1,3,4)
    by (auto simp: ui_put_def ui_insert_def ui_update_def Let_def seq_require seq_read_db ui_select_map_of split: option.split)
qed

text \<open>The repository operation: its transaction commits exactly what the table operation wrote.\<close>

lemma put_layer_run:
  assumes "db_intents s' = []" "uuid_version (tc_tenant_id c) = Some 7"
    and "ui_put tb (bound_conn cx c) key patch expected s = Inr (row, s')"
  shows "put_layer tb cx c key patch expected s = (ui_record row, s')"
  using tenant_transaction_run [where body = "\<lambda>cx'. ui_put tb cx' key patch expected", OF assms(2,3,1)]
  by (simp add: put_layer_def pseq_def)

lemma put_layer_cases:
  assumes tenant: "ut_tenant tb key = tc_tenant_id c" and run: "put_layer tb cx c key patch expected s = (res, s')" and "db_intents s = []"
  shows "case res of Inl e \<Rightarrow> s' = s | Inr None \<Rightarrow> s' = s
    | Inr (Some p) \<Rightarrow> ui_written tb key patch expected p s s' \<and>
        put_layer tb cx c key patch expected s' = (Inr None, s') \<and> read_layer tb cx c key s' = (Inr (Some p), s')"
proof (cases "\<exists>row. put_layer tb cx c key patch expected s = (ui_record row, s') \<and> uuid_version (tc_tenant_id c) = Some 7 \<and>
    ui_put tb (bound_conn cx c) key patch expected s = Inr (row, s')")
  case False
  let ?t = "tenant_transaction cx (Some c) (\<lambda>cx'. ui_put tb cx' key patch expected) s"
  obtain r1 s1 where t: "?t = (r1, s1)" by (cases ?t)
  obtain e where "r1 = Inl e"
    using False run t tenant_transaction_Inr by (cases r1) (fastforce simp: put_layer_def pseq_def)+
  with run t have "res = Inl e" "s' = s" using tenant_transaction_Inl by (auto simp: put_layer_def pseq_def)
  then show ?thesis by simp
next
  case True
  have cx: "cx_tenant (bound_conn cx c) = Some (ut_tenant tb key)" using tenant by simp
  obtain row where res: "res = ui_record row" and v7: "uuid_version (tc_tenant_id c) = Some 7"
    and put: "ui_put tb (bound_conn cx c) key patch expected s = Inr (row, s')"
    using True run by auto
  show ?thesis
  proof (cases row)
    case None
    then show ?thesis using res put_None [OF cx] put by simp
  next
    case (Some r)
    let ?p = "\<lparr>su_settings = patch, su_version = ui_version r\<rparr>"
    note w = put_Some [OF cx put [unfolded Some]]
    have legal: "\<forall>(k, v) \<in> set patch. v \<in> set (SETTING_VALUES k)" using w(2,3) by (simp add: check_ui_row_def check_ui_json)
    have rec: "ui_record (Some r) = Inr (Some ?p)"
      using legal UiSettingsPatch_eq_Inr [of "as_json patch" patch] w(2) by (simp add: ui_record_def)
    have "map_of (ut_get tb s') = (map_of (ut_get tb s))(key \<mapsto> \<lparr>ui_settings = as_json patch, ui_version = ui_version r\<rparr>)"
      and same: "s' = ut_put tb (ut_get tb s') s" and old: "map_option ui_version (map_of (ut_get tb s) key) = expected"
      and new: "ui_version r = (case expected of None \<Rightarrow> 1 | Some v \<Rightarrow> v + 1)"
      using w(1) unfolding ui_written_def by auto
    then have r: "map_of (ut_get tb s') key = Some r" using w(2) by simp
    have clean: "db_intents s' = []" using arg_cong [OF same, of db_intents] assms(3) by (simp only: intents_put)
    have "expected \<noteq> Some (ui_version r)" using new by (cases expected) auto
    note again = put_layer_run [OF clean v7 put_stale [OF cx legal r this]]
    have "read_layer tb cx c key s' = (Inr (Some ?p), s')"
      using tenant_transaction_read [where f = "\<lambda>cx'. ui_select tb cx' key", OF v7 clean] r rec
      by (simp add: read_layer_def pseq_def ui_select_map_of [OF cx])
    with again w(1) rec res Some show ?thesis by simp
  qed
qed

end

interpretation tenant_layer: ui_layer tenant_ui_table
  by unfold_locales (simp_all add: tenant_ui_table_def)

interpretation user_layer: ui_layer user_ui_table
  by unfold_locales (simp_all add: user_ui_table_def)

text \<open>C17. A write of user settings is an optimistic compare and set. If it succeeds, the target is the principal of a
  grant of exactly the self-service permission, the stored version was the expected one (none for a first write), the
  new version is one more (1 for a first write), and only that row changed; reading gives back exactly what was put,
  and the same write sent again with the same expected version is refused as a conflict and changes nothing. A write
  that fails changes nothing.\<close>

theorem ui_put_versioned:
  assumes "db_intents s = []" "service_put_user cx (Some g) target patch expected s = (res, s')"
  shows "case res of Inl e \<Rightarrow> s' = s
    | Inr p \<Rightarrow> target = pr_user_id (ag_principal g) \<and> ag_permission_id g = permission_value TENANT_USER_UI_SETTINGS_MANAGE_SELF \<and>
        ui_written user_ui_table (tc_tenant_id (ag_tenant_context g), target) patch expected p s s' \<and>
        service_get_user cx (Some g) s' = (Inr p, s') \<and>
        service_put_user cx (Some g) target patch expected s' = (Inl (AppExn UiSettingsConflictError), s')"
proof -
  let ?c = "ag_tenant_context g" and ?key = "(tc_tenant_id (ag_tenant_context g), target)"
  have key: "ut_tenant user_ui_table ?key = tc_tenant_id ?c" by (simp add: user_ui_table_def)
  obtain r1 s1 where put: "put_layer user_ui_table cx ?c ?key patch expected s = (r1, s1)" by fastforce
  note cases = user_layer.put_layer_cases [OF key put assms(1)]
  show ?thesis
  proof (cases res)
    case (Inl e)
    then show ?thesis using assms(2) cases put
      by (cases r1) (auto simp: service_put_user_def put_user_def pseq_eq_Inl require_grant_Inr ui_changed_def split: option.splits)
  next
    case (Inr p)
    then have r1: "r1 = Inr (Some p)" "s1 = s'" and self: "target = pr_user_id (ag_principal g)"
      and grant: "require_grant (Some g) TENANT_USER_UI_SETTINGS_MANAGE_SELF = Inr g"
      and own: "require_self_user (pr_user_id (ag_principal g)) target = Inr ()"
      using assms(2) put by (auto simp: service_put_user_def put_user_def pseq_eq_Inr ui_changed_def require_self_user_def
          ensure_def require_grant_Inr split: option.splits if_splits)
    from grant have "ag_permission_id g = permission_value TENANT_USER_UI_SETTINGS_MANAGE_SELF" by (simp only: require_grant_Inr)
    with r1 self own cases Inr show ?thesis
      by (simp add: grant service_put_user_def service_get_user_def put_user_def read_user_def pseq_def ui_changed_def ui_found_def)
  qed
qed

definition self_grant :: authorization_grant where
  "self_grant = sample_grant\<lparr>ag_permission_id := permission_value TENANT_USER_UI_SETTINGS_MANAGE_SELF\<rparr>"

lemma self_grant_ok: "require_grant (Some self_grant) TENANT_USER_UI_SETTINGS_MANAGE_SELF = Inr self_grant"
proof -
  have "PermissionId (PStr (permission_value TENANT_USER_UI_SETTINGS_MANAGE_SELF)) = Inr (permission_value TENANT_USER_UI_SETTINGS_MANAGE_SELF)"
    by code_simp
  then show ?thesis by (simp add: require_grant_Inr self_grant_def)
qed

definition sand_row :: ui_row where
  "sand_row = \<lparr>ui_settings = [(lit ''theme'', lit ''sand-warm'')], ui_version = 1\<rparr>"

theorem ui_put_versioned_witness:
  "\<exists>s'. service_put_user sample_conn (Some self_grant) 5 [(THEME, lit ''sand-warm'')] None sample_role_db =
      (Inr \<lparr>su_settings = [(THEME, lit ''sand-warm'')], su_version = 1\<rparr>, s') \<and>
     service_put_user sample_conn (Some self_grant) 5 [(THEME, lit ''sand-warm'')] None s' = (Inl (AppExn UiSettingsConflictError), s')"
proof -
  let ?patch = "[(THEME, lit ''sand-warm'')]" and ?p = "\<lparr>su_settings = [(THEME, lit ''sand-warm'')], su_version = 1\<rparr>"
  let ?s = "sample_role_db\<lparr>db_user_ui := [((sample_id 1, 5), sand_row)]\<rparr>"
  have clean: "db_intents sample_role_db = []" by (simp add: sample_role_db_def sample_tenant_db_def sample_db_def)
  have json: "as_json ?patch = ui_settings sand_row" by (simp add: as_json_def sand_row_def)
  have legal: "\<forall>(k, v) \<in> set ?patch. v \<in> set (SETTING_VALUES k)" by (simp add: ThemeId_def)
  then have row: "check_ui_row \<lparr>ui_settings = ui_settings sand_row, ui_version = 1\<rparr>" "ui_record (Some sand_row) = Inr (Some ?p)"
    using check_ui_json [of ?patch] UiSettingsPatch_eq_Inr [of "as_json ?patch" ?patch]
    unfolding json by (simp_all add: check_ui_row_def ui_record_def sand_row_def)
  have put: "ui_put user_ui_table (bound_conn sample_conn sample_context) (sample_id 1, 5) ?patch None sample_role_db = Inr (Some sand_row, ?s)"
    using row(1) unfolding ui_put_def ui_insert_def json
    by (simp add: Let_def seq_require seq_read_db write_db_def seq_def user_ui_table_def sample_context_def exists_row_def
        sample_role_db_def sample_tenant_db_def sample_db_def user_by_id_def tenant_by_id_def sand_row_def)
  have ctx: "ag_tenant_context self_grant = sample_context" "pr_user_id (ag_principal self_grant) = 5" "tc_tenant_id sample_context = sample_id 1"
    by (simp_all add: self_grant_def sample_grant_def sample_principal_def sample_context_def)
  have "put_layer user_ui_table sample_conn sample_context (sample_id 1, 5) ?patch None sample_role_db = (Inr (Some ?p), ?s)"
    using user_layer.put_layer_run [OF _ _ put] clean row(2) ctx by (simp add: sample_id_version)
  then have run: "service_put_user sample_conn (Some self_grant) 5 ?patch None sample_role_db = (Inr ?p, ?s)"
    by (simp add: service_put_user_def self_grant_ok ctx require_self_user_def put_user_def pseq_def ui_changed_def)
  with ui_put_versioned [OF clean run] show ?thesis by auto
qed

lemma read_layer_run:
  assumes "uuid_version (tc_tenant_id c) = Some 7" "db_intents s = []" "ut_tenant tb key = tc_tenant_id c"
  shows "read_layer tb cx c key s = (ui_record (map_of (ut_get tb s) key), s)"
  using tenant_transaction_read [where f = "\<lambda>cx'. ui_select tb cx' key", OF assms(1,2)] assms(3)
  by (simp add: read_layer_def pseq_def ui_select_map_of)

theorem ui_resolve_precedence_witness:
  "\<exists>e s'. ui_resolve sample_conn (\<lambda>_. id) (Some self_grant) (sample_role_db\<lparr>db_platform_ui := Some sand_row\<rparr>) = (Inr e, s') \<and>
     ef_settings e THEME = Some (lit ''sand-warm'') \<and> ef_origins e THEME = Some FROM_PLATFORM \<and> ef_origins e BUTTON_PRESET = Some BUILT_IN"
proof -
  let ?s = "sample_role_db\<lparr>db_platform_ui := Some sand_row\<rparr>" and ?p = "\<lparr>su_settings = [(THEME, lit ''sand-warm'')], su_version = 1\<rparr>"
  have empty: "db_tenant_ui ?s = []" "db_user_ui ?s = []" "db_intents ?s = []"
    by (simp_all add: sample_role_db_def sample_tenant_db_def sample_db_def)
  have ctx: "ag_tenant_context self_grant = sample_context" "uuid_version (tc_tenant_id sample_context) = Some 7"
    by (simp_all add: self_grant_def sample_grant_def sample_context_def sample_id_version)
  have row: "ui_record (Some sand_row) = Inr (Some ?p)"
    using UiSettingsPatch_eq_Inr [of "ui_settings sand_row" "[(THEME, lit ''sand-warm'')]"]
    by (simp add: ui_record_def sand_row_def as_json_def ThemeId_def)
  have platform: "read_platform ?s = (Inr (Some ?p), ?s)"
    by (simp add: read_platform_def pseq_def transact_def read_db_def row)
  have reads: "read_tenant sample_conn sample_context ?s = (Inr None, ?s)" "read_user sample_conn sample_context u ?s = (Inr None, ?s)" for u
    by (simp_all add: read_tenant_def read_user_def read_layer_run [OF ctx(2) empty(3)] empty tenant_ui_table_def user_ui_table_def)
  let ?e = "effective (Some ?p) None None"
  have run: "ui_resolve sample_conn (\<lambda>_. id) (Some self_grant) ?s = (Inr ?e, ?s)"
    by (simp add: ui_resolve_def self_grant_ok ctx pseq_def platform reads)
  have ok: "ui_object_ok (Some sand_row)" "ui_object_ok None" by (simp_all add: ui_object_ok_def sand_row_def)
  have dec: "ui_decision (Some sand_row) None None THEME = (Some (lit ''sand-warm''), FROM_PLATFORM)"
    "snd (ui_decision (Some sand_row) None None BUTTON_PRESET) = BUILT_IN"
    by (simp_all add: ui_decision_def ui_lookup_def sand_row_def lit_def)
  have rows: "Some sand_row = db_platform_ui ?s"
    "None = map_of (db_tenant_ui ((\<lambda>_. id) (0::nat) ?s)) (tc_tenant_id (ag_tenant_context self_grant))"
    "None = map_of (db_user_ui ((\<lambda>_. id) (1::nat) ((\<lambda>_. id) (0::nat) ?s)))
       (tc_tenant_id (ag_tenant_context self_grant), pr_user_id (ag_principal self_grant))"
    using empty by simp_all
  note decided = conjunct1 [OF conjunct2 [OF conjunct2 [OF ui_resolve_precedence [OF run rows ok(1,2,2)]]]]
  from decided [rule_format, of THEME] decided [rule_format, of BUTTON_PRESET] dec run show ?thesis
    by (intro exI [of _ ?e] exI [of _ ?s]) auto
qed

end
