(* ===== verification/Retention.thy ===== *)
theory Retention
  imports RequestAudit "HOL-Library.Product_Lexorder"
begin

text \<open>
  \<open>maintenance/security_audit_retention.py\<close> over \<open>auth.prune_security_events\<close> of migration \<open>0016\<close>: bounded
  batches, each a transaction of its own, that delete expired security events and record how many. Which rows
  other transactions hold locked, what they commit between two batches and how each commit ends are arguments.
\<close>

section \<open>The prune function\<close>

definition retention_period :: time where
  "retention_period = minutes (2160 * 60)"

definition event_expired :: "time \<Rightarrow> event_row \<Rightarrow> bool" where
  "event_expired cutoff r \<longleftrightarrow> er_created_at r < cutoff"

text \<open>\<open>lpad(to_hex(n), 12, '0')\<close> as a number: at most twelve leading digits.\<close>

function lead12 :: "nat \<Rightarrow> nat" where
  "lead12 n = (if n < 2 ^ 48 then n else lead12 (n div 16))"
  by auto
termination by (relation "measure id") auto

declare lead12.simps [simp del]

text \<open>The time in milliseconds, the digit 7 and the last nineteen digits of a random identifier.\<close>

definition prune_event_id :: "time \<Rightarrow> uuid \<Rightarrow> uuid" where
  "prune_event_id clock random =
     lead12 (nat ((clock div 1000) mod 2 ^ 64)) * 2 ^ 80 + 7 * 2 ^ 76 + random mod 2 ^ 76"

text \<open>\<open>ORDER BY created_at, id FOR UPDATE SKIP LOCKED LIMIT\<close>\<close>

definition prune_victims :: "(uuid \<Rightarrow> bool) \<Rightarrow> int \<Rightarrow> time \<Rightarrow> event_row list \<Rightarrow> event_row list" where
  "prune_victims locked batch_size cutoff events =
     take (nat batch_size) (sort_key (\<lambda>r. (er_created_at r, er_id r))
       (filter (\<lambda>r. event_expired cutoff r \<and> \<not> locked (er_id r)) events))"

definition prune_row :: "uuid \<Rightarrow> uuid \<Rightarrow> int \<Rightarrow> event_row" where
  "prune_row event correlation count =
     \<lparr>er_id = event, er_event_type = lit ''security_events_pruned'', er_result = lit ''success'',
      er_reason_code = Some (lit ''retention_expired''), er_user_id = None, er_session_id = None, er_membership_id = None,
      er_subject_digest = None, er_correlation_id = correlation, er_created_at = 0, er_role_id = None,
      er_target_membership_id = None, er_permission_id = None, er_subject_kind = None, er_subject_key_id = None,
      er_affected_count = Some count\<rparr>"

definition append_prune_event :: "conn \<Rightarrow> int \<Rightarrow> (exn, db, unit) action" where
  "append_prune_event cx count =
     seq (read_db db_clock) (\<lambda>clock.
     seq draw_id (\<lambda>random.
     seq draw_id (\<lambda>correlation.
     append_security_event cx (prune_row (prune_event_id clock random) correlation count))))"

definition prune_security_events :: "conn \<Rightarrow> (uuid \<Rightarrow> bool) \<Rightarrow> int \<Rightarrow> (exn, db, int \<times> bool) action" where
  "prune_security_events cx locked batch_size =
     seq (require (cx_maintenance cx) (SqlExn InsufficientPrivilege)) (\<lambda>_.
     seq (require (1 \<le> batch_size \<and> batch_size \<le> 1000) (SqlExn (RaisedBySql (lit ''audit_retention_batch_invalid'')))) (\<lambda>_.
     seq (read_db (\<lambda>s. db_clock s - retention_period)) (\<lambda>cutoff.
     seq (read_db (\<lambda>s. map er_id (prune_victims locked batch_size cutoff (db_events s)))) (\<lambda>ids.
     seq (read_db (\<lambda>s. int (length (filter (\<lambda>r. er_id r \<in> set ids) (db_events s))))) (\<lambda>count.
     seq (write_db (\<lambda>s. s\<lparr>db_events := delete_where (\<lambda>r. er_id r \<in> set ids) (db_events s)\<rparr>)) (\<lambda>_.
     seq (if 0 < count then append_prune_event cx count else ret ()) (\<lambda>_.
     seq (read_db (\<lambda>s. exists_row (event_expired cutoff) (db_events s))) (\<lambda>remaining.
     ret (count, remaining)))))))))"

section \<open>The runner\<close>

datatype retention_status = Drained | Incomplete | InvalidConfiguration | DatabaseFailure

record retention_result =
  rs_status :: retention_status
  rs_deleted_count :: int
  rs_batches :: nat

fun exit_code :: "retention_status \<Rightarrow> int" where
  "exit_code Drained = 0"
| "exit_code Incomplete = 2"
| "exit_code InvalidConfiguration = 1"
| "exit_code DatabaseFailure = 1"

text \<open>What the driver returns: rows of named fields.\<close>

datatype field = FInt int | FBool bool | FOther

type_synonym response = "(pystr \<times> field) list list"

definition check_response :: "int \<Rightarrow> response \<Rightarrow> exn + (int \<times> bool)" where
  "check_response batch_size rows =
     (case rows of
        [row] \<Rightarrow>
          if set (map fst row) \<noteq> {lit ''deleted_count'', lit ''remaining_expired''} then Inl ValueExn
          else (case (map_of row (lit ''deleted_count''), map_of row (lit ''remaining_expired'')) of
              (Some (FInt deleted), Some (FBool remaining)) \<Rightarrow>
                if 0 \<le> deleted \<and> deleted \<le> batch_size then Inr (deleted, remaining) else Inl ValueExn
            | _ \<Rightarrow> Inl ValueExn)
      | _ \<Rightarrow> Inl ValueExn)"

definition prune_query :: "conn \<Rightarrow> (uuid \<Rightarrow> bool) \<Rightarrow> int \<Rightarrow> (exn, db, response) action" where
  "prune_query cx locked batch_size =
     seq (prune_security_events cx locked batch_size) (\<lambda>(count, remaining).
     ret [[(lit ''deleted_count'', FInt count), (lit ''remaining_expired'', FBool remaining)]])"

text \<open>How a batch ends: acknowledged, not committed, or committed with the acknowledgement lost.\<close>

datatype commit_outcome = Acknowledged | NotCommitted | AckLost

definition batch_transaction :: "conn \<Rightarrow> (uuid \<Rightarrow> bool) \<Rightarrow> commit_outcome \<Rightarrow> int \<Rightarrow> (int \<times> bool) proc" where
  "batch_transaction cx locked outcome batch_size =
     (let work = transact (seq (prune_query cx locked batch_size) (\<lambda>rows. lift_result (check_response batch_size rows))) in
      case outcome of
        Acknowledged \<Rightarrow> work
      | NotCommitted \<Rightarrow> pfail (SqlExn ConnectionLost)
      | AckLost \<Rightarrow> pseq work (\<lambda>_. pfail (SqlExn ConnectionLost)))"

text \<open>The \<open>for\<close> loop with its totals; the first argument is the number of rounds left.\<close>

fun batches_loop :: "(nat \<Rightarrow> (int \<times> bool) proc) \<Rightarrow> nat \<Rightarrow> int \<Rightarrow> nat \<Rightarrow> db \<Rightarrow> retention_result \<times> db" where
  "batches_loop step 0 deleted_count batches s = (\<lparr>rs_status = Incomplete, rs_deleted_count = deleted_count, rs_batches = batches\<rparr>, s)"
| "batches_loop step (Suc n) deleted_count batches s =
     (case step batches s of
        (Inl _, s') \<Rightarrow> (\<lparr>rs_status = DatabaseFailure, rs_deleted_count = deleted_count, rs_batches = batches\<rparr>, s')
      | (Inr (deleted, remaining), s') \<Rightarrow>
          if \<not> remaining then (\<lparr>rs_status = Drained, rs_deleted_count = deleted_count + deleted, rs_batches = Suc batches\<rparr>, s')
          else if deleted = 0 then (\<lparr>rs_status = Incomplete, rs_deleted_count = deleted_count + deleted, rs_batches = Suc batches\<rparr>, s')
          else batches_loop step n (deleted_count + deleted) (Suc batches) s')"

record retention_env =
  re_conn :: conn
  re_locked :: "nat \<Rightarrow> uuid \<Rightarrow> bool"
  re_outcome :: "nat \<Rightarrow> commit_outcome"
  re_meanwhile :: "nat \<Rightarrow> db \<Rightarrow> db"
  re_engine_created :: bool
  re_engine_disposed :: bool

definition batch_step :: "retention_env \<Rightarrow> int \<Rightarrow> nat \<Rightarrow> (int \<times> bool) proc" where
  "batch_step env batch_size i =
     pseq (others (re_meanwhile env i)) (\<lambda>_. batch_transaction (re_conn env) (re_locked env i) (re_outcome env i) batch_size)"

definition run_batches :: "retention_env \<Rightarrow> int \<Rightarrow> int \<Rightarrow> db \<Rightarrow> retention_result \<times> db" where
  "run_batches env batch_size max_batches s = batches_loop (batch_step env batch_size) (nat max_batches) 0 0 s"

definition execute_retention :: "retention_env \<Rightarrow> int \<Rightarrow> int \<Rightarrow> db \<Rightarrow> retention_result \<times> db" where
  "execute_retention env batch_size max_batches s =
     (if \<not> re_engine_created env then (\<lparr>rs_status = DatabaseFailure, rs_deleted_count = 0, rs_batches = 0\<rparr>, s)
      else
        let (result, s') = run_batches env batch_size max_batches s in
        if re_engine_disposed env then (result, s')
        else (\<lparr>rs_status = DatabaseFailure, rs_deleted_count = rs_deleted_count result, rs_batches = rs_batches result\<rparr>, s'))"

section \<open>The command\<close>

record db_url =
  ur_drivername :: pystr
  ur_username :: "pystr option"
  ur_password :: "pystr option"
  ur_host :: "pystr option"
  ur_database :: "pystr option"
  ur_query :: "(pystr \<times> pystr) list"

definition present :: "pystr option \<Rightarrow> bool" where
  "present value \<longleftrightarrow> (case value of None \<Rightarrow> False | Some t \<Rightarrow> t \<noteq> [])"

text \<open>\<open>make_url\<close> is SQLAlchemy's parser; every error is an invalid configuration.\<close>

definition validated_url :: "(pystr \<Rightarrow> db_url option) \<Rightarrow> pystr option \<Rightarrow> db_url option" where
  "validated_url make_url value =
     (if \<not> present value then None
      else (case make_url (the value) of
          None \<Rightarrow> None
        | Some url \<Rightarrow>
            if ur_drivername url = lit ''postgresql+psycopg'' \<and> present (ur_username url) \<and> present (ur_password url) \<and>
               present (ur_host url) \<and> present (ur_database url) \<and> ur_query url = []
            then Some url else None))"

record retention_args =
  ra_help :: bool
  ra_execute :: bool
  ra_batch_size :: int
  ra_max_batches :: int

text \<open>
  \<open>main\<close> after the command line was parsed, \<open>None\<close> where the parser refuses it. The result is what is printed
  (nothing but the usage for \<open>--help\<close>) and the exit code; \<open>connect\<close> is the environment a URL leads to.
\<close>

definition retention_main ::
  "(pystr \<Rightarrow> db_url option) \<Rightarrow> (db_url \<Rightarrow> retention_env) \<Rightarrow> retention_args option \<Rightarrow> pystr option \<Rightarrow> db \<Rightarrow>
   (retention_result option \<times> int) \<times> db" where
  "retention_main make_url connect args database_url s =
     (let refused = \<lparr>rs_status = InvalidConfiguration, rs_deleted_count = 0, rs_batches = 0\<rparr> in
      case args of
        None \<Rightarrow> ((Some refused, exit_code InvalidConfiguration), s)
      | Some a \<Rightarrow>
          if ra_help a then ((None, 0), s)
          else if \<not> ra_execute a \<or> \<not> (1 \<le> ra_batch_size a \<and> ra_batch_size a \<le> 1000) \<or>
            \<not> (1 \<le> ra_max_batches a \<and> ra_max_batches a \<le> 100)
          then ((Some refused, exit_code InvalidConfiguration), s)
          else (case validated_url make_url database_url of
              None \<Rightarrow> ((Some refused, exit_code InvalidConfiguration), s)
            | Some url \<Rightarrow>
                let (result, s') = execute_retention (connect url) (ra_batch_size a) (ra_max_batches a) s in
                ((Some result, exit_code (rs_status result)), s')))"

end
