(* ===== verification/RetentionClaims.thy ===== *)
theory RetentionClaims
  imports Retention
begin

text \<open>
  What retention guarantees: a batch removes the oldest expired events and nothing younger than ninety days, the
  totals never claim more than was committed, and undisturbed runs of enough batches drain the backlog.
\<close>

section \<open>One batch\<close>

definition eligible :: "(uuid \<Rightarrow> bool) \<Rightarrow> db \<Rightarrow> event_row list" where
  "eligible locked s = filter (\<lambda>r. event_expired (db_clock s - retention_period) r \<and> \<not> locked (er_id r)) (db_events s)"

definition backlog :: "db \<Rightarrow> event_row list" where
  "backlog s = filter (event_expired (db_clock s - retention_period)) (db_events s)"

lemma append_unlinked:
  assumes "append_security_event cx r s = Inr ((), s')" "er_role_id r = None"
  shows "s' = s\<lparr>db_events := db_events s @ [r\<lparr>er_created_at := db_clock s\<rparr>]\<rparr>" "er_id r \<notin> er_id ` set (db_events s)"
  using assms by (auto simp: append_security_event_def validate_security_event_insert_def seq_require seq_eq_Inr seq_read_db
      require_apply exists_row_iff split: if_splits)

lemma append_prune_event_Inr:
  assumes "append_prune_event cx n s = Inr ((), s')"
  shows "\<exists>row. s' = s\<lparr>db_events := db_events s @ [row], db_drawn := Suc (Suc (db_drawn s))\<rparr> \<and> er_created_at row = db_clock s \<and>
    er_event_type row = lit ''security_events_pruned'' \<and> er_affected_count row = Some n \<and> er_id row \<notin> er_id ` set (db_events s)"
proof -
  let ?row = "prune_row (prune_event_id (db_clock s) (db_ids s (db_drawn s))) (db_ids s (Suc (db_drawn s))) n"
  have "append_security_event cx ?row (s\<lparr>db_drawn := Suc (Suc (db_drawn s))\<rparr>) = Inr ((), s')"
    using assms by (simp add: append_prune_event_def draw_id_def seq_def)
  from append_unlinked [OF this]
  have "s' = s\<lparr>db_drawn := Suc (Suc (db_drawn s)), db_events := db_events s @ [?row\<lparr>er_created_at := db_clock s\<rparr>]\<rparr>"
    "er_id ?row \<notin> er_id ` set (db_events s)" by (simp_all add: prune_row_def)
  then show ?thesis by (intro exI [of _ "?row\<lparr>er_created_at := db_clock s\<rparr>"]) (simp add: prune_row_def)
qed

lemma sorted_take_least:
  assumes "sorted (map f xs)" "x \<in> set (take n xs)" "y \<in> set (drop n xs)"
  shows "f x \<le> (f y :: 'b::linorder)"
  using assms sorted_append [of "map f (take n xs)" "map f (drop n xs)"]
  by (metis append_take_drop_id imageI list.set_map map_append)

lemma prune_victims_props:
  assumes "unique_on er_id (db_events s)" "0 \<le> n"
    and v: "vs = prune_victims locked n (db_clock s - retention_period) (db_events s)"
  shows "set vs \<subseteq> set (eligible locked s)" "distinct vs" "int (length vs) = min n (int (length (eligible locked s)))"
    and "x \<in> set vs \<Longrightarrow> y \<in> set (eligible locked s) \<Longrightarrow> y \<notin> set vs \<Longrightarrow> (er_created_at x, er_id x) \<le> (er_created_at y, er_id y)"
    and "filter (\<lambda>r. er_id r \<in> set (map er_id vs)) (db_events s) = filter (\<lambda>r. r \<in> set vs) (db_events s)"
    and "delete_where (\<lambda>r. er_id r \<in> set (map er_id vs)) (db_events s) = filter (\<lambda>r. r \<notin> set vs) (db_events s)"
    and "length (filter (\<lambda>r. r \<in> set vs) (db_events s)) = length vs"
proof -
  let ?sorted = "sort_key (\<lambda>r. (er_created_at r, er_id r)) (eligible locked s)"
  have vs: "vs = take (nat n) ?sorted" by (simp add: v prune_victims_def eligible_def)
  show sub: "set vs \<subseteq> set (eligible locked s)" unfolding vs by (metis set_sort set_take_subset)
  have d: "distinct (db_events s)" using assms(1) by (simp add: unique_on_def distinct_map)
  then show dv: "distinct vs" unfolding vs by (simp add: eligible_def distinct_take)
  show "int (length vs) = min n (int (length (eligible locked s)))" using assms(2) unfolding vs by simp
  show "(er_created_at x, er_id x) \<le> (er_created_at y, er_id y)" if "x \<in> set vs" "y \<in> set (eligible locked s)" "y \<notin> set vs"
  proof (rule sorted_take_least [where f = "\<lambda>r. (er_created_at r, er_id r)"])
    show "sorted (map (\<lambda>r. (er_created_at r, er_id r)) ?sorted)" by simp
    show "x \<in> set (take (nat n) ?sorted)" using that(1) vs by simp
    have "y \<in> set ?sorted" using that(2) by simp
    then show "y \<in> set (drop (nat n) ?sorted)" using that(3) unfolding vs by (metis Un_iff append_take_drop_id set_append)
  qed
  have same: "er_id r \<in> set (map er_id vs) \<longleftrightarrow> r \<in> set vs" if "r \<in> set (db_events s)" for r
  proof -
    have "r = v" if "v \<in> set vs" "er_id r = er_id v" for v
      using unique_on_eqD [OF assms(1)] that sub \<open>r \<in> set (db_events s)\<close> by (auto simp: eligible_def)
    then show ?thesis by auto
  qed
  then show "filter (\<lambda>r. er_id r \<in> set (map er_id vs)) (db_events s) = filter (\<lambda>r. r \<in> set vs) (db_events s)"
    by (intro filter_cong refl) auto
  show "delete_where (\<lambda>r. er_id r \<in> set (map er_id vs)) (db_events s) = filter (\<lambda>r. r \<notin> set vs) (db_events s)"
    unfolding delete_where_def using same by (intro filter_cong refl) auto
  have "set (filter (\<lambda>r. r \<in> set vs) (db_events s)) = set vs" using sub by (auto simp: eligible_def)
  then show "length (filter (\<lambda>r. r \<in> set vs) (db_events s)) = length vs"
    using distinct_card [OF dv] distinct_card [of "filter (\<lambda>r. r \<in> set vs) (db_events s)"] d by simp
qed

text \<open>What one committed batch did: which events went, what was recorded, what it answered.\<close>

definition pruned :: "(uuid \<Rightarrow> bool) \<Rightarrow> int \<Rightarrow> db \<Rightarrow> int \<times> bool \<Rightarrow> db \<Rightarrow> bool" where
  "pruned locked batch_size s answer s' \<longleftrightarrow>
     (\<exists>vs added. set vs \<subseteq> set (eligible locked s) \<and> distinct vs \<and> fst answer = int (length vs) \<and>
        int (length vs) = min batch_size (int (length (eligible locked s))) \<and>
        (\<forall>x \<in> set vs. \<forall>y \<in> set (eligible locked s) - set vs. (er_created_at x, er_id x) \<le> (er_created_at y, er_id y)) \<and>
        db_events s' = filter (\<lambda>r. r \<notin> set vs) (db_events s) @ added \<and>
        (if vs = [] then added = []
         else \<exists>note. added = [note] \<and> er_created_at note = db_clock s \<and> er_event_type note = lit ''security_events_pruned'' \<and>
           er_affected_count note = Some (int (length vs))) \<and>
        unique_on er_id (db_events s') \<and> snd answer = (backlog s' \<noteq> []) \<and>
        s' = s\<lparr>db_events := db_events s', db_drawn := db_drawn s'\<rparr>)"

lemma prune_Inr:
  assumes "unique_on er_id (db_events s)" "prune_security_events cx locked batch_size s = Inr (answer, s')"
  shows "cx_maintenance cx \<and> 1 \<le> batch_size \<and> batch_size \<le> 1000 \<and> pruned locked batch_size s answer s'"
proof -
  let ?cutoff = "db_clock s - retention_period"
  define vs where "vs = prune_victims locked batch_size ?cutoff (db_events s)"
  let ?ids = "set (map er_id vs)"
  let ?count = "int (length (filter (\<lambda>r. er_id r \<in> ?ids) (db_events s)))"
  let ?s1 = "s\<lparr>db_events := delete_where (\<lambda>r. er_id r \<in> ?ids) (db_events s)\<rparr>"
  have guard: "cx_maintenance cx" "1 \<le> batch_size" "batch_size \<le> 1000"
    and note_run: "(if 0 < ?count then append_prune_event cx ?count else ret ()) ?s1 = Inr ((), s')"
    and answer: "answer = (?count, exists_row (event_expired ?cutoff) (db_events s'))"
    using assms(2) by (auto simp: prune_security_events_def seq_require seq_eq_Inr vs_def split: if_splits)
  have "0 \<le> batch_size" using guard by simp
  note p = prune_victims_props [OF assms(1) this vs_def]
  have count: "?count = int (length vs)" using p(5,7) by simp
  have "\<exists>added d. s' = s\<lparr>db_events := filter (\<lambda>r. r \<notin> set vs) (db_events s) @ added, db_drawn := d\<rparr> \<and>
      (if vs = [] then added = []
       else \<exists>note. added = [note] \<and> er_created_at note = db_clock s \<and> er_event_type note = lit ''security_events_pruned'' \<and>
         er_affected_count note = Some (int (length vs)) \<and> er_id note \<notin> er_id ` {r \<in> set (db_events s). r \<notin> set vs})"
  proof (cases "vs = []")
    case True
    then show ?thesis using note_run by (intro exI [of _ "[]"] exI [of _ "db_drawn s"]) (auto simp: delete_where_def)
  next
    case False
    then have "append_prune_event cx (int (length vs)) ?s1 = Inr ((), s')" using note_run unfolding count by simp
    from append_prune_event_Inr [OF this] False show ?thesis unfolding p(6) by auto
  qed
  then obtain added d where added: "s' = s\<lparr>db_events := filter (\<lambda>r. r \<notin> set vs) (db_events s) @ added, db_drawn := d\<rparr>"
      "if vs = [] then added = []
       else \<exists>note. added = [note] \<and> er_created_at note = db_clock s \<and> er_event_type note = lit ''security_events_pruned'' \<and>
         er_affected_count note = Some (int (length vs)) \<and> er_id note \<notin> er_id ` {r \<in> set (db_events s). r \<notin> set vs}" by blast
  then have events: "db_events s' = filter (\<lambda>r. r \<notin> set vs) (db_events s) @ added" "db_clock s' = db_clock s"
    by simp_all
  have "pruned locked batch_size s answer s'"
    unfolding pruned_def
  proof (rule exI [of _ vs], rule exI [of _ added], intro conjI ballI)
    have "distinct (map er_id (filter (\<lambda>r. r \<notin> set vs) (db_events s)))"
      using assms(1) by (simp add: unique_on_def distinct_map_filter)
    then show "unique_on er_id (db_events s')" using added(2) unfolding events(1) unique_on_def by (auto split: if_splits) (metis (mono_tags, lifting) image_eqI mem_Collect_eq)
    show "snd answer = (backlog s' \<noteq> [])"
      using answer events(2) by (simp add: backlog_def exists_row_iff filter_empty_conv)
    show "s' = s\<lparr>db_events := db_events s', db_drawn := db_drawn s'\<rparr>" using added(1) by simp
  qed (use p count answer events added(2) in auto)
  with guard show ?thesis by simp
qed

text \<open>C30. One call of the prune function that succeeds needed the maintenance capability and a batch size between 1
  and 1000. It deletes exactly as many expired unlocked events as the batch size allows, the oldest first, records one
  event with their number if there were any, changes nothing else, and answers that number and whether expired events
  remain.\<close>

theorem prune_batch_exact:
  assumes "unique_on er_id (db_events s)" "prune_security_events cx locked batch_size s = Inr (answer, s')"
  shows "cx_maintenance cx \<and> 1 \<le> batch_size \<and> batch_size \<le> 1000 \<and> pruned locked batch_size s answer s'"
  using prune_Inr [OF assms] .

section \<open>A run under faults and interference\<close>

lemma pruned_answer:
  assumes "pruned locked b s (n, rem) s'" "0 \<le> b"
  shows "0 \<le> n" "n \<le> b" "rem \<longleftrightarrow> backlog s' \<noteq> []"
proof -
  obtain vs :: "event_row list" where "n = int (length vs)" "int (length vs) = min b (int (length (eligible locked s)))"
    and r: "rem = (backlog s' \<noteq> [])" using assms(1) unfolding pruned_def fst_conv snd_conv by blast
  then show "0 \<le> n" "n \<le> b" by linarith+
  show "rem \<longleftrightarrow> backlog s' \<noteq> []" by (rule r)
qed

lemma check_response_ok:
  assumes "0 \<le> n" "n \<le> b"
  shows "check_response b [[(lit ''deleted_count'', FInt n), (lit ''remaining_expired'', FBool rem)]] = Inr (n, rem)"
proof -
  have "lit ''deleted_count'' \<noteq> lit ''remaining_expired''" by (simp add: lit_def)
  with assms show ?thesis by (simp add: check_response_def)
qed

lemma prune_query_checked:
  assumes "unique_on er_id (db_events s)"
  shows "seq (prune_query cx locked b) (\<lambda>rows. lift_result (check_response b rows)) s = prune_security_events cx locked b s"
proof (cases "prune_security_events cx locked b s")
  case (Inr r)
  obtain n rem s' where r: "r = ((n, rem), s')" by (metis prod.exhaust)
  with Inr have p: "1 \<le> b" "pruned locked b s (n, rem) s'" using prune_Inr [OF assms, of cx locked b "(n, rem)" s'] by simp_all
  then have "0 \<le> n" "n \<le> b" using pruned_answer [OF p(2)] by simp_all
  then have ok: "check_response b [[(lit ''deleted_count'', FInt n), (lit ''remaining_expired'', FBool rem)]] = Inr (n, rem)"
    by (rule check_response_ok)
  have run: "prune_security_events cx locked b s = Inr ((n, rem), s')" using Inr r by (simp only:)
  show ?thesis unfolding prune_query_def seq_def run by (simp only: sum.case prod.case ret_def lift_result_def ok)
qed (simp add: prune_query_def seq_def)

text \<open>What one round did to the database, whatever its outcome.\<close>

lemma batch_step_cases:
  assumes "unique_on er_id (db_events (re_meanwhile env i s))" "batch_step env b i s = (r, s')"
  shows "case r of Inl _ \<Rightarrow> s' = re_meanwhile env i s \<or> (\<exists>answer. pruned (re_locked env i) b (re_meanwhile env i s) answer s')
    | Inr answer \<Rightarrow> pruned (re_locked env i) b (re_meanwhile env i s) answer s'"
proof -
  let ?t = "re_meanwhile env i s" and ?p = "prune_security_events (re_conn env) (re_locked env i) b"
  have work: "transact (seq (prune_query (re_conn env) (re_locked env i) b) (\<lambda>rows. lift_result (check_response b rows))) ?t = transact ?p ?t"
    unfolding transact_def prune_query_checked [OF assms(1)] ..
  have run: "(case re_outcome env i of Acknowledged \<Rightarrow> transact ?p ?t | NotCommitted \<Rightarrow> (Inl (SqlExn ConnectionLost), ?t)
      | AckLost \<Rightarrow> (case transact ?p ?t of (Inl e, u) \<Rightarrow> (Inl e, u) | (Inr x, u) \<Rightarrow> (Inl (SqlExn ConnectionLost), u))) = (r, s')"
    using assms(2) by (cases "re_outcome env i") (auto simp: batch_step_def batch_transaction_def work pseq_def split: prod.splits sum.splits)
  show ?thesis
  proof (cases "?p ?t")
    case (Inl e)
    with run show ?thesis by (cases "re_outcome env i") (auto simp: transact_def)
  next
    case (Inr x)
    obtain answer u where x: "x = (answer, u)" by fastforce
    have "pruned (re_locked env i) b ?t answer u" using prune_Inr [OF assms(1) Inr [unfolded x]] by simp
    with run Inr x show ?thesis by (cases "re_outcome env i"; cases answer) (auto simp: transact_def)
  qed
qed

text \<open>Other requests may add events and let time pass; they do not remove events.\<close>

definition only_adds :: "(db \<Rightarrow> db) \<Rightarrow> bool" where
  "only_adds f \<longleftrightarrow> (\<forall>s. db_clock s \<le> db_clock (f s) \<and> set (db_events s) \<subseteq> set (db_events (f s)) \<and>
     (unique_on er_id (db_events s) \<longrightarrow> unique_on er_id (db_events (f s))))"

definition kept_recent :: "db \<Rightarrow> db \<Rightarrow> bool" where
  "kept_recent s s' \<longleftrightarrow> db_clock s \<le> db_clock s' \<and> unique_on er_id (db_events s') \<and>
     (\<forall>r \<in> set (db_events s). r \<in> set (db_events s') \<or> er_created_at r < db_clock s' - retention_period)"

lemma kept_recent_trans: "kept_recent s t \<Longrightarrow> kept_recent t u \<Longrightarrow> kept_recent s u"
  unfolding kept_recent_def by fastforce

lemma pruned_kept_recent: "pruned locked b s answer s' \<Longrightarrow> kept_recent s s'"
proof -
  assume "pruned locked b s answer s'"
  then obtain vs added where v: "set vs \<subseteq> set (eligible locked s)" "db_events s' = filter (\<lambda>r. r \<notin> set vs) (db_events s) @ added"
    "unique_on er_id (db_events s')" "s' = s\<lparr>db_events := db_events s', db_drawn := db_drawn s'\<rparr>" unfolding pruned_def by blast
  have "db_clock s' = db_clock s" by (subst v(4)) simp
  then show ?thesis using v(1-3) by (auto simp: kept_recent_def eligible_def event_expired_def)
qed

lemma batch_step_kept:
  assumes "only_adds (re_meanwhile env i)" "unique_on er_id (db_events s)" "batch_step env b i s = (r, s')"
  shows "kept_recent s s'"
proof -
  have m: "kept_recent s (re_meanwhile env i s)" using assms(1,2) by (auto simp: only_adds_def kept_recent_def)
  then have "unique_on er_id (db_events (re_meanwhile env i s))" by (simp add: kept_recent_def)
  from batch_step_cases [OF this assms(3)] show ?thesis
    using m by (cases r) (auto dest: pruned_kept_recent intro: kept_recent_trans [OF m])
qed

lemma batches_loop_kept:
  assumes "\<And>i. only_adds (re_meanwhile env i)" "unique_on er_id (db_events s)" "0 \<le> b"
    and "batches_loop (batch_step env b) n d k s = (res, s')"
  shows "kept_recent s s' \<and> k \<le> rs_batches res \<and> rs_batches res \<le> k + n \<and> d \<le> rs_deleted_count res \<and>
    rs_deleted_count res \<le> d + b * int (rs_batches res - k) \<and> rs_status res \<noteq> InvalidConfiguration \<and>
    (rs_status res = Drained \<longrightarrow> backlog s' = [])"
  using assms(2,4)
proof (induction n arbitrary: d k s)
  case 0
  then show ?case by (auto simp: kept_recent_def)
next
  case (Suc n)
  obtain r t where step: "batch_step env b k s = (r, t)" by fastforce
  note kept = batch_step_kept [OF assms(1) Suc.prems(1) step]
  then have u: "unique_on er_id (db_events t)" by (simp add: kept_recent_def)
  show ?case
  proof (cases r)
    case (Inl e)
    with Suc.prems step kept show ?thesis by auto
  next
    case (Inr answer)
    obtain m rem where a: "answer = (m, rem)" by fastforce
    have "unique_on er_id (db_events (re_meanwhile env k s))" using assms(1) Suc.prems(1) by (simp add: only_adds_def)
    from batch_step_cases [OF this step] Inr a have p: "pruned (re_locked env k) b (re_meanwhile env k s) (m, rem) t" by simp
    note m = pruned_answer [OF p assms(3)]
    show ?thesis
    proof (cases "rem \<and> m \<noteq> 0")
      case True
      then have run: "batches_loop (batch_step env b) n (d + m) (Suc k) t = (res, s')" using Suc.prems(2) step Inr a by simp
      have ih: "kept_recent t s'" "Suc k \<le> rs_batches res" "rs_batches res \<le> Suc k + n" "d + m \<le> rs_deleted_count res"
        "rs_deleted_count res \<le> (d + m) + b * int (rs_batches res - Suc k)" "rs_status res \<noteq> InvalidConfiguration"
        "rs_status res = Drained \<longrightarrow> backlog s' = []"
        using Suc.IH [OF u run] by blast+
      have "int (rs_batches res - k) = int (rs_batches res - Suc k) + 1" using ih(2) by linarith
      then have "b * int (rs_batches res - k) = b * int (rs_batches res - Suc k) + b" by (metis distrib_left mult_1_right)
      then show ?thesis using ih m kept kept_recent_trans [OF kept ih(1)] by simp
    next
      case False
      with Suc.prems step Inr a m kept show ?thesis by (auto split: if_splits)
    qed
  qed
qed

text \<open>C29. Whatever rows are locked, whatever other requests add in the meantime, and however each commit and each
  acknowledgement fails, a run removes no event younger than ninety days, uses at most the rounds it was given and
  claims at most a full batch per acknowledged round, and reports \<open>drained\<close> only when no expired event is left in the
  database it last committed.\<close>

theorem retention_keeps_recent:
  assumes "\<And>i. only_adds (re_meanwhile env i)" "unique_on er_id (db_events s)" "1 \<le> batch_size" "1 \<le> max_batches"
    and "run_batches env batch_size max_batches s = (res, s')"
  shows "(\<forall>r \<in> set (db_events s). r \<notin> set (db_events s') \<longrightarrow> er_created_at r < db_clock s' - retention_period) \<and>
    int (rs_batches res) \<le> max_batches \<and> 0 \<le> rs_deleted_count res \<and> rs_deleted_count res \<le> batch_size * int (rs_batches res) \<and>
    (exit_code (rs_status res) = 0 \<longrightarrow> backlog s' = [])"
proof -
  have "0 \<le> batch_size" using assms(3) by simp
  note l = batches_loop_kept [OF assms(1,2) this assms(5) [unfolded run_batches_def]]
  have "exit_code (rs_status res) = 0 \<longleftrightarrow> rs_status res = Drained" by (cases "rs_status res") simp_all
  with l assms(4) show ?thesis by (auto simp: kept_recent_def)
qed

section \<open>An undisturbed run\<close>

definition note_id :: "db \<Rightarrow> nat \<Rightarrow> uuid" where
  "note_id s i = prune_event_id (db_clock s) (db_ids s i)"

text \<open>The next random identifiers give \<open>rounds\<close> fresh event identifiers of the accepted form.\<close>

definition prune_supply :: "nat \<Rightarrow> db \<Rightarrow> bool" where
  "prune_supply rounds s \<longleftrightarrow>
     (\<forall>i \<in> {db_drawn s ..< db_drawn s + 2 * rounds}. check_uuid_text (db_ids s i) \<and> note_id s i \<notin> er_id ` set (db_events s)) \<and>
     inj_on (note_id s) {db_drawn s ..< db_drawn s + 2 * rounds}"

lemma prune_event_id_version: "check_uuid_text r \<Longrightarrow> uuid_version (prune_event_id clock r) = Some 7"
proof -
  assume r: "check_uuid_text r"
  define m where "m = lead12 (nat ((clock div 1000) mod 2 ^ 64))"
  have id: "prune_event_id clock r = (m * 16 + 7) * 2 ^ 76 + r mod 2 ^ 76" by (simp add: prune_event_id_def m_def)
  have "prune_event_id clock r div 2 ^ 76 = m * 16 + 7" unfolding id by simp
  then have "uuid_digit 76 (prune_event_id clock r) = 7" by (simp add: uuid_digit_def drop_bit_eq_div)
  moreover have "prune_event_id clock r div 2 ^ 60 mod 16 = r div 2 ^ 60 mod 16"
  proof -
    have "take_bit 4 (drop_bit 60 (prune_event_id clock r)) = take_bit 4 (drop_bit 60 (take_bit 76 (prune_event_id clock r)))"
      by (simp add: drop_bit_take_bit)
    also have "take_bit 76 (prune_event_id clock r) = take_bit 76 r" unfolding id take_bit_eq_mod by (simp only: mod_mult_self3 mod_mod_trivial)
    also have "take_bit 4 (drop_bit 60 (take_bit 76 r)) = take_bit 4 (drop_bit 60 r)" by (simp add: drop_bit_take_bit)
    finally show ?thesis by (simp add: take_bit_eq_mod drop_bit_eq_div)
  qed
  then have "uuid_digit 60 (prune_event_id clock r) = uuid_digit 60 r" by (simp add: uuid_digit_def drop_bit_eq_div)
  ultimately show ?thesis using r by (simp add: uuid7_text [symmetric] check_uuid7_text_def check_uuid_text_def)
qed

lemma prune_row_accepted:
  assumes "check_uuid_text r" "check_uuid_text c" "0 \<le> n" "n \<le> 1000"
  shows "audit_shape snapshot_lists (prune_row (prune_event_id clock r) c n) \<and> row_casts_ok (prune_row (prune_event_id clock r) c n)"
proof -
  let ?e = "\<lparr>ae_event_type = SECURITY_EVENTS_PRUNED, ae_result = R_SUCCESS, ae_reason_code = Some Y_RETENTION_EXPIRED, ae_user_id = None,
    ae_session_id = None, ae_membership_id = None, ae_role_id = None, ae_target_membership_id = None,
    ae_permission_id = None, ae_subject_digest = None, ae_subject_kind = None, ae_subject_key_id = None, ae_affected_count = Some n\<rparr>"
  have row: "event_to_row ?e (prune_event_id clock r) c 0 = prune_row (prune_event_id clock r) c n"
    by (simp add: event_to_row_def prune_row_def)
  have "event_ok ?e" using assms(3,4)
    by (simp add: event_ok_def validate_event_def args_of_def of_option_def valid_outcome_def valid_links_def valid_permission_def
        valid_subject_def valid_count_def identity_args_def policy_def reason_allowed_def given_def alien_def role_event_types_def
        membership_role_event_types_def role_permission_event_types_def)
  then show ?thesis using validation_iff_checks [of ?e "prune_event_id clock r" c 0] prune_event_id_version [OF assms(1)] assms(2)
    unfolding row by simp
qed

lemma append_prune_event_run:
  assumes "cx_maintenance cx" "1 \<le> n" "n \<le> 1000" "prune_supply (Suc k) s" "set (db_events t) \<subseteq> set (db_events s)"
    and t: "db_ids t = db_ids s" "db_drawn t = db_drawn s" "db_clock t = db_clock s"
  shows "\<exists>row. append_prune_event cx n t = Inr ((), t\<lparr>db_events := db_events t @ [row], db_drawn := db_drawn s + 2\<rparr>) \<and> er_id row = note_id s (db_drawn s)"
proof -
  let ?row = "prune_row (note_id s (db_drawn s)) (db_ids s (Suc (db_drawn s))) n"
  have ids: "check_uuid_text (db_ids s (db_drawn s))" "check_uuid_text (db_ids s (Suc (db_drawn s)))"
    "note_id s (db_drawn s) \<notin> er_id ` set (db_events s)" using assms(4) by (simp_all add: prune_supply_def)
  have "append_security_event cx ?row (t\<lparr>db_drawn := Suc (Suc (db_drawn s))\<rparr>) = Inr ((), t\<lparr>db_drawn := Suc (Suc (db_drawn s)),
      db_events := db_events t @ [?row\<lparr>er_created_at := db_clock t\<rparr>]\<rparr>)"
  proof (rule trans [OF append_ok])
    show "prune_guard cx ?row" using assms(1-3) by (simp add: prune_guard_def prune_row_def)
    show "audit_shape snapshot_lists ?row" "row_casts_ok ?row"
      using prune_row_accepted [OF ids(1,2)] assms(2,3) by (simp_all add: note_id_def)
    show "er_id ?row \<notin> er_id ` set (db_events (t\<lparr>db_drawn := Suc (Suc (db_drawn s))\<rparr>))"
      using ids(3) assms(5) by (auto simp: prune_row_def)
  qed (simp_all add: prune_row_def links_exist_def)
  then have "append_prune_event cx n t = Inr ((), t\<lparr>db_events := db_events t @ [?row\<lparr>er_created_at := db_clock t\<rparr>], db_drawn := db_drawn s + 2\<rparr>)"
    using t by (simp add: append_prune_event_def draw_id_def seq_def note_id_def)
  then show ?thesis by (intro exI [of _ "?row\<lparr>er_created_at := db_clock t\<rparr>"]) (simp add: prune_row_def)
qed

lemma prune_supply_later:
  assumes "prune_supply (Suc k) s" "db_ids s' = db_ids s" "db_clock s' = db_clock s"
    and "db_drawn s' = db_drawn s \<and> er_id ` set (db_events s') \<subseteq> er_id ` set (db_events s) \<or>
      db_drawn s' = db_drawn s + 2 \<and> er_id ` set (db_events s') \<subseteq> insert (note_id s (db_drawn s)) (er_id ` set (db_events s))"
  shows "prune_supply k s'"
proof -
  have note_id: "note_id s' = note_id s" using assms(2,3) by (simp add: note_id_def fun_eq_iff)
  let ?A = "{db_drawn s ..< db_drawn s + 2 * Suc k}" and ?B = "{db_drawn s' ..< db_drawn s' + 2 * k}"
  have sub: "?B \<subseteq> ?A" using assms(4) by auto
  have inj: "inj_on (note_id s) ?A" and fresh: "\<And>i. i \<in> ?A \<Longrightarrow> check_uuid_text (db_ids s i) \<and> note_id s i \<notin> er_id ` set (db_events s)"
    using assms(1) unfolding prune_supply_def by blast+
  have "note_id s i \<notin> er_id ` set (db_events s')" if "i \<in> ?B" for i
    using assms(4)
  proof
    assume late: "db_drawn s' = db_drawn s + 2 \<and> er_id ` set (db_events s') \<subseteq> insert (note_id s (db_drawn s)) (er_id ` set (db_events s))"
    then have "db_drawn s \<in> ?A" "i \<in> ?A" "i \<noteq> db_drawn s" using that sub by auto
    then have "note_id s i \<noteq> note_id s (db_drawn s)" using inj by (auto dest: inj_onD)
    with late fresh [OF \<open>i \<in> ?A\<close>] show ?thesis by blast
  next
    assume "db_drawn s' = db_drawn s \<and> er_id ` set (db_events s') \<subseteq> er_id ` set (db_events s)"
    with fresh [of i] that sub show ?thesis by blast
  qed
  with fresh sub inj_on_subset [OF inj sub] show ?thesis unfolding prune_supply_def note_id assms(2) by blast
qed

text \<open>With the capability, a legal batch size and identifiers, a batch succeeds.\<close>

lemma prune_runs:
  assumes "cx_maintenance cx" "1 \<le> b" "b \<le> 1000" "unique_on er_id (db_events s)" "prune_supply (Suc k) s"
  shows "\<exists>answer s'. prune_security_events cx locked b s = Inr (answer, s') \<and> prune_supply k s'"
proof -
  let ?cutoff = "db_clock s - retention_period"
  define vs where "vs = prune_victims locked b ?cutoff (db_events s)"
  let ?ids = "set (map er_id vs)"
  let ?count = "int (length (filter (\<lambda>r. er_id r \<in> ?ids) (db_events s)))"
  let ?s1 = "s\<lparr>db_events := delete_where (\<lambda>r. er_id r \<in> ?ids) (db_events s)\<rparr>"
  have "0 \<le> b" using assms(2) by simp
  note p = prune_victims_props [OF assms(4) this vs_def]
  have count: "?count = int (length vs)" "length vs \<le> nat b" using p(3,5,7) by simp_all
  have sub: "set (db_events ?s1) \<subseteq> set (db_events s)" by (auto simp: delete_where_def)
  have "\<exists>s'. (if 0 < ?count then append_prune_event cx ?count else ret ()) ?s1 = Inr ((), s') \<and> prune_supply k s'"
  proof (cases "0 < ?count")
    case True
    then have "1 \<le> ?count" "?count \<le> 1000" using count assms(3) by linarith+
    from append_prune_event_run [OF assms(1) this assms(5) sub] obtain row where
      row: "append_prune_event cx ?count ?s1 = Inr ((), ?s1\<lparr>db_events := db_events ?s1 @ [row], db_drawn := db_drawn s + 2\<rparr>)"
      "er_id row = note_id s (db_drawn s)" by auto
    have "prune_supply k (?s1\<lparr>db_events := db_events ?s1 @ [row], db_drawn := db_drawn s + 2\<rparr>)"
      by (rule prune_supply_later [OF assms(5)]) (use sub row(2) in auto)
    with row(1) True show ?thesis by simp
  next
    case False
    moreover have "prune_supply k ?s1" by (rule prune_supply_later [OF assms(5)]) (use sub in auto)
    ultimately show ?thesis by simp
  qed
  then obtain s' where run: "(if 0 < ?count then append_prune_event cx ?count else ret ()) ?s1 = Inr ((), s')" and "prune_supply k s'" by blast
  have "prune_security_events cx locked b s = Inr ((?count, exists_row (event_expired ?cutoff) (db_events s')), s')"
    unfolding prune_security_events_def seq_require seq_read_db seq_write_db vs_def [symmetric]
      seq_Inr [where m = "if 0 < ?count then append_prune_event cx ?count else ret ()" and s = ?s1, OF run]
    using assms(1-3) by simp
  with \<open>prune_supply k s'\<close> show ?thesis by blast
qed

lemma pruned_backlog:
  assumes "pruned (\<lambda>_. False) b s (n, rem) s'" "unique_on er_id (db_events s)"
  shows "int (length (backlog s')) = int (length (backlog s)) - n \<and> n = min b (int (length (backlog s))) \<and> db_clock s' = db_clock s"
proof -
  obtain vs added where v: "set vs \<subseteq> set (eligible (\<lambda>_. False) s)" "distinct vs" "n = int (length vs)"
      "int (length vs) = min b (int (length (eligible (\<lambda>_. False) s)))" "db_events s' = filter (\<lambda>r. r \<notin> set vs) (db_events s) @ added"
      "if vs = [] then added = [] else \<exists>note. added = [note] \<and> er_created_at note = db_clock s \<and>
         er_event_type note = lit ''security_events_pruned'' \<and> er_affected_count note = Some (int (length vs))"
      "s' = s\<lparr>db_events := db_events s', db_drawn := db_drawn s'\<rparr>"
    using assms(1) unfolding pruned_def fst_conv by blast
  have clock: "db_clock s' = db_clock s" by (subst v(7)) simp
  have all: "eligible (\<lambda>_. False) s = backlog s" by (simp add: eligible_def backlog_def)
  have "filter (event_expired (db_clock s - retention_period)) added = []"
    using v(6) by (auto simp: event_expired_def retention_period_def minutes_def split: if_splits)
  then have "backlog s' = filter (\<lambda>r. r \<notin> set vs) (backlog s)"
    unfolding backlog_def v(5) clock by (simp add: conj_commute)
  moreover have "distinct (backlog s)" using assms(2) by (simp add: backlog_def unique_on_def distinct_map)
  then have "card (set (filter (\<lambda>r. r \<in> set vs) (backlog s))) = length (filter (\<lambda>r. r \<in> set vs) (backlog s))"
    by (intro distinct_card) simp
  moreover have "set (filter (\<lambda>r. r \<in> set vs) (backlog s)) = set vs" using v(1) unfolding all by auto
  then have "length (filter (\<lambda>r. r \<in> set vs) (backlog s)) = length vs"
    using distinct_card [OF v(2)] calculation(2) by simp
  ultimately have "int (length (backlog s')) = int (length (backlog s)) - n"
    using sum_length_filter_compl [of "\<lambda>r. r \<in> set vs" "backlog s"] v(3) by simp
  with v(3,4) all clock show ?thesis by simp
qed

text \<open>The environment of a run nothing disturbs.\<close>

definition undisturbed :: "retention_env \<Rightarrow> bool" where
  "undisturbed env \<longleftrightarrow> cx_maintenance (re_conn env) \<and> re_engine_created env \<and> re_engine_disposed env \<and>
     (\<forall>i. re_locked env i = (\<lambda>_. False) \<and> re_outcome env i = Acknowledged \<and> re_meanwhile env i = id)"

lemma undisturbed_step:
  assumes "undisturbed env" "1 \<le> b" "b \<le> 1000" "unique_on er_id (db_events s)" "prune_supply (Suc k) s"
  shows "\<exists>n rem s'. batch_step env b i s = (Inr (n, rem), s') \<and> pruned (\<lambda>_. False) b s (n, rem) s' \<and> prune_supply k s' \<and>
    unique_on er_id (db_events s')"
proof -
  have env: "cx_maintenance (re_conn env)" "re_locked env i = (\<lambda>_. False)" "re_outcome env i = Acknowledged" "re_meanwhile env i = id"
    using assms(1) by (simp_all add: undisturbed_def)
  obtain n rem s' where run: "prune_security_events (re_conn env) (\<lambda>_. False) b s = Inr ((n, rem), s')" and "prune_supply k s'"
    using prune_runs [OF env(1) assms(2-5), of "\<lambda>_. False"] by force
  have p: "pruned (\<lambda>_. False) b s (n, rem) s'" using prune_Inr [OF assms(4) run] by simp
  have "batch_step env b i s = (Inr (n, rem), s')"
    by (simp add: batch_step_def batch_transaction_def env transact_def prune_query_checked [OF assms(4)] run)
  moreover have "unique_on er_id (db_events s')" using pruned_kept_recent [OF p] by (simp add: kept_recent_def)
  ultimately show ?thesis using p \<open>prune_supply k s'\<close> by blast
qed

lemma undisturbed_round:
  assumes "undisturbed env" "1 \<le> b" "b \<le> 1000" "unique_on er_id (db_events s)" "prune_supply (Suc k) s"
  obtains n t where "batch_step env b i s = (Inr (n, backlog t \<noteq> []), t)" "n = min b (int (length (backlog s)))"
    "int (length (backlog t)) = int (length (backlog s)) - n" "db_clock t = db_clock s" "kept_recent s t" "prune_supply k t"
    "unique_on er_id (db_events t)"
proof -
  obtain n rem t where step: "batch_step env b i s = (Inr (n, rem), t)" and p: "pruned (\<lambda>_. False) b s (n, rem) t"
    and t: "prune_supply k t" "unique_on er_id (db_events t)"
    using undisturbed_step [OF assms, of i] by blast
  have "0 \<le> b" using assms(2) by simp
  from pruned_answer(3) [OF p this] have "rem = (backlog t \<noteq> [])" .
  with that [of n t] step pruned_backlog [OF p assms(4)] pruned_kept_recent [OF p] t show thesis by blast
qed

definition drained_from :: "int \<Rightarrow> db \<Rightarrow> retention_result \<times> db \<Rightarrow> bool" where
  "drained_from d s result \<longleftrightarrow>
     rs_status (fst result) = Drained \<and> rs_deleted_count (fst result) = d + int (length (backlog s)) \<and>
     db_clock (snd result) = db_clock s \<and> backlog (snd result) = [] \<and> kept_recent s (snd result)"

lemma undisturbed_loop:
  assumes "undisturbed env" "1 \<le> b" "b \<le> 1000"
  shows "unique_on er_id (db_events s) \<Longrightarrow> prune_supply (Suc k) s \<Longrightarrow> int (length (backlog s)) \<le> b * int (Suc k) \<Longrightarrow>
    drained_from d s (batches_loop (batch_step env b) (Suc k) d j s)"
proof (induction k arbitrary: s d j)
  case 0
  obtain n t where r: "batch_step env b j s = (Inr (n, backlog t \<noteq> []), t)" "n = min b (int (length (backlog s)))"
    "int (length (backlog t)) = int (length (backlog s)) - n" "db_clock t = db_clock s" "kept_recent s t"
    using undisturbed_round [OF assms "0.prems"(1,2), of j] by metis
  then have "backlog t = []" "n = int (length (backlog s))" using "0.prems"(3) by auto
  with r(1,4,5) show ?case by (simp add: drained_from_def)
next
  case (Suc k)
  obtain n t where r: "batch_step env b j s = (Inr (n, backlog t \<noteq> []), t)" "n = min b (int (length (backlog s)))"
    "int (length (backlog t)) = int (length (backlog s)) - n" "db_clock t = db_clock s" "kept_recent s t" "prune_supply (Suc k) t"
    "unique_on er_id (db_events t)"
    using undisturbed_round [OF assms Suc.prems(1,2), of j] by metis
  show ?case
  proof (cases "backlog t = []")
    case True
    then have "n = int (length (backlog s))" using r(3) by simp
    with r(1,4,5) True show ?thesis by (simp add: drained_from_def)
  next
    case False
    then have "0 < length (backlog t)" by simp
    then have more: "n \<noteq> 0" "n = b" using r(2,3) assms(2) by linarith+
    then have "int (length (backlog t)) \<le> b * int (Suc k)" using r(3) Suc.prems(3) by (simp add: distrib_left)
    note rest = Suc.IH [OF r(7,6) this, of "d + n" "Suc j"]
    have "batches_loop (batch_step env b) (Suc (Suc k)) d j s = batches_loop (batch_step env b) (Suc k) (d + n) (Suc j) t"
      using r(1) False more(1) by simp
    with rest r(3,4) kept_recent_trans [OF r(5)] show ?thesis unfolding drained_from_def by simp
  qed
qed

text \<open>C28. Retention gets done: the command, called to execute with legal limits, a PostgreSQL URL with all its parts
  and the maintenance capability, and not disturbed by locks, other requests or lost connections, ends with exit code
  0 whenever the backlog fits its batches. It then reports exactly the size of the backlog, every expired event is
  gone and every other event is still there.\<close>

theorem retention_drains:
  assumes "ra_execute a" "\<not> ra_help a" "1 \<le> ra_batch_size a" "ra_batch_size a \<le> 1000" "1 \<le> ra_max_batches a" "ra_max_batches a \<le> 100"
    and "validated_url make_url database_url = Some url" "undisturbed (connect url)"
    and "unique_on er_id (db_events s)" "prune_supply (nat (ra_max_batches a)) s"
    and "int (length (backlog s)) \<le> ra_batch_size a * ra_max_batches a"
  shows "\<exists>result s'. retention_main make_url connect (Some a) database_url s = ((Some result, 0), s') \<and>
    rs_deleted_count result = int (length (backlog s)) \<and> db_clock s' = db_clock s \<and>
    (\<forall>r \<in> set (db_events s). r \<in> set (db_events s') \<longleftrightarrow> \<not> event_expired (db_clock s - retention_period) r)"
proof -
  obtain k where k: "nat (ra_max_batches a) = Suc k" using assms(5) by (cases "nat (ra_max_batches a)") auto
  then have "ra_max_batches a = int (Suc k)" using assms(5) by linarith
  then have loop: "drained_from 0 s (run_batches (connect url) (ra_batch_size a) (ra_max_batches a) s)"
    unfolding run_batches_def k using undisturbed_loop [OF assms(8) assms(3,4) assms(9)] assms(10,11) k by simp
  obtain result s' where run: "run_batches (connect url) (ra_batch_size a) (ra_max_batches a) s = (result, s')" by fastforce
  have d: "rs_status result = Drained" "rs_deleted_count result = int (length (backlog s))" "db_clock s' = db_clock s"
    "backlog s' = []" "kept_recent s s'" using loop run by (simp_all add: drained_from_def)
  have "re_engine_created (connect url)" "re_engine_disposed (connect url)" using assms(8) by (simp_all add: undisturbed_def)
  then have "retention_main make_url connect (Some a) database_url s = ((Some result, 0), s')"
    using assms(1-7) run d(1) by (simp add: retention_main_def execute_retention_def)
  moreover have "r \<in> set (db_events s') \<longleftrightarrow> \<not> event_expired (db_clock s - retention_period) r" if "r \<in> set (db_events s)" for r
    using that d(3-5) by (fastforce simp: backlog_def kept_recent_def event_expired_def filter_empty_conv)
  ultimately show ?thesis using d(2,3) by blast
qed

section \<open>Instances\<close>

definition old_event :: event_row where
  "old_event = (prune_row 1 2 3)\<lparr>er_created_at := - (10 ^ 14)\<rparr>"

definition retention_db :: db where
  "retention_db = sample_db\<lparr>db_events := [old_event], db_ids := \<lambda>i. 2 ^ 63 + i\<rparr>"

definition retention_env_sample :: retention_env where
  "retention_env_sample = \<lparr>re_conn = sample_conn\<lparr>cx_maintenance := True\<rparr>, re_locked = (\<lambda>_ _. False), re_outcome = (\<lambda>_. Acknowledged),
     re_meanwhile = (\<lambda>_. id), re_engine_created = True, re_engine_disposed = True\<rparr>"

lemma retention_db_fields:
  "db_events retention_db = [old_event]" "db_clock retention_db = 2000" "db_drawn retention_db = 2" "db_ids retention_db i = 2 ^ 63 + i"
  by (simp_all add: retention_db_def sample_db_def)

lemma retention_db_ok:
  "unique_on er_id (db_events retention_db)" "backlog retention_db = [old_event]" "prune_supply 1 retention_db" "undisturbed retention_env_sample"
proof -
  show "unique_on er_id (db_events retention_db)" by (simp add: retention_db_fields unique_on_def)
  show "backlog retention_db = [old_event]"
    by (simp add: backlog_def retention_db_fields event_expired_def retention_period_def minutes_def old_event_def prune_row_def)
  show "undisturbed retention_env_sample" by (simp add: undisturbed_def retention_env_sample_def)
  have two: "{db_drawn retention_db ..< db_drawn retention_db + 2 * 1} = {2, 3}" by (auto simp: retention_db_fields)
  have small: "lead12 2 = 2" by (subst lead12.simps) simp
  show "prune_supply 1 retention_db"
    unfolding prune_supply_def two
    by (auto simp: retention_db_fields note_id_def prune_event_id_def check_uuid_text_def uuid_digit_def drop_bit_eq_div
        old_event_def prune_row_def small)
qed

theorem retention_drains_witness:
  "\<exists>result s'. retention_main (\<lambda>_. Some \<lparr>ur_drivername = lit ''postgresql+psycopg'', ur_username = Some (lit ''u''), ur_password = Some (lit ''p''),
      ur_host = Some (lit ''h''), ur_database = Some (lit ''d''), ur_query = []\<rparr>) (\<lambda>_. retention_env_sample)
      (Some \<lparr>ra_help = False, ra_execute = True, ra_batch_size = 1000, ra_max_batches = 1\<rparr>) (Some (lit ''url'')) retention_db =
     ((Some result, 0), s') \<and> rs_deleted_count result = 1 \<and> old_event \<notin> set (db_events s')"
proof -
  let ?url = "\<lparr>ur_drivername = lit ''postgresql+psycopg'', ur_username = Some (lit ''u''), ur_password = Some (lit ''p''),
      ur_host = Some (lit ''h''), ur_database = Some (lit ''d''), ur_query = []\<rparr>"
  let ?args = "\<lparr>ra_help = False, ra_execute = True, ra_batch_size = 1000, ra_max_batches = 1\<rparr>"
  have url: "validated_url (\<lambda>_. Some ?url) (Some (lit ''url'')) = Some ?url"
    by (simp add: validated_url_def present_def lit_def)
  have "event_expired (db_clock retention_db - retention_period) old_event"
    using retention_db_ok(2) by (metis backlog_def filter_eq_ConsD list.set_intros(1) mem_Collect_eq set_filter)
  with retention_drains [of ?args, OF _ _ _ _ _ _ url, of "\<lambda>_. retention_env_sample" retention_db] retention_db_ok
  show ?thesis by (auto simp: retention_db_fields)
qed

theorem prune_batch_exact_witness:
  "\<exists>answer s'. prune_security_events (re_conn retention_env_sample) (\<lambda>_. False) 10 retention_db = Inr (answer, s') \<and> fst answer = 1 \<and>
     pruned (\<lambda>_. False) 10 retention_db answer s'"
proof -
  have "cx_maintenance (re_conn retention_env_sample)" by (simp add: retention_env_sample_def)
  then obtain answer s' where run: "prune_security_events (re_conn retention_env_sample) (\<lambda>_. False) 10 retention_db = Inr (answer, s')"
    using prune_runs [of "re_conn retention_env_sample" 10 retention_db 0 "\<lambda>_. False"] retention_db_ok by auto
  note exact = prune_batch_exact [OF retention_db_ok(1) run]
  then have "fst answer = 1"
    using pruned_backlog [of 10 retention_db "fst answer" "snd answer" s'] retention_db_ok(1,2) by simp
  with run exact show ?thesis by blast
qed

theorem retention_keeps_recent_witness:
  "\<exists>res s'. run_batches (retention_env_sample\<lparr>re_outcome := \<lambda>_. AckLost\<rparr>) 1000 3 retention_db = (res, s') \<and>
     rs_deleted_count res \<le> 1000 * int (rs_batches res) \<and> int (rs_batches res) \<le> 3"
proof -
  let ?env = "retention_env_sample\<lparr>re_outcome := \<lambda>_. AckLost\<rparr>"
  obtain res s' where run: "run_batches ?env 1000 3 retention_db = (res, s')" by fastforce
  have "only_adds (re_meanwhile ?env i)" for i by (simp add: only_adds_def retention_env_sample_def)
  from retention_keeps_recent [OF this retention_db_ok(1) _ _ run] run show ?thesis by auto
qed

end
