(* ===== verification/Diagnostics.thy ===== *)
theory Diagnostics
  imports HttpGuards Settings
begin

text \<open>
  \<open>core/context.py\<close>, \<open>core/middleware.py\<close>, \<open>core/logging.py\<close>: the identifiers of a request, the middleware that
  binds and clears them, and the closed projection every log line passes. Clocks, random identifiers, the route
  templates and what the inner application answers are arguments.
\<close>

section \<open>Values in log events\<close>

text \<open>\<open>LOther\<close> and \<open>KOther\<close> stand for any other object, a key with its \<open>str\<close>.\<close>

datatype log_key = KStr pystr | KOther pystr

datatype log_value =
    LNone
  | LBool bool
  | LInt int
  | LFloat pyfloat
  | LStr pystr
  | LUuid uuid
  | LList "log_value list"
  | LTuple "log_value list"
  | LDict "(log_key \<times> log_value) list"
  | LOther

section \<open>Request context\<close>

type_synonym log_context = "(pystr \<times> log_value) list"

definition REQUEST_ID :: rx where
  "REQUEST_ID = between 1 64 (Class [(65, 90), (97, 122), (48, 57), (46, 46), (95, 95), (45, 45)])"

definition new_correlation_id :: "uuid \<Rightarrow> pystr" where
  "new_correlation_id random = hex_text 32 random"

definition safe_request_id :: "uuid \<Rightarrow> pystr option \<Rightarrow> pystr" where
  "safe_request_id random value =
     (case value of
        None \<Rightarrow> new_correlation_id random
      | Some v \<Rightarrow> if fullmatch REQUEST_ID v then v else new_correlation_id random)"

definition put_context :: "pystr \<Rightarrow> log_value \<Rightarrow> log_context \<Rightarrow> log_context" where
  "put_context k v ctx = (k, v) # filter (\<lambda>(k', _). k' \<noteq> k) ctx"

definition bind_request_context :: "uuid \<Rightarrow> uuid \<Rightarrow> pystr \<Rightarrow> log_context \<Rightarrow> log_context" where
  "bind_request_context random internal correlation_id ctx =
     put_context (lit ''internal_correlation_id'') (LUuid internal)
       (put_context (lit ''correlation_id'') (LStr (safe_request_id random (Some correlation_id))) ctx)"

definition get_correlation_id :: "log_context \<Rightarrow> pystr option" where
  "get_correlation_id ctx =
     (case map_of ctx (lit ''correlation_id'') of Some (LStr value) \<Rightarrow> Some value | _ \<Rightarrow> None)"

definition get_internal_correlation_id :: "log_context \<Rightarrow> uuid option" where
  "get_internal_correlation_id ctx =
     (case map_of ctx (lit ''internal_correlation_id'') of
        Some (LUuid value) \<Rightarrow> if uuid_version value = Some 7 then Some value else None
      | _ \<Rightarrow> None)"

definition clear_request_context :: "log_context \<Rightarrow> log_context" where
  "clear_request_context ctx = []"

section \<open>Masking\<close>

definition SENSITIVE_KEYS :: "pystr list" where
  "SENSITIVE_KEYS = map lit
     [''password'', ''password_hash'', ''bearer'', ''session_bearer'', ''state_token'', ''csrf'', ''x-csrf-token'',
      ''session_token'', ''reset_token'', ''csrf_token'', ''cookie'', ''set-cookie'', ''passwd'', ''secret'', ''token'',
      ''access_token'', ''refresh_token'', ''authorization'', ''api_key'', ''apikey'', ''private_key'', ''national_id'',
      ''email'', ''normalized_email'', ''ip'', ''ip_address'', ''subject_key'', ''iban'', ''bank_account'',
      ''database_url'', ''migration_database_url'', ''redis_url'', ''auth_hmac_key'', ''db_credentials'']"

definition MASK :: pystr where
  "MASK = lit ''***''"

fun key_text :: "log_key \<Rightarrow> pystr" where
  "key_text (KStr t) = t"
| "key_text (KOther t) = t"

text \<open>\<open>_redact_sensitive\<close>; \<open>lower\<close> is \<open>str.lower\<close>.\<close>

fun redact :: "(pystr \<Rightarrow> pystr) \<Rightarrow> log_value \<Rightarrow> log_value" where
  "redact lower (LDict items) =
     LDict (map (\<lambda>(k, v). (k, if lower (key_text k) \<in> set SENSITIVE_KEYS then LStr MASK else redact lower v)) items)"
| "redact lower (LList xs) = LList (map (redact lower) xs)"
| "redact lower (LTuple xs) = LTuple (map (redact lower) xs)"
| "redact lower value = value"

section \<open>The projection\<close>

definition DIAGNOSTIC_EVENTS :: "pystr list" where
  "DIAGNOSTIC_EVENTS = map lit
     [''application_started'', ''application_stopped'', ''request_completed'', ''unhandled_exception'',
      ''tenant_context_missing'', ''audit_write_failed'']"

definition LEVELS :: "pystr list" where
  "LEVELS = map lit [''debug'', ''info'', ''warning'', ''error'', ''critical'']"

definition METHODS :: "pystr list" where
  "METHODS = map lit [''GET'', ''HEAD'', ''OPTIONS'', ''POST'', ''PUT'', ''PATCH'', ''DELETE'']"

definition VERSION :: rx where
  "VERSION = Cat (between 1 6 (Class [(48, 57)])) (Cat (Class [(46, 46)])
     (Cat (between 1 6 (Class [(48, 57)])) (Cat (Class [(46, 46)]) (between 1 6 (Class [(48, 57)])))))"

definition str_in :: "log_value option \<Rightarrow> pystr list \<Rightarrow> pystr \<Rightarrow> pystr" where
  "str_in value allowed fallback =
     (case value of Some (LStr t) \<Rightarrow> if t \<in> set allowed then t else fallback | _ \<Rightarrow> fallback)"

text \<open>
  \<open>math.isfinite\<close> of an integer beyond the floats raises \<open>OverflowError\<close>; \<open>round2\<close> is \<open>round(x, 2)\<close> on floats,
  which keeps an integer.
\<close>

definition int_overflows :: "int \<Rightarrow> bool" where
  "int_overflows n \<longleftrightarrow> \<bar>n\<bar> \<ge> 2 ^ 1024 - 2 ^ 970"

definition duration_field :: "(pyfloat \<Rightarrow> pyfloat) \<Rightarrow> log_value option \<Rightarrow> exn + (pystr \<times> log_value) list" where
  "duration_field round2 value =
     (case value of
        Some (LInt n) \<Rightarrow>
          if int_overflows n then Inl (RuntimeExn (lit ''OverflowError''))
          else Inr (if 0 \<le> n \<and> n < 86400000 then [(lit ''duration_ms'', LInt n)] else [])
      | Some (LFloat (Finite m e)) \<Rightarrow>
          Inr (if finite_between 0 86400000 m e then [(lit ''duration_ms'', LFloat (round2 (Finite m e)))] else [])
      | _ \<Rightarrow> Inr [])"

definition started_fields :: "(pystr \<times> log_value) list \<Rightarrow> (pystr \<times> log_value) list" where
  "started_fields event_dict =
     (case map_of event_dict (lit ''environment'') of
        Some (LStr t) \<Rightarrow> if t \<in> set environments then [(lit ''environment'', LStr t)] else []
      | _ \<Rightarrow> []) @
     (case map_of event_dict (lit ''version'') of
        Some (LStr t) \<Rightarrow> if fullmatch VERSION t then [(lit ''version'', LStr t)] else []
      | _ \<Rightarrow> []) @
     (case map_of event_dict (lit ''redis_enabled'') of
        Some (LBool b) \<Rightarrow> [(lit ''redis_enabled'', LBool b)]
      | _ \<Rightarrow> [])"

definition correlation_field :: "uuid option \<Rightarrow> (pystr \<times> log_value) list" where
  "correlation_field internal = (case internal of None \<Rightarrow> [] | Some u \<Rightarrow> [(lit ''correlation_id'', LStr (uuid_text u))])"

definition safe_log_projection ::
  "(pyfloat \<Rightarrow> pyfloat) \<Rightarrow> pystr list \<Rightarrow> log_context \<Rightarrow> pystr \<Rightarrow> (pystr \<times> log_value) list \<Rightarrow> exn + (pystr \<times> log_value) list" where
  "safe_log_projection round2 templates ctx method_name event_dict =
     (let event = str_in (map_of event_dict (lit ''event'')) DIAGNOSTIC_EVENTS (lit ''diagnostic_event'');
          level = (if method_name \<in> set LEVELS then method_name else lit ''info'');
          safe = [(lit ''event'', LStr event), (lit ''level'', LStr level)] @ correlation_field (get_internal_correlation_id ctx) in
      if event = lit ''request_completed'' then
        and_then (duration_field round2 (map_of event_dict (lit ''duration_ms''))) (\<lambda>duration.
        Inr (safe @
          [(lit ''method'', LStr (str_in (map_of event_dict (lit ''method'')) METHODS (lit ''OTHER''))),
           (lit ''route'', LStr (str_in (map_of event_dict (lit ''route'')) templates (lit ''unmatched'')))] @ duration))
      else if event = lit ''application_started'' then Inr (safe @ started_fields event_dict)
      else if event = lit ''unhandled_exception'' then
        Inr (safe @ [(lit ''error_category'', LStr (str_in (map_of event_dict (lit ''error_category'')) [lit ''database''] (lit ''unexpected'')))])
      else Inr safe)"

text \<open>
  \<open>_safe_record_factory\<close>: the record of a stdlib logger keeps nothing of what it was made with; \<open>lower\<close> is
  \<open>str.lower\<close>. The fields are the JSON object that becomes its message.
\<close>

definition COMPONENTS :: "pystr list" where
  "COMPONENTS = map lit [''uvicorn'', ''sqlalchemy'', ''httpx'', ''httpcore'', ''asyncio'', ''app'']"

record stdlib_record =
  sl_name :: pystr
  sl_levelname :: pystr
  sl_msg :: "(pystr \<times> log_value) list"
  sl_args :: "log_value list"
  sl_exc_info :: "log_value option"
  sl_exc_text :: "log_value option"
  sl_stack_info :: "log_value option"

definition safe_record_factory :: "(pystr \<Rightarrow> pystr) \<Rightarrow> log_context \<Rightarrow> stdlib_record \<Rightarrow> stdlib_record" where
  "safe_record_factory lower ctx record =
     (let head = hd (split_on 46 (sl_name record));
          component = (if head \<in> set COMPONENTS then head else lit ''other'');
          level = lower (sl_levelname record);
          safe = [(lit ''event'', LStr (lit ''stdlib_diagnostic'')), (lit ''component'', LStr component),
            (lit ''level'', LStr (if level \<in> set LEVELS then level else lit ''info''))] @
            correlation_field (get_internal_correlation_id ctx) in
      record\<lparr>sl_msg := safe, sl_args := [], sl_exc_info := None, sl_exc_text := None, sl_stack_info := None\<rparr>)"

section \<open>The middleware\<close>

definition request_route_template :: "pystr option \<Rightarrow> pystr" where
  "request_route_template path = (case path of Some t \<Rightarrow> t | None \<Rightarrow> lit ''unmatched'')"

definition no_store_dispatch :: "pystr \<Rightarrow> exn + reply \<Rightarrow> exn + reply" where
  "no_store_dispatch path answer =
     and_then answer (\<lambda>response.
     let segments = split_on 47 path in
     if length segments \<le> 1 then Inl IndexExn
     else Inr (if segments ! 1 \<in> {lit ''ui-settings'', lit ''auth''}
               then put_header (lit ''Cache-Control'') (lit ''no-store'') response else response))"

text \<open>What one request draws: two random identifiers, the internal version 7 identifier and the measured time.\<close>

record dispatch_env =
  de_random :: "nat \<Rightarrow> uuid"
  de_internal :: uuid
  de_duration :: pyfloat
  de_route :: "pystr option"
  de_templates :: "pystr list"
  de_round2 :: "pyfloat \<Rightarrow> pyfloat"

record dispatched =
  di_response :: "exn + reply"
  di_line :: "exn + (pystr \<times> log_value) list"
  di_context :: log_context
  di_request_correlation :: pystr
  di_internal :: "uuid option"

text \<open>
  \<open>CorrelationIdMiddleware.dispatch\<close>: the inner application runs with the bound context; the line is logged and
  the context cleared on every path; an exception of the logger replaces the answer.
\<close>

definition correlation_dispatch ::
  "dispatch_env \<Rightarrow> (log_context \<Rightarrow> exn + reply) \<Rightarrow> log_context \<Rightarrow> request \<Rightarrow> dispatched" where
  "correlation_dispatch env call_next ctx rq =
     (let correlation_id = safe_request_id (de_random env 0) (header rq (lit ''X-Request-ID''));
          ctx1 = bind_request_context (de_random env 1) (de_internal env) correlation_id (clear_request_context ctx);
          answer = and_then (call_next ctx1) (\<lambda>response. Inr (put_header (lit ''X-Request-ID'') correlation_id response));
          line = safe_log_projection (de_round2 env) (de_templates env) ctx1 (lit ''info'')
            [(lit ''event'', LStr (lit ''request_completed'')), (lit ''method'', LStr (rq_method rq)),
             (lit ''route'', LStr (request_route_template (de_route env))), (lit ''duration_ms'', LFloat (de_duration env))] in
      \<lparr>di_response = (case line of Inl e \<Rightarrow> Inl e | Inr _ \<Rightarrow> answer), di_line = line,
       di_context = clear_request_context ctx1, di_request_correlation = correlation_id,
       di_internal = get_internal_correlation_id ctx1\<rparr>)"

section \<open>Health\<close>

text \<open>
  \<open>core/status.py\<close>, \<open>cache/redis_client.py\<close>, \<open>db/session.py\<close>, \<open>services/health_service.py\<close> and the routes. A probe
  ends with the name of the exception's type or without one.
\<close>

datatype dependency_state = Up | Down | Disabled

record dependency_status =
  ds_status :: dependency_state
  ds_detail :: "pystr option"

definition is_failure :: "dependency_status \<Rightarrow> bool" where
  "is_failure s \<longleftrightarrow> ds_status s = Down"

record redis_provider =
  rd_url :: pystr
  rd_enabled :: bool
  rd_client :: "pystr option"

text \<open>A client is known by the URL it was made from; making one may raise.\<close>

definition redis_client :: "(pystr \<Rightarrow> exn + unit) \<Rightarrow> redis_provider \<Rightarrow> exn + (pystr option \<times> redis_provider)" where
  "redis_client from_url p =
     (if \<not> rd_enabled p then Inr (None, p)
      else (case rd_client p of
          Some c \<Rightarrow> Inr (Some c, p)
        | None \<Rightarrow> and_then (from_url (rd_url p)) (\<lambda>_. Inr (Some (rd_url p), p\<lparr>rd_client := Some (rd_url p)\<rparr>))))"

definition redis_ping :: "(pystr \<Rightarrow> exn + unit) \<Rightarrow> (pystr \<Rightarrow> pystr option) \<Rightarrow> redis_provider \<Rightarrow> exn + (dependency_status \<times> redis_provider)" where
  "redis_ping from_url ping p =
     (if \<not> rd_enabled p
      then Inr (\<lparr>ds_status = Disabled, ds_detail = Some (lit ''Redis is not enabled in this environment (see ADR-0003).'')\<rparr>, p)
      else and_then (redis_client from_url p) (\<lambda>(client, p').
        case client of
          None \<Rightarrow> Inr (\<lparr>ds_status = Down, ds_detail = Some (lit ''AttributeError'')\<rparr>, p')
        | Some c \<Rightarrow>
            (case ping c of
               Some error \<Rightarrow> Inr (\<lparr>ds_status = Down, ds_detail = Some error\<rparr>, p')
             | None \<Rightarrow> Inr (\<lparr>ds_status = Up, ds_detail = None\<rparr>, p'))))"

definition redis_close :: "redis_provider \<Rightarrow> redis_provider" where
  "redis_close p = p\<lparr>rd_client := None\<rparr>"

definition check_connection :: "exn + unit \<Rightarrow> dependency_status" where
  "check_connection probe =
     (case probe of
        Inl _ \<Rightarrow> \<lparr>ds_status = Down, ds_detail = Some (lit ''Database connection unavailable.'')\<rparr>
      | Inr _ \<Rightarrow> \<lparr>ds_status = Up, ds_detail = None\<rparr>)"

record application_health =
  ah_name :: pystr
  ah_version :: pystr
  ah_environment :: pystr

definition application_health_of :: "settings \<Rightarrow> application_health" where
  "application_health_of se = \<lparr>ah_name = se_app_name se, ah_version = se_app_version se, ah_environment = se_app_env se\<rparr>"

text \<open>The routes: the status code and the body.\<close>

definition read_health :: "settings \<Rightarrow> nat \<times> (pystr \<times> application_health)" where
  "read_health se = (200, lit ''ok'', application_health_of se)"

definition probe_reply :: "pystr \<Rightarrow> dependency_status \<Rightarrow> nat \<times> pystr \<times> dependency_status" where
  "probe_reply dependency s = ((if is_failure s then 503 else 200), dependency, s)"

definition read_database_health :: "exn + unit \<Rightarrow> nat \<times> pystr \<times> dependency_status" where
  "read_database_health probe = probe_reply (lit ''postgresql'') (check_connection probe)"

definition read_cache_health ::
  "(pystr \<Rightarrow> exn + unit) \<Rightarrow> (pystr \<Rightarrow> pystr option) \<Rightarrow> redis_provider \<Rightarrow> exn + ((nat \<times> pystr \<times> dependency_status) \<times> redis_provider)" where
  "read_cache_health from_url ping p =
     and_then (redis_ping from_url ping p) (\<lambda>(s, p'). Inr (probe_reply (lit ''redis'') s, p'))"

end
