(* ===== verification/DiagnosticsClaims.thy ===== *)
theory DiagnosticsClaims
  imports Diagnostics
begin

text \<open>What diagnostics may carry: no text of a request, an exception or a record reaches a log line.\<close>

section \<open>Closed lines\<close>

text \<open>The fields a line may have: every text is one of a fixed list, a route template, a version number or the text
  of the internal identifier; numbers are only a duration below a day.\<close>

inductive log_field_closed :: "(pyfloat \<Rightarrow> pyfloat) \<Rightarrow> pystr list \<Rightarrow> log_context \<Rightarrow> pystr \<times> log_value \<Rightarrow> bool"
  for round2 templates ctx where
  event: "t \<in> set (lit ''diagnostic_event'' # lit ''stdlib_diagnostic'' # DIAGNOSTIC_EVENTS) \<Longrightarrow> log_field_closed round2 templates ctx (lit ''event'', LStr t)"
| level: "t \<in> set LEVELS \<Longrightarrow> log_field_closed round2 templates ctx (lit ''level'', LStr t)"
| component: "t \<in> set (lit ''other'' # COMPONENTS) \<Longrightarrow> log_field_closed round2 templates ctx (lit ''component'', LStr t)"
| correlation: "get_internal_correlation_id ctx = Some u \<Longrightarrow> log_field_closed round2 templates ctx (lit ''correlation_id'', LStr (uuid_text u))"
| request_method: "t \<in> set (lit ''OTHER'' # METHODS) \<Longrightarrow> log_field_closed round2 templates ctx (lit ''method'', LStr t)"
| route: "t \<in> set (lit ''unmatched'' # templates) \<Longrightarrow> log_field_closed round2 templates ctx (lit ''route'', LStr t)"
| environment: "t \<in> set environments \<Longrightarrow> log_field_closed round2 templates ctx (lit ''environment'', LStr t)"
| version: "fullmatch VERSION t \<Longrightarrow> log_field_closed round2 templates ctx (lit ''version'', LStr t)"
| redis: "log_field_closed round2 templates ctx (lit ''redis_enabled'', LBool b)"
| category: "t \<in> set [lit ''unexpected'', lit ''database''] \<Longrightarrow> log_field_closed round2 templates ctx (lit ''error_category'', LStr t)"
| duration_int: "0 \<le> n \<Longrightarrow> n < 86400000 \<Longrightarrow> log_field_closed round2 templates ctx (lit ''duration_ms'', LInt n)"
| duration_float: "finite_between 0 86400000 m e \<Longrightarrow> log_field_closed round2 templates ctx (lit ''duration_ms'', LFloat (round2 (Finite m e)))"

lemma str_in_closed: "str_in v allowed fallback \<in> set (fallback # allowed)"
  by (auto simp: str_in_def split: option.splits log_value.splits)

lemma level_closed: "(if m \<in> set LEVELS then m else lit ''info'') \<in> set LEVELS"
  by (simp add: LEVELS_def)

lemma correlation_field_closed: "list_all (log_field_closed round2 templates ctx) (correlation_field (get_internal_correlation_id ctx))"
  by (simp add: correlation_field_def log_field_closed.correlation split: option.split)

lemma started_fields_closed: "list_all (log_field_closed round2 templates ctx) (started_fields d)"
  unfolding started_fields_def list_all_append
  by (intro conjI; simp add: log_field_closed.environment log_field_closed.version log_field_closed.redis split: option.split log_value.split)

lemma duration_field_closed: "duration_field round2 v = Inr out \<Longrightarrow> list_all (log_field_closed round2 templates ctx) out"
  by (auto simp: duration_field_def intro: log_field_closed.duration_int log_field_closed.duration_float
      split: option.splits log_value.splits pyfloat.splits if_splits)

lemma duration_field_Inl: "duration_field round2 v = Inl e \<Longrightarrow> \<exists>n. v = Some (LInt n) \<and> int_overflows n"
  by (auto simp: duration_field_def split: option.splits log_value.splits pyfloat.splits if_splits)

text \<open>The fields every line begins with, and the last group of each event.\<close>

lemma line_head_closed:
  "list_all (log_field_closed round2 templates ctx)
     ([(lit ''event'', LStr (str_in x DIAGNOSTIC_EVENTS (lit ''diagnostic_event''))), (lit ''level'', LStr (if m \<in> set LEVELS then m else lit ''info''))] @
      correlation_field (get_internal_correlation_id ctx))"
proof -
  have "str_in x DIAGNOSTIC_EVENTS (lit ''diagnostic_event'') \<in> set (lit ''diagnostic_event'' # lit ''stdlib_diagnostic'' # DIAGNOSTIC_EVENTS)"
    using str_in_closed [of x DIAGNOSTIC_EVENTS "lit ''diagnostic_event''"] by auto
  then show ?thesis
    using log_field_closed.level [OF level_closed] correlation_field_closed
    by (simp only: list_all_append list.pred_inject log_field_closed.event)
qed

lemma projection_closed:
  assumes "safe_log_projection round2 templates ctx method_name d = Inr line"
  shows "list_all (log_field_closed round2 templates ctx) line"
proof -
  let ?event = "str_in (map_of d (lit ''event'')) DIAGNOSTIC_EVENTS (lit ''diagnostic_event'')"
  let ?head = "[(lit ''event'', LStr ?event), (lit ''level'', LStr (if method_name \<in> set LEVELS then method_name else lit ''info''))] @
      correlation_field (get_internal_correlation_id ctx)"
  let ?request = "[(lit ''method'', LStr (str_in (map_of d (lit ''method'')) METHODS (lit ''OTHER''))),
      (lit ''route'', LStr (str_in (map_of d (lit ''route'')) templates (lit ''unmatched'')))]"
  let ?category = "[(lit ''error_category'', LStr (str_in (map_of d (lit ''error_category'')) [lit ''database''] (lit ''unexpected'')))]"
  note head = line_head_closed [of round2 templates ctx "map_of d (lit ''event'')" method_name]
  have request: "list_all (log_field_closed round2 templates ctx) ?request"
    by (simp only: list.pred_inject log_field_closed.request_method log_field_closed.route str_in_closed)
  have category: "list_all (log_field_closed round2 templates ctx) ?category"
    by (simp only: list.pred_inject log_field_closed.category str_in_closed)
  consider duration where "duration_field round2 (map_of d (lit ''duration_ms'')) = Inr duration" "line = ?head @ ?request @ duration"
    | "line = ?head @ started_fields d" | "line = ?head @ ?category" | "line = ?head"
    using assms unfolding safe_log_projection_def Let_def and_then_eq_Inr by (simp only: split: if_splits) (auto simp: and_then_eq_Inr)
  then show ?thesis
  proof cases
    case 1
    then show ?thesis using head request duration_field_closed [OF 1(1)] by (simp only: list_all_append simp_thms)
  next
    case 2
    then show ?thesis using head started_fields_closed by (simp only: list_all_append simp_thms)
  next
    case 3
    then show ?thesis using head category by (simp only: list_all_append simp_thms)
  next
    case 4
    then show ?thesis using head by (simp only:)
  qed
qed

lemma record_closed: "list_all (log_field_closed round2 templates ctx) (sl_msg (safe_record_factory lower ctx record))"
proof -
  let ?component = "if hd (split_on 46 (sl_name record)) \<in> set COMPONENTS then hd (split_on 46 (sl_name record)) else lit ''other''"
  let ?level = "if lower (sl_levelname record) \<in> set LEVELS then lower (sl_levelname record) else lit ''info''"
  have msg: "sl_msg (safe_record_factory lower ctx record) = [(lit ''event'', LStr (lit ''stdlib_diagnostic'')),
      (lit ''component'', LStr ?component), (lit ''level'', LStr ?level)] @ correlation_field (get_internal_correlation_id ctx)"
    by (simp add: safe_record_factory_def Let_def)
  have "?component \<in> set (lit ''other'' # COMPONENTS)" by simp
  note fields = log_field_closed.component [OF this] log_field_closed.level [OF level_closed [of "lower (sl_levelname record)"]]
  have "log_field_closed round2 templates ctx (lit ''event'', LStr (lit ''stdlib_diagnostic''))"
    by (rule log_field_closed.event) simp
  with fields [of round2 templates ctx] correlation_field_closed [of round2 templates ctx] show ?thesis unfolding msg by simp
qed

lemma closed_not_sensitive: "log_field_closed round2 templates ctx f \<Longrightarrow> fst f \<notin> set SENSITIVE_KEYS"
  by (induction rule: log_field_closed.induct) (simp_all add: SENSITIVE_KEYS_def)

text \<open>C31. Every log line is closed. Whatever event dictionary a caller supplies, the projection emits only fixed keys
  whose texts are fixed words, registered route templates, version numbers or the internal identifier, and whose
  only number is a duration below a day; it fails only for an integer duration beyond the floats. A record of a stdlib
  logger loses its message, arguments, exception and stack and says only which component spoke and how loudly.\<close>

theorem log_projection_closed:
  "(case safe_log_projection round2 templates ctx method_name event_dict of
      Inl e \<Rightarrow> (\<exists>n. map_of event_dict (lit ''duration_ms'') = Some (LInt n) \<and> int_overflows n)
    | Inr line \<Rightarrow> list_all (log_field_closed round2 templates ctx) line \<and> list_all (\<lambda>f. fst f \<notin> set SENSITIVE_KEYS) line) \<and>
   list_all (log_field_closed round2 templates ctx) (sl_msg (safe_record_factory lower ctx record)) \<and>
   sl_args (safe_record_factory lower ctx record) = [] \<and> sl_exc_info (safe_record_factory lower ctx record) = None \<and>
   sl_exc_text (safe_record_factory lower ctx record) = None \<and> sl_stack_info (safe_record_factory lower ctx record) = None"
proof -
  have "case safe_log_projection round2 templates ctx method_name event_dict of
      Inl e \<Rightarrow> (\<exists>n. map_of event_dict (lit ''duration_ms'') = Some (LInt n) \<and> int_overflows n)
    | Inr line \<Rightarrow> list_all (log_field_closed round2 templates ctx) line \<and> list_all (\<lambda>f. fst f \<notin> set SENSITIVE_KEYS) line"
  proof (cases "safe_log_projection round2 templates ctx method_name event_dict")
    case (Inl e)
    then have "duration_field round2 (map_of event_dict (lit ''duration_ms'')) = Inl e"
      by (simp only: safe_log_projection_def Let_def and_then_eq_Inl split: if_splits) auto
    from Inl duration_field_Inl [OF this] show ?thesis by simp
  next
    case (Inr line)
    with projection_closed [OF Inr] closed_not_sensitive show ?thesis by (auto simp: list_all_iff)
  qed
  with record_closed show ?thesis by (simp add: safe_record_factory_def Let_def)
qed

section \<open>Masking\<close>

text \<open>No dictionary at any depth keeps the value of a sensitive key.\<close>

fun masked :: "(pystr \<Rightarrow> pystr) \<Rightarrow> log_value \<Rightarrow> bool" where
  "masked lower (LDict items) \<longleftrightarrow>
     list_all (\<lambda>(k, v). if lower (key_text k) \<in> set SENSITIVE_KEYS then v = LStr MASK else masked lower v) items"
| "masked lower (LList xs) \<longleftrightarrow> list_all (masked lower) xs"
| "masked lower (LTuple xs) \<longleftrightarrow> list_all (masked lower) xs"
| "masked lower _ \<longleftrightarrow> True"

lemma redact_masks: "masked lower (redact lower v)"
  by (induction lower v rule: redact.induct) (auto simp: list_all_iff)

lemma redact_masked: "masked lower v \<Longrightarrow> redact lower v = v"
  by (induction lower v rule: redact.induct) (fastforce simp: list_all_iff intro!: map_idI split: if_splits)+

lemma redact_idempotent: "redact lower (redact lower v) = redact lower v"
  by (rule redact_masked [OF redact_masks])

section \<open>The identifiers of a request\<close>

lemma put_context_lookup [simp]:
  "map_of (put_context k v ctx) k = Some v" "k' \<noteq> k \<Longrightarrow> map_of (put_context k v ctx) k' = map_of ctx k'"
proof -
  show "map_of (put_context k v ctx) k = Some v" by (simp add: put_context_def)
  assume "k' \<noteq> k"
  then have "map_of (filter (\<lambda>(k', _). k' \<noteq> k) ctx) k' = map_of ctx k'" by (induction ctx) auto
  then show "map_of (put_context k v ctx) k' = map_of ctx k'" using \<open>k' \<noteq> k\<close> by (simp add: put_context_def)
qed

lemma request_id_iff: "fullmatch REQUEST_ID v \<longleftrightarrow> 1 \<le> length v \<and> length v \<le> 64 \<and>
    list_all (\<lambda>c. is_alnum c \<or> c = 46 \<or> c = 95 \<or> c = 45) v"
  by (auto simp: REQUEST_ID_def fullmatch_lang lang_between_Class list_all_iff is_alnum_def is_upper_def is_lower_def is_digit_def)

lemma generated_request_id: "fullmatch REQUEST_ID (new_correlation_id random)"
  using set_hex_text by (fastforce simp: request_id_iff new_correlation_id_def hex_text_def list_all_iff is_alnum_def is_lower_def)

lemma safe_request_id_ok: "fullmatch REQUEST_ID (safe_request_id random value)"
  by (simp add: safe_request_id_def generated_request_id split: option.split)

lemma bound_internal:
  "uuid_version internal = Some 7 \<Longrightarrow> get_internal_correlation_id (bind_request_context random internal c ctx) = Some internal"
  by (simp add: get_internal_correlation_id_def bind_request_context_def)

text \<open>C32. One request under the correlation middleware. Its public identifier is always 1 to 64 characters of the
  safe alphabet, and is the client's exactly when the client sent one of that form; it goes into the response and
  nowhere into the log line, which is closed and whose only identifier is the generated internal one. The application runs with
  both identifiers bound and nothing left of an earlier request, its answer or exception passes through, and the
  context is empty afterwards on every path.\<close>

theorem request_dispatch_isolated:
  assumes "uuid_version (de_internal env) = Some 7"
    and run_def: "run = correlation_dispatch env call_next ctx rq"
  shows "fullmatch REQUEST_ID (di_request_correlation run) \<and>
    (\<forall>v. header rq (lit ''X-Request-ID'') = Some v \<longrightarrow> fullmatch REQUEST_ID v \<longrightarrow> di_request_correlation run = v) \<and>
    di_internal run = Some (de_internal env) \<and> di_context run = [] \<and>
    (\<exists>inner line. get_correlation_id inner = Some (di_request_correlation run) \<and>
       get_internal_correlation_id inner = Some (de_internal env) \<and> map fst inner = [lit ''internal_correlation_id'', lit ''correlation_id''] \<and>
       di_line run = Inr line \<and> list_all (log_field_closed (de_round2 env) (de_templates env) inner) line \<and>
       (case call_next inner of
          Inl e \<Rightarrow> di_response run = Inl e
        | Inr response \<Rightarrow> di_response run = Inr (put_header (lit ''X-Request-ID'') (di_request_correlation run) response)))"
proof -
  let ?id = "safe_request_id (de_random env 0) (header rq (lit ''X-Request-ID''))"
  let ?inner = "bind_request_context (de_random env 1) (de_internal env) ?id []"
  let ?line = "safe_log_projection (de_round2 env) (de_templates env) ?inner (lit ''info'')
      [(lit ''event'', LStr (lit ''request_completed'')), (lit ''method'', LStr (rq_method rq)),
       (lit ''route'', LStr (request_route_template (de_route env))), (lit ''duration_ms'', LFloat (de_duration env))]"
  have "lit ''internal_correlation_id'' \<noteq> lit ''correlation_id''" by (simp add: lit_def)
  then have bound: "get_correlation_id ?inner = Some ?id" "get_internal_correlation_id ?inner = Some (de_internal env)"
    "map fst ?inner = [lit ''internal_correlation_id'', lit ''correlation_id'']"
    using assms(1) safe_request_id_ok
    by (simp_all add: get_correlation_id_def get_internal_correlation_id_def bind_request_context_def safe_request_id_def [of _ "Some _"] put_context_def)
  obtain line where line: "?line = Inr line"
  proof (cases ?line)
    case (Inl e)
    then have "\<exists>n. map_of [(lit ''event'', LStr (lit ''request_completed'')), (lit ''method'', LStr (rq_method rq)),
       (lit ''route'', LStr (request_route_template (de_route env))), (lit ''duration_ms'', LFloat (de_duration env))]
       (lit ''duration_ms'') = Some (LInt n)"
      by (simp only: safe_log_projection_def Let_def and_then_eq_Inl split: if_splits) (use duration_field_Inl in fastforce)+
    then show ?thesis by (auto split: if_splits)
  qed
  have run: "run = \<lparr>di_response = and_then (call_next ?inner) (\<lambda>r. Inr (put_header (lit ''X-Request-ID'') ?id r)), di_line = Inr line,
      di_context = [], di_request_correlation = ?id, di_internal = get_internal_correlation_id ?inner\<rparr>"
    unfolding run_def correlation_dispatch_def Let_def clear_request_context_def line by simp
  show ?thesis
    using bound projection_closed [OF line] safe_request_id_ok
    by (auto simp: run safe_request_id_def [of _ "Some _"] intro!: exI [of _ ?inner] split: sum.split)
qed

theorem request_dispatch_isolated_witness:
  "di_context (correlation_dispatch \<lparr>de_random = (\<lambda>_. 0), de_internal = 7 * 2 ^ 76 + 2 ^ 63, de_duration = NotFinite, de_route = None,
      de_templates = [], de_round2 = id\<rparr> (\<lambda>_. Inl ValueExn) [(lit ''old'', LNone)] sample_request) = []"
proof -
  let ?env = "\<lparr>de_random = (\<lambda>_. 0), de_internal = 7 * 2 ^ 76 + 2 ^ 63, de_duration = NotFinite, de_route = None, de_templates = [], de_round2 = id\<rparr>"
  have "uuid_version (de_internal ?env) = Some 7" by (simp add: uuid_version_def bit_iff_odd drop_bit_eq_div)
  from request_dispatch_isolated [OF this refl, of "\<lambda>_. Inl ValueExn" "[(lit ''old'', LNone)]" sample_request] show ?thesis by simp
qed

section \<open>Probes\<close>

text \<open>The Redis provider after any use keeps its configuration and holds a client of its own URL or none.\<close>

definition provider_ok :: "redis_provider \<Rightarrow> bool" where
  "provider_ok p \<longleftrightarrow> (case rd_client p of None \<Rightarrow> True | Some c \<Rightarrow> c = rd_url p \<and> rd_enabled p)"

text \<open>A probe is honest. A disabled Redis is reported as disabled with status 200, never touches the network and
  never makes a client; an enabled one is up exactly when its client could be made and answered the ping, and
  otherwise the reply is 503. The database reply is 200 exactly when the connection worked and carries no text of
  the error. Liveness is always 200. The provider keeps its invariant.\<close>

theorem probes_honest:
  assumes "provider_ok p"
  shows "(\<not> rd_enabled p \<longrightarrow> (\<exists>detail. read_cache_health from_url ping p = Inr ((200, lit ''redis'', \<lparr>ds_status = Disabled, ds_detail = detail\<rparr>), p))) \<and>
    (rd_enabled p \<longrightarrow> (case read_cache_health from_url ping p of
        Inl e \<Rightarrow> rd_client p = None \<and> from_url (rd_url p) = Inl e
      | Inr ((code, name, s), p') \<Rightarrow> provider_ok p' \<and> provider_ok (redis_close p') \<and> rd_client p' = Some (rd_url p) \<and>
          rd_url p' = rd_url p \<and> rd_enabled p' \<and> ds_status s \<noteq> Disabled \<and>
          (ds_status s = Up \<longleftrightarrow> ping (rd_url p) = None) \<and> (code = 200 \<longleftrightarrow> ds_status s = Up) \<and> code \<in> {200, 503})) \<and>
    (\<exists>code s. read_database_health probe = (code, lit ''postgresql'', s) \<and> code \<in> {200, 503} \<and>
       (code = 200 \<longleftrightarrow> is_ok probe) \<and> (\<not> is_ok probe \<longrightarrow> ds_detail s = Some (lit ''Database connection unavailable.''))) \<and>
    fst (read_health se) = 200"
proof (intro conjI impI)
  show "\<exists>detail. read_cache_health from_url ping p = Inr ((200, lit ''redis'', \<lparr>ds_status = Disabled, ds_detail = detail\<rparr>), p)" if "\<not> rd_enabled p"
    using that by (simp add: read_cache_health_def redis_ping_def probe_reply_def is_failure_def)
  show "case read_cache_health from_url ping p of
        Inl e \<Rightarrow> rd_client p = None \<and> from_url (rd_url p) = Inl e
      | Inr ((code, name, s), p') \<Rightarrow> provider_ok p' \<and> provider_ok (redis_close p') \<and> rd_client p' = Some (rd_url p) \<and>
          rd_url p' = rd_url p \<and> rd_enabled p' \<and> ds_status s \<noteq> Disabled \<and>
          (ds_status s = Up \<longleftrightarrow> ping (rd_url p) = None) \<and> (code = 200 \<longleftrightarrow> ds_status s = Up) \<and> code \<in> {200, 503}" if "rd_enabled p"
    using that assms
    by (cases "rd_client p"; cases "from_url (rd_url p)"; cases "ping (rd_url p)")
      (simp_all add: provider_ok_def read_cache_health_def redis_ping_def redis_client_def probe_reply_def is_failure_def redis_close_def)
  show "\<exists>code s. read_database_health probe = (code, lit ''postgresql'', s) \<and> code \<in> {200, 503} \<and>
       (code = 200 \<longleftrightarrow> is_ok probe) \<and> (\<not> is_ok probe \<longrightarrow> ds_detail s = Some (lit ''Database connection unavailable.''))"
    by (cases probe) (simp_all add: read_database_health_def check_connection_def probe_reply_def is_failure_def is_ok_def)
  show "fst (read_health se) = 200" by (simp add: read_health_def)
qed

theorem probes_honest_witness:
  "read_cache_health (\<lambda>_. Inr ()) (\<lambda>_. None) \<lparr>rd_url = lit ''redis'', rd_enabled = True, rd_client = None\<rparr> =
     Inr ((200, lit ''redis'', \<lparr>ds_status = Up, ds_detail = None\<rparr>), \<lparr>rd_url = lit ''redis'', rd_enabled = True, rd_client = Some (lit ''redis'')\<rparr>) \<and>
   fst (read_health default_settings) = 200"
proof -
  have "provider_ok \<lparr>rd_url = lit ''redis'', rd_enabled = True, rd_client = None\<rparr>" by (simp add: provider_ok_def)
  from probes_honest [OF this, of "\<lambda>_. Inr ()" "\<lambda>_. None" "Inr ()" default_settings] show ?thesis
    by (simp add: read_cache_health_def redis_ping_def redis_client_def probe_reply_def is_failure_def)
qed

end
