(* ===== verification/CiPrelude.thy ===== *)
theory CiPrelude
  imports Regex Sha256 "HOL-Library.List_Lexorder" "HOL-Library.Product_Lexorder"
begin

text \<open>
  What the gates under \<open>.github/ci\<close> share: Python values as \<open>json\<close> and \<open>tomllib\<close> produce them with the operations
  the gates use on them, the \<open>json\<close> reader and writer, text helpers, and files and child processes as effects on a
  disk. A gate fails with one of its own reasons or with some other exception, which it never looks into.
\<close>

section \<open>Values\<close>

text \<open>A \<open>dict\<close> is the list of its items in order; \<open>VOther\<close> is any other object (a TOML date).\<close>

datatype pyval =
    VNone
  | VBool bool
  | VInt int
  | VFloat pyfloat
  | VStr pystr
  | VList "pyval list"
  | VDict "(pystr \<times> pyval) list"
  | VOther

datatype gate_error = GateFailure pystr | OtherError

abbreviation check :: "bool \<Rightarrow> pystr \<Rightarrow> (unit \<Rightarrow> gate_error + 'a) \<Rightarrow> gate_error + 'a" where
  "check b reason f \<equiv> and_then (ensure b (GateFailure reason)) f"

definition is_dict :: "pyval \<Rightarrow> bool" where
  "is_dict v \<longleftrightarrow> (case v of VDict _ \<Rightarrow> True | _ \<Rightarrow> False)"

text \<open>\<open>v[k]\<close>, \<open>v.get(k)\<close>, iteration and \<open>hash\<close>: everything Python refuses is an exception.\<close>

definition item :: "pyval \<Rightarrow> pystr \<Rightarrow> gate_error + pyval" where
  "item v k =
     (case v of
        VDict ps \<Rightarrow> (case map_of ps k of Some x \<Rightarrow> Inr x | None \<Rightarrow> Inl OtherError)
      | _ \<Rightarrow> Inl OtherError)"

definition get_or :: "pyval \<Rightarrow> pyval \<Rightarrow> pystr \<Rightarrow> gate_error + pyval" where
  "get_or missing v k =
     (case v of
        VDict ps \<Rightarrow> Inr (case map_of ps k of Some x \<Rightarrow> x | None \<Rightarrow> missing)
      | _ \<Rightarrow> Inl OtherError)"

definition iterate :: "pyval \<Rightarrow> gate_error + pyval list" where
  "iterate v =
     (case v of
        VList xs \<Rightarrow> Inr xs
      | VDict ps \<Rightarrow> Inr (map (\<lambda>p. VStr (fst p)) ps)
      | VStr s \<Rightarrow> Inr (map (\<lambda>c. VStr [c]) s)
      | _ \<Rightarrow> Inl OtherError)"

definition hashable :: "pyval \<Rightarrow> bool" where
  "hashable v \<longleftrightarrow> (case v of VList _ \<Rightarrow> False | VDict _ \<Rightarrow> False | _ \<Rightarrow> True)"

text \<open>\<open>set(v) == {"a", "b"}\<close>\<close>

definition keys_are :: "pyval \<Rightarrow> pystr list \<Rightarrow> gate_error + bool" where
  "keys_are v names =
     and_then (iterate v) (\<lambda>xs.
     if list_all hashable xs then Inr (set xs = VStr ` set names) else Inl OtherError)"

text \<open>\<open>v == n\<close> for an integer: \<open>True\<close> is 1 and floats compare by value.\<close>

definition equals_int :: "pyval \<Rightarrow> int \<Rightarrow> bool" where
  "equals_int v n \<longleftrightarrow>
     (case v of
        VInt m \<Rightarrow> m = n
      | VBool b \<Rightarrow> of_bool b = n
      | VFloat (Finite m e) \<Rightarrow> (if 0 \<le> e then m * 2 ^ nat e = n else m = n * 2 ^ nat (- e))
      | _ \<Rightarrow> False)"

lemma size_dict_item: "(k, x) \<in> set ps \<Longrightarrow> size x < Suc (size_list (size_prod (\<lambda>_. 0) size) ps)"
  by (induction ps) auto

text \<open>
  \<open>v == w\<close> where \<open>w\<close> holds only strings, lists and dicts, as the literals the gates compare with do. Dicts have
  distinct keys and compare without their order.
\<close>

function equals_literal :: "pyval \<Rightarrow> pyval \<Rightarrow> bool" where
  "equals_literal (VStr a) w = (w = VStr a)"
| "equals_literal (VList xs) w =
     (case w of VList ys \<Rightarrow> length xs = length ys \<and> list_all (\<lambda>(x, y). equals_literal x y) (zip xs ys) | _ \<Rightarrow> False)"
| "equals_literal (VDict ps) w =
     (case w of
        VDict qs \<Rightarrow> length ps = length qs \<and>
          list_all (\<lambda>(k, x). case map_of qs k of Some y \<Rightarrow> equals_literal x y | None \<Rightarrow> False) ps
      | _ \<Rightarrow> False)"
| "equals_literal VNone w = False"
| "equals_literal (VBool b) w = False"
| "equals_literal (VInt n) w = False"
| "equals_literal (VFloat f) w = False"
| "equals_literal VOther w = False"
  by pat_completeness auto

termination
proof (relation "measure (\<lambda>(v, _). size v)")
  show "wf (measure (\<lambda>(v, _ :: pyval). size v))" by simp
next
  fix xs w ys z x y assume "(z :: pyval \<times> pyval) \<in> set (zip xs ys)" "(x, y) = z"
  then have "x \<in> set xs" by (auto dest: set_zip_leftD)
  then show "((x, y), (VList xs, w)) \<in> measure (\<lambda>(v, _). size v)" by (auto dest: size_list_estimation' [of _ _ "size x" size])
next
  fix ps w qs z k x y assume "(z :: pystr \<times> pyval) \<in> set ps" "(k, x) = z"
  then show "((x, y), (VDict ps, w)) \<in> measure (\<lambda>(v, _). size v)" using size_dict_item by auto
qed

definition as_str :: "pyval \<Rightarrow> gate_error + pystr" where
  "as_str v = (case v of VStr s \<Rightarrow> Inr s | _ \<Rightarrow> Inl OtherError)"

lemma and_then_InrE:
  assumes "and_then m f = Inr y"
  obtains x where "m = Inr x" "f x = Inr y"
  using assms by (auto simp: and_then_eq_Inr)

lemma check_InrE:
  assumes "check b reason f = Inr y"
  obtains "b" "f () = Inr y"
  using assms by (auto simp: and_then_ensure split: if_splits)

section \<open>Loops\<close>

text \<open>A loop that may raise and carries a state.\<close>

primrec fold_ok :: "('a \<Rightarrow> 's \<Rightarrow> 'e + 's) \<Rightarrow> 'a list \<Rightarrow> 's \<Rightarrow> 'e + 's" where
  "fold_ok f [] s = Inr s"
| "fold_ok f (x # xs) s = and_then (f x s) (fold_ok f xs)"

primrec map_ok :: "('a \<Rightarrow> 'e + 'b) \<Rightarrow> 'a list \<Rightarrow> 'e + 'b list" where
  "map_ok f [] = Inr []"
| "map_ok f (x # xs) = and_then (f x) (\<lambda>y. and_then (map_ok f xs) (\<lambda>ys. Inr (y # ys)))"

lemma map_ok_Inr: "map_ok f xs = Inr ys \<longleftrightarrow> list_all2 (\<lambda>x y. f x = Inr y) xs ys"
  by (induction xs arbitrary: ys) (auto simp: and_then_eq_Inr list_all2_Cons1)

lemma fold_ok_inv:
  assumes "fold_ok f xs s = Inr t" "P [] s"
    and "\<And>ys x s s'. P ys s \<Longrightarrow> x \<in> set xs \<Longrightarrow> f x s = Inr s' \<Longrightarrow> P (ys @ [x]) s'"
  shows "P xs t"
proof -
  have "fold_ok f zs s = Inr t \<Longrightarrow> P ys s \<Longrightarrow> set zs \<subseteq> set xs \<Longrightarrow> P (ys @ zs) t" for ys zs s
  proof (induction zs arbitrary: ys s)
    case (Cons z zs)
    then obtain s' where "f z s = Inr s'" "fold_ok f zs s' = Inr t" by (auto simp: and_then_eq_Inr)
    with Cons show ?case using assms(3) [of ys s z s'] Cons.IH [of s' "ys @ [z]"] by simp
  qed simp
  from this [of xs s "[]"] assms(1,2) show ?thesis by simp
qed

section \<open>Text\<close>

text \<open>The decimal digits of Unicode 16, which \<open>\d\<close> matches in a \<open>str\<close> pattern, and the white space \<open>\s\<close> matches.\<close>

definition unicode_digits :: "(nat \<times> nat) list" where
  "unicode_digits =
   [(48, 57), (1632, 1641), (1776, 1785), (1984, 1993), (2406, 2415), (2534, 2543), (2662, 2671), (2790, 2799),
    (2918, 2927), (3046, 3055), (3174, 3183), (3302, 3311), (3430, 3439), (3558, 3567), (3664, 3673),
    (3792, 3801), (3872, 3881), (4160, 4169), (4240, 4249), (6112, 6121), (6160, 6169), (6470, 6479),
    (6608, 6617), (6784, 6793), (6800, 6809), (6992, 7001), (7088, 7097), (7232, 7241), (7248, 7257),
    (42528, 42537), (43216, 43225), (43264, 43273), (43472, 43481), (43504, 43513), (43600, 43609),
    (44016, 44025), (65296, 65305), (66720, 66729), (68912, 68921), (68928, 68937), (69734, 69743),
    (69872, 69881), (69942, 69951), (70096, 70105), (70384, 70393), (70736, 70745), (70864, 70873),
    (71248, 71257), (71360, 71369), (71376, 71395), (71472, 71481), (71904, 71913), (72016, 72025),
    (72688, 72697), (72784, 72793), (73040, 73049), (73120, 73129), (73552, 73561), (90416, 90425),
    (92768, 92777), (92864, 92873), (93008, 93017), (93552, 93561), (118000, 118009), (120782, 120831),
    (123200, 123209), (123632, 123641), (124144, 124153), (124401, 124410), (125264, 125273), (130032, 130041)]"

definition unicode_space :: "(nat \<times> nat) list" where
  "unicode_space =
    [(9, 13), (28, 32), (133, 133), (160, 160), (5760, 5760), (8192, 8202), (8232, 8233), (8239, 8239),
     (8287, 8287), (12288, 12288)]"

lemma unicode_space: "in_class c unicode_space \<longleftrightarrow> is_space c"
proof -
  have point: "n \<le> c \<and> c \<le> n \<longleftrightarrow> c = n" for n by auto
  have pair: "8232 \<le> c \<and> c \<le> 8233 \<longleftrightarrow> c = 8232 \<or> c = 8233" by auto
  show ?thesis by (simp only: unicode_space_def is_space_def in_class_simps point pair disj_assoc simp_thms)
qed

abbreviation any_text :: rx where
  "any_text \<equiv> Many (Class [(0, 1114111)])"

text \<open>\<open>re.search\<close>\<close>

definition search :: "rx \<Rightarrow> pystr \<Rightarrow> bool" where
  "search r s \<longleftrightarrow> fullmatch (Cat any_text (Cat r any_text)) s"

text \<open>\<open>re.sub(r"[-_.]+", "-", name)\<close>\<close>

fun collapse :: "bool \<Rightarrow> pystr \<Rightarrow> pystr" where
  "collapse inside [] = []"
| "collapse inside (c # cs) =
     (if c = 45 \<or> c = 46 \<or> c = 95 then (if inside then collapse True cs else 45 # collapse True cs)
      else c # collapse False cs)"

text \<open>\<open>str.splitlines\<close>, the removal of escaped line ends and the text after the last \<open>p\<close>.\<close>

definition line_break :: "nat \<Rightarrow> bool" where
  "line_break c \<longleftrightarrow> (10 \<le> c \<and> c \<le> 13) \<or> (28 \<le> c \<and> c \<le> 30) \<or> c = 133 \<or> c = 8232 \<or> c = 8233"

fun splitlines :: "pystr \<Rightarrow> pystr list" where
  "splitlines [] = []"
| "splitlines (c # cs) =
     (if c = 13 \<and> take 1 cs = [10] then [] # splitlines (drop 1 cs)
      else if line_break c then [] # splitlines cs
      else (case splitlines cs of [] \<Rightarrow> [[c]] | l # ls \<Rightarrow> (c # l) # ls))"

fun join_lines :: "pystr \<Rightarrow> pystr" where
  "join_lines (c # d # cs) = (if c = 92 \<and> d = 10 then 32 # join_lines cs else c # join_lines (d # cs))"
| "join_lines cs = cs"

primrec after_last :: "pystr \<Rightarrow> pystr \<Rightarrow> pystr option" where
  "after_last p [] = None"
| "after_last p (c # cs) =
     (case after_last p cs of
        Some r \<Rightarrow> Some r
      | None \<Rightarrow> if starts_with p (c # cs) then Some (drop (length p) (c # cs)) else None)"

definition ends_with :: "pystr \<Rightarrow> pystr \<Rightarrow> bool" where
  "ends_with p s \<longleftrightarrow> starts_with (rev p) (rev s)"

text \<open>\<open>str(n)\<close>\<close>

fun decimal :: "nat \<Rightarrow> pystr" where
  "decimal n = (if n < 10 then [48 + n] else decimal (n div 10) @ [48 + n mod 10])"

declare decimal.simps [simp del]

definition int_text :: "int \<Rightarrow> pystr" where
  "int_text n = (if n < 0 then 45 # decimal (nat (- n)) else decimal (nat n))"

text \<open>Text mode: \<open>bytes.decode("utf-8")\<close>, then every kind of line end becomes a line feed.\<close>

definition tail_byte :: "nat \<Rightarrow> bool" where
  "tail_byte b \<longleftrightarrow> 128 \<le> b \<and> b < 192"

fun decode_utf8 :: "bytes \<Rightarrow> pystr option" where
  "decode_utf8 [] = Some []"
| "decode_utf8 (a # r) =
     (if a < 128 then map_option ((#) a) (decode_utf8 r)
      else if 194 \<le> a \<and> a < 224 then
        (case r of
           b # r' \<Rightarrow> if tail_byte b then map_option ((#) ((a - 192) * 64 + (b - 128))) (decode_utf8 r') else None
         | _ \<Rightarrow> None)
      else if 224 \<le> a \<and> a < 240 then
        (case r of
           b # c # r' \<Rightarrow>
             (let v = (a - 224) * 4096 + (b - 128) * 64 + (c - 128) in
              if tail_byte b \<and> tail_byte c \<and> 2048 \<le> v \<and> \<not> (55296 \<le> v \<and> v \<le> 57343)
              then map_option ((#) v) (decode_utf8 r') else None)
         | _ \<Rightarrow> None)
      else if 240 \<le> a \<and> a < 245 then
        (case r of
           b # c # d # r' \<Rightarrow>
             (let v = (a - 240) * 262144 + (b - 128) * 4096 + (c - 128) * 64 + (d - 128) in
              if tail_byte b \<and> tail_byte c \<and> tail_byte d \<and> 65536 \<le> v \<and> v < 1114112
              then map_option ((#) v) (decode_utf8 r') else None)
         | _ \<Rightarrow> None)
      else None)"

fun universal_newlines :: "pystr \<Rightarrow> pystr" where
  "universal_newlines [] = []"
| "universal_newlines (c # cs) =
     (if c = 13 then 10 # universal_newlines (if take 1 cs = [10] then drop 1 cs else cs)
      else c # universal_newlines cs)"

section \<open>Reading JSON\<close>

text \<open>
  \<open>json.loads\<close>. A rejected text raises \<open>OtherError\<close>. \<open>hook\<close> receives the items of every object as soon as it is
  complete, as \<open>object_pairs_hook\<close> does; \<open>float_of\<close> is \<open>float\<close> on a numeral. The depth of nesting the interpreter
  allows is not limited here.
\<close>

definition json_space :: "nat \<Rightarrow> bool" where
  "json_space c \<longleftrightarrow> c = 32 \<or> c = 9 \<or> c = 10 \<or> c = 13"

definition hex_digit :: "nat \<Rightarrow> nat option" where
  "hex_digit c =
     (if is_digit c then Some (c - 48) else if 97 \<le> c \<and> c \<le> 102 then Some (c - 87)
      else if 65 \<le> c \<and> c \<le> 70 then Some (c - 55) else None)"

fun hex4 :: "pystr \<Rightarrow> (nat \<times> pystr) option" where
  "hex4 (a # b # c # d # r) =
     (case (hex_digit a, hex_digit b, hex_digit c, hex_digit d) of
        (Some w, Some x, Some y, Some z) \<Rightarrow> Some (w * 4096 + x * 256 + y * 16 + z, r)
      | _ \<Rightarrow> None)"
| "hex4 _ = None"

definition surrogate_pair :: "nat \<Rightarrow> nat \<Rightarrow> nat" where
  "surrogate_pair u v = 65536 + (u - 55296) * 1024 + (v - 56320)"

text \<open>What follows a backslash.\<close>

definition json_escape :: "pystr \<Rightarrow> (nat \<times> pystr) option" where
  "json_escape s =
     (case s of
        [] \<Rightarrow> None
      | e # r \<Rightarrow>
          if e = 117 then
            (case hex4 r of
               None \<Rightarrow> None
             | Some (u, r1) \<Rightarrow>
                 if 55296 \<le> u \<and> u \<le> 56319 \<and> take 2 r1 = [92, 117] then
                   (case hex4 (drop 2 r1) of
                      None \<Rightarrow> None
                    | Some (v, r2) \<Rightarrow> if 56320 \<le> v \<and> v \<le> 57343 then Some (surrogate_pair u v, r2) else Some (u, r1))
                 else Some (u, r1))
          else if e = 34 \<or> e = 92 \<or> e = 47 then Some (e, r)
          else if e = 98 then Some (8, r) else if e = 102 then Some (12, r) else if e = 110 then Some (10, r)
          else if e = 114 then Some (13, r) else if e = 116 then Some (9, r)
          else None)"

lemma hex4_length: "hex4 s = Some (u, r) \<Longrightarrow> length r < length s"
  by (cases s rule: hex4.cases) (auto split: option.splits)

lemma json_escape_length: "json_escape s = Some (u, r) \<Longrightarrow> length r < length s"
  by (auto simp: json_escape_def split: list.splits option.splits if_splits dest!: hex4_length)

text \<open>The rest of a string after its opening quote.\<close>

function json_string :: "pystr \<Rightarrow> (pystr \<times> pystr) option" where
  "json_string [] = None"
| "json_string (c # cs) =
     (if c = 34 then Some ([], cs)
      else if c = 92 then
        (case json_escape cs of
           None \<Rightarrow> None
         | Some (u, r) \<Rightarrow> (case json_string r of None \<Rightarrow> None | Some (t, r') \<Rightarrow> Some (u # t, r')))
      else if c < 32 then None
      else (case json_string cs of None \<Rightarrow> None | Some (t, r') \<Rightarrow> Some (c # t, r')))"
  by pat_completeness auto
termination by (relation "measure length") (auto dest!: json_escape_length)

text \<open>A number: an integer, or a float as soon as it has a fraction or an exponent.\<close>

definition value_of_digits :: "pystr \<Rightarrow> nat" where
  "value_of_digits ds = foldl (\<lambda>n d. n * 10 + (d - 48)) 0 ds"

definition fraction_part :: "pystr \<Rightarrow> pystr \<times> pystr" where
  "fraction_part s =
     (case s of
        c # r \<Rightarrow>
          let ds = takeWhile is_digit r in
          if c = 46 \<and> ds \<noteq> [] then (46 # ds, dropWhile is_digit r) else ([], s)
      | _ \<Rightarrow> ([], s))"

definition exponent_part :: "pystr \<Rightarrow> pystr \<times> pystr" where
  "exponent_part s =
     (case s of
        e # r \<Rightarrow>
          if e = 101 \<or> e = 69 then
            let sign = (if take 1 r = [43] \<or> take 1 r = [45] then take 1 r else []);
                r1 = drop (length sign) r;
                ds = takeWhile is_digit r1 in
            if ds = [] then ([], s) else (e # sign @ ds, dropWhile is_digit r1)
          else ([], s)
      | _ \<Rightarrow> ([], s))"

definition max_int_digits :: nat where
  "max_int_digits = 4300"

definition json_number :: "(pystr \<Rightarrow> pyfloat) \<Rightarrow> pystr \<Rightarrow> (pyval \<times> pystr) option" where
  "json_number float_of s =
     (let minus = take 1 s = [45];
          s1 = (if minus then drop 1 s else s);
          ds = (if take 1 s1 = [48] then [48] else takeWhile is_digit s1);
          r0 = drop (length ds) s1;
          (fr, r1) = fraction_part r0;
          (ex, r2) = exponent_part r1 in
      if ds = [] then None
      else if fr = [] \<and> ex = [] then
        (if max_int_digits < length ds then None
         else Some (VInt (if minus then - int (value_of_digits ds) else int (value_of_digits ds)), r2))
      else Some (VFloat (float_of ((if minus then [45] else []) @ ds @ fr @ ex)), r2))"

definition json_constant :: "pystr \<Rightarrow> (pyval \<times> pystr) option" where
  "json_constant s =
     (let literal = (\<lambda>w v. if starts_with (lit w) s then Some (v, drop (length w) s) else None) in
      case [c \<leftarrow> [literal ''null'' VNone, literal ''true'' (VBool True), literal ''false'' (VBool False),
                literal ''NaN'' (VFloat NotFinite), literal ''Infinity'' (VFloat NotFinite),
                literal ''-Infinity'' (VFloat NotFinite)]. c \<noteq> None] of
        [] \<Rightarrow> None
      | c # _ \<Rightarrow> c)"

type_synonym dict_hook = "(pystr \<times> pyval) list \<Rightarrow> gate_error + pyval"

text \<open>\<open>n\<close> bounds the calls; \<open>json_fuel\<close> says that \<open>2 * length s + 1\<close> is enough for a value.\<close>

fun json_value :: "(pystr \<Rightarrow> pyfloat) \<Rightarrow> dict_hook \<Rightarrow> nat \<Rightarrow> pystr \<Rightarrow> gate_error + (pyval \<times> pystr)"
and json_items :: "(pystr \<Rightarrow> pyfloat) \<Rightarrow> dict_hook \<Rightarrow> nat \<Rightarrow> pystr \<Rightarrow> gate_error + (pyval list \<times> pystr)"
and json_members :: "(pystr \<Rightarrow> pyfloat) \<Rightarrow> dict_hook \<Rightarrow> nat \<Rightarrow> pystr \<Rightarrow> gate_error + ((pystr \<times> pyval) list \<times> pystr)" where
  "json_value float_of hook 0 s = Inl OtherError"
| "json_value float_of hook (Suc n) s =
     (case s of
        [] \<Rightarrow> Inl OtherError
      | c # cs \<Rightarrow>
          if c = 34 then (case json_string cs of None \<Rightarrow> Inl OtherError | Some (t, r) \<Rightarrow> Inr (VStr t, r))
          else if c = 123 then
            (let r = dropWhile json_space cs in
             if take 1 r = [125] then and_then (hook []) (\<lambda>v. Inr (v, drop 1 r))
             else and_then (json_members float_of hook n r) (\<lambda>(ps, r'). and_then (hook ps) (\<lambda>v. Inr (v, r'))))
          else if c = 91 then
            (let r = dropWhile json_space cs in
             if take 1 r = [93] then Inr (VList [], drop 1 r)
             else and_then (json_items float_of hook n r) (\<lambda>(xs, r'). Inr (VList xs, r')))
          else
            (case json_constant s of
               Some r \<Rightarrow> Inr r
             | None \<Rightarrow> (case json_number float_of s of Some r \<Rightarrow> Inr r | None \<Rightarrow> Inl OtherError)))"
| "json_items float_of hook 0 s = Inl OtherError"
| "json_items float_of hook (Suc n) s =
     and_then (json_value float_of hook n s) (\<lambda>(x, r).
     case dropWhile json_space r of
       [] \<Rightarrow> Inl OtherError
     | c # cs \<Rightarrow>
         if c = 93 then Inr ([x], cs)
         else if c = 44 then
           and_then (json_items float_of hook n (dropWhile json_space cs)) (\<lambda>(xs, r'). Inr (x # xs, r'))
         else Inl OtherError)"
| "json_members float_of hook 0 s = Inl OtherError"
| "json_members float_of hook (Suc n) s =
     (if take 1 s \<noteq> [34] then Inl OtherError
      else (case json_string (drop 1 s) of
          None \<Rightarrow> Inl OtherError
        | Some (k, r) \<Rightarrow>
            (case dropWhile json_space r of
               [] \<Rightarrow> Inl OtherError
             | c # cs \<Rightarrow>
                 if c \<noteq> 58 then Inl OtherError
                 else and_then (json_value float_of hook n (dropWhile json_space cs)) (\<lambda>(x, r1).
                   case dropWhile json_space r1 of
                     [] \<Rightarrow> Inl OtherError
                   | d # ds \<Rightarrow>
                       if d = 125 then Inr ([(k, x)], ds)
                       else if d = 44 then
                         and_then (json_members float_of hook n (dropWhile json_space ds)) (\<lambda>(ps, r'). Inr ((k, x) # ps, r'))
                       else Inl OtherError))))"

definition json_loads :: "(pystr \<Rightarrow> pyfloat) \<Rightarrow> dict_hook \<Rightarrow> pystr \<Rightarrow> gate_error + pyval" where
  "json_loads float_of hook s =
     (if take 1 s = [65279] then Inl OtherError
      else and_then (json_value float_of hook (2 * length s + 1) (dropWhile json_space s)) (\<lambda>(v, r).
        if dropWhile json_space r = [] then Inr v else Inl OtherError))"

text \<open>Without a hook the last of equal keys wins and keeps the place of the first.\<close>

primrec put_item :: "pystr \<Rightarrow> pyval \<Rightarrow> (pystr \<times> pyval) list \<Rightarrow> (pystr \<times> pyval) list" where
  "put_item k x [] = [(k, x)]"
| "put_item k x (p # ps) = (if fst p = k then (k, x) # ps else p # put_item k x ps)"

definition plain_hook :: dict_hook where
  "plain_hook ps = Inr (VDict (foldl (\<lambda>d (k, x). put_item k x d) [] ps))"

subsection \<open>The bound on calls is enough\<close>

lemma json_string_length: "json_string s = Some (t, r) \<Longrightarrow> length r < length s"
proof (induction s arbitrary: t r rule: json_string.induct)
  case (2 c cs)
  show ?case
  proof (cases "c = 92")
    case True
    with "2.prems" obtain u r1 t1 where e: "json_escape cs = Some (u, r1)" "json_string r1 = Some (t1, r)"
      by (auto split: option.splits)
    with "2.IH"(1) [of "(u, r1)" u r1 t1 r] True json_escape_length [OF e(1)] show ?thesis by simp
  next
    case False
    with 2 show ?thesis by (auto split: if_splits option.splits)
  qed
qed simp

lemma length_dropWhile_space: "dropWhile json_space s = c # cs \<Longrightarrow> length cs < length s"
  using length_dropWhile_le [of json_space s] by simp

lemma fraction_length: "fraction_part s = (d, r) \<Longrightarrow> length r \<le> length s"
  using length_dropWhile_le [of is_digit] by (auto simp: fraction_part_def Let_def split: list.splits if_splits intro: le_SucI)

lemma exponent_length: "exponent_part s = (d, r) \<Longrightarrow> length r \<le> length s"
proof -
  assume e: "exponent_part s = (d, r)"
  have "length (dropWhile is_digit (drop m q)) \<le> Suc (length q)" for m q
    using length_dropWhile_le [of is_digit "drop m q"] by simp
  note this [of 0, unfolded drop_0] this
  with e show ?thesis by (auto simp: exponent_part_def Let_def split: list.splits if_splits)
qed

lemma json_number_length: "json_number float_of s = Some (v, r) \<Longrightarrow> length r < length s"
proof -
  assume s: "json_number float_of s = Some (v, r)"
  define s1 where "s1 = (if take 1 s = [45] then drop 1 s else s)"
  define ds where "ds = (if take 1 s1 = [48] then [48] else takeWhile is_digit s1)"
  obtain fr r1 where f: "fraction_part (drop (length ds) s1) = (fr, r1)" by fastforce
  obtain ex r2 where x: "exponent_part r1 = (ex, r2)" by fastforce
  note num = s [unfolded json_number_def Let_def, folded s1_def, folded ds_def, unfolded f prod.case x]
  have d: "ds \<noteq> []" "r = r2" using num by (auto split: if_splits)
  have "length s1 \<le> length s" by (simp add: s1_def)
  moreover have "0 < length ds" "s1 \<noteq> []" using d(1) by (auto simp: ds_def split: if_splits)
  moreover have "length r2 \<le> length s1 - length ds" using fraction_length [OF f] exponent_length [OF x] by simp
  ultimately show ?thesis using d(2) by (simp add: less_le_trans [OF diff_less [of "length ds" "length s1"]] order.strict_trans1)
qed

lemma json_constant_length: "json_constant s = Some (v, r) \<Longrightarrow> length r < length s"
  by (auto simp: json_constant_def Let_def starts_with_iff split: list.splits if_splits)

lemma json_value_Inr_cases:
  assumes "json_value float_of hook (Suc n) s = Inr (v, r)"
  obtains (string) t cs where "s = 34 # cs" "json_string cs = Some (t, r)" "v = VStr t"
  | (dict0) cs where "s = 123 # cs" "take 1 (dropWhile json_space cs) = [125]" "hook [] = Inr v" "r = drop 1 (dropWhile json_space cs)"
  | (dict) cs ps where "s = 123 # cs" "json_members float_of hook n (dropWhile json_space cs) = Inr (ps, r)" "hook ps = Inr v"
  | (list0) cs where "s = 91 # cs" "v = VList []" "take 1 (dropWhile json_space cs) = [93]" "r = drop 1 (dropWhile json_space cs)"
  | (list) cs xs where "s = 91 # cs" "json_items float_of hook n (dropWhile json_space cs) = Inr (xs, r)" "v = VList xs"
  | (const) "json_constant s = Some (v, r)"
  | (number) "json_number float_of s = Some (v, r)"
proof (cases s)
  case (Cons c cs)
  with assms that show ?thesis
    by (auto simp: Let_def and_then_eq_Inr split: if_splits option.splits)
qed (use assms in simp)

lemma json_items_Inr_cases:
  assumes "json_items float_of hook (Suc n) s = Inr (xs, r)"
  obtains (one) x r1 where "json_value float_of hook n s = Inr (x, r1)" "dropWhile json_space r1 = 93 # r" "xs = [x]"
  | (more) x r1 cs ys where "json_value float_of hook n s = Inr (x, r1)" "dropWhile json_space r1 = 44 # cs"
      "json_items float_of hook n (dropWhile json_space cs) = Inr (ys, r)" "xs = x # ys"
proof -
  obtain x r1 where v: "json_value float_of hook n s = Inr (x, r1)" using assms by (auto simp: and_then_eq_Inr)
  show ?thesis
  proof (cases "dropWhile json_space r1")
    case (Cons c cs)
    with v assms that show ?thesis by (auto simp: and_then_eq_Inr split: if_splits)
  qed (use v assms in \<open>simp del: dropWhile_eq_Nil_conv\<close>)
qed

lemma json_members_Inr_cases:
  assumes "json_members float_of hook (Suc n) s = Inr (ps, r)"
  obtains (one) k cs0 r0 cs x r1 where "s = 34 # cs0" "json_string cs0 = Some (k, r0)" "dropWhile json_space r0 = 58 # cs"
      "json_value float_of hook n (dropWhile json_space cs) = Inr (x, r1)" "dropWhile json_space r1 = 125 # r" "ps = [(k, x)]"
  | (more) k cs0 r0 cs x r1 ds qs where "s = 34 # cs0" "json_string cs0 = Some (k, r0)" "dropWhile json_space r0 = 58 # cs"
      "json_value float_of hook n (dropWhile json_space cs) = Inr (x, r1)" "dropWhile json_space r1 = 44 # ds"
      "json_members float_of hook n (dropWhile json_space ds) = Inr (qs, r)" "ps = (k, x) # qs"
proof -
  from assms obtain cs0 k r0 where k: "s = 34 # cs0" "json_string cs0 = Some (k, r0)"
    by (cases s) (auto split: if_splits option.splits)
  with assms obtain cs where c: "dropWhile json_space r0 = 58 # cs"
    by (cases "dropWhile json_space r0") (auto split: if_splits)
  with assms k obtain x r1 where v: "json_value float_of hook n (dropWhile json_space cs) = Inr (x, r1)"
    by (auto simp: and_then_eq_Inr)
  show ?thesis
  proof (cases "dropWhile json_space r1")
    case (Cons d ds)
    with k c v assms that show ?thesis by (auto simp: and_then_eq_Inr split: if_splits)
  qed (use k c v assms in \<open>simp del: dropWhile_eq_Nil_conv\<close>)
qed

lemma json_lengths:
  shows json_value_length: "\<And>s v r. json_value float_of hook n s = Inr (v, r) \<Longrightarrow> length r < length s"
    and json_items_length: "\<And>s xs r. json_items float_of hook n s = Inr (xs, r) \<Longrightarrow> length r < length s"
    and json_members_length: "\<And>s ps r. json_members float_of hook n s = Inr (ps, r) \<Longrightarrow> length r < length s"
proof (induction n)
  case (Suc n)
  note sp = length_dropWhile_le [of json_space] and sp' = length_dropWhile_space
  { case 1
    then show ?case
    proof (cases rule: json_value_Inr_cases)
      case (string t cs) then show ?thesis using json_string_length by fastforce
    next
      case (dict0 cs) then show ?thesis using sp [of cs] by simp
    next
      case (dict cs ps) then show ?thesis using Suc.IH(3) [OF dict(2)] sp [of cs] by simp
    next
      case (list0 cs) then show ?thesis using sp [of cs] by simp
    next
      case (list cs xs) then show ?thesis using Suc.IH(2) [OF list(2)] sp [of cs] by simp
    qed (rule json_constant_length json_number_length, assumption)+
  next
    case 2
    then show ?case
    proof (cases rule: json_items_Inr_cases)
      case (one x r1) then show ?thesis using Suc.IH(1) [OF one(1)] sp' [OF one(2)] by simp
    next
      case (more x r1 cs ys)
      then show ?thesis using Suc.IH(1) [OF more(1)] Suc.IH(2) [OF more(3)] sp' [OF more(2)] sp [of cs] by simp
    qed
  next
    case 3
    then show ?case
    proof (cases rule: json_members_Inr_cases)
      case (one k cs0 r0 cs x r1)
      then show ?thesis using json_string_length [OF one(2)] sp' [OF one(3)] sp [of cs] Suc.IH(1) [OF one(4)] sp' [OF one(5)] by simp
    next
      case (more k cs0 r0 cs x r1 ds qs)
      then show ?thesis
        using json_string_length [OF more(2)] sp' [OF more(3)] sp [of cs] Suc.IH(1) [OF more(4)] sp' [OF more(5)]
          sp [of ds] Suc.IH(3) [OF more(6)] by simp
    qed }
qed simp_all

declare json_value.simps [simp del] json_items.simps [simp del] json_members.simps [simp del]

lemma json_fuel:
  "(\<forall>s. 2 * length s < n \<longrightarrow> json_value float_of hook (Suc n) s = json_value float_of hook n s) \<and>
   (\<forall>s. 2 * length s + 1 < n \<longrightarrow> json_items float_of hook (Suc n) s = json_items float_of hook n s) \<and>
   (\<forall>s. 2 * length s + 1 < n \<longrightarrow> json_members float_of hook (Suc n) s = json_members float_of hook n s)"
proof (induction n)
  case (Suc n)
  note sp = length_dropWhile_le [of json_space]
  have "json_value float_of hook (Suc (Suc n)) s = json_value float_of hook (Suc n) s" if len: "2 * length s < Suc n" for s
  proof (cases s)
    case (Cons c cs)
    have "2 * length (dropWhile json_space cs) + 1 < n" using sp [of cs] len Cons by simp
    with Suc.IH have "json_items float_of hook (Suc n) (dropWhile json_space cs) = json_items float_of hook n (dropWhile json_space cs)"
      "json_members float_of hook (Suc n) (dropWhile json_space cs) = json_members float_of hook n (dropWhile json_space cs)" by blast+
    then show ?thesis unfolding Cons json_value.simps(2) Let_def by simp
  qed (simp add: json_value.simps)
  moreover have "json_items float_of hook (Suc (Suc n)) s = json_items float_of hook (Suc n) s" if len: "2 * length s + 1 < Suc n" for s
  proof -
    have v: "json_value float_of hook (Suc n) s = json_value float_of hook n s" using Suc.IH len by simp
    have i: "json_items float_of hook (Suc n) (dropWhile json_space cs) = json_items float_of hook n (dropWhile json_space cs)"
      if "json_value float_of hook n s = Inr (x, r)" "dropWhile json_space r = c # cs" for x r c cs
      using Suc.IH len json_value_length [OF that(1)] length_dropWhile_space [OF that(2)] sp [of cs] by simp
    show ?thesis unfolding json_items.simps(2) [where s = s] v using i
      by (cases "json_value float_of hook n s") (auto simp del: dropWhile_eq_Nil_conv split: list.splits)
  qed
  moreover have "json_members float_of hook (Suc (Suc n)) s = json_members float_of hook (Suc n) s" if len: "2 * length s + 1 < Suc n" for s
  proof -
    have v: "json_value float_of hook (Suc n) (dropWhile json_space cs) = json_value float_of hook n (dropWhile json_space cs)"
      if "json_string (drop 1 s) = Some (k, r)" "dropWhile json_space r = c # cs" for k r c cs
      using Suc.IH len json_string_length [OF that(1)] length_dropWhile_space [OF that(2)] sp [of cs] by simp
    have m: "json_members float_of hook (Suc n) (dropWhile json_space ds) = json_members float_of hook n (dropWhile json_space ds)"
      if "json_string (drop 1 s) = Some (k, r)" "dropWhile json_space r = c # cs"
        "json_value float_of hook n (dropWhile json_space cs) = Inr (x, r1)" "dropWhile json_space r1 = d # ds" for k r c cs x r1 d ds
      using Suc.IH len json_string_length [OF that(1)] length_dropWhile_space [OF that(2)] sp [of cs]
        json_value_length [OF that(3)] length_dropWhile_space [OF that(4)] sp [of ds] by simp
    show ?thesis
    proof (cases "json_string (drop 1 s)")
      case None
      then show ?thesis unfolding json_members.simps(2) by simp
    next
      case (Some kr)
      obtain k r where k: "json_string (drop 1 s) = Some (k, r)" using Some by (cases kr) simp
      show ?thesis
      proof (cases "dropWhile json_space r")
        case (Cons c cs)
        show ?thesis unfolding json_members.simps(2) [where s = s] k option.case prod.case Cons list.case v [OF k Cons]
          using m [OF k Cons] by (cases "json_value float_of hook n (dropWhile json_space cs)")
            (auto simp del: dropWhile_eq_Nil_conv split: list.splits)
      next
        case Nil
        show ?thesis unfolding json_members.simps(2) [where s = s] k option.case prod.case Nil by simp
      qed
    qed
  qed
  ultimately show ?case by blast
qed simp

lemma json_value_fuel:
  assumes "2 * length s < n" "n \<le> m"
  shows "json_value float_of hook m s = json_value float_of hook n s"
  using assms(2)
proof (induction m rule: dec_induct)
  case (step k)
  then have "json_value float_of hook (Suc k) s = json_value float_of hook k s" using json_fuel [of k] assms(1) by simp
  with step show ?case by simp
qed simp

section \<open>Objects without repeated keys\<close>

text \<open>\<open>strict_json\<close> of \<open>dependency-audit.py\<close>: the hook refuses the first repeated key.\<close>

definition INVALID_SCANNER_RESULT :: pystr where
  "INVALID_SCANNER_RESULT = lit ''invalid_scanner_result''"

primrec unique_items :: "(pystr \<times> pyval) list \<Rightarrow> (pystr \<times> pyval) list \<Rightarrow> gate_error + (pystr \<times> pyval) list" where
  "unique_items result [] = Inr result"
| "unique_items result (p # ps) =
     check (fst p \<notin> fst ` set result) INVALID_SCANNER_RESULT (\<lambda>_. unique_items (result @ [p]) ps)"

definition unique_hook :: dict_hook where
  "unique_hook ps = and_then (unique_items [] ps) (\<lambda>d. Inr (VDict d))"

definition strict_json :: "(pystr \<Rightarrow> pyfloat) \<Rightarrow> pystr \<Rightarrow> gate_error + pyval" where
  "strict_json float_of s = json_loads float_of unique_hook s"

lemma unique_items_iff:
  "distinct (map fst r) \<Longrightarrow> unique_items r ps = (if distinct (map fst (r @ ps)) then Inr (r @ ps) else Inl (GateFailure INVALID_SCANNER_RESULT))"
  by (induction ps arbitrary: r) (auto simp: and_then_ensure)

lemma unique_hook_iff:
  "unique_hook ps = (if distinct (map fst ps) then Inr (VDict ps) else Inl (GateFailure INVALID_SCANNER_RESULT))"
  by (simp add: unique_hook_def unique_items_iff)

text \<open>No object in the value repeats a key.\<close>

fun keys_unique :: "pyval \<Rightarrow> bool" where
  "keys_unique (VList xs) \<longleftrightarrow> list_all keys_unique xs"
| "keys_unique (VDict ps) \<longleftrightarrow> distinct (map fst ps) \<and> list_all (\<lambda>(k, v). keys_unique v) ps"
| "keys_unique v \<longleftrightarrow> True"

lemma json_unique:
  shows json_value_unique: "\<And>s v r. json_value float_of unique_hook n s = Inr (v, r) \<Longrightarrow> keys_unique v"
    and json_items_unique: "\<And>s xs r. json_items float_of unique_hook n s = Inr (xs, r) \<Longrightarrow> list_all keys_unique xs"
    and json_members_unique: "\<And>s ps r. json_members float_of unique_hook n s = Inr (ps, r) \<Longrightarrow> list_all (\<lambda>(k, v). keys_unique v) ps"
proof (induction n)
  case (Suc n)
  { case 1
    then show ?case
    proof (cases rule: json_value_Inr_cases)
      case (dict cs ps)
      then show ?thesis using Suc.IH(3) [OF dict(2)] by (auto simp: unique_hook_iff split: if_splits)
    next
      case (list cs xs)
      then show ?thesis using Suc.IH(2) [OF list(2)] by simp
    next
      case const
      then show ?thesis by (auto simp: json_constant_def Let_def split: list.splits if_splits)
    next
      case number
      then show ?thesis by (auto simp: json_number_def Let_def split: prod.splits if_splits)
    qed (auto simp: unique_hook_iff)
  next
    case 2
    then show ?case by (cases rule: json_items_Inr_cases) (simp_all add: Suc.IH(1,2))
  next
    case 3
    then show ?case by (cases rule: json_members_Inr_cases) (simp_all add: Suc.IH(1,3))
  }
qed (simp_all add: json_value.simps json_items.simps json_members.simps)

lemma strict_json_unique: "strict_json float_of s = Inr v \<Longrightarrow> keys_unique v"
  using json_value_unique by (fastforce simp: strict_json_def json_loads_def and_then_eq_Inr split: if_splits)

section \<open>Writing JSON\<close>

text \<open>\<open>json.dumps(v, sort_keys=True)\<close>; the gates write no floats.\<close>

definition unicode_escape :: "nat \<Rightarrow> pystr" where
  "unicode_escape u = [92, 117] @ hex_text 4 u"

definition json_char :: "nat \<Rightarrow> pystr" where
  "json_char c =
     (if c = 34 then [92, 34] else if c = 92 then [92, 92] else if c = 10 then [92, 110] else if c = 13 then [92, 114]
      else if c = 9 then [92, 116] else if c = 12 then [92, 102] else if c = 8 then [92, 98]
      else if 32 \<le> c \<and> c \<le> 126 then [c]
      else if c < 65536 then unicode_escape c
      else unicode_escape (55296 + (c - 65536) div 1024) @ unicode_escape (56320 + (c - 65536) mod 1024))"

definition json_quote :: "pystr \<Rightarrow> pystr" where
  "json_quote s = [34] @ concat (map json_char s) @ [34]"

fun comma_separated :: "pystr list \<Rightarrow> pystr" where
  "comma_separated [] = []"
| "comma_separated [x] = x"
| "comma_separated (x # xs) = x @ [44, 32] @ comma_separated xs"

fun json_dumps :: "pyval \<Rightarrow> pystr" where
  "json_dumps VNone = lit ''null''"
| "json_dumps (VBool b) = (if b then lit ''true'' else lit ''false'')"
| "json_dumps (VInt n) = int_text n"
| "json_dumps (VStr s) = json_quote s"
| "json_dumps (VList xs) = [91] @ comma_separated (map json_dumps xs) @ [93]"
| "json_dumps (VDict ps) =
     [123] @ comma_separated (map snd (sort_key fst (map (\<lambda>(k, v). (k, json_quote k @ [58, 32] @ json_dumps v)) ps))) @ [125]"
| "json_dumps (VFloat f) = lit ''null''"
| "json_dumps VOther = lit ''null''"

section \<open>Files and child processes\<close>

text \<open>
  A disk holds the contents of the files by their path. What else the operating system decides is the environment
  of a run: where directories can be made and files written, the variables it starts with, what \<open>str.upper\<close> is on
  their names, and what a child does with its variables, working directory and arguments: it may change the disk,
  and it returns its code and its two texts or never starts (or outlives its time limit).
\<close>

type_synonym disk = "pystr \<rightharpoonup> bytes"

record completed =
  returncode :: int
  stdout :: pystr
  stderr :: pystr

type_synonym 'a gate = "(gate_error, disk, 'a) steps"

record ci_env =
  ci_root :: pystr
  ci_environ :: "(pystr \<times> pystr) list"
  ci_upper :: "pystr \<Rightarrow> pystr"
  ci_lower :: "pystr \<Rightarrow> pystr"
  ci_float :: "pystr \<Rightarrow> pyfloat"
  ci_toml :: "pystr \<Rightarrow> pyval option"
  ci_mkdir :: "pystr \<Rightarrow> bool"
  ci_writable :: "pystr \<Rightarrow> bool"
  ci_spawn :: "(pystr \<times> pystr) list \<Rightarrow> pystr \<Rightarrow> pystr list \<Rightarrow> disk \<Rightarrow> completed option \<times> disk"

definition path_join :: "pystr \<Rightarrow> string \<Rightarrow> pystr" where
  "path_join p name = p @ [47] @ lit name"

definition read_bytes :: "pystr \<Rightarrow> bytes gate" where
  "read_bytes path d = (case d path of None \<Rightarrow> (Inl OtherError, d) | Some b \<Rightarrow> (Inr b, d))"

definition decode_text :: "bytes \<Rightarrow> gate_error + pystr" where
  "decode_text b = (case decode_utf8 b of None \<Rightarrow> Inl OtherError | Some t \<Rightarrow> Inr (universal_newlines t))"

definition read_text :: "pystr \<Rightarrow> pystr gate" where
  "read_text path = pseq (read_bytes path) (\<lambda>b. plift (decode_text b))"

definition write_bytes :: "ci_env \<Rightarrow> pystr \<Rightarrow> bytes \<Rightarrow> unit gate" where
  "write_bytes env path b d = (if ci_writable env path then (Inr (), d(path \<mapsto> b)) else (Inl OtherError, d))"

definition touch :: "ci_env \<Rightarrow> pystr \<Rightarrow> unit gate" where
  "touch env path d = (if d path = None then write_bytes env path [] d else (Inr (), d))"

definition copy_file :: "ci_env \<Rightarrow> pystr \<Rightarrow> pystr \<Rightarrow> unit gate" where
  "copy_file env from to = pseq (read_bytes from) (write_bytes env to)"

definition mkdir :: "ci_env \<Rightarrow> pystr \<Rightarrow> unit gate" where
  "mkdir env path = plift (ensure (ci_mkdir env path) OtherError)"

definition is_file :: "pystr \<Rightarrow> bool gate" where
  "is_file path d = (Inr (d path \<noteq> None), d)"

definition guard :: "bool \<Rightarrow> pystr \<Rightarrow> unit gate" where
  "guard b reason = plift (ensure b (GateFailure reason))"

lemma guard_apply: "guard b reason d = (if b then (Inr (), d) else (Inl (GateFailure reason), d))"
  by (simp add: guard_def)

lemma pseq_guard: "pseq (guard b reason) f d = (if b then f () d else (Inl (GateFailure reason), d))"
  by (simp add: pseq_def guard_apply)

lemma guard_eq_Inr: "guard b reason d = (Inr x, d') \<longleftrightarrow> b \<and> d' = d"
  by (auto simp: guard_apply)

lemma plift_eq_Inr: "plift r d = (Inr x, d') \<longleftrightarrow> r = Inr x \<and> d' = d"
  by auto

lemma read_bytes_eq_Inr: "read_bytes path d = (Inr b, d') \<longleftrightarrow> d path = Some b \<and> d' = d"
  by (auto simp: read_bytes_def split: option.splits)

lemma read_text_eq_Inr: "read_text path d = (Inr t, d') \<longleftrightarrow> d' = d \<and> (\<exists>b. d path = Some b \<and> decode_text b = Inr t)"
  by (auto simp: read_text_def pseq_eq_Inr read_bytes_eq_Inr)

section \<open>What holds when a program returns\<close>

text \<open>
  \<open>wp m Q d\<close>: if \<open>m\<close> returns from \<open>d\<close>, then \<open>Q\<close> holds of its value and the disk it leaves. The rules go backwards
  over a program and collect what every step established.
\<close>

named_theorems wp_intros \<open>rules that go over a program step by step\<close>

definition wp :: "('e, 's, 'a) steps \<Rightarrow> ('a \<Rightarrow> 's \<Rightarrow> bool) \<Rightarrow> 's \<Rightarrow> bool" where
  "wp m Q s \<longleftrightarrow> (\<forall>x s'. m s = (Inr x, s') \<longrightarrow> Q x s')"

lemma wpD: "wp m Q s \<Longrightarrow> m s = (Inr x, s') \<Longrightarrow> Q x s'"
  unfolding wp_def by blast

lemma wp_pseq [wp_intros]: "wp m (\<lambda>x. wp (f x) Q) s \<Longrightarrow> wp (pseq m f) Q s"
  unfolding wp_def pseq_eq_Inr by blast

lemma wp_pret [wp_intros]: "Q x s \<Longrightarrow> wp (pret x) Q s"
  by (simp add: wp_def)

lemma wp_plift [wp_intros]: "(\<And>x. r = Inr x \<Longrightarrow> Q x s) \<Longrightarrow> wp (plift r) Q s"
  by (simp add: wp_def)

lemma wp_guard [wp_intros]: "(b \<Longrightarrow> Q () d) \<Longrightarrow> wp (guard b reason) Q d"
  by (simp add: wp_def guard_apply)

lemma wp_is_file [wp_intros]: "Q (d path \<noteq> None) d \<Longrightarrow> wp (is_file path) Q d"
  by (simp add: wp_def is_file_def)

lemma wp_mkdir [wp_intros]: "(ci_mkdir env path \<Longrightarrow> Q () d) \<Longrightarrow> wp (mkdir env path) Q d"
  by (simp add: wp_def mkdir_def)

lemma wp_case_prod [wp_intros]: "(\<And>x y. p = (x, y) \<Longrightarrow> wp (f x y) Q s) \<Longrightarrow> wp (case p of (x, y) \<Rightarrow> f x y) Q s"
  by (cases p) simp

text \<open>Rules that are named where they are used.\<close>

lemma wp_read_bytes: "(\<And>b. d path = Some b \<Longrightarrow> Q b d) \<Longrightarrow> wp (read_bytes path) Q d"
  by (simp add: wp_def read_bytes_eq_Inr)

lemma wp_if: "(b \<Longrightarrow> wp m Q d) \<Longrightarrow> (\<not> b \<Longrightarrow> wp n Q d) \<Longrightarrow> wp (if b then m else n) Q d"
  by simp

lemma wp_conseq: "wp m P s \<Longrightarrow> (\<And>x s'. P x s' \<Longrightarrow> Q x s') \<Longrightarrow> wp m Q s"
  unfolding wp_def by blast

lemma wp_any: "(\<And>x s'. Q x s') \<Longrightarrow> wp m Q s"
  by (simp add: wp_def)

text \<open>A program that only reads, and only the files of \<open>S\<close>.\<close>

named_theorems reads_intros \<open>programs that only read certain files\<close>

definition agree :: "pystr set \<Rightarrow> disk \<Rightarrow> disk \<Rightarrow> bool" where
  "agree S d d' \<longleftrightarrow> (\<forall>p \<in> S. d' p = d p)"

definition reads :: "pystr set \<Rightarrow> 'a gate \<Rightarrow> bool" where
  "reads S m \<longleftrightarrow> (\<forall>d. snd (m d) = d \<and> (\<forall>d'. agree S d d' \<longrightarrow> fst (m d') = fst (m d)))"

lemma agree_refl [simp]: "agree S d d"
  by (simp add: agree_def)

lemma agree_trans: "agree S d d' \<Longrightarrow> agree S d' d'' \<Longrightarrow> agree S d d''"
  by (simp add: agree_def)

lemma reads_apply: "reads S m \<Longrightarrow> m d = (fst (m d), d)"
  by (metis reads_def surjective_pairing)

lemma readsD: "reads S m \<Longrightarrow> agree S d d' \<Longrightarrow> fst (m d') = fst (m d)"
  by (simp add: reads_def)

lemma wp_reads: "reads S m \<Longrightarrow> (\<And>x. fst (m s) = Inr x \<Longrightarrow> Q x s) \<Longrightarrow> wp m Q s"
  unfolding wp_def by (metis fst_conv reads_apply snd_conv)

lemma reads_basics [reads_intros]:
  "reads S (pret x)" "reads S (pfail e)" "reads S (plift r)" "reads S (guard b reason)"
  by (simp_all add: reads_def guard_def)

lemma reads_pseq [reads_intros]:
  assumes "reads S m" "\<And>x. reads S (f x)"
  shows "reads S (pseq m f)"
proof -
  have "pseq m f d = (case fst (m d) of Inl e \<Rightarrow> (Inl e, d) | Inr x \<Rightarrow> f x d)" for d
    using reads_apply [OF assms(1), of d] by (cases "fst (m d)") (simp_all add: pseq_def)
  moreover have "snd (f x d) = d" for x d using assms(2) by (simp add: reads_def)
  moreover have "fst (m d') = fst (m d)" "fst (f x d') = fst (f x d)" if "agree S d d'" for x d d'
    using that assms by (simp_all add: reads_def)
  ultimately show ?thesis unfolding reads_def by (auto split: sum.splits)
qed

lemma reads_bytes [reads_intros]: "path \<in> S \<Longrightarrow> reads S (read_bytes path)"
  by (auto simp: reads_def read_bytes_def agree_def split: option.splits)

lemma reads_text [reads_intros]: "path \<in> S \<Longrightarrow> reads S (read_text path)"
  unfolding read_text_def by (intro reads_intros)

end
