(* ===== verification/DependencyGate.thy ===== *)
theory DependencyGate
  imports CiPrelude
begin

text \<open>
  \<open>.github/ci/dependency-audit.py\<close>: inventories of the lock files, the reports of pip-audit and npm audit checked
  against them, and the gate that runs the scanners and writes one closed report. The scanners are child processes and
  TOML is a parameter of the environment.
\<close>

section \<open>Names, versions and advisories\<close>

definition name_char :: "(nat \<times> nat) list" where
  "name_char = [(97, 122), (48, 57), (46, 46), (95, 95), (45, 45)]"

definition NAME :: rx where
  "NAME = Cat (Opt (Cat (Class [(64, 64)]) (Cat (Many1 (Class name_char)) (Class [(47, 47)]))))
     (Cat (Class [(97, 122), (48, 57)]) (between 0 100 (Class name_char)))"

definition PACKAGE_VERSION :: rx where
  "PACKAGE_VERSION = Cat (Class [(48, 57)])
     (between 0 80 (Class [(97, 122), (65, 90), (48, 57), (46, 46), (33, 33), (43, 43), (95, 95), (45, 45)]))"

definition ghsa_group :: rx where
  "ghsa_group = Cat (Class [(45, 45)])
     (exactly 4 (Class (map (\<lambda>c. (c, c)) (lit ''23456789cfghjmpqrvwx''))))"

definition ADVISORY :: rx where
  "ADVISORY =
     Or (Cat (lit_rx (lit ''GHSA'')) (Cat ghsa_group (Cat ghsa_group ghsa_group)))
    (Or (Cat (lit_rx (lit ''CVE-'')) (Cat (exactly 4 (Class unicode_digits)) (Cat (Class [(45, 45)]) (between 4 10 (Class unicode_digits)))))
        (Cat (lit_rx (lit ''PYSEC-'')) (Cat (exactly 4 (Class unicode_digits)) (Cat (Class [(45, 45)]) (between 1 10 (Class unicode_digits))))))"

definition SEVERITIES :: "pystr list" where
  "SEVERITIES = map lit [''info'', ''low'', ''moderate'', ''medium'', ''high'', ''critical'']"

definition REASONS :: "pystr list" where
  "REASONS = map lit
     [''invalid_scanner_result'', ''tool_version_mismatch'', ''unsupported_package_source'', ''duplicate_inventory'',
      ''incomplete_inventory'', ''invalid_tool_lock'', ''build_inventory_changed'', ''scanner_failed'',
      ''scanner_status_mismatch'', ''tool_inventory_mismatch'', ''export_failed'', ''lockfiles_changed'', ''invalid_mode'',
      ''invalid_arguments'', ''gate_failed'', ''scanner_diagnostics'']"

definition PIP_AUDIT_VERSION :: pystr where
  "PIP_AUDIT_VERSION = lit ''2.10.1''"

definition UV_VERSION :: pystr where
  "UV_VERSION = lit ''0.12.10''"

definition NPM_VERSION :: pystr where
  "NPM_VERSION = lit ''11.11.0''"

type_synonym package = "pystr \<times> pystr"

definition package_pair :: "pyval \<Rightarrow> pyval \<Rightarrow> gate_error + package" where
  "package_pair name version =
     (case (name, version) of
        (VStr n, VStr v) \<Rightarrow>
          check (fullmatch NAME n) INVALID_SCANNER_RESULT (\<lambda>_.
          check (fullmatch PACKAGE_VERSION v) INVALID_SCANNER_RESULT (\<lambda>_.
          Inr (ascii_lower (collapse False n), v)))
      | _ \<Rightarrow> Inl (GateFailure INVALID_SCANNER_RESULT))"

definition safe_advisory :: "pyval \<Rightarrow> gate_error + pystr" where
  "safe_advisory value =
     (case value of
        VStr t \<Rightarrow> check (fullmatch ADVISORY t) INVALID_SCANNER_RESULT (\<lambda>_. Inr t)
      | _ \<Rightarrow> Inl (GateFailure INVALID_SCANNER_RESULT))"

definition safe_version :: "pyval \<Rightarrow> gate_error + pystr" where
  "safe_version value =
     (case value of
        VStr t \<Rightarrow> check (fullmatch PACKAGE_VERSION t) INVALID_SCANNER_RESULT (\<lambda>_. Inr t)
      | _ \<Rightarrow> Inl (GateFailure INVALID_SCANNER_RESULT))"

definition safe_versions :: "pyval \<Rightarrow> gate_error + pystr list" where
  "safe_versions values =
     (case values of
        VList xs \<Rightarrow> map_ok safe_version xs
      | _ \<Rightarrow> Inl (GateFailure INVALID_SCANNER_RESULT))"

definition as_list :: "pyval \<Rightarrow> gate_error + pyval list" where
  "as_list v = (case v of VList xs \<Rightarrow> Inr xs | _ \<Rightarrow> Inl (GateFailure INVALID_SCANNER_RESULT))"

section \<open>Inventories\<close>

text \<open>An inventory is the list of its packages in the order they were added; every one refuses a repeated package.\<close>

definition add_package :: "package \<Rightarrow> package list \<Rightarrow> gate_error + package list" where
  "add_package pair inventory =
     check (pair \<notin> set inventory) (lit ''duplicate_inventory'') (\<lambda>_. Inr (inventory @ [pair]))"

definition uv_row :: "pyval \<Rightarrow> nat \<times> package list \<Rightarrow> gate_error + nat \<times> package list" where
  "uv_row row st =
     (case st of (local_rows, inventory) \<Rightarrow>
     and_then (item row (lit ''source'')) (\<lambda>source.
     and_then (if equals_literal source (VDict [(lit ''editable'', VStr (lit ''.''))])
               then and_then (item row (lit ''name'')) (\<lambda>name. Inr (name = VStr (lit ''sahl-api''))) else Inr False) (\<lambda>is_local.
     if is_local then Inr (Suc local_rows, inventory)
     else
       check (equals_literal source (VDict [(lit ''registry'', VStr (lit ''https://pypi.org/simple''))]))
         (lit ''unsupported_package_source'') (\<lambda>_.
       and_then (item row (lit ''name'')) (\<lambda>name.
       and_then (item row (lit ''version'')) (\<lambda>version.
       and_then (package_pair name version) (\<lambda>pair.
       and_then (add_package pair inventory) (\<lambda>inventory'. Inr (local_rows, inventory')))))))))"

definition load_toml :: "ci_env \<Rightarrow> pystr \<Rightarrow> pyval gate" where
  "load_toml env path =
     pseq (read_text path) (\<lambda>t. plift (case ci_toml env t of None \<Rightarrow> Inl OtherError | Some v \<Rightarrow> Inr v))"

definition uv_packages :: "pyval \<Rightarrow> gate_error + package list" where
  "uv_packages lock =
     and_then (item lock (lit ''package'')) (\<lambda>rows.
     and_then (iterate rows) (\<lambda>rows.
     and_then (fold_ok uv_row rows (0, [])) (\<lambda>(local_rows, inventory).
     check (local_rows = 1 \<and> inventory \<noteq> []) (lit ''incomplete_inventory'') (\<lambda>_. Inr inventory))))"

definition uv_inventory :: "ci_env \<Rightarrow> package list gate" where
  "uv_inventory env =
     pseq (load_toml env (path_join (ci_root env) ''apps/api/uv.lock'')) (\<lambda>lock. plift (uv_packages lock))"

text \<open>
  One line of a requirements file: the name up to \<open>==\<close>, the version up to the first white space, and at least one
  hash. \<open>requirement_match_iff\<close> says that these are the groups of the pattern, and that no others are possible.
\<close>

definition requirement_name :: "(nat \<times> nat) list" where
  "requirement_name = [(97, 122), (65, 90), (48, 57), (46, 46), (95, 95), (45, 45)]"

definition hash_pattern :: rx where
  "hash_pattern = Many1 (Cat (lit_rx (lit ''--hash=sha256:''))
     (Cat (exactly 64 (Class [(97, 102), (48, 57)])) (Many (Class unicode_space))))"

definition requirement_match :: "pystr \<Rightarrow> (pystr \<times> pystr) option" where
  "requirement_match line =
     (let name = takeWhile (\<lambda>c. in_class c requirement_name) line;
          rest = dropWhile (\<lambda>c. in_class c requirement_name) line;
          version = takeWhile (\<lambda>c. \<not> is_space c) (drop 2 rest);
          tail = dropWhile (\<lambda>c. \<not> is_space c) (drop 2 rest) in
      if name \<noteq> [] \<and> take 2 rest = [61, 61] \<and> version \<noteq> [] \<and>
         fullmatch (Cat (Many1 (Class unicode_space)) hash_pattern) tail
      then Some (name, version) else None)"

definition requirement_line :: "pystr \<Rightarrow> package list \<Rightarrow> gate_error + package list" where
  "requirement_line line inventory =
     (if strip line = [] \<or> take 1 line = [35] then Inr inventory
      else (case requirement_match (strip line) of
          None \<Rightarrow> Inl (GateFailure (lit ''invalid_tool_lock''))
        | Some (name, version) \<Rightarrow>
            and_then (package_pair (VStr (ascii_lower name)) (VStr version)) (\<lambda>pair. add_package pair inventory)))"

definition requirements_packages :: "pystr \<Rightarrow> gate_error + package list" where
  "requirements_packages content =
     and_then (fold_ok requirement_line (splitlines (join_lines content)) []) (\<lambda>inventory.
     check (inventory \<noteq> []) (lit ''incomplete_inventory'') (\<lambda>_. Inr inventory))"

definition requirements_inventory :: "pystr \<Rightarrow> package list gate" where
  "requirements_inventory path = pseq (read_text path) (\<lambda>content. plift (requirements_packages content))"

definition BUILD_SYSTEM :: pyval where
  "BUILD_SYSTEM = VDict [(lit ''requires'', VList [VStr (lit ''setuptools>=68'')]),
     (lit ''build-backend'', VStr (lit ''setuptools.build_meta''))]"

definition build_config :: "package list \<Rightarrow> pyval" where
  "build_config inventory =
     VDict [(lit ''python-preference'', VStr (lit ''only-system'')), (lit ''python-downloads'', VStr (lit ''never'')),
       (lit ''extra-build-dependencies'',
        VDict [(lit ''sahl-api'', VList (map (\<lambda>(name, version). VStr (name @ [61, 61] @ version)) (sort inventory)))])]"

definition build_inventory :: "ci_env \<Rightarrow> package list gate" where
  "build_inventory env =
     pseq (load_toml env (path_join (ci_root env) ''apps/api/pyproject.toml'')) (\<lambda>project.
     pseq (plift (item project (lit ''build-system''))) (\<lambda>build_system.
     pseq (guard (equals_literal build_system BUILD_SYSTEM) (lit ''build_inventory_changed'')) (\<lambda>_.
     pseq (requirements_inventory (path_join (ci_root env) ''.github/ci/python-build.lock.txt'')) (\<lambda>inventory.
     pseq (guard (set inventory = {(lit ''setuptools'', lit ''84.0.0'')}) (lit ''build_inventory_changed'')) (\<lambda>_.
     pseq (load_toml env (path_join (ci_root env) ''.github/ci/uv-build.toml'')) (\<lambda>config.
     pseq (guard (equals_literal config (build_config inventory)) (lit ''build_inventory_changed'')) (\<lambda>_.
     pret inventory)))))))"

section \<open>The report of pip-audit\<close>

definition digits1 :: rx where
  "digits1 = Many1 (Class unicode_digits)"

definition spaces :: rx where
  "spaces = Many (Class unicode_space)"

definition PIP_AUDIT_STDERR :: rx where
  "PIP_AUDIT_STDERR = Cat (Opt (Or (lit_rx (lit ''No known vulnerabilities found''))
     (Cat (lit_rx (lit ''Found '')) (Cat digits1 (Cat (lit_rx (lit '' known vulnerabilit''))
       (Cat (Or (lit_rx (lit ''y'')) (lit_rx (lit ''ies''))) (Cat (lit_rx (lit '' in '')) (Cat digits1
       (Cat (lit_rx (lit '' package'')) (Opt (lit_rx (lit ''s'')))))))))))) spaces"

text \<open>\<open>value if value in SEVERITIES else None\<close>\<close>

definition severity_or_none :: "pyval \<Rightarrow> pyval" where
  "severity_or_none v = (if v \<in> VStr ` set SEVERITIES then v else VNone)"

definition strings :: "pystr list \<Rightarrow> pyval" where
  "strings xs = VList (map VStr xs)"

definition python_issue :: "package \<Rightarrow> pyval \<Rightarrow> pyval list \<Rightarrow> gate_error + pyval list" where
  "python_issue pair issue findings =
     check (is_dict issue) INVALID_SCANNER_RESULT (\<lambda>_.
     and_then (get_or (VList []) issue (lit ''aliases'')) (\<lambda>aliases.
     and_then (as_list aliases) (\<lambda>aliases.
     and_then (item issue (lit ''id'')) (\<lambda>advisory.
     and_then (safe_advisory advisory) (\<lambda>advisory.
     and_then (map_ok safe_advisory aliases) (\<lambda>aliases.
     and_then (item issue (lit ''fix_versions'')) (\<lambda>fixes.
     and_then (safe_versions fixes) (\<lambda>fixes.
     and_then (get_or VNone issue (lit ''severity'')) (\<lambda>severity.
     Inr (findings @ [VDict
       [(lit ''package'', VStr (fst pair)), (lit ''version'', VStr (snd pair)), (lit ''advisory'', VStr advisory),
        (lit ''aliases'', strings aliases), (lit ''fix_versions'', strings fixes),
        (lit ''severity'', severity_or_none severity)]]))))))))))"

definition python_row :: "pyval \<Rightarrow> package list \<times> pyval list \<Rightarrow> gate_error + package list \<times> pyval list" where
  "python_row row st =
     (case st of (actual, findings) \<Rightarrow>
     check (is_dict row) INVALID_SCANNER_RESULT (\<lambda>_.
     and_then (keys_are row (map lit [''name'', ''version'', ''vulns''])) (\<lambda>keys.
     check keys INVALID_SCANNER_RESULT (\<lambda>_.
     and_then (item row (lit ''name'')) (\<lambda>name.
     and_then (item row (lit ''version'')) (\<lambda>version.
     and_then (package_pair name version) (\<lambda>pair.
     check (pair \<notin> set actual) INVALID_SCANNER_RESULT (\<lambda>_.
     and_then (item row (lit ''vulns'')) (\<lambda>vulns.
     and_then (as_list vulns) (\<lambda>issues.
     and_then (fold_ok (python_issue pair) issues findings) (\<lambda>findings'.
     Inr (actual @ [pair], findings'))))))))))))"

definition python_rows :: "pyval \<Rightarrow> gate_error + package list \<times> pyval list" where
  "python_rows report =
     check (is_dict report) INVALID_SCANNER_RESULT (\<lambda>_.
     and_then (keys_are report (map lit [''dependencies'', ''fixes''])) (\<lambda>keys.
     check keys INVALID_SCANNER_RESULT (\<lambda>_.
     and_then (item report (lit ''fixes'')) (\<lambda>fixes.
     check (fixes = VList []) INVALID_SCANNER_RESULT (\<lambda>_.
     and_then (item report (lit ''dependencies'')) (\<lambda>dependencies.
     and_then (as_list dependencies) (\<lambda>rows.
     fold_ok python_row rows ([], []))))))))"

definition python_report :: "ci_env \<Rightarrow> completed \<Rightarrow> package list \<Rightarrow> gate_error + pyval list" where
  "python_report env result expected =
     check (returncode result \<in> {0, 1}) (lit ''scanner_failed'') (\<lambda>_.
     check (fullmatch PIP_AUDIT_STDERR (stderr result)) (lit ''scanner_diagnostics'') (\<lambda>_.
     and_then (strict_json (ci_float env) (stdout result)) (\<lambda>report.
     and_then (python_rows report) (\<lambda>(actual, findings).
     check (set actual = set expected) (lit ''incomplete_inventory'') (\<lambda>_.
     check ((returncode result = 0) = (findings = [])) (lit ''scanner_status_mismatch'') (\<lambda>_.
     Inr findings))))))"

section \<open>Children\<close>

text \<open>\<open>environment\<close>: the variables a child starts with; assignments come after what is kept.\<close>

definition ALLOWED_VARIABLES :: "pystr list" where
  "ALLOWED_VARIABLES = map lit [''PATH'', ''SYSTEMROOT'', ''WINDIR'', ''COMSPEC'', ''PATHEXT'', ''TEMP'', ''TMP'']"

definition own_variables :: "pystr \<Rightarrow> (pystr \<times> pystr) list" where
  "own_variables work =
     [(lit ''HOME'', work), (lit ''USERPROFILE'', work), (lit ''UV_CACHE_DIR'', path_join work ''uv-cache''),
      (lit ''PIP_AUDIT_CACHE_DIR'', path_join work ''pip-audit-cache''), (lit ''UV_PYTHON_DOWNLOADS'', lit ''never''),
      (lit ''PYTHONIOENCODING'', lit ''utf-8''), (lit ''NO_COLOR'', lit ''1''), (lit ''NPM_CONFIG_UPDATE_NOTIFIER'', lit ''false'')]"

definition environment :: "ci_env \<Rightarrow> pystr \<Rightarrow> (pystr \<times> pystr) list" where
  "environment env work =
     filter (\<lambda>(k, v). ci_upper env k \<in> set ALLOWED_VARIABLES \<and> k \<notin> fst ` set (own_variables work)) (ci_environ env) @
     own_variables work"

definition execute :: "ci_env \<Rightarrow> pystr list \<Rightarrow> pystr \<Rightarrow> pystr \<Rightarrow> completed gate" where
  "execute env arguments cwd work d =
     (case ci_spawn env (environment env work) cwd arguments d of
        (None, d') \<Rightarrow> (Inl OtherError, d')
      | (Some result, d') \<Rightarrow> (Inr result, d'))"

definition exact_tool :: "ci_env \<Rightarrow> pystr list \<Rightarrow> pystr \<Rightarrow> pystr \<Rightarrow> pystr \<Rightarrow> unit gate" where
  "exact_tool env arguments expected cwd work =
     pseq (execute env arguments cwd work) (\<lambda>result.
     guard (returncode result = 0 \<and> strip (stdout result) = expected \<and> strip (stderr result) = [])
       (lit ''tool_version_mismatch''))"

section \<open>The Python audit\<close>

definition UV_OUTPUT :: rx where
  "UV_OUTPUT = Cat (lit_rx (lit ''uv '' @ UV_VERSION))
     (Cat (Opt (Cat (lit_rx (lit '' ('')) (Cat (Many1 (Class [(97, 122), (65, 90), (48, 57), (32, 32), (46, 46), (95, 95), (45, 45)])) (lit_rx (lit '')'')))))
       spaces)"

text \<open>A letter under \<open>re.IGNORECASE\<close>: both cases and the other code points Unicode folds onto it.\<close>

definition any_case :: "nat \<Rightarrow> rx" where
  "any_case c = Class ([(c, c), (c - 32, c - 32)] @
     (if c = 105 then [(304, 305)] else if c = 115 then [(383, 383)] else if c = 107 then [(8490, 8490)] else []))"

definition any_case_word :: "string \<Rightarrow> rx" where
  "any_case_word w = foldr (\<lambda>c r. Cat (any_case c) r) (lit w) Blank"

definition EXPORT_DIAGNOSTIC :: rx where
  "EXPORT_DIAGNOSTIC = Or (any_case_word ''warning'') (Or (any_case_word ''error'')
     (Or (any_case_word ''panic'') (any_case_word ''skip'')))"

definition installed_pair :: "ci_env \<Rightarrow> pyval \<Rightarrow> gate_error + package" where
  "installed_pair env entry =
     and_then (iterate entry) (\<lambda>parts.
     case parts of
       [n, v] \<Rightarrow> and_then (as_str n) (\<lambda>n. package_pair (VStr (ci_lower env n)) v)
     | _ \<Rightarrow> Inl OtherError)"

definition installed_packages :: "ci_env \<Rightarrow> pystr \<Rightarrow> gate_error + package list" where
  "installed_packages env output =
     and_then (strict_json (ci_float env) output) (\<lambda>v.
     and_then (iterate v) (map_ok (installed_pair env)))"

definition exported_pair :: "pyval \<Rightarrow> gate_error + package" where
  "exported_pair p =
     and_then (item p (lit ''name'')) (\<lambda>name. and_then (item p (lit ''version'')) (\<lambda>version. package_pair name version))"

definition exported_packages :: "pyval \<Rightarrow> gate_error + package list" where
  "exported_packages pylock =
     and_then (item pylock (lit ''packages'')) (\<lambda>v. and_then (iterate v) (map_ok exported_pair))"

definition VERSION_PROBE :: pystr where
  "VERSION_PROBE = lit ''import sys; print('.'.join(map(str, sys.version_info[:2])))''"

definition INSTALLED_PROBE :: pystr where
  "INSTALLED_PROBE = lit (''import importlib.metadata as m, json; '' @
     ''print(json.dumps([[d.metadata['Name'],d.version] for d in m.distributions()]))'')"

definition pip_audit_command :: "pystr \<Rightarrow> pystr list" where
  "pip_audit_command python = [python] @ map lit
     [''-m'', ''pip_audit'', ''--strict'', ''--format'', ''json'', ''--progress-spinner'', ''off'',
      ''--vulnerability-service'', ''pypi'']"

type_synonym audit_target = "string \<times> pystr list \<times> package list"

text \<open>The scans in order; the first one with a finding is the last.\<close>

primrec scan_targets ::
  "ci_env \<Rightarrow> pystr \<Rightarrow> pystr \<Rightarrow> audit_target list \<Rightarrow> (pystr \<times> pyval) list \<Rightarrow> pyval list \<Rightarrow> ((pystr \<times> pyval) list \<times> pyval list) gate" where
  "scan_targets env python work [] audited findings = pret (audited, findings)"
| "scan_targets env python work (target # targets) audited findings =
     (case target of (label, arguments, inventory) \<Rightarrow>
     pseq (execute env (pip_audit_command python @ arguments) (ci_root env) work) (\<lambda>result.
     pseq (plift (python_report env result inventory)) (\<lambda>found.
     let audited' = audited @ [(lit label, VInt (int (length inventory)))] in
     if found \<noteq> [] then pret (audited', findings @ found)
     else scan_targets env python work targets audited' (findings @ found))))"

definition status_text :: "pyval list \<Rightarrow> pyval" where
  "status_text findings = VStr (if findings \<noteq> [] then lit ''FAIL'' else lit ''PASS'')"

definition audit_python :: "ci_env \<Rightarrow> pystr \<Rightarrow> pystr \<Rightarrow> pystr \<Rightarrow> (pystr \<times> pyval) list gate" where
  "audit_python env work python uv =
     (let root = ci_root env; build_path = path_join root ''.github/ci/python-build.lock.txt'';
          scanner_path = path_join root ''.github/ci/pip-audit.lock.txt'';
          export_dir = path_join work ''python-inventory''; output = path_join export_dir ''pylock.toml'' in
     pseq (execute env [uv, lit ''--version''] root work) (\<lambda>uv_version.
     pseq (guard (returncode uv_version = 0 \<and> strip (stderr uv_version) = [] \<and> fullmatch UV_OUTPUT (stdout uv_version))
       (lit ''tool_version_mismatch'')) (\<lambda>_.
     pseq (exact_tool env (python # map lit [''-m'', ''pip_audit'', ''--version'']) (lit ''pip-audit '' @ PIP_AUDIT_VERSION) root work) (\<lambda>_.
     pseq (exact_tool env [python, lit ''-c'', VERSION_PROBE] (lit ''3.14'') root work) (\<lambda>_.
     pseq (uv_inventory env) (\<lambda>expected.
     pseq (build_inventory env) (\<lambda>build.
     pseq (requirements_inventory scanner_path) (\<lambda>scanner.
     pseq (guard ((lit ''pip-audit'', PIP_AUDIT_VERSION) \<in> set scanner) (lit ''tool_version_mismatch'')) (\<lambda>_.
     pseq (execute env [python, lit ''-c'', INSTALLED_PROBE] root work) (\<lambda>installed.
     pseq (guard (returncode installed = 0 \<and> strip (stderr installed) = []) (lit ''scanner_failed'')) (\<lambda>_.
     pseq (plift (installed_packages env (stdout installed))) (\<lambda>installed_pairs.
     pseq (guard (set installed_pairs = set scanner) (lit ''tool_inventory_mismatch'')) (\<lambda>_.
     pseq (mkdir env export_dir) (\<lambda>_.
     pseq (execute env ([uv] @ map lit [''export'', ''--frozen'', ''--all-groups'', ''--all-extras'', ''--no-emit-project'',
         ''--format'', ''pylock.toml'', ''--output-file''] @ [output]) (path_join root ''apps/api'') work) (\<lambda>export.
     pseq (is_file output) (\<lambda>written.
     pseq (guard (returncode export = 0 \<and> written) (lit ''export_failed'')) (\<lambda>_.
     pseq (guard (\<not> search EXPORT_DIAGNOSTIC (stderr export)) (lit ''scanner_diagnostics'')) (\<lambda>_.
     pseq (load_toml env output) (\<lambda>pylock.
     pseq (plift (exported_packages pylock)) (\<lambda>exported.
     pseq (guard (length exported = length expected \<and> set exported = set expected) (lit ''incomplete_inventory'')) (\<lambda>_.
     pseq (scan_targets env python work
       [(''runtime_dev_all_markers'', [lit ''--locked'', export_dir], expected),
        (''build'', map lit [''--require-hashes'', ''--disable-pip'', ''-r''] @ [build_path], build),
        (''scanner'', map lit [''--require-hashes'', ''--disable-pip'', ''-r''] @ [scanner_path], scanner)] [] []) (\<lambda>(audited, findings).
     pret [(lit ''tool'', VStr (lit ''pip-audit'')), (lit ''version'', VStr PIP_AUDIT_VERSION),
       (lit ''audited_packages'', VDict audited), (lit ''findings'', VList findings),
       (lit ''status'', status_text findings)]))))))))))))))))))))))"

section \<open>The npm audit\<close>

text \<open>\<open>"link" not in value\<close> for whatever \<open>value\<close> is.\<close>

definition lacks_link :: "pyval \<Rightarrow> gate_error + bool" where
  "lacks_link v =
     (case v of
        VDict ps \<Rightarrow> Inr (lit ''link'' \<notin> fst ` set ps)
      | VList xs \<Rightarrow> Inr (VStr (lit ''link'') \<notin> set xs)
      | VStr s \<Rightarrow> Inr (\<not> contains (lit ''link'') s)
      | _ \<Rightarrow> Inl OtherError)"

type_synonym node_inventory = "(pystr \<times> package) list"

definition npm_node :: "pystr \<times> pyval \<Rightarrow> node_inventory \<Rightarrow> gate_error + node_inventory" where
  "npm_node entry inventory =
     (case entry of (key, v) \<Rightarrow>
     if key = [] then Inr inventory
     else (case after_last (lit ''node_modules/'') key of
         None \<Rightarrow> Inl (GateFailure INVALID_SCANNER_RESULT)
       | Some name \<Rightarrow>
           and_then (lacks_link v) (\<lambda>plain.
           check plain INVALID_SCANNER_RESULT (\<lambda>_.
           and_then (item v (lit ''version'')) (\<lambda>version.
           and_then (package_pair (VStr name) version) (\<lambda>pair.
           and_then (get_or VNone v (lit ''integrity'')) (\<lambda>integrity.
           check (is_ok (as_str integrity)) (lit ''incomplete_inventory'') (\<lambda>_.
           and_then (get_or (VStr []) v (lit ''resolved'')) (\<lambda>resolved.
           and_then (as_str resolved) (\<lambda>resolved.
           check (starts_with (lit ''https://registry.npmjs.org/'') resolved) (lit ''unsupported_package_source'') (\<lambda>_.
           Inr (inventory @ [(key, pair)]))))))))))))"

definition npm_packages :: "ci_env \<Rightarrow> pystr \<Rightarrow> gate_error + node_inventory" where
  "npm_packages env content =
     and_then (strict_json (ci_float env) content) (\<lambda>lock.
     and_then (item lock (lit ''lockfileVersion'')) (\<lambda>version.
     check (equals_int version 3) INVALID_SCANNER_RESULT (\<lambda>_.
     and_then (item lock (lit ''packages'')) (\<lambda>packages.
     case packages of
       VDict ps \<Rightarrow>
         and_then (fold_ok npm_node ps []) (\<lambda>inventory.
         check (inventory \<noteq> []) (lit ''incomplete_inventory'') (\<lambda>_. Inr inventory))
     | _ \<Rightarrow> Inl (GateFailure INVALID_SCANNER_RESULT)))))"

definition npm_inventory :: "ci_env \<Rightarrow> node_inventory gate" where
  "npm_inventory env =
     pseq (read_text (path_join (ci_root env) ''apps/web/package-lock.json'')) (\<lambda>content. plift (npm_packages env content))"

text \<open>\<open>all(node in inventory for node in nodes)\<close>: a node that cannot be hashed raises.\<close>

primrec nodes_known :: "node_inventory \<Rightarrow> pyval list \<Rightarrow> gate_error + bool" where
  "nodes_known inventory [] = Inr True"
| "nodes_known inventory (node # nodes) =
     (if \<not> hashable node then Inl OtherError
      else if node \<in> VStr ` fst ` set inventory then nodes_known inventory nodes
      else Inr False)"

definition node_package :: "node_inventory \<Rightarrow> pyval \<Rightarrow> package" where
  "node_package inventory node =
     (case node of
        VStr key \<Rightarrow> (case map_of inventory key of Some pair \<Rightarrow> pair | None \<Rightarrow> ([], []))
      | _ \<Rightarrow> ([], []))"

definition ADVISORY_URL :: pystr where
  "ADVISORY_URL = lit ''https://github.com/advisories/''"

definition npm_via :: "(pystr \<times> pyval) list \<Rightarrow> pyval \<Rightarrow> pystr list \<Rightarrow> gate_error + pystr list" where
  "npm_via vulnerabilities advisory ids =
     (case advisory of
        VStr other \<Rightarrow> check (other \<in> fst ` set vulnerabilities) INVALID_SCANNER_RESULT (\<lambda>_. Inr ids)
      | _ \<Rightarrow>
          check (is_dict advisory) INVALID_SCANNER_RESULT (\<lambda>_.
          and_then (get_or (VStr []) advisory (lit ''url'')) (\<lambda>url.
          case url of
            VStr t \<Rightarrow>
              check (starts_with ADVISORY_URL t) INVALID_SCANNER_RESULT (\<lambda>_.
              and_then (safe_advisory (VStr (drop (length ADVISORY_URL) t))) (\<lambda>advisory_id. Inr (ids @ [advisory_id])))
          | _ \<Rightarrow> Inl (GateFailure INVALID_SCANNER_RESULT))))"

definition npm_fix :: "pyval \<Rightarrow> gate_error + pystr list \<times> bool" where
  "npm_fix fix_available =
     (case fix_available of
        VDict ps \<Rightarrow>
          check (case map_of ps (lit ''name'') of Some (VStr n) \<Rightarrow> fullmatch NAME n | _ \<Rightarrow> False) INVALID_SCANNER_RESULT (\<lambda>_.
          and_then (item fix_available (lit ''version'')) (\<lambda>version.
          and_then (safe_versions (VList [version])) (\<lambda>versions. Inr (versions, ps \<noteq> []))))
      | VBool b \<Rightarrow> Inr ([], b)
      | _ \<Rightarrow> Inl (GateFailure INVALID_SCANNER_RESULT))"

definition npm_finding :: "node_inventory \<Rightarrow> (pystr \<times> pyval) list \<Rightarrow> pystr \<times> pyval \<Rightarrow> pyval list \<Rightarrow> gate_error + pyval list" where
  "npm_finding inventory vulnerabilities entry findings =
     (case entry of (name, row) \<Rightarrow>
     check (is_dict row) INVALID_SCANNER_RESULT (\<lambda>_.
     and_then (get_or VNone row (lit ''name'')) (\<lambda>own_name.
     check (own_name = VStr name \<and> fullmatch NAME name) INVALID_SCANNER_RESULT (\<lambda>_.
     and_then (get_or VNone row (lit ''severity'')) (\<lambda>severity.
     check (severity \<in> VStr ` set SEVERITIES) INVALID_SCANNER_RESULT (\<lambda>_.
     and_then (get_or VNone row (lit ''nodes'')) (\<lambda>nodes.
     and_then (as_list nodes) (\<lambda>nodes.
     and_then (if nodes = [] then Inr False else nodes_known inventory nodes) (\<lambda>known.
     check known (lit ''incomplete_inventory'') (\<lambda>_.
     check (list_all (\<lambda>node. fst (node_package inventory node) = collapse False name) nodes) INVALID_SCANNER_RESULT (\<lambda>_.
     and_then (get_or VNone row (lit ''fixAvailable'')) (\<lambda>fix_value.
     and_then (npm_fix fix_value) (\<lambda>(fix_versions, fix_available).
     and_then (get_or VNone row (lit ''via'')) (\<lambda>via.
     and_then (as_list via) (\<lambda>via.
     check (via \<noteq> []) INVALID_SCANNER_RESULT (\<lambda>_.
     and_then (fold_ok (npm_via vulnerabilities) via []) (\<lambda>ids.
     Inr (findings @ [VDict
       [(lit ''package'', VStr name),
        (lit ''versions'', strings (sort (remdups (map (\<lambda>node. snd (node_package inventory node)) nodes)))),
        (lit ''advisories'', strings ids), (lit ''severity'', severity), (lit ''fix_versions'', strings fix_versions),
        (lit ''fix_available'', VBool fix_available)]]))))))))))))))))))"

definition npm_counts :: "pyval \<Rightarrow> gate_error + (pystr \<times> pyval) list" where
  "npm_counts counts =
     and_then (keys_are counts (map lit [''info'', ''low'', ''moderate'', ''high'', ''critical'', ''total''])) (\<lambda>keys.
     check keys INVALID_SCANNER_RESULT (\<lambda>_.
     case counts of
       VDict ps \<Rightarrow> check (list_all (\<lambda>(k, v). case v of VInt n \<Rightarrow> 0 \<le> n | _ \<Rightarrow> False) ps) INVALID_SCANNER_RESULT (\<lambda>_. Inr ps)
     | _ \<Rightarrow> Inl OtherError))"

definition count_of :: "pyval \<Rightarrow> int" where
  "count_of v = (case v of VInt n \<Rightarrow> n | _ \<Rightarrow> 0)"

definition npm_rows :: "pyval \<Rightarrow> node_inventory \<Rightarrow> gate_error + int \<times> pyval list" where
  "npm_rows report inventory =
     check (is_dict report) INVALID_SCANNER_RESULT (\<lambda>_.
     and_then (get_or VNone report (lit ''auditReportVersion'')) (\<lambda>version.
     check (equals_int version 2) INVALID_SCANNER_RESULT (\<lambda>_.
     check (\<not> is_ok (item report (lit ''error''))) INVALID_SCANNER_RESULT (\<lambda>_.
     and_then (get_or VNone report (lit ''vulnerabilities'')) (\<lambda>vulnerabilities.
     case vulnerabilities of
       VDict vs \<Rightarrow>
         and_then (item report (lit ''metadata'')) (\<lambda>metadata.
         and_then (item metadata (lit ''vulnerabilities'')) (\<lambda>counts.
         and_then (npm_counts counts) (\<lambda>counts.
         and_then (item (VDict counts) (lit ''total'')) (\<lambda>total.
         check (count_of total = sum_list (map (\<lambda>(k, v). if k = lit ''total'' then 0 else count_of v) counts))
           INVALID_SCANNER_RESULT (\<lambda>_.
         and_then (item metadata (lit ''dependencies'')) (\<lambda>dependencies.
         and_then (item dependencies (lit ''total'')) (\<lambda>nodes.
         check (equals_int nodes (int (length inventory))) (lit ''incomplete_inventory'') (\<lambda>_.
         and_then (fold_ok (npm_finding inventory vs) vs []) (\<lambda>findings.
         Inr (count_of total, findings))))))))))
     | _ \<Rightarrow> Inl (GateFailure INVALID_SCANNER_RESULT))))))"

definition npm_report :: "ci_env \<Rightarrow> completed \<Rightarrow> node_inventory \<Rightarrow> gate_error + pyval list" where
  "npm_report env result inventory =
     check (returncode result \<in> {0, 1}) (lit ''scanner_failed'') (\<lambda>_.
     check (strip (stderr result) = []) (lit ''scanner_diagnostics'') (\<lambda>_.
     and_then (strict_json (ci_float env) (stdout result)) (\<lambda>report.
     and_then (npm_rows report inventory) (\<lambda>(total, findings).
     check (total = int (length findings)) (lit ''scanner_status_mismatch'') (\<lambda>_.
     check ((returncode result = 0) = (findings = [])) (lit ''scanner_status_mismatch'') (\<lambda>_.
     Inr findings))))))"

definition hexdigest :: "bytes \<Rightarrow> pystr" where
  "hexdigest b = concat (map (hex_text 2) (sha256 b))"

definition NODE_VERSION :: rx where
  "NODE_VERSION = Cat (lit_rx (lit ''v24.'')) (Cat digits1 (Cat (lit_rx (lit ''.'')) (Cat digits1 spaces)))"

definition audit_npm :: "ci_env \<Rightarrow> pystr \<Rightarrow> pystr \<Rightarrow> pystr \<Rightarrow> (pystr \<times> pyval) list gate" where
  "audit_npm env work node npm =
     (let root = ci_root env; snapshot = path_join work ''npm-inventory'';
          npm_command = (if ends_with (lit ''.js'') npm then [node, npm] else [npm]);
          lock = path_join snapshot ''package-lock.json'';
          userconfig = path_join work ''npm-userconfig''; globalconfig = path_join work ''npm-globalconfig'' in
     pseq (exact_tool env (npm_command @ [lit ''--version'']) NPM_VERSION root work) (\<lambda>_.
     pseq (execute env [node, lit ''--version''] root work) (\<lambda>node_version.
     pseq (guard (returncode node_version = 0 \<and> strip (stderr node_version) = [] \<and> fullmatch NODE_VERSION (stdout node_version))
       (lit ''tool_version_mismatch'')) (\<lambda>_.
     pseq (npm_inventory env) (\<lambda>inventory.
     pseq (mkdir env snapshot) (\<lambda>_.
     pseq (copy_file env (path_join root ''apps/web/package.json'') (path_join snapshot ''package.json'')) (\<lambda>_.
     pseq (copy_file env (path_join root ''apps/web/package-lock.json'') lock) (\<lambda>_.
     pseq (read_bytes lock) (\<lambda>copied.
     pseq (touch env userconfig) (\<lambda>_.
     pseq (touch env globalconfig) (\<lambda>_.
     pseq (execute env (npm_command @ map lit [''audit'', ''--json'', ''--package-lock-only'', ''--audit-level=low'',
         ''--include=dev'', ''--include=optional'', ''--include=peer'', ''--registry=https://registry.npmjs.org'', ''--userconfig''] @
         [userconfig, lit ''--globalconfig'', globalconfig]) snapshot work) (\<lambda>result.
     pseq (read_bytes lock) (\<lambda>after.
     pseq (guard (hexdigest after = hexdigest copied) (lit ''lockfiles_changed'')) (\<lambda>_.
     pseq (plift (npm_report env result inventory)) (\<lambda>findings.
     pret [(lit ''tool'', VStr (lit ''npm audit'')), (lit ''version'', VStr NPM_VERSION),
       (lit ''audited_nodes'', VInt (int (length inventory))), (lit ''findings'', VList findings),
       (lit ''status'', status_text findings)])))))))))))))))"

section \<open>The gate\<close>

text \<open>
  \<open>run\<close>: the interpreter's version, the directory \<open>TemporaryDirectory\<close> makes (if it can) and whether it can be
  removed again are decided by the run's environment.
\<close>

record gate_env = ci_env +
  ge_python :: "nat \<times> nat"
  ge_temporary :: "pystr \<Rightarrow> pystr option"
  ge_cleanup :: bool

record gate_result =
  gr_code :: int
  gr_printed :: pystr

definition LOCK_PATHS :: "string list" where
  "LOCK_PATHS = [''apps/api/uv.lock'', ''apps/web/package-lock.json'']"

definition lock_hashes :: "ci_env \<Rightarrow> disk \<Rightarrow> (string \<times> pystr) list option" where
  "lock_hashes env d =
     (if list_all (\<lambda>name. d (path_join (ci_root env) name) \<noteq> None) LOCK_PATHS
      then Some (map (\<lambda>name. (name, hexdigest (the (d (path_join (ci_root env) name))))) LOCK_PATHS) else None)"

definition remove_tree :: "pystr \<Rightarrow> disk \<Rightarrow> disk" where
  "remove_tree work d path = (if starts_with (work @ [47]) path then None else d path)"

definition with_temporary :: "gate_env \<Rightarrow> pystr \<Rightarrow> (pystr \<Rightarrow> 'a gate) \<Rightarrow> 'a gate" where
  "with_temporary env output_dir body d =
     (case ge_temporary env output_dir of
        None \<Rightarrow> (Inl OtherError, d)
      | Some work \<Rightarrow>
          (case body work d of (r, d') \<Rightarrow>
             if ge_cleanup env then (r, remove_tree work d') else (Inl OtherError, d')))"

definition failure :: "pystr \<Rightarrow> pystr \<Rightarrow> (pystr \<times> pyval) list" where
  "failure mode reason = [(lit ''gate'', VStr mode), (lit ''status'', VStr (lit ''FAIL'')), (lit ''reason'', VStr reason)]"

definition run_audit :: "gate_env \<Rightarrow> pystr \<Rightarrow> pystr \<Rightarrow> pystr \<Rightarrow> pystr \<Rightarrow> pystr \<Rightarrow> pystr \<Rightarrow> (pystr \<times> pyval) list gate" where
  "run_audit env mode output_dir python uv node npm =
     pseq (guard (ge_python env = (3, 14)) (lit ''tool_version_mismatch'')) (\<lambda>_.
     pseq (guard (mode \<in> {lit ''python'', lit ''npm''}) (lit ''invalid_mode'')) (\<lambda>_.
     pseq (mkdir (ci_env.truncate env) output_dir) (\<lambda>_.
     with_temporary env output_dir (\<lambda>work.
       if mode = lit ''python'' then audit_python (ci_env.truncate env) work python uv
       else audit_npm (ci_env.truncate env) work node npm))))"

definition summarise :: "pystr \<Rightarrow> gate_error + (pystr \<times> pyval) list \<Rightarrow> (pystr \<times> pyval) list" where
  "summarise mode outcome =
     (case outcome of
        Inr summary \<Rightarrow> summary
      | Inl (GateFailure reason) \<Rightarrow> failure mode (if reason \<in> set REASONS then reason else lit ''gate_failed'')
      | Inl OtherError \<Rightarrow> failure mode (lit ''gate_failed''))"

definition final_report :: "pystr \<Rightarrow> bool \<Rightarrow> gate_error + (pystr \<times> pyval) list \<Rightarrow> (pystr \<times> pyval) list" where
  "final_report mode unchanged outcome =
     (if unchanged then summarise mode outcome else failure mode (lit ''lockfiles_changed'')) @
     [(lit ''project_lockfiles_unchanged'', VBool unchanged)]"

definition report_path :: "pystr \<Rightarrow> pystr \<Rightarrow> pystr" where
  "report_path output_dir mode = output_dir @ [47] @ lit ''dependency-'' @ mode @ lit ''.json''"

definition publish :: "ci_env \<Rightarrow> pystr \<Rightarrow> pystr \<Rightarrow> (pystr \<times> pyval) list \<Rightarrow> disk \<Rightarrow> gate_result \<times> disk" where
  "publish env mode output_dir report d =
     (let payload = json_dumps (VDict report) in
      case pseq (mkdir env output_dir) (\<lambda>_. write_bytes env (report_path output_dir mode) (payload @ [10])) d of
        (Inl _, d') \<Rightarrow> (\<lparr>gr_code = 1, gr_printed = lit ''{\"status\":\"FAIL\",\"reason\":\"report_failed\"}''\<rparr>, d')
      | (Inr _, d') \<Rightarrow>
          (\<lparr>gr_code = (if map_of report (lit ''status'') = Some (VStr (lit ''PASS'')) then 0 else 1), gr_printed = payload\<rparr>, d'))"

definition run_gate ::
  "gate_env \<Rightarrow> pystr \<Rightarrow> pystr \<Rightarrow> pystr \<Rightarrow> pystr \<Rightarrow> pystr \<Rightarrow> pystr \<Rightarrow> disk \<Rightarrow> gate_result \<times> disk" where
  "run_gate env mode output_dir python uv node npm d =
     (let ci = ci_env.truncate env; before = lock_hashes ci d;
          (outcome, d1) = (if before = None then (Inl OtherError, d) else run_audit env mode output_dir python uv node npm d);
          unchanged = (before \<noteq> None \<and> lock_hashes ci d1 = before) in
      publish ci mode output_dir (final_report mode unchanged outcome) d1)"

text \<open>\<open>main\<close> after the command line was read: refused, a request for help, or a run.\<close>

datatype gate_arguments =
    Refused
  | Help pystr
  | Run pystr pystr pystr pystr pystr pystr

definition gate_main :: "gate_env \<Rightarrow> gate_arguments \<Rightarrow> disk \<Rightarrow> gate_result \<times> disk" where
  "gate_main env arguments d =
     (case arguments of
        Refused \<Rightarrow> (\<lparr>gr_code = 1, gr_printed = lit ''{\"status\":\"FAIL\",\"reason\":\"invalid_arguments\"}''\<rparr>, d)
      | Help usage \<Rightarrow> (\<lparr>gr_code = 0, gr_printed = usage\<rparr>, d)
      | Run mode output_dir python uv node npm \<Rightarrow> run_gate env mode output_dir python uv node npm d)"

end
