(* ===== verification/DependencyGateClaims.thy ===== *)
theory DependencyGateClaims
  imports DependencyGate
begin

text \<open>
  What a green dependency gate proves: every package of every inventory was in a report of the scanner, under its
  exact version and without an advisory, and the report that is published is closed.
\<close>

section \<open>Requirement lines\<close>

lemma takeWhile_until: "list_all P xs \<Longrightarrow> \<not> P y \<Longrightarrow> takeWhile P (xs @ y # ys) = xs" "list_all P xs \<Longrightarrow> \<not> P y \<Longrightarrow> dropWhile P (xs @ y # ys) = y # ys"
  by (induction xs) auto

lemma spaces_first: "fullmatch (Cat (Many1 (Class unicode_space)) r) s \<Longrightarrow> \<exists>c cs. s = c # cs \<and> is_space c"
  by (auto simp: fullmatch_lang Many1_def unicode_space)

text \<open>A line matches exactly when it has these groups, and then it has no others.\<close>

lemma requirement_match_iff:
  "requirement_match line = Some (name, version) \<longleftrightarrow>
     (\<exists>hashes. line = name @ [61, 61] @ version @ hashes \<and>
        name \<noteq> [] \<and> list_all (\<lambda>c. in_class c requirement_name) name \<and> version \<noteq> [] \<and> list_all (\<lambda>c. \<not> is_space c) version \<and>
        fullmatch (Cat (Many1 (Class unicode_space)) hash_pattern) hashes)"
    (is "_ \<longleftrightarrow> (\<exists>hashes. ?split hashes)")
proof
  assume m: "requirement_match line = Some (name, version)"
  define rest where "rest = dropWhile (\<lambda>c. in_class c requirement_name) line"
  define hashes where "hashes = dropWhile (\<lambda>c. \<not> is_space c) (drop 2 rest)"
  have parts: "name = takeWhile (\<lambda>c. in_class c requirement_name) line" "version = takeWhile (\<lambda>c. \<not> is_space c) (drop 2 rest)"
    "name \<noteq> []" "take 2 rest = [61, 61]" "version \<noteq> []" "fullmatch (Cat (Many1 (Class unicode_space)) hash_pattern) hashes"
    using m unfolding requirement_match_def Let_def rest_def [symmetric] hashes_def [symmetric] by (simp_all split: if_splits)
  have "line = name @ rest" using parts(1) by (simp add: rest_def)
  also have "rest = [61, 61] @ drop 2 rest" using parts(4) by (metis append_take_drop_id)
  also have "drop 2 rest = version @ hashes" using parts(2) by (simp add: hashes_def)
  finally have "line = name @ [61, 61] @ version @ hashes" by simp
  moreover have "list_all (\<lambda>c. in_class c requirement_name) name" "list_all (\<lambda>c. \<not> is_space c) version"
    using parts(1,2) by (auto simp: list_all_iff dest: set_takeWhileD)
  ultimately show "\<exists>hashes. ?split hashes" using parts(3,5,6) by blast
next
  assume "\<exists>hashes. ?split hashes"
  then obtain hashes where s: "?split hashes" by blast
  then obtain c cs where c: "hashes = c # cs" "is_space c" using spaces_first by blast
  have eq: "\<not> in_class 61 requirement_name" by (simp add: requirement_name_def)
  show "requirement_match line = Some (name, version)"
    using s eq takeWhile_until [of "\<lambda>c. in_class c requirement_name" name 61 "61 # version @ hashes"]
      takeWhile_until [of "\<lambda>c. \<not> is_space c" version c cs] c
    by (simp add: requirement_match_def Let_def numeral_2_eq_2)
qed

section \<open>One report of pip-audit\<close>

definition row_vulns :: "pyval \<Rightarrow> pyval list" where
  "row_vulns row = (case item row (lit ''vulns'') of Inr (VList xs) \<Rightarrow> xs | _ \<Rightarrow> [])"

text \<open>The rows name every package of the inventory exactly once, at its version.\<close>

definition covers :: "pyval list \<Rightarrow> package list \<Rightarrow> bool" where
  "covers rows inventory \<longleftrightarrow>
     (\<exists>pairs. list_all2 (\<lambda>row pair. exported_pair row = Inr pair) rows pairs \<and> distinct pairs \<and> set pairs = set inventory)"

text \<open>A finding names a package with its version and nothing that is not a version, an advisory or a severity.\<close>

definition finding_closed :: "package set \<Rightarrow> pyval \<Rightarrow> bool" where
  "finding_closed packages f \<longleftrightarrow>
     (\<exists>pair advisory aliases fixed severity. pair \<in> packages \<and> fullmatch ADVISORY advisory \<and> list_all (fullmatch ADVISORY) aliases \<and>
        list_all (fullmatch PACKAGE_VERSION) fixed \<and> (severity = VNone \<or> severity \<in> VStr ` set SEVERITIES) \<and>
        f = VDict [(lit ''package'', VStr (fst pair)), (lit ''version'', VStr (snd pair)), (lit ''advisory'', VStr advisory),
          (lit ''aliases'', strings aliases), (lit ''fix_versions'', strings fixed), (lit ''severity'', severity)])"

lemma finding_closedI:
  assumes "pair \<in> packages" "fullmatch ADVISORY advisory" "list_all (fullmatch ADVISORY) aliases"
    "list_all (fullmatch PACKAGE_VERSION) fixed" "severity = VNone \<or> severity \<in> VStr ` set SEVERITIES"
  shows "finding_closed packages (VDict [(lit ''package'', VStr (fst pair)), (lit ''version'', VStr (snd pair)), (lit ''advisory'', VStr advisory),
    (lit ''aliases'', strings aliases), (lit ''fix_versions'', strings fixed), (lit ''severity'', severity)])"
  unfolding finding_closed_def
  by (rule exI [of _ pair], rule exI [of _ advisory], rule exI [of _ aliases], rule exI [of _ fixed], rule exI [of _ severity])
    (intro conjI assms refl)

lemma finding_closed_mono: "finding_closed A f \<Longrightarrow> A \<subseteq> B \<Longrightarrow> finding_closed B f"
  unfolding finding_closed_def by blast

lemma findings_closed_mono: "list_all (finding_closed A) fs \<Longrightarrow> A \<subseteq> B \<Longrightarrow> list_all (finding_closed B) fs"
  by (auto simp: list_all_iff intro: finding_closed_mono)

lemma is_dict_iff: "is_dict v \<longleftrightarrow> (\<exists>ps. v = VDict ps)"
  by (cases v) (simp_all add: is_dict_def)

lemma as_list_eq_Inr [simp]: "as_list v = Inr xs \<longleftrightarrow> v = VList xs"
  by (cases v) (auto simp: as_list_def)

lemma as_str_eq_Inr [simp]: "as_str v = Inr s \<longleftrightarrow> v = VStr s"
  by (cases v) (auto simp: as_str_def)

lemma safe_advisory_ok: "safe_advisory v = Inr t \<Longrightarrow> fullmatch ADVISORY t"
  by (cases v) (auto simp: safe_advisory_def and_then_ensure split: if_splits)

lemma safe_version_ok: "safe_version v = Inr t \<Longrightarrow> fullmatch PACKAGE_VERSION t"
  by (cases v) (auto simp: safe_version_def and_then_ensure split: if_splits)

lemma map_ok_all: "map_ok f xs = Inr ys \<Longrightarrow> (\<And>x y. f x = Inr y \<Longrightarrow> P y) \<Longrightarrow> list_all P ys"
  unfolding map_ok_Inr by (induction rule: list_all2_induct) auto

lemma safe_versions_ok: "safe_versions v = Inr ts \<Longrightarrow> list_all (fullmatch PACKAGE_VERSION) ts"
  by (cases v) (auto simp: safe_versions_def intro: map_ok_all safe_version_ok)

lemma severity_or_none_ok: "severity_or_none v = VNone \<or> severity_or_none v \<in> VStr ` set SEVERITIES"
  by (auto simp: severity_or_none_def)

lemma python_issue_Inr:
  assumes "python_issue pair issue findings = Inr findings'"
  shows "\<exists>f. findings' = findings @ [f] \<and> finding_closed {pair} f"
  using assms unfolding python_issue_def
proof (elim check_InrE and_then_InrE)
  fix av advisory al aliases fv fixed sv
  assume s: "safe_advisory av = Inr advisory" "map_ok safe_advisory al = Inr aliases" "safe_versions fv = Inr fixed"
    and f: "Inr (findings @ [VDict [(lit ''package'', VStr (fst pair)), (lit ''version'', VStr (snd pair)),
      (lit ''advisory'', VStr advisory), (lit ''aliases'', strings aliases), (lit ''fix_versions'', strings fixed),
      (lit ''severity'', severity_or_none sv)]]) = Inr findings'"
  have closed: "finding_closed {pair} (VDict [(lit ''package'', VStr (fst pair)), (lit ''version'', VStr (snd pair)),
      (lit ''advisory'', VStr advisory), (lit ''aliases'', strings aliases), (lit ''fix_versions'', strings fixed),
      (lit ''severity'', severity_or_none sv)])"
    by (intro finding_closedI singletonI safe_advisory_ok [OF s(1)] map_ok_all [OF s(2) safe_advisory_ok]
        safe_versions_ok [OF s(3)] severity_or_none_ok)
  show ?thesis by (rule exI, rule conjI [OF sum.inject(2) [THEN iffD1, OF f, symmetric] closed])
qed

lemma python_issues_Inr:
  assumes "fold_ok (python_issue pair) issues findings = Inr findings'"
  shows "\<exists>fs. findings' = findings @ fs \<and> length fs = length issues \<and> list_all (finding_closed {pair}) fs"
  using assms by (rule fold_ok_inv) (auto dest!: python_issue_Inr)

lemma python_row_Inr:
  assumes "python_row row (actual, findings) = Inr (actual', findings')"
  shows "\<exists>pair fs. exported_pair row = Inr pair \<and> pair \<notin> set actual \<and> actual' = actual @ [pair] \<and>
    findings' = findings @ fs \<and> length fs = length (row_vulns row) \<and> list_all (finding_closed {pair}) fs"
  using assms unfolding python_row_def prod.case
proof (elim check_InrE and_then_InrE)
  fix name version pair vulns issues fs
  assume "item row (lit ''name'') = Inr name" "item row (lit ''version'') = Inr version" "package_pair name version = Inr pair"
    "pair \<notin> set actual" "item row (lit ''vulns'') = Inr vulns" "as_list vulns = Inr issues"
    "fold_ok (python_issue pair) issues findings = Inr fs" "Inr (actual @ [pair], fs) = Inr (actual', findings')"
  moreover from this have "exported_pair row = Inr pair" "row_vulns row = issues" by (simp_all add: exported_pair_def row_vulns_def)
  ultimately show ?thesis using python_issues_Inr by blast
qed

lemma python_rows_Inr:
  assumes "python_rows report = Inr (actual, findings)"
  obtains rows where "item report (lit ''dependencies'') = Inr (VList rows)" "covers rows actual"
    "length findings = sum_list (map (\<lambda>row. length (row_vulns row)) rows)" "list_all (finding_closed (set actual)) findings"
proof -
  obtain rows where d: "item report (lit ''dependencies'') = Inr (VList rows)"
    and f: "fold_ok python_row rows ([], []) = Inr (actual, findings)"
    using assms unfolding python_rows_def
  proof (elim check_InrE and_then_InrE, goal_cases)
    case (1 keys fixed dependencies rows)
    show ?case by (rule 1(1) [of rows]) (use 1(7-9) in simp_all)
  qed
  let ?P = "\<lambda>ys st. list_all2 (\<lambda>row pair. exported_pair row = Inr pair) ys (fst st) \<and> distinct (fst st) \<and>
    length (snd st) = sum_list (map (\<lambda>row. length (row_vulns row)) ys) \<and> list_all (finding_closed (set (fst st))) (snd st)"
  have "?P rows (actual, findings)"
  proof (rule fold_ok_inv [OF f, of ?P])
    fix ys x s s' assume P: "?P ys s" and step: "python_row x s = Inr s'"
    obtain a fs a' fs' where s: "s = (a, fs)" "s' = (a', fs')" by fastforce
    obtain pair gs where r: "exported_pair x = Inr pair" "pair \<notin> set a" "a' = a @ [pair]" "fs' = fs @ gs"
      "length gs = length (row_vulns x)" "list_all (finding_closed {pair}) gs"
      using python_row_Inr step unfolding s by blast
    have "list_all (finding_closed (set a')) fs'"
      unfolding r(3,4) list_all_append using P findings_closed_mono [of "set a" fs "set (a @ [pair])"]
        findings_closed_mono [OF r(6), of "set (a @ [pair])"] by (simp add: s subset_insertI)
    with P r(1-5) show "?P (ys @ [x]) s'" by (simp add: s list_all2_appendI)
  qed simp
  with d that show thesis unfolding covers_def by auto
qed

definition clean_report :: "ci_env \<Rightarrow> completed \<Rightarrow> package list \<Rightarrow> bool" where
  "clean_report env result inventory \<longleftrightarrow> returncode result = 0 \<and>
     (\<exists>report rows. strict_json (ci_float env) (stdout result) = Inr report \<and>
        item report (lit ''dependencies'') = Inr (VList rows) \<and> covers rows inventory \<and> list_all (\<lambda>row. row_vulns row = []) rows)"

lemma covers_set: "covers rows xs \<Longrightarrow> set xs = set ys \<Longrightarrow> covers rows ys"
  by (simp add: covers_def)

lemma python_report_clean:
  assumes "python_report env result inventory = Inr []"
  shows "clean_report env result inventory"
proof -
  obtain report actual where r: "strict_json (ci_float env) (stdout result) = Inr report" "python_rows report = Inr (actual, [])"
    "set actual = set inventory" "(returncode result = 0) = (([] :: pyval list) = [])"
    using assms unfolding python_report_def
  proof (elim check_InrE and_then_InrE, goal_cases)
    case (1 report st)
    obtain actual findings where st: "st = (actual, findings)" by fastforce
    have "check (set actual = set inventory) (lit ''incomplete_inventory'') (\<lambda>_.
      check ((returncode result = 0) = (findings = [])) (lit ''scanner_status_mismatch'') (\<lambda>_. Inr findings)) = Inr []"
      using 1(6) by (simp only: st prod.case)
    then show ?case
      by (elim check_InrE, intro 1(1) [of report actual]) (use 1(4,5) st in simp_all)
  qed
  from r(2) obtain rows where "item report (lit ''dependencies'') = Inr (VList rows)" "covers rows actual"
    "sum_list (map (\<lambda>row. length (row_vulns row)) rows) = 0"
    by (rule python_rows_Inr) auto
  with r show ?thesis unfolding clean_report_def by (auto intro: covers_set simp: list_all_iff)
qed

section \<open>The Python audit\<close>

text \<open>The files of the repository an audit reads; children are trusted to leave them alone.\<close>

definition audit_inputs :: "ci_env \<Rightarrow> pystr set" where
  "audit_inputs env = path_join (ci_root env) ` {''apps/api/uv.lock'', ''apps/api/pyproject.toml'',
     ''.github/ci/python-build.lock.txt'', ''.github/ci/uv-build.toml'', ''.github/ci/pip-audit.lock.txt'',
     ''apps/web/package-lock.json''}"

definition children_keep_inputs :: "ci_env \<Rightarrow> bool" where
  "children_keep_inputs env \<longleftrightarrow>
     (\<forall>vars cwd arguments d. agree (audit_inputs env) d (snd (ci_spawn env vars cwd arguments d)))"

text \<open>A child of the gate that ran with these arguments returned this.\<close>

definition child_returned :: "ci_env \<Rightarrow> pystr \<Rightarrow> pystr list \<Rightarrow> completed \<Rightarrow> bool" where
  "child_returned env work arguments result \<longleftrightarrow>
     (\<exists>cwd d d'. ci_spawn env (environment env work) cwd arguments d = (Some result, d'))"

lemma wp_execute:
  assumes "children_keep_inputs env"
    and "\<And>result d'. ci_spawn env (environment env work) cwd arguments d = (Some result, d') \<Longrightarrow>
      agree (audit_inputs env) d d' \<Longrightarrow> Q result d'"
  shows "wp (execute env arguments cwd work) Q d"
proof -
  have "agree (audit_inputs env) d (snd (ci_spawn env (environment env work) cwd arguments d))"
    using assms(1) unfolding children_keep_inputs_def by blast
  with assms(2) show ?thesis
    by (fastforce simp: wp_def execute_def split: prod.splits option.splits)
qed

lemma reads_inventories [reads_intros]:
  "reads (audit_inputs env) (load_toml env (path_join (ci_root env) ''apps/api/uv.lock''))"
  "reads (audit_inputs env) (uv_inventory env)" "reads (audit_inputs env) (build_inventory env)"
  "reads (audit_inputs env) (requirements_inventory (path_join (ci_root env) ''.github/ci/pip-audit.lock.txt''))"
  "reads (audit_inputs env) (npm_inventory env)"
  unfolding uv_inventory_def build_inventory_def requirements_inventory_def npm_inventory_def load_toml_def audit_inputs_def
  by (intro reads_intros; simp)+

lemma wp_load_toml: "(\<And>v. Q v d) \<Longrightarrow> wp (load_toml env path) Q d"
  unfolding load_toml_def
  by (rule wp_pseq) (auto simp: wp_def read_text_eq_Inr)

lemma wp_scan_targets:
  "(\<And>audited' findings' d'. scan_targets env python work targets audited findings d = (Inr (audited', findings'), d') \<Longrightarrow>
     Q (audited', findings') d') \<Longrightarrow> wp (scan_targets env python work targets audited findings) Q d"
  by (simp add: wp_def)

lemma scan_targets_clean:
  assumes "scan_targets env python work targets audited findings d = (Inr (audited', []), d')"
  shows "findings = [] \<and> (\<forall>(label, arguments, inventory) \<in> set targets. \<exists>result.
    child_returned env work (pip_audit_command python @ arguments) result \<and> clean_report env result inventory)"
  using assms
proof (induction targets arbitrary: audited findings d)
  case (Cons target targets)
  obtain label arguments inventory where t: "target = (label, arguments, inventory)" by (cases target)
  from Cons.prems obtain result d1 found where r: "execute env (pip_audit_command python @ arguments) (ci_root env) work d = (Inr result, d1)"
    "python_report env result inventory = Inr found"
    and rest: "(if found \<noteq> [] then (Inr (audited @ [(lit label, VInt (int (length inventory)))], findings @ found), d1)
      else scan_targets env python work targets (audited @ [(lit label, VInt (int (length inventory)))]) (findings @ found) d1) = (Inr (audited', []), d')"
    unfolding t by (auto simp: pseq_eq_Inr Let_def split: if_splits)
  from rest have none: "found = []" by (auto split: if_splits)
  have "child_returned env work (pip_audit_command python @ arguments) result"
    using r(1) by (auto simp: execute_def child_returned_def split: prod.splits option.splits)
  moreover have "clean_report env result inventory" using r(2) none python_report_clean by simp
  ultimately show ?case using Cons.IH rest none unfolding t by auto
qed simp

text \<open>What an audit without findings established from the disk it started on.\<close>

definition all_audited :: "ci_env \<Rightarrow> pystr \<Rightarrow> pystr \<Rightarrow> package list \<Rightarrow> package list \<Rightarrow> package list \<Rightarrow> bool" where
  "all_audited env work python expected build scanner \<longleftrightarrow>
     (\<exists>target result. child_returned env work (pip_audit_command python @ [lit ''--locked'', target]) result \<and> clean_report env result expected) \<and>
     (\<exists>result. child_returned env work (pip_audit_command python @ map lit [''--require-hashes'', ''--disable-pip'', ''-r''] @
        [path_join (ci_root env) ''.github/ci/python-build.lock.txt'']) result \<and> clean_report env result build) \<and>
     (\<exists>result. child_returned env work (pip_audit_command python @ map lit [''--require-hashes'', ''--disable-pip'', ''-r''] @
        [path_join (ci_root env) ''.github/ci/pip-audit.lock.txt'']) result \<and> clean_report env result scanner)"

lemma status_text_PASS: "status_text findings = VStr (lit ''PASS'') \<longleftrightarrow> findings = []"
  by (simp add: status_text_def)

lemma audit_python_wp:
  assumes "children_keep_inputs env"
  shows "wp (audit_python env work python uv) (\<lambda>summary _. map_of summary (lit ''status'') = Some (VStr (lit ''PASS'')) \<longrightarrow>
    (\<exists>expected build scanner. fst (uv_inventory env d) = Inr expected \<and> fst (build_inventory env d) = Inr build \<and>
       fst (requirements_inventory (path_join (ci_root env) ''.github/ci/pip-audit.lock.txt'') d) = Inr scanner \<and>
       (lit ''pip-audit'', PIP_AUDIT_VERSION) \<in> set scanner \<and> all_audited env work python expected build scanner)) d"
  unfolding audit_python_def exact_tool_def Let_def
proof (intro wp_intros wp_execute [OF assms] wp_reads [OF reads_inventories(2)] wp_reads [OF reads_inventories(3)]
    wp_reads [OF reads_inventories(4)] wp_load_toml wp_scan_targets impI, goal_cases)
  case (1 r1 d1 r2 d2 r3 d3 expected build scanner r4 d4 installed r5 d5 v exported au fs d6 au' findings)
  have a: "agree (audit_inputs env) d d3" using 1(2,5,8) agree_trans by blast
  have "findings = []" using 1(28) by (simp add: status_text_PASS)
  with 1(26,27) have s: "scan_targets env python work
     [(''runtime_dev_all_markers'', [lit ''--locked'', path_join work ''python-inventory''], expected),
      (''build'', map lit [''--require-hashes'', ''--disable-pip'', ''-r''] @ [path_join (ci_root env) ''.github/ci/python-build.lock.txt''], build),
      (''scanner'', map lit [''--require-hashes'', ''--disable-pip'', ''-r''] @ [path_join (ci_root env) ''.github/ci/pip-audit.lock.txt''], scanner)]
     [] [] d5 = (Inr (au, []), d6)" by simp
  have "all_audited env work python expected build scanner"
    unfolding all_audited_def using scan_targets_clean [OF s] by (simp only: list.set ball_simps prod.case) blast
  then show ?case using 1(10-13) readsD [OF reads_inventories(2) a] readsD [OF reads_inventories(3) a] readsD [OF reads_inventories(4) a]
    by simp
qed

section \<open>The gate\<close>

lemma final_report_PASS:
  assumes "map_of (final_report mode unchanged outcome) (lit ''status'') = Some (VStr (lit ''PASS''))"
  shows "unchanged \<and> (\<exists>s. outcome = Inr s \<and> map_of s (lit ''status'') = Some (VStr (lit ''PASS'')))"
proof -
  have fail: "map_of (failure mode reason @ x) (lit ''status'') \<noteq> Some (VStr (lit ''PASS''))" for reason x by (simp add: failure_def)
  have u: "unchanged" using assms by (auto simp: final_report_def failure_def split: if_splits)
  show ?thesis
  proof (cases outcome)
    case (Inl e)
    with assms u fail show ?thesis by (cases e) (simp_all only: final_report_def summarise_def sum.case gate_error.case if_True not_True_eq_False)
  next
    case (Inr s)
    with assms u show ?thesis by (simp add: final_report_def summarise_def map_add_def split: option.splits)
  qed
qed

lemma publish_zero: "gr_code (fst (publish env mode output_dir report d)) = 0 \<Longrightarrow> map_of report (lit ''status'') = Some (VStr (lit ''PASS''))"
  by (auto simp: publish_def Let_def split: prod.splits sum.splits if_splits)

lemma run_gate_zero:
  assumes "gr_code (fst (run_gate env mode output_dir python uv node npm d)) = 0"
  obtains summary d1 where "run_audit env mode output_dir python uv node npm d = (Inr summary, d1)"
    "map_of summary (lit ''status'') = Some (VStr (lit ''PASS''))"
    "lock_hashes (ci_env.truncate env) d \<noteq> None" "lock_hashes (ci_env.truncate env) d1 = lock_hashes (ci_env.truncate env) d"
proof -
  let ?ci = "ci_env.truncate env"
  obtain outcome d1 where o: "(if lock_hashes ?ci d = None then (Inl OtherError, d) else run_audit env mode output_dir python uv node npm d) = (outcome, d1)"
    by fastforce
  have "map_of (final_report mode (lock_hashes ?ci d \<noteq> None \<and> lock_hashes ?ci d1 = lock_hashes ?ci d) outcome) (lit ''status'') = Some (VStr (lit ''PASS''))"
    using assms unfolding run_gate_def Let_def o prod.case by (rule publish_zero)
  from final_report_PASS [OF this] obtain s where "lock_hashes ?ci d \<noteq> None" "lock_hashes ?ci d1 = lock_hashes ?ci d" "outcome = Inr s"
    "map_of s (lit ''status'') = Some (VStr (lit ''PASS''))" by blast
  with o that show thesis by simp
qed

lemma run_audit_mode:
  assumes "run_audit env mode output_dir python uv node npm d = (Inr summary, d1)"
  obtains work d2 where "ge_temporary env output_dir = Some work" "ge_python env = (3, 14)"
    "(if mode = lit ''python'' then audit_python (ci_env.truncate env) work python uv
      else audit_npm (ci_env.truncate env) work node npm) d = (Inr summary, d2)"
  using assms
  by (auto simp: run_audit_def pseq_eq_Inr guard_eq_Inr mkdir_def with_temporary_def split: option.splits prod.splits if_splits)

text \<open>C33. A green Python gate is a complete one. If the children leave the repository's files alone and the gate ends
  with code 0, then the lock file, the build constraints and the scanner's own constraints were well formed, the
  scanner is in its own inventory at the pinned version, and for each of the three inventories the scanner ran and
  reported every package exactly once, at exactly its version, without an advisory.\<close>

theorem python_gate_green:
  assumes "children_keep_inputs (ci_env.truncate env)"
    and "gr_code (fst (run_gate env (lit ''python'') output_dir python uv node npm d)) = 0"
  shows "\<exists>work expected build scanner. ge_temporary env output_dir = Some work \<and>
    fst (uv_inventory (ci_env.truncate env) d) = Inr expected \<and> fst (build_inventory (ci_env.truncate env) d) = Inr build \<and>
    fst (requirements_inventory (path_join (ci_root env) ''.github/ci/pip-audit.lock.txt'') d) = Inr scanner \<and>
    (lit ''pip-audit'', PIP_AUDIT_VERSION) \<in> set scanner \<and>
    all_audited (ci_env.truncate env) work python expected build scanner"
proof -
  obtain summary d1 where "run_audit env (lit ''python'') output_dir python uv node npm d = (Inr summary, d1)"
    and pass: "map_of summary (lit ''status'') = Some (VStr (lit ''PASS''))" using assms(2) by (rule run_gate_zero)
  then obtain work d2 where w: "ge_temporary env output_dir = Some work"
    and "audit_python (ci_env.truncate env) work python uv d = (Inr summary, d2)" by (auto elim: run_audit_mode)
  note wpD [OF audit_python_wp [OF assms(1)] this(2)]
  with pass w show ?thesis by (simp add: ci_env.truncate_def)
qed

section \<open>The npm audit\<close>

text \<open>The report counts no vulnerability, lists none and covers as many nodes as the lock file has.\<close>

definition clean_npm_report :: "ci_env \<Rightarrow> completed \<Rightarrow> node_inventory \<Rightarrow> bool" where
  "clean_npm_report env result inventory \<longleftrightarrow> returncode result = 0 \<and>
     (\<exists>report metadata counts dependencies nodes. strict_json (ci_float env) (stdout result) = Inr report \<and>
        get_or VNone report (lit ''vulnerabilities'') = Inr (VDict []) \<and> item report (lit ''metadata'') = Inr metadata \<and>
        item metadata (lit ''vulnerabilities'') = Inr (VDict counts) \<and> (\<forall>(k, v) \<in> set counts. v = VInt 0) \<and>
        item metadata (lit ''dependencies'') = Inr dependencies \<and> item dependencies (lit ''total'') = Inr nodes \<and>
        equals_int nodes (int (length inventory)))"

lemma item_keys_unique: "keys_unique v \<Longrightarrow> item v k = Inr x \<Longrightarrow> keys_unique x"
  by (cases v) (auto simp: item_def list_all_iff dest!: map_of_SomeD split: option.splits)

lemma npm_finding_snoc: "npm_finding inventory vs entry findings = Inr findings' \<Longrightarrow> \<exists>f. findings' = findings @ [f]"
proof -
  obtain name row where "entry = (name, row)" by fastforce
  moreover assume "npm_finding inventory vs entry findings = Inr findings'"
  ultimately show ?thesis unfolding npm_finding_def
    by (simp only: prod.case) (elim check_InrE and_then_InrE, simp split: prod.splits, elim and_then_InrE check_InrE, blast)
qed

lemma npm_findings_length: "fold_ok (npm_finding inventory vs) es fs = Inr fs' \<Longrightarrow> length fs' = length fs + length es"
  by (erule fold_ok_inv) (auto dest!: npm_finding_snoc)

lemma counts_zero:
  assumes "distinct (map fst counts)" "map_of counts k = Some sum_total" "count_of sum_total = 0"
    and "list_all (\<lambda>(k, v). case v of VInt n \<Rightarrow> 0 \<le> n | _ \<Rightarrow> False) counts"
    and "count_of sum_total = sum_list (map (\<lambda>(k', v). if k' = k then 0 else count_of v) counts)"
  shows "\<forall>(k, v) \<in> set counts. v = VInt 0"
proof -
  have int: "\<exists>n. v = VInt n \<and> 0 \<le> n" if "(k', v) \<in> set counts" for k' v
    using assms(4) that by (fastforce simp: list_all_iff split: pyval.splits)
  have nonneg: "0 \<le> x" if "x \<in> set (map (\<lambda>(k', v). if k' = k then 0 else count_of v) counts)" for x
    using that int by (fastforce simp: count_of_def)
  have "v = VInt 0" if kv: "(k', v) \<in> set counts" for k' v
  proof (cases "k' = k")
    case True
    then have "v = sum_total" using kv assms(1,2) by simp
    then show ?thesis using int [OF kv] assms(3) by (auto simp: count_of_def)
  next
    case False
    have "\<forall>x \<in> set (map (\<lambda>(k', v). if k' = k then 0 else count_of v) counts). x = 0"
      using nonneg assms(3,5) by (metis sum_list_nonneg_eq_0_iff)
    then have "count_of v = 0" using kv False by fastforce
    then show ?thesis using int [OF kv] by (auto simp: count_of_def)
  qed
  then show ?thesis by blast
qed

lemma npm_counts_Inr:
  assumes "npm_counts v = Inr counts"
  shows "v = VDict counts \<and> list_all (\<lambda>(k, v). case v of VInt n \<Rightarrow> 0 \<le> n | _ \<Rightarrow> False) counts"
  using assms unfolding npm_counts_def
  by (elim check_InrE and_then_InrE) (simp split: pyval.splits, elim check_InrE, simp)

lemma npm_rows_Inr:
  assumes "npm_rows report inventory = Inr (n, findings)"
  obtains vs metadata counts sum_total dependencies nodes where
    "get_or VNone report (lit ''vulnerabilities'') = Inr (VDict vs)" "item report (lit ''metadata'') = Inr metadata"
    "item metadata (lit ''vulnerabilities'') = Inr (VDict counts)"
    "list_all (\<lambda>(k, v). case v of VInt n \<Rightarrow> 0 \<le> n | _ \<Rightarrow> False) counts" "map_of counts (lit ''total'') = Some sum_total"
    "count_of sum_total = sum_list (map (\<lambda>(k, v). if k = lit ''total'' then 0 else count_of v) counts)"
    "item metadata (lit ''dependencies'') = Inr dependencies" "item dependencies (lit ''total'') = Inr nodes"
    "equals_int nodes (int (length inventory))" "n = count_of sum_total" "fold_ok (npm_finding inventory vs) vs [] = Inr findings"
proof -
  have "\<exists>v. get_or VNone report (lit ''vulnerabilities'') = Inr v \<and> is_dict v"
    using assms unfolding npm_rows_def by (elim check_InrE and_then_InrE) (auto simp: is_dict_def split: pyval.splits)
  then obtain vs where vs: "get_or VNone report (lit ''vulnerabilities'') = Inr (VDict vs)" by (auto simp: is_dict_iff)
  show thesis
    using assms unfolding npm_rows_def vs and_then.simps pyval.case
  proof (elim check_InrE and_then_InrE, goal_cases)
    case (1 version metadata cv counts sum_total dependencies nodes fs)
    have "map_of counts (lit ''total'') = Some sum_total" using 1(8) by (simp add: item_def split: option.splits)
    then show ?case
      using that [OF vs 1(5) _ _ _ 1(9) 1(10,11,12)] npm_counts_Inr [OF 1(7)] 1(6,13,14) by simp
  qed
qed

lemma npm_report_clean:
  assumes "npm_report env result inventory = Inr []"
  shows "clean_npm_report env result inventory"
proof -
  obtain report where r: "strict_json (ci_float env) (stdout result) = Inr report" "npm_rows report inventory = Inr (0, [])"
    "returncode result = 0"
    using assms unfolding npm_report_def
  proof (elim check_InrE and_then_InrE, goal_cases)
    case (1 report st)
    obtain n findings where st: "st = (n, findings)" by fastforce
    have "check (n = int (length findings)) (lit ''scanner_status_mismatch'') (\<lambda>_.
      check ((returncode result = 0) = (findings = [])) (lit ''scanner_status_mismatch'') (\<lambda>_. Inr findings)) = Inr []"
      using 1(6) by (simp only: st prod.case)
    then show ?case
      by (elim check_InrE, intro 1(1) [of report]) (use 1(4,5) st in simp_all)
  qed
  from r(2) show ?thesis
  proof (rule npm_rows_Inr, goal_cases)
    case (1 vs metadata counts sum_total dependencies nodes)
    have "vs = []" using npm_findings_length [OF 1(11)] by simp
    moreover have "keys_unique (VDict counts)"
      using strict_json_unique [OF r(1)] item_keys_unique 1(2,3) by blast
    then have "\<forall>(k, v) \<in> set counts. v = VInt 0" using counts_zero [OF _ 1(5) _ 1(4,6)] 1(10) by simp
    ultimately show ?case using 1(1-3,7-9) r(1,3) unfolding clean_npm_report_def by blast
  qed
qed

lemma wp_copy_file: "(\<And>b. d from = Some b \<Longrightarrow> Q () (d(to \<mapsto> b))) \<Longrightarrow> wp (copy_file env from to) Q d"
  by (auto simp: wp_def copy_file_def pseq_eq_Inr read_bytes_eq_Inr write_bytes_def split: if_splits)

lemma wp_touch: "(\<And>d'. d' = d \<or> d' = d(path \<mapsto> []) \<Longrightarrow> Q () d') \<Longrightarrow> wp (touch env path) Q d"
  by (auto simp: wp_def touch_def write_bytes_def split: if_splits)

definition npm_snapshot :: "pystr \<Rightarrow> pystr" where
  "npm_snapshot work = path_join work ''npm-inventory''"

definition npm_audit_flags :: "pystr \<Rightarrow> pystr list" where
  "npm_audit_flags work = map lit [''audit'', ''--json'', ''--package-lock-only'', ''--audit-level=low'',
     ''--include=dev'', ''--include=optional'', ''--include=peer'', ''--registry=https://registry.npmjs.org'', ''--userconfig''] @
     [path_join work ''npm-userconfig'', lit ''--globalconfig'', path_join work ''npm-globalconfig'']"

text \<open>npm audit ran in a directory whose lock file is the repository's, and what it printed is a clean report.\<close>

definition npm_audited :: "ci_env \<Rightarrow> pystr \<Rightarrow> pystr list \<Rightarrow> bytes \<Rightarrow> node_inventory \<Rightarrow> bool" where
  "npm_audited env work command lock inventory \<longleftrightarrow>
     (\<exists>d1 d2 result. d1 (path_join (npm_snapshot work) ''package-lock.json'') = Some lock \<and>
        ci_spawn env (environment env work) (npm_snapshot work) (command @ npm_audit_flags work) d1 = (Some result, d2) \<and>
        clean_npm_report env result inventory)"

lemma npm_paths_differ:
  "path_join root ''apps/web/package-lock.json'' \<noteq> path_join (npm_snapshot work) ''package.json''"
  "path_join (npm_snapshot work) ''package-lock.json'' \<noteq> path_join work ''npm-userconfig''"
  "path_join (npm_snapshot work) ''package-lock.json'' \<noteq> path_join work ''npm-globalconfig''"
proof -
  have "rev (path_join root ''apps/web/package-lock.json'') \<noteq> rev (path_join (npm_snapshot work) ''package.json'')"
    by (simp add: path_join_def lit_def)
  then show "path_join root ''apps/web/package-lock.json'' \<noteq> path_join (npm_snapshot work) ''package.json''" by metis
qed (simp_all add: path_join_def npm_snapshot_def lit_def)

lemma audit_npm_wp:
  assumes "children_keep_inputs env"
  shows "wp (audit_npm env work node npm) (\<lambda>summary _. map_of summary (lit ''status'') = Some (VStr (lit ''PASS'')) \<longrightarrow>
    (\<exists>inventory lock. fst (npm_inventory env d) = Inr inventory \<and> d (path_join (ci_root env) ''apps/web/package-lock.json'') = Some lock \<and>
       npm_audited env work (if ends_with (lit ''.js'') npm then [node, npm] else [npm]) lock inventory)) d"
  unfolding audit_npm_def exact_tool_def Let_def npm_snapshot_def [symmetric]
proof (intro wp_intros wp_execute [OF assms] wp_reads [OF reads_inventories(5)] wp_copy_file wp_read_bytes wp_touch impI, goal_cases)
  case (1 r1 d1 r2 d2 inventory b lock lock' d3 d4 result d5 after findings)
  note a = agree_trans [OF 1(2) 1(5)]
  have "findings = []" using 1(19) by (simp add: status_text_PASS)
  then have clean: "clean_npm_report env result inventory" using 1(18) npm_report_clean by simp
  have "d2 (path_join (ci_root env) ''apps/web/package-lock.json'') = Some lock" using 1(10) npm_paths_differ(1) by simp
  then have src: "d (path_join (ci_root env) ''apps/web/package-lock.json'') = Some lock"
    using a by (simp add: agree_def audit_inputs_def)
  have "d4 (path_join (npm_snapshot work) ''package-lock.json'') = Some lock" using 1(12,13) npm_paths_differ(2,3) by auto
  moreover note 1(14) [folded npm_audit_flags_def]
  ultimately have "npm_audited env work (if ends_with (lit ''.js'') npm then [node, npm] else [npm]) lock inventory"
    using clean unfolding npm_audited_def by blast
  with src show ?case using 1(7) readsD [OF reads_inventories(5) a] by simp
qed

text \<open>A green npm gate is a complete one. If the children leave the repository's files alone and the gate ends
  with code 0, then the lock file was well formed and taken from the registry only, npm audit ran on a copy with the
  bytes of the repository's lock file, and its report, an object without repeated keys, counts as many nodes as
  that lock file has and nothing but zeros, and lists no vulnerability.\<close>

theorem npm_gate_green:
  assumes "children_keep_inputs (ci_env.truncate env)"
    and "gr_code (fst (run_gate env (lit ''npm'') output_dir python uv node npm d)) = 0"
  shows "\<exists>work inventory lock. ge_temporary env output_dir = Some work \<and>
    fst (npm_inventory (ci_env.truncate env) d) = Inr inventory \<and> d (path_join (ci_root env) ''apps/web/package-lock.json'') = Some lock \<and>
    npm_audited (ci_env.truncate env) work (if ends_with (lit ''.js'') npm then [node, npm] else [npm]) lock inventory"
proof -
  obtain summary d1 where "run_audit env (lit ''npm'') output_dir python uv node npm d = (Inr summary, d1)"
    and pass: "map_of summary (lit ''status'') = Some (VStr (lit ''PASS''))" using assms(2) by (rule run_gate_zero)
  then obtain work d2 where w: "ge_temporary env output_dir = Some work"
    and "audit_npm (ci_env.truncate env) work node npm d = (Inr summary, d2)" by (auto elim: run_audit_mode)
  note wpD [OF audit_npm_wp [OF assms(1)] this(2)]
  with pass w show ?thesis by (simp add: ci_env.truncate_def)
qed

section \<open>The published report\<close>

definition known_packages :: "package set" where
  "known_packages = {pair. \<exists>n v. package_pair n v = Inr pair}"

definition npm_finding_closed :: "pyval \<Rightarrow> bool" where
  "npm_finding_closed f \<longleftrightarrow>
     (\<exists>name versions ids severity fixed fix_available. fullmatch NAME name \<and> list_all (fullmatch PACKAGE_VERSION) versions \<and>
        list_all (fullmatch ADVISORY) ids \<and> severity \<in> VStr ` set SEVERITIES \<and> list_all (fullmatch PACKAGE_VERSION) fixed \<and>
        f = VDict [(lit ''package'', VStr name), (lit ''versions'', strings versions), (lit ''advisories'', strings ids),
          (lit ''severity'', severity), (lit ''fix_versions'', strings fixed), (lit ''fix_available'', VBool fix_available)])"

definition field_closed :: "pystr \<Rightarrow> pystr \<times> pyval \<Rightarrow> bool" where
  "field_closed mode f \<longleftrightarrow>
     f \<in> {(lit ''gate'', VStr mode), (lit ''status'', VStr (lit ''FAIL'')), (lit ''status'', VStr (lit ''PASS'')),
       (lit ''tool'', VStr (lit ''pip-audit'')), (lit ''tool'', VStr (lit ''npm audit'')),
       (lit ''version'', VStr PIP_AUDIT_VERSION), (lit ''version'', VStr NPM_VERSION)} \<or>
     (\<exists>r \<in> set REASONS. f = (lit ''reason'', VStr r)) \<or>
     (\<exists>ps. f = (lit ''audited_packages'', VDict ps) \<and>
        list_all (\<lambda>(k, v). k \<in> set (map lit [''runtime_dev_all_markers'', ''build'', ''scanner'']) \<and> (\<exists>n. v = VInt n)) ps) \<or>
     (\<exists>n. f = (lit ''audited_nodes'', VInt n)) \<or>
     (\<exists>fs. f = (lit ''findings'', VList fs) \<and> list_all (\<lambda>g. finding_closed known_packages g \<or> npm_finding_closed g) fs) \<or>
     (\<exists>b. f = (lit ''project_lockfiles_unchanged'', VBool b))"

text \<open>Closed fields only, and green exactly when the audit found nothing and the lock files are what they were.\<close>

definition report_closed :: "pystr \<Rightarrow> (pystr \<times> pyval) list \<Rightarrow> bool" where
  "report_closed mode report \<longleftrightarrow> list_all (field_closed mode) report \<and>
     (map_of report (lit ''status'') = Some (VStr (lit ''PASS'')) \<longleftrightarrow>
      map_of report (lit ''findings'') = Some (VList []) \<and> map_of report (lit ''project_lockfiles_unchanged'') = Some (VBool True))"

definition summary_closed :: "pystr \<Rightarrow> (pystr \<times> pyval) list \<Rightarrow> bool" where
  "summary_closed mode summary \<longleftrightarrow> list_all (field_closed mode) summary \<and>
     map_of summary (lit ''project_lockfiles_unchanged'') = None \<and>
     (map_of summary (lit ''status'') = Some (VStr (lit ''PASS'')) \<longleftrightarrow> map_of summary (lit ''findings'') = Some (VList []))"

lemma exported_pair_known: "exported_pair row = Inr pair \<Longrightarrow> pair \<in> known_packages"
  unfolding exported_pair_def known_packages_def by (elim and_then_InrE) blast

lemma covers_known: "covers rows inventory \<Longrightarrow> set inventory \<subseteq> known_packages"
proof -
  have "list_all2 (\<lambda>row pair. exported_pair row = Inr pair) rows pairs \<Longrightarrow> set pairs \<subseteq> known_packages" for pairs
    by (induction rule: list_all2_induct) (auto dest: exported_pair_known)
  then show "covers rows inventory \<Longrightarrow> set inventory \<subseteq> known_packages" unfolding covers_def by blast
qed

lemma python_report_closed:
  assumes "python_report env result inventory = Inr findings"
  shows "list_all (finding_closed known_packages) findings"
proof -
  obtain report actual where "python_rows report = Inr (actual, findings)"
    using assms unfolding python_report_def
  proof (elim check_InrE and_then_InrE, goal_cases)
    case (1 report st)
    obtain actual fs where st: "st = (actual, fs)" by fastforce
    have "check (set actual = set inventory) (lit ''incomplete_inventory'') (\<lambda>_.
      check ((returncode result = 0) = (fs = [])) (lit ''scanner_status_mismatch'') (\<lambda>_. Inr fs)) = Inr findings"
      using 1(6) by (simp only: st prod.case)
    then show ?case by (elim check_InrE, intro 1(1) [of report actual]) (use 1(5) st in simp)
  qed
  then obtain rows where "covers rows actual" "list_all (finding_closed (set actual)) findings" by (rule python_rows_Inr)
  then show ?thesis using findings_closed_mono [OF _ covers_known] by blast
qed

lemma scan_targets_closed:
  assumes "scan_targets env python work targets audited findings d = (Inr (audited', findings'), d')"
    and "list_all (finding_closed known_packages) findings" "list_all (\<lambda>(k, v). k \<in> L \<and> (\<exists>n. v = VInt n)) audited"
    and "lit ` fst ` set targets \<subseteq> L"
  shows "list_all (finding_closed known_packages) findings' \<and> list_all (\<lambda>(k, v). k \<in> L \<and> (\<exists>n. v = VInt n)) audited'"
  using assms
proof (induction targets arbitrary: audited findings d)
  case (Cons target targets)
  obtain label arguments inventory where t: "target = (label, arguments, inventory)" by (cases target)
  from Cons.prems obtain result d1 found where r: "python_report env result inventory = Inr found"
    and rest: "(if found \<noteq> [] then (Inr (audited @ [(lit label, VInt (int (length inventory)))], findings @ found), d1)
      else scan_targets env python work targets (audited @ [(lit label, VInt (int (length inventory)))]) (findings @ found) d1) =
        (Inr (audited', findings'), d')"
    unfolding t by (auto simp: pseq_eq_Inr Let_def split: if_splits)
  have "list_all (finding_closed known_packages) (findings @ found)" using Cons.prems(2) python_report_closed [OF r] by simp
  with Cons rest show ?case unfolding t by (auto split: if_splits)
qed simp

lemma audit_python_closed: "wp (audit_python env work python uv) (\<lambda>summary _. summary_closed mode summary) d"
  unfolding audit_python_def exact_tool_def Let_def
proof (intro wp_intros wp_any [of _ "execute _ _ _ _"] wp_any [of _ "uv_inventory _"] wp_any [of _ "build_inventory _"]
    wp_any [of _ "requirements_inventory _"] wp_load_toml wp_scan_targets, goal_cases)
  case (1 r1 d1 r2 d2 r3 d3 expected d4 build d5 scanner d6 r4 d7 installed r5 d8 v exported au fs d9 au' findings)
  have "list_all (finding_closed known_packages) findings \<and>
      list_all (\<lambda>(k, v). k \<in> set (map lit [''runtime_dev_all_markers'', ''build'', ''scanner'']) \<and> (\<exists>n. v = VInt n)) au'"
    using scan_targets_closed [OF 1(13), of "set (map lit [''runtime_dev_all_markers'', ''build'', ''scanner''])"] 1(14) by simp
  moreover from this have "list_all (\<lambda>g. finding_closed known_packages g \<or> npm_finding_closed g) findings" by (simp add: list_all_iff)
  ultimately show ?case
    by (simp add: summary_closed_def field_closed_def status_text_PASS) (simp add: status_text_def)
qed

definition node_versions_ok :: "node_inventory \<Rightarrow> bool" where
  "node_versions_ok inventory \<longleftrightarrow> list_all (\<lambda>(key, pair). fullmatch PACKAGE_VERSION (snd pair)) inventory"

lemma package_pair_version: "package_pair n v = Inr pair \<Longrightarrow> fullmatch PACKAGE_VERSION (snd pair)"
  by (auto simp: package_pair_def and_then_ensure split: pyval.splits if_splits)

lemma npm_node_Inr:
  assumes "npm_node (key, v) inventory = Inr inventory'" "key \<noteq> []"
  shows "\<exists>n ver pair. package_pair n ver = Inr pair \<and> inventory' = inventory @ [(key, pair)]"
proof (cases "after_last (lit ''node_modules/'') key")
  case (Some name)
  from assms show ?thesis unfolding npm_node_def prod.case Some option.case if_not_P [OF assms(2)]
    by (elim check_InrE and_then_InrE) (simp only: sum.inject, blast)
qed (use assms in \<open>simp add: npm_node_def\<close>)

lemma npm_node_ok: "npm_node entry inventory = Inr inventory' \<Longrightarrow> node_versions_ok inventory \<Longrightarrow> node_versions_ok inventory'"
proof (cases entry)
  case (Pair key v)
  assume a: "npm_node entry inventory = Inr inventory'" "node_versions_ok inventory"
  show ?thesis
  proof (cases "key = []")
    case False
    with a Pair obtain n ver pair where "package_pair n ver = Inr pair" "inventory' = inventory @ [(key, pair)]"
      using npm_node_Inr by blast
    with a(2) show ?thesis by (simp add: node_versions_ok_def package_pair_version)
  qed (use a Pair in \<open>simp add: npm_node_def\<close>)
qed

lemma npm_packages_ok: "npm_packages env content = Inr inventory \<Longrightarrow> node_versions_ok inventory"
proof -
  have step: "fold_ok npm_node ps [] = Inr inv \<Longrightarrow> node_versions_ok inv" for ps inv
    by (erule fold_ok_inv) (auto simp: node_versions_ok_def intro: npm_node_ok [unfolded node_versions_ok_def])
  show "npm_packages env content = Inr inventory \<Longrightarrow> node_versions_ok inventory"
    unfolding npm_packages_def
    by (elim check_InrE and_then_InrE) (simp split: pyval.splits, elim check_InrE and_then_InrE, use step in simp)
qed

lemma nodes_known_True: "nodes_known inventory nodes = Inr True \<Longrightarrow> node \<in> set nodes \<Longrightarrow> \<exists>key. node = VStr key \<and> key \<in> fst ` set inventory"
  by (induction nodes) (auto split: if_splits)

lemma node_package_version:
  assumes "node_versions_ok inventory" "key \<in> fst ` set inventory"
  shows "fullmatch PACKAGE_VERSION (snd (node_package inventory (VStr key)))"
proof -
  obtain pair where "map_of inventory key = Some pair" using assms(2) by (metis map_of_eq_None_iff not_None_eq)
  then show ?thesis using assms(1) by (auto simp: node_package_def node_versions_ok_def list_all_iff dest: map_of_SomeD)
qed

lemma npm_finding_closedI:
  assumes "fullmatch NAME name" "list_all (fullmatch PACKAGE_VERSION) versions" "list_all (fullmatch ADVISORY) ids"
    "severity \<in> VStr ` set SEVERITIES" "list_all (fullmatch PACKAGE_VERSION) fixed"
  shows "npm_finding_closed (VDict [(lit ''package'', VStr name), (lit ''versions'', strings versions), (lit ''advisories'', strings ids),
    (lit ''severity'', severity), (lit ''fix_versions'', strings fixed), (lit ''fix_available'', VBool fix_available)])"
  unfolding npm_finding_closed_def
  by (rule exI [of _ name], rule exI [of _ versions], rule exI [of _ ids], rule exI [of _ severity], rule exI [of _ fixed],
      rule exI [of _ fix_available]) (intro conjI assms refl)

lemma npm_fix_ok: "npm_fix v = Inr (fixed, b) \<Longrightarrow> list_all (fullmatch PACKAGE_VERSION) fixed"
  by (cases v) (auto simp: npm_fix_def and_then_ensure and_then_eq_Inr dest!: safe_versions_ok split: if_splits)

lemma npm_via_ok:
  assumes "npm_via vs advisory ids = Inr ids'" "list_all (fullmatch ADVISORY) ids"
  shows "list_all (fullmatch ADVISORY) ids'"
proof (cases advisory)
  case (VDict ps)
  with assms(1) obtain url where u: "get_or (VStr []) advisory (lit ''url'') = Inr url"
    by (auto simp: npm_via_def is_dict_def and_then_eq_Inr)
  show ?thesis
    using assms VDict u
    by (cases url) (auto simp: npm_via_def is_dict_def and_then_ensure and_then_eq_Inr dest!: safe_advisory_ok split: if_splits)
qed (use assms in \<open>auto simp: npm_via_def is_dict_def and_then_ensure split: if_splits\<close>)

lemma nodes_versions_ok:
  assumes "nodes_known inventory nodes = Inr True" "node_versions_ok inventory"
  shows "list_all (fullmatch PACKAGE_VERSION) (sort (remdups (map (\<lambda>node. snd (node_package inventory node)) nodes)))"
proof -
  have "fullmatch PACKAGE_VERSION (snd (node_package inventory node))" if node: "node \<in> set nodes" for node
  proof -
    obtain key where "node = VStr key" "key \<in> fst ` set inventory" using nodes_known_True [OF assms(1) node] by blast
    then show ?thesis using node_package_version [OF assms(2)] by blast
  qed
  then show ?thesis by (simp add: list_all_iff)
qed

lemma npm_finding_ok:
  assumes "npm_finding inventory vs entry findings = Inr findings'" "node_versions_ok inventory"
  shows "\<exists>f. findings' = findings @ [f] \<and> npm_finding_closed f"
proof (cases entry)
  case (Pair name row)
  from assms(1) show ?thesis unfolding npm_finding_def Pair prod.case
  proof (elim check_InrE and_then_InrE, goal_cases)
    case (1 own severity nv nodes known fix_value fx)
    obtain fixed fix_available where fx: "fx = (fixed, fix_available)" by fastforce
    have nm: "fullmatch NAME name" "severity \<in> VStr ` set SEVERITIES" using 1(3,5) by simp_all
    have "nodes_known inventory nodes = Inr True" using 1(8,9) by (simp split: if_splits)
    note v = nodes_versions_ok [OF this assms(2)]
    have fixed: "list_all (fullmatch PACKAGE_VERSION) fixed" using 1(12) npm_fix_ok unfolding fx by blast
    from 1(13) show ?case unfolding fx prod.case
    proof (elim check_InrE and_then_InrE, goal_cases)
      case (1 via vias ids)
      have "list_all (fullmatch ADVISORY) ids"
        by (rule fold_ok_inv [OF 1(4), of "\<lambda>_. list_all (fullmatch ADVISORY)"]) (auto intro: npm_via_ok)
      note closed = npm_finding_closedI [OF nm(1) v this nm(2) fixed, of fix_available]
      show ?case by (rule exI, rule conjI [OF sum.inject(2) [THEN iffD1, OF 1(5), symmetric] closed])
    qed
  qed
qed

lemma npm_report_closed:
  assumes "npm_report env result inventory = Inr findings" "node_versions_ok inventory"
  shows "list_all npm_finding_closed findings"
proof -
  obtain report n where "npm_rows report inventory = Inr (n, findings)"
    using assms(1) unfolding npm_report_def
  proof (elim check_InrE and_then_InrE, goal_cases)
    case (1 report st)
    obtain n fs where st: "st = (n, fs)" by fastforce
    have "check (n = int (length fs)) (lit ''scanner_status_mismatch'') (\<lambda>_.
      check ((returncode result = 0) = (fs = [])) (lit ''scanner_status_mismatch'') (\<lambda>_. Inr fs)) = Inr findings"
      using 1(6) by (simp only: st prod.case)
    then show ?case by (elim check_InrE, intro 1(1) [of report n]) (use 1(5) st in simp)
  qed
  then obtain vs where f: "fold_ok (npm_finding inventory vs) vs [] = Inr findings" by (rule npm_rows_Inr)
  show ?thesis
    by (rule fold_ok_inv [OF f, of "\<lambda>_. list_all npm_finding_closed"]) (auto dest!: npm_finding_ok [OF _ assms(2)])
qed

lemma audit_npm_closed: "wp (audit_npm env work node npm) (\<lambda>summary _. summary_closed mode summary) d"
proof -
  have inv: "wp (npm_inventory env) Q d" if "\<And>inventory d'. node_versions_ok inventory \<Longrightarrow> Q inventory d'" for Q d
    unfolding npm_inventory_def by (rule wp_pseq) (auto simp: wp_def read_text_eq_Inr intro: that npm_packages_ok)
  show ?thesis unfolding audit_npm_def exact_tool_def Let_def
  proof (intro wp_intros inv wp_any [of _ "execute _ _ _ _"] wp_any [of _ "copy_file _ _ _"] wp_any [of _ "read_bytes _"]
      wp_any [of _ "touch _ _"], goal_cases)
    case prems: (1 r1 d1 r2 d2 inventory d3 u1 d4 u2 d5 copied d6 u3 d7 u4 d8 result d9 after d10 findings)
    have "list_all npm_finding_closed findings" using npm_report_closed prems by blast
    then have "list_all (\<lambda>g. finding_closed known_packages g \<or> npm_finding_closed g) findings" by (simp add: list_all_iff)
    then show ?case
      by (simp add: summary_closed_def field_closed_def status_text_PASS) (simp add: status_text_def)
  qed
qed

lemma reasons_declared: "lit ''gate_failed'' \<in> set REASONS" "lit ''lockfiles_changed'' \<in> set REASONS"
  by (simp_all add: REASONS_def)

lemma summarise_failure: "\<exists>reason \<in> set REASONS. summarise mode (Inl e) = failure mode reason"
proof (cases e)
  case (GateFailure r)
  show ?thesis
  proof (cases "r \<in> set REASONS")
    case True
    then show ?thesis unfolding GateFailure summarise_def by (intro bexI [of _ r]) simp_all
  next
    case False
    then show ?thesis unfolding GateFailure summarise_def by (intro bexI [OF _ reasons_declared(1)]) simp
  qed
next
  case OtherError
  then show ?thesis unfolding summarise_def by (intro bexI [OF _ reasons_declared(1)]) simp
qed

lemma final_report_closed:
  assumes "\<And>summary. outcome = Inr summary \<Longrightarrow> summary_closed mode summary"
  shows "report_closed mode (final_report mode unchanged outcome)"
proof -
  have failed: "list_all (field_closed mode) (failure mode r)" if "r \<in> set REASONS" for r
    using that by (simp add: failure_def field_closed_def)
  have last: "field_closed mode (lit ''project_lockfiles_unchanged'', VBool unchanged)" by (simp add: field_closed_def)
  show ?thesis
  proof (cases "\<exists>summary. unchanged \<and> outcome = Inr summary")
    case True
    then obtain summary where s: "unchanged" "outcome = Inr summary" by blast
    show ?thesis
      using assms [OF s(2)] s(1) last unfolding report_closed_def summary_closed_def final_report_def s(2) summarise_def sum.case
      by (auto simp: map_add_def split: option.splits)
  next
    case False
    then obtain reason where "reason \<in> set REASONS"
      "final_report mode unchanged outcome = failure mode reason @ [(lit ''project_lockfiles_unchanged'', VBool unchanged)]"
    proof (cases "unchanged")
      case True
      with False obtain e where "outcome = Inl e" by (cases outcome) auto
      with True that summarise_failure [of mode e] show thesis unfolding final_report_def by auto
    qed (use that reasons_declared(2) in \<open>simp add: final_report_def\<close>)
    then show ?thesis using failed [of reason] last unfolding report_closed_def by (simp add: failure_def)
  qed
qed

lemma run_audit_closed:
  assumes "run_audit env mode output_dir python uv node npm d = (Inr summary, d1)"
  shows "summary_closed mode summary"
  using assms
proof (rule run_audit_mode)
  fix work d2
  assume "(if mode = lit ''python'' then audit_python (ci_env.truncate env) work python uv
      else audit_npm (ci_env.truncate env) work node npm) d = (Inr summary, d2)"
  then show ?thesis using wpD [OF audit_python_closed] wpD [OF audit_npm_closed] by (auto split: if_splits)
qed

lemma publish_cases:
  "let result = publish env mode output_dir report d; payload = json_dumps (VDict report) in
   fst result = \<lparr>gr_code = 1, gr_printed = lit ''{\"status\":\"FAIL\",\"reason\":\"report_failed\"}''\<rparr> \<or>
   (fst result = \<lparr>gr_code = (if map_of report (lit ''status'') = Some (VStr (lit ''PASS'')) then 0 else 1), gr_printed = payload\<rparr> \<and>
    snd result (report_path output_dir mode) = Some (payload @ [10]))"
  by (auto simp: publish_def Let_def pseq_def mkdir_def write_bytes_def ensure_def)

text \<open>C34. Nothing but a closed report leaves the gate. Whatever the scanners print, however they fail and whatever the
  files hold, the gate ends with 0 or 1 and either says that the report could not be written, with code 1, or prints
  and writes the same report: a list of fixed fields whose texts are the declared reasons, fixed words, package names
  and versions, advisory identifiers and severities. The code is 0 exactly when the report is green, and it is
  green exactly when nothing was found and the project's lock files are what they were.\<close>

theorem gate_report_closed:
  "fst (run_gate env mode output_dir python uv node npm d) = \<lparr>gr_code = 1, gr_printed = lit ''{\"status\":\"FAIL\",\"reason\":\"report_failed\"}''\<rparr> \<or>
   (\<exists>report. report_closed mode report \<and>
      fst (run_gate env mode output_dir python uv node npm d) =
        \<lparr>gr_code = (if map_of report (lit ''status'') = Some (VStr (lit ''PASS'')) then 0 else 1), gr_printed = json_dumps (VDict report)\<rparr> \<and>
      snd (run_gate env mode output_dir python uv node npm d) (report_path output_dir mode) = Some (json_dumps (VDict report) @ [10]))"
proof -
  let ?ci = "ci_env.truncate env"
  obtain outcome d1 where o: "(if lock_hashes ?ci d = None then (Inl OtherError, d) else run_audit env mode output_dir python uv node npm d) = (outcome, d1)"
    by fastforce
  let ?report = "final_report mode (lock_hashes ?ci d \<noteq> None \<and> lock_hashes ?ci d1 = lock_hashes ?ci d) outcome"
  have "summary_closed mode summary" if "outcome = Inr summary" for summary
    using o that by (auto split: if_splits intro: run_audit_closed)
  then have closed: "report_closed mode ?report" by (rule final_report_closed)
  have "run_gate env mode output_dir python uv node npm d = publish ?ci mode output_dir ?report d1"
    unfolding run_gate_def Let_def o prod.case by (rule refl)
  with closed publish_cases [of ?ci mode output_dir ?report d1] show ?thesis unfolding Let_def by metis
qed

section \<open>Secrets\<close>











end
