(* ===== verification/DependencyGateRuns.thy ===== *)
theory DependencyGateRuns
  imports DependencyGateClaims "HOL-Library.Code_Target_Nat"
begin

text \<open>
  Runs of the dependency gate on a small repository, evaluated step by step: both audits can end green.
\<close>

section \<open>Green runs exist\<close>

text \<open>
  A small repository with tools that answer as the real ones do: one package besides the project, the build backend,
  and the scanner itself.
\<close>

definition sample_hash :: string where
  "sample_hash = ''--hash=sha256:0123456789abcdef0123456789abcdef0123456789abcdef0123456789abcdef''"

definition sample_files :: "(string \<times> string) list" where
  "sample_files =
     [(''apps/api/uv.lock'', ''L''), (''apps/api/pyproject.toml'', ''P''), (''.github/ci/uv-build.toml'', ''B''),
      (''.github/ci/python-build.lock.txt'', ''setuptools==84.0.0 '' @ sample_hash),
      (''.github/ci/pip-audit.lock.txt'', ''pip-audit==2.10.1 '' @ sample_hash),
      (''apps/web/package.json'', ''{}''),
      (''apps/web/package-lock.json'',
       ''{\"lockfileVersion\": 3, \"packages\": {\"\": {}, \"node_modules/a\": {\"version\": \"1.0.0\", \"integrity\": \"x\", \"resolved\": \"https://registry.npmjs.org/a\"}}}'')]"

definition sample_disk :: disk where
  "sample_disk = map_of (map (\<lambda>(p, c). (path_join (lit ''r'') p, lit c)) sample_files)"

definition sample_toml :: "pystr \<Rightarrow> pyval option" where
  "sample_toml t =
     (if t = lit ''L'' then Some (VDict [(lit ''package'', VList
        [VDict [(lit ''name'', VStr (lit ''sahl-api'')), (lit ''source'', VDict [(lit ''editable'', VStr (lit ''.''))])],
         VDict [(lit ''name'', VStr (lit ''structlog'')), (lit ''version'', VStr (lit ''25.1.0'')),
           (lit ''source'', VDict [(lit ''registry'', VStr (lit ''https://pypi.org/simple''))])]])])
      else if t = lit ''P'' then Some (VDict [(lit ''build-system'', BUILD_SYSTEM)])
      else if t = lit ''B'' then Some (build_config [(lit ''setuptools'', lit ''84.0.0'')])
      else if t = lit ''X'' then Some (VDict [(lit ''packages'', VList
        [VDict [(lit ''name'', VStr (lit ''structlog'')), (lit ''version'', VStr (lit ''25.1.0''))]])])
      else None)"

definition sample_report :: "string \<Rightarrow> string \<Rightarrow> completed" where
  "sample_report name version = \<lparr>returncode = 0, stdout = lit (''{\"dependencies\": [{\"name\": \"'' @ name @ ''\", \"version\": \"'' @
     version @ ''\", \"vulns\": []}], \"fixes\": []}''), stderr = lit ''No known vulnerabilities found''\<rparr>"

definition sample_npm_report :: completed where
  "sample_npm_report = \<lparr>returncode = 0, stdout = lit (''{\"auditReportVersion\": 2, \"vulnerabilities\": {}, \"metadata\": {\"dependencies\": {\"total\": 1}, '' @
     ''\"vulnerabilities\": {\"info\": 0, \"low\": 0, \"moderate\": 0, \"high\": 0, \"critical\": 0, \"total\": 0}}}''), stderr = []\<rparr>"

definition says :: "string \<Rightarrow> completed" where
  "says t = \<lparr>returncode = 0, stdout = lit t @ [10], stderr = []\<rparr>"

definition sample_answer :: "pystr list \<Rightarrow> completed option" where
  "sample_answer arguments =
     map_of
       [([lit ''uv'', lit ''--version''], says ''uv 0.12.10''),
        ([lit ''python'', lit ''-m'', lit ''pip_audit'', lit ''--version''], says ''pip-audit 2.10.1''),
        ([lit ''python'', lit ''-c'', VERSION_PROBE], says ''3.14''),
        ([lit ''python'', lit ''-c'', INSTALLED_PROBE], says ''[[\"pip-audit\", \"2.10.1\"]]''),
        (pip_audit_command (lit ''python'') @ [lit ''--locked'', path_join (lit ''w'') ''python-inventory''], sample_report ''structlog'' ''25.1.0''),
        (pip_audit_command (lit ''python'') @ map lit [''--require-hashes'', ''--disable-pip'', ''-r''] @
           [path_join (lit ''r'') ''.github/ci/python-build.lock.txt''], sample_report ''setuptools'' ''84.0.0''),
        (pip_audit_command (lit ''python'') @ map lit [''--require-hashes'', ''--disable-pip'', ''-r''] @
           [path_join (lit ''r'') ''.github/ci/pip-audit.lock.txt''], sample_report ''pip-audit'' ''2.10.1''),
        ([lit ''npm'', lit ''--version''], says ''11.11.0''), ([lit ''node'', lit ''--version''], says ''v24.1.0''),
        (lit ''npm'' # npm_audit_flags (lit ''w''), sample_npm_report)]
       arguments"

definition sample_spawn :: "(pystr \<times> pystr) list \<Rightarrow> pystr \<Rightarrow> pystr list \<Rightarrow> disk \<Rightarrow> completed option \<times> disk" where
  "sample_spawn vars cwd arguments d =
     (case sample_answer arguments of
        Some result \<Rightarrow> (Some result, d)
      | None \<Rightarrow> (Some \<lparr>returncode = 0, stdout = [], stderr = []\<rparr>,
          d(path_join (path_join (lit ''w'') ''python-inventory'') ''pylock.toml'' \<mapsto> lit ''X'')))"

definition sample_ci :: ci_env where
  "sample_ci = \<lparr>ci_root = lit ''r'', ci_environ = [(lit ''PATH'', lit ''p''), (lit ''SECRET'', lit ''s'')], ci_upper = id, ci_lower = id,
     ci_float = (\<lambda>_. NotFinite), ci_toml = sample_toml, ci_mkdir = (\<lambda>_. True), ci_writable = (\<lambda>_. True),
     ci_spawn = sample_spawn\<rparr>"

definition sample_gate :: gate_env where
  "sample_gate = ci_env.extend sample_ci (gate_env.fields (3, 14) (\<lambda>_. Some (lit ''w'')) True)"

lemma sample_gate_ci [simp]: "ci_env.truncate sample_gate = sample_ci" "ge_python sample_gate = (3, 14)"
    "ge_temporary sample_gate = (\<lambda>_. Some (lit ''w''))" "ge_cleanup sample_gate = True" "ci_root sample_gate = lit ''r''"
  by (simp_all add: sample_gate_def sample_ci_def ci_env.defs gate_env.defs)

lemma sample_ci_fields [simp]: "ci_root sample_ci = lit ''r''" "ci_mkdir sample_ci p = True" "ci_writable sample_ci p = True"
    "ci_spawn sample_ci = sample_spawn"
  by (simp_all add: sample_ci_def)

lemma sample_children: "children_keep_inputs sample_ci"
proof -
  have "lit ''w'' @ x \<noteq> path_join (lit ''r'') y" for x y by (simp add: path_join_def lit_def)
  then have "path_join (path_join (lit ''w'') ''python-inventory'') ''pylock.toml'' \<notin> audit_inputs sample_ci"
    unfolding audit_inputs_def by (auto simp: path_join_def)
  then show ?thesis
    by (auto simp: children_keep_inputs_def agree_def sample_spawn_def split: option.splits)
qed

abbreviation w_dir :: pystr where
  "w_dir \<equiv> lit ''w''"

lemma execute_sample: "sample_answer arguments = Some result \<Longrightarrow> execute sample_ci arguments cwd w_dir d = (Inr result, d)"
  by (simp add: execute_def sample_spawn_def)

lemma exact_tool_sample:
  "sample_answer arguments = Some (says t) \<Longrightarrow> strip (lit t @ [10]) = expected \<Longrightarrow>
   exact_tool sample_ci arguments expected cwd w_dir d = (Inr (), d)"
  by (simp add: exact_tool_def pseq_def execute_sample guard_apply says_def strip_def)

text \<open>The steps of the Python audit, one by one.\<close>

lemma sample_answers:
  "sample_answer [lit ''uv'', lit ''--version''] = Some (says ''uv 0.12.10'')"
  "sample_answer (lit ''python'' # map lit [''-m'', ''pip_audit'', ''--version'']) = Some (says ''pip-audit 2.10.1'')"
  "sample_answer [lit ''python'', lit ''-c'', VERSION_PROBE] = Some (says ''3.14'')"
  "sample_answer [lit ''python'', lit ''-c'', INSTALLED_PROBE] = Some (says ''[[\"pip-audit\", \"2.10.1\"]]'')"
  "sample_answer (pip_audit_command (lit ''python'') @ [lit ''--locked'', path_join w_dir ''python-inventory'']) = Some (sample_report ''structlog'' ''25.1.0'')"
  "sample_answer (pip_audit_command (lit ''python'') @ (map lit [''--require-hashes'', ''--disable-pip'', ''-r''] @
     [path_join (lit ''r'') ''.github/ci/python-build.lock.txt''])) = Some (sample_report ''setuptools'' ''84.0.0'')"
  "sample_answer (pip_audit_command (lit ''python'') @ (map lit [''--require-hashes'', ''--disable-pip'', ''-r''] @
     [path_join (lit ''r'') ''.github/ci/pip-audit.lock.txt''])) = Some (sample_report ''pip-audit'' ''2.10.1'')"
  "sample_answer ([lit ''uv''] @ map lit [''export'', ''--frozen'', ''--all-groups'', ''--all-extras'', ''--no-emit-project'',
     ''--format'', ''pylock.toml'', ''--output-file''] @ [path_join (path_join w_dir ''python-inventory'') ''pylock.toml'']) = None"
  by code_simp+

lemma sample_texts:
  "fullmatch UV_OUTPUT (lit ''uv 0.12.10'' @ [10])"
  "strip (lit ''pip-audit 2.10.1'' @ [10]) = lit ''pip-audit '' @ PIP_AUDIT_VERSION"
  "strip (lit ''3.14'' @ [10]) = lit ''3.14''"
  "installed_packages sample_ci (lit ''[[\"pip-audit\", \"2.10.1\"]]'' @ [10]) = Inr [(lit ''pip-audit'', PIP_AUDIT_VERSION)]"
  "\<not> search EXPORT_DIAGNOSTIC []"
  by code_simp+

lemma sample_reads:
  "fst (uv_inventory sample_ci sample_disk) = Inr [(lit ''structlog'', lit ''25.1.0'')]"
  "fst (build_inventory sample_ci sample_disk) = Inr [(lit ''setuptools'', lit ''84.0.0'')]"
  "fst (requirements_inventory (path_join (lit ''r'') ''.github/ci/pip-audit.lock.txt'') sample_disk) = Inr [(lit ''pip-audit'', PIP_AUDIT_VERSION)]"
  by code_simp+

lemma sample_reports:
  "python_report sample_ci (sample_report ''structlog'' ''25.1.0'') [(lit ''structlog'', lit ''25.1.0'')] = Inr []"
  "python_report sample_ci (sample_report ''setuptools'' ''84.0.0'') [(lit ''setuptools'', lit ''84.0.0'')] = Inr []"
  "python_report sample_ci (sample_report ''pip-audit'' ''2.10.1'') [(lit ''pip-audit'', PIP_AUDIT_VERSION)] = Inr []"
  by code_simp+

definition sample_pylock_disk :: disk where
  "sample_pylock_disk = sample_disk(path_join (path_join w_dir ''python-inventory'') ''pylock.toml'' \<mapsto> lit ''X'')"

lemma execute_export:
  "sample_answer arguments = None \<Longrightarrow>
   execute sample_ci arguments cwd w_dir sample_disk = (Inr \<lparr>returncode = 0, stdout = [], stderr = []\<rparr>, sample_pylock_disk)"
  by (simp add: execute_def sample_spawn_def sample_pylock_disk_def)

lemma load_pylock:
  "load_toml sample_ci (path_join (path_join w_dir ''python-inventory'') ''pylock.toml'') sample_pylock_disk =
     (Inr (VDict [(lit ''packages'', VList [VDict [(lit ''name'', VStr (lit ''structlog'')), (lit ''version'', VStr (lit ''25.1.0''))]])]), sample_pylock_disk)"
proof -
  have "decode_text (lit ''X'') = Inr (lit ''X'')" by code_simp
  then show ?thesis
    by (simp add: load_toml_def read_text_def read_bytes_def pseq_def sample_pylock_disk_def sample_ci_def sample_toml_def)
qed

lemma exported_pylock:
  "exported_packages (VDict [(lit ''packages'', VList [VDict [(lit ''name'', VStr (lit ''structlog'')), (lit ''version'', VStr (lit ''25.1.0''))]])]) =
     Inr [(lit ''structlog'', lit ''25.1.0'')]"
  by code_simp

lemma reads_Inr: "reads S m \<Longrightarrow> fst (m d) = Inr x \<Longrightarrow> m d = (Inr x, d)"
  using reads_apply by metis

lemmas sample_inventories =
  reads_Inr [OF reads_inventories(2) sample_reads(1)] reads_Inr [OF reads_inventories(3) sample_reads(2)]
  reads_Inr [OF reads_inventories(4) [of sample_ci, unfolded sample_ci_fields] sample_reads(3)]

lemma strip_Nil [simp]: "strip [] = []"
  by (simp add: strip_def)

lemma sample_scans:
  "\<exists>au. scan_targets sample_ci (lit ''python'') w_dir
     [(''runtime_dev_all_markers'', [lit ''--locked'', path_join w_dir ''python-inventory''], [(lit ''structlog'', lit ''25.1.0'')]),
      (''build'', map lit [''--require-hashes'', ''--disable-pip'', ''-r''] @ [path_join (lit ''r'') ''.github/ci/python-build.lock.txt''],
        [(lit ''setuptools'', lit ''84.0.0'')]),
      (''scanner'', map lit [''--require-hashes'', ''--disable-pip'', ''-r''] @ [path_join (lit ''r'') ''.github/ci/pip-audit.lock.txt''],
        [(lit ''pip-audit'', PIP_AUDIT_VERSION)])] [] [] d = (Inr (au, []), d)"
  unfolding scan_targets.simps prod.case
  by (simp only: pseq_Inr [OF execute_sample [OF sample_answers(5)]] pseq_Inr [OF execute_sample [OF sample_answers(6)]]
      pseq_Inr [OF execute_sample [OF sample_answers(7)]] pseq_plift sum.case sample_reports Let_def proc_basics sample_ci_fields simp_thms if_False append_Nil) blast

lemma sample_python_audit:
  "\<exists>summary d'. audit_python sample_ci w_dir (lit ''python'') (lit ''uv'') sample_disk = (Inr summary, d') \<and>
     map_of summary (lit ''status'') = Some (VStr (lit ''PASS'')) \<and> (d' = sample_pylock_disk)"
proof -
  obtain au where scans: "scan_targets sample_ci (lit ''python'') w_dir
     [(''runtime_dev_all_markers'', [lit ''--locked'', path_join w_dir ''python-inventory''], [(lit ''structlog'', lit ''25.1.0'')]),
      (''build'', map lit [''--require-hashes'', ''--disable-pip'', ''-r''] @ [path_join (lit ''r'') ''.github/ci/python-build.lock.txt''],
        [(lit ''setuptools'', lit ''84.0.0'')]),
      (''scanner'', map lit [''--require-hashes'', ''--disable-pip'', ''-r''] @ [path_join (lit ''r'') ''.github/ci/pip-audit.lock.txt''],
        [(lit ''pip-audit'', PIP_AUDIT_VERSION)])] [] [] sample_pylock_disk = (Inr (au, []), sample_pylock_disk)"
    using sample_scans by blast
  have written: "sample_pylock_disk (path_join (path_join w_dir ''python-inventory'') ''pylock.toml'') \<noteq> None" by (simp add: sample_pylock_disk_def)
  show ?thesis
    unfolding audit_python_def Let_def sample_ci_fields
    by (simp only: pseq_Inr [OF execute_sample [OF sample_answers(1)]],
      simp only: pseq_guard says_def completed.simps sample_texts if_True strip_Nil simp_thms,
      simp only: pseq_Inr [OF exact_tool_sample [OF sample_answers(2) sample_texts(2)]]
        pseq_Inr [OF exact_tool_sample [OF sample_answers(3) sample_texts(3)]],
      simp only: pseq_def sample_inventories prod.case sum.case guard_apply list.set insert_iff simp_thms if_True
        execute_sample [OF sample_answers(4)] says_def completed.simps strip_Nil plift_def sample_texts
        mkdir_def ensure_def sample_ci_fields execute_export [OF sample_answers(8)] is_file_def written load_pylock exported_pylock scans,
      simp add: status_text_def)
qed

text \<open>An audit that passes and leaves the lock files alone makes the gate green.\<close>

lemma run_gate_green:
  assumes "run_audit sample_gate mode output_dir python uv node npm sample_disk = (Inr summary, d1)"
    and "map_of summary (lit ''status'') = Some (VStr (lit ''PASS''))"
    and "\<forall>name \<in> set LOCK_PATHS. d1 (path_join (lit ''r'') name) = sample_disk (path_join (lit ''r'') name)"
  shows "gr_code (fst (run_gate sample_gate mode output_dir python uv node npm sample_disk)) = 0"
proof -
  have "sample_disk (path_join (lit ''r'') ''apps/api/uv.lock'') \<noteq> None \<and> sample_disk (path_join (lit ''r'') ''apps/web/package-lock.json'') \<noteq> None"
    by code_simp
  then have "lock_hashes sample_ci sample_disk \<noteq> None" by (simp add: lock_hashes_def LOCK_PATHS_def)
  moreover have "lock_hashes sample_ci d1 = lock_hashes sample_ci sample_disk" using assms(3) by (simp add: lock_hashes_def LOCK_PATHS_def)
  moreover have "map_of (final_report mode True (Inr summary)) (lit ''status'') = Some (VStr (lit ''PASS''))"
    using assms(2) by (simp add: final_report_def summarise_def map_add_def)
  ultimately show ?thesis
    using assms(1) by (simp add: run_gate_def Let_def publish_def pseq_def mkdir_def write_bytes_def split: option.splits)
qed

lemma sample_paths: "starts_with (w_dir @ [47]) (path_join (lit ''r'') name) = False"
  by (simp add: path_join_def lit_def)

lemma path_of_other_root:
  "path_join (lit ''r'') name \<noteq> path_join (path_join w_dir a) b" "path_join (lit ''r'') name \<noteq> path_join w_dir a"
  "path_join (lit ''r'') name \<noteq> path_join (npm_snapshot w_dir) a"
  by (simp_all add: path_join_def npm_snapshot_def lit_def)

lemma sample_python_green:
  "gr_code (fst (run_gate sample_gate (lit ''python'') (lit ''o'') (lit ''python'') (lit ''uv'') (lit ''node'') (lit ''npm'') sample_disk)) = 0"
proof -
  obtain summary where a: "audit_python sample_ci w_dir (lit ''python'') (lit ''uv'') sample_disk = (Inr summary, sample_pylock_disk)"
    "map_of summary (lit ''status'') = Some (VStr (lit ''PASS''))" using sample_python_audit by blast
  have "run_audit sample_gate (lit ''python'') (lit ''o'') (lit ''python'') (lit ''uv'') (lit ''node'') (lit ''npm'') sample_disk =
      (Inr summary, remove_tree w_dir sample_pylock_disk)"
    by (simp add: run_audit_def pseq_def guard_apply mkdir_def with_temporary_def a(1))
  then show ?thesis
    by (rule run_gate_green) (simp_all add: a(2) remove_tree_def sample_paths sample_pylock_disk_def path_of_other_root)
qed

theorem python_gate_green_witness:
  "\<exists>expected build scanner. fst (uv_inventory sample_ci sample_disk) = Inr expected \<and>
     all_audited sample_ci w_dir (lit ''python'') expected build scanner"
  using python_gate_green [OF _ sample_python_green] sample_children unfolding sample_gate_ci by blast

text \<open>The npm audit.\<close>

lemma sample_npm_answers:
  "sample_answer ((if ends_with (lit ''.js'') (lit ''npm'') then [lit ''node'', lit ''npm''] else [lit ''npm'']) @ [lit ''--version'']) = Some (says ''11.11.0'')"
  "sample_answer [lit ''node'', lit ''--version''] = Some (says ''v24.1.0'')"
  "sample_answer ((if ends_with (lit ''.js'') (lit ''npm'') then [lit ''node'', lit ''npm''] else [lit ''npm'']) @ npm_audit_flags w_dir) = Some sample_npm_report"
  by code_simp+

lemma sample_npm_texts:
  "strip (lit ''11.11.0'' @ [10]) = NPM_VERSION" "fullmatch NODE_VERSION (lit ''v24.1.0'' @ [10])"
  by code_simp+

lemma sample_npm_reads: "fst (npm_inventory sample_ci sample_disk) = Inr [(lit ''node_modules/a'', lit ''a'', lit ''1.0.0'')]"
  by code_simp

lemma sample_npm_clean: "npm_report sample_ci sample_npm_report [(lit ''node_modules/a'', lit ''a'', lit ''1.0.0'')] = Inr []"
  by code_simp

lemma sample_npm_audit:
  "\<exists>summary d'. audit_npm sample_ci w_dir (lit ''node'') (lit ''npm'') sample_disk = (Inr summary, d') \<and>
     map_of summary (lit ''status'') = Some (VStr (lit ''PASS'')) \<and>
     (\<forall>name. d' (path_join (lit ''r'') name) = sample_disk (path_join (lit ''r'') name))"
proof -
  obtain package lock where files: "sample_disk (path_join (lit ''r'') ''apps/web/package.json'') = Some package"
    "sample_disk (path_join (lit ''r'') ''apps/web/package-lock.json'') = Some lock"
  proof -
    have "sample_disk (path_join (lit ''r'') ''apps/web/package.json'') \<noteq> None \<and> sample_disk (path_join (lit ''r'') ''apps/web/package-lock.json'') \<noteq> None"
      by code_simp
    then show thesis using that by blast
  qed
  show ?thesis
    unfolding audit_npm_def Let_def sample_ci_fields npm_audit_flags_def [symmetric] npm_snapshot_def [symmetric]
    by (simp add: pseq_def exact_tool_sample [OF sample_npm_answers(1) sample_npm_texts(1)]
        execute_sample [OF sample_npm_answers(2)] guard_apply says_def sample_npm_texts
        reads_Inr [OF reads_inventories(5) sample_npm_reads] mkdir_def copy_file_def read_bytes_def files write_bytes_def
        npm_paths_differ npm_paths_differ [symmetric] path_of_other_root touch_def status_text_def execute_sample [OF sample_npm_answers(3)] sample_npm_clean)
qed

lemma sample_npm_green:
  "gr_code (fst (run_gate sample_gate (lit ''npm'') (lit ''o'') (lit ''python'') (lit ''uv'') (lit ''node'') (lit ''npm'') sample_disk)) = 0"
proof -
  obtain summary d' where a: "audit_npm sample_ci w_dir (lit ''node'') (lit ''npm'') sample_disk = (Inr summary, d')"
    "map_of summary (lit ''status'') = Some (VStr (lit ''PASS''))"
    "\<And>name. d' (path_join (lit ''r'') name) = sample_disk (path_join (lit ''r'') name)" using sample_npm_audit by blast
  have "run_audit sample_gate (lit ''npm'') (lit ''o'') (lit ''python'') (lit ''uv'') (lit ''node'') (lit ''npm'') sample_disk =
      (Inr summary, remove_tree w_dir d')"
    by (simp add: run_audit_def pseq_def guard_apply mkdir_def with_temporary_def a(1))
  then show ?thesis
    by (rule run_gate_green) (simp_all add: a(2,3) remove_tree_def sample_paths)
qed

theorem npm_gate_green_witness:
  "\<exists>inventory lock. fst (npm_inventory sample_ci sample_disk) = Inr inventory \<and>
     npm_audited sample_ci w_dir (if ends_with (lit ''.js'') (lit ''npm'') then [lit ''node'', lit ''npm''] else [lit ''npm'']) lock inventory"
  using npm_gate_green [OF _ sample_npm_green] sample_children unfolding sample_gate_ci by blast


end
