(* ===== verification/GitleaksGate.thy ===== *)
theory GitleaksGate
  imports CiPrelude
begin

text \<open>
  \<open>.github/ci/gitleaks-gate.py\<close>: the pinned scanner, the scans of the tracked tree with its history and of collected
  artifacts, and the scan of captured output. Directories, links, archives, Git and the scanner are the operating
  system's; every exception ends in the same failure, so reasons are not told apart.
\<close>

section \<open>The runner's system\<close>

text \<open>
  Paths are POSIX paths: \<open>gl_abspath\<close>, \<open>gl_is_link\<close> (a link or a junction) and \<open>gl_resolve\<close> are the system's. \<open>gl_zip\<close> and \<open>gl_tar\<close> look a
  member up in an archive (a regular file, its size, its bytes), \<open>gl_download\<close> reads a URL up to one byte past the
  limit, \<open>gl_decode\<close> is the decoding \<open>json.loads\<close> applies to bytes, \<open>gl_run\<close> runs a child on standard input.
\<close>

record gl_completed =
  gl_code :: int
  gl_out :: bytes
  gl_err :: bytes

record gl_env =
  gl_root :: pystr
  gl_environ :: "(pystr \<times> pystr) list"
  gl_upper :: "pystr \<Rightarrow> pystr"
  gl_lower :: "pystr \<Rightarrow> pystr"
  gl_float :: "pystr \<Rightarrow> pyfloat"
  gl_toml :: "pystr \<Rightarrow> pyval option"
  gl_machine :: pystr
  gl_system :: pystr
  gl_devnull :: pystr
  gl_abspath :: "pystr \<Rightarrow> pystr"
  gl_is_link :: "pystr \<Rightarrow> bool"
  gl_resolve :: "pystr \<Rightarrow> pystr"
  gl_mkdir :: "pystr \<Rightarrow> bool"
  gl_writable :: "pystr \<Rightarrow> bool"
  gl_download :: "pystr \<Rightarrow> bytes option"
  gl_zip :: "bytes \<Rightarrow> pystr \<Rightarrow> bytes option"
  gl_tar :: "bytes \<Rightarrow> pystr \<Rightarrow> (bool \<times> nat \<times> bytes option) option"
  gl_decode :: "bytes \<Rightarrow> pystr option"
  gl_links :: "pystr \<Rightarrow> nat"
  gl_is_dir :: "pystr \<Rightarrow> bool"
  gl_entries :: "pystr \<Rightarrow> disk \<Rightarrow> pystr list"
  gl_temporary :: "pystr \<Rightarrow> disk \<Rightarrow> pystr option"
  gl_cleanup :: bool
  gl_run :: "(pystr \<times> pystr) list \<Rightarrow> pystr list \<Rightarrow> bytes option \<Rightarrow> disk \<Rightarrow> gl_completed option \<times> disk"

definition failed :: gate_error where
  "failed = GateFailure []"

definition demand :: "bool \<Rightarrow> unit gate" where
  "demand b = plift (ensure b failed)"

section \<open>The contract and the scanner\<close>

definition GL_VERSION :: pystr where
  "GL_VERSION = lit ''8.30.1''"

definition ARCHIVES :: "(pystr \<times> pystr \<times> pystr \<times> pystr) list" where
  "ARCHIVES =
     [(lit ''Windows'', lit ''gitleaks_8.30.1_windows_x64.zip'',
       lit ''d29144deff3a68aa93ced33dddf84b7fdc26070add4aa0f4513094c8332afc4e'', lit ''gitleaks.exe''),
      (lit ''Linux'', lit ''gitleaks_8.30.1_linux_x64.tar.gz'',
       lit ''551f6fc83ea457d62a0d98237cbad105af8d557003051f41f3e7ca7b3f2470eb'', lit ''gitleaks'')]"

definition GL_ALLOWED :: "pystr list" where
  "GL_ALLOWED = map lit [''PATH'', ''SYSTEMROOT'', ''WINDIR'', ''COMSPEC'', ''PATHEXT'', ''TEMP'', ''TMP'', ''LANG'', ''LC_ALL'']"

definition gl_variables :: "gl_env \<Rightarrow> (pystr \<times> pystr) list" where
  "gl_variables env =
     filter (\<lambda>(k, v). gl_upper env k \<in> set GL_ALLOWED \<and> k \<notin> {lit ''GIT_CONFIG_NOSYSTEM'', lit ''GIT_CONFIG_GLOBAL''}) (gl_environ env) @
     [(lit ''GIT_CONFIG_NOSYSTEM'', lit ''1''), (lit ''GIT_CONFIG_GLOBAL'', gl_devnull env)]"

definition run_child :: "gl_env \<Rightarrow> pystr list \<Rightarrow> bytes option \<Rightarrow> gl_completed gate" where
  "run_child env arguments payload d =
     (case gl_run env (gl_variables env) arguments payload d of
        (None, d') \<Rightarrow> (Inl OtherError, d')
      | (Some result, d') \<Rightarrow> (Inr result, d'))"

definition git :: "gl_env \<Rightarrow> pystr list \<Rightarrow> bytes gate" where
  "git env arguments =
     pseq (run_child env (lit ''git'' # arguments) None) (\<lambda>result.
     pseq (demand (gl_code result = 0 \<and> gl_err result = [])) (\<lambda>_.
     pret (gl_out result)))"

text \<open>\<open>Path.parents\<close> of an absolute path: what precedes each slash, and the root.\<close>

definition parents :: "pystr \<Rightarrow> pystr list" where
  "parents p = map (\<lambda>i. take (max 1 i) p) (filter (\<lambda>i. p ! i = 47) (rev [0..<length p]))"

definition plain_path :: "gl_env \<Rightarrow> pystr \<Rightarrow> gate_error + pystr" where
  "plain_path env path =
     (let p = gl_abspath env path in
      if list_ex (gl_is_link env) (p # parents p) then Inl failed else Inr (gl_resolve env p))"

abbreviation resolve_path :: "gl_env \<Rightarrow> pystr \<Rightarrow> pystr gate" where
  "resolve_path env path \<equiv> plift (plain_path env path)"

definition plain_json :: "gl_env \<Rightarrow> pystr \<Rightarrow> gate_error + pyval" where
  "plain_json env t = json_loads (gl_float env) plain_hook t"

definition is_config :: "pyval \<Rightarrow> bool" where
  "is_config v \<longleftrightarrow>
     (case v of
        VDict [(k, VDict [(k', x)])] \<Rightarrow> k = lit ''extend'' \<and> k' = lit ''useDefault'' \<and> equals_int x 1
      | _ \<Rightarrow> False)"

definition no_exceptions :: "pyval \<Rightarrow> bool" where
  "no_exceptions v \<longleftrightarrow>
     (case v of
        VDict ps \<Rightarrow> length ps = 2 \<and> map_of ps (lit ''exceptions'') = Some (VList []) \<and>
          (case map_of ps (lit ''schema_version'') of Some x \<Rightarrow> equals_int x 1 | None \<Rightarrow> False)
      | _ \<Rightarrow> False)"

definition path_exists :: "gl_env \<Rightarrow> pystr \<Rightarrow> bool gate" where
  "path_exists env path d = (Inr (d path \<noteq> None \<or> gl_is_dir env path), d)"

definition verify_contract :: "gl_env \<Rightarrow> unit gate" where
  "verify_contract env =
     pseq (read_text (path_join (gl_root env) ''.gitleaks.toml'')) (\<lambda>t.
     pseq (plift (case gl_toml env t of None \<Rightarrow> Inl OtherError | Some v \<Rightarrow> Inr v)) (\<lambda>config.
     pseq (demand (is_config config)) (\<lambda>_.
     pseq (read_text (path_join (gl_root env) ''.github/security-exceptions.json'')) (\<lambda>t.
     pseq (plift (plain_json env t)) (\<lambda>exceptions.
     pseq (demand (no_exceptions exceptions)) (\<lambda>_.
     pseq (path_exists env (path_join (gl_root env) ''.gitleaksignore'')) (\<lambda>ignored.
     demand (\<not> ignored))))))))"

text \<open>\<open>p / name\<close>, \<open>p.is_relative_to(q)\<close> and \<open>p.relative_to(q)\<close> on resolved paths.\<close>

definition below :: "pystr \<Rightarrow> pystr" where
  "below p = (if p = [47] then p else p @ [47])"

definition child_path :: "pystr \<Rightarrow> pystr \<Rightarrow> pystr" where
  "child_path p name = (if name = [] then p else below p @ name)"

definition relative_to :: "pystr \<Rightarrow> pystr \<Rightarrow> bool" where
  "relative_to p q \<longleftrightarrow> p = q \<or> starts_with (below q) p"

definition relative_part :: "pystr \<Rightarrow> pystr \<Rightarrow> pystr" where
  "relative_part p q = drop (length (below q)) p"

definition sha256_hex :: "bytes \<Rightarrow> pystr" where
  "sha256_hex b = concat (map (hex_text 2) (sha256 b))"

definition MAX_ARCHIVE :: nat where
  "MAX_ARCHIVE = 64 * 1024 * 1024"

definition make_directory :: "gl_env \<Rightarrow> pystr \<Rightarrow> unit gate" where
  "make_directory env path = plift (ensure (gl_mkdir env path) OtherError)"

definition put_file :: "gl_env \<Rightarrow> pystr \<Rightarrow> bytes \<Rightarrow> unit gate" where
  "put_file env path b d = (if gl_writable env path then (Inr (), d(path \<mapsto> b)) else (Inl OtherError, d))"

definition fetch_archive :: "gl_env \<Rightarrow> pystr \<Rightarrow> pystr \<Rightarrow> pystr \<Rightarrow> unit gate" where
  "fetch_archive env path name checksum =
     pseq (plift (case gl_download env (lit ''https://github.com/gitleaks/gitleaks/releases/download/v'' @ GL_VERSION @ [47] @ name) of
         None \<Rightarrow> Inl OtherError | Some b \<Rightarrow> Inr b)) (\<lambda>payload.
     pseq (demand (length payload \<le> MAX_ARCHIVE)) (\<lambda>_.
     pseq (demand (sha256_hex payload = checksum)) (\<lambda>_.
     put_file env path payload)))"

definition extract_binary :: "gl_env \<Rightarrow> pystr \<Rightarrow> pystr \<Rightarrow> bytes \<Rightarrow> gate_error + bytes" where
  "extract_binary env name executable payload =
     (if ends_with (lit ''.zip'') name
      then (case gl_zip env payload executable of None \<Rightarrow> Inl OtherError | Some b \<Rightarrow> Inr b)
      else (case gl_tar env payload executable of
          None \<Rightarrow> Inl OtherError
        | Some (regular, member_size, content) \<Rightarrow>
            if \<not> regular \<or> MAX_ARCHIVE < member_size then Inl failed
            else (case content of None \<Rightarrow> Inl failed | Some b \<Rightarrow> Inr b)))"

definition install_binary :: "gl_env \<Rightarrow> pystr \<Rightarrow> bytes \<Rightarrow> unit gate" where
  "install_binary env target binary =
     pseq (path_exists env target) (\<lambda>present.
     if present then
       pseq (is_file target) (\<lambda>regular.
       pseq (demand (regular \<and> gl_links env target = 1)) (\<lambda>_.
       pseq (read_bytes target) (\<lambda>existing.
       demand (sha256 existing = sha256 binary))))
     else put_file env target binary)"

definition ascii_space :: "nat \<Rightarrow> bool" where
  "ascii_space b \<longleftrightarrow> b = 32 \<or> (9 \<le> b \<and> b \<le> 13)"

definition strip_bytes :: "bytes \<Rightarrow> bytes" where
  "strip_bytes s = rev (dropWhile ascii_space (rev (dropWhile ascii_space s)))"

definition prepare_scanner :: "gl_env \<Rightarrow> pystr \<Rightarrow> (pystr \<times> pystr) gate" where
  "prepare_scanner env output_dir =
     pseq (verify_contract env) (\<lambda>_.
     pseq (resolve_path env output_dir) (\<lambda>output.
     pseq (demand (output \<noteq> gl_root env \<and> \<not> relative_to (gl_root env) output)) (\<lambda>_.
     pseq (make_directory env output) (\<lambda>_.
     pseq (resolve_path env (path_join output ''tools'')) (\<lambda>tools.
     pseq (make_directory env tools) (\<lambda>_.
     pseq (demand (gl_lower env (gl_machine env) \<in> {lit ''amd64'', lit ''x86_64''})) (\<lambda>_.
     pseq (plift (case map_of ARCHIVES (gl_system env) of None \<Rightarrow> Inl OtherError | Some a \<Rightarrow> Inr a)) (\<lambda>(name, checksum, executable).
     pseq (resolve_path env (child_path tools name)) (\<lambda>archive_path.
     pseq (path_exists env archive_path) (\<lambda>present.
     pseq (if present then pret () else fetch_archive env archive_path name checksum) (\<lambda>_.
     pseq (read_bytes archive_path) (\<lambda>payload.
     pseq (demand (sha256_hex payload = checksum)) (\<lambda>_.
     pseq (plift (extract_binary env name executable payload)) (\<lambda>binary.
     pseq (resolve_path env (child_path tools executable)) (\<lambda>target.
     pseq (install_binary env target binary) (\<lambda>_.
     pseq (run_child env [target, lit ''version''] None) (\<lambda>version.
     pseq (demand (gl_code version = 0 \<and> gl_err version = [] \<and> strip_bytes (gl_out version) = GL_VERSION)) (\<lambda>_.
     pret (target, output)))))))))))))))))))"

section \<open>Scans\<close>

definition MAX_REPORT :: nat where
  "MAX_REPORT = 32 * 1024 * 1024"

definition RULE_ID :: rx where
  "RULE_ID = between 1 100 (Class [(97, 122), (48, 57), (95, 95), (45, 45)])"

definition finding_ok :: "pyval \<Rightarrow> bool" where
  "finding_ok f \<longleftrightarrow>
     (case f of
        VDict ps \<Rightarrow>
          (case map_of ps (lit ''RuleID'') of Some (VStr rule) \<Rightarrow> fullmatch RULE_ID rule | _ \<Rightarrow> False) \<and>
          (case map_of ps (lit ''File'') of Some (VStr file) \<Rightarrow> True | _ \<Rightarrow> False) \<and>
          (case map_of ps (lit ''StartLine'') of Some (VInt n) \<Rightarrow> 1 \<le> n | _ \<Rightarrow> False) \<and>
          map_of ps (lit ''Secret'') \<in> {Some (VStr (lit ''REDACTED'')), Some (VStr [])}
      | _ \<Rightarrow> False)"

definition scan_flags :: "gl_env \<Rightarrow> pystr list" where
  "scan_flags env = [lit ''--config'', path_join (gl_root env) ''.gitleaks.toml''] @
     map lit [''--redact=100'', ''--exit-code=1'', ''--ignore-gitleaks-allow'', ''--no-banner'', ''--no-color'', ''--log-level=warn'',
       ''--max-decode-depth=5'']"

definition scan_command :: "gl_env \<Rightarrow> pystr \<Rightarrow> pystr list \<Rightarrow> pystr list" where
  "scan_command env binary arguments =
     [binary] @ arguments @ scan_flags env @ map lit [''--report-format=json'', ''--report-path'', ''-'']"

definition scan_findings :: "gl_env \<Rightarrow> gl_completed \<Rightarrow> gate_error + nat" where
  "scan_findings env result =
     and_then (ensure (gl_code result \<in> {0, 1} \<and> gl_err result = [] \<and> length (gl_out result) \<le> MAX_REPORT) failed) (\<lambda>_.
     case gl_decode env (gl_out result) of
       None \<Rightarrow> Inl OtherError
     | Some t \<Rightarrow>
         and_then (plain_json env t) (\<lambda>v.
         case v of
           VList findings \<Rightarrow>
             and_then (ensure (list_all finding_ok findings \<and> (gl_code result = 0) = (findings = [])) failed) (\<lambda>_.
             Inr (length findings))
         | _ \<Rightarrow> Inl failed))"

definition scan_with :: "gl_env \<Rightarrow> pystr \<Rightarrow> pystr list \<Rightarrow> nat gate" where
  "scan_with env binary arguments =
     pseq (run_child env (scan_command env binary arguments) None) (\<lambda>result. plift (scan_findings env result))"

definition scan_stdin :: "gl_env \<Rightarrow> bytes \<Rightarrow> pystr \<Rightarrow> disk \<Rightarrow> bool \<times> disk" where
  "scan_stdin env payload output_dir d =
     (if payload = [] \<or> 0 \<in> set payload \<or> decode_utf8 payload = None then (False, d)
      else (case pseq (prepare_scanner env output_dir) (\<lambda>(binary, output).
                run_child env ([binary, lit ''stdin''] @ scan_flags env) (Some payload)) d of
          (Inl _, d') \<Rightarrow> (False, d')
        | (Inr result, d') \<Rightarrow> (gl_code result = 0 \<and> gl_out result = [] \<and> gl_err result = [], d')))"

section \<open>The tracked tree and its history\<close>

text \<open>A \<open>PurePosixPath\<close> is its parts: empty ones and dots go away. A suffix needs a character other than a dot before it.\<close>

definition posix_parts :: "pystr \<Rightarrow> pystr list" where
  "posix_parts s = filter (\<lambda>x. x \<noteq> [] \<and> x \<noteq> [46]) (split_on 47 s)"

definition posix_name :: "pystr \<Rightarrow> pystr" where
  "posix_name s = (case posix_parts s of [] \<Rightarrow> [] | xs \<Rightarrow> last xs)"

definition suffix_of :: "pystr \<Rightarrow> pystr" where
  "suffix_of name =
     (let tail = rev (takeWhile (\<lambda>c. c \<noteq> 46) (rev name)); stem = take (length name - length tail - 1) name in
      if 46 \<in> set name \<and> (\<exists>c \<in> set stem. c \<noteq> 46) then 46 # tail else [])"

fun join_path :: "pystr list \<Rightarrow> pystr" where
  "join_path [] = []"
| "join_path [x] = x"
| "join_path (x # xs) = x @ [47] @ join_path xs"

definition forbidden :: "gl_env \<Rightarrow> pystr \<Rightarrow> bool" where
  "forbidden env path \<longleftrightarrow>
     (let file_name = gl_lower env (posix_name path) in
      ((file_name = lit ''.env'' \<or> starts_with (lit ''.env.'') file_name) \<and> file_name \<noteq> lit ''.env.example'') \<or>
      gl_lower env (suffix_of (posix_name path)) \<in> {lit ''.pem'', lit ''.key'', lit ''.pfx'', lit ''.p12''} \<or>
      file_name \<in> {lit ''.gitleaksignore'', lit ''id_rsa'', lit ''id_ed25519'', lit ''credentials.json''})"

definition decoded :: "bytes \<Rightarrow> gate_error + pystr" where
  "decoded b = (case decode_utf8 b of None \<Rightarrow> Inl OtherError | Some t \<Rightarrow> Inr t)"

text \<open>\<open>entry.split(b"\t", 1)\<close> and \<open>metadata.split()\<close>: anything but two and three fields cannot be unpacked.\<close>

definition split_tab :: "bytes \<Rightarrow> (bytes \<times> bytes) option" where
  "split_tab entry = (if 9 \<in> set entry then Some (takeWhile (\<lambda>c. c \<noteq> 9) entry, tl (dropWhile (\<lambda>c. c \<noteq> 9) entry)) else None)"

definition words :: "bytes \<Rightarrow> bytes list" where
  "words b = filter (\<lambda>x. x \<noteq> []) (split_on 32 (map (\<lambda>c. if ascii_space c then 32 else c) b))"

definition parse_entry :: "bytes \<Rightarrow> gate_error + bytes \<times> bytes \<times> pystr" where
  "parse_entry entry =
     (case split_tab entry of
        None \<Rightarrow> Inl OtherError
      | Some (metadata, raw_name) \<Rightarrow>
          (case words metadata of
             [mode, object_id, stage] \<Rightarrow> and_then (decoded raw_name) (\<lambda>file_name. Inr (mode, stage, file_name))
           | _ \<Rightarrow> Inl OtherError))"

definition tracked_name_ok :: "gl_env \<Rightarrow> pystr \<Rightarrow> bool" where
  "tracked_name_ok env file_name \<longleftrightarrow> take 1 file_name \<noteq> [47] \<and> lit ''..'' \<notin> set (posix_parts file_name) \<and> \<not> forbidden env file_name"

definition tracked_path :: "gl_env \<Rightarrow> pystr \<Rightarrow> pystr" where
  "tracked_path env file_name = child_path (gl_root env) (join_path (posix_parts file_name))"

definition check_entry :: "gl_env \<Rightarrow> bytes \<Rightarrow> pystr gate" where
  "check_entry env entry =
     pseq (plift (parse_entry entry)) (\<lambda>(mode, stage, file_name).
     pseq (demand (mode \<in> {lit ''100644'', lit ''100755''} \<and> stage = lit ''0'')) (\<lambda>_.
     pseq (demand (tracked_name_ok env file_name)) (\<lambda>_.
     pseq (resolve_path env (tracked_path env file_name)) (\<lambda>target.
     pseq (is_file target) (\<lambda>regular.
     pseq (demand (relative_to target (gl_root env) \<and> regular)) (\<lambda>_.
     pret target))))))"

primrec map_steps :: "('a \<Rightarrow> 'b gate) \<Rightarrow> 'a list \<Rightarrow> 'b list gate" where
  "map_steps f [] = pret []"
| "map_steps f (x # xs) = pseq (f x) (\<lambda>y. pseq (map_steps f xs) (\<lambda>ys. pret (y # ys)))"

definition strip_line_ends :: "bytes \<Rightarrow> bytes" where
  "strip_line_ends s = (let end = (\<lambda>c. c = 13 \<or> c = 10) in rev (dropWhile end (rev (dropWhile end s))))"

definition historical_name_ok :: "gl_env \<Rightarrow> bytes \<Rightarrow> gate_error + unit" where
  "historical_name_ok env raw_name =
     (let historical_name = strip_line_ends raw_name in
      if historical_name = [] then Inr ()
      else and_then (decoded historical_name) (\<lambda>t. ensure (\<not> forbidden env t) failed))"

text \<open>The snapshot lives in a fresh directory that is removed whatever happens inside.\<close>

definition with_temporary :: "gl_env \<Rightarrow> pystr \<Rightarrow> (pystr \<Rightarrow> 'a gate) \<Rightarrow> 'a gate" where
  "with_temporary env output body d =
     (case gl_temporary env output d of
        None \<Rightarrow> (Inl OtherError, d)
      | Some temporary \<Rightarrow>
          (case body temporary d of
             (r, d') \<Rightarrow>
               (if gl_cleanup env then r else Inl OtherError, \<lambda>p. if relative_to p temporary then None else d' p)))"

definition copy_tracked :: "gl_env \<Rightarrow> pystr \<Rightarrow> pystr \<Rightarrow> unit gate" where
  "copy_tracked env snapshot source =
     (let destination = child_path snapshot (relative_part source (gl_root env)) in
      pseq (make_directory env (hd (parents destination))) (\<lambda>_.
      pseq (read_bytes source) (\<lambda>b. put_file env destination b)))"

definition ls_files :: "pystr list" where
  "ls_files = map lit [''ls-files'', ''--stage'', ''-z'']"

definition log_names :: "pystr list" where
  "log_names = map lit [''log'', ''--all'', ''--full-history'', ''-m'', ''--format='', ''--name-only'', ''-z'']"

definition scan_source :: "gl_env \<Rightarrow> pystr \<Rightarrow> pystr \<Rightarrow> (nat \<times> nat) gate" where
  "scan_source env binary output =
     pseq (git env (map lit [''rev-parse'', ''--is-shallow-repository''])) (\<lambda>shallow.
     pseq (demand (strip_bytes shallow = lit ''false'')) (\<lambda>_.
     pseq (git env ls_files) (\<lambda>listing.
     pseq (map_steps (check_entry env) (filter (\<lambda>e. e \<noteq> []) (split_on 0 listing))) (\<lambda>files.
     pseq (demand (files \<noteq> [])) (\<lambda>_.
     pseq (git env log_names) (\<lambda>names.
     pseq (plift (map_ok (historical_name_ok env) (split_on 0 names))) (\<lambda>_.
     pseq (scan_with env binary [lit ''git'', gl_root env, lit ''--log-opts=--all --full-history -m'']) (\<lambda>in_history.
     pseq (with_temporary env output (\<lambda>snapshot.
         pseq (map_steps (copy_tracked env snapshot) files) (\<lambda>_. scan_with env binary [lit ''dir'', snapshot]))) (\<lambda>in_tree.
     pret (in_history + in_tree, length files))))))))))"

section \<open>Collected artifacts\<close>

definition approved_roots :: "gl_env \<Rightarrow> gate_error + pystr list" where
  "approved_roots env =
     and_then (plain_path env (path_join (gl_root env) ''_logs/security-artifacts'')) (\<lambda>first.
     case map_of (gl_environ env) (lit ''RUNNER_TEMP'') of
       None \<Rightarrow> Inr [first]
     | Some temp \<Rightarrow>
         if temp = [] then Inr [first]
         else and_then (plain_path env (path_join temp ''security-logs'')) (\<lambda>second. Inr [first, second]))"

text \<open>A directory among the entries is skipped; the answer for a file is its path.\<close>

definition check_artifact :: "gl_env \<Rightarrow> pystr \<Rightarrow> pystr option gate" where
  "check_artifact env entry =
     pseq (resolve_path env entry) (\<lambda>checked.
     if gl_is_dir env checked then pret None
     else
       pseq (is_file checked) (\<lambda>regular.
       pseq (demand (regular \<and> gl_links env checked = 1)) (\<lambda>_.
       pseq (read_bytes checked) (\<lambda>b.
       pseq (demand (0 \<notin> set b)) (\<lambda>_.
       pseq (plift (decoded b)) (\<lambda>_.
       pseq (demand (\<not> forbidden env (posix_name checked))) (\<lambda>_.
       pret (Some checked))))))))"

definition nonempty_file :: "pystr \<Rightarrow> bool gate" where
  "nonempty_file path = pseq (read_bytes path) (\<lambda>b. pret (b \<noteq> []))"

definition list_entries :: "gl_env \<Rightarrow> pystr \<Rightarrow> pystr list gate" where
  "list_entries env target d = (Inr (gl_entries env target d), d)"

definition scan_artifacts :: "gl_env \<Rightarrow> pystr \<Rightarrow> pystr \<Rightarrow> pystr \<Rightarrow> (nat \<times> nat) gate" where
  "scan_artifacts env binary output scan_path =
     pseq (resolve_path env scan_path) (\<lambda>target.
     pseq (plift (approved_roots env)) (\<lambda>approved.
     pseq (demand (gl_is_dir env target \<and> list_ex (relative_to target) approved \<and>
         \<not> relative_to output target \<and> \<not> relative_to target output)) (\<lambda>_.
     pseq (list_entries env target) (\<lambda>entries.
     pseq (map_steps (check_artifact env) entries) (\<lambda>checked.
     let files = List.map_filter id checked in
     pseq (map_steps nonempty_file files) (\<lambda>nonempty.
     pseq (demand (files \<noteq> [] \<and> True \<in> set nonempty)) (\<lambda>_.
     pseq (scan_with env binary [lit ''dir'', target]) (\<lambda>findings.
     pret (findings, length files)))))))))"

section \<open>The gate\<close>

definition GL_LOCKS :: "string list" where
  "GL_LOCKS = [''apps/api/uv.lock'', ''apps/web/package-lock.json'']"

definition gl_lock_hashes :: "gl_env \<Rightarrow> bytes list gate" where
  "gl_lock_hashes env = map_steps (\<lambda>path. pseq (read_bytes (path_join (gl_root env) path)) (\<lambda>b. pret (sha256 b))) GL_LOCKS"

text \<open>The command line as \<open>argparse\<close> delivers it; \<open>None\<close> is a refused one.\<close>

datatype gl_mode = SourceMode | ArtifactsMode

record gl_arguments =
  arg_mode :: gl_mode
  arg_output :: pystr
  arg_scan :: "pystr option"

definition gl_modes :: "gl_env \<Rightarrow> gl_arguments \<Rightarrow> pystr \<Rightarrow> pystr \<Rightarrow> (nat \<times> nat) gate" where
  "gl_modes env arguments binary output =
     (case (arg_mode arguments, arg_scan arguments) of
        (ArtifactsMode, Some scan_path) \<Rightarrow> scan_artifacts env binary output scan_path
      | _ \<Rightarrow> scan_source env binary output)"

definition gl_work :: "gl_env \<Rightarrow> gl_arguments option \<Rightarrow> (nat \<times> nat) gate" where
  "gl_work env parsed =
     (case parsed of
        None \<Rightarrow> pfail failed
      | Some arguments \<Rightarrow>
          pseq (demand ((arg_mode arguments = ArtifactsMode) = (arg_scan arguments \<noteq> None))) (\<lambda>_.
          pseq (gl_lock_hashes env) (\<lambda>before.
          pseq (prepare_scanner env (arg_output arguments)) (\<lambda>(binary, output).
          pseq (gl_modes env arguments binary output) (\<lambda>outcome.
          pseq (gl_lock_hashes env) (\<lambda>after.
          pseq (demand (after = before)) (\<lambda>_.
          pret outcome)))))))"

definition gl_summary :: "pystr \<Rightarrow> (pystr \<times> pyval) list" where
  "gl_summary result = [(lit ''tool'', VStr (lit ''gitleaks'')), (lit ''version'', VStr GL_VERSION), (lit ''result'', VStr result)]"

definition gl_report :: "gate_error + nat \<times> nat \<Rightarrow> (pystr \<times> pyval) list" where
  "gl_report outcome =
     (case outcome of
        Inl _ \<Rightarrow> gl_summary (lit ''FAIL'')
      | Inr (findings, files) \<Rightarrow>
          gl_summary (lit (if findings = 0 then ''PASS'' else ''FAIL'')) @
          [(lit ''findings'', VInt (int findings)), (lit ''scanned_files'', VInt (int files)), (lit ''lockfiles_unchanged'', VBool True)])"

text \<open>\<open>main\<close>: its exit code and the line it prints.\<close>

definition gitleaks_main :: "gl_env \<Rightarrow> gl_arguments option \<Rightarrow> disk \<Rightarrow> (int \<times> pystr) \<times> disk" where
  "gitleaks_main env parsed d =
     (let (outcome, d') = gl_work env parsed d; summary = gl_report outcome in
      ((if map_of summary (lit ''result'') = Some (VStr (lit ''PASS'')) then 0 else 1, json_dumps (VDict summary)), d'))"

end
