(* ===== verification/SecurityCommand.thy ===== *)
theory SecurityCommand
  imports GitleaksGate
begin

text \<open>
  \<open>.github/ci/security-command.py\<close>: a command run with its whole process tree owned and bounded, the projection of its
  output to counters, and the gate that decides on exit code, scanned output and counters.
\<close>

section \<open>Processes\<close>

text \<open>
  What is asked of the operating system is a log of calls with replies, and every reply depends on the log so far. A
  kernel call returns a number, 0 being its failure; the calls of \<open>subprocess\<close> and \<open>os\<close> may raise, and waiting may
  expire. \<open>Poll\<close> replies \<open>Expired\<close> while the process runs, \<open>SignalGroup\<close> where there is no such group.
\<close>

datatype os_call =
    LoadKernel
  | CreateJob
  | SetLimits nat
  | OpenProcess nat
  | AssignProcess nat nat
  | CloseHandle nat
  | Snapshot
  | FirstThread nat
  | NextThread nat
  | OpenThread nat
  | ResumeThread nat
  | TerminateJob nat
  | StartProcess "pystr list" bool
  | Communicate int
  | SignalGroup nat nat
  | Poll nat
  | KillChild nat
  | WaitChild nat int

datatype reply = Raised | Expired | Done nat

type_synonym os_log = "(os_call \<times> reply) list"

record sc_os =
  os_windows :: bool
  os_reply :: "os_log \<Rightarrow> os_call \<Rightarrow> reply"
  os_threads :: "os_log \<Rightarrow> (nat \<times> nat) list"
  os_output :: "os_log \<Rightarrow> bytes \<times> bytes"
  os_returncode :: "os_log \<Rightarrow> int"
  os_effect :: "os_log \<Rightarrow> disk \<Rightarrow> disk"

text \<open>The log, the variables \<open>job\<close> and \<open>process\<close> of \<open>execute_command\<close>, and the files.\<close>

record sc_state =
  sc_log :: os_log
  sc_job :: "nat option"
  sc_process :: "nat option"
  sc_disk :: disk

datatype command_error = TimedOut | Broken

type_synonym 'a command = "(command_error, sc_state, 'a) steps"

definition pfinally :: "('e, 's, 'a) steps \<Rightarrow> ('e, 's, 'b) steps \<Rightarrow> ('e, 's, 'a) steps" where
  "pfinally p f s =
     (case p s of
        (r, s1) \<Rightarrow> (case f s1 of (Inl e, s2) \<Rightarrow> (Inl e, s2) | (Inr _, s2) \<Rightarrow> (r, s2)))"

definition ask :: "sc_os \<Rightarrow> os_call \<Rightarrow> reply command" where
  "ask os c s = (let r = os_reply os (sc_log s) c in (Inr r, s\<lparr>sc_log := sc_log s @ [(c, r)]\<rparr>))"

definition number :: "reply \<Rightarrow> nat" where
  "number r = (case r of Done n \<Rightarrow> n | _ \<Rightarrow> 0)"

definition kernel :: "sc_os \<Rightarrow> os_call \<Rightarrow> nat command" where
  "kernel os c = pseq (ask os c) (\<lambda>r. pret (number r))"

definition insist :: "bool \<Rightarrow> unit command" where
  "insist b = plift (ensure b Broken)"

definition closing :: "sc_os \<Rightarrow> nat \<Rightarrow> 'a command \<Rightarrow> 'a command" where
  "closing os h m = pfinally m (kernel os (CloseHandle h))"

definition set_job :: "nat option \<Rightarrow> unit command" where
  "set_job j s = (Inr (), s\<lparr>sc_job := j\<rparr>)"

section \<open>The job object\<close>

definition windows_job :: "sc_os \<Rightarrow> unit command" where
  "windows_job os =
     pseq (kernel os LoadKernel) (\<lambda>loaded.
     pseq (insist (loaded \<noteq> 0)) (\<lambda>_.
     pseq (kernel os CreateJob) (\<lambda>h.
     pseq (insist (h \<noteq> 0)) (\<lambda>_.
     pseq (kernel os (SetLimits h)) (\<lambda>limited.
     if limited = 0 then pseq (kernel os (CloseHandle h)) (\<lambda>_. pfail Broken)
     else set_job (Some h))))))"

definition resume_thread :: "sc_os \<Rightarrow> nat \<Rightarrow> unit command" where
  "resume_thread os thread_id =
     pseq (kernel os (OpenThread thread_id)) (\<lambda>thread.
     pseq (insist (thread \<noteq> 0)) (\<lambda>_.
     closing os thread (pseq (kernel os (ResumeThread thread)) (\<lambda>count. insist (count = 1)))))"

text \<open>The walk over the threads of a snapshot: the first one of the process decides.\<close>

primrec walk_threads :: "sc_os \<Rightarrow> nat \<Rightarrow> nat \<Rightarrow> (nat \<times> nat) list \<Rightarrow> unit command" where
  "walk_threads os snapshot pid [] = pfail Broken"
| "walk_threads os snapshot pid (entry # entries) =
     (if fst entry = pid then resume_thread os (snd entry)
      else pseq (kernel os (NextThread snapshot)) (\<lambda>_. walk_threads os snapshot pid entries))"

definition threads_of :: "sc_os \<Rightarrow> (nat \<times> nat) list command" where
  "threads_of os s = (Inr (os_threads os (sc_log s)), s)"

definition INVALID_HANDLE :: nat where
  "INVALID_HANDLE = 2 ^ 64 - 1"

definition find_and_resume :: "sc_os \<Rightarrow> nat \<Rightarrow> unit command" where
  "find_and_resume os pid =
     pseq (kernel os Snapshot) (\<lambda>snapshot.
     pseq (insist (snapshot \<noteq> INVALID_HANDLE)) (\<lambda>_.
     closing os snapshot
       (pseq (threads_of os) (\<lambda>entries.
        pseq (kernel os (FirstThread snapshot)) (\<lambda>_.
        walk_threads os snapshot pid entries)))))"

definition assign_and_resume :: "sc_os \<Rightarrow> nat \<Rightarrow> nat \<Rightarrow> unit command" where
  "assign_and_resume os job pid =
     pseq (kernel os (OpenProcess pid)) (\<lambda>h.
     pseq (insist (h \<noteq> 0)) (\<lambda>_.
     pseq (closing os h (pseq (kernel os (AssignProcess job h)) (\<lambda>assigned. insist (assigned \<noteq> 0)))) (\<lambda>_.
     find_and_resume os pid)))"

definition terminate_job :: "sc_os \<Rightarrow> nat \<Rightarrow> unit command" where
  "terminate_job os job = pseq (kernel os (TerminateJob job)) (\<lambda>ended. insist (ended \<noteq> 0))"

definition close_job :: "sc_os \<Rightarrow> nat \<Rightarrow> unit command" where
  "close_job os job =
     pfinally (terminate_job os job) (pseq (kernel os (CloseHandle job)) (\<lambda>_. set_job None))"

section \<open>Running a command\<close>

definition signal_owned_group :: "sc_os \<Rightarrow> nat \<Rightarrow> nat \<Rightarrow> unit command" where
  "signal_owned_group os pid signum =
     (if os_windows os then pfail Broken
      else pseq (ask os (SignalGroup pid signum)) (\<lambda>r. insist (r \<noteq> Raised)))"

definition start_process :: "sc_os \<Rightarrow> pystr list \<Rightarrow> nat command" where
  "start_process os command s =
     (case ask os (StartProcess command (os_windows os)) s of
        (Inr (Done pid), s') \<Rightarrow> (Inr pid, s'\<lparr>sc_process := Some pid\<rparr>)
      | (_, s') \<Rightarrow> (Inl Broken, s'))"

datatype talk = Ended int bytes bytes | TalkExpired

text \<open>\<open>process.communicate(timeout=...)\<close>: the command works meanwhile. The return code is read when it has ended.\<close>

definition communicate :: "sc_os \<Rightarrow> int \<Rightarrow> talk command" where
  "communicate os timeout s =
     (case ask os (Communicate timeout) s of
        (Inr r, s') \<Rightarrow>
          (let log = sc_log s'; s'' = s'\<lparr>sc_disk := os_effect os log (sc_disk s')\<rparr> in
           case r of
             Raised \<Rightarrow> (Inl Broken, s'')
           | Expired \<Rightarrow> (Inr TalkExpired, s'')
           | Done _ \<Rightarrow> (Inr (Ended (os_returncode os log) (fst (os_output os log)) (snd (os_output os log))), s''))
      | (Inl e, s') \<Rightarrow> (Inl e, s'))"

definition stop_tree :: "sc_os \<Rightarrow> nat \<Rightarrow> nat \<Rightarrow> unit command" where
  "stop_tree os pid signum s =
     (case sc_job s of Some job \<Rightarrow> terminate_job os job s | None \<Rightarrow> signal_owned_group os pid signum s)"

definition after_timeout :: "sc_os \<Rightarrow> nat \<Rightarrow> (int \<times> bytes \<times> bytes) command" where
  "after_timeout os pid =
     pseq (stop_tree os pid 15) (\<lambda>_.
     pseq (communicate os 3) (\<lambda>t.
     pseq (if t = TalkExpired
       then pseq (stop_tree os pid 9) (\<lambda>_. pseq (communicate os 3) (\<lambda>t. if t = TalkExpired then pfail TimedOut else pret ()))
       else pret ()) (\<lambda>_.
     pfail TimedOut)))"

definition run_owned :: "sc_os \<Rightarrow> pystr list \<Rightarrow> int \<Rightarrow> (int \<times> bytes \<times> bytes) command" where
  "run_owned os command timeout =
     pseq (if os_windows os then windows_job os else pret ()) (\<lambda>_.
     pseq (start_process os command) (\<lambda>pid.
     pseq (\<lambda>s. case sc_job s of Some job \<Rightarrow> assign_and_resume os job pid s | None \<Rightarrow> pret () s) (\<lambda>_.
     pseq (communicate os timeout) (\<lambda>t.
     case t of
       Ended code out err \<Rightarrow> pret (code, out, err)
     | TalkExpired \<Rightarrow> after_timeout os pid))))"

definition release_tree :: "sc_os \<Rightarrow> unit command" where
  "release_tree os s =
     (case (sc_job s, sc_process s) of
        (Some job, _) \<Rightarrow> close_job os job s
      | (None, Some pid) \<Rightarrow> signal_owned_group os pid 9 s
      | (None, None) \<Rightarrow> pret () s)"

definition reap_child :: "sc_os \<Rightarrow> unit command" where
  "reap_child os s =
     (case sc_process s of
        None \<Rightarrow> pret () s
      | Some pid \<Rightarrow>
          pseq (ask os (Poll pid)) (\<lambda>r.
          pseq (insist (r \<noteq> Raised)) (\<lambda>_.
          pseq (if r = Expired then pseq (ask os (KillChild pid)) (\<lambda>k. insist (k \<noteq> Raised)) else pret ()) (\<lambda>_.
          pseq (ask os (WaitChild pid 3)) (\<lambda>w. if w = Expired then pfail TimedOut else insist (w \<noteq> Raised))))) s)"

definition execute_command :: "sc_os \<Rightarrow> pystr list \<Rightarrow> int \<Rightarrow> (int \<times> bytes \<times> bytes) command" where
  "execute_command os command timeout s =
     pfinally (run_owned os command timeout) (pfinally (release_tree os) (reap_child os))
       (s\<lparr>sc_job := None, sc_process := None\<rparr>)"

section \<open>Counters\<close>

text \<open>
  \<open>bytes.decode("utf-8", errors="replace")\<close>: what may follow a lead byte, and one replacement character for the longest
  start of a sequence that cannot be completed.
\<close>

definition follow_ranges :: "nat \<Rightarrow> (nat \<times> nat) list" where
  "follow_ranges a =
     (if 194 \<le> a \<and> a < 224 then [(128, 191)]
      else if a = 224 then [(160, 191), (128, 191)]
      else if a = 237 then [(128, 159), (128, 191)]
      else if 225 \<le> a \<and> a < 240 then [(128, 191), (128, 191)]
      else if a = 240 then [(144, 191), (128, 191), (128, 191)]
      else if 241 \<le> a \<and> a < 244 then [(128, 191), (128, 191), (128, 191)]
      else if a = 244 then [(128, 143), (128, 191), (128, 191)]
      else [])"

fun matched :: "(nat \<times> nat) list \<Rightarrow> bytes \<Rightarrow> nat" where
  "matched ((lo, hi) # ranges) (b # r) = (if lo \<le> b \<and> b \<le> hi then Suc (matched ranges r) else 0)"
| "matched _ _ = 0"

definition lead_bits :: "nat \<Rightarrow> nat \<Rightarrow> nat" where
  "lead_bits n a = (if n = 1 then a - 192 else if n = 2 then a - 224 else a - 240)"

definition code_point :: "nat \<Rightarrow> bytes \<Rightarrow> nat" where
  "code_point a tail = foldl (\<lambda>v b. v * 64 + (b - 128)) (lead_bits (length tail) a) tail"

function decode_replacing :: "bytes \<Rightarrow> pystr" where
  "decode_replacing [] = []"
| "decode_replacing (a # r) =
     (let ranges = follow_ranges a; n = matched ranges r in
      (if a < 128 then a
       else if ranges \<noteq> [] \<and> n = length ranges then code_point a (take n r)
       else 65533) # decode_replacing (drop n r))"
  by pat_completeness auto

termination
  by (relation "measure length") (simp_all add: Let_def less_Suc_eq_le)

text \<open>\<open>re.sub(r"\x1b\[[0-9;]*[A-Za-z]", "", text)\<close>\<close>

definition ansi_end :: "pystr \<Rightarrow> pystr option" where
  "ansi_end s =
     (if take 1 s = [91] then
        (case dropWhile (\<lambda>c. is_digit c \<or> c = 59) (drop 1 s) of
           [] \<Rightarrow> None
         | c # r \<Rightarrow> if (65 \<le> c \<and> c \<le> 90) \<or> (97 \<le> c \<and> c \<le> 122) then Some r else None)
      else None)"

lemma ansi_end_shorter: "ansi_end s = Some r \<Longrightarrow> length r < length s"
  using length_dropWhile_le [of "\<lambda>c. is_digit c \<or> c = 59" "drop 1 s"]
  by (cases s) (auto simp: ansi_end_def split: if_splits list.splits)

function strip_ansi :: "pystr \<Rightarrow> pystr" where
  "strip_ansi [] = []"
| "strip_ansi (c # cs) =
     (case (if c = 27 then ansi_end cs else None) of
        Some r \<Rightarrow> strip_ansi r
      | None \<Rightarrow> c # strip_ansi cs)"
  by pat_completeness auto

termination
  by (relation "measure length") (auto dest: ansi_end_shorter split: if_splits)

text \<open>
  The three counter patterns are deterministic: white space, digits and the other characters of a pattern are disjoint,
  so a greedy run is the only one that can match. \<open>word\<close> is the class \<open>\w\<close>, which \<open>\b\<close> looks at.
\<close>

definition boundary_after :: "(nat \<Rightarrow> bool) \<Rightarrow> pystr \<Rightarrow> bool" where
  "boundary_after word s = (case s of [] \<Rightarrow> True | c # _ \<Rightarrow> \<not> word c)"

definition after_literal :: "string \<Rightarrow> pystr \<Rightarrow> pystr option" where
  "after_literal l s = (if starts_with (lit l) s then Some (drop (length l) s) else None)"

definition passed_prefix :: "pystr \<Rightarrow> pystr option" where
  "passed_prefix s =
     (let r = dropWhile is_space s in Some (if take 1 r = [61] then dropWhile is_space (dropWhile (\<lambda>c. c = 61) r) else r))"

definition titled_prefix :: "string \<Rightarrow> pystr \<Rightarrow> pystr option" where
  "titled_prefix title s =
     (case after_literal title (dropWhile is_space s) of
        Some (c # r) \<Rightarrow> if is_space c then Some (dropWhile is_space r) else None
      | _ \<Rightarrow> None)"

definition counted :: "(nat \<Rightarrow> bool) \<Rightarrow> (pystr \<Rightarrow> pystr option) \<Rightarrow> pystr \<Rightarrow> (pystr \<times> pystr) option" where
  "counted word prefix s =
     (case prefix s of
        None \<Rightarrow> None
      | Some r \<Rightarrow>
          (let digits = takeWhile (\<lambda>c. in_class c unicode_digits) r in
           case after_literal '' passed'' (drop (length digits) r) of
             None \<Rightarrow> None
           | Some rest \<Rightarrow> if digits \<noteq> [] \<and> boundary_after word rest then Some (digits, rest) else None))"

text \<open>\<open>re.findall\<close> with \<open>(?:^|\n)\<close> in front; the bound is the length of the text, as every step consumes a character.\<close>

fun find_counts :: "nat \<Rightarrow> (nat \<Rightarrow> bool) \<Rightarrow> (pystr \<Rightarrow> pystr option) \<Rightarrow> bool \<Rightarrow> pystr \<Rightarrow> pystr list" where
  "find_counts 0 word prefix at_start s = []"
| "find_counts (Suc n) word prefix at_start s =
     (case (if at_start then counted word prefix s else None) of
        Some (digits, rest) \<Rightarrow> digits # find_counts n word prefix False rest
      | None \<Rightarrow>
          (case s of
             [] \<Rightarrow> []
           | c # cs \<Rightarrow>
               (case (if c = 10 then counted word prefix cs else None) of
                  Some (digits, rest) \<Rightarrow> digits # find_counts n word prefix False rest
                | None \<Rightarrow> find_counts n word prefix False cs)))"

definition find_all :: "(nat \<Rightarrow> bool) \<Rightarrow> (pystr \<Rightarrow> pystr option) \<Rightarrow> pystr \<Rightarrow> pystr list" where
  "find_all word prefix s = find_counts (Suc (length s)) word prefix True s"

text \<open>\<open>int(digits)\<close>: Unicode digits count, and more than 4300 of them are refused.\<close>

definition digit_value :: "nat \<Rightarrow> nat" where
  "digit_value c = (case find (\<lambda>(a, b). a \<le> c \<and> c \<le> b) unicode_digits of Some (a, b) \<Rightarrow> (c - a) mod 10 | None \<Rightarrow> 0)"

definition int_of_digits :: "pystr \<Rightarrow> command_error + nat" where
  "int_of_digits ds = (if 4300 < length ds then Inl Broken else Inr (foldl (\<lambda>v c. v * 10 + digit_value c) 0 ds))"

definition COUNTERS :: "(string \<times> (pystr \<Rightarrow> pystr option)) list" where
  "COUNTERS = [(''passed'', passed_prefix), (''frontend_tests'', titled_prefix ''Tests''), (''frontend_files'', titled_prefix ''Test Files'')]"

fun count_all :: "(nat \<Rightarrow> bool) \<Rightarrow> pystr \<Rightarrow> (string \<times> (pystr \<Rightarrow> pystr option)) list \<Rightarrow> command_error + (pystr \<times> nat) list" where
  "count_all word t [] = Inr []"
| "count_all word t ((key, prefix) # rest) =
     (case find_all word prefix t of
        [] \<Rightarrow> count_all word t rest
      | xs \<Rightarrow> and_then (int_of_digits (last xs)) (\<lambda>n. and_then (count_all word t rest) (\<lambda>cs. Inr ((lit key, n) # cs))))"

definition INCOMPLETE_WORDS :: "string list" where
  "INCOMPLETE_WORDS = ['' skipped'', '' xfailed'', '' xpassed'', '' todo'', '' pending'', '' failed'', '' errors'', '' error'']"

text \<open>\<open>\b[1-9]\d* (?:skipped|...)\b\<close> at one place of a line, \<open>inside\<close> a word or not, and anywhere in it.\<close>

definition incomplete_here :: "(nat \<Rightarrow> bool) \<Rightarrow> pystr \<Rightarrow> bool" where
  "incomplete_here word s =
     (case s of
        [] \<Rightarrow> False
      | c # cs \<Rightarrow> 49 \<le> c \<and> c \<le> 57 \<and>
          list_ex (\<lambda>w. case after_literal w (dropWhile (\<lambda>c. in_class c unicode_digits) cs) of
             Some rest \<Rightarrow> boundary_after word rest | None \<Rightarrow> False) INCOMPLETE_WORDS)"

fun incomplete_line :: "(nat \<Rightarrow> bool) \<Rightarrow> bool \<Rightarrow> pystr \<Rightarrow> bool" where
  "incomplete_line word inside [] = False"
| "incomplete_line word inside (c # cs) = ((\<not> inside \<and> incomplete_here word (c # cs)) \<or> incomplete_line word (word c) cs)"

definition counters :: "(nat \<Rightarrow> bool) \<Rightarrow> bytes \<Rightarrow> command_error + (pystr \<times> nat) list \<times> bool" where
  "counters word payload =
     (let t = strip_ansi (decode_replacing payload) in
      and_then (count_all word t COUNTERS) (\<lambda>counts. Inr (counts, list_ex (incomplete_line word False) (splitlines t))))"

section \<open>The gate\<close>

definition MAX_OUTPUT_BYTES :: nat where
  "MAX_OUTPUT_BYTES = 16 * 1024 * 1024"

definition GATE_NAMES :: "pystr list" where
  "GATE_NAMES = map lit
     [''security-tool-lint'', ''security-tool-format'', ''security-tool-types'', ''pytest'', ''ruff'', ''ruff-format'', ''mypy'',
      ''migration-upgrade'', ''migration-downgrade'', ''migration-reupgrade'', ''migration-check'', ''migration-head'',
      ''backend-tests'', ''database-cleanup'', ''browser-migration'', ''web-lint'', ''web-typecheck'', ''prettier'', ''web-test'',
      ''browser-tests'', ''web-build'']"

text \<open>Required counters by gate, and the head that \<open>migration-head\<close> must print.\<close>

definition required_counts :: "(pystr \<times> pystr list) list" where
  "required_counts =
     [(lit ''pytest'', [lit ''passed'']), (lit ''backend-tests'', [lit ''passed'']), (lit ''browser-tests'', [lit ''passed'']),
      (lit ''web-test'', [lit ''frontend_tests'', lit ''frontend_files''])]"

definition MIGRATION_HEAD :: bytes where
  "MIGRATION_HEAD = lit ''0017_foundation_fk_indexes (head)''"

record sc_env = sc_os +
  sc_word :: "nat \<Rightarrow> bool"
  sc_is_link :: "pystr \<Rightarrow> disk \<Rightarrow> bool"
  sc_mkdir :: "pystr \<Rightarrow> bool"
  sc_writable :: "pystr \<Rightarrow> bool"

text \<open>\<open>scan_output\<close> loads the scanner gate from the same directory; it is an argument of the gate, instantiated below.\<close>

type_synonym scanner = "bytes \<Rightarrow> pystr \<Rightarrow> bool command"

definition scan_output :: "gl_env \<Rightarrow> bool \<Rightarrow> scanner" where
  "scan_output gl loadable payload tool_dir s =
     (if loadable then (case scan_stdin gl payload tool_dir (sc_disk s) of (clean, d) \<Rightarrow> (Inr clean, s\<lparr>sc_disk := d\<rparr>))
      else (Inr False, s))"

definition parent_path :: "pystr \<Rightarrow> pystr" where
  "parent_path p =
     (if 47 \<in> set p then (case rev (tl (dropWhile (\<lambda>c. c \<noteq> 47) (rev p))) of [] \<Rightarrow> [47] | q \<Rightarrow> q) else [46])"

definition fail_report :: "pystr \<Rightarrow> string \<Rightarrow> (pystr \<times> pyval) list" where
  "fail_report gate reason = [(lit ''gate'', VStr gate), (lit ''result'', VStr (lit ''FAIL'')), (lit ''reason'', VStr (lit reason))]"

definition counts_value :: "(pystr \<times> nat) list \<Rightarrow> pyval" where
  "counts_value counts = VDict (map (\<lambda>(k, n). (k, VInt (int n))) counts)"

definition pass_report :: "pystr \<Rightarrow> (pystr \<times> nat) list \<Rightarrow> (pystr \<times> pyval) list" where
  "pass_report gate counts = [(lit ''gate'', VStr gate), (lit ''result'', VStr (lit ''PASS'')), (lit ''counts'', counts_value counts)]"

definition positive_counts :: "pystr \<Rightarrow> (pystr \<times> nat) list \<Rightarrow> bool" where
  "positive_counts gate counts \<longleftrightarrow>
     (case map_of required_counts gate of
        None \<Rightarrow> True
      | Some names \<Rightarrow> list_all (\<lambda>k. case map_of counts k of Some n \<Rightarrow> 0 < n | None \<Rightarrow> False) names)"

definition judge :: "sc_env \<Rightarrow> pystr \<Rightarrow> int \<Rightarrow> bytes \<Rightarrow> bytes \<Rightarrow> command_error + (pystr \<times> pyval) list" where
  "judge env gate code out payload =
     and_then (counters (sc_word env) payload) (\<lambda>(counts, incomplete).
     if incomplete \<or> \<not> positive_counts gate counts \<or> (gate = lit ''migration-head'' \<and> strip_bytes out \<noteq> MIGRATION_HEAD)
     then Inr (fail_report gate ''incomplete_test_gate'' @ [(lit ''counts'', counts_value counts)])
     else if code = 0 then Inr (pass_report gate counts)
     else Inr (fail_report gate ''command_failed'' @ [(lit ''counts'', counts_value counts)]))"

definition gate_body :: "sc_env \<Rightarrow> scanner \<Rightarrow> pystr \<Rightarrow> pystr list \<Rightarrow> pystr \<Rightarrow> int \<Rightarrow> (pystr \<times> pyval) list command" where
  "gate_body env scan gate command log_dir timeout =
     pseq (insist (gate \<in> set GATE_NAMES \<and> command \<noteq> [] \<and> 1 \<le> timeout \<and> timeout \<le> 1200)) (\<lambda>_.
     pseq (\<lambda>s. insist (\<not> sc_is_link env log_dir (sc_disk s)) s) (\<lambda>_.
     pseq (insist (sc_mkdir env log_dir)) (\<lambda>_.
     pseq (execute_command (sc_os.truncate env) command timeout) (\<lambda>(code, out, err).
     let payload = out @ [10] @ err in
     if MAX_OUTPUT_BYTES < length payload then pret (fail_report gate ''output_limit'')
     else
       pseq (scan payload (child_path (parent_path log_dir) (lit ''security-scanner-cache''))) (\<lambda>clean.
       if \<not> clean then pret (fail_report gate ''output_security_gate_failed'')
       else plift (judge env gate code out payload))))))"

definition is_pass :: "(pystr \<times> pyval) list \<Rightarrow> bool" where
  "is_pass report \<longleftrightarrow> map_of report (lit ''result'') = Some (VStr (lit ''PASS''))"

definition evidence_path :: "pystr \<Rightarrow> pystr \<Rightarrow> pystr" where
  "evidence_path log_dir gate = child_path log_dir (gate @ lit ''.json'')"

definition write_evidence :: "sc_env \<Rightarrow> pystr \<Rightarrow> (pystr \<times> pyval) list \<Rightarrow> unit command" where
  "write_evidence env path report s =
     (if sc_writable env path then (Inr (), s\<lparr>sc_disk := (sc_disk s)(path \<mapsto> json_dumps (VDict report) @ [10])\<rparr>) else (Inl Broken, s))"

definition run_command_gate ::
  "sc_env \<Rightarrow> scanner \<Rightarrow> pystr \<Rightarrow> pystr list \<Rightarrow> pystr \<Rightarrow> int \<Rightarrow> sc_state \<Rightarrow> (int \<times> (pystr \<times> pyval) list) \<times> sc_state" where
  "run_command_gate env scan gate command log_dir timeout s =
     (if gate \<notin> set GATE_NAMES
      then ((1, [(lit ''result'', VStr (lit ''FAIL'')), (lit ''reason'', VStr (lit ''invalid_configuration''))]), s)
      else
        (let (outcome, s1) = gate_body env scan gate command log_dir timeout s;
             report = (case outcome of Inl _ \<Rightarrow> fail_report gate ''execution_failure'' | Inr r \<Rightarrow> r) in
         case write_evidence env (evidence_path log_dir gate) report s1 of
           (Inl _, s2) \<Rightarrow> ((1, fail_report gate ''evidence_failure''), s2)
         | (Inr _, s2) \<Rightarrow> ((if is_pass report then 0 else 1, report), s2)))"

text \<open>\<open>main\<close> after the command line was read: refused, a request for help, or a run.\<close>

datatype sc_arguments =
    ScRefused
  | ScHelp pystr
  | ScRun pystr "pystr list" pystr int

definition command_main :: "sc_env \<Rightarrow> scanner \<Rightarrow> sc_arguments \<Rightarrow> sc_state \<Rightarrow> (int \<times> pystr) \<times> sc_state" where
  "command_main env scan arguments s =
     (let invalid = [(lit ''result'', VStr (lit ''FAIL'')), (lit ''reason'', VStr (lit ''invalid_configuration''))] in
      case arguments of
        ScRefused \<Rightarrow> ((1, json_dumps (VDict invalid)), s)
      | ScHelp usage \<Rightarrow> ((0, usage), s)
      | ScRun gate command log_dir timeout \<Rightarrow>
          (if gate \<notin> set GATE_NAMES then ((1, json_dumps (VDict invalid)), s)
           else
             (case run_command_gate env scan gate (if take 1 command = [lit ''--''] then drop 1 command else command) log_dir timeout s of
                ((code, report), s') \<Rightarrow> ((code, json_dumps (VDict report)), s'))))"

end
