(* ===== verification/GitleaksClaims.thy ===== *)
theory GitleaksClaims
  imports GitleaksGate "HOL-Library.Code_Target_Nat"
begin

text \<open>
  What a source scan without findings proves: the scanner is the pinned one, every tracked entry and every name in the
  history was acceptable, and both the whole history and an exact copy of the tracked tree were scanned.
\<close>

section \<open>The system\<close>

text \<open>
  Git and the scanner write no files, resolved paths are not empty and end in no slash, a temporary directory is new and so empty.
\<close>

definition quiet :: "gl_env \<Rightarrow> bool" where
  "quiet env \<longleftrightarrow> (\<forall>v a i d. snd (gl_run env v a i d) = d)"

definition fresh_temporary :: "gl_env \<Rightarrow> pystr \<Rightarrow> disk \<Rightarrow> bool" where
  "fresh_temporary env output d \<longleftrightarrow> (\<forall>t p. gl_temporary env output d = Some t \<longrightarrow> relative_to p t \<longrightarrow> d p = None)"

definition resolves_plainly :: "gl_env \<Rightarrow> bool" where
  "resolves_plainly env \<longleftrightarrow> (\<forall>p. gl_resolve env p \<noteq> [] \<and> (\<forall>q. gl_resolve env p = q @ [47] \<longrightarrow> q = []))"

text \<open>A child answered with code 0, nothing on its error output, and \<open>out\<close>; a scan found nothing.\<close>

definition answered :: "gl_env \<Rightarrow> pystr list \<Rightarrow> disk \<Rightarrow> bytes \<Rightarrow> bool" where
  "answered env arguments d out \<longleftrightarrow>
     (\<exists>d'. gl_run env (gl_variables env) arguments None d = (Some \<lparr>gl_code = 0, gl_out = out, gl_err = []\<rparr>, d'))"

definition clean_scan :: "gl_env \<Rightarrow> pystr \<Rightarrow> pystr list \<Rightarrow> disk \<Rightarrow> bool" where
  "clean_scan env binary arguments d \<longleftrightarrow>
     (\<exists>out t. answered env (scan_command env binary arguments) d out \<and> gl_decode env out = Some t \<and> plain_json env t = Inr (VList []))"

section \<open>Steps\<close>

lemma wp_demand [wp_intros]: "(b \<Longrightarrow> Q () d) \<Longrightarrow> wp (demand b) Q d"
  by (simp add: wp_def demand_def ensure_def)

lemma wp_put_file: "Q () (d(path \<mapsto> b)) \<Longrightarrow> wp (put_file env path b) Q d"
  by (simp add: wp_def put_file_def)

lemma wp_path_exists: "Q (d path \<noteq> None \<or> gl_is_dir env path) d \<Longrightarrow> wp (path_exists env path) Q d"
  by (simp add: wp_def path_exists_def)

lemma wp_make_directory [wp_intros]: "(gl_mkdir env path \<Longrightarrow> Q () d) \<Longrightarrow> wp (make_directory env path) Q d"
  by (simp add: wp_def make_directory_def ensure_def)

lemma wp_run_child:
  assumes "quiet env"
    and "\<And>result. gl_run env (gl_variables env) arguments payload d = (Some result, d) \<Longrightarrow> Q result d"
  shows "wp (run_child env arguments payload) Q d"
proof -
  have "snd (gl_run env (gl_variables env) arguments payload d) = d" using assms(1) by (simp add: quiet_def)
  then show ?thesis using assms(2) by (auto simp: wp_def run_child_def split: prod.splits option.splits)
qed

lemma wp_git:
  assumes "quiet env" "\<And>out. answered env (lit ''git'' # arguments) d out \<Longrightarrow> Q out d"
  shows "wp (git env arguments) Q d"
  unfolding git_def
proof (intro wp_intros wp_run_child [OF assms(1)])
  fix result
  assume r: "gl_run env (gl_variables env) (lit ''git'' # arguments) None d = (Some result, d)" "gl_code result = 0 \<and> gl_err result = []"
  then have "result = \<lparr>gl_code = 0, gl_out = gl_out result, gl_err = []\<rparr>" by simp
  with r(1) show "Q (gl_out result) d" by (intro assms(2)) (metis answered_def)
qed

lemma wp_map_steps:
  assumes "I [] d" "\<And>x ys zs d. I zs d \<Longrightarrow> xs = map fst zs @ x # ys \<Longrightarrow> wp (f x) (\<lambda>y d'. I (zs @ [(x, y)]) d') d"
    "\<And>zs d. xs = map fst zs \<Longrightarrow> I zs d \<Longrightarrow> Q (map snd zs) d"
  shows "wp (map_steps f xs) Q d"
proof -
  have "I zs d \<Longrightarrow> xs = map fst zs @ rest \<Longrightarrow> wp (map_steps f rest) (\<lambda>ys. Q (map snd zs @ ys)) d" for zs rest d
  proof (induction rest arbitrary: zs d)
    case Nil
    then show ?case using assms(3) [of zs d] by (simp add: wp_def)
  next
    case (Cons x rest)
    have "wp (f x) (\<lambda>y d'. I (zs @ [(x, y)]) d') d" using Cons.prems by (intro assms(2))
    moreover have "I (zs @ [(x, y)]) d' \<Longrightarrow> wp (map_steps f rest) (\<lambda>ys. Q (map snd (zs @ [(x, y)]) @ ys)) d'" for y d'
      using Cons.prems by (intro Cons.IH) simp_all
    ultimately have "wp (f x) (\<lambda>y. wp (map_steps f rest) (\<lambda>ys. Q (map snd zs @ y # ys))) d" unfolding wp_def by fastforce
    then show ?case unfolding map_steps.simps by (auto simp: wp_def pseq_eq_Inr)
  qed
  from this [of "[]" d xs] assms(1) show ?thesis by simp
qed

lemma scan_findings_none:
  assumes "scan_findings env result = Inr 0"
  shows "gl_code result = 0 \<and> gl_err result = [] \<and> (\<exists>t. gl_decode env (gl_out result) = Some t \<and> plain_json env t = Inr (VList []))"
  using assms unfolding scan_findings_def
proof (elim and_then_InrE)
  fix u
  assume "ensure (gl_code result \<in> {0, 1} \<and> gl_err result = [] \<and> length (gl_out result) \<le> MAX_REPORT) failed = Inr u"
    and r: "(case gl_decode env (gl_out result) of None \<Rightarrow> Inl OtherError | Some t \<Rightarrow> and_then (plain_json env t) (\<lambda>v. case v of
      VList findings \<Rightarrow> and_then (ensure (list_all finding_ok findings \<and> (gl_code result = 0) = (findings = [])) failed) (\<lambda>_. Inr (length findings))
      | _ \<Rightarrow> Inl failed)) = Inr 0"
  then have "gl_err result = []" by (simp add: ensure_def split: if_splits)
  moreover from r obtain t where t: "gl_decode env (gl_out result) = Some t" by (auto split: option.splits)
  moreover from r t obtain v where v: "plain_json env t = Inr v" by (auto simp: and_then_eq_Inr)
  moreover from r t v have "v = VList [] \<and> gl_code result = 0"
    by (cases v) (auto simp: and_then_eq_Inr ensure_def split: if_splits)
  ultimately show ?thesis by simp
qed

lemma wp_scan_with:
  assumes "quiet env" "\<And>n. (n = 0 \<Longrightarrow> clean_scan env binary arguments d) \<Longrightarrow> Q n d"
  shows "wp (scan_with env binary arguments) Q d"
  unfolding scan_with_def
proof (intro wp_intros wp_run_child [OF assms(1)])
  fix result n
  assume r: "gl_run env (gl_variables env) (scan_command env binary arguments) None d = (Some result, d)" "scan_findings env result = Inr n"
  have "clean_scan env binary arguments d" if "n = 0"
  proof -
    from scan_findings_none that r(2) obtain t where t: "gl_code result = 0" "gl_err result = []" "gl_decode env (gl_out result) = Some t"
      "plain_json env t = Inr (VList [])" by blast
    then have "result = \<lparr>gl_code = 0, gl_out = gl_out result, gl_err = []\<rparr>" by simp
    with r(1) t(3,4) show ?thesis unfolding clean_scan_def answered_def by metis
  qed
  then show "Q n d" by (rule assms(2))
qed

section \<open>Preparing the scanner\<close>

text \<open>The file that is run has the digest of the member of an archive that has the pinned digest.\<close>

definition pinned_scanner :: "gl_env \<Rightarrow> pystr \<Rightarrow> disk \<Rightarrow> bool" where
  "pinned_scanner env binary d \<longleftrightarrow>
     (\<exists>name checksum executable payload content b.
        map_of ARCHIVES (gl_system env) = Some (name, checksum, executable) \<and> sha256_hex payload = checksum \<and>
        extract_binary env name executable payload = Inr content \<and> d binary = Some b \<and> sha256 b = sha256 content)"

definition text_at :: "disk \<Rightarrow> pystr \<Rightarrow> pystr \<Rightarrow> bool" where
  "text_at d path t \<longleftrightarrow> (\<exists>b. d path = Some b \<and> decode_text b = Inr t)"

definition default_contract :: "gl_env \<Rightarrow> disk \<Rightarrow> bool" where
  "default_contract env d \<longleftrightarrow>
     (\<exists>t config u exceptions.
        text_at d (path_join (gl_root env) ''.gitleaks.toml'') t \<and> gl_toml env t = Some config \<and> is_config config \<and>
        text_at d (path_join (gl_root env) ''.github/security-exceptions.json'') u \<and>
        plain_json env u = Inr exceptions \<and> no_exceptions exceptions \<and> d (path_join (gl_root env) ''.gitleaksignore'') = None)"

lemma wp_verify_contract: "(default_contract env d \<Longrightarrow> Q () d) \<Longrightarrow> wp (verify_contract env) Q d"
  unfolding verify_contract_def wp_def pseq_eq_Inr
  by (auto simp: demand_def ensure_def path_exists_def default_contract_def read_text_eq_Inr text_at_def split: option.splits if_splits)

lemma wp_install_binary:
  assumes "\<And>b d'. d' binary = Some b \<Longrightarrow> sha256 b = sha256 content \<Longrightarrow> Q () d'"
  shows "wp (install_binary env binary content) Q d"
  unfolding install_binary_def
  by (intro wp_intros wp_path_exists) (auto intro!: wp_intros wp_read_bytes wp_put_file assms)

definition scanner_ready :: "gl_env \<Rightarrow> pystr \<Rightarrow> disk \<Rightarrow> bool" where
  "scanner_ready env binary d \<longleftrightarrow>
     pinned_scanner env binary d \<and> (\<exists>out. answered env [binary, lit ''version''] d out \<and> strip_bytes out = GL_VERSION)"

lemma scanner_readyI:
  assumes "map_of ARCHIVES (gl_system env) = Some (name, checksum, executable)" "sha256_hex payload = checksum"
    "extract_binary env name executable payload = Inr content" "d binary = Some b" "sha256 b = sha256 content"
    "gl_run env (gl_variables env) [binary, lit ''version''] None d = (Some version, d')"
    "gl_code version = 0 \<and> gl_err version = [] \<and> strip_bytes (gl_out version) = GL_VERSION"
  shows "scanner_ready env binary d"
proof -
  have "version = \<lparr>gl_code = 0, gl_out = gl_out version, gl_err = []\<rparr>" using assms(7) by simp
  then have "answered env [binary, lit ''version''] d (gl_out version)" using assms(6) unfolding answered_def by metis
  moreover have "pinned_scanner env binary d" unfolding pinned_scanner_def using assms(1-5) by blast
  ultimately show ?thesis using assms(7) unfolding scanner_ready_def by blast
qed

lemma prepare_scanner_pinned:
  assumes "quiet env"
  shows "wp (prepare_scanner env output_dir) (\<lambda>(binary, output) d'. default_contract env d \<and> scanner_ready env binary d') d"
  unfolding prepare_scanner_def
  apply (intro wp_intros wp_verify_contract wp_path_exists)
  apply (rule wp_any)
  apply (intro wp_intros wp_read_bytes wp_install_binary wp_run_child [OF assms])
  apply (auto split: option.splits intro!: scanner_readyI)
  done

section \<open>The tracked tree\<close>

definition acceptable_entry :: "gl_env \<Rightarrow> disk \<Rightarrow> bytes \<Rightarrow> pystr \<Rightarrow> bool" where
  "acceptable_entry env d entry target \<longleftrightarrow>
     (\<exists>mode stage file_name.
        parse_entry entry = Inr (mode, stage, file_name) \<and> mode \<in> {lit ''100644'', lit ''100755''} \<and> stage = lit ''0'' \<and>
        tracked_name_ok env file_name \<and> plain_path env (tracked_path env file_name) = Inr target \<and>
        relative_to target (gl_root env) \<and> d target \<noteq> None)"

definition acceptable_history :: "gl_env \<Rightarrow> bytes \<Rightarrow> bool" where
  "acceptable_history env names \<longleftrightarrow>
     (\<forall>raw \<in> set (split_on 0 names).
        strip_line_ends raw = [] \<or> (\<exists>t. decode_utf8 (strip_line_ends raw) = Some t \<and> \<not> forbidden env t))"

text \<open>\<open>d'\<close> is \<open>d\<close> with an exact copy of \<open>files\<close> under \<open>snapshot\<close>, and nothing else there.\<close>

definition copied :: "gl_env \<Rightarrow> pystr \<Rightarrow> pystr \<Rightarrow> pystr" where
  "copied env snapshot f = child_path snapshot (relative_part f (gl_root env))"

definition snapshot_of :: "gl_env \<Rightarrow> pystr \<Rightarrow> disk \<Rightarrow> pystr list \<Rightarrow> disk \<Rightarrow> bool" where
  "snapshot_of env snapshot d files d' \<longleftrightarrow>
     (\<forall>f \<in> set files. d' (copied env snapshot f) = d f) \<and> (\<forall>p. \<not> relative_to p snapshot \<longrightarrow> d' p = d p) \<and>
     (\<forall>p. relative_to p snapshot \<longrightarrow> p \<notin> copied env snapshot ` set files \<longrightarrow> d' p = None)"

lemma wp_check_entry: "(\<And>t. acceptable_entry env d entry t \<Longrightarrow> Q t d) \<Longrightarrow> wp (check_entry env entry) Q d"
  unfolding check_entry_def by (intro wp_intros) (auto simp: acceptable_entry_def)

lemma wp_check_entries:
  assumes "\<And>files. list_all2 (acceptable_entry env d) entries files \<Longrightarrow> Q files d"
  shows "wp (map_steps (check_entry env) entries) Q d"
proof (rule wp_map_steps [where I = "\<lambda>zs d'. d' = d \<and> (\<forall>z \<in> set zs. acceptable_entry env d (fst z) (snd z))"], goal_cases)
  case (3 zs d')
  then have "list_all2 (acceptable_entry env d) entries (map snd zs)" by (auto simp: list_all2_map1 list_all2_map2 list.rel_refl_strong)
  with 3 show ?case using assms by simp
qed (auto intro: wp_check_entry)

lemma history_checked: "map_ok (historical_name_ok env) (split_on 0 names) = Inr us \<Longrightarrow> acceptable_history env names"
  unfolding map_ok_Inr acceptable_history_def
  by (auto simp: list_all2_conv_all_nth in_set_conv_nth historical_name_ok_def Let_def and_then_eq_Inr decoded_def ensure_def
    split: if_splits option.splits) fastforce

lemma child_path_inj: "child_path p a = child_path p b \<Longrightarrow> a = b"
  by (auto simp: child_path_def below_def split: if_splits)

lemma relative_to_child [simp]: "relative_to (child_path p a) p"
  by (auto simp: child_path_def relative_to_def starts_with_iff)

lemma relative_part_inj:
  assumes "relative_part f r = relative_part g r" "relative_to f r" "relative_to g r" "f \<noteq> []" "g \<noteq> []"
    "\<And>q. f = q @ [47] \<Longrightarrow> q = []" "\<And>q. g = q @ [47] \<Longrightarrow> q = []"
  shows "f = g"
proof -
  have parts: "h = r \<and> relative_part h r = [] \<or> h = below r @ relative_part h r" if "relative_to h r" for h
    using that by (auto simp: relative_part_def relative_to_def starts_with_iff below_def)
  have only: "h = r" if "h = below r" "r \<noteq> []" "\<And>q. h = q @ [47] \<Longrightarrow> q = []" for h
    using that by (auto simp: below_def split: if_splits)
  define x where "x = relative_part f r"
  have f: "f = r \<and> x = [] \<or> f = below r @ x" and g: "g = r \<and> x = [] \<or> g = below r @ x"
    using parts [OF assms(2)] parts [OF assms(3)] assms(1) unfolding x_def by simp_all
  from f g show ?thesis
  proof (elim disjE conjE)
    assume "f = r" "x = []" "g = below r @ x"
    then show ?thesis using only [of g] assms(4,7) by simp
  next
    assume "g = r" "x = []" "f = below r @ x"
    then show ?thesis using only [of f] assms(5,6) by simp
  qed simp_all
qed

lemma acceptable_copy_inj:
  assumes "resolves_plainly env" "\<And>f. f \<in> set files \<Longrightarrow> \<exists>e. acceptable_entry env d e f"
  shows "inj_on (\<lambda>f. relative_part f (gl_root env)) (set files)"
proof (rule inj_onI)
  fix f g assume f: "f \<in> set files" and g: "g \<in> set files" and "relative_part f (gl_root env) = relative_part g (gl_root env)"
  moreover have "relative_to h (gl_root env) \<and> h \<noteq> [] \<and> (\<forall>q. h = q @ [47] \<longrightarrow> q = [])" if "h \<in> set files" for h
  proof -
    from assms(2) [OF that] obtain path where path: "plain_path env path = Inr h" "relative_to h (gl_root env)"
      unfolding acceptable_entry_def by blast
    then have h: "gl_resolve env (gl_abspath env path) = h" by (simp add: plain_path_def Let_def split: if_splits)
    have "h \<noteq> [] \<and> (\<forall>q. h = q @ [47] \<longrightarrow> q = [])"
      using assms(1) [unfolded resolves_plainly_def, THEN spec, of "gl_abspath env path"] unfolding h .
    with path(2) show ?thesis by simp
  qed
  ultimately show "f = g" using f g by (intro relative_part_inj [of f "gl_root env" g]) blast+
qed

lemma wp_copy_files:
  assumes fresh: "\<And>p. relative_to p snapshot \<Longrightarrow> d p = None" and inj: "inj_on (copied env snapshot) (set files)"
    and present: "\<And>f. f \<in> set files \<Longrightarrow> d f \<noteq> None"
    and Q: "\<And>ys d'. snapshot_of env snapshot d files d' \<Longrightarrow> Q ys d'"
  shows "wp (map_steps (copy_tracked env snapshot) files) Q d"
proof (rule wp_map_steps [where I = "\<lambda>zs. snapshot_of env snapshot d (map fst zs)"])
  show "snapshot_of env snapshot d (map fst []) d" using fresh by (simp add: snapshot_of_def)
next
  fix x ys and zs :: "(pystr \<times> unit) list" and e
  assume I: "snapshot_of env snapshot d (map fst zs) e" and files: "files = map fst zs @ x # ys"
  let ?c = "copied env snapshot x"
  have x: "x \<in> set files" "set (map fst zs) \<subseteq> set files" unfolding files by auto
  have "\<not> relative_to x snapshot" using present [OF x(1)] fresh [of x] by auto
  then have same: "e x = d x" using I by (simp add: snapshot_of_def)
  have "snapshot_of env snapshot d (map fst (zs @ [(x, y)])) (e(?c \<mapsto> b))" if b: "e x = Some b" for y b
  proof -
    have "(e(?c \<mapsto> b)) (copied env snapshot f) = d f" if "f \<in> insert x (set (map fst zs))" for f
    proof (cases "f = x")
      case True
      then show ?thesis using b same by simp
    next
      case False
      with that have f: "f \<in> set (map fst zs)" by simp
      then have "copied env snapshot f \<noteq> ?c" using inj_onD [OF inj _ _ x(1)] x(2) False by blast
      with f I show ?thesis by (auto simp: snapshot_of_def)
    qed
    moreover have "relative_to ?c snapshot" by (simp add: copied_def)
    ultimately show ?thesis using I by (auto simp: snapshot_of_def)
  qed
  then show "wp (copy_tracked env snapshot x) (\<lambda>y. snapshot_of env snapshot d (map fst (zs @ [(x, y)]))) e"
    unfolding copy_tracked_def Let_def copied_def by (intro wp_intros wp_read_bytes wp_put_file)
next
  fix zs :: "(pystr \<times> unit) list" and d'
  assume "files = map fst zs" "snapshot_of env snapshot d (map fst zs) d'"
  then show "Q (map snd zs) d'" using Q by simp
qed

lemma wp_with_temporary:
  assumes "\<And>t. gl_temporary env output d = Some t \<Longrightarrow>
    wp (body t) (\<lambda>x d'. Q x (\<lambda>p. if relative_to p t then None else d' p)) d"
  shows "wp (with_temporary env output body) Q d"
  using assms by (fastforce simp: wp_def with_temporary_def split: option.splits prod.splits if_splits)

lemma snapshot_removed:
  assumes "snapshot_of env snapshot d files d'" "\<And>p. relative_to p snapshot \<Longrightarrow> d p = None"
  shows "(\<lambda>p. if relative_to p snapshot then None else d' p) = d"
  using assms by (auto simp: snapshot_of_def)

definition source_scanned :: "gl_env \<Rightarrow> pystr \<Rightarrow> disk \<Rightarrow> nat \<Rightarrow> bool" where
  "source_scanned env binary d n \<longleftrightarrow>
     (\<exists>shallow listing names files snapshot d'.
        answered env (map lit [''git'', ''rev-parse'', ''--is-shallow-repository'']) d shallow \<and> strip_bytes shallow = lit ''false'' \<and>
        answered env (lit ''git'' # ls_files) d listing \<and>
        list_all2 (acceptable_entry env d) (filter (\<lambda>e. e \<noteq> []) (split_on 0 listing)) files \<and> length files = n \<and> 0 < n \<and>
        answered env (lit ''git'' # log_names) d names \<and> acceptable_history env names \<and>
        clean_scan env binary [lit ''git'', gl_root env, lit ''--log-opts=--all --full-history -m''] d \<and>
        snapshot_of env snapshot d files d' \<and> clean_scan env binary [lit ''dir'', snapshot] d')"

lemma wp_snapshot:
  assumes "quiet env" "fresh_temporary env output d" "inj_on (\<lambda>f. relative_part f (gl_root env)) (set files)" "\<And>f. f \<in> set files \<Longrightarrow> d f \<noteq> None"
    and Q: "\<And>(n :: nat) snapshot d'. snapshot_of env snapshot d files d' \<Longrightarrow> (n = 0 \<Longrightarrow> clean_scan env binary [lit ''dir'', snapshot] d') \<Longrightarrow> Q n d"
  shows "wp (with_temporary env output (\<lambda>snapshot.
         pseq (map_steps (copy_tracked env snapshot) files) (\<lambda>_. scan_with env binary [lit ''dir'', snapshot]))) Q d"
proof (rule wp_with_temporary)
  fix t assume "gl_temporary env output d = Some t"
  then have fresh: "\<And>p. relative_to p t \<Longrightarrow> d p = None" using assms(2) by (simp add: fresh_temporary_def)
  have "inj_on (copied env t) (set files)"
    using assms(3) child_path_inj by (auto simp: inj_on_def copied_def)
  then show "wp (pseq (map_steps (copy_tracked env t) files) (\<lambda>_. scan_with env binary [lit ''dir'', t]))
      (\<lambda>x d'. Q x (\<lambda>p. if relative_to p t then None else d' p)) d"
    by (intro wp_intros wp_copy_files wp_scan_with fresh assms(1,4)) (simp_all add: snapshot_removed fresh Q)
qed

lemma wp_scan_source:
  assumes "quiet env" "fresh_temporary env output_dir d" "resolves_plainly env"
  shows "wp (scan_source env binary output_dir) (\<lambda>r _. fst r = 0 \<longrightarrow> source_scanned env binary d (snd r)) d"
  unfolding scan_source_def
proof (intro wp_intros wp_git wp_check_entries wp_scan_with assms(1), goal_cases)
  case (1 shallow listing files names us in_history)
  then have ok: "\<exists>e. acceptable_entry env d e f" if "f \<in> set files" for f
    using that by (auto simp: list_all2_conv_all_nth in_set_conv_nth)
  then have inj: "inj_on (\<lambda>f. relative_part f (gl_root env)) (set files)" and there: "\<And>f. f \<in> set files \<Longrightarrow> d f \<noteq> None"
    using acceptable_copy_inj [OF assms(3)] unfolding acceptable_entry_def by blast+
  show ?case
  proof (rule wp_snapshot [OF assms(1,2) inj there])
    fix k :: nat and snapshot e
    assume s: "snapshot_of env snapshot d files e" "k = 0 \<Longrightarrow> clean_scan env binary [lit ''dir'', snapshot] e"
    have "source_scanned env binary d (length files)" if "in_history + k = 0"
    proof -
      have "clean_scan env binary [lit ''dir'', snapshot] e" "0 < length files" using s(2) that 1(5) by simp_all
      moreover have "acceptable_history env names" using 1(7) by (rule history_checked)
      moreover have "answered env (map lit [''git'', ''rev-parse'', ''--is-shallow-repository'']) d shallow" using 1(1) by simp
      moreover have "clean_scan env binary [lit ''git'', gl_root env, lit ''--log-opts=--all --full-history -m''] d"
        using 1(8) that by simp
      ultimately show ?thesis using 1(2,3,4,6) s(1) unfolding source_scanned_def by blast
    qed
    then show "wp (pret (in_history + k, length files)) (\<lambda>r _. fst r = 0 \<longrightarrow> source_scanned env binary d (snd r)) d"
      by (intro wp_intros) simp
  qed
qed

text \<open>
  C36. A source scan that returns no findings on a quiet system saw a repository that is not shallow, whose every index
  entry is a plain tracked file inside the root under a permitted name and whose every historical name is permitted;
  the scanner exited cleanly with an empty report on the whole history and on a directory that held exactly the bytes
  of the tracked files.
\<close>

theorem source_scan_proven:
  assumes "quiet env" "fresh_temporary env output_dir d" "resolves_plainly env"
    and "scan_source env binary output_dir d = (Inr (0, n), d')"
  shows "source_scanned env binary d n"
  using wpD [OF wp_scan_source [OF assms(1-3)] assms(4)] by simp

section \<open>Artifacts\<close>

definition acceptable_artifact :: "gl_env \<Rightarrow> disk \<Rightarrow> pystr \<Rightarrow> bool" where
  "acceptable_artifact env d entry \<longleftrightarrow>
     (\<exists>checked. plain_path env entry = Inr checked \<and>
        (gl_is_dir env checked \<or>
         (\<exists>b t. d checked = Some b \<and> gl_links env checked = 1 \<and> 0 \<notin> set b \<and> decode_utf8 b = Some t \<and>
            \<not> forbidden env (posix_name checked))))"

lemma wp_check_artifact: "(\<And>y. acceptable_artifact env d entry \<Longrightarrow> Q y d) \<Longrightarrow> wp (check_artifact env entry) Q d"
  unfolding check_artifact_def
  by (intro wp_intros wp_if wp_read_bytes) (auto simp: decoded_def acceptable_artifact_def split: option.splits)

lemma wp_check_artifacts:
  assumes "\<And>ys. list_all (acceptable_artifact env d) entries \<Longrightarrow> Q ys d"
  shows "wp (map_steps (check_artifact env) entries) Q d"
  by (rule wp_map_steps [where I = "\<lambda>zs d'. d' = d \<and> (\<forall>z \<in> set zs. acceptable_artifact env d (fst z))"])
    (auto intro!: wp_check_artifact assms simp: list_all_iff)

lemma wp_nonempty_files: "(\<And>ys. Q ys d) \<Longrightarrow> wp (map_steps nonempty_file files) Q d"
  by (rule wp_map_steps [where I = "\<lambda>_ d'. d' = d"]) (auto simp: nonempty_file_def intro!: wp_intros wp_read_bytes)

lemma artifacts_scan_proven:
  assumes "quiet env" "scan_artifacts env binary output_dir scan_path d = (Inr (0, n), d')"
  shows "\<exists>target. plain_path env scan_path = Inr target \<and> gl_is_dir env target \<and>
    list_all (acceptable_artifact env d) (gl_entries env target d) \<and> clean_scan env binary [lit ''dir'', target] d"
proof -
  have "wp (list_entries env target) Q d \<longleftrightarrow> Q (gl_entries env target d) d" for target Q by (simp add: wp_def list_entries_def)
  then have entries: "Q (gl_entries env target d) d \<Longrightarrow> wp (list_entries env target) Q d" for target Q by blast
  have "wp (scan_artifacts env binary output_dir scan_path) (\<lambda>r _. fst r = 0 \<longrightarrow>
    (\<exists>target. plain_path env scan_path = Inr target \<and> gl_is_dir env target \<and>
      list_all (acceptable_artifact env d) (gl_entries env target d) \<and> clean_scan env binary [lit ''dir'', target] d)) d"
    unfolding scan_artifacts_def Let_def
    by (intro wp_intros entries wp_check_artifacts wp_nonempty_files wp_scan_with [OF assms(1)]) auto
  from wpD [OF this assms(2)] show ?thesis by simp
qed

section \<open>The whole gate\<close>

lemma wp_lock_hashes: "(\<And>ys. Q ys d) \<Longrightarrow> wp (gl_lock_hashes env) Q d"
  unfolding gl_lock_hashes_def
  by (rule wp_map_steps [where I = "\<lambda>_ d'. d' = d"]) (auto intro!: wp_intros wp_read_bytes)

text \<open>Exit code 0 in source mode: the scanner that ran has the pinned digest and the tree it saw was scanned as above.\<close>

lemma gl_report_pass: "map_of (gl_report outcome) (lit ''result'') = Some (VStr (lit ''PASS'')) \<longleftrightarrow> (\<exists>n. outcome = Inr (0, n))"
proof (cases outcome)
  case (Inl e)
  then show ?thesis by (simp add: gl_report_def gl_summary_def lit_def)
next
  case (Inr r)
  then show ?thesis by (cases r; cases "fst r = 0") (simp_all add: gl_report_def gl_summary_def lit_def)
qed

lemma gitleaks_main_green:
  assumes "quiet env" "\<And>output_dir d. fresh_temporary env output_dir d" "resolves_plainly env" "arg_mode arguments = SourceMode"
    and "gitleaks_main env (Some arguments) d = ((0, printed), d')"
  shows "\<exists>binary n d1. default_contract env d \<and> scanner_ready env binary d1 \<and> source_scanned env binary d1 n"
proof -
  obtain n where work: "gl_work env (Some arguments) d = (Inr (0, n), d')"
    using assms(5) gl_report_pass by (auto simp: gitleaks_main_def Let_def split: prod.splits if_splits)
  let ?Q = "\<lambda>r (_ :: disk). fst r = (0 :: nat) \<longrightarrow>
    (\<exists>binary n d1. default_contract env d \<and> scanner_ready env binary d1 \<and> source_scanned env binary d1 n)"
  have body: "wp (gl_modes env arguments binary output_dir)
      (\<lambda>r. wp (pseq (gl_lock_hashes env) (\<lambda>after. pseq (demand (after = before)) (\<lambda>_. pret r))) ?Q) d1"
    if "default_contract env d \<and> scanner_ready env binary d1" for before binary output_dir d1
  proof -
    have modes: "gl_modes env arguments binary output_dir = scan_source env binary output_dir" using assms(4) by (simp add: gl_modes_def)
    show ?thesis unfolding modes
      using that by (intro wp_conseq [OF wp_scan_source [OF assms(1,2,3)]] wp_intros wp_lock_hashes) blast
  qed
  have "wp (gl_work env (Some arguments)) ?Q d"
    unfolding gl_work_def option.case
  proof (intro wp_intros wp_lock_hashes wp_conseq [OF prepare_scanner_pinned [OF assms(1)]], goal_cases)
    case (1 before x d1 binary output_dir)
    then show ?case by (intro body) simp
  qed
  from wpD [OF this work] show ?thesis by simp
qed

section \<open>A clean repository\<close>

definition clean_answer :: "pystr list \<Rightarrow> bytes" where
  "clean_answer arguments =
     (if arguments = map lit [''git'', ''rev-parse'', ''--is-shallow-repository''] then lit ''false'' @ [10]
      else if arguments = lit ''git'' # ls_files then lit ''100644 e69de29 0'' @ [9] @ lit ''src/a.py'' @ [0]
      else if arguments = lit ''git'' # log_names then [10] @ lit ''src/a.py'' @ [0]
      else lit ''[]'')"

definition clean_env :: gl_env where
  "clean_env = \<lparr>gl_root = lit ''/r'', gl_environ = [], gl_upper = id, gl_lower = id, gl_float = (\<lambda>_. Finite 0 0), gl_toml = Map.empty,
     gl_machine = [], gl_system = [], gl_devnull = lit ''/dev/null'', gl_abspath = (\<lambda>p. if p = [] \<or> last p = 47 then lit ''/r'' else p),
     gl_is_link = (\<lambda>_. False), gl_resolve = (\<lambda>p. if p = [] \<or> last p = 47 then lit ''/r'' else p), gl_mkdir = (\<lambda>_. True),
     gl_writable = (\<lambda>_. True), gl_download = Map.empty, gl_zip = (\<lambda>_ _. None), gl_tar = (\<lambda>_ _. None),
     gl_decode = (\<lambda>b. decode_utf8 b), gl_links = (\<lambda>_. 1), gl_is_dir = (\<lambda>_. False), gl_entries = (\<lambda>_ _. []),
     gl_temporary = (\<lambda>_ _. Some (lit ''/t'')),
     gl_cleanup = True, gl_run = (\<lambda>_ a _ d. (Some \<lparr>gl_code = 0, gl_out = clean_answer a, gl_err = []\<rparr>, d))\<rparr>"

definition clean_disk :: disk where
  "clean_disk = [lit ''/r/src/a.py'' \<mapsto> lit ''x = 1'']"

lemma clean_system: "quiet clean_env" "fresh_temporary clean_env output_dir clean_disk" "resolves_plainly clean_env"
proof -
  show "quiet clean_env" by (simp add: quiet_def clean_env_def)
  have "\<not> relative_to (lit ''/r/src/a.py'') (lit ''/t'')" by code_simp
  then show "fresh_temporary clean_env output_dir clean_disk"
    by (auto simp: fresh_temporary_def clean_env_def clean_disk_def)
  have "last (lit ''/r'') \<noteq> 47 \<and> lit ''/r'' \<noteq> []" by code_simp
  then show "resolves_plainly clean_env" unfolding resolves_plainly_def clean_env_def
    by (auto split: if_splits)
qed

lemma clean_run: "fst (scan_source clean_env (lit ''g'') (lit ''/o'') clean_disk) = Inr (0, 1)"
  by code_simp

theorem source_scan_proven_witness: "source_scanned clean_env (lit ''g'') clean_disk 1"
  using source_scan_proven [OF clean_system(1) clean_system(2) clean_system(3)] clean_run
  by (metis surjective_pairing)

end
