(* ===== verification/SecurityCommandClaims.thy ===== *)
theory SecurityCommandClaims
  imports SecurityCommand GitleaksClaims "HOL-Library.Multiset"
begin

text \<open>
  What the command gate proves: it owns the process tree it starts and gives every handle back, it ends in bounded time,
  and a PASS means exit code 0, output scanned clean, and the counters and the migration head the gate asks for.
\<close>

section \<open>Programs whatever their outcome\<close>

text \<open>\<open>takes P m Q\<close>: from \<open>P\<close>, \<open>m\<close> ends in \<open>Q\<close> whether it returns or raises.\<close>

named_theorems takes_intros \<open>rules for programs whatever their outcome\<close>

definition takes :: "('s \<Rightarrow> bool) \<Rightarrow> ('e, 's, 'a) steps \<Rightarrow> ('s \<Rightarrow> bool) \<Rightarrow> bool" where
  "takes P m Q \<longleftrightarrow> (\<forall>s. P s \<longrightarrow> Q (snd (m s)))"

lemma takesD: "takes P m Q \<Longrightarrow> P s \<Longrightarrow> Q (snd (m s))"
  by (simp add: takes_def)

lemma takes_pseq:
  assumes "takes P m R" "\<And>x. takes R (f x) Q" "\<And>s. R s \<Longrightarrow> Q s"
  shows "takes P (pseq m f) Q"
  using assms unfolding takes_def pseq_def by (auto split: prod.splits sum.splits)

lemma takes_same_pseq [takes_intros]: "takes I m I \<Longrightarrow> (\<And>x. takes I (f x) I) \<Longrightarrow> takes I (pseq m f) I"
  by (rule takes_pseq)

lemma takes_same_basics [takes_intros]: "takes I (pret x) I" "takes I (pfail e) I" "takes I (plift r) I" "takes I (insist b) I"
  by (simp_all add: takes_def insist_def)

lemma takes_same_branch [takes_intros]:
  "takes I m I \<Longrightarrow> takes I n I \<Longrightarrow> takes I (if b then m else n) I"
  "(\<And>code out err. t = Ended code out err \<Longrightarrow> takes I (f code out err) I) \<Longrightarrow> takes I n I \<Longrightarrow>
     takes I (case t of Ended code out err \<Rightarrow> f code out err | TalkExpired \<Rightarrow> n) I"
  by (auto split: talk.splits)

lemma takes_pfinally: "takes P m R \<Longrightarrow> takes R f Q \<Longrightarrow> takes P (pfinally m f) Q"
  unfolding takes_def pfinally_def by (auto split: prod.splits sum.splits)

lemma takes_same_pfinally [takes_intros]: "takes I m I \<Longrightarrow> takes I f I \<Longrightarrow> takes I (pfinally m f) I"
  by (rule takes_pfinally)

lemma takes_ask: "(\<And>s r. P s \<Longrightarrow> Q (s\<lparr>sc_log := sc_log s @ [(c, r)]\<rparr>)) \<Longrightarrow> takes P (ask os c) Q"
  by (simp add: takes_def ask_def Let_def)

lemma kernel_apply: "kernel os c s = (let r = os_reply os (sc_log s) c in (Inr (number r), s\<lparr>sc_log := sc_log s @ [(c, r)]\<rparr>))"
  by (simp add: kernel_def ask_def pseq_def Let_def)

lemma takes_kernel: "(\<And>s r. P s \<Longrightarrow> Q (s\<lparr>sc_log := sc_log s @ [(c, r)]\<rparr>)) \<Longrightarrow> takes P (kernel os c) Q"
  by (simp add: takes_def kernel_apply Let_def)

section \<open>Handles\<close>

definition valid_handle :: "os_call \<Rightarrow> nat \<Rightarrow> bool" where
  "valid_handle c h \<longleftrightarrow>
     (case c of
        CreateJob \<Rightarrow> h \<noteq> 0 | OpenProcess _ \<Rightarrow> h \<noteq> 0 | OpenThread _ \<Rightarrow> h \<noteq> 0 | Snapshot \<Rightarrow> h \<noteq> INVALID_HANDLE
      | _ \<Rightarrow> False)"

fun opened :: "os_log \<Rightarrow> nat multiset" where
  "opened [] = {#}"
| "opened ((c, r) # log) = (if valid_handle c (number r) then {#number r#} else {#}) + opened log"

fun closed :: "os_log \<Rightarrow> nat multiset" where
  "closed [] = {#}"
| "closed ((c, r) # log) = (case c of CloseHandle h \<Rightarrow> {#h#} | _ \<Rightarrow> {#}) + closed log"

lemma opened_append [simp]: "opened (a @ b) = opened a + opened b"
  by (induction a) auto

lemma closed_append [simp]: "closed (a @ b) = closed a + closed b"
  by (induction a) auto

text \<open>Every handle is closed but the job's and those of \<open>X\<close>.\<close>

definition holding :: "nat multiset \<Rightarrow> sc_state \<Rightarrow> bool" where
  "holding X s \<longleftrightarrow> opened (sc_log s) = closed (sc_log s) + (case sc_job s of Some h \<Rightarrow> {#h#} | None \<Rightarrow> {#}) + X"

definition neutral :: "os_call \<Rightarrow> bool" where
  "neutral c \<longleftrightarrow> (case c of CreateJob \<Rightarrow> False | OpenProcess _ \<Rightarrow> False | OpenThread _ \<Rightarrow> False | Snapshot \<Rightarrow> False | CloseHandle _ \<Rightarrow> False | _ \<Rightarrow> True)"

lemma holding_neutral: "neutral c \<Longrightarrow> holding X s \<Longrightarrow> holding X (s\<lparr>sc_log := sc_log s @ [(c, r)]\<rparr>)"
  by (cases c) (auto simp: neutral_def holding_def valid_handle_def)

lemma handles_neutral [takes_intros]:
  "neutral c \<Longrightarrow> takes (holding X) (kernel os c) (holding X)" "neutral c \<Longrightarrow> takes (holding X) (ask os c) (holding X)"
  by (auto intro!: takes_kernel takes_ask holding_neutral)

lemma takes_close: "takes (holding (add_mset h X)) (kernel os (CloseHandle h)) (holding X)"
  by (rule takes_kernel) (auto simp: holding_def valid_handle_def split: option.splits)

lemma takes_closing [takes_intros]:
  "takes (holding (add_mset h X)) m (holding (add_mset h X)) \<Longrightarrow> takes (holding (add_mset h X)) (closing os h m) (holding X)"
  unfolding closing_def by (rule takes_pfinally [OF _ takes_close])

lemma handles_opening:
  assumes "\<And>h. b h \<longleftrightarrow> valid_handle c h" "\<not> (\<exists>h. c = CloseHandle h)" "\<And>h. b h \<Longrightarrow> takes (holding (add_mset h X)) (g h) (holding X)"
  shows "takes (holding X) (pseq (kernel os c) (\<lambda>h. pseq (insist (b h)) (\<lambda>_. g h))) (holding X)"
  unfolding takes_def
proof (intro allI impI)
  fix s assume s: "holding X s"
  define r where "r = os_reply os (sc_log s) c"
  let ?s = "s\<lparr>sc_log := sc_log s @ [(c, r)]\<rparr>"
  have run: "pseq (kernel os c) (\<lambda>h. pseq (insist (b h)) (\<lambda>_. g h)) s = (if b (number r) then g (number r) ?s else (Inl Broken, ?s))"
    by (simp add: pseq_def kernel_apply r_def Let_def insist_def ensure_def)
  have "closed [(c, r)] = {#}" using assms(2) by (cases c) auto
  then have "holding (if b (number r) then add_mset (number r) X else X) ?s"
    using s assms(1) by (auto simp: holding_def)
  then show "holding X (snd (pseq (kernel os c) (\<lambda>h. pseq (insist (b h)) (\<lambda>_. g h)) s))"
    using assms(3) run by (auto simp: takes_def)
qed

lemma handles_resume_thread: "takes (holding X) (resume_thread os t) (holding X)"
  unfolding resume_thread_def
  by (rule handles_opening) (auto simp: valid_handle_def neutral_def intro!: takes_intros)

lemma handles_walk_threads: "takes (holding X) (walk_threads os snapshot pid entries) (holding X)"
proof (induction entries)
  case Nil
  show ?case unfolding walk_threads.simps by (intro takes_intros)
next
  case (Cons entry entries)
  then show ?case unfolding walk_threads.simps by (intro takes_intros handles_resume_thread) (simp_all add: neutral_def)
qed

lemma handles_threads_of [takes_intros]: "takes I (threads_of os) I"
  by (simp add: takes_def threads_of_def)

lemma handles_find_and_resume: "takes (holding X) (find_and_resume os pid) (holding X)"
  unfolding find_and_resume_def
  by (rule handles_opening) (auto simp: valid_handle_def neutral_def intro!: takes_intros handles_walk_threads)

lemma handles_assign_and_resume: "takes (holding X) (assign_and_resume os job pid) (holding X)"
  unfolding assign_and_resume_def
proof (rule handles_opening)
  fix h
  show "takes (holding (add_mset h X)) (pseq (closing os h (pseq (kernel os (AssignProcess job h)) (\<lambda>assigned. insist (assigned \<noteq> 0))))
      (\<lambda>_. find_and_resume os pid)) (holding X)"
    by (rule takes_pseq [where R = "holding X", OF _ handles_find_and_resume]) (auto simp: neutral_def intro!: takes_intros)
qed (auto simp: valid_handle_def)

text \<open>The job: \<open>windows_job\<close> leaves its handle in the variable or nothing open, \<open>close_job\<close> always closes it.\<close>

definition holding_no_job :: "sc_state \<Rightarrow> bool" where
  "holding_no_job s \<longleftrightarrow> holding {#} s \<and> sc_job s = None"

lemma takes_windows_job: "takes holding_no_job (windows_job os) (holding {#})"
  unfolding takes_def windows_job_def
  by (auto simp: pseq_def kernel_apply Let_def insist_def ensure_def set_job_def holding_no_job_def holding_def valid_handle_def
    split: prod.splits sum.splits if_splits)

lemma takes_close_job: "sc_job s = Some job \<Longrightarrow> holding {#} s \<Longrightarrow> holding_no_job (snd (close_job os job s))"
  by (simp add: close_job_def terminate_job_def pfinally_def pseq_def kernel_apply Let_def insist_def ensure_def set_job_def
    holding_no_job_def holding_def valid_handle_def)

lemma handles_signal [takes_intros]: "takes (holding X) (signal_owned_group os pid signum) (holding X)"
  unfolding signal_owned_group_def by (intro takes_intros) (simp add: neutral_def)

lemma handles_communicate [takes_intros]: "takes (holding X) (communicate os timeout) (holding X)"
  using holding_neutral [of "Communicate timeout" X]
  by (auto simp: takes_def communicate_def ask_def Let_def neutral_def holding_def split: reply.splits)

lemma handles_stop_tree [takes_intros]: "takes (holding X) (stop_tree os pid signum) (holding X)"
proof -
  have "takes (holding X) (terminate_job os job) (holding X)" for job
    unfolding terminate_job_def by (intro takes_intros) (simp add: neutral_def)
  then show ?thesis using handles_signal unfolding takes_def stop_tree_def by (auto split: option.splits)
qed

lemma handles_start_process: "takes (holding X) (start_process os command) (holding X)"
  using holding_neutral [of "StartProcess command (os_windows os)" X]
  by (auto simp: takes_def start_process_def ask_def Let_def neutral_def holding_def split: reply.splits)

lemma handles_assign [takes_intros]:
  "takes (holding X) (\<lambda>s. case sc_job s of Some job \<Rightarrow> assign_and_resume os job pid s | None \<Rightarrow> pret () s) (holding X)"
  using handles_assign_and_resume unfolding takes_def by (auto split: option.splits)

lemma takes_run_owned: "takes holding_no_job (run_owned os command timeout) (holding {#})"
  unfolding run_owned_def after_timeout_def
proof (rule takes_pseq [where R = "holding {#}"])
  show "takes holding_no_job (if os_windows os then windows_job os else pret ()) (holding {#})"
    using takes_windows_job by (auto simp: takes_def holding_no_job_def)
qed (auto simp del: proc_basics intro!: takes_intros handles_start_process)

lemma takes_release_tree: "takes (holding {#}) (release_tree os) holding_no_job"
proof -
  have "sc_job (snd (signal_owned_group os pid signum s)) = sc_job s" for pid signum s
    by (simp add: signal_owned_group_def pseq_def ask_def Let_def insist_def ensure_def)
  then show ?thesis
    using takes_close_job handles_signal [of "{#}" os] unfolding takes_def release_tree_def holding_no_job_def
    by (auto split: option.splits)
qed

lemma handles_reap_child: "takes holding_no_job (reap_child os) holding_no_job"
proof -
  have ask: "takes holding_no_job (ask os c) holding_no_job" if "neutral c" for c
    using holding_neutral [OF that, of "{#}"] by (auto intro!: takes_ask simp: holding_no_job_def)
  have body: "takes holding_no_job (pseq (ask os (Poll pid)) (\<lambda>r. pseq (insist (r \<noteq> Raised)) (\<lambda>_.
      pseq (if r = Expired then pseq (ask os (KillChild pid)) (\<lambda>k. insist (k \<noteq> Raised)) else pret ()) (\<lambda>_.
      pseq (ask os (WaitChild pid 3)) (\<lambda>w. if w = Expired then pfail TimedOut else insist (w \<noteq> Raised)))))) holding_no_job" for pid
    by (intro takes_intros ask) (simp_all add: neutral_def)
  show ?thesis using takesD [OF body] by (auto simp: takes_def reap_child_def split: option.splits)
qed

lemma handles_returned:
  assumes "opened (sc_log s) = closed (sc_log s)"
  shows "opened (sc_log (snd (execute_command os command timeout s))) = closed (sc_log (snd (execute_command os command timeout s)))"
proof -
  have "takes holding_no_job (pfinally (run_owned os command timeout) (pfinally (release_tree os) (reap_child os))) holding_no_job"
    by (rule takes_pfinally [OF takes_run_owned takes_pfinally [OF takes_release_tree handles_reap_child]])
  moreover have "holding_no_job (s\<lparr>sc_job := None, sc_process := None\<rparr>)" using assms by (simp add: holding_no_job_def holding_def)
  ultimately have "holding_no_job (snd (execute_command os command timeout s))" unfolding execute_command_def by (rule takesD)
  then show ?thesis by (simp add: holding_no_job_def holding_def)
qed

text \<open>The start of a command, up to its work.\<close>

definition start_owned :: "sc_os \<Rightarrow> pystr list \<Rightarrow> nat command" where
  "start_owned os command =
     pseq (if os_windows os then windows_job os else pret ()) (\<lambda>_.
     pseq (start_process os command) (\<lambda>pid.
     pseq (\<lambda>s. case sc_job s of Some job \<Rightarrow> assign_and_resume os job pid s | None \<Rightarrow> pret () s) (\<lambda>_. pret pid)))"

lemma run_owned_start:
  "run_owned os command timeout = pseq (start_owned os command) (\<lambda>pid. pseq (communicate os timeout) (\<lambda>t.
     case t of Ended code out err \<Rightarrow> pret (code, out, err) | TalkExpired \<Rightarrow> after_timeout os pid))"
  by (rule ext) (simp add: run_owned_def start_owned_def pseq_def split: prod.splits sum.splits)

section \<open>What calls keep\<close>

text \<open>
  A property of the state that plain calls keep is kept by the parts made of plain calls. The extensions add the resuming
  of threads, the waits, and the variables \<open>job\<close> and \<open>process\<close>, and reach the parts that need them.
\<close>

definition plain_call :: "os_call \<Rightarrow> bool" where
  "plain_call c \<longleftrightarrow> (case c of ResumeThread _ \<Rightarrow> False | Communicate _ \<Rightarrow> False | WaitChild _ _ \<Rightarrow> False | _ \<Rightarrow> True)"

locale calls =
  fixes J :: "sc_state \<Rightarrow> bool"
  assumes plain: "plain_call c \<Longrightarrow> J s \<Longrightarrow> J (s\<lparr>sc_log := sc_log s @ [(c, r)]\<rparr>)"
begin

lemma keeps_plain [takes_intros]:
  "plain_call c \<Longrightarrow> takes J (kernel os c) J" "plain_call c \<Longrightarrow> takes J (ask os c) J"
  by (auto intro!: takes_kernel takes_ask plain)

lemma keeps_closing [takes_intros]: "takes J m J \<Longrightarrow> takes J (closing os h m) J"
  unfolding closing_def by (intro takes_intros) (simp_all add: plain_call_def)

lemma keeps_signal: "takes J (signal_owned_group os pid signum) J"
  unfolding signal_owned_group_def by (intro takes_intros) (simp_all add: plain_call_def)

lemma keeps_terminate: "takes J (terminate_job os job) J"
  unfolding terminate_job_def by (intro takes_intros) (simp_all add: plain_call_def)

lemma keeps_stop_tree [takes_intros]: "takes J (stop_tree os pid signum) J"
  using keeps_signal keeps_terminate unfolding takes_def stop_tree_def by (auto split: option.splits)

end

locale calls_resume = calls +
  assumes resume: "J s \<Longrightarrow> J (s\<lparr>sc_log := sc_log s @ [(ResumeThread t, r)]\<rparr>)"
begin

lemma keeps_resume_thread: "takes J (resume_thread os t) J"
proof -
  have count: "takes J (kernel os (ResumeThread thread)) J" for thread by (auto intro!: takes_kernel resume)
  show ?thesis unfolding resume_thread_def by (intro count takes_intros) (simp_all add: plain_call_def)
qed

lemma keeps_walk_threads: "takes J (walk_threads os snapshot pid entries) J"
proof (induction entries)
  case Nil
  show ?case unfolding walk_threads.simps by (intro takes_intros)
next
  case (Cons entry entries)
  then show ?case unfolding walk_threads.simps by (intro takes_intros keeps_resume_thread) (simp_all add: plain_call_def)
qed

lemma keeps_find_and_resume: "takes J (find_and_resume os pid) J"
  unfolding find_and_resume_def by (intro takes_intros keeps_walk_threads) (simp_all add: plain_call_def)

lemma keeps_assign_and_resume: "takes J (assign_and_resume os job pid) J"
  unfolding assign_and_resume_def by (intro takes_intros keeps_find_and_resume) (simp_all add: plain_call_def)

lemma keeps_assign [takes_intros]:
  "takes J (\<lambda>s. case sc_job s of Some job \<Rightarrow> assign_and_resume os job pid s | None \<Rightarrow> pret () s) J"
  using keeps_assign_and_resume unfolding takes_def by (auto split: option.splits)

end

locale calls_waits = calls +
  assumes waits: "J s \<Longrightarrow> J (s\<lparr>sc_log := sc_log s @ [(Communicate timeout, r)], sc_disk := d\<rparr>)"
    "J s \<Longrightarrow> J (s\<lparr>sc_log := sc_log s @ [(WaitChild pid timeout, r)]\<rparr>)"
begin

lemma keeps_communicate [takes_intros]: "takes J (communicate os timeout) J"
  by (auto simp: takes_def communicate_def ask_def Let_def intro!: waits split: reply.splits)

lemma keeps_after_timeout [takes_intros]: "takes J (after_timeout os pid) J"
  unfolding after_timeout_def by (intro takes_intros)

lemma keeps_reap_child: "takes J (reap_child os) J"
proof -
  have ask: "takes J (ask os (WaitChild pid 3)) J" for pid by (auto intro!: takes_ask waits)
  have body: "takes J (pseq (ask os (Poll pid)) (\<lambda>r. pseq (insist (r \<noteq> Raised)) (\<lambda>_.
      pseq (if r = Expired then pseq (ask os (KillChild pid)) (\<lambda>k. insist (k \<noteq> Raised)) else pret ()) (\<lambda>_.
      pseq (ask os (WaitChild pid 3)) (\<lambda>w. if w = Expired then pfail TimedOut else insist (w \<noteq> Raised)))))) J" for pid
    by (intro takes_intros ask) (simp_all add: plain_call_def)
  show ?thesis using takesD [OF body] by (auto simp: takes_def reap_child_def split: option.splits)
qed

end

locale calls_variables = calls +
  assumes variables: "J s \<Longrightarrow> J (s\<lparr>sc_job := j\<rparr>)" "J s \<Longrightarrow> J (s\<lparr>sc_process := p\<rparr>)"
begin

lemma keeps_set_job [takes_intros]: "takes J (set_job j) J"
  by (simp add: takes_def set_job_def variables)

lemma keeps_windows_job: "takes J (windows_job os) J"
  unfolding windows_job_def by (intro takes_intros) (simp_all add: plain_call_def)

lemma keeps_start_process [takes_intros]: "takes J (start_process os command) J"
proof -
  have "J (s\<lparr>sc_log := sc_log s @ [(StartProcess command (os_windows os), r)]\<rparr>)" if "J s" for s r
    using that by (intro plain) (simp_all add: plain_call_def)
  then show ?thesis using variables(2) by (fastforce simp: takes_def start_process_def ask_def Let_def split: reply.splits)
qed

lemma keeps_release_tree: "takes J (release_tree os) J"
proof -
  have "takes J (close_job os job) J" for job
    unfolding close_job_def by (intro keeps_terminate takes_intros) (simp_all add: plain_call_def)
  then show ?thesis using keeps_signal unfolding takes_def release_tree_def by (auto split: option.splits)
qed

end

locale log_property = calls_waits + calls_variables
begin

lemma keeps_execute:
  assumes "takes P (start_owned os command) J" "P (s\<lparr>sc_job := None, sc_process := None\<rparr>)"
  shows "J (snd (execute_command os command timeout s))"
proof -
  have "takes P (run_owned os command timeout) J"
    unfolding run_owned_start by (rule takes_pseq [OF assms(1)]) (intro takes_intros)
  then have "takes P (pfinally (run_owned os command timeout) (pfinally (release_tree os) (reap_child os))) J"
    by (rule takes_pfinally) (intro takes_same_pfinally keeps_release_tree keeps_reap_child)
  then show ?thesis using assms(2) by (simp add: takes_def execute_command_def)
qed

end

section \<open>Nothing runs before it is owned\<close>

text \<open>\<open>resumes_only P log\<close>: whenever a thread is resumed, \<open>P\<close> holds of the calls before and of the handle.\<close>

definition resumes_only :: "(os_log \<Rightarrow> nat \<Rightarrow> bool) \<Rightarrow> os_log \<Rightarrow> bool" where
  "resumes_only P log \<longleftrightarrow> (\<forall>before t r after. log = before @ (ResumeThread t, r) # after \<longrightarrow> P before t)"

text \<open>The calls of a walk that has just opened the first thread listed under the identifier of the process.\<close>

definition first_thread :: "nat \<Rightarrow> nat \<Rightarrow> (nat \<times> nat) list \<Rightarrow> os_log \<Rightarrow> nat \<Rightarrow> bool" where
  "first_thread snapshot pid entries before t \<longleftrightarrow>
     (\<exists>rs thread_id. before = map (\<lambda>r. (NextThread snapshot, r)) rs @ [(OpenThread thread_id, Done t)] \<and> t \<noteq> 0 \<and>
        length rs < length entries \<and> entries ! length rs = (pid, thread_id) \<and> (\<forall>i < length rs. fst (entries ! i) \<noteq> pid))"

text \<open>
  The calls before a command's thread may be resumed: a limited job was created, the command was started suspended, that very
  process was put into that very job, and the handle is the one of the first thread that a snapshot taken after this lists
  under the identifier of that process.
\<close>

definition owned_before :: "sc_os \<Rightarrow> pystr list \<Rightarrow> os_log \<Rightarrow> nat \<Rightarrow> bool" where
  "owned_before os command before t \<longleftrightarrow>
     (\<exists>loaded job limited pid h v c snapshot first walk.
        let log = [(LoadKernel, loaded), (CreateJob, Done job), (SetLimits job, Done limited), (StartProcess command True, Done pid),
              (OpenProcess pid, Done h), (AssignProcess job h, Done v), (CloseHandle h, c), (Snapshot, snapshot)] in
        os_windows os \<and> before = log @ (FirstThread (number snapshot), first) # walk \<and>
        job \<noteq> 0 \<and> limited \<noteq> 0 \<and> h \<noteq> 0 \<and> v \<noteq> 0 \<and> number snapshot \<noteq> INVALID_HANDLE \<and>
        first_thread (number snapshot) pid (os_threads os log) walk t)"

lemma resumes_only_append:
  assumes "resumes_only P log" "\<And>t. c = ResumeThread t \<Longrightarrow> P log t"
  shows "resumes_only P (log @ [(c, r)])"
  unfolding resumes_only_def
proof (intro allI impI)
  fix before t r' after assume "log @ [(c, r)] = before @ (ResumeThread t, r') # after"
  then show "P before t" using assms unfolding resumes_only_def
    by (cases after rule: rev_cases) auto
qed

lemma resumes_only_Nil: "resumes_only P []"
  by (simp add: resumes_only_def)

lemma resumes_only_mono: "resumes_only P log \<Longrightarrow> (\<And>before t. P before t \<Longrightarrow> Q before t) \<Longrightarrow> resumes_only Q log"
  by (auto simp: resumes_only_def)

lemma resumes_only_none:
  assumes "\<forall>x \<in> set log. \<forall>t. fst x \<noteq> ResumeThread t"
  shows "resumes_only P log"
  using assms by (force simp: resumes_only_def)

lemma resumes_only_after:
  assumes "\<forall>x \<in> set log. \<forall>t. fst x \<noteq> ResumeThread t" "resumes_only (\<lambda>before. P (log @ before)) rest"
  shows "resumes_only P (log @ rest)"
  unfolding resumes_only_def
proof (intro allI impI)
  fix before t r after assume split: "log @ rest = before @ (ResumeThread t, r) # after"
  then obtain us where "(log = before @ us \<and> us @ rest = (ResumeThread t, r) # after) \<or>
      (log @ us = before \<and> rest = us @ (ResumeThread t, r) # after)"
    by (auto simp: append_eq_append_conv2)
  then show "P before t"
  proof
    assume "log = before @ us \<and> us @ rest = (ResumeThread t, r) # after"
    then have "us = []" "rest = (ResumeThread t, r) # after" "log = before" using assms(1) by (cases us; auto)+
    then show ?thesis using assms(2) unfolding resumes_only_def by fastforce
  next
    assume "log @ us = before \<and> rest = us @ (ResumeThread t, r) # after"
    then show ?thesis using assms(2) unfolding resumes_only_def by blast
  qed
qed

interpretation resumed: log_property "\<lambda>s. resumes_only P (sc_log s)" for P
  by unfold_locales (auto intro!: resumes_only_append simp: plain_call_def)

lemma first_thread_Cons:
  "first_thread snapshot pid entries before t \<Longrightarrow> fst entry \<noteq> pid \<Longrightarrow>
     first_thread snapshot pid (entry # entries) ((NextThread snapshot, r) # before) t"
  unfolding first_thread_def
  by (elim exE conjE, rule_tac x = "r # rs" in exI, rule_tac x = thread_id in exI) (auto simp: nth_Cons split: nat.split)

lemma Done_number: "number r \<noteq> 0 \<Longrightarrow> r = Done (number r)"
  by (simp add: number_def split: reply.splits)

lemma resume_thread_log:
  "\<exists>rest. sc_log (snd (resume_thread os thread_id s)) = sc_log s @ rest \<and>
     resumes_only (\<lambda>before t. before = [(OpenThread thread_id, Done t)] \<and> t \<noteq> 0) rest"
proof -
  define a where "a = os_reply os (sc_log s) (OpenThread thread_id)"
  define b where "b = os_reply os (sc_log s @ [(OpenThread thread_id, a)]) (ResumeThread (number a))"
  define c where "c = os_reply os (sc_log s @ [(OpenThread thread_id, a), (ResumeThread (number a), b)]) (CloseHandle (number a))"
  have run: "sc_log (snd (resume_thread os thread_id s)) = sc_log s @
      (if number a = 0 then [(OpenThread thread_id, a)]
       else [(OpenThread thread_id, a), (ResumeThread (number a), b), (CloseHandle (number a), c)])"
    by (simp add: resume_thread_def closing_def pfinally_def pseq_def kernel_apply Let_def insist_def ensure_def
        a_def [symmetric] b_def [symmetric] c_def [symmetric])
  have "resumes_only (\<lambda>before t. before = [(OpenThread thread_id, Done t)] \<and> t \<noteq> 0)
      [(OpenThread thread_id, Done n), (ResumeThread n, b), (CloseHandle n, c)]" if "n \<noteq> 0" for n
    using that by (auto simp: resumes_only_def Cons_eq_append_conv)
  moreover have "resumes_only Q [(OpenThread thread_id, a)]" for Q by (rule resumes_only_none) simp
  ultimately have "resumes_only (\<lambda>before t. before = [(OpenThread thread_id, Done t)] \<and> t \<noteq> 0)
      (if number a = 0 then [(OpenThread thread_id, a)]
       else [(OpenThread thread_id, a), (ResumeThread (number a), b), (CloseHandle (number a), c)])"
    using resumes_only_none [of "[(OpenThread thread_id, a)]"] by (cases a) (auto simp: number_def)
  then show ?thesis using run by (intro exI conjI)
qed

lemma walk_threads_log:
  "\<exists>rest. sc_log (snd (walk_threads os snapshot pid entries s)) = sc_log s @ rest \<and>
     resumes_only (first_thread snapshot pid entries) rest"
proof (induction entries arbitrary: s)
  case Nil
  show ?case by (simp add: resumes_only_Nil)
next
  case (Cons entry entries)
  show ?case
  proof (cases "fst entry = pid")
    case True
    obtain rest where rest: "sc_log (snd (resume_thread os (snd entry) s)) = sc_log s @ rest"
      "resumes_only (\<lambda>before t. before = [(OpenThread (snd entry), Done t)] \<and> t \<noteq> 0) rest"
      using resume_thread_log by blast
    have "first_thread snapshot pid (entry # entries) [(OpenThread (snd entry), Done t)] t" if "t \<noteq> 0" for t
      unfolding first_thread_def using that True by (intro exI [of _ "[]"] exI [of _ "snd entry"]) auto
    then have "resumes_only (first_thread snapshot pid (entry # entries)) rest" using resumes_only_mono [OF rest(2)] by blast
    then show ?thesis using rest(1) True by simp
  next
    case False
    define r where "r = os_reply os (sc_log s) (NextThread snapshot)"
    let ?s = "s\<lparr>sc_log := sc_log s @ [(NextThread snapshot, r)]\<rparr>"
    obtain rest where rest: "sc_log (snd (walk_threads os snapshot pid entries ?s)) = sc_log ?s @ rest"
      "resumes_only (first_thread snapshot pid entries) rest" using Cons.IH by blast
    have "resumes_only (first_thread snapshot pid (entry # entries)) ([(NextThread snapshot, r)] @ rest)"
      by (rule resumes_only_after) (use rest(2) first_thread_Cons [OF _ False] in \<open>auto simp: resumes_only_def\<close>)
    then show ?thesis using rest(1) False
      by (simp add: pseq_def kernel_apply r_def [symmetric] Let_def)
  qed
qed

lemma find_and_resume_log:
  "\<exists>rest. sc_log (snd (find_and_resume os pid s)) = sc_log s @ rest \<and>
     resumes_only (\<lambda>before t. \<exists>snapshot first walk. before = (Snapshot, snapshot) # (FirstThread (number snapshot), first) # walk \<and>
       number snapshot \<noteq> INVALID_HANDLE \<and>
       first_thread (number snapshot) pid (os_threads os (sc_log s @ [(Snapshot, snapshot)])) walk t) rest"
    (is "\<exists>rest. _ \<and> resumes_only ?P rest")
proof -
  define a where "a = os_reply os (sc_log s) Snapshot"
  define b where "b = os_reply os (sc_log s @ [(Snapshot, a)]) (FirstThread (number a))"
  let ?entries = "os_threads os (sc_log s @ [(Snapshot, a)])"
  let ?s = "s\<lparr>sc_log := sc_log s @ [(Snapshot, a), (FirstThread (number a), b)]\<rparr>"
  obtain walk where walk: "sc_log (snd (walk_threads os (number a) pid ?entries ?s)) = sc_log ?s @ walk"
    "resumes_only (first_thread (number a) pid ?entries) walk" using walk_threads_log by blast
  obtain r s1 where s1: "walk_threads os (number a) pid ?entries ?s = (r, s1)" by (metis surj_pair)
  define c where "c = os_reply os (sc_log s1) (CloseHandle (number a))"
  have run: "sc_log (snd (find_and_resume os pid s)) = sc_log s @
      (if number a = INVALID_HANDLE then [(Snapshot, a)]
       else ([(Snapshot, a), (FirstThread (number a), b)] @ walk) @ [(CloseHandle (number a), c)])"
    using walk(1) s1 by (simp add: find_and_resume_def closing_def pfinally_def pseq_def kernel_apply threads_of_def Let_def
        insist_def ensure_def a_def [symmetric] b_def [symmetric] c_def)
  have "resumes_only ?P ([(Snapshot, a), (FirstThread (number a), b)] @ walk)" if "number a \<noteq> INVALID_HANDLE"
    using resumes_only_mono [OF walk(2)] that by (intro resumes_only_after) auto
  then have "resumes_only ?P (([(Snapshot, a), (FirstThread (number a), b)] @ walk) @ [(CloseHandle (number a), c)])"
    if "number a \<noteq> INVALID_HANDLE"
    using that by (intro resumes_only_append) simp_all
  moreover have "resumes_only ?P [(Snapshot, a)]" by (rule resumes_only_none) simp
  ultimately have "resumes_only ?P (if number a = INVALID_HANDLE then [(Snapshot, a)]
       else ([(Snapshot, a), (FirstThread (number a), b)] @ walk) @ [(CloseHandle (number a), c)])" by simp
  then show ?thesis using run by (intro exI conjI)
qed

lemma assign_and_resume_log:
  "\<exists>rest. sc_log (snd (assign_and_resume os job pid s)) = sc_log s @ rest \<and>
     resumes_only (\<lambda>before t. \<exists>h v c snapshot first walk.
       let log = [(OpenProcess pid, Done h), (AssignProcess job h, Done v), (CloseHandle h, c), (Snapshot, snapshot)] in
       before = log @ (FirstThread (number snapshot), first) # walk \<and> h \<noteq> 0 \<and> v \<noteq> 0 \<and> number snapshot \<noteq> INVALID_HANDLE \<and>
       first_thread (number snapshot) pid (os_threads os (sc_log s @ log)) walk t) rest"
    (is "\<exists>rest. _ \<and> resumes_only ?P rest")
proof -
  define a where "a = os_reply os (sc_log s) (OpenProcess pid)"
  define b where "b = os_reply os (sc_log s @ [(OpenProcess pid, a)]) (AssignProcess job (number a))"
  define c where "c = os_reply os (sc_log s @ [(OpenProcess pid, a), (AssignProcess job (number a), b)]) (CloseHandle (number a))"
  let ?log = "[(OpenProcess pid, a), (AssignProcess job (number a), b), (CloseHandle (number a), c)]"
  let ?s = "s\<lparr>sc_log := sc_log s @ ?log\<rparr>"
  obtain rest where rest: "sc_log (snd (find_and_resume os pid ?s)) = sc_log ?s @ rest"
     "resumes_only (\<lambda>before t. \<exists>snapshot first walk. before = (Snapshot, snapshot) # (FirstThread (number snapshot), first) # walk \<and>
       number snapshot \<noteq> INVALID_HANDLE \<and>
       first_thread (number snapshot) pid (os_threads os (sc_log ?s @ [(Snapshot, snapshot)])) walk t) rest"
    using find_and_resume_log by blast
  have run: "sc_log (snd (assign_and_resume os job pid s)) = sc_log s @
      (if number a = 0 then [(OpenProcess pid, a)] else if number b = 0 then ?log else ?log @ rest)"
    using rest(1) by (simp add: assign_and_resume_def closing_def pfinally_def pseq_def kernel_apply Let_def insist_def ensure_def
        a_def [symmetric] b_def [symmetric] c_def [symmetric])
  have none: "resumes_only ?P [(OpenProcess pid, a)]" "resumes_only ?P ?log" by (rule resumes_only_none; simp)+
  have "resumes_only ?P (?log @ rest)" if n: "number a \<noteq> 0" "number b \<noteq> 0"
  proof (rule resumes_only_after)
    show "resumes_only (\<lambda>before. ?P (?log @ before)) rest"
      using resumes_only_mono [OF rest(2)] Done_number [OF n(1)] Done_number [OF n(2)] n
      by (rule_tac resumes_only_mono [OF rest(2)]) (force simp: Let_def)
  qed simp
  then have "resumes_only ?P (if number a = 0 then [(OpenProcess pid, a)] else if number b = 0 then ?log else ?log @ rest)"
    using none by simp
  then show ?thesis using run by (intro exI conjI)
qed

lemma windows_job_run:
  assumes "sc_job s = None"
  shows "(\<exists>log. windows_job os s = (Inl Broken, s\<lparr>sc_log := sc_log s @ log\<rparr>) \<and> (\<forall>x \<in> set log. \<forall>t. fst x \<noteq> ResumeThread t)) \<or>
    (\<exists>loaded job limited. job \<noteq> 0 \<and> limited \<noteq> 0 \<and> windows_job os s = (Inr (), s\<lparr>sc_job := Some job,
       sc_log := sc_log s @ [(LoadKernel, loaded), (CreateJob, Done job), (SetLimits job, Done limited)]\<rparr>))"
proof -
  define a where "a = os_reply os (sc_log s) LoadKernel"
  define b where "b = os_reply os (sc_log s @ [(LoadKernel, a)]) CreateJob"
  define c where "c = os_reply os (sc_log s @ [(LoadKernel, a), (CreateJob, b)]) (SetLimits (number b))"
  define e where "e = os_reply os (sc_log s @ [(LoadKernel, a), (CreateJob, b), (SetLimits (number b), c)]) (CloseHandle (number b))"
  let ?full = "[(LoadKernel, a), (CreateJob, b), (SetLimits (number b), c)]"
  have run: "windows_job os s =
      (if number a = 0 then (Inl Broken, s\<lparr>sc_log := sc_log s @ [(LoadKernel, a)]\<rparr>)
       else if number b = 0 then (Inl Broken, s\<lparr>sc_log := sc_log s @ [(LoadKernel, a), (CreateJob, b)]\<rparr>)
       else if number c = 0 then (Inl Broken, s\<lparr>sc_log := sc_log s @ ?full @ [(CloseHandle (number b), e)]\<rparr>)
       else (Inr (), s\<lparr>sc_job := Some (number b), sc_log := sc_log s @ ?full\<rparr>))"
    by (simp add: windows_job_def pseq_def kernel_apply Let_def insist_def ensure_def set_job_def
        a_def [symmetric] b_def [symmetric] c_def [symmetric] e_def [symmetric])
  show ?thesis
  proof (cases "number a = 0 \<or> number b = 0 \<or> number c = 0")
    case True
    have none: "\<forall>x \<in> set log. \<forall>t. fst x \<noteq> ResumeThread t"
      if "log \<in> {[(LoadKernel, a)], [(LoadKernel, a), (CreateJob, b)], ?full @ [(CloseHandle (number b), e)]}" for log
      using that by auto
    from True run have "\<exists>log \<in> {[(LoadKernel, a)], [(LoadKernel, a), (CreateJob, b)], ?full @ [(CloseHandle (number b), e)]}.
        windows_job os s = (Inl Broken, s\<lparr>sc_log := sc_log s @ log\<rparr>)" by auto
    with none show ?thesis by blast
  next
    case False
    then have "b = Done (number b)" "c = Done (number c)" using Done_number by simp_all
    with False run show ?thesis by (intro disjI2 exI [of _ a] exI [of _ "number b"] exI [of _ "number c"]) simp
  qed
qed

lemma start_process_job: "sc_job (snd (start_process os command s)) = sc_job s"
  by (auto simp: start_process_def ask_def Let_def split: reply.splits)

lemma start_process_log:
  "sc_log (snd (start_process os command s)) = sc_log s @ [(StartProcess command (os_windows os), os_reply os (sc_log s) (StartProcess command (os_windows os)))]"
  "fst (start_process os command s) = Inr pid \<Longrightarrow> os_reply os (sc_log s) (StartProcess command (os_windows os)) = Done pid"
  by (auto simp: start_process_def ask_def Let_def split: reply.splits)

lemma start_owned_posix:
  assumes "\<not> os_windows os" "sc_job s = None" "sc_log s = []"
  shows "resumes_only P (sc_log (snd (start_owned os command s)))"
proof -
  have "start_owned os command s = start_process os command s"
    using assms by (simp add: start_owned_def pseq_def start_process_def ask_def Let_def split: reply.splits)
  then show ?thesis using assms(3) by (auto simp: start_process_log intro!: resumes_only_none)
qed

lemma start_owned_windows:
  assumes "os_windows os" "sc_job s = None" "sc_log s = []"
  shows "resumes_only (owned_before os command) (sc_log (snd (start_owned os command s)))"
  using windows_job_run [OF assms(2), of os]
proof (elim disjE exE conjE)
  fix log assume "windows_job os s = (Inl Broken, s\<lparr>sc_log := sc_log s @ log\<rparr>)" "\<forall>x \<in> set log. \<forall>t. fst x \<noteq> ResumeThread t"
  then show ?thesis using assms by (simp add: start_owned_def pseq_def resumes_only_none)
next
  fix loaded job limited
  let ?log = "[(LoadKernel, loaded), (CreateJob, Done job), (SetLimits job, Done limited)]"
  let ?s = "s\<lparr>sc_job := Some job, sc_log := sc_log s @ ?log\<rparr>"
  assume job: "job \<noteq> 0" "limited \<noteq> 0" "windows_job os s = (Inr (), ?s)"
  obtain r s1 where s1: "start_process os command ?s = (r, s1)" by (metis surj_pair)
  show ?thesis
  proof (cases r)
    case (Inl e)
    then have "snd (start_owned os command s) = s1" using assms(1) job(3) s1 by (simp add: start_owned_def pseq_def)
    then show ?thesis using start_process_log(1) [of os command ?s] s1 assms(3) by (simp add: resumes_only_none)
  next
    case (Inr pid)
    have log1: "sc_log s1 = ?log @ [(StartProcess command True, Done pid)]" "sc_job s1 = Some job"
      using start_process_log [of os command ?s] start_process_job [of os command ?s] s1 Inr assms by simp_all
    obtain rest where rest: "sc_log (snd (assign_and_resume os job pid s1)) = sc_log s1 @ rest"
      "resumes_only (\<lambda>before t. \<exists>h v c snapshot first walk.
         let log = [(OpenProcess pid, Done h), (AssignProcess job h, Done v), (CloseHandle h, c), (Snapshot, snapshot)] in
         before = log @ (FirstThread (number snapshot), first) # walk \<and> h \<noteq> 0 \<and> v \<noteq> 0 \<and> number snapshot \<noteq> INVALID_HANDLE \<and>
         first_thread (number snapshot) pid (os_threads os (sc_log s1 @ log)) walk t) rest"
      using assign_and_resume_log by blast
    have "resumes_only (owned_before os command) (sc_log s1 @ rest)"
    proof (rule resumes_only_after)
      show "resumes_only (\<lambda>before. owned_before os command (sc_log s1 @ before)) rest"
        by (rule resumes_only_mono [OF rest(2)]) (use assms(1) job(1,2) log1(1) in \<open>auto simp: owned_before_def Let_def\<close>)
    qed (simp add: log1)
    moreover have "sc_log (snd (start_owned os command s)) = sc_log s1 @ rest"
      using rest(1) assms(1) job(3) s1 Inr log1(2) by (auto simp: start_owned_def pseq_def split: prod.splits sum.splits)
    ultimately show ?thesis by simp
  qed
qed

lemma resumed_owned: "sc_log s = [] \<Longrightarrow> resumes_only (owned_before os command) (sc_log (snd (execute_command os command timeout s)))"
proof (rule resumed.keeps_execute [where P = "\<lambda>s. sc_job s = None \<and> sc_log s = []"])
  show "takes (\<lambda>s. sc_job s = None \<and> sc_log s = []) (start_owned os command) (\<lambda>s. resumes_only (owned_before os command) (sc_log s))"
    unfolding takes_def using start_owned_posix start_owned_windows by blast
qed simp

section \<open>Bounded waiting\<close>

definition wait_of :: "os_call \<Rightarrow> nat" where
  "wait_of c = (case c of Communicate t \<Rightarrow> nat t | WaitChild _ t \<Rightarrow> nat t | _ \<Rightarrow> 0)"

definition waited :: "os_log \<Rightarrow> nat" where
  "waited log = (\<Sum>(c, r) \<leftarrow> log. wait_of c)"

interpretation budget: calls_resume "\<lambda>s. waited (sc_log s) \<le> k" for k
  by unfold_locales (auto simp: waited_def wait_of_def plain_call_def split: os_call.splits)

interpretation budget: calls_variables "\<lambda>s. waited (sc_log s) \<le> k" for k
  by unfold_locales simp_all

text \<open>\<open>costs n m\<close>: \<open>m\<close> waits for at most \<open>n\<close> seconds, whatever its outcome.\<close>

named_theorems costs_intros \<open>rules that add up waits\<close>

definition costs :: "nat \<Rightarrow> 'a command \<Rightarrow> bool" where
  "costs n m \<longleftrightarrow> (\<forall>k. takes (\<lambda>s. waited (sc_log s) \<le> k) m (\<lambda>s. waited (sc_log s) \<le> k + n))"

lemma costs_pseq [costs_intros]: "costs a m \<Longrightarrow> (\<And>x. costs b (f x)) \<Longrightarrow> costs (a + b) (pseq m f)"
  unfolding costs_def by (auto intro!: takes_pseq [where R = "\<lambda>s. waited (sc_log s) \<le> k + a" for k] simp: add.assoc [symmetric])

lemma costs_pfinally [costs_intros]: "costs a m \<Longrightarrow> costs b f \<Longrightarrow> costs (a + b) (pfinally m f)"
  unfolding costs_def by (auto intro!: takes_pfinally [where R = "\<lambda>s. waited (sc_log s) \<le> k + a" for k] simp: add.assoc [symmetric])

lemma costs_basics [costs_intros]: "costs n (pret x)" "costs n (pfail e)" "costs n (insist b)"
  by (auto simp: costs_def takes_def insist_def)

lemma costs_if [costs_intros]: "costs n m \<Longrightarrow> costs n m' \<Longrightarrow> costs n (if b then m else m')"
  by simp

lemma costs_communicate [costs_intros]: "costs (nat t) (communicate os t)"
  by (auto simp: costs_def takes_def communicate_def ask_def Let_def waited_def wait_of_def split: reply.splits)

lemma costs_ask: "costs (wait_of c) (ask os c)"
  by (auto simp: costs_def waited_def intro!: takes_ask)

lemma costs_nothing [costs_intros]:
  "costs 0 (stop_tree os pid signum)" "costs 0 (windows_job os)" "costs 0 (start_process os command)" "costs 0 (release_tree os)"
  "costs 0 (\<lambda>s. case sc_job s of Some job \<Rightarrow> assign_and_resume os job pid s | None \<Rightarrow> pret () s)"
  using budget.keeps_stop_tree budget.keeps_windows_job budget.keeps_start_process budget.keeps_release_tree budget.keeps_assign
  by (simp_all add: costs_def)

lemma costs_after_timeout: "costs 6 (after_timeout os pid)"
proof -
  have "costs (0 + (nat 3 + ((0 + (nat 3 + 0)) + 0))) (after_timeout os pid)"
    unfolding after_timeout_def by (intro costs_intros)
  then show ?thesis by simp
qed

lemma costs_run_owned: "costs (nat timeout + 6) (run_owned os command timeout)"
proof -
  have "costs 6 (case t of Ended code out err \<Rightarrow> pret (code, out, err) | TalkExpired \<Rightarrow> after_timeout os pid)" for t pid
    by (cases t) (simp_all only: talk.case costs_basics costs_after_timeout)
  then have "costs (0 + (0 + (0 + (nat timeout + 6)))) (run_owned os command timeout)"
    unfolding run_owned_def by (intro costs_intros)
  then show ?thesis by simp
qed

lemma costs_reap_child: "costs 3 (reap_child os)"
proof -
  have plain: "costs 0 (ask os (Poll pid))" "costs 0 (ask os (KillChild pid))" "costs 3 (ask os (WaitChild pid 3))" for pid
    using costs_ask [of "Poll pid"] costs_ask [of "KillChild pid"] costs_ask [of "WaitChild pid 3"] by (simp_all add: wait_of_def)
  have body: "costs (0 + (0 + ((0 + 0) + (3 + 0)))) (pseq (ask os (Poll pid)) (\<lambda>r. pseq (insist (r \<noteq> Raised)) (\<lambda>_.
      pseq (if r = Expired then pseq (ask os (KillChild pid)) (\<lambda>k. insist (k \<noteq> Raised)) else pret ()) (\<lambda>_.
      pseq (ask os (WaitChild pid 3)) (\<lambda>w. if w = Expired then pfail TimedOut else insist (w \<noteq> Raised))))))" for pid
    by (intro costs_intros plain)
  show ?thesis unfolding costs_def takes_def
  proof (intro allI impI)
    fix k and s :: sc_state assume "waited (sc_log s) \<le> k"
    then show "waited (sc_log (snd (reap_child os s))) \<le> k + 3"
      using body unfolding costs_def takes_def reap_child_def by (cases "sc_process s") auto
  qed
qed

lemma costs_execute: "costs (nat timeout + 9) (execute_command os command timeout)"
proof -
  have "costs ((nat timeout + 6) + (0 + 3)) (pfinally (run_owned os command timeout) (pfinally (release_tree os) (reap_child os)))"
    by (intro costs_intros costs_run_owned costs_reap_child)
  then have run: "takes (\<lambda>s. waited (sc_log s) \<le> k) (pfinally (run_owned os command timeout) (pfinally (release_tree os) (reap_child os)))
      (\<lambda>s. waited (sc_log s) \<le> k + (nat timeout + 6 + (0 + 3)))" for k
    unfolding costs_def by blast
  show ?thesis unfolding costs_def takes_def
  proof (intro allI impI)
    fix k and s :: sc_state assume "waited (sc_log s) \<le> k"
    then show "waited (sc_log (snd (execute_command os command timeout s))) \<le> k + (nat timeout + 9)"
      using takesD [OF run, of "s\<lparr>sc_job := None, sc_process := None\<rparr>" k] by (simp add: execute_command_def)
  qed
qed

section \<open>The tree is stopped\<close>

text \<open>
  The owned tree is stopped, the job that was created for it by its handle, which is closed, and a group by its leader, the
  process that was started; then the child is looked at and killed if it still runs.
\<close>

definition stopped :: "sc_os \<Rightarrow> pystr list \<Rightarrow> nat \<Rightarrow> os_log \<Rightarrow> bool" where
  "stopped os command pid log \<longleftrightarrow>
     (\<exists>before killers r rest. log = before @ killers @ (Poll pid, r) # rest \<and>
        (StartProcess command (os_windows os), Done pid) \<in> set before \<and>
        (if os_windows os
         then \<exists>job a b. (CreateJob, Done job) \<in> set before \<and> killers = [(TerminateJob job, a), (CloseHandle job, b)]
         else \<exists>a. killers = [(SignalGroup pid 9, a)]) \<and>
        (r = Expired \<longrightarrow> (\<exists>k after. rest = (KillChild pid, k) # after)))"

interpretation variables: calls_resume "\<lambda>s. sc_job s = j \<and> sc_process s = p \<and> A \<subseteq> set (sc_log s)" for j p A
  by unfold_locales auto

interpretation variables: calls_waits "\<lambda>s. sc_job s = j \<and> sc_process s = p \<and> A \<subseteq> set (sc_log s)" for j p A
  by unfold_locales auto

text \<open>The variables \<open>job\<close> and \<open>process\<close> hold what was created and started.\<close>

definition variables_agree :: "sc_os \<Rightarrow> pystr list \<Rightarrow> sc_state \<Rightarrow> bool" where
  "variables_agree os command s \<longleftrightarrow>
     (\<forall>pid. sc_process s = Some pid \<longrightarrow> (StartProcess command (os_windows os), Done pid) \<in> set (sc_log s) \<and>
        (if os_windows os then \<exists>job. sc_job s = Some job \<and> (CreateJob, Done job) \<in> set (sc_log s) else sc_job s = None))"

lemma keeps_agree:
  assumes "\<And>j p A. takes (\<lambda>s. sc_job s = j \<and> sc_process s = p \<and> A \<subseteq> set (sc_log s)) m
    (\<lambda>s. sc_job s = j \<and> sc_process s = p \<and> A \<subseteq> set (sc_log s))"
  shows "takes (variables_agree os command) m (variables_agree os command)"
  unfolding takes_def
proof (intro allI impI)
  fix s assume "variables_agree os command s"
  moreover have "sc_job (snd (m s)) = sc_job s \<and> sc_process (snd (m s)) = sc_process s \<and> set (sc_log s) \<subseteq> set (sc_log (snd (m s)))"
    by (rule takesD [OF assms]) simp
  ultimately show "variables_agree os command (snd (m s))" unfolding variables_agree_def subset_iff by (cases "os_windows os") (simp_all, (blast|metis)+)
qed

lemma windows_job_Inr: "windows_job os s = (Inr x, s') \<Longrightarrow> sc_job s = None \<Longrightarrow> \<exists>job. sc_job s' = Some job \<and> (CreateJob, Done job) \<in> set (sc_log s')"
  using windows_job_run [of s os] by auto

lemma windows_job_process: "sc_process (snd (windows_job os s)) = sc_process s"
  by (simp add: windows_job_def pseq_def kernel_apply Let_def insist_def ensure_def set_job_def)

lemma start_process_process:
  "fst (start_process os command s) = Inl e \<Longrightarrow> sc_process (snd (start_process os command s)) = sc_process s"
  "fst (start_process os command s) = Inr pid \<Longrightarrow> sc_process (snd (start_process os command s)) = Some pid"
  by (auto simp: start_process_def ask_def Let_def split: reply.splits)

definition work_owned :: "sc_os \<Rightarrow> int \<Rightarrow> nat \<Rightarrow> (int \<times> bytes \<times> bytes) command" where
  "work_owned os timeout pid =
     pseq (\<lambda>s. case sc_job s of Some job \<Rightarrow> assign_and_resume os job pid s | None \<Rightarrow> pret () s) (\<lambda>_.
     pseq (communicate os timeout) (\<lambda>t.
     case t of Ended code out err \<Rightarrow> pret (code, out, err) | TalkExpired \<Rightarrow> after_timeout os pid))"

lemma run_owned_agree:
  assumes "sc_job s = None" "sc_process s = None"
  shows "variables_agree os command (snd (run_owned os command timeout s))"
proof -
  obtain r s1 where first: "(if os_windows os then windows_job os else pret ()) s = (r, s1)" by (metis surj_pair)
  have s1: "sc_process s1 = None"
    "r = Inr () \<Longrightarrow> if os_windows os then \<exists>job. sc_job s1 = Some job \<and> (CreateJob, Done job) \<in> set (sc_log s1) else sc_job s1 = None"
    using first assms windows_job_process [of os s] windows_job_Inr by (auto split: if_splits)
  obtain q s2 where second: "start_process os command s1 = (q, s2)" by (metis surj_pair)
  have work: "takes (variables_agree os command) (work_owned os timeout pid) (variables_agree os command)" for pid
    unfolding work_owned_def by (intro keeps_agree takes_intros variables.keeps_assign variables.keeps_communicate variables.keeps_after_timeout)
  have run: "run_owned os command timeout s =
      (case r of Inl e \<Rightarrow> (Inl e, s1) | Inr _ \<Rightarrow> (case q of Inl e \<Rightarrow> (Inl e, s2) | Inr pid \<Rightarrow> work_owned os timeout pid s2))"
    unfolding run_owned_def work_owned_def [symmetric]
    by (cases r) (simp_all add: pseq_def [of "if os_windows os then windows_job os else pret ()"] first
      pseq_def [of "start_process os command"] second)
  show ?thesis
  proof (cases r)
    case (Inl e)
    then show ?thesis using run s1 by (simp add: variables_agree_def)
  next
    case (Inr u)
    note started = start_process_log [of os command s1] start_process_job [of os command s1] start_process_process [of os command s1]
    have "variables_agree os command s2"
      using started s1(1) s1(2) [OF Inr [simplified]] second by (cases q) (auto simp: variables_agree_def split: if_splits)
    then show ?thesis using run Inr s1 takesD [OF work, of s2] started second by (cases q) simp_all
  qed
qed

lemma release_log:
  assumes "variables_agree os command s" "sc_process s = Some pid"
  shows "\<exists>killers. sc_log (snd (release_tree os s)) = sc_log s @ killers \<and> sc_process (snd (release_tree os s)) = Some pid \<and>
    (if os_windows os then \<exists>job a b. (CreateJob, Done job) \<in> set (sc_log s) \<and> killers = [(TerminateJob job, a), (CloseHandle job, b)]
     else \<exists>a. killers = [(SignalGroup pid 9, a)])"
proof (cases "sc_job s")
  case None
  then have "\<not> os_windows os" using assms by (auto simp: variables_agree_def)
  with None assms(2) show ?thesis
    by (simp add: release_tree_def signal_owned_group_def pseq_def ask_def Let_def insist_def ensure_def)
next
  case (Some job)
  then have "os_windows os" "(CreateJob, Done job) \<in> set (sc_log s)" using assms by (auto simp: variables_agree_def split: if_splits)
  with Some assms(2) show ?thesis
    by (simp add: release_tree_def close_job_def terminate_job_def pfinally_def pseq_def kernel_apply Let_def insist_def ensure_def set_job_def)
qed

lemma release_process: "sc_process (snd (release_tree os s)) = sc_process s"
  by (simp add: release_tree_def close_job_def terminate_job_def signal_owned_group_def pfinally_def pseq_def kernel_apply ask_def
    Let_def insist_def ensure_def set_job_def split: option.splits)

lemma reap_log:
  assumes "sc_process s = Some pid"
  shows "\<exists>r rest. sc_log (snd (reap_child os s)) = sc_log s @ (Poll pid, r) # rest \<and> sc_process (snd (reap_child os s)) = Some pid \<and>
    (r = Expired \<longrightarrow> (\<exists>k after. rest = (KillChild pid, k) # after))"
  using assms by (auto simp: reap_child_def pseq_def ask_def Let_def insist_def ensure_def)

lemma tree_stopped:
  assumes "sc_process (snd (execute_command os command timeout s)) = Some pid"
  shows "stopped os command pid (sc_log (snd (execute_command os command timeout s)))"
proof -
  define s0 where "s0 = s\<lparr>sc_job := None, sc_process := None\<rparr>"
  define s1 where "s1 = snd (run_owned os command timeout s0)"
  define s2 where "s2 = snd (release_tree os s1)"
  have final: "snd (execute_command os command timeout s) = snd (reap_child os s2)"
    by (simp add: execute_command_def s0_def [symmetric] pfinally_def s1_def s2_def split: prod.splits sum.splits)
  have agree: "variables_agree os command s1" unfolding s1_def by (rule run_owned_agree) (simp_all add: s0_def)
  show ?thesis
  proof (cases "sc_process s1")
    case None
    then have "sc_process (snd (reap_child os s2)) = None"
      unfolding s2_def using release_process [of os s1] by (simp add: reap_child_def)
    then show ?thesis using assms final by simp
  next
    case (Some child)
    obtain killers where k: "sc_log s2 = sc_log s1 @ killers" "sc_process s2 = Some child"
      "if os_windows os then \<exists>job a b. (CreateJob, Done job) \<in> set (sc_log s1) \<and> killers = [(TerminateJob job, a), (CloseHandle job, b)] else \<exists>a. killers = [(SignalGroup child 9, a)]"
      using release_log [OF agree Some] unfolding s2_def by blast
    obtain r rest where r: "sc_log (snd (reap_child os s2)) = sc_log s2 @ (Poll child, r) # rest"
      "sc_process (snd (reap_child os s2)) = Some child" "r = Expired \<longrightarrow> (\<exists>k after. rest = (KillChild child, k) # after)"
      using reap_log [OF k(2)] by blast
    have "child = pid" using assms r(2) unfolding final by simp
    moreover have "(StartProcess command (os_windows os), Done child) \<in> set (sc_log s1)" using agree Some by (simp add: variables_agree_def)
    moreover have "sc_log (snd (reap_child os s2)) = sc_log s1 @ killers @ (Poll child, r) # rest" using r(1) k(1) by simp
    ultimately show ?thesis using k(3) r(3) unfolding stopped_def final by blast
  qed
qed

definition fresh_state :: "disk \<Rightarrow> sc_state" where
  "fresh_state d = \<lparr>sc_log = [], sc_job = None, sc_process = None, sc_disk = d\<rparr>"

text \<open>
  C38. However the command, the kernel and the waits behave, when \<open>execute_command\<close> is over every handle it opened has been
  closed exactly once. A thread is resumed at most once, and only when the command was started suspended, that process was put
  into the job created and limited for it, and the thread is the first one a later snapshot lists for that process. A
  started process had its whole tree stopped, by that job or by its own group, and was then killed itself if it still ran.
\<close>

theorem execute_command_owned:
  "let s = snd (execute_command os command timeout (fresh_state d)) in
     opened (sc_log s) = closed (sc_log s) \<and> resumes_only (owned_before os command) (sc_log s) \<and>
     (case sc_process s of None \<Rightarrow> True | Some pid \<Rightarrow> stopped os command pid (sc_log s))"
proof -
  have "opened (sc_log (fresh_state d)) = closed (sc_log (fresh_state d))" "sc_log (fresh_state d) = []"
    by (simp_all add: fresh_state_def)
  then show ?thesis
    using handles_returned resumed_owned tree_stopped [of os command timeout]
    by (simp add: Let_def split: option.splits)
qed

text \<open>A run on Windows in which the process has the second thread of the snapshot: it is resumed, after all of this.\<close>

definition sample_windows :: sc_os where
  "sample_windows = \<lparr>os_windows = True, os_reply = (\<lambda>log c. Done (case c of OpenThread _ \<Rightarrow> 9 | ResumeThread _ \<Rightarrow> 1 | _ \<Rightarrow> 7)),
     os_threads = (\<lambda>_. [(4, 40), (7, 70), (7, 71)]), os_output = (\<lambda>_. ([], [])), os_returncode = (\<lambda>_. 0), os_effect = (\<lambda>_ d. d)\<rparr>"

lemmas execute_defs = execute_command_def run_owned_def windows_job_def start_process_def assign_and_resume_def find_and_resume_def
  threads_of_def resume_thread_def closing_def communicate_def release_tree_def close_job_def terminate_job_def signal_owned_group_def
  reap_child_def pfinally_def pseq_def kernel_def ask_def Let_def insist_def ensure_def set_job_def number_def

theorem execute_command_owned_witness:
  "let log = sc_log (snd (execute_command sample_windows [lit ''pytest''] 900 (fresh_state Map.empty))) in
     opened log = closed log \<and> stopped sample_windows [lit ''pytest''] 7 log \<and> (OpenThread 70, Done 9) \<in> set log \<and>
     (\<exists>before r after. log = before @ (ResumeThread 9, r) # after \<and> owned_before sample_windows [lit ''pytest''] before 9)"
proof -
  let ?s = "snd (execute_command sample_windows [lit ''pytest''] 900 (fresh_state Map.empty))"
  have run: "sc_process ?s = Some 7" "(ResumeThread 9, Done 1) \<in> set (sc_log ?s)" "(OpenThread 70, Done 9) \<in> set (sc_log ?s)"
    by (simp_all add: execute_defs sample_windows_def fresh_state_def INVALID_HANDLE_def)
  then obtain before after where split: "sc_log ?s = before @ (ResumeThread 9, Done 1) # after" by (meson split_list)
  have owned: "opened (sc_log ?s) = closed (sc_log ?s)" "resumes_only (owned_before sample_windows [lit ''pytest'']) (sc_log ?s)"
    "stopped sample_windows [lit ''pytest''] 7 (sc_log ?s)"
    using execute_command_owned [of sample_windows "[lit ''pytest'']" 900 Map.empty] run(1) by (simp_all add: Let_def)
  then have "owned_before sample_windows [lit ''pytest''] before 9" using split unfolding resumes_only_def by blast
  then show ?thesis unfolding Let_def using owned run(3) split by (intro conjI exI)
qed

text \<open>
  C39. \<open>execute_command\<close> ends: it is a total function of the replies it gets, and whatever they are, the waits it makes add up
  to at most the time limit and nine seconds.
\<close>

theorem execute_command_bounded: "waited (sc_log (snd (execute_command os command timeout (fresh_state d)))) \<le> nat timeout + 9"
  using costs_execute [of timeout os command] unfolding costs_def takes_def
  by (elim allE [of _ 0] allE [of _ "fresh_state d"]) (simp add: fresh_state_def waited_def)

section \<open>Counters\<close>

text \<open>The bound of \<open>find_counts\<close> is enough: prefixes do not lengthen the text, and every step consumes a character.\<close>

lemma prefixes_shorten: "(key, prefix) \<in> set COUNTERS \<Longrightarrow> prefix s = Some r \<Longrightarrow> length r \<le> length s"
proof -
  have drop: "length (dropWhile P t) \<le> length t" for P and t :: pystr by (rule length_dropWhile_le)
  have passed: "passed_prefix s = Some r \<Longrightarrow> length r \<le> length s"
    by (auto simp: passed_prefix_def Let_def intro: order_trans [OF drop] split: if_splits)
  have titled: "titled_prefix title s = Some r \<Longrightarrow> length r \<le> length s" for title
  proof -
    assume "titled_prefix title s = Some r"
    then obtain c t where t: "after_literal title (dropWhile is_space s) = Some (c # t)" "r = dropWhile is_space t"
      by (auto simp: titled_prefix_def split: option.splits list.splits if_splits)
    have "c # t = drop (length title) (dropWhile is_space s)" using t(1) by (simp add: after_literal_def split: if_splits)
    then have "length (c # t) \<le> length (dropWhile is_space s)" by (metis diff_le_self length_drop)
    then show ?thesis using drop [of is_space s] drop [of is_space t] t(2) by simp
  qed
  show "(key, prefix) \<in> set COUNTERS \<Longrightarrow> prefix s = Some r \<Longrightarrow> length r \<le> length s"
    using passed titled by (auto simp: COUNTERS_def)
qed

lemma counted_shorter:
  assumes "counted word prefix s = Some (digits, rest)" "\<And>r. prefix s = Some r \<Longrightarrow> length r \<le> length s"
  shows "length rest < length s"
proof -
  obtain r where r: "prefix s = Some r" "digits = takeWhile (\<lambda>c. in_class c unicode_digits) r" "digits \<noteq> []"
    "after_literal '' passed'' (drop (length digits) r) = Some rest"
    using assms(1) by (auto simp: counted_def Let_def split: option.splits if_splits)
  have "drop (length digits) r = lit '' passed'' @ rest"
    using r(4) by (auto simp: after_literal_def starts_with_iff lit_def split: if_splits)
  then have "length (drop (length digits) r) = 7 + length rest" by (simp add: lit_def)
  then show ?thesis using assms(2) [OF r(1)] by simp
qed

lemma find_counts_enough:
  assumes "\<And>s r. prefix s = Some r \<Longrightarrow> length r \<le> length s" "length s < n" "length s < m"
  shows "find_counts n word prefix at_start s = find_counts m word prefix at_start s"
  using assms(2,3)
proof (induction n arbitrary: m at_start s)
  case (Suc n)
  obtain k where m: "m = Suc k" using Suc.prems(2) by (cases m) auto
  have shorter: "counted word prefix t = Some (digits, rest) \<Longrightarrow> length rest < length t" for t digits rest
    by (rule counted_shorter [OF _ assms(1)])
  show ?case
  proof (cases "if at_start then counted word prefix s else None")
    case None
    show ?thesis
    proof (cases s)
      case (Cons c cs)
      have "find_counts n word prefix False cs = find_counts k word prefix False cs" using Suc Cons m by (intro Suc.IH) simp_all
      moreover have "find_counts n word prefix False rest = find_counts k word prefix False rest"
        if "counted word prefix cs = Some (digits, rest)" for digits rest
        using shorter [OF that] Suc.prems Cons m by (intro Suc.IH) simp_all
      ultimately show ?thesis
        unfolding m Cons find_counts.simps None [unfolded Cons] option.case list.case by (auto split: option.splits)
    next
      case Nil
      show ?thesis unfolding m Nil find_counts.simps None [unfolded Nil] option.case list.case ..
    qed
  next
    case (Some x)
    then have "length (snd x) < length s" using shorter [of s "fst x" "snd x"] by (simp split: if_splits)
    then have "find_counts n word prefix False (snd x) = find_counts k word prefix False (snd x)"
      using Suc.prems m by (intro Suc.IH) simp_all
    then show ?thesis unfolding m find_counts.simps Some by (cases x) simp
  qed
qed simp

section \<open>PASS\<close>









text \<open>With the repository's own scanner, a PASS means that the pinned scanner read the whole output and said nothing.\<close>

lemma scan_output_clean:
  assumes "quiet gl" "scan_output gl loadable payload tool_dir s = (Inr True, s')"
  shows "payload \<noteq> [] \<and> 0 \<notin> set payload \<and> (\<exists>t. decode_utf8 payload = Some t) \<and> default_contract gl (sc_disk s) \<and>
    (\<exists>binary. scanner_ready gl binary (sc_disk s') \<and>
       gl_run gl (gl_variables gl) ([binary, lit ''stdin''] @ scan_flags gl) (Some payload) (sc_disk s') =
         (Some \<lparr>gl_code = 0, gl_out = [], gl_err = []\<rparr>, sc_disk s'))"
proof -
  obtain d where scan: "scan_stdin gl payload tool_dir (sc_disk s) = (True, d)" "sc_disk s' = d"
    using assms(2) by (auto simp: scan_output_def split: if_splits prod.splits)
  then have utf8: "payload \<noteq> []" "0 \<notin> set payload" "\<exists>t. decode_utf8 payload = Some t" by (auto simp: scan_stdin_def split: if_splits)
  let ?run = "pseq (prepare_scanner gl tool_dir) (\<lambda>(binary, output). run_child gl ([binary, lit ''stdin''] @ scan_flags gl) (Some payload))"
  obtain result where result: "?run (sc_disk s) = (Inr result, d)" "gl_code result = 0 \<and> gl_out result = [] \<and> gl_err result = []"
    using scan utf8 by (auto simp: scan_stdin_def split: if_splits prod.splits sum.splits)
  let ?Q = "\<lambda>r d'. default_contract gl (sc_disk s) \<and> (\<exists>binary. scanner_ready gl binary d' \<and>
    gl_run gl (gl_variables gl) ([binary, lit ''stdin''] @ scan_flags gl) (Some payload) d' = (Some r, d'))"
  have "wp ?run ?Q (sc_disk s)"
  proof (intro wp_pseq wp_conseq [OF prepare_scanner_pinned [OF assms(1)]], goal_cases)
    case (1 x d1)
    then show ?case by (cases x) (auto intro!: wp_run_child [OF assms(1)])
  qed
  from wpD [OF this result(1)] have "?Q result d" .
  moreover have "result = \<lparr>gl_code = 0, gl_out = [], gl_err = []\<rparr>" using result(2) by simp
  ultimately show ?thesis using utf8 scan(2) by simp
qed

text \<open>Whatever happens, the report holds the gate's name, a fixed result and reason, and integers under fixed keys.\<close>

definition REASONS :: "string list" where
  "REASONS = [''output_limit'', ''output_security_gate_failed'', ''incomplete_test_gate'', ''command_failed'', ''execution_failure'', ''evidence_failure'']"

definition counts_closed :: "(pystr \<times> nat) list \<Rightarrow> bool" where
  "counts_closed counts \<longleftrightarrow> (\<forall>p \<in> set counts. fst p \<in> lit ` fst ` set COUNTERS)"

definition report_closed :: "pystr \<Rightarrow> (pystr \<times> pyval) list \<Rightarrow> bool" where
  "report_closed gate report \<longleftrightarrow>
     (\<exists>counts. counts_closed counts \<and>
        (report = pass_report gate counts \<or>
         (\<exists>reason \<in> set REASONS. report = fail_report gate reason \<or> report = fail_report gate reason @ [(lit ''counts'', counts_value counts)])))"

lemma count_all_keys: "count_all word t cs = Inr counts \<Longrightarrow> \<forall>p \<in> set counts. fst p \<in> lit ` fst ` set cs"
  by (induction cs arbitrary: counts) (auto simp: and_then_eq_Inr split: list.splits, force+)

lemma report_closedI: "reason \<in> set REASONS \<Longrightarrow> report_closed gate (fail_report gate reason)"
  unfolding report_closed_def by (rule exI [of _ "[]"]) (auto simp: counts_closed_def)

lemma judge_closed: "judge env gate code out payload = Inr report \<Longrightarrow> report_closed gate report"
  unfolding judge_def counters_def Let_def
proof (elim and_then_InrE)
  fix x counts
  assume "count_all (sc_word env) (strip_ansi (decode_replacing payload)) COUNTERS = Inr counts"
  then have "counts_closed counts" unfolding counts_closed_def by (rule count_all_keys)
  then have closed: "report_closed gate (pass_report gate counts)"
    "reason \<in> set REASONS \<Longrightarrow> report_closed gate (fail_report gate reason @ [(lit ''counts'', counts_value counts)])" for reason
    unfolding report_closed_def by blast+
  assume x: "Inr (counts, list_ex (incomplete_line (sc_word env) False) (splitlines (strip_ansi (decode_replacing payload)))) = Inr x"
    and r: "(case x of (counts, incomplete) \<Rightarrow>
       if incomplete \<or> \<not> positive_counts gate counts \<or> (gate = lit ''migration-head'' \<and> strip_bytes out \<noteq> MIGRATION_HEAD)
       then Inr (fail_report gate ''incomplete_test_gate'' @ [(lit ''counts'', counts_value counts)])
       else if code = 0 then Inr (pass_report gate counts)
       else Inr (fail_report gate ''command_failed'' @ [(lit ''counts'', counts_value counts)])) = Inr report"
  obtain incomplete where "x = (counts, incomplete)" using x by (cases x) simp
  then have "report \<in> {fail_report gate ''incomplete_test_gate'' @ [(lit ''counts'', counts_value counts)], pass_report gate counts,
      fail_report gate ''command_failed'' @ [(lit ''counts'', counts_value counts)]}" using r by (simp split: if_splits)
  moreover have "''incomplete_test_gate'' \<in> set REASONS" "''command_failed'' \<in> set REASONS" by (simp_all add: REASONS_def)
  ultimately show ?thesis using closed by blast
qed

lemma command_report_closed:
  assumes "run_command_gate env scan gate command log_dir timeout s = ((code, report), s')" "gate \<in> set GATE_NAMES"
  shows "report_closed gate report"
proof -
  have "wp (gate_body env scan gate command log_dir timeout) (\<lambda>r _. report_closed gate r) s"
    unfolding gate_body_def Let_def
    by (intro wp_intros wp_any [of _ "insist _"] wp_any [of _ "\<lambda>s. insist (_ s) s"] wp_any [of _ "execute_command _ _ _"] wp_any [of _ "scan _ _"] wp_if)
      (auto simp: REASONS_def intro: report_closedI judge_closed)
  then have "gate_body env scan gate command log_dir timeout s = (Inr r, s1) \<Longrightarrow> report_closed gate r" for r s1 by (rule wpD)
  then show ?thesis using assms
    by (auto simp: run_command_gate_def Let_def REASONS_def intro!: report_closedI split: prod.splits sum.splits)
qed

section \<open>A run\<close>






end
