(* ===== verification/SchemaCatalogue.thy ===== *)
theory SchemaCatalogue
  imports AuditContracts
begin

text \<open>
  PostgreSQL as the migrations under \<open>migrations/versions\<close> see it: a catalogue of schemas, types, tables, routines and
  privileges, and the statements the migrations send. Sets stand for the system tables, so that equal catalogues are
  equal whatever the order of the statements was. Identifiers are constructors that spell them after a prefix (\<open>T_users\<close>
  is \<open>users\<close>). The name of a rule is kept by its parts, as the naming convention of \<open>db/base.py\<close> composes it: \<open>Ck t l\<close>
  is \<open>ck_<t>_<l>\<close>, \<open>Pk t\<close> is \<open>pk_<t>\<close>, \<open>Uq t cs\<close> is \<open>uq_<t>_<cs>\<close>, \<open>Fk t cs r\<close> is \<open>fk_<t>_<cs>_<r>\<close>; \<open>UqNamed\<close> and
  \<open>FkNamed\<close> end in a label of their own. The text of a routine and of a longer expression is a name too: two sources
  share it exactly when their texts agree, a routine's up to \<open>OR REPLACE\<close>. Of the rows only what the statements look
  at is kept: the type and the extension columns of every stored security event, and the revocation reason of every
  session.
\<close>

section \<open>Identifiers\<close>

datatype (plugins only: code) role_name = PUBLIC | Sahl_migrator | Sahl_app | Sahl_security_maintenance | Sahl_maintenance_test | OtherRole string

datatype (plugins only: code) schema_name = S_public | S_app | S_auth

datatype (plugins only: code) type_name = E_tenant_status | E_user_status | E_membership_status | E_role_status

datatype (plugins only: code) argument_type = A_uuid | A_text | A_bytea | A_smallint | A_integer | A_bigint

datatype (plugins only: code) table_name =
  T_tenants | T_users | T_tenant_memberships | T_password_credentials | T_sessions | T_preauth_csrf_states
| T_throttle_buckets | T_password_reset_tokens | T_security_events | T_roles | T_role_permissions
| T_membership_roles | T_platform_ui_settings | T_tenant_ui_settings | T_user_ui_settings
| T_role_security_event_intents

datatype (plugins only: code) column_name =
  C_id | C_slug | C_name_ar | C_name_en | C_status | C_created_at | C_updated_at | C_email
| C_normalized_email | C_email_verified_at | C_security_version | C_user_id | C_tenant_id | C_joined_at
| C_left_at | C_version | C_password_hash | C_credential_version | C_changed_at | C_bearer_digest
| C_csrf_digest | C_authenticated_at | C_last_seen_at | C_idle_expires_at | C_absolute_expires_at
| C_revoked_at | C_revoked_reason | C_state_digest | C_expires_at | C_consumed_at | C_selected_membership_id
| C_selected_membership_version | C_scope | C_key_digest | C_window_started_at | C_key_id | C_request_count
| C_token_digest | C_event_type | C_result | C_reason_code | C_session_id | C_membership_id | C_subject_digest
| C_correlation_id | C_role_id | C_target_membership_id | C_permission_id | C_subject_kind | C_subject_key_id
| C_affected_count | C_key | C_display_name | C_settings | C_transaction_id | C_backend_pid | C_event_id
| C_attested

datatype (plugins only: code) label =
  L_slug_shape | L_security_version_positive | L_version_positive | L_lifecycle_timestamps
| L_credential_version_positive | L_password_hash_argon2id | L_bearer_digest_length | L_csrf_digest_length
| L_session_expiry_order | L_session_revocation_state | L_state_digest_length | L_preauth_expiry_order
| L_selected_membership_pair | L_selected_membership_version_positive | L_key_digest_length
| L_request_count_positive | L_token_digest_length | L_event_type_allowed | L_result_allowed
| L_event_contract | L_event_id_uuid7 | L_correlation_id_format | L_identity_shape | L_role_shape
| L_target_membership_shape | L_permission_catalog | L_permission_shape | L_subject_shape
| L_affected_count_shape | L_key_format | L_permission_id_format | L_singleton | L_settings_object
| L_settings_keys | L_settings_theme_value | L_settings_button_preset_value | L_settings_alert_preset_value
| L_settings_overlay_preset_value | L_settings_table_preset_value | L_settings_print_preset_value | L_id_user
| L_user_tenant | L_tenant_id | L_tenant_key | L_digest | L_tenant_role | L_tenant_membership

datatype (plugins only: code) routine_name =
  F_current_tenant_id | F_resolve_active_membership | F_consume_throttle | F_request_password_reset
| F_complete_password_reset | F_record_security_event | F_is_active_membership_in_tenant | F_session_identity
| F_session_memberships | F_validate_security_event_insert | F_append_security_event
| F_password_authentication_snapshot | F_password_change_snapshot | F_confirm_password_authentication
| F_apply_password_change | F_prepare_role_security_event | F_cancel_role_security_event
| F_attest_role_security_change | F_require_consumed_role_security_event | F_prune_security_events

datatype (plugins only: code) index_name =
  I_tenant_memberships_user_id_status | I_tenant_memberships_tenant_id_status | I_sessions_user_active
| I_password_reset_tokens_user_open | I_security_events_retention | I_user_ui_settings_user_id
| I_membership_roles_tenant_role | I_sessions_selected_membership_user

datatype (plugins only: code) preset =
  V_teal_calm | V_green_institutional | V_navy_institutional | V_slate_neutral | V_sand_warm
| V_institutional_standard | V_compact_sharp | V_soft_rounded | V_outlined_calm | V_balanced_roomy
| V_tinted_standard | V_solid_emphatic | V_minimal_inline | V_dense_compact | V_bordered_quiet
| V_soft_elevated | V_flat_bordered | V_dim_focused | V_compact_dense | V_zebra_scan | V_full_grid
| V_compact_rows | V_airy_report | V_ink_saving | V_high_contrast_print | V_formal_letterhead
| V_dense_archive

type_synonym signature = "schema_name \<times> routine_name \<times> argument_type list"

datatype (plugins only: code) rule_name =
  Pk table_name
| Uq table_name "column_name list"
| Ck table_name label
| Fk table_name "column_name list" table_name
| UqNamed table_name label
| FkNamed table_name label

section \<open>Objects of the catalogue\<close>

datatype (plugins only: code) column_type =
  UuidT | VarcharT nat | TextT | SmallintT | IntegerT | BigintT | BooleanT | ByteaT | TimestamptzT | JsonbT
| EnumT schema_name type_name

datatype (plugins only: code) default_value = DefaultNow | DefaultOne | DefaultEmptyObject | DefaultMember string schema_name type_name

record column =
  co_name :: column_name
  co_type :: column_type
  co_default :: "default_value option"
  co_nullable :: bool

datatype (plugins only: code) on_delete = OnDeleteRestrict | OnDeleteCascade

datatype (plugins only: code) settings_key = K_theme | K_button_preset | K_alert_preset | K_overlay_preset | K_table_preset | K_print_preset

text \<open>
  The expressions of check rules, by shape where they have one: \<open>c > 0\<close>, \<open>octet_length(c) = 32\<close>, \<open>a <= b\<close>, \<open>a > b\<close>,
  \<open>id = 1\<close>, the value of one setting; \<open>Labelled\<close> is the text the source gives under that label.
\<close>

datatype (plugins only: code) check_expr =
  Positive column_name
| Octets32 column_name
| NotAfter column_name column_name
| After column_name column_name
| EqualsOne column_name
| SettingIn settings_key "preset list"
| EventTypeIn "security_event_type set"
| RevocationReasonIn "string set"
| Labelled label

text \<open>A check rule names the columns its expression reads: dropping one of them drops the rule.\<close>

datatype (plugins only: code) rule =
  PrimaryKey "column_name list"
| UniqueKey "column_name list"
| CheckRule check_expr "column_name list"
| ForeignKey "column_name list" schema_name table_name "column_name list" on_delete

record named_rule =
  cn_name :: rule_name
  cn_rule :: rule
  cn_validated :: bool

record index_def =
  ix_name :: index_name
  ix_columns :: "column_name list"

text \<open>The one policy text there is: \<open>tenant_id = app.current_tenant_id()\<close>, as \<open>USING\<close> and \<open>WITH CHECK\<close>.\<close>

datatype (plugins only: code) policy_text = TenantMatches

record policy =
  po_roles :: "role_name list"
  po_using :: policy_text
  po_check :: policy_text
  po_calls :: signature

datatype (plugins only: code) trigger_name = Security_event_insert_guard | Role_security_change_attestation | Role_security_event_mandatory

datatype (plugins only: code) trigger_events = BeforeInsert | AfterInsertDeferred | AfterAnyChange

record trigger_def =
  tg_name :: trigger_name
  tg_events :: trigger_events
  tg_calls :: signature

datatype (plugins only: code) privilege =
  SelectP | InsertP | UpdateP | DeleteP | TruncateP | ReferencesP | TriggerP | UsageP | CreateP | ExecuteP

type_synonym acl = "(role_name \<times> privilege) set"

record table =
  tb_schema :: schema_name
  tb_name :: table_name
  tb_owner :: role_name
  tb_columns :: "column set"
  tb_rules :: "named_rule set"
  tb_indexes :: "index_def set"
  tb_row_security :: bool
  tb_forced :: bool
  tb_policies :: "policy set"
  tb_triggers :: "trigger_def set"
  tb_acl :: acl

record enum_type =
  en_schema :: schema_name
  en_name :: type_name
  en_values :: "string list"
  en_owner :: role_name

datatype (plugins only: code) sql_body =
  CurrentTenantId | ResolveActiveMembership | ConsumeThrottle | RequestReset9 | CompleteReset9 | RecordEvent9
| IsActiveMembership | SessionIdentity | SessionMemberships | ValidateInsert14 | AppendEvent | RecordEvent14
| RequestReset14 | CompleteReset14 | AuthenticationSnapshot | ChangeSnapshot | ConfirmAuthentication
| ApplyChange | CompleteReset15 | PrepareRoleEvent | AttestRoleChange | CancelRoleEvent | RequireConsumed
| ValidateInsert15 | PruneEvents | ValidateInsert16

text \<open>A routine's \<open>search_path\<close> is the pinned \<open>pg_catalog\<close> or the caller's.\<close>

record routine =
  fn_signature :: signature
  fn_owner :: role_name
  fn_body :: sql_body
  fn_definer :: bool
  fn_pinned :: bool
  fn_acl :: acl

record schema_def =
  sc_name :: schema_name
  sc_owner :: role_name
  sc_acl :: acl

record role_def =
  rl_name :: role_name
  rl_login :: bool
  rl_super :: bool
  rl_createrole :: bool
  rl_createdb :: bool
  rl_replication :: bool
  rl_bypassrls :: bool

datatype (plugins only: code) object_kind = KindTables | KindSequences | KindFunctions

text \<open>A default privilege: creating role, schema, kind of object, grantee, privilege.\<close>

type_synonym default_acl = "role_name \<times> schema_name \<times> object_kind \<times> role_name \<times> privilege"

record catalogue =
  ct_roles :: "role_def set"
  ct_creators :: "role_name set"
  ct_schemas :: "schema_def set"
  ct_enums :: "enum_type set"
  ct_tables :: "table set"
  ct_routines :: "routine set"
  ct_defaults :: "default_acl set"

record stored_rows =
  rw_events :: "(security_event_type \<times> column_name set) list"
  rw_reasons :: "string option list"

datatype (plugins only: code) sql_error =
  DuplicateObject | UndefinedObject | DependentObjects | PermissionDenied | InvalidReference | RowsViolate
| MaintenanceRoleRequired | DowngradeRequiresCompatibleHistory

section \<open>Statements\<close>

datatype (plugins only: code) target = OnTables "(schema_name \<times> table_name) list" | OnSchema schema_name | OnRoutine signature

record table_def =
  td_schema :: schema_name
  td_name :: table_name
  td_columns :: "column list"
  td_rules :: "named_rule list"

record routine_def =
  rd_signature :: signature
  rd_body :: sql_body
  rd_definer :: bool
  rd_pinned :: bool

datatype (plugins only: code) stmt =
  CreateSchema schema_name bool
| DropSchema schema_name bool
| CreateEnum schema_name type_name "string list"
| DropEnum schema_name type_name
| CreateTable table_def
| DropTable schema_name table_name
| AddColumn schema_name table_name column
| DropColumn schema_name table_name column_name
| AddRule schema_name table_name named_rule
| DropRule schema_name table_name rule_name bool
| CreateIndex schema_name table_name index_def
| DropIndex schema_name index_name
| EnableRowSecurity schema_name table_name
| ForceRowSecurity schema_name table_name
| CreatePolicy schema_name table_name policy
| CreateRoutine bool routine_def
| DropRoutine signature bool
| RoutineOwner signature role_name
| TableOwner schema_name table_name role_name
| CreateTrigger schema_name table_name trigger_def
| DropTrigger schema_name table_name trigger_name
| Grant "privilege list" target "role_name list"
| Revoke "privilege list" target "role_name list"
| RevokeAll target "role_name list"
| GrantDefault role_name schema_name object_kind "privilege list" role_name
| RevokeDefault role_name schema_name object_kind "privilege list" role_name
| RequireMaintenanceRole role_name
| LockTable schema_name table_name
| RequireHistory "security_event_type set" "column_name set"
| ReplaceReason string string

end
