(* ===== verification/SchemaStatements.thy ===== *)
theory SchemaStatements
  imports SchemaCatalogue
begin

text \<open>
  The statements run: conditions in the order the server checks what matters here (privilege, existence, dependents),
  then the change of the catalogue, then the rows. A statement that fails changes nothing, and a list of statements
  stops at its first failure.
\<close>

section \<open>Looking at the catalogue\<close>

definition superuser :: "role_name \<Rightarrow> catalogue \<Rightarrow> bool" where
  "superuser u c \<longleftrightarrow> (\<exists>r\<in>ct_roles c. rl_name r = u \<and> rl_super r)"

definition may :: "role_name \<Rightarrow> role_name \<Rightarrow> catalogue \<Rightarrow> bool" where
  "may u owner c \<longleftrightarrow> u = owner \<or> superuser u c"

definition role_exists :: "role_name \<Rightarrow> catalogue \<Rightarrow> bool" where
  "role_exists r c \<longleftrightarrow> r = PUBLIC \<or> (\<exists>x\<in>ct_roles c. rl_name x = r)"

definition is_schema :: "schema_name \<Rightarrow> schema_def \<Rightarrow> bool" where
  "is_schema n s \<longleftrightarrow> sc_name s = n"

definition is_table :: "schema_name \<Rightarrow> table_name \<Rightarrow> table \<Rightarrow> bool" where
  "is_table s n t \<longleftrightarrow> tb_name t = n \<and> tb_schema t = s"

definition is_enum :: "schema_name \<Rightarrow> type_name \<Rightarrow> enum_type \<Rightarrow> bool" where
  "is_enum s n e \<longleftrightarrow> en_name e = n \<and> en_schema e = s"

definition is_routine :: "signature \<Rightarrow> routine \<Rightarrow> bool" where
  "is_routine g f \<longleftrightarrow> fst (snd (fn_signature f)) = fst (snd g) \<and> fn_signature f = g"

definition existing :: "('a \<Rightarrow> bool) \<Rightarrow> 'a set \<Rightarrow> bool" where
  "existing P S \<longleftrightarrow> (\<exists>x\<in>S. P x)"

definition having :: "('a \<Rightarrow> bool) \<Rightarrow> 'a set \<Rightarrow> 'a set" where
  "having P S = Set.filter P S"

definition without :: "('a \<Rightarrow> bool) \<Rightarrow> 'a set \<Rightarrow> 'a set" where
  "without P S = Set.filter (\<lambda>x. \<not> P x) S"

definition changing :: "('a \<Rightarrow> bool) \<Rightarrow> ('a \<Rightarrow> 'a) \<Rightarrow> 'a set \<Rightarrow> 'a set" where
  "changing P f S = (\<lambda>x. if P x then f x else x) ` S"

text \<open>A statement on one object: it has to exist, to be the user's, and to pass a condition of the statement's own.\<close>

definition on_object ::
  "('a \<Rightarrow> bool) \<Rightarrow> ('a \<Rightarrow> bool) \<Rightarrow> ('a \<Rightarrow> sql_error option) \<Rightarrow> 'a set \<Rightarrow> (sql_error + 'b) \<Rightarrow> sql_error + 'b" where
  "on_object P owned refusal S result =
     (if \<not> existing P S then Inl UndefinedObject
      else if existing (\<lambda>x. P x \<and> \<not> owned x) S then Inl PermissionDenied
      else if existing (\<lambda>x. P x \<and> refusal x = Some DuplicateObject) S then Inl DuplicateObject
      else if existing (\<lambda>x. P x \<and> refusal x = Some UndefinedObject) S then Inl UndefinedObject
      else if existing (\<lambda>x. P x \<and> refusal x \<noteq> None) S then Inl InvalidReference
      else result)"

definition need :: "bool \<Rightarrow> sql_error \<Rightarrow> (sql_error + 'b) \<Rightarrow> sql_error + 'b" where
  "need b e r = (if b then r else Inl e)"

definition refuse_if :: "bool \<Rightarrow> sql_error \<Rightarrow> sql_error option" where
  "refuse_if b e = (if b then Some e else None)"

section \<open>Tables\<close>

text \<open>Tables, plain indexes and the indexes behind keys are named apart, within their schema.\<close>

fun rule_index :: "rule \<Rightarrow> bool" where
  "rule_index (PrimaryKey _) = True"
| "rule_index (UniqueKey _) = True"
| "rule_index _ = False"

fun rule_columns :: "rule \<Rightarrow> column_name list" where
  "rule_columns (PrimaryKey cs) = cs"
| "rule_columns (UniqueKey cs) = cs"
| "rule_columns (CheckRule _ cs) = cs"
| "rule_columns (ForeignKey cs _ _ _ _) = cs"

fun rule_key :: "column_name list \<Rightarrow> rule \<Rightarrow> bool" where
  "rule_key cs (PrimaryKey ks) = (set cs = set ks)"
| "rule_key cs (UniqueKey ks) = (set cs = set ks)"
| "rule_key cs _ = False"

fun key_within :: "column_name list \<Rightarrow> rule \<Rightarrow> bool" where
  "key_within cs (PrimaryKey ks) = list_all (\<lambda>k. k \<in> set cs) ks"
| "key_within cs (UniqueKey ks) = list_all (\<lambda>k. k \<in> set cs) ks"
| "key_within cs _ = False"

fun references :: "schema_name \<Rightarrow> table_name \<Rightarrow> rule \<Rightarrow> bool" where
  "references s n (ForeignKey _ rs rn _ _) = (rn = n \<and> rs = s)"
| "references _ _ _ = False"

fun reference_columns :: "rule \<Rightarrow> column_name list" where
  "reference_columns (ForeignKey _ _ _ ks _) = ks"
| "reference_columns _ = []"

definition table_taken :: "schema_name \<Rightarrow> table_name \<Rightarrow> catalogue \<Rightarrow> bool" where
  "table_taken s n c \<longleftrightarrow> existing (is_table s n) (ct_tables c)"

definition key_taken :: "schema_name \<Rightarrow> rule_name \<Rightarrow> catalogue \<Rightarrow> bool" where
  "key_taken s n c \<longleftrightarrow> existing (\<lambda>t. tb_schema t = s \<and>
     existing (\<lambda>r. rule_index (cn_rule r) \<and> cn_name r = n) (tb_rules t)) (ct_tables c)"

definition index_taken :: "schema_name \<Rightarrow> index_name \<Rightarrow> catalogue \<Rightarrow> bool" where
  "index_taken s n c \<longleftrightarrow> existing (\<lambda>t. tb_schema t = s \<and> existing (\<lambda>i. ix_name i = n) (tb_indexes t)) (ct_tables c)"

definition has_column :: "column_name \<Rightarrow> table \<Rightarrow> bool" where
  "has_column n t \<longleftrightarrow> existing (\<lambda>k. co_name k = n) (tb_columns t)"

definition type_known :: "column_type \<Rightarrow> catalogue \<Rightarrow> bool" where
  "type_known ty c = (case ty of EnumT s n \<Rightarrow> existing (is_enum s n) (ct_enums c) | _ \<Rightarrow> True)"

text \<open>A foreign key needs a key over exactly the referenced columns.\<close>

fun reference_ok :: "rule \<Rightarrow> catalogue \<Rightarrow> bool" where
  "reference_ok (ForeignKey cs rs rn ks _) c =
     (length cs = length ks \<and>
      existing (\<lambda>t. is_table rs rn t \<and> existing (\<lambda>r. rule_key ks (cn_rule r)) (tb_rules t)) (ct_tables c))"
| "reference_ok _ _ = True"

definition new_table :: "role_name \<Rightarrow> table_def \<Rightarrow> catalogue \<Rightarrow> table" where
  "new_table u d c =
     \<lparr>tb_schema = td_schema d, tb_name = td_name d, tb_owner = u, tb_columns = set (td_columns d),
      tb_rules = set (td_rules d), tb_indexes = {}, tb_row_security = False, tb_forced = False, tb_policies = {},
      tb_triggers = {},
      tb_acl = (\<lambda>(_, _, _, g, p). (g, p)) `
        having (\<lambda>(r, s, k, _, _). r = u \<and> s = td_schema d \<and> k = KindTables) (ct_defaults c)\<rparr>"

definition table_refusal :: "table_def \<Rightarrow> catalogue \<Rightarrow> sql_error option" where
  "table_refusal d c =
     (if table_taken (td_schema d) (td_name d) c \<or>
         list_ex (\<lambda>r. rule_index (cn_rule r) \<and> key_taken (td_schema d) (cn_name r) c) (td_rules d) \<or>
         \<not> distinct (map co_name (td_columns d)) \<or> \<not> distinct (map cn_name (td_rules d))
      then Some DuplicateObject
      else if \<not> list_all (\<lambda>k. type_known (co_type k) c) (td_columns d) \<or>
         \<not> list_all (\<lambda>r. list_all (\<lambda>n. n \<in> set (map co_name (td_columns d))) (rule_columns (cn_rule r))) (td_rules d)
      then Some UndefinedObject
      else refuse_if (\<not> list_all (\<lambda>r. reference_ok (cn_rule r) c) (td_rules d)) InvalidReference)"

definition may_create_in :: "role_name \<Rightarrow> schema_def \<Rightarrow> catalogue \<Rightarrow> bool" where
  "may_create_in u s c \<longleftrightarrow> may u (sc_owner s) c \<or> (u, CreateP) \<in> sc_acl s \<or> (PUBLIC, CreateP) \<in> sc_acl s"

definition in_schema :: "role_name \<Rightarrow> schema_name \<Rightarrow> sql_error option \<Rightarrow> catalogue \<Rightarrow> (sql_error + 'b) \<Rightarrow> sql_error + 'b" where
  "in_schema u s refusal c result =
     on_object (is_schema s) (\<lambda>x. may_create_in u x c) (\<lambda>_. refusal) (ct_schemas c) result"

definition on_table ::
  "role_name \<Rightarrow> schema_name \<Rightarrow> table_name \<Rightarrow> (table \<Rightarrow> sql_error option) \<Rightarrow> (table \<Rightarrow> table) \<Rightarrow> catalogue \<Rightarrow> sql_error + catalogue" where
  "on_table u s n refusal f c =
     on_object (is_table s n) (\<lambda>t. may u (tb_owner t) c) refusal (ct_tables c)
       (Inr (c\<lparr>ct_tables := changing (is_table s n) f (ct_tables c)\<rparr>))"

text \<open>Dropping a column drops the rules and indexes over it; a key another table refers to keeps it.\<close>

definition drop_column :: "column_name \<Rightarrow> table \<Rightarrow> table" where
  "drop_column n t = t\<lparr>tb_columns := without (\<lambda>k. co_name k = n) (tb_columns t),
     tb_rules := without (\<lambda>r. n \<in> set (rule_columns (cn_rule r))) (tb_rules t),
     tb_indexes := without (\<lambda>i. n \<in> set (ix_columns i)) (tb_indexes t)\<rparr>"

definition column_referenced :: "schema_name \<Rightarrow> table_name \<Rightarrow> column_name \<Rightarrow> catalogue \<Rightarrow> bool" where
  "column_referenced s n k c \<longleftrightarrow>
     existing (\<lambda>t. existing (\<lambda>r. references s n (cn_rule r) \<and> k \<in> set (reference_columns (cn_rule r))) (tb_rules t))
       (ct_tables c)"

definition key_referenced :: "schema_name \<Rightarrow> table_name \<Rightarrow> rule \<Rightarrow> catalogue \<Rightarrow> bool" where
  "key_referenced s n k c \<longleftrightarrow> rule_index k \<and>
     existing (\<lambda>t. existing (\<lambda>r. references s n (cn_rule r) \<and> rule_key (reference_columns (cn_rule r)) k) (tb_rules t))
       (ct_tables c)"

text \<open>A rule that is added: whether its name is free, its columns exist and its reference is one.\<close>

definition rule_refusal :: "schema_name \<Rightarrow> named_rule \<Rightarrow> catalogue \<Rightarrow> table \<Rightarrow> sql_error option" where
  "rule_refusal s r c t =
     (if existing (\<lambda>x. cn_name x = cn_name r) (tb_rules t) \<or> (rule_index (cn_rule r) \<and> key_taken s (cn_name r) c)
      then Some DuplicateObject
      else if \<not> list_all (\<lambda>k. has_column k t) (rule_columns (cn_rule r)) then Some UndefinedObject
      else refuse_if (\<not> reference_ok (cn_rule r) c \<or>
        (rule_index (cn_rule r) \<and> \<not> existing (\<lambda>x. key_within (rule_columns (cn_rule r)) (cn_rule x)) (tb_rules t)))
        InvalidReference)"

section \<open>Privileges and routines\<close>

definition grants :: "privilege list \<Rightarrow> role_name list \<Rightarrow> acl" where
  "grants ps gs = set (List.product gs ps)"

definition revoked :: "privilege list \<Rightarrow> role_name list \<Rightarrow> acl \<Rightarrow> acl" where
  "revoked ps gs a = without (\<lambda>(g, p). g \<in> set gs \<and> p \<in> set ps) a"

definition revoked_all :: "role_name list \<Rightarrow> acl \<Rightarrow> acl" where
  "revoked_all gs a = without (\<lambda>(g, _). g \<in> set gs) a"

definition any_target :: "(schema_name \<times> table_name) list \<Rightarrow> table \<Rightarrow> bool" where
  "any_target ts t \<longleftrightarrow> list_ex (\<lambda>(s, n). is_table s n t) ts"

text \<open>A change of the privileges on a target; the grantees have to exist.\<close>

fun on_acl :: "role_name \<Rightarrow> target \<Rightarrow> role_name list \<Rightarrow> (acl \<Rightarrow> acl) \<Rightarrow> catalogue \<Rightarrow> sql_error + catalogue" where
  "on_acl u (OnTables ts) gs f c =
     need (list_all (\<lambda>g. role_exists g c) gs \<and> list_all (\<lambda>(s, n). existing (is_table s n) (ct_tables c)) ts) UndefinedObject
       (need (\<not> existing (\<lambda>t. any_target ts t \<and> \<not> may u (tb_owner t) c) (ct_tables c)) PermissionDenied
         (Inr (c\<lparr>ct_tables := changing (any_target ts) (\<lambda>t. t\<lparr>tb_acl := f (tb_acl t)\<rparr>) (ct_tables c)\<rparr>)))"
| "on_acl u (OnSchema s) gs f c =
     need (list_all (\<lambda>g. role_exists g c) gs) UndefinedObject
       (on_object (is_schema s) (\<lambda>x. may u (sc_owner x) c) (\<lambda>_. None) (ct_schemas c)
         (Inr (c\<lparr>ct_schemas := changing (is_schema s) (\<lambda>x. x\<lparr>sc_acl := f (sc_acl x)\<rparr>) (ct_schemas c)\<rparr>)))"
| "on_acl u (OnRoutine g) gs f c =
     need (list_all (\<lambda>r. role_exists r c) gs) UndefinedObject
       (on_object (is_routine g) (\<lambda>x. may u (fn_owner x) c) (\<lambda>_. None) (ct_routines c)
         (Inr (c\<lparr>ct_routines := changing (is_routine g) (\<lambda>x. x\<lparr>fn_acl := f (fn_acl x)\<rparr>) (ct_routines c)\<rparr>)))"

text \<open>
  A new routine may be executed by everyone, and by whom the default privileges of the schema add; they cannot take the
  built-in right away. Replacing a routine keeps its owner and its privileges.
\<close>

definition new_routine :: "role_name \<Rightarrow> routine_def \<Rightarrow> catalogue \<Rightarrow> routine" where
  "new_routine u d c =
     \<lparr>fn_signature = rd_signature d, fn_owner = u, fn_body = rd_body d, fn_definer = rd_definer d,
      fn_pinned = rd_pinned d,
      fn_acl = insert (PUBLIC, ExecuteP) ((\<lambda>(_, _, _, g, p). (g, p)) `
        having (\<lambda>(r, s, k, _, _). r = u \<and> s = fst (rd_signature d) \<and> k = KindFunctions) (ct_defaults c))\<rparr>"

definition replaced :: "routine_def \<Rightarrow> routine \<Rightarrow> routine" where
  "replaced d f = f\<lparr>fn_body := rd_body d, fn_definer := rd_definer d, fn_pinned := rd_pinned d\<rparr>"

definition routine_used :: "signature \<Rightarrow> catalogue \<Rightarrow> bool" where
  "routine_used g c \<longleftrightarrow> existing (\<lambda>t. existing (\<lambda>p. po_calls p = g) (tb_policies t) \<or>
     existing (\<lambda>x. tg_calls x = g) (tb_triggers t)) (ct_tables c)"

fun add_defaults :: "role_name \<Rightarrow> schema_name \<Rightarrow> object_kind \<Rightarrow> privilege list \<Rightarrow> role_name \<Rightarrow> default_acl set \<Rightarrow> default_acl set" where
  "add_defaults r s k ps g D = D \<union> set (map (\<lambda>p. (r, s, k, g, p)) ps)"

fun remove_defaults :: "role_name \<Rightarrow> schema_name \<Rightarrow> object_kind \<Rightarrow> privilege list \<Rightarrow> role_name \<Rightarrow> default_acl set \<Rightarrow> default_acl set" where
  "remove_defaults r s k ps g D =
     without (\<lambda>(r', s', k', g', p). r' = r \<and> s' = s \<and> k' = k \<and> g' = g \<and> p \<in> set ps) D"

text \<open>The role the last migrations need: it exists and is inert.\<close>

definition maintenance_role :: "role_name \<Rightarrow> role_def \<Rightarrow> bool" where
  "maintenance_role n r \<longleftrightarrow> rl_name r = n \<and> \<not> rl_login r \<and> \<not> rl_super r \<and> \<not> rl_createrole r \<and> \<not> rl_createdb r \<and>
     \<not> rl_replication r \<and> \<not> rl_bypassrls r"

text \<open>Whether the rules of a table let a row carry this revocation reason.\<close>

definition reason_allowed_by :: "string \<Rightarrow> table \<Rightarrow> bool" where
  "reason_allowed_by r t \<longleftrightarrow>
     \<not> existing (\<lambda>x. case cn_rule x of CheckRule (RevocationReasonIn S) _ \<Rightarrow> r \<notin> S | _ \<Rightarrow> False) (tb_rules t)"

section \<open>One statement on the catalogue\<close>

fun exec_ddl :: "role_name \<Rightarrow> stmt \<Rightarrow> catalogue \<Rightarrow> sql_error + catalogue" where
  "exec_ddl u (CreateSchema n if_not_exists) c =
     need (u \<in> ct_creators c \<or> superuser u c) PermissionDenied
       (if existing (is_schema n) (ct_schemas c) then (if if_not_exists then Inr c else Inl DuplicateObject)
        else Inr (c\<lparr>ct_schemas := insert \<lparr>sc_name = n, sc_owner = u, sc_acl = {}\<rparr> (ct_schemas c)\<rparr>))"
| "exec_ddl u (DropSchema n if_exists) c =
     (if if_exists \<and> \<not> existing (is_schema n) (ct_schemas c) then Inr c
      else on_object (is_schema n) (\<lambda>x. may u (sc_owner x) c) (\<lambda>_. None) (ct_schemas c)
        (need (\<not> existing (\<lambda>t. tb_schema t = n) (ct_tables c) \<and> \<not> existing (\<lambda>e. en_schema e = n) (ct_enums c) \<and>
               \<not> existing (\<lambda>f. fst (fn_signature f) = n) (ct_routines c)) DependentObjects
          (Inr (c\<lparr>ct_schemas := without (is_schema n) (ct_schemas c),
            ct_defaults := without (\<lambda>(_, s, _, _, _). s = n) (ct_defaults c)\<rparr>))))"
| "exec_ddl u (CreateEnum s n vs) c =
     in_schema u s (refuse_if (existing (is_enum s n) (ct_enums c)) DuplicateObject) c
       (Inr (c\<lparr>ct_enums := insert \<lparr>en_schema = s, en_name = n, en_values = vs, en_owner = u\<rparr> (ct_enums c)\<rparr>))"
| "exec_ddl u (DropEnum s n) c =
     on_object (is_enum s n) (\<lambda>x. may u (en_owner x) c) (\<lambda>_. None) (ct_enums c)
       (need (\<not> existing (\<lambda>t. existing (\<lambda>k. co_type k = EnumT s n) (tb_columns t)) (ct_tables c)) DependentObjects
         (Inr (c\<lparr>ct_enums := without (is_enum s n) (ct_enums c)\<rparr>)))"
| "exec_ddl u (CreateTable d) c =
     in_schema u (td_schema d) (table_refusal d c) c (Inr (c\<lparr>ct_tables := insert (new_table u d c) (ct_tables c)\<rparr>))"
| "exec_ddl u (DropTable s n) c =
     on_object (is_table s n) (\<lambda>t. may u (tb_owner t) c) (\<lambda>_. None) (ct_tables c)
       (need (\<not> existing (\<lambda>t. \<not> is_table s n t \<and> existing (\<lambda>r. references s n (cn_rule r)) (tb_rules t)) (ct_tables c))
         DependentObjects (Inr (c\<lparr>ct_tables := without (is_table s n) (ct_tables c)\<rparr>)))"
| "exec_ddl u (AddColumn s n k) c =
     on_table u s n (\<lambda>t. if has_column (co_name k) t then Some DuplicateObject
         else if \<not> type_known (co_type k) c then Some UndefinedObject
         else refuse_if (\<not> co_nullable k \<and> co_default k = None) InvalidReference)
       (\<lambda>t. t\<lparr>tb_columns := insert k (tb_columns t)\<rparr>) c"
| "exec_ddl u (DropColumn s n k) c =
     need (\<not> column_referenced s n k c) DependentObjects
       (on_table u s n (\<lambda>t. refuse_if (\<not> has_column k t) UndefinedObject) (drop_column k) c)"
| "exec_ddl u (AddRule s n r) c = on_table u s n (rule_refusal s r c) (\<lambda>t. t\<lparr>tb_rules := insert r (tb_rules t)\<rparr>) c"
| "exec_ddl u (DropRule s n r if_exists) c =
     need (\<not> existing (\<lambda>t. is_table s n t \<and> existing (\<lambda>x. cn_name x = r \<and> key_referenced s n (cn_rule x) c) (tb_rules t))
         (ct_tables c)) DependentObjects
       (on_table u s n (\<lambda>t. refuse_if (\<not> if_exists \<and> \<not> existing (\<lambda>x. cn_name x = r) (tb_rules t)) UndefinedObject)
         (\<lambda>t. t\<lparr>tb_rules := without (\<lambda>x. cn_name x = r) (tb_rules t)\<rparr>) c)"
| "exec_ddl u (CreateIndex s n i) c =
     on_table u s n (\<lambda>t. if index_taken s (ix_name i) c then Some DuplicateObject
         else refuse_if (\<not> list_all (\<lambda>k. has_column k t) (ix_columns i)) UndefinedObject)
       (\<lambda>t. t\<lparr>tb_indexes := insert i (tb_indexes t)\<rparr>) c"
| "exec_ddl u (DropIndex s n) c =
     on_object (\<lambda>t. tb_schema t = s \<and> existing (\<lambda>i. ix_name i = n) (tb_indexes t)) (\<lambda>t. may u (tb_owner t) c) (\<lambda>_. None)
       (ct_tables c) (Inr (c\<lparr>ct_tables := changing (\<lambda>t. tb_schema t = s)
         (\<lambda>t. t\<lparr>tb_indexes := without (\<lambda>i. ix_name i = n) (tb_indexes t)\<rparr>) (ct_tables c)\<rparr>))"
| "exec_ddl u (EnableRowSecurity s n) c = on_table u s n (\<lambda>_. None) (\<lambda>t. t\<lparr>tb_row_security := True\<rparr>) c"
| "exec_ddl u (ForceRowSecurity s n) c = on_table u s n (\<lambda>_. None) (\<lambda>t. t\<lparr>tb_forced := True\<rparr>) c"
| "exec_ddl u (CreatePolicy s n p) c =
     need (list_all (\<lambda>g. role_exists g c) (po_roles p) \<and> existing (is_routine (po_calls p)) (ct_routines c)) UndefinedObject
       (on_table u s n (\<lambda>t. refuse_if (tb_policies t \<noteq> {}) DuplicateObject)
         (\<lambda>t. t\<lparr>tb_policies := insert p (tb_policies t)\<rparr>) c)"
| "exec_ddl u (CreateRoutine or_replace d) c =
     (if or_replace \<and> existing (is_routine (rd_signature d)) (ct_routines c)
      then on_object (is_routine (rd_signature d)) (\<lambda>x. may u (fn_owner x) c) (\<lambda>_. None) (ct_routines c)
        (Inr (c\<lparr>ct_routines := changing (is_routine (rd_signature d)) (replaced d) (ct_routines c)\<rparr>))
      else in_schema u (fst (rd_signature d))
        (refuse_if (existing (is_routine (rd_signature d)) (ct_routines c)) DuplicateObject) c
        (Inr (c\<lparr>ct_routines := insert (new_routine u d c) (ct_routines c)\<rparr>)))"
| "exec_ddl u (DropRoutine g if_exists) c =
     (if if_exists \<and> \<not> existing (is_routine g) (ct_routines c) then Inr c
      else on_object (is_routine g) (\<lambda>x. may u (fn_owner x) c) (\<lambda>_. None) (ct_routines c)
        (need (\<not> routine_used g c) DependentObjects (Inr (c\<lparr>ct_routines := without (is_routine g) (ct_routines c)\<rparr>))))"
| "exec_ddl u (RoutineOwner g r) c =
     need (role_exists r c) UndefinedObject
       (on_object (is_routine g) (\<lambda>x. may u (fn_owner x) c \<and> may u r c) (\<lambda>_. None) (ct_routines c)
         (Inr (c\<lparr>ct_routines := changing (is_routine g) (\<lambda>x. x\<lparr>fn_owner := r\<rparr>) (ct_routines c)\<rparr>)))"
| "exec_ddl u (TableOwner s n r) c =
     need (role_exists r c) UndefinedObject
       (need (may u r c) PermissionDenied (on_table u s n (\<lambda>_. None) (\<lambda>t. t\<lparr>tb_owner := r\<rparr>) c))"
| "exec_ddl u (CreateTrigger s n x) c =
     need (existing (is_routine (tg_calls x)) (ct_routines c)) UndefinedObject
       (on_table u s n (\<lambda>t. refuse_if (existing (\<lambda>y. tg_name y = tg_name x) (tb_triggers t)) DuplicateObject)
         (\<lambda>t. t\<lparr>tb_triggers := insert x (tb_triggers t)\<rparr>) c)"
| "exec_ddl u (DropTrigger s n x) c =
     on_table u s n (\<lambda>t. refuse_if (\<not> existing (\<lambda>y. tg_name y = x) (tb_triggers t)) UndefinedObject)
       (\<lambda>t. t\<lparr>tb_triggers := without (\<lambda>y. tg_name y = x) (tb_triggers t)\<rparr>) c"
| "exec_ddl u (Grant ps target gs) c = on_acl u target gs (\<lambda>a. a \<union> grants ps gs) c"
| "exec_ddl u (Revoke ps target gs) c = on_acl u target gs (revoked ps gs) c"
| "exec_ddl u (RevokeAll target gs) c = on_acl u target gs (revoked_all gs) c"
| "exec_ddl u (GrantDefault r s k ps g) c =
     need (role_exists r c \<and> role_exists g c \<and> existing (is_schema s) (ct_schemas c)) UndefinedObject
       (need (may u r c) PermissionDenied (Inr (c\<lparr>ct_defaults := add_defaults r s k ps g (ct_defaults c)\<rparr>)))"
| "exec_ddl u (RevokeDefault r s k ps g) c =
     need (role_exists r c \<and> role_exists g c \<and> existing (is_schema s) (ct_schemas c)) UndefinedObject
       (need (may u r c) PermissionDenied (Inr (c\<lparr>ct_defaults := remove_defaults r s k ps g (ct_defaults c)\<rparr>)))"
| "exec_ddl u (RequireMaintenanceRole n) c = need (existing (maintenance_role n) (ct_roles c)) MaintenanceRoleRequired (Inr c)"
| "exec_ddl u (LockTable s n) c = on_table u s n (\<lambda>_. None) id c"
| "exec_ddl u (RequireHistory _ _) c = on_table u S_auth T_security_events (\<lambda>_. None) id c"
| "exec_ddl u (ReplaceReason _ r) c =
     on_table u S_auth T_sessions (\<lambda>t. refuse_if (\<not> reason_allowed_by r t) InvalidReference) id c"

section \<open>One statement on the rows\<close>

definition check_holds :: "check_expr \<Rightarrow> stored_rows \<Rightarrow> bool" where
  "check_holds e r =
     (case e of
        EventTypeIn S \<Rightarrow> list_all (\<lambda>(ty, _). ty \<in> S) (rw_events r)
      | RevocationReasonIn S \<Rightarrow> list_all (\<lambda>x. case x of None \<Rightarrow> True | Some y \<Rightarrow> y \<in> S) (rw_reasons r)
      | _ \<Rightarrow> True)"

definition rule_holds :: "named_rule \<Rightarrow> stored_rows \<Rightarrow> bool" where
  "rule_holds x r = (case cn_rule x of CheckRule e _ \<Rightarrow> check_holds e r | _ \<Rightarrow> True)"

fun exec_rows :: "stmt \<Rightarrow> stored_rows \<Rightarrow> sql_error + stored_rows" where
  "exec_rows (AddRule _ _ x) r = need (\<not> cn_validated x \<or> rule_holds x r) RowsViolate (Inr r)"
| "exec_rows (DropTable s n) r =
     Inr (if s = S_auth \<and> n = T_security_events then r\<lparr>rw_events := []\<rparr>
          else if s = S_auth \<and> n = T_sessions then r\<lparr>rw_reasons := []\<rparr> else r)"
| "exec_rows (DropColumn s n k) r =
     Inr (if s = S_auth \<and> n = T_security_events then r\<lparr>rw_events := map (\<lambda>(ty, E). (ty, E - {k})) (rw_events r)\<rparr>
          else r)"
| "exec_rows (RequireHistory types extensions) r =
     need (list_all (\<lambda>(ty, E). ty \<in> types \<and> E \<inter> extensions = {}) (rw_events r)) DowngradeRequiresCompatibleHistory (Inr r)"
| "exec_rows (ReplaceReason old new) r =
     Inr (r\<lparr>rw_reasons := map (\<lambda>x. if x = Some old then Some new else x) (rw_reasons r)\<rparr>)"
| "exec_rows _ r = Inr r"

section \<open>Lists of statements\<close>

definition exec :: "role_name \<Rightarrow> stmt \<Rightarrow> catalogue \<times> stored_rows \<Rightarrow> sql_error + catalogue \<times> stored_rows" where
  "exec u x s = and_then (exec_ddl u x (fst s)) (\<lambda>c. and_then (exec_rows x (snd s)) (\<lambda>r. Inr (c, r)))"

fun exec_all :: "role_name \<Rightarrow> stmt list \<Rightarrow> catalogue \<times> stored_rows \<Rightarrow> sql_error + catalogue \<times> stored_rows" where
  "exec_all u [] s = Inr s"
| "exec_all u (x # xs) s = and_then (exec u x s) (exec_all u xs)"

fun ddl_all :: "role_name \<Rightarrow> stmt list \<Rightarrow> catalogue \<Rightarrow> sql_error + catalogue" where
  "ddl_all u [] c = Inr c"
| "ddl_all u (x # xs) c = and_then (exec_ddl u x c) (ddl_all u xs)"

fun rows_all :: "stmt list \<Rightarrow> stored_rows \<Rightarrow> sql_error + stored_rows" where
  "rows_all [] r = Inr r"
| "rows_all (x # xs) r = and_then (exec_rows x r) (rows_all xs)"

end
