(* ===== verification/SchemaMigrations.thy ===== *)
theory SchemaMigrations
  imports SchemaStatements
begin

text \<open>
  The migrations \<open>0001\<close> to \<open>0017\<close> under \<open>migrations/versions\<close> as lists of statements, in the order in which
  \<open>upgrade\<close> and \<open>downgrade\<close> send them. \<open>op.f\<close> names are verbatim; a bare name of a check rule goes through the naming
  convention of \<open>db/base.py\<close>, which Alembic takes from the target metadata. The initial catalogue is what
  \<open>.github/ci/setup-database.sql\<close> provides.
\<close>

section \<open>Columns, rules and routines\<close>

definition required :: "column_name \<Rightarrow> column_type \<Rightarrow> column" where
  "required n ty = \<lparr>co_name = n, co_type = ty, co_default = None, co_nullable = False\<rparr>"

definition optional :: "column_name \<Rightarrow> column_type \<Rightarrow> column" where
  "optional n ty = \<lparr>co_name = n, co_type = ty, co_default = None, co_nullable = True\<rparr>"

definition defaulted :: "column_name \<Rightarrow> column_type \<Rightarrow> default_value \<Rightarrow> column" where
  "defaulted n ty d = \<lparr>co_name = n, co_type = ty, co_default = Some d, co_nullable = False\<rparr>"

definition rule_named :: "rule_name \<Rightarrow> rule \<Rightarrow> named_rule" where
  "rule_named n k = \<lparr>cn_name = n, cn_rule = k, cn_validated = True\<rparr>"

definition check :: "table_name \<Rightarrow> label \<Rightarrow> check_expr \<Rightarrow> column_name list \<Rightarrow> named_rule" where
  "check t l e cs = rule_named (Ck t l) (CheckRule e cs)"

definition pinned :: "signature \<Rightarrow> sql_body \<Rightarrow> routine_def" where
  "pinned g b = \<lparr>rd_signature = g, rd_body = b, rd_definer = True, rd_pinned = True\<rparr>"

definition created_at :: column where
  "created_at = defaulted C_created_at TimestamptzT DefaultNow"

definition updated_at :: column where
  "updated_at = defaulted C_updated_at TimestamptzT DefaultNow"

definition version_one :: column where
  "version_one = defaulted C_version IntegerT DefaultOne"

text \<open>The three statements that follow every routine the runtime may call.\<close>

definition for_runtime :: "signature \<Rightarrow> stmt list" where
  "for_runtime g = [RoutineOwner g Sahl_migrator, RevokeAll (OnRoutine g) [PUBLIC],
     Grant [ExecuteP] (OnRoutine g) [Sahl_app]]"

section \<open>0001 to 0004: tenants\<close>

definition upgrade_0001 :: "stmt list" where
  "upgrade_0001 = []"

definition downgrade_0001 :: "stmt list" where
  "downgrade_0001 = []"

definition TENANT_STATUS_VALUES :: "string list" where
  "TENANT_STATUS_VALUES = [''pending'', ''active'', ''suspended'', ''archived'']"

definition upgrade_0002 :: "stmt list" where
  "upgrade_0002 =
     [CreateSchema S_app True,
      CreateEnum S_public E_tenant_status TENANT_STATUS_VALUES,
      CreateTable \<lparr>td_schema = S_public, td_name = T_tenants,
        td_columns =
          [required C_id UuidT, required C_slug (VarcharT 63), required C_name_ar (VarcharT 200),
           required C_name_en (VarcharT 200),
           defaulted C_status (EnumT S_public E_tenant_status) (DefaultMember ''pending'' S_public E_tenant_status),
           created_at, updated_at],
        td_rules =
          [rule_named (Pk T_tenants) (PrimaryKey [C_id]), rule_named (Uq T_tenants [C_slug]) (UniqueKey [C_slug]),
           check T_tenants L_slug_shape (Labelled L_slug_shape) [C_slug]]\<rparr>]"

definition downgrade_0002 :: "stmt list" where
  "downgrade_0002 =
     [DropTable S_public T_tenants, DropEnum S_public E_tenant_status, DropSchema S_app True]"

definition current_tenant_id :: signature where
  "current_tenant_id = (S_app, F_current_tenant_id, [])"

definition upgrade_0003 :: "stmt list" where
  "upgrade_0003 =
     [CreateRoutine False \<lparr>rd_signature = current_tenant_id, rd_body = CurrentTenantId, rd_definer = False,
        rd_pinned = False\<rparr>,
      RevokeAll (OnRoutine current_tenant_id) [PUBLIC],
      Grant [UsageP] (OnSchema S_app) [Sahl_app],
      Grant [ExecuteP] (OnRoutine current_tenant_id) [Sahl_app]]"

definition downgrade_0003 :: "stmt list" where
  "downgrade_0003 = [DropRoutine current_tenant_id False, Revoke [UsageP] (OnSchema S_app) [Sahl_app]]"

definition upgrade_0004 :: "stmt list" where
  "upgrade_0004 =
     [RevokeAll (OnTables [(S_public, T_tenants)]) [Sahl_app, PUBLIC],
      RevokeDefault Sahl_migrator S_public KindTables [SelectP, InsertP, UpdateP, DeleteP] Sahl_app,
      RevokeDefault Sahl_migrator S_public KindSequences [UsageP, SelectP] Sahl_app]"

definition downgrade_0004 :: "stmt list" where
  "downgrade_0004 =
     [Grant [SelectP, InsertP, UpdateP, DeleteP] (OnTables [(S_public, T_tenants)]) [Sahl_app],
      GrantDefault Sahl_migrator S_public KindTables [SelectP, InsertP, UpdateP, DeleteP] Sahl_app,
      GrantDefault Sahl_migrator S_public KindSequences [UsageP, SelectP] Sahl_app]"

section \<open>0005 to 0008: identities, credentials, sessions\<close>

definition USER_STATUS_VALUES :: "string list" where
  "USER_STATUS_VALUES = [''pending'', ''active'', ''suspended'', ''archived'']"

definition MEMBERSHIP_STATUS_VALUES :: "string list" where
  "MEMBERSHIP_STATUS_VALUES = [''pending'', ''active'', ''suspended'', ''left'']"

definition upgrade_0005 :: "stmt list" where
  "upgrade_0005 =
     [CreateSchema S_auth False, RevokeAll (OnSchema S_auth) [PUBLIC],
      RevokeDefault Sahl_migrator S_auth KindFunctions [ExecuteP] PUBLIC,
      CreateEnum S_auth E_user_status USER_STATUS_VALUES,
      CreateEnum S_auth E_membership_status MEMBERSHIP_STATUS_VALUES,
      CreateTable \<lparr>td_schema = S_auth, td_name = T_users,
        td_columns =
          [required C_id UuidT, required C_email (VarcharT 254), required C_normalized_email (VarcharT 254),
           defaulted C_status (EnumT S_auth E_user_status) (DefaultMember ''pending'' S_auth E_user_status),
           optional C_email_verified_at TimestamptzT, defaulted C_security_version IntegerT DefaultOne, created_at, updated_at],
        td_rules =
          [check T_users L_security_version_positive (Positive C_security_version) [C_security_version],
           rule_named (Pk T_users) (PrimaryKey [C_id]),
           rule_named (Uq T_users [C_normalized_email]) (UniqueKey [C_normalized_email])]\<rparr>,
      CreateTable \<lparr>td_schema = S_auth, td_name = T_tenant_memberships,
        td_columns =
          [required C_id UuidT, required C_user_id UuidT, required C_tenant_id UuidT,
           defaulted C_status (EnumT S_auth E_membership_status) (DefaultMember ''pending'' S_auth E_membership_status),
           optional C_joined_at TimestamptzT, optional C_left_at TimestamptzT, version_one,
           created_at, updated_at],
        td_rules =
          [check T_tenant_memberships L_version_positive (Positive C_version) [C_version],
           check T_tenant_memberships L_lifecycle_timestamps (Labelled L_lifecycle_timestamps) [C_status, C_joined_at, C_left_at],
           rule_named (Fk T_tenant_memberships [C_tenant_id] T_tenants)
             (ForeignKey [C_tenant_id] S_public T_tenants [C_id] OnDeleteRestrict),
           rule_named (Fk T_tenant_memberships [C_user_id] T_users)
             (ForeignKey [C_user_id] S_auth T_users [C_id] OnDeleteRestrict),
           rule_named (Pk T_tenant_memberships) (PrimaryKey [C_id]),
           rule_named (UqNamed T_tenant_memberships L_id_user) (UniqueKey [C_id, C_user_id]),
           rule_named (UqNamed T_tenant_memberships L_user_tenant) (UniqueKey [C_user_id, C_tenant_id])]\<rparr>,
      CreateIndex S_auth T_tenant_memberships
        \<lparr>ix_name = I_tenant_memberships_user_id_status, ix_columns = [C_user_id, C_status]\<rparr>,
      CreateIndex S_auth T_tenant_memberships
        \<lparr>ix_name = I_tenant_memberships_tenant_id_status, ix_columns = [C_tenant_id, C_status]\<rparr>,
      RevokeAll (OnTables [(S_auth, T_users), (S_auth, T_tenant_memberships)]) [PUBLIC, Sahl_app]]"

definition downgrade_0005 :: "stmt list" where
  "downgrade_0005 =
     [DropIndex S_auth I_tenant_memberships_tenant_id_status,
      DropIndex S_auth I_tenant_memberships_user_id_status,
      DropTable S_auth T_tenant_memberships, DropTable S_auth T_users,
      DropEnum S_auth E_membership_status, DropEnum S_auth E_user_status,
      GrantDefault Sahl_migrator S_auth KindFunctions [ExecuteP] PUBLIC,
      DropSchema S_auth False]"

definition upgrade_0006 :: "stmt list" where
  "upgrade_0006 =
     [CreateTable \<lparr>td_schema = S_auth, td_name = T_password_credentials,
        td_columns =
          [required C_user_id UuidT, required C_password_hash TextT, defaulted C_credential_version IntegerT DefaultOne,
           defaulted C_changed_at TimestamptzT DefaultNow],
        td_rules =
          [check T_password_credentials L_credential_version_positive (Positive C_credential_version) [C_credential_version],
           check T_password_credentials L_password_hash_argon2id (Labelled L_password_hash_argon2id)
             [C_password_hash],
           rule_named (Fk T_password_credentials [C_user_id] T_users)
             (ForeignKey [C_user_id] S_auth T_users [C_id] OnDeleteRestrict),
           rule_named (Pk T_password_credentials) (PrimaryKey [C_user_id])]\<rparr>,
      RevokeAll (OnTables [(S_auth, T_password_credentials)]) [PUBLIC],
      RevokeAll (OnTables [(S_auth, T_password_credentials)]) [Sahl_app]]"

definition downgrade_0006 :: "stmt list" where
  "downgrade_0006 = [DropTable S_auth T_password_credentials]"

text \<open>The reasons a revoked session may carry, before and after migration \<open>0009\<close>.\<close>

definition session_revocation_state :: "string set \<Rightarrow> named_rule" where
  "session_revocation_state reasons = rule_named (Ck T_sessions L_session_revocation_state)
     (CheckRule (RevocationReasonIn reasons) [C_revoked_at, C_revoked_reason])"

definition REASONS_0007 :: "string set" where
  "REASONS_0007 = {''logout'', ''revoke_all'', ''concurrent_limit''}"

definition REASONS_0009 :: "string set" where
  "REASONS_0009 = {''logout'', ''revoke_all'', ''concurrent_limit'', ''password_reset''}"

definition runtime_rows :: "table_name \<Rightarrow> stmt list" where
  "runtime_rows t = [RevokeAll (OnTables [(S_auth, t)]) [PUBLIC],
     Grant [SelectP, InsertP, UpdateP] (OnTables [(S_auth, t)]) [Sahl_app]]"

definition upgrade_0007 :: "stmt list" where
  "upgrade_0007 =
     [Grant [UsageP] (OnSchema S_auth) [Sahl_app],
      CreateTable \<lparr>td_schema = S_auth, td_name = T_sessions,
        td_columns =
          [required C_id UuidT, required C_user_id UuidT, required C_bearer_digest ByteaT, required C_csrf_digest ByteaT,
           required C_security_version IntegerT, required C_created_at TimestamptzT,
           required C_authenticated_at TimestamptzT, required C_last_seen_at TimestamptzT,
           required C_idle_expires_at TimestamptzT, required C_absolute_expires_at TimestamptzT,
           optional C_revoked_at TimestamptzT, optional C_revoked_reason (VarcharT 32)],
        td_rules =
          [check T_sessions L_bearer_digest_length (Octets32 C_bearer_digest) [C_bearer_digest],
           check T_sessions L_csrf_digest_length (Octets32 C_csrf_digest) [C_csrf_digest],
           check T_sessions L_session_expiry_order (NotAfter C_idle_expires_at C_absolute_expires_at)
             [C_idle_expires_at, C_absolute_expires_at],
           session_revocation_state REASONS_0007,
           rule_named (Fk T_sessions [C_user_id] T_users) (ForeignKey [C_user_id] S_auth T_users [C_id] OnDeleteCascade),
           rule_named (Pk T_sessions) (PrimaryKey [C_id]),
           rule_named (Uq T_sessions [C_bearer_digest]) (UniqueKey [C_bearer_digest])]\<rparr>,
      CreateIndex S_auth T_sessions
        \<lparr>ix_name = I_sessions_user_active, ix_columns = [C_user_id, C_revoked_at, C_created_at]\<rparr>,
      CreateTable \<lparr>td_schema = S_auth, td_name = T_preauth_csrf_states,
        td_columns =
          [required C_state_digest ByteaT, required C_csrf_digest ByteaT, required C_created_at TimestamptzT,
           required C_expires_at TimestamptzT, optional C_consumed_at TimestamptzT],
        td_rules =
          [check T_preauth_csrf_states L_state_digest_length (Octets32 C_state_digest) [C_state_digest],
           check T_preauth_csrf_states L_csrf_digest_length (Octets32 C_csrf_digest) [C_csrf_digest],
           check T_preauth_csrf_states L_preauth_expiry_order (After C_expires_at C_created_at)
             [C_expires_at, C_created_at],
           rule_named (Pk T_preauth_csrf_states) (PrimaryKey [C_state_digest])]\<rparr>] @
     concat (map runtime_rows [T_sessions, T_preauth_csrf_states])"

definition downgrade_0007 :: "stmt list" where
  "downgrade_0007 =
     [Revoke [UsageP] (OnSchema S_auth) [Sahl_app], DropTable S_auth T_preauth_csrf_states,
      DropIndex S_auth I_sessions_user_active, DropTable S_auth T_sessions]"

definition resolve_active_membership_sig :: signature where
  "resolve_active_membership_sig = (S_auth, F_resolve_active_membership, [A_uuid, A_uuid, A_integer, A_integer])"

definition upgrade_0008 :: "stmt list" where
  "upgrade_0008 =
     [AddColumn S_auth T_sessions (optional C_selected_membership_id UuidT),
      AddColumn S_auth T_sessions (optional C_selected_membership_version IntegerT),
      AddRule S_auth T_sessions (check T_sessions L_selected_membership_pair
        (Labelled L_selected_membership_pair)
        [C_selected_membership_id, C_selected_membership_version]),
      AddRule S_auth T_sessions (check T_sessions L_selected_membership_version_positive
        (Labelled L_selected_membership_version_positive) [C_selected_membership_version]),
      AddRule S_auth T_sessions (rule_named (Fk T_sessions [C_selected_membership_id] T_tenant_memberships)
        (ForeignKey [C_selected_membership_id, C_user_id] S_auth T_tenant_memberships [C_id, C_user_id]
          OnDeleteRestrict)),
      CreateRoutine False (pinned resolve_active_membership_sig ResolveActiveMembership)] @
     for_runtime resolve_active_membership_sig"

definition downgrade_0008 :: "stmt list" where
  "downgrade_0008 =
     [DropRoutine resolve_active_membership_sig False,
      DropRule S_auth T_sessions (Fk T_sessions [C_selected_membership_id] T_tenant_memberships) False,
      DropRule S_auth T_sessions (Ck T_sessions L_selected_membership_version_positive) True,
      DropRule S_auth T_sessions (Ck T_sessions L_selected_membership_pair) True,
      DropColumn S_auth T_sessions C_selected_membership_version,
      DropColumn S_auth T_sessions C_selected_membership_id]"

section \<open>0009: throttles, reset tokens, security events\<close>

definition EVENTS_0009 :: "security_event_type set" where
  "EVENTS_0009 = {LOGIN_SUCCESS, LOGIN_FAILURE, LOGOUT, SESSION_REVOKED, ALL_SESSIONS_REVOKED,
     PASSWORD_CHANGED, PASSWORD_RESET_REQUESTED, PASSWORD_RESET_COMPLETED, MEMBERSHIP_DENIED,
     TENANT_SWITCH, THROTTLING_TRIGGERED}"

definition event_type_allowed :: "security_event_type set \<Rightarrow> named_rule" where
  "event_type_allowed types = rule_named (Ck T_security_events L_event_type_allowed)
     (CheckRule (EventTypeIn types) [C_event_type])"

definition consume_throttle_sig :: signature where
  "consume_throttle_sig = (S_auth, F_consume_throttle, [A_text, A_bytea, A_smallint, A_integer, A_integer])"

definition request_password_reset_sig :: signature where
  "request_password_reset_sig = (S_auth, F_request_password_reset, [A_text, A_bytea, A_uuid, A_uuid, A_text])"

definition complete_password_reset_sig :: signature where
  "complete_password_reset_sig = (S_auth, F_complete_password_reset, [A_bytea, A_text, A_uuid, A_text])"

definition record_security_event_sig :: signature where
  "record_security_event_sig = (S_auth, F_record_security_event,
     [A_uuid, A_text, A_text, A_text, A_uuid, A_uuid, A_uuid, A_bytea, A_text])"

definition upgrade_0009 :: "stmt list" where
  "upgrade_0009 =
     [CreateTable \<lparr>td_schema = S_auth, td_name = T_throttle_buckets,
        td_columns =
          [required C_scope (VarcharT 40), required C_key_digest ByteaT, required C_window_started_at TimestamptzT,
           required C_key_id SmallintT, required C_request_count IntegerT, required C_expires_at TimestamptzT],
        td_rules =
          [check T_throttle_buckets L_key_digest_length (Octets32 C_key_digest) [C_key_digest],
           check T_throttle_buckets L_request_count_positive (Positive C_request_count) [C_request_count],
           rule_named (Pk T_throttle_buckets) (PrimaryKey [C_scope, C_key_digest, C_window_started_at])]\<rparr>,
      CreateTable \<lparr>td_schema = S_auth, td_name = T_password_reset_tokens,
        td_columns =
          [required C_id UuidT, required C_user_id UuidT, required C_token_digest ByteaT,
           required C_created_at TimestamptzT, required C_expires_at TimestamptzT,
           optional C_consumed_at TimestamptzT, optional C_revoked_at TimestamptzT],
        td_rules =
          [check T_password_reset_tokens L_token_digest_length (Octets32 C_token_digest) [C_token_digest],
           rule_named (Fk T_password_reset_tokens [C_user_id] T_users)
             (ForeignKey [C_user_id] S_auth T_users [C_id] OnDeleteCascade),
           rule_named (Pk T_password_reset_tokens) (PrimaryKey [C_id]),
           rule_named (UqNamed T_password_reset_tokens L_digest) (UniqueKey [C_token_digest])]\<rparr>,
      CreateIndex S_auth T_password_reset_tokens
        \<lparr>ix_name = I_password_reset_tokens_user_open, ix_columns = [C_user_id, C_consumed_at, C_revoked_at]\<rparr>,
      CreateTable \<lparr>td_schema = S_auth, td_name = T_security_events,
        td_columns =
          [required C_id UuidT, required C_event_type (VarcharT 40), required C_result (VarcharT 16),
           optional C_reason_code (VarcharT 40), optional C_user_id UuidT, optional C_session_id UuidT,
           optional C_membership_id UuidT, optional C_subject_digest ByteaT, required C_correlation_id (VarcharT 64),
           required C_created_at TimestamptzT],
        td_rules =
          [event_type_allowed EVENTS_0009,
           rule_named (Ck T_security_events L_result_allowed) (CheckRule (Labelled L_result_allowed) [C_result]),
           rule_named (Pk T_security_events) (PrimaryKey [C_id])]\<rparr>,
      DropRule S_auth T_sessions (Ck T_sessions L_session_revocation_state) False,
      AddRule S_auth T_sessions (session_revocation_state REASONS_0009)] @
     concat (map (\<lambda>t. [RevokeAll (OnTables [(S_auth, t)]) [PUBLIC], RevokeAll (OnTables [(S_auth, t)]) [Sahl_app]])
       [T_throttle_buckets, T_password_reset_tokens, T_security_events]) @
     map (CreateRoutine False)
       [pinned consume_throttle_sig ConsumeThrottle, pinned request_password_reset_sig RequestReset9,
        pinned complete_password_reset_sig CompleteReset9, pinned record_security_event_sig RecordEvent9] @
     concat (map for_runtime
       [consume_throttle_sig, request_password_reset_sig, complete_password_reset_sig, record_security_event_sig])"

definition downgrade_0009 :: "stmt list" where
  "downgrade_0009 =
     map (\<lambda>g. DropRoutine g True)
       [record_security_event_sig, complete_password_reset_sig, request_password_reset_sig,
        (S_auth, F_request_password_reset, [A_text, A_bytea, A_uuid, A_text]), consume_throttle_sig] @
     [DropRule S_auth T_sessions (Ck T_sessions L_session_revocation_state) False,
      ReplaceReason ''password_reset'' ''revoke_all'',
      AddRule S_auth T_sessions (session_revocation_state REASONS_0007),
      DropTable S_auth T_security_events, DropIndex S_auth I_password_reset_tokens_user_open,
      DropTable S_auth T_password_reset_tokens, DropTable S_auth T_throttle_buckets]"

section \<open>0010 to 0013: roles, interface settings, projections\<close>

definition ROLE_STATUS_VALUES :: "string list" where
  "ROLE_STATUS_VALUES = [''active'', ''inactive'']"

definition TABLES_0010 :: "table_name list" where
  "TABLES_0010 = [T_roles, T_role_permissions, T_membership_roles]"

text \<open>The isolation of a tenant owned table: policy for the runtime, forced on the owner too.\<close>

definition tenant_isolation :: policy where
  "tenant_isolation = \<lparr>po_roles = [Sahl_app], po_using = TenantMatches, po_check = TenantMatches,
     po_calls = current_tenant_id\<rparr>"

definition isolate :: "schema_name \<Rightarrow> table_name \<Rightarrow> stmt list" where
  "isolate s t =
     [EnableRowSecurity s t, ForceRowSecurity s t, CreatePolicy s t tenant_isolation,
      RevokeAll (OnTables [(s, t)]) [PUBLIC, Sahl_app],
      Grant [SelectP, InsertP, UpdateP, DeleteP] (OnTables [(s, t)]) [Sahl_app]]"

definition upgrade_0010 :: "stmt list" where
  "upgrade_0010 =
     [CreateEnum S_auth E_role_status ROLE_STATUS_VALUES,
      AddRule S_auth T_tenant_memberships
        (rule_named (UqNamed T_tenant_memberships L_tenant_id) (UniqueKey [C_tenant_id, C_id])),
      CreateTable \<lparr>td_schema = S_auth, td_name = T_roles,
        td_columns =
          [required C_id UuidT, required C_tenant_id UuidT, required C_key (VarcharT 63),
           required C_display_name (VarcharT 120),
           defaulted C_status (EnumT S_auth E_role_status) (DefaultMember ''active'' S_auth E_role_status),
           created_at, updated_at],
        td_rules =
          [check T_roles L_key_format (Labelled L_key_format) [C_key],
           rule_named (Fk T_roles [C_tenant_id] T_tenants) (ForeignKey [C_tenant_id] S_public T_tenants [C_id] OnDeleteRestrict),
           rule_named (Pk T_roles) (PrimaryKey [C_id]),
           rule_named (UqNamed T_roles L_tenant_id) (UniqueKey [C_tenant_id, C_id]),
           rule_named (UqNamed T_roles L_tenant_key) (UniqueKey [C_tenant_id, C_key])]\<rparr>,
      CreateTable \<lparr>td_schema = S_auth, td_name = T_role_permissions,
        td_columns =
          [required C_tenant_id UuidT, required C_role_id UuidT, required C_permission_id (VarcharT 128), created_at],
        td_rules =
          [check T_role_permissions L_permission_id_format (Labelled L_permission_id_format) [C_permission_id],
           rule_named (FkNamed T_role_permissions L_tenant_role)
             (ForeignKey [C_tenant_id, C_role_id] S_auth T_roles [C_tenant_id, C_id] OnDeleteCascade),
           rule_named (Pk T_role_permissions) (PrimaryKey [C_tenant_id, C_role_id, C_permission_id])]\<rparr>,
      CreateTable \<lparr>td_schema = S_auth, td_name = T_membership_roles,
        td_columns =
          [required C_tenant_id UuidT, required C_membership_id UuidT, required C_role_id UuidT, created_at],
        td_rules =
          [rule_named (FkNamed T_membership_roles L_tenant_membership)
             (ForeignKey [C_tenant_id, C_membership_id] S_auth T_tenant_memberships [C_tenant_id, C_id] OnDeleteCascade),
           rule_named (FkNamed T_membership_roles L_tenant_role)
             (ForeignKey [C_tenant_id, C_role_id] S_auth T_roles [C_tenant_id, C_id] OnDeleteCascade),
           rule_named (Pk T_membership_roles) (PrimaryKey [C_tenant_id, C_membership_id, C_role_id])]\<rparr>] @
     concat (map (isolate S_auth) TABLES_0010)"

definition downgrade_0010 :: "stmt list" where
  "downgrade_0010 =
     [DropTable S_auth T_membership_roles, DropTable S_auth T_role_permissions, DropTable S_auth T_roles,
      DropRule S_auth T_tenant_memberships (UqNamed T_tenant_memberships L_tenant_id) False,
      DropEnum S_auth E_role_status]"

definition is_active_membership_sig :: signature where
  "is_active_membership_sig = (S_auth, F_is_active_membership_in_tenant, [A_uuid, A_uuid])"

definition upgrade_0011 :: "stmt list" where
  "upgrade_0011 =
     [AddColumn S_auth T_roles (version_one),
      AddRule S_auth T_roles (check T_roles L_version_positive (Positive C_version) [C_version]),
      CreateRoutine False (pinned is_active_membership_sig IsActiveMembership)] @
     for_runtime is_active_membership_sig"

definition downgrade_0011 :: "stmt list" where
  "downgrade_0011 =
     [DropRoutine is_active_membership_sig False,
      DropRule S_auth T_roles (Ck T_roles L_version_positive) False,
      DropColumn S_auth T_roles C_version]"

definition TENANT_TABLES :: "table_name list" where
  "TENANT_TABLES = [T_tenant_ui_settings, T_user_ui_settings]"

definition VALUE_CHECKS :: "(label \<times> check_expr) list" where
  "VALUE_CHECKS =
     [(L_settings_theme_value, SettingIn K_theme
        [V_teal_calm, V_green_institutional, V_navy_institutional, V_slate_neutral, V_sand_warm]),
      (L_settings_button_preset_value, SettingIn K_button_preset
        [V_institutional_standard, V_compact_sharp, V_soft_rounded, V_outlined_calm, V_balanced_roomy]),
      (L_settings_alert_preset_value, SettingIn K_alert_preset
        [V_tinted_standard, V_solid_emphatic, V_minimal_inline, V_dense_compact, V_bordered_quiet]),
      (L_settings_overlay_preset_value, SettingIn K_overlay_preset
        [V_institutional_standard, V_soft_elevated, V_flat_bordered, V_dim_focused, V_compact_dense]),
      (L_settings_table_preset_value, SettingIn K_table_preset
        [V_institutional_standard, V_zebra_scan, V_full_grid, V_compact_rows, V_airy_report]),
      (L_settings_print_preset_value, SettingIn K_print_preset
        [V_institutional_standard, V_ink_saving, V_high_contrast_print, V_formal_letterhead, V_dense_archive])]"

definition settings_columns :: "column list" where
  "settings_columns = [defaulted C_settings JsonbT DefaultEmptyObject, version_one, updated_at]"

definition settings_checks :: "table_name \<Rightarrow> named_rule list" where
  "settings_checks t =
     [check t L_settings_object (Labelled L_settings_object) [C_settings],
      check t L_settings_keys (Labelled L_settings_keys) [C_settings]] @
     map (\<lambda>(n, e). check t n e [C_settings]) VALUE_CHECKS @
     [check t L_version_positive (Positive C_version) [C_version]]"

definition upgrade_0012 :: "stmt list" where
  "upgrade_0012 =
     [CreateTable \<lparr>td_schema = S_app, td_name = T_platform_ui_settings,
        td_columns = defaulted C_id SmallintT DefaultOne # settings_columns,
        td_rules = check T_platform_ui_settings L_singleton (EqualsOne C_id) [C_id] #
          settings_checks T_platform_ui_settings @ [rule_named (Pk T_platform_ui_settings) (PrimaryKey [C_id])]\<rparr>,
      CreateTable \<lparr>td_schema = S_app, td_name = T_tenant_ui_settings,
        td_columns = required C_tenant_id UuidT # settings_columns,
        td_rules = settings_checks T_tenant_ui_settings @
          [rule_named (Fk T_tenant_ui_settings [C_tenant_id] T_tenants)
             (ForeignKey [C_tenant_id] S_public T_tenants [C_id] OnDeleteCascade),
           rule_named (Pk T_tenant_ui_settings) (PrimaryKey [C_tenant_id])]\<rparr>,
      CreateTable \<lparr>td_schema = S_app, td_name = T_user_ui_settings,
        td_columns = required C_tenant_id UuidT # required C_user_id UuidT # settings_columns,
        td_rules = settings_checks T_user_ui_settings @
          [rule_named (Fk T_user_ui_settings [C_tenant_id] T_tenants)
             (ForeignKey [C_tenant_id] S_public T_tenants [C_id] OnDeleteCascade),
           rule_named (Fk T_user_ui_settings [C_user_id] T_users)
             (ForeignKey [C_user_id] S_auth T_users [C_id] OnDeleteCascade),
           rule_named (Pk T_user_ui_settings) (PrimaryKey [C_tenant_id, C_user_id])]\<rparr>] @
     concat (map (isolate S_app) TENANT_TABLES) @
     [RevokeAll (OnTables [(S_app, T_platform_ui_settings)]) [PUBLIC, Sahl_app],
      Grant [SelectP] (OnTables [(S_app, T_platform_ui_settings)]) [Sahl_app]]"

definition downgrade_0012 :: "stmt list" where
  "downgrade_0012 =
     [DropTable S_app T_user_ui_settings, DropTable S_app T_tenant_ui_settings, DropTable S_app T_platform_ui_settings]"

definition FUNCTION_SIGNATURES_0013 :: "signature list" where
  "FUNCTION_SIGNATURES_0013 = [(S_auth, F_session_identity, [A_bytea]), (S_auth, F_session_memberships, [A_bytea])]"

definition upgrade_0013 :: "stmt list" where
  "upgrade_0013 =
     [CreateRoutine False (pinned (S_auth, F_session_identity, [A_bytea]) SessionIdentity),
      CreateRoutine False (pinned (S_auth, F_session_memberships, [A_bytea]) SessionMemberships)] @
     concat (map for_runtime FUNCTION_SIGNATURES_0013)"

definition downgrade_0013 :: "stmt list" where
  "downgrade_0013 = map (\<lambda>g. DropRoutine g False) (rev FUNCTION_SIGNATURES_0013)"

section \<open>0014 to 0017: the audit trail and the last indexes\<close>

definition APPEND_SIGNATURE :: signature where
  "APPEND_SIGNATURE = (S_auth, F_append_security_event,
     [A_uuid, A_text, A_text, A_text, A_uuid, A_uuid, A_uuid, A_bytea, A_uuid, A_uuid, A_uuid, A_text,
      A_text, A_smallint, A_bigint])"

definition VALIDATOR_SIGNATURE :: signature where
  "VALIDATOR_SIGNATURE = (S_auth, F_validate_security_event_insert, [])"

definition NEW_COLUMNS :: "column_name list" where
  "NEW_COLUMNS =
     [C_role_id, C_target_membership_id, C_permission_id, C_subject_kind, C_subject_key_id, C_affected_count]"

definition EVENTS_0014 :: "security_event_type set" where
  "EVENTS_0014 = {ALL_SESSIONS_REVOKED, AUTHORIZATION_DENIED, CSRF_REJECTED, LOGIN_FAILURE,
     LOGIN_SUCCESS, LOGOUT, MEMBERSHIP_DENIED, MEMBERSHIP_ROLE_ASSIGNED, MEMBERSHIP_ROLE_REMOVED,
     ORIGIN_REJECTED, PASSWORD_CHANGED, PASSWORD_RESET_COMPLETED, PASSWORD_RESET_REQUESTED,
     ROLE_CREATED, ROLE_DISABLED, ROLE_PERMISSION_ASSIGNED, ROLE_PERMISSION_REMOVED, ROLE_UPDATED,
     SECURITY_EVENTS_PRUNED, SESSION_REVOKED, TENANT_SWITCH, THROTTLING_TRIGGERED}"

text \<open>The entries of \<open>AUDIT_CHECKS\<close> beside \<open>event_type_allowed\<close> and \<open>result_allowed\<close>, with the columns they read.\<close>

definition AUDIT_CHECKS_0014 :: "(label \<times> column_name list) list" where
  "AUDIT_CHECKS_0014 =
     [(L_event_contract, [C_event_type, C_result, C_reason_code]),
      (L_event_id_uuid7, [C_id]),
      (L_correlation_id_format, [C_correlation_id]),
      (L_identity_shape, [C_user_id, C_session_id, C_membership_id, C_event_type]),
      (L_role_shape, [C_event_type, C_role_id]),
      (L_target_membership_shape, [C_event_type, C_target_membership_id]),
      (L_permission_catalog, [C_permission_id]),
      (L_permission_shape, [C_event_type, C_permission_id]),
      (L_subject_shape, [C_subject_digest, C_subject_kind, C_subject_key_id]),
      (L_affected_count_shape, [C_event_type, C_affected_count, C_user_id, C_session_id, C_membership_id,
         C_role_id, C_target_membership_id, C_subject_digest, C_subject_kind, C_subject_key_id])]"

definition not_valid_check :: "label \<times> column_name list \<Rightarrow> named_rule" where
  "not_valid_check e = \<lparr>cn_name = Ck T_security_events (fst e), cn_rule = CheckRule (Labelled (fst e)) (snd e),
     cn_validated = False\<rparr>"

definition upgrade_0014 :: "stmt list" where
  "upgrade_0014 =
     map (AddColumn S_auth T_security_events)
       [optional C_role_id UuidT, optional C_target_membership_id UuidT, optional C_permission_id (VarcharT 120),
        optional C_subject_kind (VarcharT 32), optional C_subject_key_id SmallintT, optional C_affected_count BigintT] @
     [DropRule S_auth T_security_events (Ck T_security_events L_event_type_allowed) False,
      AddRule S_auth T_security_events (event_type_allowed EVENTS_0014)] @
     map (\<lambda>e. AddRule S_auth T_security_events (not_valid_check e)) AUDIT_CHECKS_0014 @
     [CreateRoutine False (pinned VALIDATOR_SIGNATURE ValidateInsert14),
      RoutineOwner VALIDATOR_SIGNATURE Sahl_migrator,
      RevokeAll (OnRoutine VALIDATOR_SIGNATURE) [PUBLIC, Sahl_app],
      CreateTrigger S_auth T_security_events \<lparr>tg_name = Security_event_insert_guard,
        tg_events = BeforeInsert, tg_calls = VALIDATOR_SIGNATURE\<rparr>,
      CreateRoutine False (pinned APPEND_SIGNATURE AppendEvent),
      CreateRoutine True (pinned record_security_event_sig RecordEvent14),
      CreateRoutine True (pinned request_password_reset_sig RequestReset14),
      CreateRoutine True (pinned complete_password_reset_sig CompleteReset14)] @
     concat (map for_runtime
       [APPEND_SIGNATURE, record_security_event_sig, request_password_reset_sig, complete_password_reset_sig]) @
     [RevokeAll (OnTables [(S_auth, T_security_events)]) [PUBLIC, Sahl_app]]"

definition downgrade_0014 :: "stmt list" where
  "downgrade_0014 =
     [LockTable S_auth T_security_events,
      RequireHistory EVENTS_0009 (set NEW_COLUMNS),
      CreateRoutine True (pinned request_password_reset_sig RequestReset9),
      CreateRoutine True (pinned complete_password_reset_sig CompleteReset9),
      CreateRoutine True (pinned record_security_event_sig RecordEvent9),
      DropRoutine APPEND_SIGNATURE False,
      DropTrigger S_auth T_security_events Security_event_insert_guard,
      DropRoutine VALIDATOR_SIGNATURE False,
      DropRule S_auth T_security_events (Ck T_security_events L_event_type_allowed) False] @
     map (\<lambda>e. DropRule S_auth T_security_events (Ck T_security_events (fst e)) False) AUDIT_CHECKS_0014 @
     [AddRule S_auth T_security_events (event_type_allowed EVENTS_0009)] @
     map (DropColumn S_auth T_security_events) (rev NEW_COLUMNS)"

definition PREPARE :: signature where
  "PREPARE = (S_auth, F_prepare_role_security_event,
     [A_uuid, A_text, A_uuid, A_uuid, A_uuid, A_uuid, A_uuid, A_text, A_uuid, A_integer])"

definition CANCEL :: signature where
  "CANCEL = (S_auth, F_cancel_role_security_event, [A_uuid])"

definition ATTEST :: signature where
  "ATTEST = (S_auth, F_attest_role_security_change, [])"

definition EMPTY :: signature where
  "EMPTY = (S_auth, F_require_consumed_role_security_event, [])"

definition NEW_FUNCTIONS :: "(signature \<times> sql_body) list" where
  "NEW_FUNCTIONS =
     [((S_auth, F_password_authentication_snapshot, [A_text]), AuthenticationSnapshot),
      ((S_auth, F_password_change_snapshot, [A_bytea]), ChangeSnapshot),
      ((S_auth, F_confirm_password_authentication, [A_uuid, A_bigint, A_bigint, A_text]), ConfirmAuthentication),
      ((S_auth, F_apply_password_change, [A_bytea, A_bigint, A_bigint, A_text, A_text]), ApplyChange)]"

definition upgrade_0015 :: "stmt list" where
  "upgrade_0015 =
     map (\<lambda>(g, b). CreateRoutine False (pinned g b)) NEW_FUNCTIONS @
     [CreateRoutine True (pinned complete_password_reset_sig CompleteReset15)] @
     concat (map for_runtime (map fst NEW_FUNCTIONS @ [complete_password_reset_sig])) @
     [CreateTable \<lparr>td_schema = S_auth, td_name = T_role_security_event_intents,
        td_columns =
          [required C_transaction_id BigintT, required C_backend_pid IntegerT, required C_event_id UuidT,
           required C_event_type (VarcharT 40), required C_user_id UuidT, required C_session_id UuidT,
           required C_membership_id UuidT, required C_tenant_id UuidT, required C_role_id UuidT,
           optional C_target_membership_id UuidT, optional C_permission_id (VarcharT 120),
           required C_correlation_id UuidT, required C_attested BooleanT],
        td_rules =
          [rule_named (Pk T_role_security_event_intents) (PrimaryKey [C_transaction_id])]\<rparr>,
      TableOwner S_auth T_role_security_event_intents Sahl_migrator,
      RevokeAll (OnTables [(S_auth, T_role_security_event_intents)]) [PUBLIC, Sahl_app]] @
     [CreateRoutine False (pinned PREPARE PrepareRoleEvent), CreateRoutine False (pinned ATTEST AttestRoleChange),
      CreateRoutine False (pinned CANCEL CancelRoleEvent), CreateRoutine False (pinned EMPTY RequireConsumed),
      CreateRoutine True (pinned VALIDATOR_SIGNATURE ValidateInsert15)] @
     concat (map (\<lambda>g. [RoutineOwner g Sahl_migrator, RevokeAll (OnRoutine g) [PUBLIC, Sahl_app]])
       [PREPARE, CANCEL, ATTEST, EMPTY]) @
     map (\<lambda>g. Grant [ExecuteP] (OnRoutine g) [Sahl_app]) [PREPARE, CANCEL] @
     map (\<lambda>t. CreateTrigger S_auth t \<lparr>tg_name = Role_security_change_attestation,
        tg_events = AfterAnyChange, tg_calls = ATTEST\<rparr>) TABLES_0010 @
     [CreateTrigger S_auth T_role_security_event_intents \<lparr>tg_name = Role_security_event_mandatory,
        tg_events = AfterInsertDeferred, tg_calls = EMPTY\<rparr>]"

definition downgrade_0015 :: "stmt list" where
  "downgrade_0015 =
     [CreateRoutine True (pinned complete_password_reset_sig CompleteReset14)] @
     map (\<lambda>g. DropRoutine g False) (rev (map fst NEW_FUNCTIONS)) @
     [LockTable S_auth T_role_security_event_intents,
      CreateRoutine True (pinned VALIDATOR_SIGNATURE ValidateInsert14)] @
     map (\<lambda>t. DropTrigger S_auth t Role_security_change_attestation) TABLES_0010 @
     [DropTrigger S_auth T_role_security_event_intents Role_security_event_mandatory] @
     map (\<lambda>g. DropRoutine g False) [PREPARE, CANCEL, ATTEST, EMPTY] @
     [DropTable S_auth T_role_security_event_intents]"

definition PRUNE_SIGNATURE :: signature where
  "PRUNE_SIGNATURE = (S_auth, F_prune_security_events, [A_integer])"

definition upgrade_0016 :: "stmt list" where
  "upgrade_0016 =
     [RequireMaintenanceRole Sahl_security_maintenance,
      CreateIndex S_auth T_security_events \<lparr>ix_name = I_security_events_retention, ix_columns = [C_created_at, C_id]\<rparr>,
      CreateRoutine False (pinned PRUNE_SIGNATURE PruneEvents),
      RoutineOwner PRUNE_SIGNATURE Sahl_migrator,
      RevokeAll (OnRoutine PRUNE_SIGNATURE) [PUBLIC, Sahl_app],
      Grant [ExecuteP] (OnRoutine PRUNE_SIGNATURE) [Sahl_security_maintenance],
      Grant [UsageP] (OnSchema S_auth) [Sahl_security_maintenance],
      CreateRoutine True (pinned VALIDATOR_SIGNATURE ValidateInsert16),
      RoutineOwner VALIDATOR_SIGNATURE Sahl_migrator,
      RevokeAll (OnRoutine VALIDATOR_SIGNATURE) [PUBLIC, Sahl_app, Sahl_security_maintenance]]"

definition downgrade_0016 :: "stmt list" where
  "downgrade_0016 =
     [LockTable S_auth T_security_events,
      CreateRoutine True (pinned VALIDATOR_SIGNATURE ValidateInsert15),
      DropRoutine PRUNE_SIGNATURE False,
      DropIndex S_auth I_security_events_retention,
      Revoke [UsageP] (OnSchema S_auth) [Sahl_security_maintenance]]"

definition INDEXES :: "(schema_name \<times> table_name \<times> index_name \<times> column_name list) list" where
  "INDEXES =
     [(S_app, T_user_ui_settings, I_user_ui_settings_user_id, [C_user_id]),
      (S_auth, T_membership_roles, I_membership_roles_tenant_role, [C_tenant_id, C_role_id]),
      (S_auth, T_sessions, I_sessions_selected_membership_user, [C_selected_membership_id, C_user_id])]"

definition upgrade_0017 :: "stmt list" where
  "upgrade_0017 = map (\<lambda>(s, t, n, cs). CreateIndex s t \<lparr>ix_name = n, ix_columns = cs\<rparr>) INDEXES"

definition downgrade_0017 :: "stmt list" where
  "downgrade_0017 = map (\<lambda>(s, _, n, _). DropIndex s n) (rev INDEXES)"

section \<open>The chain\<close>

definition migrations :: "(stmt list \<times> stmt list) list" where
  "migrations =
     [(upgrade_0001, downgrade_0001), (upgrade_0002, downgrade_0002), (upgrade_0003, downgrade_0003),
      (upgrade_0004, downgrade_0004), (upgrade_0005, downgrade_0005), (upgrade_0006, downgrade_0006),
      (upgrade_0007, downgrade_0007), (upgrade_0008, downgrade_0008), (upgrade_0009, downgrade_0009),
      (upgrade_0010, downgrade_0010), (upgrade_0011, downgrade_0011), (upgrade_0012, downgrade_0012),
      (upgrade_0013, downgrade_0013), (upgrade_0014, downgrade_0014), (upgrade_0015, downgrade_0015),
      (upgrade_0016, downgrade_0016), (upgrade_0017, downgrade_0017)]"

text \<open>What \<open>setup-database.sql\<close> leaves: the roles, who may create schemas, and the privileges on \<open>public\<close>.\<close>

definition created_role :: "role_name \<Rightarrow> bool \<Rightarrow> role_def" where
  "created_role n login = \<lparr>rl_name = n, rl_login = login, rl_super = False, rl_createrole = False, rl_createdb = False,
     rl_replication = False, rl_bypassrls = False\<rparr>"

definition provisioned :: catalogue where
  "provisioned =
     \<lparr>ct_roles = {created_role Sahl_migrator True, created_role Sahl_app True,
        created_role Sahl_security_maintenance False, created_role Sahl_maintenance_test True},
      ct_creators = {Sahl_migrator},
      ct_schemas = {\<lparr>sc_name = S_public, sc_owner = Sahl_migrator,
        sc_acl = {(PUBLIC, UsageP), (Sahl_app, UsageP)}\<rparr>},
      ct_enums = {}, ct_tables = {}, ct_routines = {}, ct_defaults = {}\<rparr>"

end
