(* ===== verification/SchemaHistory.thy ===== *)
theory SchemaHistory
  imports SchemaMigrations Settings
begin

text \<open>
  Runs of Alembic over the chain: \<open>migrations/env.py\<close> with its role gate and its one transaction, and the catalogues
  that the revisions stand for. Revision \<open>k\<close> is the database after the first \<open>k\<close> migrations.
\<close>

section \<open>migrations/env.py\<close>

datatype run_error = ConfigurationError exn | MigrationRoleError | StatementFailed sql_error

text \<open>\<open>make_url(...).username\<close> is a parameter; a URL without a user name has none.\<close>

definition runtime_role_name :: "(pystr \<Rightarrow> role_name option) \<Rightarrow> settings \<Rightarrow> role_name option" where
  "runtime_role_name username se = username (se_database_url se)"

definition assert_not_running_as_the_application_role :: "role_name option \<Rightarrow> role_name \<Rightarrow> run_error + unit" where
  "assert_not_running_as_the_application_role application_role current_user =
     (if application_role \<noteq> None \<and> Some current_user = application_role then Inl MigrationRoleError else Inr ())"

text \<open>
  The migration URL is read first; then, in one transaction of the connected user, the role is checked and the
  statements run. Whatever fails, the transaction is rolled back.
\<close>

definition run_migrations_online ::
  "(pystr \<Rightarrow> role_name option) \<Rightarrow> settings \<Rightarrow> role_name \<Rightarrow> stmt list \<Rightarrow> catalogue \<times> stored_rows \<Rightarrow>
     (run_error + unit) \<times> catalogue \<times> stored_rows" where
  "run_migrations_online username se current_user statements s =
     (case required_migration_database_url se of
        Inl e \<Rightarrow> (Inl (ConfigurationError e), s)
      | Inr _ \<Rightarrow>
          (case assert_not_running_as_the_application_role (runtime_role_name username se) current_user of
             Inl e \<Rightarrow> (Inl e, s)
           | Inr _ \<Rightarrow>
               (case exec_all current_user statements s of
                  Inl e \<Rightarrow> (Inl (StatementFailed e), s)
                | Inr s' \<Rightarrow> (Inr (), s'))))"

section \<open>Revisions\<close>

definition up :: "nat \<Rightarrow> stmt list" where
  "up k = fst (migrations ! k)"

definition down :: "nat \<Rightarrow> stmt list" where
  "down k = snd (migrations ! k)"

text \<open>The statements of an upgrade from revision \<open>k\<close> to \<open>m\<close>, and of a downgrade from \<open>m\<close> to \<open>k\<close>.\<close>

definition upgrade_path :: "nat \<Rightarrow> nat \<Rightarrow> stmt list" where
  "upgrade_path k m = concat (map up [k..<m])"

definition downgrade_path :: "nat \<Rightarrow> nat \<Rightarrow> stmt list" where
  "downgrade_path m k = concat (map down (rev [k..<m]))"

text \<open>The catalogue of a revision on the way up from a freshly provisioned database.\<close>

fun schema_at :: "nat \<Rightarrow> sql_error + catalogue" where
  "schema_at 0 = Inr provisioned"
| "schema_at (Suc k) = and_then (schema_at k) (ddl_all Sahl_migrator (up k))"

text \<open>
  Downgrading below \<open>0004\<close> restores the recorded privileges of the runtime on tables to come, which a database
  provisioned today does not grant: below \<open>0004\<close> there is a second catalogue for every revision.
\<close>

definition recorded :: catalogue where
  "recorded = provisioned\<lparr>ct_defaults :=
     set (map (\<lambda>p. (Sahl_migrator, S_public, KindTables, Sahl_app, p)) [SelectP, InsertP, UpdateP, DeleteP] @
          map (\<lambda>p. (Sahl_migrator, S_public, KindSequences, Sahl_app, p)) [UsageP, SelectP])\<rparr>"

fun recorded_at :: "nat \<Rightarrow> sql_error + catalogue" where
  "recorded_at 0 = Inr recorded"
| "recorded_at (Suc k) = and_then (recorded_at k) (ddl_all Sahl_migrator (up k))"

section \<open>What a revision promises\<close>

text \<open>The check rules that look at rows, and the rows a catalogue admits.\<close>

fun row_expr :: "check_expr \<Rightarrow> bool" where
  "row_expr (EventTypeIn _) = True"
| "row_expr (RevocationReasonIn _) = True"
| "row_expr _ = False"

fun row_rule :: "named_rule \<Rightarrow> bool" where
  "row_rule x = (case cn_rule x of CheckRule e _ \<Rightarrow> row_expr e | _ \<Rightarrow> False)"

definition row_rules :: "catalogue \<Rightarrow> named_rule set" where
  "row_rules c = \<Union> ((\<lambda>t. having row_rule (tb_rules t)) ` ct_tables c)"

definition extension_columns :: "catalogue \<Rightarrow> column_name set" where
  "extension_columns c = \<Union> ((\<lambda>t. if is_table S_auth T_security_events t
     then having (\<lambda>n. n \<in> set NEW_COLUMNS) (co_name ` tb_columns t) else {}) ` ct_tables c)"

definition rows_allowed :: "catalogue \<Rightarrow> stored_rows \<Rightarrow> bool" where
  "rows_allowed c r \<longleftrightarrow>
     (\<forall>x\<in>row_rules c. rule_holds x r) \<and>
     (table_taken S_auth T_security_events c \<or> rw_events r = []) \<and>
     (table_taken S_auth T_sessions c \<or> rw_reasons r = []) \<and>
     list_all (\<lambda>(_, E). E \<subseteq> extension_columns c) (rw_events r)"

text \<open>The row rules, tables and columns of each revision.\<close>

definition rows_at :: "nat \<Rightarrow> catalogue \<Rightarrow> bool" where
  "rows_at k c \<longleftrightarrow>
     row_rules c =
       (if k < 7 then {} else {session_revocation_state (if k < 9 then REASONS_0007 else REASONS_0009)}) \<union>
       (if k < 9 then {} else {event_type_allowed (if k < 14 then EVENTS_0009 else EVENTS_0014)}) \<and>
     table_taken S_auth T_security_events c = (9 \<le> k) \<and> table_taken S_auth T_sessions c = (7 \<le> k) \<and>
     extension_columns c = (if k < 14 then {} else set NEW_COLUMNS)"

text \<open>The boundary around the runtime role.\<close>

definition unprivileged :: "role_name \<Rightarrow> acl \<Rightarrow> bool" where
  "unprivileged g a \<longleftrightarrow> \<not> existing (\<lambda>(h, _). h = g) a"

definition isolated :: "table \<Rightarrow> bool" where
  "isolated t \<longleftrightarrow> tb_row_security t \<and> tb_forced t \<and> tb_policies t = {tenant_isolation}"

definition boundary :: "catalogue \<Rightarrow> bool" where
  "boundary c \<longleftrightarrow>
     (\<forall>x\<in>ct_schemas c. sc_owner x = Sahl_migrator \<and> (sc_name x = S_public \<or> unprivileged PUBLIC (sc_acl x)) \<and>
        \<not> existing (\<lambda>(_, p). p = CreateP) (sc_acl x)) \<and>
     (\<forall>t\<in>ct_tables c. tb_owner t = Sahl_migrator \<and> unprivileged PUBLIC (tb_acl t) \<and>
        unprivileged Sahl_security_maintenance (tb_acl t) \<and>
        (has_column C_tenant_id t \<and> \<not> unprivileged Sahl_app (tb_acl t) \<longrightarrow> isolated t)) \<and>
     (\<forall>f\<in>ct_routines c. fn_owner f = Sahl_migrator \<and> unprivileged PUBLIC (fn_acl f) \<and> (fn_definer f \<longrightarrow> fn_pinned f)) \<and>
     ct_defaults c = {}"

section \<open>One evaluation of the chain\<close>

fun chain_ok :: "nat \<Rightarrow> (stmt list \<times> stmt list) list \<Rightarrow> (catalogue \<Rightarrow> bool) \<Rightarrow> catalogue \<Rightarrow> bool" where
  "chain_ok k [] final c = (rows_at k c \<and> (k < 4 \<or> boundary c) \<and> final c)"
| "chain_ok k (m # ms) final c =
     (rows_at k c \<and> (k < 4 \<or> boundary c) \<and>
      (case ddl_all Sahl_migrator (fst m) c of
         Inl _ \<Rightarrow> False
       | Inr c' \<Rightarrow> (k = 3 \<or> ddl_all Sahl_migrator (snd m) c' = Inr c) \<and> chain_ok (Suc k) ms final c'))"

end
