(* ===== verification/OrmMetadata.thy ===== *)
theory OrmMetadata
  imports SchemaMigrations
begin

text \<open>
  The tables registered on \<open>Base.metadata\<close> by \<open>app/models\<close>: columns, rules and indexes as SQLAlchemy derives them, with
  the names of \<open>NAMING_CONVENTION\<close> (\<open>db/base.py\<close>) where a model gives none, or only the label of a check. The default
  schema is \<open>public\<close>. A primary key column is not nullable.
\<close>

record orm_table =
  om_schema :: schema_name
  om_name :: table_name
  om_columns :: "column set"
  om_rules :: "(rule_name \<times> rule) set"
  om_indexes :: "index_def set"

section \<open>Names and rules\<close>

definition named_check :: "table_name \<Rightarrow> label \<Rightarrow> check_expr \<Rightarrow> column_name list \<Rightarrow> rule_name \<times> rule" where
  "named_check t l e cs = (Ck t l, CheckRule e cs)"

definition primary_key :: "table_name \<Rightarrow> column_name list \<Rightarrow> rule_name \<times> rule" where
  "primary_key t cs = (Pk t, PrimaryKey cs)"

definition unique_column :: "table_name \<Rightarrow> column_name \<Rightarrow> rule_name \<times> rule" where
  "unique_column t c = (Uq t [c], UniqueKey [c])"

definition foreign_key ::
  "table_name \<Rightarrow> column_name list \<Rightarrow> schema_name \<Rightarrow> table_name \<Rightarrow> column_name list \<Rightarrow> on_delete \<Rightarrow> rule_name \<times> rule" where
  "foreign_key t cs s r ks d = (Fk t cs r, ForeignKey cs s r ks d)"

definition orm_index :: "index_name \<Rightarrow> column_name list \<Rightarrow> index_def" where
  "orm_index n cs = \<lparr>ix_name = n, ix_columns = cs\<rparr>"

definition server_now :: "column_name \<Rightarrow> column" where
  "server_now c = defaulted c TimestamptzT DefaultNow"

section \<open>Identity and sessions\<close>

definition Tenant :: orm_table where
  "Tenant = \<lparr>om_schema = S_public, om_name = T_tenants,
     om_columns =
       {required C_id UuidT, required C_slug (VarcharT 63), required C_name_ar (VarcharT 200), required C_name_en (VarcharT 200),
        defaulted C_status (EnumT S_public E_tenant_status) (DefaultMember ''pending'' S_public E_tenant_status),
        server_now C_created_at, server_now C_updated_at},
     om_rules =
       {named_check T_tenants L_slug_shape (Labelled L_slug_shape) [C_slug], primary_key T_tenants [C_id],
        unique_column T_tenants C_slug},
     om_indexes = {}\<rparr>"

definition User :: orm_table where
  "User = \<lparr>om_schema = S_auth, om_name = T_users,
     om_columns =
       {required C_id UuidT, required C_email (VarcharT 254), required C_normalized_email (VarcharT 254),
        defaulted C_status (EnumT S_auth E_user_status) (DefaultMember ''pending'' S_auth E_user_status),
        optional C_email_verified_at TimestamptzT, defaulted C_security_version IntegerT DefaultOne,
        server_now C_created_at, server_now C_updated_at},
     om_rules =
       {named_check T_users L_security_version_positive (Positive C_security_version) [C_security_version],
        primary_key T_users [C_id], unique_column T_users C_normalized_email},
     om_indexes = {}\<rparr>"

definition TenantMembership :: orm_table where
  "TenantMembership = \<lparr>om_schema = S_auth, om_name = T_tenant_memberships,
     om_columns =
       {required C_id UuidT, required C_user_id UuidT, required C_tenant_id UuidT,
        defaulted C_status (EnumT S_auth E_membership_status) (DefaultMember ''pending'' S_auth E_membership_status),
        optional C_joined_at TimestamptzT, optional C_left_at TimestamptzT, defaulted C_version IntegerT DefaultOne,
        server_now C_created_at, server_now C_updated_at},
     om_rules =
       {(UqNamed T_tenant_memberships L_user_tenant, UniqueKey [C_user_id, C_tenant_id]),
        (UqNamed T_tenant_memberships L_id_user, UniqueKey [C_id, C_user_id]),
        (UqNamed T_tenant_memberships L_tenant_id, UniqueKey [C_tenant_id, C_id]),
        named_check T_tenant_memberships L_version_positive (Positive C_version) [C_version],
        named_check T_tenant_memberships L_lifecycle_timestamps (Labelled L_lifecycle_timestamps)
          [C_status, C_joined_at, C_left_at],
        primary_key T_tenant_memberships [C_id],
        foreign_key T_tenant_memberships [C_user_id] S_auth T_users [C_id] OnDeleteRestrict,
        foreign_key T_tenant_memberships [C_tenant_id] S_public T_tenants [C_id] OnDeleteRestrict},
     om_indexes =
       {orm_index I_tenant_memberships_user_id_status [C_user_id, C_status],
        orm_index I_tenant_memberships_tenant_id_status [C_tenant_id, C_status]}\<rparr>"

definition PasswordCredential :: orm_table where
  "PasswordCredential = \<lparr>om_schema = S_auth, om_name = T_password_credentials,
     om_columns =
       {required C_user_id UuidT, required C_password_hash TextT, defaulted C_credential_version IntegerT DefaultOne,
        server_now C_changed_at},
     om_rules =
       {named_check T_password_credentials L_credential_version_positive (Positive C_credential_version) [C_credential_version],
        named_check T_password_credentials L_password_hash_argon2id (Labelled L_password_hash_argon2id) [C_password_hash],
        primary_key T_password_credentials [C_user_id],
        foreign_key T_password_credentials [C_user_id] S_auth T_users [C_id] OnDeleteRestrict},
     om_indexes = {}\<rparr>"

text \<open>The reference to the selected membership has no name: the convention joins both of its columns.\<close>

definition AuthSession :: orm_table where
  "AuthSession = \<lparr>om_schema = S_auth, om_name = T_sessions,
     om_columns =
       {required C_id UuidT, required C_user_id UuidT, required C_bearer_digest ByteaT, required C_csrf_digest ByteaT,
        required C_security_version IntegerT, required C_created_at TimestamptzT, required C_authenticated_at TimestamptzT,
        required C_last_seen_at TimestamptzT, required C_idle_expires_at TimestamptzT,
        required C_absolute_expires_at TimestamptzT, optional C_revoked_at TimestamptzT,
        optional C_revoked_reason (VarcharT 32), optional C_selected_membership_id UuidT,
        optional C_selected_membership_version IntegerT},
     om_rules =
       {named_check T_sessions L_session_expiry_order (NotAfter C_idle_expires_at C_absolute_expires_at)
          [C_idle_expires_at, C_absolute_expires_at],
        named_check T_sessions L_session_revocation_state
          (RevocationReasonIn {''logout'', ''revoke_all'', ''concurrent_limit'', ''password_reset''})
          [C_revoked_at, C_revoked_reason],
        named_check T_sessions L_bearer_digest_length (Octets32 C_bearer_digest) [C_bearer_digest],
        named_check T_sessions L_csrf_digest_length (Octets32 C_csrf_digest) [C_csrf_digest],
        unique_column T_sessions C_bearer_digest,
        named_check T_sessions L_selected_membership_pair (Labelled L_selected_membership_pair)
          [C_selected_membership_id, C_selected_membership_version],
        named_check T_sessions L_selected_membership_version_positive (Labelled L_selected_membership_version_positive)
          [C_selected_membership_version],
        foreign_key T_sessions [C_selected_membership_id, C_user_id] S_auth T_tenant_memberships [C_id, C_user_id]
          OnDeleteRestrict,
        primary_key T_sessions [C_id],
        foreign_key T_sessions [C_user_id] S_auth T_users [C_id] OnDeleteCascade},
     om_indexes =
       {orm_index I_sessions_selected_membership_user [C_selected_membership_id, C_user_id],
        orm_index I_sessions_user_active [C_user_id, C_revoked_at, C_created_at]}\<rparr>"

definition PreAuthCsrfState :: orm_table where
  "PreAuthCsrfState = \<lparr>om_schema = S_auth, om_name = T_preauth_csrf_states,
     om_columns =
       {required C_state_digest ByteaT, required C_csrf_digest ByteaT, required C_created_at TimestamptzT,
        required C_expires_at TimestamptzT, optional C_consumed_at TimestamptzT},
     om_rules =
       {named_check T_preauth_csrf_states L_state_digest_length (Octets32 C_state_digest) [C_state_digest],
        named_check T_preauth_csrf_states L_csrf_digest_length (Octets32 C_csrf_digest) [C_csrf_digest],
        named_check T_preauth_csrf_states L_preauth_expiry_order (After C_expires_at C_created_at) [C_expires_at, C_created_at],
        primary_key T_preauth_csrf_states [C_state_digest]},
     om_indexes = {}\<rparr>"

section \<open>Controls and the audit trail\<close>

definition ThrottleBucket :: orm_table where
  "ThrottleBucket = \<lparr>om_schema = S_auth, om_name = T_throttle_buckets,
     om_columns =
       {required C_scope (VarcharT 40), required C_key_digest ByteaT, required C_window_started_at TimestamptzT,
        required C_key_id SmallintT, required C_request_count IntegerT, required C_expires_at TimestamptzT},
     om_rules =
       {named_check T_throttle_buckets L_key_digest_length (Octets32 C_key_digest) [C_key_digest],
        named_check T_throttle_buckets L_request_count_positive (Positive C_request_count) [C_request_count],
        primary_key T_throttle_buckets [C_scope, C_key_digest, C_window_started_at]},
     om_indexes = {}\<rparr>"

definition PasswordResetToken :: orm_table where
  "PasswordResetToken = \<lparr>om_schema = S_auth, om_name = T_password_reset_tokens,
     om_columns =
       {required C_id UuidT, required C_user_id UuidT, required C_token_digest ByteaT, required C_created_at TimestamptzT,
        required C_expires_at TimestamptzT, optional C_consumed_at TimestamptzT, optional C_revoked_at TimestamptzT},
     om_rules =
       {named_check T_password_reset_tokens L_token_digest_length (Octets32 C_token_digest) [C_token_digest],
        (UqNamed T_password_reset_tokens L_digest, UniqueKey [C_token_digest]),
        primary_key T_password_reset_tokens [C_id],
        foreign_key T_password_reset_tokens [C_user_id] S_auth T_users [C_id] OnDeleteCascade},
     om_indexes = {orm_index I_password_reset_tokens_user_open [C_user_id, C_consumed_at, C_revoked_at]}\<rparr>"

text \<open>
  The checks of \<open>audit/schema.py\<close>: the admitted types are those of the catalogue; of the other texts only the labels
  are compared here, what they accept is the subject of \<open>AuditContracts\<close>.
\<close>

definition AUDIT_CHECKS :: "(rule_name \<times> rule) set" where
  "AUDIT_CHECKS =
     {named_check T_security_events L_event_type_allowed (EventTypeIn (set all_security_event_types)) [C_event_type],
      named_check T_security_events L_result_allowed (Labelled L_result_allowed) [C_result],
      named_check T_security_events L_event_contract (Labelled L_event_contract) [C_event_type, C_result, C_reason_code],
      named_check T_security_events L_event_id_uuid7 (Labelled L_event_id_uuid7) [C_id],
      named_check T_security_events L_correlation_id_format (Labelled L_correlation_id_format) [C_correlation_id],
      named_check T_security_events L_identity_shape (Labelled L_identity_shape)
        [C_user_id, C_session_id, C_membership_id, C_event_type],
      named_check T_security_events L_role_shape (Labelled L_role_shape) [C_event_type, C_role_id],
      named_check T_security_events L_target_membership_shape (Labelled L_target_membership_shape)
        [C_event_type, C_target_membership_id],
      named_check T_security_events L_permission_catalog (Labelled L_permission_catalog) [C_permission_id],
      named_check T_security_events L_permission_shape (Labelled L_permission_shape) [C_event_type, C_permission_id],
      named_check T_security_events L_subject_shape (Labelled L_subject_shape)
        [C_subject_digest, C_subject_kind, C_subject_key_id],
      named_check T_security_events L_affected_count_shape (Labelled L_affected_count_shape)
        [C_event_type, C_affected_count, C_user_id, C_session_id, C_membership_id, C_role_id, C_target_membership_id,
         C_subject_digest, C_subject_kind, C_subject_key_id]}"

definition SecurityEvent :: orm_table where
  "SecurityEvent = \<lparr>om_schema = S_auth, om_name = T_security_events,
     om_columns =
       {required C_id UuidT, required C_event_type (VarcharT 40), required C_result (VarcharT 16),
        optional C_reason_code (VarcharT 40), optional C_user_id UuidT, optional C_session_id UuidT,
        optional C_membership_id UuidT, optional C_subject_digest ByteaT, optional C_role_id UuidT,
        optional C_target_membership_id UuidT, optional C_permission_id (VarcharT 120),
        optional C_subject_kind (VarcharT 32), optional C_subject_key_id SmallintT, optional C_affected_count BigintT,
        required C_correlation_id (VarcharT 64), required C_created_at TimestamptzT},
     om_rules = insert (primary_key T_security_events [C_id]) AUDIT_CHECKS,
     om_indexes = {orm_index I_security_events_retention [C_created_at, C_id]}\<rparr>"

definition RoleSecurityEventIntent :: orm_table where
  "RoleSecurityEventIntent = \<lparr>om_schema = S_auth, om_name = T_role_security_event_intents,
     om_columns =
       {required C_transaction_id BigintT, required C_backend_pid IntegerT, required C_event_id UuidT,
        required C_event_type (VarcharT 40), required C_user_id UuidT, required C_session_id UuidT,
        required C_membership_id UuidT, required C_tenant_id UuidT, required C_role_id UuidT,
        optional C_target_membership_id UuidT, optional C_permission_id (VarcharT 120),
        required C_correlation_id UuidT, required C_attested BooleanT},
     om_rules = {primary_key T_role_security_event_intents [C_transaction_id]},
     om_indexes = {}\<rparr>"

section \<open>Roles\<close>

definition Role :: orm_table where
  "Role = \<lparr>om_schema = S_auth, om_name = T_roles,
     om_columns =
       {required C_id UuidT, required C_tenant_id UuidT, required C_key (VarcharT 63), required C_display_name (VarcharT 120),
        defaulted C_status (EnumT S_auth E_role_status) (DefaultMember ''active'' S_auth E_role_status),
        defaulted C_version IntegerT DefaultOne, server_now C_created_at, server_now C_updated_at},
     om_rules =
       {(UqNamed T_roles L_tenant_id, UniqueKey [C_tenant_id, C_id]), (UqNamed T_roles L_tenant_key, UniqueKey [C_tenant_id, C_key]),
        named_check T_roles L_key_format (Labelled L_key_format) [C_key],
        named_check T_roles L_version_positive (Positive C_version) [C_version],
        primary_key T_roles [C_id], foreign_key T_roles [C_tenant_id] S_public T_tenants [C_id] OnDeleteRestrict},
     om_indexes = {}\<rparr>"

definition RolePermission :: orm_table where
  "RolePermission = \<lparr>om_schema = S_auth, om_name = T_role_permissions,
     om_columns =
       {required C_tenant_id UuidT, required C_role_id UuidT, required C_permission_id (VarcharT 128), server_now C_created_at},
     om_rules =
       {(FkNamed T_role_permissions L_tenant_role,
           ForeignKey [C_tenant_id, C_role_id] S_auth T_roles [C_tenant_id, C_id] OnDeleteCascade),
        named_check T_role_permissions L_permission_id_format (Labelled L_permission_id_format) [C_permission_id],
        primary_key T_role_permissions [C_tenant_id, C_role_id, C_permission_id]},
     om_indexes = {}\<rparr>"

definition MembershipRole :: orm_table where
  "MembershipRole = \<lparr>om_schema = S_auth, om_name = T_membership_roles,
     om_columns =
       {required C_tenant_id UuidT, required C_membership_id UuidT, required C_role_id UuidT, server_now C_created_at},
     om_rules =
       {(FkNamed T_membership_roles L_tenant_membership,
           ForeignKey [C_tenant_id, C_membership_id] S_auth T_tenant_memberships [C_tenant_id, C_id] OnDeleteCascade),
        (FkNamed T_membership_roles L_tenant_role,
           ForeignKey [C_tenant_id, C_role_id] S_auth T_roles [C_tenant_id, C_id] OnDeleteCascade),
        primary_key T_membership_roles [C_tenant_id, C_membership_id, C_role_id]},
     om_indexes = {orm_index I_membership_roles_tenant_role [C_tenant_id, C_role_id]}\<rparr>"

section \<open>Interface settings\<close>

definition settings_value_checks :: "table_name \<Rightarrow> (rule_name \<times> rule) set" where
  "settings_value_checks t =
     {named_check t L_settings_theme_value
        (SettingIn K_theme [V_teal_calm, V_green_institutional, V_navy_institutional, V_slate_neutral, V_sand_warm]) [C_settings],
      named_check t L_settings_button_preset_value (SettingIn K_button_preset
        [V_institutional_standard, V_compact_sharp, V_soft_rounded, V_outlined_calm, V_balanced_roomy]) [C_settings],
      named_check t L_settings_alert_preset_value (SettingIn K_alert_preset
        [V_tinted_standard, V_solid_emphatic, V_minimal_inline, V_dense_compact, V_bordered_quiet]) [C_settings],
      named_check t L_settings_overlay_preset_value (SettingIn K_overlay_preset
        [V_institutional_standard, V_soft_elevated, V_flat_bordered, V_dim_focused, V_compact_dense]) [C_settings],
      named_check t L_settings_table_preset_value (SettingIn K_table_preset
        [V_institutional_standard, V_zebra_scan, V_full_grid, V_compact_rows, V_airy_report]) [C_settings],
      named_check t L_settings_print_preset_value (SettingIn K_print_preset
        [V_institutional_standard, V_ink_saving, V_high_contrast_print, V_formal_letterhead, V_dense_archive]) [C_settings]}"

definition settings_rules :: "table_name \<Rightarrow> (rule_name \<times> rule) set" where
  "settings_rules t =
     {named_check t L_settings_object (Labelled L_settings_object) [C_settings],
      named_check t L_settings_keys (Labelled L_settings_keys) [C_settings],
      named_check t L_version_positive (Positive C_version) [C_version]} \<union> settings_value_checks t"

definition settings_fields :: "column set" where
  "settings_fields =
     {defaulted C_settings JsonbT DefaultEmptyObject, defaulted C_version IntegerT DefaultOne, server_now C_updated_at}"

definition PlatformUiSettings :: orm_table where
  "PlatformUiSettings = \<lparr>om_schema = S_app, om_name = T_platform_ui_settings,
     om_columns = insert (defaulted C_id SmallintT DefaultOne) settings_fields,
     om_rules =
       {named_check T_platform_ui_settings L_singleton (EqualsOne C_id) [C_id], primary_key T_platform_ui_settings [C_id]} \<union>
       settings_rules T_platform_ui_settings,
     om_indexes = {}\<rparr>"

definition TenantUiSettings :: orm_table where
  "TenantUiSettings = \<lparr>om_schema = S_app, om_name = T_tenant_ui_settings,
     om_columns = insert (required C_tenant_id UuidT) settings_fields,
     om_rules =
       {primary_key T_tenant_ui_settings [C_tenant_id],
        foreign_key T_tenant_ui_settings [C_tenant_id] S_public T_tenants [C_id] OnDeleteCascade} \<union>
       settings_rules T_tenant_ui_settings,
     om_indexes = {}\<rparr>"

definition UserUiSettings :: orm_table where
  "UserUiSettings = \<lparr>om_schema = S_app, om_name = T_user_ui_settings,
     om_columns = insert (required C_tenant_id UuidT) (insert (required C_user_id UuidT) settings_fields),
     om_rules =
       {primary_key T_user_ui_settings [C_tenant_id, C_user_id],
        foreign_key T_user_ui_settings [C_tenant_id] S_public T_tenants [C_id] OnDeleteCascade,
        foreign_key T_user_ui_settings [C_user_id] S_auth T_users [C_id] OnDeleteCascade} \<union>
       settings_rules T_user_ui_settings,
     om_indexes = {orm_index I_user_ui_settings_user_id [C_user_id]}\<rparr>"

section \<open>The metadata\<close>

definition orm_tables :: "orm_table set" where
  "orm_tables =
     {Tenant, User, TenantMembership, PasswordCredential, AuthSession, PreAuthCsrfState, ThrottleBucket, PasswordResetToken,
      SecurityEvent, RoleSecurityEventIntent, Role, RolePermission, MembershipRole, PlatformUiSettings, TenantUiSettings,
      UserUiSettings}"

text \<open>The native enumerations of the models, members in the order of their classes.\<close>

definition orm_enums :: "(schema_name \<times> type_name \<times> string list) set" where
  "orm_enums =
     {(S_public, E_tenant_status, [''pending'', ''active'', ''suspended'', ''archived'']),
      (S_auth, E_user_status, [''pending'', ''active'', ''suspended'', ''archived'']),
      (S_auth, E_membership_status, [''pending'', ''active'', ''suspended'', ''left'']),
      (S_auth, E_role_status, [''active'', ''inactive''])}"

text \<open>What the metadata would see of a table of the database: a rule's validation is not part of it.\<close>

definition reflected :: "(named_rule \<Rightarrow> rule_name) \<Rightarrow> table \<Rightarrow> orm_table" where
  "reflected name t = \<lparr>om_schema = tb_schema t, om_name = tb_name t, om_columns = tb_columns t,
     om_rules = (\<lambda>r. (name r, cn_rule r)) ` tb_rules t, om_indexes = tb_indexes t\<rparr>"

definition reflected_enums :: "catalogue \<Rightarrow> (schema_name \<times> type_name \<times> string list) set" where
  "reflected_enums c = (\<lambda>e. (en_schema e, en_name e, en_values e)) ` ct_enums c"

end
