(* ===== verification/SchemaHead.thy ===== *)
theory SchemaHead
  imports SchemaHistory OrmMetadata
begin

text \<open>
  What the last revision promises, who may do what and how the tables compare with the models, and the one evaluation
  of the whole chain: every migration applies, its downgrade restores the catalogue before it, and every promise holds.
\<close>


text \<open>The rights of a role at a revision, as sets.\<close>

definition schema_rights :: "role_name \<Rightarrow> catalogue \<Rightarrow> (schema_name \<times> privilege) set" where
  "schema_rights g c = \<Union> ((\<lambda>x. (\<lambda>(_, p). (sc_name x, p)) ` having (\<lambda>(h, _). h = g) (sc_acl x)) ` ct_schemas c)"

definition table_rights :: "role_name \<Rightarrow> catalogue \<Rightarrow> (table_name \<times> privilege) set" where
  "table_rights g c = \<Union> ((\<lambda>t. (\<lambda>(_, p). (tb_name t, p)) ` having (\<lambda>(h, _). h = g) (tb_acl t)) ` ct_tables c)"

definition routine_rights :: "role_name \<Rightarrow> catalogue \<Rightarrow> signature set" where
  "routine_rights g c = \<Union> ((\<lambda>f. (\<lambda>_. fn_signature f) ` having (\<lambda>(h, _). h = g) (fn_acl f)) ` ct_routines c)"

definition runtime_tables :: "(table_name \<times> privilege) set" where
  "runtime_tables =
     {T_sessions, T_preauth_csrf_states} \<times> {SelectP, InsertP, UpdateP} \<union>
     {T_roles, T_role_permissions, T_membership_roles, T_tenant_ui_settings, T_user_ui_settings} \<times>
       {SelectP, InsertP, UpdateP, DeleteP} \<union>
     {(T_platform_ui_settings, SelectP)}"

definition runtime_routines :: "signature list" where
  "runtime_routines =
     [current_tenant_id, resolve_active_membership_sig, consume_throttle_sig, request_password_reset_sig,
      complete_password_reset_sig, record_security_event_sig, is_active_membership_sig, APPEND_SIGNATURE, PREPARE, CANCEL] @
     FUNCTION_SIGNATURES_0013 @ map fst NEW_FUNCTIONS"

text \<open>A reference is indexed when its columns come first in an index or a key of its table.\<close>

definition leads :: "column_name list \<Rightarrow> column_name list \<Rightarrow> bool" where
  "leads cs ks \<longleftrightarrow> set (take (length cs) ks) = set cs"

fun key_columns :: "rule \<Rightarrow> column_name list" where
  "key_columns (PrimaryKey ks) = ks"
| "key_columns (UniqueKey ks) = ks"
| "key_columns _ = []"

definition reference_indexed :: "table \<Rightarrow> rule \<Rightarrow> bool" where
  "reference_indexed t r =
     (case r of ForeignKey cs _ _ _ _ \<Rightarrow>
        existing (\<lambda>i. leads cs (ix_columns i)) (tb_indexes t) \<or> existing (\<lambda>x. leads cs (key_columns (cn_rule x))) (tb_rules t)
      | _ \<Rightarrow> True)"

text \<open>The one name the models and migration \<open>0008\<close> spell differently.\<close>

definition orm_name :: "named_rule \<Rightarrow> rule_name" where
  "orm_name r = (if cn_name r = Fk T_sessions [C_selected_membership_id] T_tenant_memberships
     then Fk T_sessions [C_selected_membership_id, C_user_id] T_tenant_memberships else cn_name r)"

definition head_ok :: "catalogue \<Rightarrow> bool" where
  "head_ok c \<longleftrightarrow>
     reflected orm_name ` ct_tables c = orm_tables \<and> reflected_enums c = orm_enums \<and>
     (\<forall>t\<in>ct_tables c. \<forall>r\<in>tb_rules t. reference_indexed t (cn_rule r)) \<and>
     schema_rights Sahl_app c = {(S_public, UsageP), (S_app, UsageP), (S_auth, UsageP)} \<and>
     table_rights Sahl_app c = runtime_tables \<and> routine_rights Sahl_app c = set runtime_routines \<and>
     schema_rights Sahl_security_maintenance c = {(S_auth, UsageP)} \<and> table_rights Sahl_security_maintenance c = {} \<and>
     routine_rights Sahl_security_maintenance c = {PRUNE_SIGNATURE}"

section \<open>The evaluation\<close>

lemma chain_evaluated: "chain_ok 0 migrations head_ok provisioned"
  by code_simp

text \<open>The catalogues below \<open>0004\<close> after a downgrade: upgrading them again leads back to the chain.\<close>

definition joins_chain :: "catalogue \<Rightarrow> bool" where
  "joins_chain c \<longleftrightarrow> ddl_all Sahl_migrator upgrade_0004 c = schema_at 4 \<and>
     and_then (schema_at 4) (ddl_all Sahl_migrator downgrade_0004) = Inr c"

lemma recorded_evaluated: "chain_ok 0 (take 3 migrations) joins_chain recorded"
  by code_simp

end
