(* ===== verification/SchemaClaims.thy ===== *)
theory SchemaClaims
  imports SchemaHead
begin

text \<open>
  What holds after any history of upgrades, downgrades, failures and traffic: one catalogue per revision from \<open>0004\<close>
  on, a head that can always be reached without touching a row, downgrades that give the previous catalogue back, and
  a runtime role that stays inside its boundary.
\<close>

section \<open>Revisions\<close>

lemma migrations_length: "length migrations = 17"
  by (simp add: migrations_def)

lemma chain_drop: "k < 17 \<Longrightarrow> drop k migrations = (up k, down k) # drop (Suc k) migrations"
  by (simp add: up_def down_def migrations_length Cons_nth_drop_Suc)

lemma chain_ok_Cons:
  "chain_ok k (m # ms) f c \<longleftrightarrow> rows_at k c \<and> (k < 4 \<or> boundary c) \<and>
     (\<exists>c'. ddl_all Sahl_migrator (fst m) c = Inr c' \<and> (k = 3 \<or> ddl_all Sahl_migrator (snd m) c' = Inr c) \<and>
        chain_ok (Suc k) ms f c')"
  by (auto split: sum.splits)

declare chain_ok.simps(2) [simp del]

text \<open>The evaluation of the chain, revision by revision.\<close>

lemma chain_at:
  assumes "k \<le> 17"
  shows "\<exists>c. schema_at k = Inr c \<and> chain_ok k (drop k migrations) head_ok c"
  using assms
proof (induction k)
  case 0
  then show ?case using chain_evaluated by simp
next
  case (Suc k)
  then show ?case by (auto simp: chain_drop chain_ok_Cons)
qed

lemma chain_ok_rows: "chain_ok k ms f c \<Longrightarrow> rows_at k c \<and> (4 \<le> k \<longrightarrow> boundary c)"
  by (cases ms) (auto simp: chain_ok_Cons)

lemma schema_ok: "k \<le> 17 \<Longrightarrow> \<exists>c. schema_at k = Inr c \<and> rows_at k c \<and> (4 \<le> k \<longrightarrow> boundary c)"
  using chain_at chain_ok_rows by blast

lemma schema_head: "schema_at 17 = Inr c \<Longrightarrow> head_ok c"
  using chain_at [of 17] by (auto simp: migrations_length)

lemma schema_up: "k < 17 \<Longrightarrow> schema_at k = Inr c \<Longrightarrow> \<exists>c'. ddl_all Sahl_migrator (up k) c = Inr c' \<and> schema_at (Suc k) = Inr c'"
  using schema_ok [of "Suc k"] by auto

lemma schema_down:
  "k < 17 \<Longrightarrow> k \<noteq> 3 \<Longrightarrow> schema_at k = Inr c \<Longrightarrow> schema_at (Suc k) = Inr c' \<Longrightarrow> ddl_all Sahl_migrator (down k) c' = Inr c"
  using chain_at [of k] by (auto simp: chain_drop chain_ok_Cons)

text \<open>The same for the catalogues below \<open>0004\<close> that a downgrade leaves.\<close>

lemma recorded_drop: "k < 3 \<Longrightarrow> drop k (take 3 migrations) = (up k, down k) # drop (Suc k) (take 3 migrations)"
  using Cons_nth_drop_Suc [of k "take 3 migrations"] by (simp add: up_def down_def migrations_length)

lemma recorded_chain:
  assumes "k \<le> 3"
  shows "\<exists>c. recorded_at k = Inr c \<and> chain_ok k (drop k (take 3 migrations)) joins_chain c"
  using assms
proof (induction k)
  case 0
  then show ?case using recorded_evaluated by simp
next
  case (Suc k)
  then show ?case by (auto simp: recorded_drop chain_ok_Cons)
qed

lemma recorded_ok: "k \<le> 3 \<Longrightarrow> \<exists>c. recorded_at k = Inr c \<and> rows_at k c"
  using recorded_chain chain_ok_rows by blast

lemma recorded_down:
  "k < 3 \<Longrightarrow> recorded_at k = Inr c \<Longrightarrow> recorded_at (Suc k) = Inr c' \<Longrightarrow> ddl_all Sahl_migrator (down k) c' = Inr c"
  using recorded_chain [of k] by (auto simp: recorded_drop chain_ok_Cons)

lemma migration_0004: "up 3 = upgrade_0004" "down 3 = downgrade_0004"
  by (simp_all add: up_def down_def migrations_def)

lemma recorded_joins: "\<exists>c. recorded_at 3 = Inr c \<and> joins_chain c"
  using recorded_chain [of 3] by (auto simp: migrations_length)

section \<open>Catalogue and rows run apart\<close>

lemma exec_all_append: "exec_all u (xs @ ys) s = and_then (exec_all u xs s) (exec_all u ys)"
proof (induction xs arbitrary: s)
  case (Cons x xs)
  then show ?case by (cases "exec u x s") simp_all
qed simp

lemma exec_all_Inr: "exec_all u xs (c, r) = Inr s \<longleftrightarrow> ddl_all u xs c = Inr (fst s) \<and> rows_all xs r = Inr (snd s)"
  by (induction xs arbitrary: c r) (auto simp: exec_def and_then_eq_Inr)

section \<open>Statements that look at rows\<close>

fun noisy :: "stmt \<Rightarrow> bool" where
  "noisy (AddRule _ _ x) = row_rule x"
| "noisy (DropTable s n) = (s = S_auth \<and> (n = T_security_events \<or> n = T_sessions))"
| "noisy (DropColumn s n _) = (s = S_auth \<and> n = T_security_events)"
| "noisy (RequireHistory _ _) = True"
| "noisy (ReplaceReason _ _) = True"
| "noisy _ = False"

lemma quiet_rule: "\<not> row_rule x \<Longrightarrow> rule_holds x r"
  by (auto simp: rule_holds_def check_holds_def split: rule.splits check_expr.splits)

lemma quiet_rows: "\<not> noisy x \<Longrightarrow> exec_rows x r = Inr r"
  by (cases x) (auto simp: need_def quiet_rule)

lemma rows_all_noisy: "rows_all xs r = rows_all (filter noisy xs) r"
  by (induction xs arbitrary: r) (auto simp: quiet_rows intro!: arg_cong [where f = "and_then _"])

definition noisy_up :: "stmt list list" where
  "noisy_up = (replicate 17 [])
     [8 := [AddRule S_auth T_sessions (session_revocation_state REASONS_0009)],
      13 := [AddRule S_auth T_security_events (event_type_allowed EVENTS_0014)]]"

definition noisy_down :: "stmt list list" where
  "noisy_down = (replicate 17 [])
     [6 := [DropTable S_auth T_sessions],
      8 := [ReplaceReason ''password_reset'' ''revoke_all'',
        AddRule S_auth T_sessions (session_revocation_state REASONS_0007), DropTable S_auth T_security_events],
      13 := [RequireHistory EVENTS_0009 (set NEW_COLUMNS),
        AddRule S_auth T_security_events (event_type_allowed EVENTS_0009)] @
        map (DropColumn S_auth T_security_events) (rev NEW_COLUMNS)]"

lemma noisy_filtered: "map (\<lambda>m. filter noisy (fst m)) migrations = noisy_up" "map (\<lambda>m. filter noisy (snd m)) migrations = noisy_down"
  by code_simp+

lemma rows_path:
  assumes "k < 17"
  shows "rows_all (up k) r = rows_all (noisy_up ! k) r" "rows_all (down k) r = rows_all (noisy_down ! k) r"
  using assms rows_all_noisy [of "up k"] rows_all_noisy [of "down k"]
  by (simp_all flip: noisy_filtered add: up_def down_def migrations_length)

section \<open>Rows of a revision\<close>

definition event_types_at :: "nat \<Rightarrow> security_event_type set" where
  "event_types_at k = (if k < 14 then EVENTS_0009 else EVENTS_0014)"

definition reasons_at :: "nat \<Rightarrow> string set" where
  "reasons_at k = (if k < 9 then REASONS_0007 else REASONS_0009)"

definition reasons_in :: "string set \<Rightarrow> stored_rows \<Rightarrow> bool" where
  "reasons_in S r \<longleftrightarrow> list_all (\<lambda>x. case x of None \<Rightarrow> True | Some y \<Rightarrow> y \<in> S) (rw_reasons r)"

definition events_in :: "security_event_type set \<Rightarrow> column_name set \<Rightarrow> stored_rows \<Rightarrow> bool" where
  "events_in S X r \<longleftrightarrow> list_all (\<lambda>(ty, E). ty \<in> S \<and> E \<subseteq> X) (rw_events r)"

text \<open>The rows that the catalogue of a revision admits.\<close>

definition rows_fit :: "nat \<Rightarrow> stored_rows \<Rightarrow> bool" where
  "rows_fit k r \<longleftrightarrow>
     (9 \<le> k \<or> rw_events r = []) \<and> (7 \<le> k \<or> rw_reasons r = []) \<and>
     events_in (event_types_at k) (if k < 14 then {} else set NEW_COLUMNS) r \<and> reasons_in (reasons_at k) r"

lemma rule_holds_simps:
  "rule_holds (session_revocation_state S) r \<longleftrightarrow> reasons_in S r"
  "rule_holds (event_type_allowed T) r \<longleftrightarrow> list_all (\<lambda>(ty, _). ty \<in> T) (rw_events r)"
  by (simp_all add: rule_holds_def check_holds_def session_revocation_state_def event_type_allowed_def rule_named_def
      reasons_in_def)

lemma events_in_split:
  "events_in S X r \<longleftrightarrow> list_all (\<lambda>(ty, _). ty \<in> S) (rw_events r) \<and> list_all (\<lambda>(_, E). E \<subseteq> X) (rw_events r)"
  by (auto simp: events_in_def list_all_iff)

lemma rows_allowed_fit: "rows_at k c \<Longrightarrow> rows_allowed c r \<longleftrightarrow> rows_fit k r"
  by (auto simp: rows_at_def rows_allowed_def rows_fit_def rule_holds_simps events_in_split reasons_at_def event_types_at_def
      events_in_def reasons_in_def)

text \<open>Whether the stored events are ones the revision before \<open>0014\<close> could hold.\<close>

definition compatible_history :: "stored_rows \<Rightarrow> bool" where
  "compatible_history r \<longleftrightarrow> events_in EVENTS_0009 {} r"

text \<open>The rows a downgrade to revision \<open>k\<close> leaves.\<close>

definition rows_down :: "nat \<Rightarrow> stored_rows \<Rightarrow> stored_rows" where
  "rows_down k r =
     (if k = 6 then r\<lparr>rw_reasons := []\<rparr>
      else if k = 8 then \<lparr>rw_events = [],
        rw_reasons = map (\<lambda>x. if x = Some ''password_reset'' then Some ''revoke_all'' else x) (rw_reasons r)\<rparr>
      else r)"

lemma nth_updates:
  "k < 17 \<Longrightarrow> noisy_up ! k =
     (if k = 8 then [AddRule S_auth T_sessions (session_revocation_state REASONS_0009)]
      else if k = 13 then [AddRule S_auth T_security_events (event_type_allowed EVENTS_0014)] else [])"
  by (simp add: noisy_up_def nth_list_update)

lemma event_sets: "EVENTS_0009 \<subseteq> EVENTS_0014" "REASONS_0007 \<subseteq> REASONS_0009"
  by (auto simp: EVENTS_0009_def EVENTS_0014_def REASONS_0007_def REASONS_0009_def)

lemma events_in_mono: "events_in S X r \<Longrightarrow> S \<subseteq> S' \<Longrightarrow> X \<subseteq> X' \<Longrightarrow> events_in S' X' r"
  unfolding events_in_def list_all_iff by fast

lemma reasons_in_mono: "reasons_in S r \<Longrightarrow> S \<subseteq> S' \<Longrightarrow> reasons_in S' r"
  by (auto simp: reasons_in_def list_all_iff split: option.splits)

lemma sets_at_mono:
  "event_types_at k \<subseteq> event_types_at (Suc k)" "reasons_at k \<subseteq> reasons_at (Suc k)"
  "(if k < 14 then {} else set NEW_COLUMNS) \<subseteq> (if Suc k < 14 then {} else set NEW_COLUMNS)"
  using event_sets by (auto simp: event_types_at_def reasons_at_def)

lemma fit_Suc: "rows_fit k r \<Longrightarrow> rows_fit (Suc k) r"
  unfolding rows_fit_def using events_in_mono [OF _ sets_at_mono(1,3)] reasons_in_mono [OF _ sets_at_mono(2)] by auto

lemma rows_up:
  assumes "k < 17" "rows_fit k r"
  shows "rows_all (up k) r = Inr r \<and> rows_fit (Suc k) r"
  using assms fit_Suc [OF assms(2)]
  by (auto simp: rows_path nth_updates need_def rule_holds_simps rows_fit_def reasons_at_def event_types_at_def events_in_split)

lemma nth_noisy_down:
  "k < 17 \<Longrightarrow> noisy_down ! k =
     (if k = 6 then [DropTable S_auth T_sessions]
      else if k = 8 then [ReplaceReason ''password_reset'' ''revoke_all'',
        AddRule S_auth T_sessions (session_revocation_state REASONS_0007), DropTable S_auth T_security_events]
      else if k = 13 then RequireHistory EVENTS_0009 (set NEW_COLUMNS) #
        AddRule S_auth T_security_events (event_type_allowed EVENTS_0009) #
        map (DropColumn S_auth T_security_events) (rev NEW_COLUMNS)
      else [])"
  by (simp add: noisy_down_def nth_list_update)

text \<open>Dropping the extension columns of events that carry none leaves the events as they are.\<close>

lemma plain_events_kept: "events_in S {} r \<Longrightarrow> rows_all (map (DropColumn S_auth T_security_events) cs) r = Inr r"
proof (induction cs)
  case (Cons c cs)
  then have "map (\<lambda>(ty, E). (ty, E - {c})) (rw_events r) = rw_events r"
    by (auto simp: events_in_def list_all_iff intro!: map_idI)
  with Cons show ?case by simp
qed simp

lemma history_required:
  "events_in T (set NEW_COLUMNS) r \<Longrightarrow>
   list_all (\<lambda>(ty, E). ty \<in> EVENTS_0009 \<and> E \<inter> set NEW_COLUMNS = {}) (rw_events r) \<longleftrightarrow> compatible_history r"
  unfolding compatible_history_def events_in_def list_all_iff by fast

lemma replaced_reasons:
  "reasons_in REASONS_0009 r \<Longrightarrow> rw_reasons s = map (\<lambda>x. if x = Some ''password_reset'' then Some ''revoke_all'' else x) (rw_reasons r)
   \<Longrightarrow> reasons_in REASONS_0007 s"
  by (auto simp: reasons_in_def list_all_iff REASONS_0009_def REASONS_0007_def split: option.splits)

lemma rows_down_13:
  assumes "rows_fit 14 r"
  shows "rows_all (down 13) r =
     (if compatible_history r then Inr (rows_down 13 r) else Inl DowngradeRequiresCompatibleHistory)"
proof -
  have "events_in EVENTS_0014 (set NEW_COLUMNS) r" using assms by (simp add: rows_fit_def event_types_at_def)
  note req = history_required [OF this]
  show ?thesis
    by (auto simp: rows_path nth_noisy_down need_def req rule_holds_simps compatible_history_def events_in_split
        rows_down_def plain_events_kept [of EVENTS_0009])
qed

lemma rows_down_ok:
  assumes "k < 17" "rows_fit (Suc k) r" "k = 13 \<longrightarrow> compatible_history r"
  shows "rows_all (down k) r = Inr (rows_down k r)" "rows_fit k (rows_down k r)"
proof -
  consider "k = 6" | "k = 8" | "k = 13" | "k \<notin> {6, 8, 13}" by blast
  then have "rows_all (down k) r = Inr (rows_down k r) \<and> rows_fit k (rows_down k r)"
  proof cases
    case 1
    with assms show ?thesis
      by (simp add: rows_path nth_noisy_down rows_down_def rows_fit_def events_in_def reasons_in_def event_types_at_def)
  next
    case 2
    have "reasons_in REASONS_0009 r" using assms(2) 2 by (simp add: rows_fit_def reasons_at_def)
    from replaced_reasons [OF this] have "reasons_in REASONS_0007 (rows_down 8 r)"
      "reasons_in REASONS_0007
         (r\<lparr>rw_reasons := map (\<lambda>x. if x = Some ''password_reset'' then Some ''revoke_all'' else x) (rw_reasons r)\<rparr>)"
      by (simp_all add: rows_down_def)
    with 2 show ?thesis
      by (simp add: rows_path nth_noisy_down rows_down_def need_def rule_holds_simps rows_fit_def events_in_def
          reasons_at_def)
  next
    case 3
    then show ?thesis using assms rows_down_13 [of r]
      by (auto simp: rows_down_def rows_fit_def compatible_history_def event_types_at_def reasons_at_def)
  next
    case 4
    then have "k < 7 \<longleftrightarrow> Suc k < 7" "k < 9 \<longleftrightarrow> Suc k < 9" "k < 14 \<longleftrightarrow> Suc k < 14" by auto
    with 4 assms show ?thesis
      by (auto simp: rows_path nth_noisy_down rows_down_def rows_fit_def event_types_at_def reasons_at_def)
  qed
  then show "rows_all (down k) r = Inr (rows_down k r)" "rows_fit k (rows_down k r)" by blast+
qed

section \<open>Steps and paths\<close>

definition of_revision :: "nat \<Rightarrow> catalogue \<Rightarrow> bool" where
  "of_revision k c \<longleftrightarrow> schema_at k = Inr c \<or> (k < 4 \<and> recorded_at k = Inr c)"

lemma of_revision_rows: "k \<le> 17 \<Longrightarrow> of_revision k c \<Longrightarrow> rows_at k c"
  using schema_ok [of k] recorded_ok [of k] by (auto simp: of_revision_def)

lemma of_revision_late: "4 \<le> k \<Longrightarrow> of_revision k c \<longleftrightarrow> schema_at k = Inr c"
  by (simp add: of_revision_def)

lemma ddl_up: "k < 17 \<Longrightarrow> of_revision k c \<Longrightarrow> \<exists>c'. ddl_all Sahl_migrator (up k) c = Inr c' \<and> of_revision (Suc k) c'"
proof -
  assume k: "k < 17" and "of_revision k c"
  then consider "schema_at k = Inr c" | "k = 3" "recorded_at k = Inr c" | "k < 3" "recorded_at k = Inr c"
    unfolding of_revision_def by linarith
  then show ?thesis
  proof cases
    case 1
    then show ?thesis using schema_up k by (auto simp: of_revision_def)
  next
    case 2
    then show ?thesis using recorded_joins schema_ok [of 4]
      by (auto simp: joins_chain_def migration_0004 of_revision_def)
  next
    case 3
    then show ?thesis using recorded_ok [of "Suc k"] by (auto simp: of_revision_def)
  qed
qed

lemma ddl_down: "k < 17 \<Longrightarrow> of_revision (Suc k) c' \<Longrightarrow> \<exists>c. ddl_all Sahl_migrator (down k) c' = Inr c \<and> of_revision k c"
proof -
  assume k: "k < 17" and "of_revision (Suc k) c'"
  then consider "schema_at (Suc k) = Inr c'" "k \<noteq> 3" | "k = 3" "schema_at 4 = Inr c'" | "k < 3" "recorded_at (Suc k) = Inr c'"
    unfolding of_revision_def by (metis Suc_less_eq eval_nat_numeral(2,3) semiring_norm(26,27,28))
  then show ?thesis
  proof cases
    case 1
    then show ?thesis using schema_down [of k] schema_ok [of k] k by (auto simp: of_revision_def)
  next
    case 2
    then show ?thesis using recorded_joins by (auto simp: joins_chain_def migration_0004 of_revision_def)
  next
    case 3
    then show ?thesis using recorded_down [of k] recorded_ok [of k] by (auto simp: of_revision_def)
  qed
qed

lemma exec_rows_fail: "ddl_all u xs c = Inr c' \<Longrightarrow> rows_all xs r = Inl e \<Longrightarrow> exec_all u xs (c, r) = Inl e"
  by (induction xs arbitrary: c r) (auto simp: exec_def and_then_eq_Inr and_then_eq_Inl)

lemma path_up:
  assumes "k \<le> m" "m \<le> 17" "of_revision k c" "rows_fit k r"
  shows "\<exists>c'. exec_all Sahl_migrator (upgrade_path k m) (c, r) = Inr (c', r) \<and> of_revision m c' \<and> rows_fit m r"
  using assms(1,2)
proof (induction m rule: dec_induct)
  case base
  then show ?case using assms by (simp add: upgrade_path_def)
next
  case (step n)
  then obtain d where d: "exec_all Sahl_migrator (upgrade_path k n) (c, r) = Inr (d, r)" "of_revision n d" "rows_fit n r"
    by auto
  from ddl_up [OF _ d(2)] step obtain d' where d': "ddl_all Sahl_migrator (up n) d = Inr d'" "of_revision (Suc n) d'" by auto
  from d' rows_up [OF _ d(3)] step have "exec_all Sahl_migrator (up n) (d, r) = Inr (d', r)" "rows_fit (Suc n) r"
    by (auto simp: exec_all_Inr)
  with d(1) d'(2) step.hyps show ?case by (simp add: upgrade_path_def exec_all_append)
qed

lemma path_down:
  assumes "k \<le> m" "m \<le> 17" "of_revision m c" "rows_fit m r"
    and "exec_all Sahl_migrator (downgrade_path m k) (c, r) = Inr (c', r')"
  shows "of_revision k c' \<and> rows_fit k r'"
  using assms
proof (induction m arbitrary: c r rule: dec_induct)
  case base
  then show ?case by (simp add: downgrade_path_def)
next
  case (step n)
  obtain d q where dq: "exec_all Sahl_migrator (down n) (c, r) = Inr (d, q)"
      "exec_all Sahl_migrator (downgrade_path n k) (d, q) = Inr (c', r')"
    using step.prems(4) step.hyps by (auto simp: downgrade_path_def exec_all_append and_then_eq_Inr)
  then have "ddl_all Sahl_migrator (down n) c = Inr d" "rows_all (down n) r = Inr q" by (simp_all add: exec_all_Inr)
  moreover from this step.prems(1,3) have "n = 13 \<longrightarrow> compatible_history r"
    using rows_down_13 [of r] by (auto split: if_splits)
  ultimately have "of_revision n d" "rows_fit n q"
    using ddl_down [OF _ step.prems(2)] rows_down_ok [OF _ step.prems(3)] step.prems(1) by auto
  with step.IH [OF _ _ _ dq(2)] step.prems(1) show ?case by auto
qed

section \<open>Histories\<close>

definition no_rows :: stored_rows where
  "no_rows = \<lparr>rw_events = [], rw_reasons = []\<rparr>"

text \<open>
  What may have happened to a database since it was provisioned: runs of Alembic as the migration role, in either
  direction and over any number of revisions, and whatever rows the current checks let the application write.
\<close>

inductive reached :: "nat \<Rightarrow> catalogue \<Rightarrow> stored_rows \<Rightarrow> bool" where
  fresh: "reached 0 provisioned no_rows"
| upgraded: "reached k c r \<Longrightarrow> k \<le> m \<Longrightarrow> m \<le> 17 \<Longrightarrow>
    run_migrations_online username se Sahl_migrator (upgrade_path k m) (c, r) = (Inr (), c', r') \<Longrightarrow> reached m c' r'"
| downgraded: "reached m c r \<Longrightarrow> k \<le> m \<Longrightarrow>
    run_migrations_online username se Sahl_migrator (downgrade_path m k) (c, r) = (Inr (), c', r') \<Longrightarrow> reached k c' r'"
| written: "reached k c r \<Longrightarrow> rows_allowed c r' \<Longrightarrow> reached k c r'"

lemma run_Inr:
  "run_migrations_online username se u xs s = (Inr (), s') \<longleftrightarrow>
     (\<exists>url. required_migration_database_url se = Inr url) \<and> runtime_role_name username se \<noteq> Some u \<and> exec_all u xs s = Inr s'"
  by (auto simp: run_migrations_online_def assert_not_running_as_the_application_role_def split: sum.splits)

lemma run_gated:
  "required_migration_database_url se = Inr url \<Longrightarrow> runtime_role_name username se \<noteq> Some u \<Longrightarrow>
   run_migrations_online username se u xs s =
     (case exec_all u xs s of Inl e \<Rightarrow> (Inl (StatementFailed e), s) | Inr s' \<Rightarrow> (Inr (), s'))"
  by (auto simp: run_migrations_online_def assert_not_running_as_the_application_role_def split: sum.splits)

lemma reached_revision: "reached k c r \<Longrightarrow> k \<le> 17 \<and> of_revision k c \<and> rows_fit k r"
proof (induction rule: reached.induct)
  case fresh
  then show ?case
    by (simp add: of_revision_def rows_fit_def no_rows_def events_in_def reasons_in_def)
next
  case (upgraded k c r m username se c' r')
  with path_up [of k m c r] show ?case by (auto simp: run_Inr)
next
  case (downgraded m c r k username se c' r')
  with path_down [of k m c r c' r'] show ?case by (auto simp: run_Inr)
next
  case (written k c r r')
  with rows_allowed_fit [OF of_revision_rows] show ?case by blast
qed

section \<open>Owners\<close>

definition owned_by :: "role_name set \<Rightarrow> catalogue \<Rightarrow> bool" where
  "owned_by A c \<longleftrightarrow> (\<forall>x\<in>ct_schemas c. sc_owner x \<in> A) \<and> (\<forall>x\<in>ct_enums c. en_owner x \<in> A) \<and>
     (\<forall>x\<in>ct_tables c. tb_owner x \<in> A) \<and> (\<forall>x\<in>ct_routines c. fn_owner x \<in> A)"

fun gives_to_migrator :: "stmt \<Rightarrow> bool" where
  "gives_to_migrator (RoutineOwner _ r) = (r = Sahl_migrator)"
| "gives_to_migrator (TableOwner _ _ r) = (r = Sahl_migrator)"
| "gives_to_migrator _ = True"

lemma need_Inr: "need b e x = Inr y \<longleftrightarrow> b \<and> x = Inr y"
  by (simp add: need_def)

lemma on_object_Inr: "on_object P ow rf S x = Inr y \<Longrightarrow> x = Inr y"
  by (simp add: on_object_def split: if_splits)

lemma in_schema_Inr: "in_schema u s rf c x = Inr y \<Longrightarrow> x = Inr y"
  unfolding in_schema_def by (rule on_object_Inr)

lemma on_table_Inr: "on_table u s n rf f c = Inr c' \<Longrightarrow> c' = c\<lparr>ct_tables := changing (is_table s n) f (ct_tables c)\<rparr>"
  unfolding on_table_def by (drule on_object_Inr) simp

lemma in_changing: "x \<in> changing P f S \<longleftrightarrow> (\<exists>y\<in>S. x = (if P y then f y else y))"
  by (auto simp: changing_def)

lemma in_without: "x \<in> without P S \<longleftrightarrow> x \<in> S \<and> \<not> P x"
  by (auto simp: without_def)

lemma owned_sets:
  "owned_by A c \<Longrightarrow> (\<And>t. t \<in> T \<Longrightarrow> tb_owner t \<in> A) \<Longrightarrow> owned_by A (c\<lparr>ct_tables := T\<rparr>)"
  "owned_by A c \<Longrightarrow> (\<And>t. t \<in> S \<Longrightarrow> sc_owner t \<in> A) \<Longrightarrow> owned_by A (c\<lparr>ct_schemas := S\<rparr>)"
  "owned_by A c \<Longrightarrow> (\<And>t. t \<in> S \<Longrightarrow> sc_owner t \<in> A) \<Longrightarrow> owned_by A (c\<lparr>ct_schemas := S, ct_defaults := D\<rparr>)"
  "owned_by A c \<Longrightarrow> (\<And>t. t \<in> E \<Longrightarrow> en_owner t \<in> A) \<Longrightarrow> owned_by A (c\<lparr>ct_enums := E\<rparr>)"
  "owned_by A c \<Longrightarrow> (\<And>t. t \<in> F \<Longrightarrow> fn_owner t \<in> A) \<Longrightarrow> owned_by A (c\<lparr>ct_routines := F\<rparr>)"
  "owned_by A c \<Longrightarrow> owned_by A (c\<lparr>ct_defaults := D\<rparr>)"
  by (simp_all add: owned_by_def)

lemma owned_members:
  "owned_by A c \<Longrightarrow> t \<in> ct_tables c \<Longrightarrow> tb_owner t \<in> A" "owned_by A c \<Longrightarrow> x \<in> ct_schemas c \<Longrightarrow> sc_owner x \<in> A"
  "owned_by A c \<Longrightarrow> e \<in> ct_enums c \<Longrightarrow> en_owner e \<in> A" "owned_by A c \<Longrightarrow> f \<in> ct_routines c \<Longrightarrow> fn_owner f \<in> A"
  by (simp_all add: owned_by_def)

lemma table_owned:
  assumes "on_table u s n rf f c = Inr c'" "owned_by A c" "\<And>t. tb_owner t \<in> A \<Longrightarrow> tb_owner (f t) \<in> A"
  shows "owned_by A c'"
  using on_table_Inr [OF assms(1)] assms(2,3) by (auto intro!: owned_sets simp: in_changing owned_members)

lemma acl_owned: "on_acl u target gs f c = Inr c' \<Longrightarrow> owned_by A c \<Longrightarrow> owned_by A c'"
  by (cases target) (auto simp: need_Inr in_changing owned_members intro!: owned_sets dest!: on_object_Inr)

lemma exec_ddl_owned:
  assumes "exec_ddl u x c = Inr c'" "gives_to_migrator x" "owned_by A c" "u \<in> A" "Sahl_migrator \<in> A"
  shows "owned_by A c'"
  using assms
  by (cases x) (auto simp: need_Inr new_table_def new_routine_def replaced_def drop_column_def in_changing in_without owned_members
      split: if_splits dest!: on_object_Inr in_schema_Inr intro!: owned_sets elim: table_owned acl_owned)

lemma ddl_all_owned:
  "ddl_all u xs c = Inr c' \<Longrightarrow> list_all gives_to_migrator xs \<Longrightarrow> owned_by A c \<Longrightarrow> u \<in> A \<Longrightarrow> Sahl_migrator \<in> A \<Longrightarrow> owned_by A c'"
  by (induction xs arbitrary: c) (auto simp: and_then_eq_Inr dest: exec_ddl_owned)

definition chain_statements :: "stmt set" where
  "chain_statements = (\<Union>m\<in>set migrations. set (fst m) \<union> set (snd m))"

lemma chain_gives: "list_all (\<lambda>m. list_all gives_to_migrator (fst m) \<and> list_all gives_to_migrator (snd m)) migrations"
  by code_simp

lemma chain_statements_give: "set xs \<subseteq> chain_statements \<Longrightarrow> list_all gives_to_migrator xs"
  using chain_gives by (fastforce simp: chain_statements_def list_all_iff)

section \<open>Claims\<close>

text \<open>
  C26. A run of \<open>env.py\<close> over any statements of the chain either leaves catalogue and rows exactly as they were, or it
  was configured with a migration URL, was not connected as the role of the runtime URL, and every object there is
  afterwards belongs to an owner there was before, to the connected role or to \<open>sahl_migrator\<close>. A connection as the
  runtime role changes nothing and says so.
\<close>

theorem migration_run_gated:
  assumes "set statements \<subseteq> chain_statements" "run_migrations_online username se user statements (c, r) = (out, c', r')"
  shows "(out \<noteq> Inr () \<longrightarrow> c' = c \<and> r' = r) \<and>
     (runtime_role_name username se = Some user \<longrightarrow> out \<noteq> Inr ()) \<and>
     (runtime_role_name username se = Some user \<and> required_migration_database_url se = Inr url \<longrightarrow> out = Inl MigrationRoleError) \<and>
     (out = Inr () \<longrightarrow> (\<exists>url. required_migration_database_url se = Inr url) \<and>
        (\<forall>A. owned_by A c \<longrightarrow> owned_by (A \<union> {user, Sahl_migrator}) c'))"
proof -
  have "owned_by (A \<union> {user, Sahl_migrator}) c'" if "exec_all user statements (c, r) = Inr (c', r')" "owned_by A c" for A
  proof (rule ddl_all_owned)
    show "ddl_all user statements c = Inr c'" using that(1) by (simp add: exec_all_Inr)
    show "list_all gives_to_migrator statements" using assms(1) by (rule chain_statements_give)
    show "owned_by (A \<union> {user, Sahl_migrator}) c" using that(2) by (auto simp: owned_by_def)
  qed simp_all
  with assms(2) show ?thesis
    by (auto simp: run_migrations_online_def assert_not_running_as_the_application_role_def split: sum.splits if_splits)
qed

text \<open>
  C24. From every state a history can reach, the upgrade to any later revision succeeds, changes no row, and from
  \<open>0004\<close> on ends in the one catalogue of that revision, whatever the history was.
\<close>

theorem upgrades_never_fail:
  assumes "reached k c r" "k \<le> m" "m \<le> 17"
    and "required_migration_database_url se = Inr url" "runtime_role_name username se \<noteq> Some Sahl_migrator"
  shows "\<exists>c'. run_migrations_online username se Sahl_migrator (upgrade_path k m) (c, r) = (Inr (), c', r) \<and>
    reached m c' r \<and> (4 \<le> m \<longrightarrow> schema_at m = Inr c')"
proof -
  obtain c' where c': "exec_all Sahl_migrator (upgrade_path k m) (c, r) = Inr (c', r)" "of_revision m c'"
    using path_up [OF assms(2,3)] reached_revision [OF assms(1)] by blast
  then have "run_migrations_online username se Sahl_migrator (upgrade_path k m) (c, r) = (Inr (), c', r)"
    using run_gated [OF assms(4,5)] by simp
  with reached.upgraded [OF assms(1-3) this] c'(2) show ?thesis by (auto simp: of_revision_late)
qed

text \<open>
  C25. A downgrade gives back exactly the catalogue of the revision before, on every row the checks admitted: only the
  one of \<open>0014\<close> refuses, exactly when an event of a later kind or with extension fields is stored, and then changes
  nothing. The rows keep to the checks of the revision they arrive at.
\<close>

theorem downgrades_restore:
  assumes "k < 17" "k \<noteq> 3" "schema_at k = Inr c" "schema_at (Suc k) = Inr c'" "rows_allowed c' r"
    and "required_migration_database_url se = Inr url" "runtime_role_name username se \<noteq> Some Sahl_migrator"
  shows "run_migrations_online username se Sahl_migrator (down k) (c', r) =
      (if k = 13 \<and> \<not> compatible_history r
       then (Inl (StatementFailed DowngradeRequiresCompatibleHistory), c', r) else (Inr (), c, rows_down k r)) \<and>
     (k = 13 \<and> \<not> compatible_history r \<or> rows_allowed c (rows_down k r))"
proof -
  have fit: "rows_fit (Suc k) r" and at: "rows_at k c"
    using assms schema_ok [of "Suc k"] schema_ok [of k] rows_allowed_fit by force+
  note ddl = schema_down [OF assms(1-4)]
  show ?thesis
  proof (cases "k = 13 \<and> \<not> compatible_history r")
    case True
    with fit rows_down_13 [of r] have "rows_all (down k) r = Inl DowngradeRequiresCompatibleHistory" by simp
    with exec_rows_fail [OF ddl] True show ?thesis by (simp add: run_gated [OF assms(6,7)])
  next
    case False
    then have "k = 13 \<longrightarrow> compatible_history r" by blast
    note rows = rows_down_ok [OF assms(1) fit this]
    then have "exec_all Sahl_migrator (down k) (c', r) = Inr (c, rows_down k r)" using ddl by (simp add: exec_all_Inr)
    with rows(2) rows_allowed_fit [OF at] False show ?thesis by (auto simp: run_gated [OF assms(6,7)])
  qed
qed

text \<open>
  C7. After every history, from \<open>0004\<close> on: all schemas, tables and routines are the migration role's and nobody else
  may create one; \<open>PUBLIC\<close> holds nothing on a table or routine; what the runtime may touch in a table with a tenant
  column is behind forced row security with the tenant policy; a routine that runs with its owner's rights pins its
  search path. At the head the rights of the runtime and of the maintenance role are exactly the listed ones.
\<close>

theorem runtime_boundary:
  assumes "reached k c r" "4 \<le> k"
  shows "(\<forall>x\<in>ct_schemas c. sc_owner x = Sahl_migrator \<and> (\<forall>g. (g, CreateP) \<notin> sc_acl x)) \<and>
     (\<forall>t\<in>ct_tables c. tb_owner t = Sahl_migrator \<and> (\<forall>p. (PUBLIC, p) \<notin> tb_acl t) \<and>
        (has_column C_tenant_id t \<and> (\<exists>p. (Sahl_app, p) \<in> tb_acl t) \<longrightarrow> isolated t)) \<and>
     (\<forall>f\<in>ct_routines c. fn_owner f = Sahl_migrator \<and> (\<forall>p. (PUBLIC, p) \<notin> fn_acl f) \<and> (fn_definer f \<longrightarrow> fn_pinned f)) \<and>
     (k = 17 \<longrightarrow> table_rights Sahl_app c = runtime_tables \<and> routine_rights Sahl_app c = set runtime_routines \<and>
        table_rights Sahl_security_maintenance c = {} \<and> routine_rights Sahl_security_maintenance c = {PRUNE_SIGNATURE})"
proof -
  have at: "schema_at k = Inr c" "k \<le> 17"
    using reached_revision [OF assms(1)] assms(2) by (simp_all add: of_revision_late)
  then have "boundary c" using schema_ok [of k] assms(2) by auto
  moreover have "head_ok c" if "k = 17" using at that schema_head by simp
  ultimately show ?thesis
    unfolding boundary_def unprivileged_def existing_def head_ok_def by (intro conjI ballI impI) fastforce+
qed

text \<open>
  C27. At the head, after every history, the tables are the ones the models declare: the same columns with their types,
  defaults and nullability, the same keys, references, checks and indexes, and the same enumerations. The only
  difference is the name of one reference, which migration \<open>0008\<close> gives by hand. Every reference is indexed.
\<close>

theorem models_match_schema:
  assumes "reached 17 c r"
  shows "reflected orm_name ` ct_tables c = orm_tables \<and> reflected_enums c = orm_enums \<and>
     (\<forall>t\<in>ct_tables c. \<forall>x\<in>tb_rules t. reference_indexed t (cn_rule x))"
proof -
  have "schema_at 17 = Inr c" using reached_revision [OF assms] by (simp add: of_revision_late)
  from schema_head [OF this] show ?thesis by (simp add: head_ok_def)
qed

section \<open>Witnesses\<close>

definition configured :: settings where
  "configured = default_settings\<lparr>se_migration_database_url := Some (lit ''postgresql+psycopg://sahl_migrator@127.0.0.1/sahl_ci'')\<rparr>"

definition app_user :: "pystr \<Rightarrow> role_name option" where
  "app_user url = Some Sahl_app"

lemma configured_ok:
  "\<exists>url. required_migration_database_url configured = Inr url" "runtime_role_name app_user configured = Some Sahl_app"
  by (simp_all add: required_migration_database_url_def configured_def default_settings_def runtime_role_name_def app_user_def)

lemma head_reached: "\<exists>c. reached 17 c no_rows"
proof -
  obtain c' where c': "exec_all Sahl_migrator (upgrade_path 0 17) (provisioned, no_rows) = Inr (c', no_rows)"
    using path_up [of 0 17 provisioned no_rows] reached_revision [OF reached.fresh] by auto
  then have run: "run_migrations_online app_user configured Sahl_migrator (upgrade_path 0 17) (provisioned, no_rows) =
      (Inr (), c', no_rows)"
    using configured_ok by (auto simp: run_Inr)
  show ?thesis by (rule exI, rule reached.upgraded [OF reached.fresh _ _ run]) simp_all
qed

theorem migration_run_gated_witness:
  "run_migrations_online app_user configured Sahl_app upgrade_0002 (provisioned, no_rows) =
     (Inl MigrationRoleError, provisioned, no_rows)"
proof -
  obtain out c' r' where run: "run_migrations_online app_user configured Sahl_app upgrade_0002 (provisioned, no_rows) = (out, c', r')"
    by (metis prod_cases3)
  have sub: "set upgrade_0002 \<subseteq> chain_statements" by (auto simp: chain_statements_def migrations_def)
  from migration_run_gated [OF sub run] configured_ok run show ?thesis by auto
qed

theorem upgrades_never_fail_witness:
  "\<exists>c'. run_migrations_online app_user configured Sahl_migrator (upgrade_path 0 17) (provisioned, no_rows) = (Inr (), c', no_rows) \<and>
     schema_at 17 = Inr c'"
  using configured_ok upgrades_never_fail [OF reached.fresh, of 17 configured _ app_user] by auto

definition later_event :: stored_rows where
  "later_event = \<lparr>rw_events = [(LOGIN_SUCCESS, {}), (ROLE_CREATED, {C_role_id})], rw_reasons = [None]\<rparr>"

theorem downgrades_restore_witness:
  "\<exists>c. run_migrations_online app_user configured Sahl_migrator (down 13) (c, later_event) =
     (Inl (StatementFailed DowngradeRequiresCompatibleHistory), c, later_event)"
proof -
  obtain c c' where c: "schema_at 13 = Inr c" "schema_at (Suc 13) = Inr c'" "rows_at (Suc 13) c'"
    using schema_ok [of 13] schema_ok [of "Suc 13"] by auto
  have "rows_fit (Suc 13) later_event" "\<not> compatible_history later_event"
    by (simp_all add: rows_fit_def later_event_def events_in_def reasons_in_def event_types_at_def EVENTS_0014_def
        compatible_history_def NEW_COLUMNS_def)
  with rows_allowed_fit [OF c(3)] configured_ok downgrades_restore [of 13 c c' later_event configured _ app_user] c
  show ?thesis by auto
qed

theorem runtime_boundary_witness:
  "\<exists>c. reached 17 c no_rows \<and> table_rights Sahl_app c = runtime_tables \<and> routine_rights Sahl_app c = set runtime_routines"
proof -
  obtain c where "reached 17 c no_rows" using head_reached by blast
  with runtime_boundary [OF this] show ?thesis by auto
qed

theorem models_match_schema_witness: "\<exists>c. reached 17 c no_rows \<and> reflected orm_name ` ct_tables c = orm_tables"
proof -
  obtain c where "reached 17 c no_rows" using head_reached by blast
  with models_match_schema [OF this] show ?thesis by auto
qed

end
