(* ===== verification/Spec2Isabelle.thy ===== *)
theory Spec2Isabelle
  imports AuthHttpClaims RoleAdminClaims UiSettingsClaims RetentionClaims DiagnosticsClaims DependencyGateRuns SecurityCommandClaims SchemaClaims Passwords Controls Tenants MemoryStore
begin

text \<open>
  Verification library of the Sahl Developer Platform: its FastAPI backend (\<open>apps/api/app\<close>), its migrations with the
  tables, privileges and functions they install (\<open>migrations\<close>) and the Python gates of its continuous integration (\<open>.github/ci\<close>).

  \<^bold>\<open>The program.\<close> A request enters through two middlewares (identifiers, cache headers), is proven by cookies (a session
  bearer, a pre-auth state, CSRF tokens), and is answered by a route. A route opens a transaction as the application's
  database role, resolves the bearer to a session row, the session to a user, a membership and a tenant, asks for a
  permission of a live role, and then reads or writes under the row policies of that tenant. Whatever changes security
  state writes one event to an append only trail in the same transaction; a rejected request commits only its denial
  event. A maintenance command prunes the trail. Before any of this is deployed, three gates have to end with code 0:
  dependencies without advisories, sources and artifacts without secrets, and test commands whose output is clean.

  \<^bold>\<open>How the model is built.\<close> Python's exceptions are the left summand of a sum (\<open>exn\<close> in \<open>Prelude\<close>, public errors in
  \<open>AppErrors\<close>). A transaction is a function from the database state to an exception or a value with the new state, so
  that an exception leaves the state as it was (\<open>action\<close>, \<open>seq\<close> in \<open>Prelude\<close>); where an operation consists of several
  transactions, what other requests commit between two of them is an argument (\<open>pseq\<close> in \<open>PasswordAuth\<close>, the
  interference of \<open>Retention\<close>), and the theorems hold for every such argument. The gates are functions on a world of
  files, directories and processes whose programs, kernel and library calls are records of functions, arbitrary in the
  theorems. Text is a list of code points (\<open>PyText\<close>), UUIDs are numbers below \<open>2 ^ 128\<close>, times are microseconds,
  versions are 32 bit database integers with their overflow, SHA-256 and HMAC are computed on 32 bit words (\<open>Sha256\<close>).

  \<^bold>\<open>Theories and sources.\<close>
  \<^item> Foundations: \<open>Prelude\<close> (sums, actions, tables, proof hints), \<open>PyText\<close> (the string methods the code uses),
    \<open>Regex\<close> (the patterns compiled with \<open>re\<close>, by derivatives, with their language), \<open>Sha256\<close>.
  \<^item> Errors and settings: \<open>AppErrors\<close> (\<open>core/errors.py\<close>), \<open>Settings\<close> (\<open>core/config.py\<close>).
  \<^item> Identity: \<open>Permissions\<close> (\<open>authorization/permissions.py\<close>, \<open>models/authorization.py\<close>), \<open>Identity\<close>
    (\<open>models/tenant.py\<close>, \<open>models/identity.py\<close>, \<open>tenancy/*\<close>): slug and e-mail contracts, the three lifecycles as
    transition tables, the locale \<open>lifecycle\<close> for all three, tenant contexts and their resolvers.
  \<^item> State: \<open>Database\<close> (the tables, the connection context, the read functions of migrations 0008, 0011, 0013, 0015).
  \<^item> Sessions: \<open>Sessions\<close> (\<open>auth/sessions.py\<close> over a record of store operations), \<open>SessionLaws\<close> (the contract
    \<open>session_laws\<close> of a store and what the service guarantees under it), \<open>MemoryStore\<close> and \<open>PostgresStore\<close>
    (\<open>auth/postgres.py\<close>; both stores interpret the contract), \<open>SessionClaims\<close>.
  \<^item> Guards: \<open>HttpGuards\<close> (\<open>auth/http.py\<close>, \<open>api/auth_dependencies.py\<close>), \<open>Tenants\<close> (\<open>auth/tenants.py\<close>, locale
    \<open>trusted_tenants\<close>), \<open>Authorization\<close> (\<open>authorization/service.py\<close>, its dependencies and membership views).
  \<^item> Audit: \<open>AuditContracts\<close> (\<open>audit/contracts.py\<close>, \<open>audit/schema.py\<close>, \<open>models/auth_security.py\<close>), \<open>AuditSql\<close>
    (the guard and the writer functions of migrations 0014 to 0016), \<open>RequestAudit\<close> (\<open>audit/request_events.py\<close>,
    \<open>db/tenant_transaction.py\<close>, \<open>db/authenticated_access.py\<close>).
  \<^item> Passwords: \<open>Passwords\<close> (\<open>security/passwords.py\<close>), \<open>Controls\<close> (\<open>auth/controls.py\<close> over migration 0009),
    \<open>PasswordAuth\<close> (\<open>auth/password_authentication.py\<close>).
  \<^item> Endpoints: \<open>AuthHttp\<close>, \<open>AuthHttpClaims\<close> (\<open>db/auth_http.py\<close>, \<open>api/routes/auth_sessions.py\<close>), \<open>RoleAdmin\<close>,
    \<open>RoleAdminClaims\<close> (\<open>services/role_administration.py\<close> and its routes), \<open>UiSettings\<close>, \<open>UiSettingsClaims\<close>
    (\<open>ui_settings/*\<close>, \<open>db/ui_settings_repository.py\<close> and the routes; locale \<open>ui_layer\<close> for the two tables).
  \<^item> Operation: \<open>Retention\<close>, \<open>RetentionClaims\<close> (\<open>maintenance/security_audit_retention.py\<close>, migration 0016),
    \<open>Diagnostics\<close>, \<open>DiagnosticsClaims\<close> (\<open>core/context.py\<close>, \<open>core/middleware.py\<close>, \<open>core/logging.py\<close>,
    \<open>core/status.py\<close>, the health probes).
  \<^item> Schema: \<open>SchemaCatalogue\<close> and \<open>SchemaStatements\<close> (a catalogue of PostgreSQL and the statements on it),
    \<open>SchemaMigrations\<close> (\<open>migrations/versions\<close> 0001 to 0017, up and down), \<open>SchemaHistory\<close> (\<open>migrations/env.py\<close>, the
    catalogue of a revision), \<open>OrmMetadata\<close> (the tables of \<open>models/*\<close> under \<open>db/base.py\<close>'s naming convention),
    \<open>SchemaHead\<close> (one evaluation of the chain) and \<open>SchemaClaims\<close> (every history of runs and traffic).
  \<^item> Gates: \<open>CiPrelude\<close> (JSON values, files, weakest preconditions \<open>wp\<close> of a gate's steps), \<open>DependencyGate\<close> with
    \<open>DependencyGateClaims\<close> and \<open>DependencyGateRuns\<close> (\<open>dependency-audit.py\<close>), \<open>GitleaksGate\<close>, \<open>GitleaksClaims\<close>
    (\<open>gitleaks-gate.py\<close>), \<open>SecurityCommand\<close>, \<open>SecurityCommandClaims\<close> (\<open>security-command.py\<close> over a log of system
    calls; the locales \<open>calls\<close> and its extensions carry an invariant of the log through every operation).

  \<^bold>\<open>What is shown.\<close> Every store keeps its tables well formed and the session service is exact over any store with the
  laws: what resolves, what is evicted, what is dead for good over every later history. The guards and the routes are
  sound: who gets in was proven by live rows, in one transaction with the change and its event. A password change or a
  reset goes through exactly for a live proof or a usable token, and the whole state after it is stated: versions one higher,
  sessions revoked, tokens spent (\<open>credential_rotated\<close>, \<open>tokens_spent\<close>). Role administration
  refines an abstract view of one tenant; the settings of a user are a versioned cell; the audit constructor, the table
  checks and the lists frozen in the migrations agree. Retention drains and never removes a recent event. The gates
  end with code 0 only when what they stand for was really checked, and end in bounded time with every handle closed; the
  log of system calls before a thread is resumed is stated call by call (\<open>owned_before\<close>).
  Whatever upgrades, downgrades and rows came before, a revision from 0004 on is one catalogue, the head can be reached
  without touching a row, the runtime role keeps to its listed rights behind forced row security, and the tables are
  the models'. Each of these was evaluated once over the chain (\<open>chain_evaluated\<close>) and carried to histories by induction.

  \<^bold>\<open>Bounds and fuel.\<close> Loops over finite data are structural. The JSON decoder takes fuel and \<open>json_fuel\<close> of its text is
  always enough; the scan for counters in an output is bounded by its length (\<open>find_counts_enough\<close>); the batches of
  retention are the command's own maximum; the waits of the command gate add up to its time limit and nine seconds, which is
  what \<open>execute_command_bounded\<close> states for arbitrary replies. Limits of the code (five sessions, eight hours, quotas, sizes
  of files and output) are the source's constants.

  \<^bold>\<open>Parameters.\<close> Argon2 (\<open>hasher\<close>), Unicode NFC and case folding, the random generator, clocks, the Redis and SQL
  drivers of the health probes, the scanners, npm, the kernel. Hypotheses about them are the documented ones, for
  instance that Argon2 verifies what it hashed, and every property with such a hypothesis has a witness.

  \<^bold>\<open>Not modelled.\<close> FastAPI, Starlette, SQLAlchemy and pydantic themselves: routing tables, dependency injection, parsing of
  request bodies and of the environment; the factory \<open>main.py\<close> and \<open>api/router.py\<close> only configure them.
  The statements are the ones the code sends, but not their planner, locks or isolation anomalies beyond the
  interleavings named above. In the migrations the text of a routine and of a longer check is a name; what the texts do
  is modelled with the components that rely on them. Not modelled either: Alembic's own table and its offline mode,
  privileges on types, the benchmark, the fixture that prepares the maintenance role, the PowerShell and shell scripts,
  the workflows and the browser client.
\<close>

end
